(* ===== verification/Tce_Prelude.thy ===== *)
theory Tce_Prelude
  imports Main "HOL-Library.AList" "HOL-Library.Char_ord" "HOL-Library.List_Lexorder"
    "HOL-Library.Product_Lexorder" "HOL-Library.Multiset"
begin

text \<open>
  Shared vocabulary of the development: Python strings, insertion-ordered
  dictionaries, result values for code that raises, deduplication and sorting, and the
  contracts (locales) that several components instantiate.

  Strings are lists of code points below 256 (Latin-1), so \<open>strip\<close>, \<open>lower\<close>
  and \<open>split\<close> are Python's functions on that range.  Python integers are \<open>int\<close>.
  A dictionary is an association list with distinct keys; \<^const>\<open>AList.update\<close> keeps
  an existing key's position and appends a new key, which is what a Python \<open>dict\<close> does.
\<close>

section \<open>Collections of lemmas\<close>

named_theorems tce_codec "decoder (encoder x) = x equations, used by the codec proofs"
named_theorems tce_frame "which parts of a state an operation leaves alone"

section \<open>Results\<close>

type_synonym ('e, 'a) result = "'e + 'a"

abbreviation Err :: "'e \<Rightarrow> 'e + 'a" where "Err \<equiv> Inl"
abbreviation Ok :: "'a \<Rightarrow> 'e + 'a" where "Ok \<equiv> Inr"

definition is_ok :: "'e + 'a \<Rightarrow> bool" where
  "is_ok r = (case r of Inl _ \<Rightarrow> False | Inr _ \<Rightarrow> True)"

lemma is_ok_simps [simp]: "is_ok (Ok x)" "\<not> is_ok (Err e)"
  by (simp_all add: is_ok_def)

definition res_bind :: "'e + 'a \<Rightarrow> ('a \<Rightarrow> 'e + 'b) \<Rightarrow> 'e + 'b" where
  "res_bind r f = (case r of Inl e \<Rightarrow> Inl e | Inr x \<Rightarrow> f x)"

lemma res_bind_simps [simp]:
  "res_bind (Ok x) f = f x" "res_bind (Err e) f = Err e"
  by (simp_all add: res_bind_def)

lemma res_bind_Ok_iff: "res_bind r f = Ok y \<longleftrightarrow> (\<exists>x. r = Ok x \<and> f x = Ok y)"
  by (cases r) simp_all

lemma res_bind_Err_iff:
  "res_bind r f = Err e \<longleftrightarrow> r = Err e \<or> (\<exists>x. r = Ok x \<and> f x = Err e)"
  by (cases r) auto

text \<open>\<open>if cond: raise e\<close> as the first statement of the rest of the code.\<close>

definition guard :: "bool \<Rightarrow> 'e \<Rightarrow> 'e + unit" where
  "guard ok e = (if ok then Ok () else Err e)"

lemma guard_simps [simp]:
  "guard True e = Ok ()" "guard False e = Err e"
  "(guard ok e = Ok u) = ok" "(guard ok e = Err e') = (\<not> ok \<and> e' = e)"
  by (auto simp: guard_def)

text \<open>\<open>except E as exc: raise F(...) from exc\<close>.\<close>

definition map_error :: "('e \<Rightarrow> 'f) \<Rightarrow> 'e + 'a \<Rightarrow> 'f + 'a" where
  "map_error g r = (case r of Inl e \<Rightarrow> Inl (g e) | Inr x \<Rightarrow> Inr x)"

lemma map_error_Ok_iff: "map_error g r = Ok x \<longleftrightarrow> r = Ok x"
  by (cases r) (simp_all add: map_error_def)

lemma map_error_Ok [simp]: "map_error g (Ok x) = Ok x"
  by (simp add: map_error_def)

section \<open>Strings\<close>

type_synonym pystr = string

definition code :: "char \<Rightarrow> nat" where
  "code c = of_char c"

definition py_isspace :: "char \<Rightarrow> bool" where
  "py_isspace c = (let n = code c in
     (9 \<le> n \<and> n \<le> 13) \<or> (28 \<le> n \<and> n \<le> 32) \<or> n = 133 \<or> n = 160)"

definition py_lower_char :: "char \<Rightarrow> char" where
  "py_lower_char c = (let n = code c in
     if (65 \<le> n \<and> n \<le> 90) \<or> (192 \<le> n \<and> n \<le> 222 \<and> n \<noteq> 215)
     then char_of (n + 32) else c)"

definition py_lower :: "pystr \<Rightarrow> pystr" where
  "py_lower = map py_lower_char"

definition py_lstrip :: "pystr \<Rightarrow> pystr" where
  "py_lstrip = dropWhile py_isspace"

definition py_rstrip :: "pystr \<Rightarrow> pystr" where
  "py_rstrip s = rev (dropWhile py_isspace (rev s))"

definition py_strip :: "pystr \<Rightarrow> pystr" where
  "py_strip s = py_rstrip (py_lstrip s)"

definition blank :: "pystr \<Rightarrow> bool" where
  "blank s = list_all py_isspace s"

lemma py_rstrip_Nil_iff: "py_rstrip s = [] \<longleftrightarrow> blank s"
  by (simp add: py_rstrip_def blank_def list_all_iff)

lemma blank_dropWhile: "blank (dropWhile py_isspace s) \<longleftrightarrow> blank s"
  by (induction s) (auto simp: blank_def)

lemma py_strip_Nil_iff: "py_strip s = [] \<longleftrightarrow> blank s"
  by (simp add: py_strip_def py_rstrip_Nil_iff py_lstrip_def blank_dropWhile)

lemma blank_Nil [simp]: "blank []"
  by (simp add: blank_def)

lemma py_strip_Nil [simp]: "py_strip [] = []"
  by (simp add: py_strip_Nil_iff)

lemma py_lower_Nil [simp]: "py_lower [] = []"
  by (simp add: py_lower_def)

text \<open>\<open>s.split()\<close>: the maximal runs of non-space characters.\<close>

fun split_ws_aux :: "pystr \<Rightarrow> pystr \<Rightarrow> pystr list" where
  "split_ws_aux acc [] = (if acc = [] then [] else [rev acc])"
| "split_ws_aux acc (c # cs) =
     (if py_isspace c then (if acc = [] then [] else [rev acc]) @ split_ws_aux [] cs
      else split_ws_aux (c # acc) cs)"

definition py_split_ws :: "pystr \<Rightarrow> pystr list" where
  "py_split_ws s = split_ws_aux [] s"

text \<open>\<open>s.split(sep)\<close> for a one-character separator; never empty.\<close>

fun split_on_aux :: "char \<Rightarrow> pystr \<Rightarrow> pystr \<Rightarrow> pystr list" where
  "split_on_aux sep acc [] = [rev acc]"
| "split_on_aux sep acc (c # cs) =
     (if c = sep then rev acc # split_on_aux sep [] cs else split_on_aux sep (c # acc) cs)"

definition py_split_on :: "char \<Rightarrow> pystr \<Rightarrow> pystr list" where
  "py_split_on sep s = split_on_aux sep [] s"

fun py_join :: "pystr \<Rightarrow> pystr list \<Rightarrow> pystr" where
  "py_join sep [] = []"
| "py_join sep [x] = x"
| "py_join sep (x # y # r) = x @ sep @ py_join sep (y # r)"

definition starts_with :: "pystr \<Rightarrow> pystr \<Rightarrow> bool" where
  "starts_with p s = (take (length p) s = p)"

lemma starts_with_iff: "starts_with p s \<longleftrightarrow> (\<exists>t. s = p @ t)"
  by (metis append_eq_conv_conj append_take_drop_id starts_with_def)

text \<open>\<open>sub in s\<close>.\<close>

fun py_contains :: "pystr \<Rightarrow> pystr \<Rightarrow> bool" where
  "py_contains sub [] = (sub = [])"
| "py_contains sub (c # cs) = (starts_with sub (c # cs) \<or> py_contains sub cs)"

subsection \<open>Numerals\<close>

definition digit_char :: "nat \<Rightarrow> char" where
  "digit_char d = char_of (48 + d)"

definition digit_val :: "char \<Rightarrow> nat option" where
  "digit_val c = (let n = code c in if 48 \<le> n \<and> n \<le> 57 then Some (n - 48) else None)"

lemma digit_val_digit_char [simp]: "d < 10 \<Longrightarrow> digit_val (digit_char d) = Some d"
  by (simp add: digit_val_def digit_char_def code_def)

fun nat_digits :: "nat \<Rightarrow> pystr" where
  "nat_digits n = (if n < 10 then [digit_char n] else nat_digits (n div 10) @ [digit_char (n mod 10)])"

declare nat_digits.simps [simp del]

text \<open>\<open>str(i)\<close>.\<close>

definition str_int :: "int \<Rightarrow> pystr" where
  "str_int i = (if i < 0 then ''-'' @ nat_digits (nat (- i)) else nat_digits (nat i))"

text \<open>
  \<open>int(s.strip())\<close>: surrounding whitespace, one sign, decimal digits with single
  underscores between them; \<open>None\<close> is the \<open>ValueError\<close>.  (The interpreter's
  limit of 4300 digits is not modelled.)
\<close>

fun digits_us :: "nat \<Rightarrow> pystr \<Rightarrow> nat option" where
  "digits_us acc [] = Some acc"
| "digits_us acc (c # cs) =
     (if c = CHR ''_'' then
        (case cs of [] \<Rightarrow> None
         | d # ds \<Rightarrow> (case digit_val d of None \<Rightarrow> None | Some v \<Rightarrow> digits_us (10 * acc + v) ds))
      else (case digit_val c of None \<Rightarrow> None | Some v \<Rightarrow> digits_us (10 * acc + v) cs))"

definition parse_nat :: "pystr \<Rightarrow> nat option" where
  "parse_nat s = (case s of [] \<Rightarrow> None
     | c # cs \<Rightarrow> (case digit_val c of None \<Rightarrow> None | Some v \<Rightarrow> digits_us v cs))"

definition py_int :: "pystr \<Rightarrow> int option" where
  "py_int s0 = (let s = py_strip s0 in
     case s of [] \<Rightarrow> None
     | c # cs \<Rightarrow>
        if c = CHR ''-'' then map_option (\<lambda>n. - int n) (parse_nat cs)
        else if c = CHR ''+'' then map_option int (parse_nat cs)
        else map_option int (parse_nat s))"

lemma digits_us_digit [simp]:
  "d < 10 \<Longrightarrow> digits_us acc (digit_char d # cs) = digits_us (10 * acc + d) cs"
proof -
  assume d: "d < 10"
  then have "code (digit_char d) = 48 + d" by (simp add: digit_char_def code_def)
  with d have "digit_char d \<noteq> CHR ''_''" by (auto simp: code_def)
  with d show ?thesis by simp
qed

lemma digits_us_nat_digits:
  "digits_us acc (nat_digits n @ rest) = digits_us (acc * 10 ^ length (nat_digits n) + n) rest"
proof (induction n arbitrary: acc rest rule: nat_digits.induct)
  case (1 n)
  show ?case
  proof (cases "n < 10")
    case True
    then show ?thesis
      using digits_us_digit [of n acc rest]
      by (simp add: nat_digits.simps [of n] mult.commute del: digits_us.simps digits_us_digit)
  next
    case False
    have "n = n div 10 * 10 + n mod 10" by simp
    with 1 [OF False] False show ?thesis
      by (simp add: nat_digits.simps [of n] algebra_simps del: digits_us.simps)
  qed
qed

lemma nat_digits_nonempty [simp]: "nat_digits n \<noteq> []"
  by (simp add: nat_digits.simps [of n])

lemma nat_digits_chars: "c \<in> set (nat_digits n) \<Longrightarrow> \<exists>d<10. c = digit_char d"
proof (induction n rule: nat_digits.induct)
  case (1 n)
  show ?case
  proof (cases "n < 10")
    case True
    with 1 show ?thesis by (auto simp: nat_digits.simps [of n])
  next
    case False
    then have "nat_digits n = nat_digits (n div 10) @ [digit_char (n mod 10)]"
      by (simp add: nat_digits.simps [of n])
    with 1(2) have "c \<in> set (nat_digits (n div 10)) \<or> c = digit_char (n mod 10)" by auto
    with 1(1) [OF False] show ?thesis
      by (metis mod_less_divisor zero_less_numeral)
  qed
qed

lemma nat_digits_inj: "nat_digits m = nat_digits n \<Longrightarrow> m = n"
  using digits_us_nat_digits [of 0 m "[]"] digits_us_nat_digits [of 0 n "[]"] by simp

lemma digit_char_code: "d < 10 \<Longrightarrow> code (digit_char d) = 48 + d"
  by (simp add: digit_char_def code_def)

lemma str_int_chars: "c \<in> set (str_int i) \<Longrightarrow> c = CHR ''-'' \<or> (48 \<le> code c \<and> code c \<le> 57)"
  by (auto simp: str_int_def digit_char_code dest!: nat_digits_chars split: if_splits)

lemma str_int_inj: "str_int i = str_int j \<longleftrightarrow> i = j"
proof
  assume eq: "str_int i = str_int j"
  have no: "nat_digits n \<noteq> CHR ''-'' # xs" for n xs
  proof
    assume "nat_digits n = CHR ''-'' # xs"
    then obtain d where d: "d < 10" "CHR ''-'' = digit_char d" using nat_digits_chars [of "CHR ''-''" n] by auto
    from arg_cong [OF d(2), of code] d(1) show False by (simp add: digit_char_code) (simp add: code_def)
  qed
  show "i = j"
    using eq no no [symmetric] by (auto simp: str_int_def dest!: nat_digits_inj split: if_splits)
qed simp

lemma split_at_sep:
  "c \<notin> set xs \<Longrightarrow> c \<notin> set xs' \<Longrightarrow> xs @ c # ys = xs' @ c # ys' \<longleftrightarrow> xs = xs' \<and> ys = ys'"
  by (auto simp: append_eq_append_conv2 append_eq_Cons_conv Cons_eq_append_conv)

text \<open>\<open>xs[:n]\<close>: a negative bound counts from the end.\<close>

definition py_take :: "int \<Rightarrow> 'a list \<Rightarrow> 'a list" where
  "py_take n xs = (if 0 \<le> n then take (nat n) xs else take (nat (int (length xs) + n)) xs)"

lemma length_py_take: "int (length (py_take n xs)) \<le> max 0 n \<or> n < 0"
  by (auto simp: py_take_def)

lemma set_py_take: "set (py_take n xs) \<subseteq> set xs"
  by (simp add: py_take_def set_take_subset)

lemma py_take_all: "int (length xs) \<le> n \<Longrightarrow> py_take n xs = xs"
  by (simp add: py_take_def)

section \<open>Dictionaries\<close>

type_synonym ('k, 'v) dict = "('k \<times> 'v) list"

abbreviation dict_get :: "('k, 'v) dict \<Rightarrow> 'k \<Rightarrow> 'v option" where
  "dict_get d k \<equiv> map_of d k"

abbreviation dict_set :: "'k \<Rightarrow> 'v \<Rightarrow> ('k, 'v) dict \<Rightarrow> ('k, 'v) dict" where
  "dict_set k v d \<equiv> AList.update k v d"

abbreviation dict_pop :: "'k \<Rightarrow> ('k, 'v) dict \<Rightarrow> ('k, 'v) dict" where
  "dict_pop k d \<equiv> AList.delete k d"

text \<open>\<open>tuple(d[k] for k in sorted(d))\<close>.\<close>

definition sorted_values :: "('k::linorder, 'v) dict \<Rightarrow> 'v list" where
  "sorted_values d = map snd (sort_key fst d)"

lemma set_sorted_values: "set (sorted_values d) = snd ` set d"
  by (simp add: sorted_values_def)

lemma sorted_values_Nil [simp]: "sorted_values [] = []"
  by (simp add: sorted_values_def)

lemma sorted_values_eq_Nil [simp]: "sorted_values d = [] \<longleftrightarrow> d = []"
  by (metis image_is_empty set_empty2 set_sorted_values)

text \<open>\<open>dict.setdefault(k, v)\<close>.\<close>

definition dict_setdefault :: "'k \<Rightarrow> 'v \<Rightarrow> ('k, 'v) dict \<Rightarrow> ('k, 'v) dict" where
  "dict_setdefault k v d = (case map_of d k of None \<Rightarrow> d @ [(k, v)] | Some _ \<Rightarrow> d)"

text \<open>The dictionary built by \<open>{key(x): x for x in xs}\<close>: a later entry wins.\<close>

definition dict_by :: "('a \<Rightarrow> 'k) \<Rightarrow> 'a list \<Rightarrow> ('k, 'a) dict" where
  "dict_by key xs = fold (\<lambda>x d. dict_set (key x) x d) xs []"

lemma distinct_dict_by: "distinct (map fst (dict_by key xs))"
proof -
  have "distinct (map fst d) \<Longrightarrow> distinct (map fst (fold (\<lambda>x. dict_set (key x) x) xs d))" for d
    by (induction xs arbitrary: d) (simp_all add: distinct_update)
  from this [of "[]"] show ?thesis by (simp add: dict_by_def)
qed

lemma dict_set_new: "k \<notin> fst ` set d \<Longrightarrow> dict_set k v d = d @ [(k, v)]"
  by (induction d) auto

text \<open>A dictionary comprehension over distinct keys lists the entries in order.\<close>

lemma fold_dict_set_distinct:
  "distinct (map f xs) \<Longrightarrow> f ` set xs \<inter> fst ` set d = {} \<Longrightarrow>
    fold (\<lambda>x. dict_set (f x) (g x)) xs d = d @ map (\<lambda>x. (f x, g x)) xs"
proof (induction xs arbitrary: d)
  case (Cons x xs)
  then have "dict_set (f x) (g x) d = d @ [(f x, g x)]" by (intro dict_set_new) auto
  moreover have "f ` set xs \<inter> fst ` set (d @ [(f x, g x)]) = {}" using Cons.prems by auto
  ultimately show ?case using Cons by simp
qed simp

lemma dict_by_distinct: "distinct (map key xs) \<Longrightarrow> dict_by key xs = map (\<lambda>x. (key x, x)) xs"
  using fold_dict_set_distinct [of key xs "[]" "\<lambda>x. x"] by (simp add: dict_by_def)

lemma sorted_values_single [simp]: "sorted_values [(k, v)] = [v]"
  by (simp add: sorted_values_def)

section \<open>Sorting and removing duplicates\<close>

text \<open>\<open>sorted(set(xs))\<close>.\<close>

definition sorted_set :: "'a::linorder list \<Rightarrow> 'a list" where
  "sorted_set xs = sort (remdups xs)"

lemma sorted_set_props [simp]:
  "set (sorted_set xs) = set xs" "sorted (sorted_set xs)" "distinct (sorted_set xs)"
  by (simp_all add: sorted_set_def)

lemma sorted_set_cong: "set xs = set ys \<Longrightarrow> sorted_set xs = sorted_set ys"
  by (metis sorted_distinct_set_unique sorted_set_props)

text \<open>Keep the first element of every key, in order: the \<open>seen\<close>-set loop.\<close>

fun dedup_by :: "('a \<Rightarrow> 'k) \<Rightarrow> 'k list \<Rightarrow> 'a list \<Rightarrow> 'a list" where
  "dedup_by f seen [] = []"
| "dedup_by f seen (x # xs) =
     (if f x \<in> set seen then dedup_by f seen xs else x # dedup_by f (f x # seen) xs)"

lemma dedup_by_distinct: "distinct (map f xs) \<Longrightarrow> set seen \<inter> f ` set xs = {} \<Longrightarrow> dedup_by f seen xs = xs"
  by (induction xs arbitrary: seen) auto

lemma dedup_by_set: "set (dedup_by f seen xs) \<subseteq> set xs"
  by (induction xs arbitrary: seen) (auto split: if_splits)

lemma dedup_by_keys: "f ` set (dedup_by f seen xs) = f ` set xs - set seen"
  by (induction xs arbitrary: seen) auto

lemma distinct_dedup_by: "distinct (map f (dedup_by f seen xs))"
proof (induction xs arbitrary: seen)
  case (Cons x xs)
  have "f x \<notin> f ` set (dedup_by f (f x # seen) xs)"
    by (simp add: dedup_by_keys)
  with Cons.IH show ?case by simp
qed simp

text \<open>
  Sorting and removing duplicates forgets the order and the multiplicity of the input, when the
  sort key tells the elements apart.
\<close>

lemma dedup_by_ignore:
  "f ` set ids \<subseteq> set seen \<Longrightarrow> dedup_by f seen (dedup_by (\<lambda>x. x) ids xs) = dedup_by f seen xs"
proof (induction xs arbitrary: ids seen)
  case (Cons x xs)
  from Cons.IH [of ids seen] Cons.IH [of "x # ids" seen] Cons.IH [of "x # ids" "f x # seen"] Cons.prems
  show ?case by auto
qed simp

lemma sorted_dedup_by: "sorted (map g xs) \<Longrightarrow> sorted (map g (dedup_by f seen xs))"
  using dedup_by_set [of f _ xs]
  by (induction xs arbitrary: seen) (auto dest!: subsetD [OF dedup_by_set])

lemma sort_dedup_cong:
  assumes "set xs = set ys" "inj_on g (set xs)"
  shows "dedup_by f [] (sort_key g xs) = dedup_by f [] (sort_key g ys)"
proof -
  let ?d = "dedup_by (\<lambda>x. x) []"
  have d: "distinct (?d zs)" "set (?d zs) = set zs" for zs :: "'a list"
    using distinct_dedup_by [of "\<lambda>x. x" "[]" zs] dedup_by_keys [of "\<lambda>x. x" "[]" zs] by simp_all
  have "map g (?d (sort_key g xs)) = map g (?d (sort_key g ys))"
    by (rule sorted_distinct_set_unique)
      (use assms in \<open>auto simp: sorted_dedup_by distinct_map d intro: inj_on_subset\<close>)
  with assms have "?d (sort_key g xs) = ?d (sort_key g ys)"
    by (intro map_inj_on [of g "?d (sort_key g xs)" "?d (sort_key g ys)"]) (auto simp: d)
  then show ?thesis using dedup_by_ignore [of f "[]" "[]"] by (metis empty_subsetI image_empty list.set(1))
qed

lemma dedup_by_seen:
  assumes "\<And>x. x \<in> set xs \<Longrightarrow> f x \<in> set seen \<longleftrightarrow> f x \<in> set seen'"
  shows "dedup_by f seen xs = dedup_by f seen' xs"
  using assms
proof (induction xs arbitrary: seen seen')
  case (Cons x xs)
  have "dedup_by f seen xs = dedup_by f seen' xs"
    by (rule Cons.IH) (simp add: Cons.prems)
  moreover have "dedup_by f (f x # seen) xs = dedup_by f (f x # seen') xs"
    by (rule Cons.IH) (simp add: Cons.prems)
  ultimately show ?case using Cons.prems [of x] by simp
qed simp

lemma dedup_by_append:
  assumes "f ` set xs \<inter> f ` set ys = {}"
  shows "dedup_by f seen (xs @ ys) = dedup_by f seen xs @ dedup_by f seen ys"
  using assms
proof (induction xs arbitrary: seen)
  case (Cons x xs)
  have x: "f x \<notin> f ` set ys" and dis: "f ` set xs \<inter> f ` set ys = {}" using Cons.prems by auto
  have ys: "dedup_by f (f x # seen) ys = dedup_by f seen ys"
    by (rule dedup_by_seen) (use x in \<open>force simp: image_iff\<close>)
  show ?case using Cons.IH [OF dis] by (simp add: ys)
qed simp

lemma sort_key_append:
  assumes "\<forall>x \<in> set xs. \<forall>y \<in> set ys. g x < g y"
  shows "sort_key g (xs @ ys) = sort_key g xs @ sort_key g ys"
proof (rule properties_for_sort_key)
  show "mset (sort_key g xs @ sort_key g ys) = mset (xs @ ys)" by simp
  fix z assume "z \<in> set (sort_key g xs @ sort_key g ys)"
  show "filter (\<lambda>x. g z = g x) (sort_key g xs @ sort_key g ys) = filter (\<lambda>x. g z = g x) (xs @ ys)"
  proof -
    have eq: "(\<lambda>x. g z = g x) = (\<lambda>x. g x = g z)" by auto
    show ?thesis by (simp only: eq filter_append sort_key_stable)
  qed
next
  show "sorted (map g (sort_key g xs @ sort_key g ys))"
    using assms by (auto simp: sorted_append less_imp_le)
qed

text \<open>Rows found by a key.\<close>

lemma find_snoc: "find P (xs @ [x]) = (case find P xs of None \<Rightarrow> if P x then Some x else None | Some y \<Rightarrow> Some y)"
  by (induction xs) simp_all

lemma distinct_on: "distinct (map f xs) \<Longrightarrow> x \<in> set xs \<Longrightarrow> y \<in> set xs \<Longrightarrow> f x = f y \<Longrightarrow> x = y"
  by (auto simp: distinct_map inj_on_def)

lemma filter_unique:
  "distinct (map f xs) \<Longrightarrow> x \<in> set xs \<Longrightarrow> filter (\<lambda>y. f y = f x) xs = [x]"
  by (induction xs) (auto simp: filter_empty_conv image_iff)

lemma find_in: "find P xs = Some x \<Longrightarrow> x \<in> set xs \<and> P x"
  by (induction xs) (auto split: if_split_asm)

lemma find_unique:
  "distinct (map f xs) \<Longrightarrow> x \<in> set xs \<Longrightarrow> find (\<lambda>y. f y = f x) xs = Some x"
  by (induction xs) auto

lemma dict_get_unique:
  "distinct (map k xs) \<Longrightarrow> x \<in> set xs \<Longrightarrow> dict_get (map (\<lambda>x. (k x, v x)) xs) (k x) = Some (v x)"
  by (induction xs) (auto simp: image_iff)

text \<open>A dictionary whose entries are filed under their own key.\<close>

definition dict_keyed :: "('v \<Rightarrow> 'k) \<Rightarrow> ('k, 'v) dict \<Rightarrow> bool" where
  "dict_keyed f d = (distinct (map fst d) \<and> list_all (\<lambda>(k, v). f v = k) d)"

lemma dict_keyed_Nil [simp]: "dict_keyed f []"
  by (simp add: dict_keyed_def)

lemma set_dict_set: "set (dict_set k v d) \<subseteq> insert (k, v) (set d)"
  by (induction d) auto

lemma dict_keyed_set: "dict_keyed f d \<Longrightarrow> f v = k \<Longrightarrow> dict_keyed f (dict_set k v d)"
  by (auto simp: dict_keyed_def distinct_update list_all_iff dest!: set_dict_set [THEN subsetD])

lemma dict_keyed_pop: "dict_keyed f d \<Longrightarrow> dict_keyed f (dict_pop k d)"
  by (auto simp: dict_keyed_def distinct_map_filter list_all_iff AList.delete_eq)

lemma dict_keyed_get: "dict_keyed f d \<Longrightarrow> dict_get d k = Some v \<Longrightarrow> f v = k"
  by (auto simp: dict_keyed_def list_all_iff dest!: map_of_SomeD)

lemma dict_keyed_by: "dict_keyed key (dict_by key xs)"
proof -
  have "dict_keyed key d \<Longrightarrow> dict_keyed key (fold (\<lambda>x. dict_set (key x) x) xs d)" for d
    by (induction xs arbitrary: d) (simp_all add: dict_keyed_set)
  then show ?thesis by (simp add: dict_by_def)
qed

lemma dict_keyed_values:
  assumes "dict_keyed f d"
  shows "sorted (map f (sorted_values d))" "distinct (map f (sorted_values d))"
    "v \<in> set (sorted_values d) \<longleftrightarrow> dict_get d (f v) = Some v"
proof -
  have eq: "map f (sorted_values d) = map fst (sort_key fst d)"
    using assms by (auto simp: sorted_values_def dict_keyed_def list_all_iff)
  then show "sorted (map f (sorted_values d))" by simp
  have "distinct (map fst (sort_key fst d))"
    using assms by (metis dict_keyed_def mset_map mset_sort mset_eq_imp_distinct_iff)
  with eq show "distinct (map f (sorted_values d))" by simp
  show "v \<in> set (sorted_values d) \<longleftrightarrow> dict_get d (f v) = Some v"
    using assms by (force simp: set_sorted_values dict_keyed_def list_all_iff)
qed

section \<open>Contracts shared by several components\<close>

text \<open>
  A log folded by a step function: an invariant kept by every step holds after the fold,
  and a measure no step decreases is not decreased by the fold.
\<close>

locale fold_invariant =
  fixes step :: "'e \<Rightarrow> 's \<Rightarrow> 's" and inv :: "'s \<Rightarrow> bool"
  assumes step_inv: "inv s \<Longrightarrow> inv (step e s)"
begin

lemma fold_inv: "inv s \<Longrightarrow> inv (fold step es s)"
  by (induction es arbitrary: s) (simp_all add: step_inv)

end

locale fold_monotone =
  fixes step :: "'e \<Rightarrow> 's \<Rightarrow> 's" and m :: "'s \<Rightarrow> 'k::order"
  assumes step_mono: "m s \<le> m (step e s)"
begin

lemma fold_mono: "m s \<le> m (fold step es s)"
proof (induction es arbitrary: s)
  case (Cons e es)
  have "m s \<le> m (step e s)" by (rule step_mono)
  also have "\<dots> \<le> m (fold step es (step e s))" by (rule Cons.IH)
  finally show ?case by simp
qed simp

lemma fold_prefix_mono: "m (fold step es s) \<le> m (fold step (es @ es') s)"
  by (simp add: fold_mono)

end

text \<open>
  A codec: an encoder and a total decoder that recovers every well-formed value.
\<close>

locale codec =
  fixes enc :: "'a \<Rightarrow> 'j" and dec :: "'j \<Rightarrow> 'a" and wf :: "'a \<Rightarrow> bool"
  assumes dec_enc: "wf x \<Longrightarrow> dec (enc x) = x"
begin

lemma enc_inj: "wf x \<Longrightarrow> wf y \<Longrightarrow> enc x = enc y \<Longrightarrow> x = y"
  by (metis dec_enc)

lemma dec_enc_list: "list_all wf xs \<Longrightarrow> map dec (map enc xs) = xs"
  by (induction xs) (simp_all add: dec_enc)

end

text \<open>
  A lifecycle: states, a legality test for moves, and states no legal move leaves.
\<close>

locale lifecycle =
  fixes legal :: "'s \<Rightarrow> 's \<Rightarrow> bool" and terminal :: "'s \<Rightarrow> bool"
  assumes terminal_stuck: "terminal s \<Longrightarrow> \<not> legal s t"
begin

lemma terminal_absorbing: "legal\<^sup>*\<^sup>* s t \<Longrightarrow> terminal s \<Longrightarrow> t = s"
  by (induction rule: converse_rtranclp_induct) (auto dest: terminal_stuck)

end

text \<open>
  A step relation with an invariant: what every step keeps holds in every reachable state.
\<close>

locale invariant_step =
  fixes step :: "'s \<Rightarrow> 's \<Rightarrow> bool" and inv :: "'s \<Rightarrow> bool"
  assumes step_keeps: "step s t \<Longrightarrow> inv s \<Longrightarrow> inv t"
begin

lemma reach_keeps: "step\<^sup>*\<^sup>* s t \<Longrightarrow> inv s \<Longrightarrow> inv t"
  by (induction rule: rtranclp_induct) (auto intro: step_keeps)

text \<open>A relation between the two ends of a step that composes holds between the ends of a run.\<close>

lemma reach_related:
  assumes "step\<^sup>*\<^sup>* s t" "inv s" "\<And>x. R x x" "\<And>x y z. R x y \<Longrightarrow> R y z \<Longrightarrow> R x z"
    and "\<And>x y. inv x \<Longrightarrow> step x y \<Longrightarrow> R x y"
  shows "R s t"
  using assms(1,2)
proof (induction rule: rtranclp_induct)
  case (step y z)
  then show ?case using reach_keeps assms(4,5) by metis
qed (rule assms(3))

end

end
