(* ===== verification/Tce_Hash.thy ===== *)
theory Tce_Hash
  imports Tce_Prelude "HOL-Library.Word"
begin

text \<open>
  The digests the source takes from Python's standard library, as executable functions on
  byte lists: SHA-256 (\<open>hashlib.sha256(..).hexdigest()\<close>), SHA-1, and \<open>uuid.uuid5\<close>,
  which is SHA-1 of a namespace and a name with the version and variant bits set.  The
  definitions compute (they reproduce the published test vectors); no proof unfolds them and
  no theorem assumes that they are free of collisions.
\<close>

unbundle bit_operations_syntax

section \<open>Bytes\<close>

type_synonym w32 = "32 word"

text \<open>\<open>s.encode('utf-8')\<close> for code points below 256.\<close>

definition utf8 :: "pystr \<Rightarrow> int list" where
  "utf8 s = concat (map (\<lambda>c. let n = int (code c) in
     if n < 128 then [n] else [192 + n div 64, 128 + n mod 64]) s)"

definition hex_digit :: "int \<Rightarrow> char" where
  "hex_digit d = (if d < 10 then char_of (48 + nat d) else char_of (87 + nat d))"

definition hex_byte :: "int \<Rightarrow> pystr" where
  "hex_byte b = [hex_digit (b div 16), hex_digit (b mod 16)]"

definition word_bytes :: "w32 \<Rightarrow> int list" where
  "word_bytes w = (let n = uint w in
     [n div 16777216, (n div 65536) mod 256, (n div 256) mod 256, n mod 256])"

definition hex_words :: "w32 list \<Rightarrow> pystr" where
  "hex_words ws = concat (map hex_byte (concat (map word_bytes ws)))"

definition be_bytes8 :: "int \<Rightarrow> int list" where
  "be_bytes8 n = map (\<lambda>d. (n div d) mod 256)
     [72057594037927936, 281474976710656, 1099511627776, 4294967296, 16777216, 65536, 256, 1]"

definition sha_pad :: "int list \<Rightarrow> int list" where
  "sha_pad bs = bs @ [128] @ replicate (nat ((119 - int (length bs)) mod 64)) 0
     @ be_bytes8 (8 * int (length bs))"

fun words_be :: "int list \<Rightarrow> w32 list" where
  "words_be (a # b # c # d # r) = word_of_int (((a * 256 + b) * 256 + c) * 256 + d) # words_be r"
| "words_be _ = []"

definition rotr32 :: "nat \<Rightarrow> w32 \<Rightarrow> w32" where
  "rotr32 n x = drop_bit n x OR push_bit (32 - n) x"

definition rotl32 :: "nat \<Rightarrow> w32 \<Rightarrow> w32" where
  "rotl32 n x = push_bit n x OR drop_bit (32 - n) x"

section \<open>SHA-256\<close>

definition K256 :: "w32 list" where
  "K256 = [
  1116352408,1899447441,3049323471,3921009573,961987163,1508970993,2453635748,2870763221,
  3624381080,310598401,607225278,1426881987,1925078388,2162078206,2614888103,3248222580,
  3835390401,4022224774,264347078,604807628,770255983,1249150122,1555081692,1996064986,
  2554220882,2821834349,2952996808,3210313671,3336571891,3584528711,113926993,338241895,
  666307205,773529912,1294757372,1396182291,1695183700,1986661051,2177026350,2456956037,
  2730485921,2820302411,3259730800,3345764771,3516065817,3600352804,4094571909,275423344,
  430227734,506948616,659060556,883997877,958139571,1322822218,1537002063,1747873779,
  1955562222,2024104815,2227730452,2361852424,2428436474,2756734187,3204031479,3329325298]"

text \<open>The message schedule over a sliding window of sixteen words, newest last.\<close>

fun sched256 :: "nat \<Rightarrow> w32 list \<Rightarrow> w32 list" where
  "sched256 0 w = []"
| "sched256 (Suc n) w = hd w # sched256 n (tl w @
     [let w15 = w ! 1; w2 = w ! 14;
          s0 = rotr32 7 w15 XOR rotr32 18 w15 XOR drop_bit 3 w15;
          s1 = rotr32 17 w2 XOR rotr32 19 w2 XOR drop_bit 10 w2
      in hd w + s0 + w ! 9 + s1])"

fun round256 :: "w32 list \<Rightarrow> (w32 \<times> w32) list \<Rightarrow> w32 list" where
  "round256 [a,b,c,d,e,f,g,h] ((k,w) # r) =
     (let S1 = rotr32 6 e XOR rotr32 11 e XOR rotr32 25 e;
          ch = (e AND f) XOR (NOT e AND g);
          t1 = h + S1 + ch + k + w;
          S0 = rotr32 2 a XOR rotr32 13 a XOR rotr32 22 a;
          mj = (a AND b) XOR (a AND c) XOR (b AND c);
          t2 = S0 + mj
      in round256 [t1 + t2,a,b,c,d + t1,e,f,g] r)"
| "round256 st _ = st"

definition block256 :: "w32 list \<Rightarrow> w32 list \<Rightarrow> w32 list" where
  "block256 st blk = map2 (+) st (round256 st (zip K256 (sched256 64 blk)))"

function blocks256 :: "w32 list \<Rightarrow> w32 list \<Rightarrow> w32 list" where
  "blocks256 st ws = (if length ws < 16 then st else blocks256 (block256 st (take 16 ws)) (drop 16 ws))"
  by pat_completeness auto
termination by (relation "measure (\<lambda>(st, ws). length ws)") auto

definition H256 :: "w32 list" where
  "H256 = [1779033703,3144134277,1013904242,2773480762,1359893119,2600822924,528734635,1541459225]"

definition sha256_words :: "int list \<Rightarrow> w32 list" where
  "sha256_words bs = blocks256 H256 (words_be (sha_pad bs))"

text \<open>\<open>hashlib.sha256(s.encode("utf-8")).hexdigest()\<close>.\<close>

definition sha256_hex :: "pystr \<Rightarrow> pystr" where
  "sha256_hex s = hex_words (sha256_words (utf8 s))"

text \<open>A digest is 64 characters, whatever is hashed.\<close>

lemma list8: "length st = 8 \<Longrightarrow> \<exists>a b c d e f g h. st = [a, b, c, d, e, f, g, h]"
  by (simp add: numeral_eq_Suc length_Suc_conv) blast

lemma round256_step: "\<exists>a' e'. round256 [a, b, c, d, e, f, g, h] ((k, w) # r) = round256 [a', a, b, c, e', e, f, g] r"
  unfolding round256.simps(1) Let_def by (intro exI) (rule refl)

lemma round256_length: "length st = 8 \<Longrightarrow> length (round256 st kw) = 8"
proof (induction kw arbitrary: st)
  case (Cons p kw)
  obtain a b c d e f g h where "st = [a, b, c, d, e, f, g, h]" using list8 Cons.prems by blast
  moreover obtain a' e' where "round256 [a, b, c, d, e, f, g, h] (p # kw) = round256 [a', a, b, c, e', e, f, g] kw"
    using round256_step by (cases p) blast
  ultimately show ?case using Cons.IH by simp
qed simp

lemma blocks256_length: "length st = 8 \<Longrightarrow> length (blocks256 st ws) = 8"
proof (induction st ws rule: blocks256.induct)
  case (1 st ws)
  then show ?case by (subst blocks256.simps) (simp add: block256_def round256_length)
qed

lemma hex_words_length: "length (hex_words ws) = 8 * length ws"
  by (induction ws) (simp_all add: hex_words_def word_bytes_def hex_byte_def Let_def)

lemma sha256_hex_length [simp]: "length (sha256_hex s) = 64"
  by (simp add: sha256_hex_def hex_words_length sha256_words_def blocks256_length H256_def
    del: blocks256.simps)

lemma sha256_hex_nonempty [simp]: "sha256_hex s \<noteq> []"
  using sha256_hex_length [of s] by (metis length_0_conv zero_neq_numeral)

section \<open>SHA-1 and version-5 UUIDs\<close>

fun sched1 :: "nat \<Rightarrow> w32 list \<Rightarrow> w32 list" where
  "sched1 0 w = []"
| "sched1 (Suc n) w =
     hd w # sched1 n (tl w @ [rotl32 1 (w ! 13 XOR w ! 8 XOR w ! 2 XOR hd w)])"

definition f_sha1 :: "nat \<Rightarrow> w32 \<Rightarrow> w32 \<Rightarrow> w32 \<Rightarrow> w32" where
  "f_sha1 t b c d =
     (if t < 20 then (b AND c) OR (NOT b AND d)
      else if t < 40 then b XOR c XOR d
      else if t < 60 then (b AND c) OR (b AND d) OR (c AND d)
      else b XOR c XOR d)"

definition k_sha1 :: "nat \<Rightarrow> w32" where
  "k_sha1 t =
     (if t < 20 then 1518500249 else if t < 40 then 1859775393
      else if t < 60 then 2400959708 else 3395469782)"

fun round_sha1 :: "nat \<Rightarrow> w32 list \<Rightarrow> w32 list \<Rightarrow> w32 list" where
  "round_sha1 t [a, b, c, d, e] (w # ws) =
     round_sha1 (Suc t) [rotl32 5 a + f_sha1 t b c d + e + k_sha1 t + w, a, rotl32 30 b, c, d] ws"
| "round_sha1 t st _ = st"

definition block_sha1 :: "w32 list \<Rightarrow> w32 list \<Rightarrow> w32 list" where
  "block_sha1 st blk = map2 (+) st (round_sha1 0 st (sched1 80 blk))"

function blocks_sha1 :: "w32 list \<Rightarrow> w32 list \<Rightarrow> w32 list" where
  "blocks_sha1 st ws =
     (if length ws < 16 then st else blocks_sha1 (block_sha1 st (take 16 ws)) (drop 16 ws))"
  by pat_completeness auto
termination by (relation "measure (\<lambda>(st, ws). length ws)") auto

declare blocks256.simps [simp del] blocks_sha1.simps [simp del]

definition sha1_bytes :: "int list \<Rightarrow> int list" where
  "sha1_bytes bs = concat (map word_bytes
     (blocks_sha1 [1732584193, 4023233417, 2562383102, 271733878, 3285377520]
        (words_be (sha_pad bs))))"

text \<open>\<open>str(uuid.uuid5(namespace, name))\<close>, the namespace given as its sixteen bytes.\<close>

definition uuid5_str :: "int list \<Rightarrow> pystr \<Rightarrow> pystr" where
  "uuid5_str ns name =
     (let h = take 16 (sha1_bytes (ns @ utf8 name));
          h1 = h[6 := (h ! 6) mod 16 + 80];
          h2 = h1[8 := (h1 ! 8) mod 64 + 128];
          x = concat (map hex_byte h2)
      in take 8 x @ ''-'' @ take 4 (drop 8 x) @ ''-'' @ take 4 (drop 12 x) @ ''-''
           @ take 4 (drop 16 x) @ ''-'' @ drop 20 x)"

end
