(* ===== verification/Tce_Time.thy ===== *)
theory Tce_Time
  imports Tce_Prelude
begin

text \<open>
  Python's \<open>datetime\<close>: an instant in microseconds since 1970-01-01, naive or with a UTC
  offset; the proleptic Gregorian calendar; \<open>isoformat\<close> and \<open>fromisoformat\<close> (the
  extended calendar forms \<open>YYYY-MM-DD[?HH[:MM[:SS[.f+]]][Z|+HH:MM[:SS]]]\<close>; the basic and
  week-date forms, which no writer of the repository emits, are read as invalid).  The
  main lemma is the round trip \<open>fromisoformat (isoformat d) = d\<close> for years 1 to 9999.
\<close>

section \<open>The calendar\<close>

definition is_leap :: "int \<Rightarrow> bool" where
  "is_leap y = (y mod 4 = 0 \<and> (y mod 100 \<noteq> 0 \<or> y mod 400 = 0))"

definition dim :: "int \<Rightarrow> int \<Rightarrow> int" where
  "dim y m = (if m = 2 then (if is_leap y then 29 else 28)
              else if m = 4 \<or> m = 6 \<or> m = 9 \<or> m = 11 then 30 else 31)"

definition days_before_year :: "int \<Rightarrow> int" where
  "days_before_year y = (let k = y - 1 in 365 * k + k div 4 - k div 100 + k div 400)"

definition months :: "int list" where
  "months = [1,2,3,4,5,6,7,8,9,10,11,12]"

definition days_before_month :: "int \<Rightarrow> int \<Rightarrow> int" where
  "days_before_month y m = sum_list (map (dim y) (takeWhile (\<lambda>i. i \<noteq> m) months))"

definition ymd2ord :: "int \<Rightarrow> int \<Rightarrow> int \<Rightarrow> int" where
  "ymd2ord y m d = days_before_year y + days_before_month y m + d"

definition year_of :: "int \<Rightarrow> int" where
  "year_of n = (let y = ((n - 1) * 400) div 146097 + 1 in
     if n \<le> days_before_year y then y - 1
     else if days_before_year (y + 1) < n then y + 1 else y)"

fun month_day :: "int \<Rightarrow> int list \<Rightarrow> int \<Rightarrow> int \<times> int" where
  "month_day y (m # ms) d = (if d \<le> dim y m \<or> ms = [] then (m, d) else month_day y ms (d - dim y m))"
| "month_day y [] d = (12, d)"

definition ord2ymd :: "int \<Rightarrow> int \<times> int \<times> int" where
  "ord2ymd n = (let y = year_of n in
     case month_day y months (n - days_before_year y) of (m, d) \<Rightarrow> (y, m, d))"

definition valid_date :: "int \<Rightarrow> int \<Rightarrow> int \<Rightarrow> bool" where
  "valid_date y m d = (1 \<le> y \<and> y \<le> 9999 \<and> 1 \<le> m \<and> m \<le> 12 \<and> 1 \<le> d \<and> d \<le> dim y m)"

lemma div_bounds:
  fixes k c :: int
  assumes "0 < c"
  shows "c * (k div c) \<le> k" "k < c * (k div c) + c"
  using assms pos_mod_sign [of c k] pos_mod_bound [of c k] mult_div_mod_eq [of c k] by linarith+

lemma div_pred:
  fixes y c :: int
  assumes "0 < c"
  shows "y div c = (y - 1) div c + (if y mod c = 0 then 1 else 0)"
proof (cases "y mod c = 0")
  case True
  then have "y = c * (y div c)" using mult_div_mod_eq [of c y] by simp
  then have "y - 1 = c * (y div c - 1) + (c - 1)" by (simp add: algebra_simps)
  then have "(y - 1) div c = y div c - 1"
    using assms by (intro int_div_pos_eq [where r = "c - 1"]) simp_all
  with True show ?thesis by simp
next
  case False
  then have "1 \<le> y mod c" using pos_mod_sign [OF assms, of y] by linarith
  moreover have "y - 1 = c * (y div c) + (y mod c - 1)" using mult_div_mod_eq [of c y] by linarith
  ultimately have "(y - 1) div c = y div c"
    using pos_mod_bound [OF assms, of y] by (intro int_div_pos_eq [where r = "y mod c - 1"]) simp_all
  with False show ?thesis by simp
qed

lemma year_bounds:
  "146097 * (y - 1) \<le> 400 * days_before_year y + 1000"
  "400 * days_before_year y \<le> 146097 * (y - 1) + 1000"
proof -
  define k a b c where "k = y - 1" and "a = k div 4" and "b = k div 100" and "c = k div 400"
  have *: "4 * a \<le> k" "k < 4 * a + 4" "100 * b \<le> k" "k < 100 * b + 100"
    "400 * c \<le> k" "k < 400 * c + 400"
    unfolding a_def b_def c_def
    using div_bounds [of 4 k] div_bounds [of 100 k] div_bounds [of 400 k] by simp_all
  have "days_before_year y = 365 * k + a - b + c"
    by (simp add: days_before_year_def Let_def a_def b_def c_def k_def)
  with * have "146097 * k \<le> 400 * days_before_year y + 1000"
    "400 * days_before_year y \<le> 146097 * k + 1000"
    by linarith+
  then show "146097 * (y - 1) \<le> 400 * days_before_year y + 1000"
    "400 * days_before_year y \<le> 146097 * (y - 1) + 1000"
    by (simp_all only: k_def)
qed

lemma year_step:
  fixes A B :: int
  assumes "A = 365 * y + p - q + r" "B = 365 * (y - 1) + p' - q' + r'"
    and "p = p' + i" "q = q' + j" "r = r' + k"
  shows "A = B + 365 + i - j + k"
  using assms by simp

lemma days_before_year_Suc:
  "days_before_year (y + 1) = days_before_year y + (if is_leap y then 366 else 365)"
proof -
  have "(100::int) dvd 400" "(4::int) dvd 100"
    by (rule dvdI [of _ _ 4], simp, rule dvdI [of _ _ 25], simp)
  then have "y mod 100 = (y mod 400) mod 100" "y mod 4 = (y mod 100) mod 4"
    by (simp_all only: mod_mod_cancel)
  then have *: "y mod 400 = 0 \<Longrightarrow> y mod 100 = 0" "y mod 100 = 0 \<Longrightarrow> y mod 4 = 0"
    by (metis mod_0)+
  have "days_before_year (y + 1) = days_before_year y + 365
      + (if y mod 4 = 0 then 1 else 0) - (if y mod 100 = 0 then 1 else 0)
      + (if y mod 400 = 0 then 1 else 0)"
  proof -
    have "days_before_year (y + 1) = 365 * y + y div 4 - y div 100 + y div 400"
      by (simp add: days_before_year_def)
    moreover have "days_before_year y
        = 365 * (y - 1) + (y - 1) div 4 - (y - 1) div 100 + (y - 1) div 400"
      by (simp only: days_before_year_def Let_def)
    moreover have "y div 4 = (y - 1) div 4 + (if y mod 4 = 0 then 1 else 0)"
      "y div 100 = (y - 1) div 100 + (if y mod 100 = 0 then 1 else 0)"
      "y div 400 = (y - 1) div 400 + (if y mod 400 = 0 then 1 else 0)"
      by (rule div_pred, simp)+
    ultimately show ?thesis by (rule year_step)
  qed
  with * show ?thesis by (cases "y mod 4 = 0"; cases "y mod 100 = 0"; cases "y mod 400 = 0") (simp_all only: is_leap_def, simp_all)
qed

lemma days_before_year_mono: "y \<le> z \<Longrightarrow> days_before_year y \<le> days_before_year z"
  by (induction z rule: int_ge_induct) (auto simp: days_before_year_Suc split: if_splits)

lemma year_of_spec: "days_before_year (year_of n) < n" "n \<le> days_before_year (year_of n + 1)"
proof -
  define e where "e = ((n - 1) * 400) div 146097 + 1"
  have lo: "146097 * (e - 1) \<le> (n - 1) * 400" and hi: "(n - 1) * 400 < 146097 * e"
    using div_bounds [of 146097 "(n - 1) * 400"] by (simp_all add: e_def)
  have "400 * days_before_year (e - 1) < 400 * n"
    using year_bounds(2) [of "e - 1"] lo by simp
  moreover have "400 * n \<le> 400 * days_before_year (e + 2)"
    using year_bounds(1) [of "e + 2"] hi by simp
  moreover have "year_of n = (if n \<le> days_before_year e then e - 1
      else if days_before_year (e + 1) < n then e + 1 else e)"
    by (simp only: year_of_def e_def Let_def)
  ultimately show "days_before_year (year_of n) < n" "n \<le> days_before_year (year_of n + 1)"
    by (auto simp: add.commute add.assoc)
qed

lemma month_day_loop:
  assumes "ms \<noteq> []" "distinct ms" "1 \<le> r" "r \<le> sum_list (map (dim y) ms)"
    and "month_day y ms r = (m, d)"
  shows "m \<in> set ms \<and> 1 \<le> d \<and> d \<le> dim y m
    \<and> sum_list (map (dim y) (takeWhile (\<lambda>i. i \<noteq> m) ms)) + d = r"
  using assms
proof (induction ms arbitrary: r)
  case (Cons k ms)
  show ?case
  proof (cases "r \<le> dim y k \<or> ms = []")
    case True
    with Cons.prems show ?thesis by (auto split: if_splits)
  next
    case False
    with Cons.prems Cons.IH [of "r - dim y k"] show ?thesis by auto
  qed
qed simp

lemma sum_months: "sum_list (map (dim y) months) = (if is_leap y then 366 else 365)"
  by (simp add: months_def dim_def)

lemma month_day_spec:
  assumes "1 \<le> r" "r \<le> (if is_leap y then 366 else 365)" and "month_day y months r = (m, d)"
  shows "1 \<le> m \<and> m \<le> 12 \<and> 1 \<le> d \<and> d \<le> dim y m \<and> days_before_month y m + d = r"
proof -
  have "months \<noteq> []" "distinct months" by (simp_all add: months_def)
  from month_day_loop [OF this assms(1) _ assms(3)] assms(2)
  have "m \<in> set months \<and> 1 \<le> d \<and> d \<le> dim y m
    \<and> sum_list (map (dim y) (takeWhile (\<lambda>i. i \<noteq> m) months)) + d = r"
    by (simp add: sum_months)
  moreover have "m \<in> set months \<Longrightarrow> 1 \<le> m \<and> m \<le> 12"
    by (auto simp: months_def)
  ultimately show ?thesis by (simp add: days_before_month_def)
qed

lemma ord2ymd_spec:
  assumes "ord2ymd n = (y, m, d)"
  shows "1 \<le> m \<and> m \<le> 12 \<and> 1 \<le> d \<and> d \<le> dim y m \<and> ymd2ord y m d = n \<and> y = year_of n"
proof -
  let ?r = "n - days_before_year y"
  have y: "y = year_of n"
    and md: "month_day y months ?r = (m, d)"
    using assms by (auto simp: ord2ymd_def Let_def split: prod.splits)
  have "1 \<le> ?r" "?r \<le> (if is_leap y then 366 else 365)"
    using year_of_spec [of n] by (auto simp: y days_before_year_Suc)
  from month_day_spec [OF this md] show ?thesis
    by (simp add: y ymd2ord_def)
qed

lemma year_of_range:
  assumes "1 \<le> n" "n \<le> 3652059"
  shows "1 \<le> year_of n \<and> year_of n \<le> 9999"
proof -
  have "days_before_year 1 = 0" "days_before_year 10000 = 3652059"
    by (simp_all add: days_before_year_def)
  moreover have "year_of n < 1 \<Longrightarrow> days_before_year (year_of n + 1) \<le> days_before_year 1"
    "9999 < year_of n \<Longrightarrow> days_before_year 10000 \<le> days_before_year (year_of n)"
    by (auto intro: days_before_year_mono)
  ultimately show ?thesis
    using year_of_spec [of n] assms by linarith
qed

section \<open>Fixed-width decimal fields\<close>

fun pad :: "nat \<Rightarrow> int \<Rightarrow> pystr" where
  "pad 0 n = []"
| "pad (Suc w) n = pad w (n div 10) @ [digit_char (nat (n mod 10))]"

fun read_digits :: "int \<Rightarrow> pystr \<Rightarrow> int option" where
  "read_digits acc [] = Some acc"
| "read_digits acc (c # cs) =
     (case digit_val c of None \<Rightarrow> None | Some v \<Rightarrow> read_digits (10 * acc + int v) cs)"

lemma length_pad [simp]: "length (pad w n) = w"
  by (induction w n rule: pad.induct) simp_all

lemma read_digits_append:
  "read_digits acc (s @ t) = Option.bind (read_digits acc s) (\<lambda>a. read_digits a t)"
  by (induction s arbitrary: acc) (simp_all split: option.split)

lemma read_pad:
  "0 \<le> n \<Longrightarrow> n < 10 ^ w \<Longrightarrow> read_digits acc (pad w n) = Some (acc * 10 ^ w + n)"
proof (induction w arbitrary: n)
  case (Suc w)
  have n: "n = 10 * (n div 10) + n mod 10" by simp
  have "n div 10 < 10 ^ w" using Suc.prems by simp
  with Suc.IH [of "n div 10"] Suc.prems
  have "read_digits acc (pad w (n div 10)) = Some (acc * 10 ^ w + n div 10)" by simp
  moreover have "nat (n mod 10) < 10" using pos_mod_bound [of 10 n] pos_mod_sign [of 10 n] by simp
  moreover have "0 \<le> n mod 10" using pos_mod_sign [of 10 n] by simp
  ultimately show ?case
    using n by (simp add: read_digits_append algebra_simps)
qed simp

lemma digit_char_not [simp]:
  "d < 10 \<Longrightarrow> code (digit_char d) = 48 + d"
  by (simp add: code_def digit_char_def)

lemma digits_of_pad: "0 \<le> n \<Longrightarrow> c \<in> set (pad w n) \<Longrightarrow> 48 \<le> code c \<and> code c \<le> 57"
proof (induction w arbitrary: n)
  case (Suc w)
  have "nat (n mod 10) < 10" using pos_mod_bound [of 10 n] pos_mod_sign [of 10 n] by simp
  moreover have "0 \<le> n div 10" using Suc.prems(1) by (simp add: pos_imp_zdiv_nonneg_iff)
  ultimately show ?case using Suc.IH [of "n div 10"] Suc.prems(2) by auto
qed simp

section \<open>Timestamps\<close>

text \<open>
  \<open>Naive t\<close>: wall-clock microseconds with no zone.  \<open>Aware t off\<close>: the UTC instant
  and the zone's offset, both in microseconds.  Aware values compare by instant.
\<close>

datatype datetime = Naive int | Aware int int

definition aware :: "datetime \<Rightarrow> datetime" where
  "aware v = (case v of Naive t \<Rightarrow> Aware t 0 | Aware t off \<Rightarrow> v)"

definition instant :: "datetime \<Rightarrow> int" where
  "instant v = (case v of Naive t \<Rightarrow> t | Aware t off \<Rightarrow> t)"

definition to_utc :: "datetime \<Rightarrow> datetime" where
  "to_utc v = Aware (instant v) 0"

lemma aware_simps [simp]:
  "aware (Naive t) = Aware t 0" "aware (Aware t off) = Aware t off" "aware (aware v) = aware v"
  by (simp_all add: aware_def split: datetime.split)

lemma instant_simps [simp]:
  "instant (Naive t) = t" "instant (Aware t off) = t" "instant (aware v) = instant v"
  by (simp_all add: instant_def aware_def split: datetime.split)

definition day_us :: int where "day_us = 86400000000"

definition MIN_T :: int where "MIN_T = - 719162 * 86400000000"
definition MAX_T :: int where "MAX_T = 2932896 * 86400000000 + 86399999999"

text \<open>\<open>datetime.min.replace(tzinfo=UTC)\<close>.\<close>

definition datetime_min :: datetime where
  "datetime_min = Aware MIN_T 0"

definition in_range :: "int \<Rightarrow> bool" where
  "in_range t = (MIN_T \<le> t \<and> t \<le> MAX_T)"

definition hms :: "int \<Rightarrow> pystr" where
  "hms us = (let sec = us div 1000000; frac = us mod 1000000 in
     pad 2 (sec div 3600) @ '':'' @ pad 2 ((sec div 60) mod 60) @ '':'' @ pad 2 (sec mod 60)
     @ (if frac = 0 then [] else ''.'' @ pad 6 frac))"

definition iso_local :: "int \<Rightarrow> pystr" where
  "iso_local t = (case ord2ymd (t div day_us + 719163) of (y, m, d) \<Rightarrow>
     pad 4 y @ ''-'' @ pad 2 m @ ''-'' @ pad 2 d @ ''T'' @ hms (t mod day_us))"

definition iso_offset :: "int \<Rightarrow> pystr" where
  "iso_offset off = (if off < 0 then ''-'' else ''+'') @
     (let a = \<bar>off\<bar>; sec = a div 1000000; frac = a mod 1000000 in
      pad 2 (sec div 3600) @ '':'' @ pad 2 ((sec div 60) mod 60)
      @ (if sec mod 60 = 0 \<and> frac = 0 then []
         else '':'' @ pad 2 (sec mod 60) @ (if frac = 0 then [] else ''.'' @ pad 6 frac)))"

definition isoformat :: "datetime \<Rightarrow> pystr" where
  "isoformat v = (case v of Naive t \<Rightarrow> iso_local t | Aware t off \<Rightarrow> iso_local (t + off) @ iso_offset off)"

definition read_field :: "pystr \<Rightarrow> int option" where
  "read_field s = (if s = [] then None else read_digits 0 s)"

definition read_frac :: "pystr \<Rightarrow> int option" where
  "read_frac s = (case s of [] \<Rightarrow> None
     | c # ds \<Rightarrow> if (c = CHR ''.'' \<or> c = CHR '','') \<and> ds \<noteq> [] \<and> read_digits 0 ds \<noteq> None
         then read_digits 0 (take 6 (ds @ ''000000'')) else None)"

text \<open>Microseconds of \<open>HH[:MM[:SS[.f+]]]\<close>; the limit on hours is the caller's.\<close>

definition read_hms :: "pystr \<Rightarrow> int option" where
  "read_hms s =
     Option.bind (read_field (take 2 s)) (\<lambda>h.
     if length s < 2 then None else if length s = 2 then Some (h * 3600000000)
     else if length s < 5 \<or> s ! 2 \<noteq> CHR '':'' then None else
     Option.bind (read_field (take 2 (drop 3 s))) (\<lambda>mi.
     if mi > 59 then None else if length s = 5 then Some (h * 3600000000 + mi * 60000000)
     else if length s < 8 \<or> s ! 5 \<noteq> CHR '':'' then None else
     Option.bind (read_field (take 2 (drop 6 s))) (\<lambda>sec.
     if sec > 59 then None
     else if length s = 8 then Some (h * 3600000000 + mi * 60000000 + sec * 1000000)
     else map_option (\<lambda>f. h * 3600000000 + mi * 60000000 + sec * 1000000 + f) (read_frac (drop 8 s)))))"

definition is_tz_char :: "char \<Rightarrow> bool" where
  "is_tz_char c = (c = CHR ''+'' \<or> c = CHR ''-'' \<or> c = CHR ''Z'')"

text \<open>The zone part: absent, \<open>Z\<close>, or a signed offset below one day.\<close>

definition read_tz :: "pystr \<Rightarrow> int option option" where
  "read_tz s = (case s of [] \<Rightarrow> Some None
     | c # r \<Rightarrow>
        if c = CHR ''Z'' then (if r = [] then Some (Some 0) else None)
        else (case read_hms r of None \<Rightarrow> None
          | Some us \<Rightarrow> if us < day_us then Some (Some (if c = CHR ''-'' then - us else us)) else None))"

definition fromisoformat :: "pystr \<Rightarrow> datetime option" where
  "fromisoformat s =
     (if length s < 10 \<or> s ! 4 \<noteq> CHR ''-'' \<or> s ! 7 \<noteq> CHR ''-'' then None else
      Option.bind (read_field (take 4 s)) (\<lambda>y.
      Option.bind (read_field (take 2 (drop 5 s))) (\<lambda>m.
      Option.bind (read_field (take 2 (drop 8 s))) (\<lambda>d.
      if \<not> valid_date y m d then None else
      let day = (ymd2ord y m d - 719163) * day_us; rest = drop 11 s in
      if length s = 10 then Some (Naive day) else
      Option.bind (read_hms (takeWhile (\<lambda>c. \<not> is_tz_char c) rest)) (\<lambda>us.
      if us \<ge> day_us then None else
      Option.bind (read_tz (dropWhile (\<lambda>c. \<not> is_tz_char c) rest)) (\<lambda>tz.
      case tz of None \<Rightarrow> Some (Naive (day + us))
        | Some off \<Rightarrow> Some (Aware (day + us - off) off)))))))"

section \<open>The round trip\<close>

lemma pad_field [simp]:
  "0 \<le> n \<Longrightarrow> n < 10 ^ w \<Longrightarrow> 0 < w \<Longrightarrow> read_field (pad w n) = Some n"
  using read_pad [of n w 0] by (cases "pad w n = []") (auto simp: read_field_def dest: arg_cong [where f = length])

lemma read_frac_pad:
  assumes "0 \<le> f" "f < 1000000"
  shows "read_frac (''.'' @ pad 6 f) = Some f"
proof -
  have "read_digits 0 (pad 6 f) = Some f" using read_pad [of f 6 0] assms by simp
  moreover have "pad 6 f \<noteq> []" by (metis length_pad list.size(3) num.distinct(1) zero_neq_numeral)
  ultimately show ?thesis by (simp add: read_frac_def)
qed

lemma pad2_chars:
  assumes "0 \<le> n" "n < 100"
  obtains a b where "pad 2 n = [a, b]" "read_field [a, b] = Some n"
proof -
  have "length (pad 2 n) = 2" by simp
  then obtain a b where ab: "pad 2 n = [a, b]"
    by (auto simp: length_Suc_conv numeral_2_eq_2)
  with assms have "read_field [a, b] = Some n" using pad_field [of n 2] by simp
  with ab show ?thesis by (rule that)
qed

lemma sec_split:
  fixes sec :: int
  shows "sec = (sec div 3600) * 3600 + ((sec div 60) mod 60) * 60 + sec mod 60"
proof -
  have *: "sec div 3600 = sec div 60 div 60"
    using zdiv_zmult2_eq [of 60 sec 60] by simp
  have "sec = 60 * (sec div 60) + sec mod 60" "sec div 60 = 60 * (sec div 60 div 60) + sec div 60 mod 60"
    by (rule mult_div_mod_eq [symmetric])+
  moreover have "x = 60 * q + r \<Longrightarrow> q = 60 * h + k \<Longrightarrow> x = h * 3600 + k * 60 + r" for x q r h k :: int
    by simp
  ultimately show ?thesis unfolding * by blast
qed

lemma read_hms_fields:
  assumes "0 \<le> h" "h < 100" "0 \<le> mi" "mi < 60" "0 \<le> s" "s < 60" "0 \<le> f" "f < 1000000"
  shows "read_hms (pad 2 h @ '':'' @ pad 2 mi @ '':'' @ pad 2 s @ (if f = 0 then [] else ''.'' @ pad 6 f))
    = Some (h * 3600000000 + mi * 60000000 + s * 1000000 + f)"
proof -
  obtain a b where h: "pad 2 h = [a, b]" "read_field [a, b] = Some h"
    using assms by (elim pad2_chars [of h, rotated 2]) auto
  obtain a' b' where m: "pad 2 mi = [a', b']" "read_field [a', b'] = Some mi"
    using assms by (elim pad2_chars [of mi, rotated 2]) auto
  obtain a'' b'' where s: "pad 2 s = [a'', b'']" "read_field [a'', b''] = Some s"
    using assms by (elim pad2_chars [of s, rotated 2]) auto
  have fr: "read_frac (''.'' @ pad 6 f) = Some f" by (rule read_frac_pad) (use assms in auto)
  show ?thesis
  proof (cases "f = 0")
    case True
    with assms show ?thesis by (simp add: h m s read_hms_def)
  next
    case False
    define t where "t = ''.'' @ pad 6 f"
    then have "length t = 7" "read_frac t = Some f" using fr by simp_all
    with False assms show ?thesis
      by (simp add: h m s read_hms_def t_def [symmetric] del: append_Cons) (simp add: read_hms_def)
  qed
qed

lemma hms_eq:
  assumes "0 \<le> us" "us < day_us"
  obtains h mi s f where "0 \<le> h" "h < 24" "0 \<le> mi" "mi < 60" "0 \<le> s" "s < 60" "0 \<le> f"
    "f < 1000000" "us = h * 3600000000 + mi * 60000000 + s * 1000000 + f"
    "hms us = pad 2 h @ '':'' @ pad 2 mi @ '':'' @ pad 2 s @ (if f = 0 then [] else ''.'' @ pad 6 f)"
proof -
  define sec f where "sec = us div 1000000" and "f = us mod 1000000"
  define h mi s where "h = sec div 3600" and "mi = (sec div 60) mod 60" and "s = sec mod 60"
  have us: "us = sec * 1000000 + f" by (simp add: sec_def f_def)
  have f: "0 \<le> f" "f < 1000000" by (simp_all add: f_def)
  have sec: "0 \<le> sec" "sec < 86400" using assms us f by (simp_all add: day_us_def)
  have sec_eq: "sec = h * 3600 + mi * 60 + s"
    unfolding h_def mi_def s_def by (rule sec_split)
  have b: "0 \<le> mi" "mi < 60" "0 \<le> s" "s < 60" by (simp_all add: mi_def s_def)
  have h: "0 \<le> h" "h < 24" using sec sec_eq b by linarith+
  have "hms us = pad 2 h @ '':'' @ pad 2 mi @ '':'' @ pad 2 s @ (if f = 0 then [] else ''.'' @ pad 6 f)"
    by (simp only: hms_def Let_def sec_def f_def h_def mi_def s_def)
  with h b f show ?thesis using us sec_eq by (intro that) simp_all
qed

lemma read_hms_hms:
  assumes "0 \<le> us" "us < day_us"
  shows "read_hms (hms us) = Some us"
proof (rule hms_eq [OF assms])
  fix h mi s f :: int
  assume b: "0 \<le> h" "h < 24" "0 \<le> mi" "mi < 60" "0 \<le> s" "s < 60" "0 \<le> f" "f < 1000000"
    and us: "us = h * 3600000000 + mi * 60000000 + s * 1000000 + f"
    and eq: "hms us = pad 2 h @ '':'' @ pad 2 mi @ '':'' @ pad 2 s @ (if f = 0 then [] else ''.'' @ pad 6 f)"
  show ?thesis unfolding eq by (subst us, rule read_hms_fields) (use b in simp_all)
qed

lemma hms_no_tz:
  assumes "0 \<le> us" "us < day_us" "c \<in> set (hms us)"
  shows "\<not> is_tz_char c"
proof -
  have "48 \<le> code c \<and> code c \<le> 57 \<or> c = CHR '':'' \<or> c = CHR ''.''"
    using assms(1,2) by (rule hms_eq) (use assms(3) digits_of_pad in \<open>auto split: if_splits\<close>)
  then show ?thesis by (auto simp: is_tz_char_def code_def)
qed

lemma iso_offset_0: "iso_offset 0 = ''+00:00''"
  by (simp add: iso_offset_def digit_char_def numeral_2_eq_2 char_of_def bit_simps)

lemma read_tz_0: "read_tz ''+00:00'' = Some (Some 0)"
  by (simp add: read_tz_def read_hms_def read_field_def digit_val_def code_def day_us_def)

lemma pad4_chars:
  assumes "0 \<le> n" "n < 10000"
  obtains a b c d where "pad 4 n = [a, b, c, d]" "read_field [a, b, c, d] = Some n"
proof -
  have "length (pad 4 n) = 4" by simp
  then obtain a b c d where ab: "pad 4 n = [a, b, c, d]"
    by (auto simp: length_Suc_conv numeral_eq_Suc)
  with assms have "read_field [a, b, c, d] = Some n" using pad_field [of n 4] by simp
  with ab show ?thesis by (rule that)
qed

lemma fromisoformat_parts:
  assumes "valid_date y m d" "0 \<le> us" "us < day_us"
  shows "fromisoformat (pad 4 y @ ''-'' @ pad 2 m @ ''-'' @ pad 2 d @ ''T'' @ hms us @ ''+00:00'')
    = Some (Aware ((ymd2ord y m d - 719163) * day_us + us) 0)"
proof -
  have b: "0 \<le> y" "y < 10000" "0 \<le> m" "m < 100" "0 \<le> d" "d < 100"
    using assms(1) by (auto simp: valid_date_def dim_def split: if_splits)
  obtain a1 a2 a3 a4 where y: "pad 4 y = [a1, a2, a3, a4]" "read_field [a1, a2, a3, a4] = Some y"
    using b by (elim pad4_chars [of y, rotated 2]) auto
  obtain b1 b2 where m: "pad 2 m = [b1, b2]" "read_field [b1, b2] = Some m"
    using b by (elim pad2_chars [of m, rotated 2]) auto
  obtain c1 c2 where d: "pad 2 d = [c1, c2]" "read_field [c1, c2] = Some d"
    using b by (elim pad2_chars [of d, rotated 2]) auto
  define t where "t = hms us @ ''+00:00''"
  have tw: "takeWhile (\<lambda>c. \<not> is_tz_char c) t = hms us" "dropWhile (\<lambda>c. \<not> is_tz_char c) t = ''+00:00''"
    using hms_no_tz [OF assms(2,3)] by (auto simp: t_def is_tz_char_def takeWhile_append dropWhile_append)
  have "t \<noteq> []" by (simp add: t_def)
  then show ?thesis
    using assms read_hms_hms [OF assms(2,3)] read_tz_0
    by (simp add: fromisoformat_def y m d tw t_def [symmetric] Let_def)
qed

lemma iso_roundtrip:
  assumes "in_range t"
  shows "fromisoformat (isoformat (Aware t 0)) = Some (Aware t 0)"
proof -
  define n us where "n = t div day_us + 719163" and "us = t mod day_us"
  have us: "0 \<le> us" "us < day_us" by (simp_all add: us_def day_us_def)
  have t: "t = (n - 719163) * day_us + us" by (simp add: n_def us_def)
  have n: "1 \<le> n" "n \<le> 3652059"
    using assms us t by (simp_all add: in_range_def MIN_T_def MAX_T_def day_us_def)
  obtain y m d where ymd: "ord2ymd n = (y, m, d)" by (cases "ord2ymd n") auto
  note spec = ord2ymd_spec [OF ymd]
  have "valid_date y m d" using spec year_of_range [OF n] by (auto simp: valid_date_def)
  moreover have "ymd2ord y m d = n" using spec by blast
  ultimately show ?thesis
    using fromisoformat_parts [of y m d, OF _ us]
    by (simp add: isoformat_def iso_local_def n_def [symmetric] us_def [symmetric] ymd
        iso_offset_0 t [symmetric])
qed

lemma isoformat_not_blank: "\<not> blank (isoformat (Aware t 0))"
  by (simp add: isoformat_def iso_offset_0 blank_def list_all_iff py_isspace_def code_def)

end
