(* ===== verification/Task_Json.thy ===== *)
theory Task_Json
  imports Tce_Prelude Tce_Hash Tce_Time
begin

text \<open>
  JSON-shaped Python values, the total coercions of \<open>shared/tce_shared/task_state.py\<close>
  (\<open>_text\<close>, \<open>_integer\<close>, \<open>_flag\<close>, \<open>_dt_from_json\<close>, ...), and \<open>canonical_json\<close>.
  Lists and tuples are one constructor, as every coercion tests for both.  A payload number
  is a Python \<open>int\<close>; floats are outside the value universe (no writer of the
  repository puts one in a task-state payload).
\<close>

section \<open>Values\<close>

datatype py =
    PNone
  | PBool bool
  | PInt int
  | PStr pystr
  | PDate datetime
  | PList "py list"
  | PDict "(pystr \<times> py) list"

text \<open>\<open>m.get(key)\<close> on a mapping; a missing key reads as \<open>None\<close>.\<close>

definition py_get :: "(pystr \<times> py) list \<Rightarrow> pystr \<Rightarrow> py" where
  "py_get m k = (case map_of m k of None \<Rightarrow> PNone | Some v \<Rightarrow> v)"

lemma py_get_Cons [simp]: "py_get ((k, v) # m) k' = (if k = k' then v else py_get m k')"
  by (simp add: py_get_def)

lemma py_get_Nil [simp]: "py_get [] k = PNone"
  by (simp add: py_get_def)

definition opt_py :: "('a \<Rightarrow> py) \<Rightarrow> 'a option \<Rightarrow> py" where
  "opt_py f x = (case x of None \<Rightarrow> PNone | Some v \<Rightarrow> f v)"

lemma opt_py_simps [simp]: "opt_py f None = PNone" "opt_py f (Some x) = f x"
  by (simp_all add: opt_py_def)

section \<open>Coercions\<close>

definition str_datetime :: "datetime \<Rightarrow> pystr" where
  "str_datetime v = (isoformat v)[10 := CHR '' '']"

definition dt_to_json :: "datetime option \<Rightarrow> py" where
  "dt_to_json v = (case v of None \<Rightarrow> PNone | Some d \<Rightarrow> PStr (isoformat (to_utc (aware d))))"

definition dt_from_json :: "py \<Rightarrow> datetime option \<Rightarrow> datetime option" where
  "dt_from_json raw dflt = (case raw of
       PDate d \<Rightarrow> Some (aware d)
     | PStr s \<Rightarrow> if blank s then dflt
         else (case fromisoformat s of Some d \<Rightarrow> Some (aware d) | None \<Rightarrow> dflt)
     | _ \<Rightarrow> dflt)"

definition text_of :: "py \<Rightarrow> pystr \<Rightarrow> pystr" where
  "text_of raw dflt = (case raw of
       PStr s \<Rightarrow> s
     | PNone \<Rightarrow> dflt | PDict _ \<Rightarrow> dflt | PList _ \<Rightarrow> dflt
     | PBool b \<Rightarrow> if b then ''True'' else ''False''
     | PInt i \<Rightarrow> str_int i
     | PDate d \<Rightarrow> str_datetime d)"

text \<open>\<open>s or None\<close>, \<open>s or d\<close> on strings.\<close>

definition or_none :: "pystr \<Rightarrow> pystr option" where
  "or_none s = (if s = [] then None else Some s)"

definition or_else :: "pystr \<Rightarrow> pystr \<Rightarrow> pystr" where
  "or_else s d = (if s = [] then d else s)"

definition opt_text :: "py \<Rightarrow> pystr option" where
  "opt_text raw = (if raw = PNone then None else or_none (text_of raw []))"

definition integer_of :: "py \<Rightarrow> int \<Rightarrow> int" where
  "integer_of raw dflt = (case raw of
       PInt i \<Rightarrow> i
     | PStr s \<Rightarrow> (case py_int s of Some i \<Rightarrow> i | None \<Rightarrow> dflt)
     | _ \<Rightarrow> dflt)"

definition flag_of :: "py \<Rightarrow> bool \<Rightarrow> bool" where
  "flag_of raw dflt = (case raw of
       PBool b \<Rightarrow> b
     | PInt i \<Rightarrow> i \<noteq> 0
     | PStr s \<Rightarrow> (let l = py_lower (py_strip s) in
         if l \<in> set [''true'', ''1'', ''yes''] then True
         else if l \<in> set [''false'', ''0'', ''no'', ''''] then False
         else dflt)
     | _ \<Rightarrow> dflt)"

definition text_tuple :: "py \<Rightarrow> pystr list" where
  "text_tuple raw = (case raw of
       PList xs \<Rightarrow> filter (\<lambda>s. s \<noteq> []) (map (\<lambda>x. text_of x []) xs)
     | _ \<Rightarrow> [])"

definition is_container :: "py \<Rightarrow> bool" where
  "is_container v = (case v of PList _ \<Rightarrow> True | PDict _ \<Rightarrow> True | _ \<Rightarrow> False)"

definition int_tuple :: "py \<Rightarrow> int list" where
  "int_tuple raw = (case raw of
       PList xs \<Rightarrow> map (\<lambda>x. integer_of x 0) (filter (\<lambda>x. \<not> is_container x) xs)
     | _ \<Rightarrow> [])"

definition as_mapping :: "py \<Rightarrow> (pystr \<times> py) list option" where
  "as_mapping v = (case v of PDict m \<Rightarrow> Some m | _ \<Rightarrow> None)"

definition mappings :: "py \<Rightarrow> (pystr \<times> py) list list" where
  "mappings raw = (case raw of PList xs \<Rightarrow> List.map_filter as_mapping xs | _ \<Rightarrow> [])"

definition payload_mapping :: "py \<Rightarrow> (pystr \<times> py) list" where
  "payload_mapping raw = (case raw of PDict m \<Rightarrow> m | _ \<Rightarrow> [])"

primrec json_safe :: "py \<Rightarrow> py" where
  "json_safe PNone = PNone"
| "json_safe (PBool b) = PBool b"
| "json_safe (PInt i) = PInt i"
| "json_safe (PStr s) = PStr s"
| "json_safe (PDate d) = dt_to_json (Some d)"
| "json_safe (PList xs) = PList (map json_safe xs)"
| "json_safe (PDict m) = PDict (map (map_prod id json_safe) m)"

definition event_payload_to_json :: "(pystr \<times> py) list \<Rightarrow> (pystr \<times> py) list" where
  "event_payload_to_json m = map (map_prod id json_safe) m"

section \<open>Canonical JSON\<close>

definition json_escape_char :: "char \<Rightarrow> pystr" where
  "json_escape_char c = (let n = code c in
     if n = 34 then [CHR 0x5C, CHR 0x22]
     else if n = 92 then [CHR 0x5C, CHR 0x5C]
     else if n = 10 then [CHR 0x5C, CHR ''n'']
     else if n = 13 then [CHR 0x5C, CHR ''r'']
     else if n = 9 then [CHR 0x5C, CHR ''t'']
     else if n = 8 then [CHR 0x5C, CHR ''b'']
     else if n = 12 then [CHR 0x5C, CHR ''f'']
     else if n < 32 then CHR 0x5C # ''u00'' @ hex_byte (int n)
     else [c])"

definition json_string :: "pystr \<Rightarrow> pystr" where
  "json_string s = CHR 0x22 # concat (map json_escape_char s) @ [CHR 0x22]"

text \<open>\<open>json.dumps(value, sort_keys=True, separators=(",", ":"), default=str, ensure_ascii=False)\<close>.\<close>

primrec canonical_json :: "py \<Rightarrow> pystr" where
  "canonical_json PNone = ''null''"
| "canonical_json (PBool b) = (if b then ''true'' else ''false'')"
| "canonical_json (PInt i) = str_int i"
| "canonical_json (PStr s) = json_string s"
| "canonical_json (PDate d) = json_string (str_datetime d)"
| "canonical_json (PList xs) = ''['' @ py_join '','' (map canonical_json xs) @ '']''"
| "canonical_json (PDict m) = ''{'' @ py_join '',''
     (map (\<lambda>kv. json_string (fst kv) @ '':'' @ snd kv)
        (sort_key fst (map (map_prod id canonical_json) m))) @ ''}''"

section \<open>Truth values and \<open>str()\<close>\<close>

definition truthy :: "py \<Rightarrow> bool" where
  "truthy v = (case v of PNone \<Rightarrow> False | PBool b \<Rightarrow> b | PInt i \<Rightarrow> i \<noteq> 0 | PStr s \<Rightarrow> s \<noteq> []
     | PDate _ \<Rightarrow> True | PList xs \<Rightarrow> xs \<noteq> [] | PDict m \<Rightarrow> m \<noteq> [])"

definition repr_char :: "char \<Rightarrow> char \<Rightarrow> pystr" where
  "repr_char q c = (let n = code c in
     if c = q \<or> n = 92 then [CHR 0x5C, c]
     else if n = 10 then [CHR 0x5C, CHR ''n'']
     else if n = 13 then [CHR 0x5C, CHR ''r'']
     else if n = 9 then [CHR 0x5C, CHR ''t'']
     else if n < 32 \<or> (127 \<le> n \<and> n \<le> 160) \<or> n = 173 then CHR 0x5C # ''x'' @ hex_byte (int n)
     else [c])"

definition repr_str :: "pystr \<Rightarrow> pystr" where
  "repr_str s = (let q = (if CHR 0x27 \<in> set s \<and> CHR 0x22 \<notin> set s then CHR 0x22 else CHR 0x27) in
     q # concat (map (repr_char q) s) @ [q])"

text \<open>\<open>repr(v)\<close> on parsed JSON, which holds no timestamps.\<close>

primrec py_repr :: "py \<Rightarrow> pystr" where
  "py_repr PNone = ''None''"
| "py_repr (PBool b) = (if b then ''True'' else ''False'')"
| "py_repr (PInt i) = str_int i"
| "py_repr (PStr s) = repr_str s"
| "py_repr (PDate d) = str_datetime d"
| "py_repr (PList xs) = ''['' @ py_join '', '' (map py_repr xs) @ '']''"
| "py_repr (PDict m) = ''{'' @ py_join '', ''
     (map (\<lambda>kv. repr_str (fst kv) @ '': '' @ snd kv) (map (map_prod id py_repr) m)) @ ''}''"

definition py_str :: "py \<Rightarrow> pystr" where
  "py_str v = (case v of PStr s \<Rightarrow> s | _ \<Rightarrow> py_repr v)"

text \<open>\<open>str(v or "")\<close>.\<close>

definition str_or_empty :: "py \<Rightarrow> pystr" where
  "str_or_empty v = (if truthy v then py_str v else [])"

lemma str_or_empty_PStr [simp]: "str_or_empty (PStr s) = s"
  by (simp add: str_or_empty_def truthy_def py_str_def)

lemma str_or_empty_PNone [simp]: "str_or_empty PNone = []"
  by (simp add: str_or_empty_def truthy_def)

section \<open>Facts the codecs share\<close>

lemma text_of_PStr [simp, tce_codec]: "text_of (PStr s) d = s"
  by (simp add: text_of_def)

lemma text_of_PNone [simp]: "text_of PNone d = d"
  by (simp add: text_of_def)

lemma or_else_simps [simp]: "or_else [] d = d" "s \<noteq> [] \<Longrightarrow> or_else s d = s"
  by (simp_all add: or_else_def)

lemma opt_text_simps [simp]: "opt_text PNone = None" "opt_text (PStr s) = or_none s"
  by (simp_all add: opt_text_def)

definition opt_ok :: "pystr option \<Rightarrow> bool" where
  "opt_ok x = (x \<noteq> Some [])"

lemma opt_text_opt_py [tce_codec]: "opt_ok x \<Longrightarrow> opt_text (opt_py PStr x) = x"
  by (cases x) (auto simp: opt_ok_def or_none_def)

lemma integer_of_PInt [simp, tce_codec]: "integer_of (PInt i) d = i"
  by (simp add: integer_of_def)

lemma integer_of_PNone [simp]: "integer_of PNone d = d"
  by (simp add: integer_of_def)

lemma flag_of_PBool [simp, tce_codec]: "flag_of (PBool b) d = b"
  by (simp add: flag_of_def)

lemma flag_of_PNone [simp]: "flag_of PNone d = d"
  by (simp add: flag_of_def)

lemma text_tuple_enc [tce_codec]: "[] \<notin> set xs \<Longrightarrow> text_tuple (PList (map PStr xs)) = xs"
  by (induction xs) (auto simp: text_tuple_def)

lemma int_tuple_enc [simp, tce_codec]: "int_tuple (PList (map PInt xs)) = xs"
  by (induction xs) (auto simp: int_tuple_def is_container_def)

lemma mappings_enc [simp, tce_codec]: "mappings (PList (map (\<lambda>x. PDict (f x)) xs)) = map f xs"
  by (induction xs) (simp_all add: mappings_def as_mapping_def List.map_filter_simps)

lemma mappings_Nil [simp]: "mappings (PList []) = []"
  by (simp add: mappings_def List.map_filter_simps)

lemma mappings_single [simp]: "mappings (PList [PDict m]) = [m]"
  by (simp add: mappings_def as_mapping_def List.map_filter_simps)

lemma payload_mapping_PDict [simp]: "payload_mapping (PDict m) = m"
  by (simp add: payload_mapping_def)

text \<open>A timestamp the codecs reproduce: in UTC, between year 1 and year 9999.\<close>

definition utc_ok :: "datetime \<Rightarrow> bool" where
  "utc_ok d = (case d of Naive _ \<Rightarrow> False | Aware t off \<Rightarrow> off = 0 \<and> in_range t)"

definition utc_opt_ok :: "datetime option \<Rightarrow> bool" where
  "utc_opt_ok x = (case x of None \<Rightarrow> True | Some d \<Rightarrow> utc_ok d)"

lemma dt_from_json_PNone [simp]: "dt_from_json PNone d = d"
  by (simp add: dt_from_json_def)

lemma dt_json_roundtrip [tce_codec]: "utc_ok d \<Longrightarrow> dt_from_json (dt_to_json (Some d)) x = Some d"
  using isoformat_not_blank [of "instant d"] iso_roundtrip [of "instant d"]
  by (cases d) (auto simp: utc_ok_def dt_to_json_def dt_from_json_def to_utc_def)

lemma dt_opt_roundtrip [tce_codec]: "utc_opt_ok x \<Longrightarrow> dt_from_json (dt_to_json x) None = x"
  by (cases x) (simp_all add: utc_opt_ok_def dt_json_roundtrip dt_to_json_def [of None])

text \<open>\<open>_json_safe\<close> is idempotent: its output holds no timestamps.\<close>

lemma json_safe_dt [simp]: "json_safe (dt_to_json x) = dt_to_json x"
  by (simp add: dt_to_json_def split: option.split)

lemma json_safe_idem: "json_safe (json_safe v) = json_safe v"
proof (induction v)
  case (PDict m)
  have "json_safe (json_safe b) = json_safe b" if "(a, b) \<in> set m" for a b
    using PDict [OF that] by simp
  then show ?case by (auto simp: comp_def)
qed simp_all

end
