(* ===== verification/Capture_Spool.thy ===== *)
theory Capture_Spool
  imports Task_Json
begin

text \<open>
  \<open>shared/tce_shared/capture_spool.py\<close>, where the capture hook keeps what the user typed until the server has it, and the part of
  the hook (\<open>scripts/tce_capture_input.py\<close>) that works on it.  A spool directory is the list of its files and the lines
  of \<open>gaps.jsonl\<close>; a file is what \<open>json.loads\<close> gives for its text, its size and its modification time.  Clock readings are
  exact integers.  Failing system calls are not modelled.
\<close>

section \<open>Entries\<close>

definition SPOOL_SCHEMA_VERSION :: pystr where
  "SPOOL_SCHEMA_VERSION = ''v1''"

definition DEFAULT_MAX_FILES :: int where
  "DEFAULT_MAX_FILES = 500"

definition DEFAULT_MAX_BYTES :: int where
  "DEFAULT_MAX_BYTES = 8 * 1024 * 1024"

definition STATE_FILE :: pystr where
  "STATE_FILE = ''state.json''"

definition ENTRY_SUFFIX :: pystr where
  "ENTRY_SUFFIX = ''.json''"

definition CORRUPT_SUFFIX :: pystr where
  "CORRUPT_SUFFIX = ''.corrupt''"

definition TMP_PREFIX :: pystr where
  "TMP_PREFIX = ''.tmp-''"

definition MAX_FAILED_ATTEMPTS :: int where
  "MAX_FAILED_ATTEMPTS = 3"

definition GAP_MAX_BYTES :: int where
  "GAP_MAX_BYTES = 1024 * 1024"

definition GAP_KEEP_LINES :: nat where
  "GAP_KEEP_LINES = 2000"

definition DELIVERY_STATES :: "pystr list" where
  "DELIVERY_STATES = [''unknown'', ''delivered'', ''spooled'', ''failed'', ''dropped_full'', ''disabled'']"

datatype spool_outcome = SPOOLED | DELIVERED | FAILED | DROPPED_FULL

fun outcome_str :: "spool_outcome \<Rightarrow> pystr" where
  "outcome_str SPOOLED = ''spooled''"
| "outcome_str DELIVERED = ''delivered''"
| "outcome_str FAILED = ''failed''"
| "outcome_str DROPPED_FULL = ''dropped_full''"

record spool_entry =
  se_key :: pystr
  se_body :: "(pystr \<times> py) list"
  se_created :: int
  se_attempts :: int
  se_error :: "pystr option"
  se_state :: pystr

record spool_file =
  sf_name :: pystr
  sf_json :: "py option"
  sf_size :: int
  sf_mtime :: int

record spool =
  sp_files :: "spool_file list"
  sp_gaps :: "py list"

text \<open>The text \<open>json.dumps(value, separators=(",", ":"), sort_keys=True)\<close>, which is ASCII.\<close>

definition ascii_escape_char :: "char \<Rightarrow> pystr" where
  "ascii_escape_char c = (if code c < 127 then json_escape_char c else CHR 0x5C # ''u00'' @ hex_byte (int (code c)))"

definition ascii_string :: "pystr \<Rightarrow> pystr" where
  "ascii_string s = CHR 0x22 # concat (map ascii_escape_char s) @ [CHR 0x22]"

primrec ascii_json :: "py \<Rightarrow> pystr" where
  "ascii_json PNone = ''null''"
| "ascii_json (PBool b) = (if b then ''true'' else ''false'')"
| "ascii_json (PInt i) = str_int i"
| "ascii_json (PStr s) = ascii_string s"
| "ascii_json (PDate d) = ascii_string (str_datetime d)"
| "ascii_json (PList xs) = ''['' @ py_join '','' (map ascii_json xs) @ '']''"
| "ascii_json (PDict m) = ''{'' @ py_join '',''
     (map (\<lambda>kv. ascii_string (fst kv) @ '':'' @ snd kv) (sort_key fst (map (map_prod id ascii_json) m))) @ ''}''"

definition hex_digits :: pystr where
  "hex_digits = ''0123456789abcdef''"

definition valid_key :: "pystr \<Rightarrow> bool" where
  "valid_key k = (16 \<le> length k \<and> length k \<le> 128 \<and> set k \<subseteq> set hex_digits)"

text \<open>\<open>spool_path\<close>: the name of the entry's file, or \<open>ValueError\<close>.\<close>

definition spool_path :: "pystr \<Rightarrow> (pystr, pystr) result" where
  "spool_path k = (if valid_key k then Ok (k @ ENTRY_SUFFIX) else Err ''delivery_key must be a lowercase hex digest'')"

definition stem :: "pystr \<Rightarrow> pystr" where
  "stem name = take (length name - length ENTRY_SUFFIX) name"

definition ends_with :: "pystr \<Rightarrow> pystr \<Rightarrow> bool" where
  "ends_with p s = starts_with (rev p) (rev s)"

definition is_entry_file :: "spool_file \<Rightarrow> bool" where
  "is_entry_file f = (sf_name f \<noteq> STATE_FILE \<and> ends_with ENTRY_SUFFIX (sf_name f) \<and> \<not> starts_with TMP_PREFIX (sf_name f))"

definition entry_files :: "spool \<Rightarrow> spool_file list" where
  "entry_files sp = filter is_entry_file (sp_files sp)"

definition pending_count :: "spool \<Rightarrow> int" where
  "pending_count sp = int (length (entry_files sp))"

section \<open>Files\<close>

definition unlink :: "pystr \<Rightarrow> spool \<Rightarrow> spool" where
  "unlink name sp = sp\<lparr>sp_files := filter (\<lambda>f. sf_name f \<noteq> name) (sp_files sp)\<rparr>"

text \<open>\<open>_atomic_write_text\<close>: the new file takes the place of the old one.\<close>

definition atomic_write :: "pystr \<Rightarrow> py \<Rightarrow> int \<Rightarrow> spool \<Rightarrow> spool" where
  "atomic_write name v now sp =
     (let f = \<lparr>sf_name = name, sf_json = Some v, sf_size = int (length (ascii_json v)), sf_mtime = now\<rparr>
      in sp\<lparr>sp_files := filter (\<lambda>g. sf_name g \<noteq> name) (sp_files sp) @ [f]\<rparr>)"

definition entry_payload :: "spool_entry \<Rightarrow> py" where
  "entry_payload e = PDict [(''schema_version'', PStr SPOOL_SCHEMA_VERSION), (''delivery_key'', PStr (se_key e)), (''body'', PDict (se_body e)),
     (''created_at'', PInt (se_created e)), (''attempts'', PInt (se_attempts e)), (''last_error'', opt_py PStr (se_error e)),
     (''state'', PStr (se_state e))]"

definition write_entry :: "spool_entry \<Rightarrow> int \<Rightarrow> spool \<Rightarrow> (pystr, spool) result" where
  "write_entry e now sp = map_sum id (\<lambda>name. atomic_write name (entry_payload e) now sp) (spool_path (se_key e))"

text \<open>\<open>isinstance(v, int | float)\<close>, and its value; a \<open>bool\<close> is an \<open>int\<close>.\<close>

definition number :: "py \<Rightarrow> int option" where
  "number v = (case v of PInt i \<Rightarrow> Some i | PBool b \<Rightarrow> Some (if b then 1 else 0) | _ \<Rightarrow> None)"

definition parse_entry :: "spool_file \<Rightarrow> spool_entry option" where
  "parse_entry f = (case sf_json f of
       Some (PDict m) \<Rightarrow>
         (case (py_get m ''delivery_key'', py_get m ''body'', number (py_get m ''created_at'')) of
            (PStr k, PDict body, Some created) \<Rightarrow>
              if k \<noteq> stem (sf_name f) then None
              else Some \<lparr>se_key = k, se_body = body, se_created = created,
                se_attempts = (case number (py_get m ''attempts'') of Some i \<Rightarrow> i | None \<Rightarrow> 0),
                se_error = (case py_get m ''last_error'' of PNone \<Rightarrow> None | v \<Rightarrow> Some (py_str v)),
                se_state = (case py_get m ''state'' of PStr s \<Rightarrow> s | _ \<Rightarrow> outcome_str SPOOLED)\<rparr>
          | _ \<Rightarrow> None)
     | _ \<Rightarrow> None)"

section \<open>Gaps\<close>

definition gap_line :: "pystr \<Rightarrow> py \<Rightarrow> py \<Rightarrow> pystr \<Rightarrow> pystr \<Rightarrow> py" where
  "gap_line k sha observed reason stamp = PDict [(''delivery_key'', PStr k), (''content_sha256'', sha), (''observed_at'', observed),
     (''reason'', PStr reason), (''dropped_at'', PStr stamp)]"

definition gap_record :: "spool_entry \<Rightarrow> pystr \<Rightarrow> pystr \<Rightarrow> py" where
  "gap_record e reason stamp = gap_line (se_key e) (py_get (se_body e) ''content_sha256'') (py_get (se_body e) ''observed_at'') reason stamp"

definition gap_bytes :: "py list \<Rightarrow> int" where
  "gap_bytes ls = sum_list (map (\<lambda>v. int (length (ascii_json v)) + 1) ls)"

definition append_gap :: "py \<Rightarrow> spool \<Rightarrow> spool" where
  "append_gap v sp = (let ls = sp_gaps sp @ [v] in
     sp\<lparr>sp_gaps := (if GAP_MAX_BYTES < gap_bytes ls then drop (length ls - GAP_KEEP_LINES) ls else ls)\<rparr>)"

text \<open>An unreadable entry is set aside, in the place of an older one of the same name.\<close>

definition quarantine :: "pystr \<Rightarrow> spool_file \<Rightarrow> spool \<Rightarrow> spool" where
  "quarantine stamp f sp =
     (let corrupt = sf_name f @ CORRUPT_SUFFIX; sp1 = unlink corrupt (unlink (sf_name f) sp)
      in append_gap (gap_line (stem (sf_name f)) PNone PNone ''corrupt'' stamp) (sp1\<lparr>sp_files := sp_files sp1 @ [f\<lparr>sf_name := corrupt\<rparr>]\<rparr>))"

definition read_entries :: "pystr \<Rightarrow> int \<Rightarrow> spool \<Rightarrow> spool_entry list \<times> spool" where
  "read_entries stamp limit sp =
     (if limit \<le> 0 then ([], sp)
      else (let files = entry_files sp
        in (take (nat limit) (sort_key (\<lambda>e. (se_created e, se_key e)) (List.map_filter parse_entry files)),
            fold (quarantine stamp) (filter (\<lambda>f. parse_entry f = None) files) sp)))"

definition remove_entry :: "pystr \<Rightarrow> spool \<Rightarrow> (pystr, spool) result" where
  "remove_entry k sp = map_sum id (\<lambda>name. unlink name sp) (spool_path k)"

definition retryable :: "spool_entry \<Rightarrow> bool" where
  "retryable e = (if se_state e = outcome_str FAILED then se_attempts e < MAX_FAILED_ATTEMPTS else True)"

definition attempted :: "spool_entry \<Rightarrow> spool_outcome \<Rightarrow> pystr option \<Rightarrow> spool_entry" where
  "attempted e outcome error = e\<lparr>se_attempts := se_attempts e + 1, se_state := outcome_str outcome,
     se_error := (if outcome = DELIVERED then None else error)\<rparr>"

definition record_attempt ::
  "pystr \<Rightarrow> int \<Rightarrow> spool_entry \<Rightarrow> spool_outcome \<Rightarrow> pystr option \<Rightarrow> spool \<Rightarrow> (pystr, spool_entry \<times> spool) result" where
  "record_attempt stamp now e outcome error sp =
     (let updated = attempted e outcome error
      in map_sum id (\<lambda>sp'. (updated, sp'))
        (if outcome = DELIVERED then remove_entry (se_key e) sp
         else if outcome = DROPPED_FULL then map_sum id (append_gap (gap_record e ''dropped_full'' stamp)) (remove_entry (se_key e) sp)
         else write_entry updated now sp))"

section \<open>The bound\<close>

definition file_order :: "spool_file \<Rightarrow> int \<times> pystr" where
  "file_order f = (case parse_entry f of Some e \<Rightarrow> (se_created e, stem (sf_name f)) | None \<Rightarrow> (sf_mtime f, stem (sf_name f)))"

definition eviction_gap :: "pystr \<Rightarrow> spool_file \<Rightarrow> py" where
  "eviction_gap stamp f = (case parse_entry f of Some e \<Rightarrow> gap_record e ''dropped_full'' stamp
     | None \<Rightarrow> gap_line (stem (sf_name f)) PNone PNone ''dropped_full'' stamp)"

fun evict :: "pystr \<Rightarrow> int \<Rightarrow> int \<Rightarrow> int \<Rightarrow> int \<Rightarrow> spool_file list \<Rightarrow> spool \<Rightarrow> pystr list \<times> spool" where
  "evict stamp max_files max_bytes files_left bytes_left [] sp = ([], sp)"
| "evict stamp max_files max_bytes files_left bytes_left (f # fs) sp =
     (if files_left \<le> max_files \<and> bytes_left \<le> max_bytes then ([], sp)
      else (let (ks, sp') = evict stamp max_files max_bytes (files_left - 1) (bytes_left - sf_size f) fs
              (append_gap (eviction_gap stamp f) (unlink (sf_name f) sp))
        in (stem (sf_name f) # ks, sp')))"

definition enforce_cap :: "pystr \<Rightarrow> int \<Rightarrow> int \<Rightarrow> spool \<Rightarrow> pystr list \<times> spool" where
  "enforce_cap stamp max_files max_bytes sp =
     (let files = entry_files sp; all_bytes = sum_list (map sf_size files)
      in if int (length files) \<le> max_files \<and> all_bytes \<le> max_bytes then ([], sp)
         else evict stamp max_files max_bytes (int (length files)) all_bytes (sort_key file_order files) sp)"

section \<open>The state file\<close>

definition default_state :: "(pystr \<times> py) list" where
  "default_state = [(''capture_delivery_state'', PStr ''unknown''), (''pending_count'', PInt 0), (''last_delivered_at'', PNone),
     (''last_error'', PNone), (''last_attempt_at'', PNone), (''last_warned_at'', PNone), (''gap_since'', PNone),
     (''failures_since_delivery'', PInt 0), (''schema_version'', PStr SPOOL_SCHEMA_VERSION)]"

definition known_state :: "(pystr \<times> py) list \<Rightarrow> bool" where
  "known_state st = (py_get st ''capture_delivery_state'' \<in> PStr ` set DELIVERY_STATES)"

definition load_state :: "spool \<Rightarrow> (pystr \<times> py) list" where
  "load_state sp = (case find (\<lambda>f. sf_name f = STATE_FILE) (sp_files sp) of
       Some f \<Rightarrow>
         (case sf_json f of
            None \<Rightarrow> default_state
          | Some v \<Rightarrow>
              (let st = (case v of PDict m \<Rightarrow> fold (\<lambda>(k, w). dict_set k w) m default_state | _ \<Rightarrow> default_state)
               in if known_state st then st else dict_set ''capture_delivery_state'' (PStr ''unknown'') st))
     | None \<Rightarrow> default_state)"

definition save_state :: "(pystr \<times> py) list \<Rightarrow> int \<Rightarrow> spool \<Rightarrow> (pystr, spool) result" where
  "save_state st now sp =
     (if \<not> known_state st then Err ''capture_delivery_state must be one of the known ones''
      else Ok (atomic_write STATE_FILE (PDict (fold (\<lambda>(k, w). dict_set k w) st default_state)) now sp))"

definition int_or_zero :: "py \<Rightarrow> int" where
  "int_or_zero v = (case number v of Some i \<Rightarrow> i | None \<Rightarrow> 0)"

definition apply_delivery_outcome :: "spool_outcome \<Rightarrow> int \<Rightarrow> pystr option \<Rightarrow> int \<Rightarrow> (pystr \<times> py) list \<Rightarrow> (pystr \<times> py) list" where
  "apply_delivery_outcome outcome pending error stamp st =
     (let st1 = dict_set ''last_attempt_at'' (PInt stamp) (dict_set ''pending_count'' (PInt (max 0 pending)) st)
      in if outcome = DELIVERED
         then dict_set ''gap_since'' PNone (dict_set ''failures_since_delivery'' (PInt 0) (dict_set ''last_error'' PNone
           (dict_set ''last_delivered_at'' (PInt stamp) (dict_set ''capture_delivery_state'' (PStr ''delivered'') st1))))
         else (let st2 = dict_set ''failures_since_delivery'' (PInt (int_or_zero (py_get st1 ''failures_since_delivery'') + 1))
               (dict_set ''last_error'' (opt_py PStr error) (dict_set ''capture_delivery_state'' (PStr (outcome_str outcome)) st1))
           in if outcome = DROPPED_FULL \<and> py_get st2 ''gap_since'' = PNone then dict_set ''gap_since'' (PInt stamp) st2 else st2))"

definition classify_http :: "int option \<Rightarrow> spool_outcome" where
  "classify_http status = (case status of
       Some n \<Rightarrow> if 200 \<le> n \<and> n < 300 \<or> n = 409 then DELIVERED else if n \<in> {401, 403, 422} then FAILED else SPOOLED
     | None \<Rightarrow> SPOOLED)"

section \<open>The hook\<close>

definition DRAIN_MAX_ENTRIES :: nat where
  "DRAIN_MAX_ENTRIES = 5"

definition NOISY_STATES :: "pystr list" where
  "NOISY_STATES = [''spooled'', ''failed'', ''dropped_full'', ''disabled'']"

text \<open>What the server answers to an entry: status and error text, as \<open>post_capture\<close> returns them.\<close>

type_synonym post = "spool_entry \<Rightarrow> int option \<times> pystr option"

definition deliver :: "post \<Rightarrow> pystr \<Rightarrow> int \<Rightarrow> spool_entry \<Rightarrow> spool \<Rightarrow> (pystr, (spool_entry \<times> pystr option) \<times> spool) result" where
  "deliver post stamp now e sp = (let (status, error) = post e
     in map_sum id (\<lambda>(updated, sp'). ((updated, error), sp')) (record_attempt stamp now e (classify_http status) error sp))"

text \<open>\<open>left\<close> tells for an entry whether the time budget still allows its delivery.\<close>

fun drain_entries ::
  "post \<Rightarrow> (spool_entry \<Rightarrow> bool) \<Rightarrow> pystr \<Rightarrow> int \<Rightarrow> pystr \<Rightarrow> nat \<Rightarrow> pystr option \<times> pystr option \<Rightarrow> spool_entry list \<Rightarrow> spool
    \<Rightarrow> (pystr, (pystr option \<times> pystr option) \<times> spool) result" where
  "drain_entries post left stamp now skip drained prior [] sp = Ok (prior, sp)"
| "drain_entries post left stamp now skip drained prior (e # es) sp =
     (if se_key e = skip \<or> \<not> retryable e then drain_entries post left stamp now skip drained prior es sp
      else if DRAIN_MAX_ENTRIES \<le> drained \<or> \<not> left e then Ok (prior, sp)
      else (case deliver post stamp now e sp of
          Inl er \<Rightarrow> Err er
        | Inr ((updated, error), sp') \<Rightarrow>
            if se_state updated \<noteq> outcome_str DELIVERED then Ok ((Some (se_state updated), error), sp')
            else drain_entries post left stamp now skip (drained + 1) (Some (se_state updated), error) es sp'))"

definition drain_backlog ::
  "post \<Rightarrow> (spool_entry \<Rightarrow> bool) \<Rightarrow> pystr \<Rightarrow> int \<Rightarrow> pystr \<Rightarrow> spool \<Rightarrow> (pystr, (pystr option \<times> pystr option) \<times> spool) result" where
  "drain_backlog post left stamp now skip sp =
     (let (es, sp') = read_entries stamp (int DRAIN_MAX_ENTRIES + 1) sp in drain_entries post left stamp now skip 0 (None, None) es sp')"

definition should_warn :: "(pystr \<times> py) list \<Rightarrow> int \<Rightarrow> bool" where
  "should_warn st now =
     (let state = (let v = py_get st ''capture_delivery_state'' in if truthy v then py_str v else ''unknown'')
      in if state \<notin> set NOISY_STATES then False
         else if py_get st ''last_warned_state'' \<noteq> PStr state then True
         else (if state = ''disabled'' then 3600 else 600) \<le> now - int_or_zero (py_get st ''last_warned_at''))"

text \<open>The health of the channel that the body carries; \<open>to_iso\<close> formats a reading of the clock.\<close>

definition body_health :: "(int \<Rightarrow> pystr) \<Rightarrow> (pystr \<times> py) list \<Rightarrow> int \<Rightarrow> (pystr \<times> py) list" where
  "body_health to_iso st pending_before =
     [(''spool_depth'', PInt (max 0 pending_before)), (''spool_failures'', PInt (max 0 (int_or_zero (py_get st ''failures_since_delivery'')))),
      (''gap_since'', opt_py (\<lambda>i. PStr (to_iso i)) (number (py_get st ''gap_since'')))]"

text \<open>\<open>_finish\<close>: whether the user is warned, and the state that is saved.\<close>

definition finish_hook :: "(pystr \<times> py) list \<Rightarrow> int \<Rightarrow> spool \<Rightarrow> bool \<times> spool" where
  "finish_hook st now sp =
     (let warn = should_warn st now;
          st' = (if warn then dict_set ''last_warned_state'' (py_get st ''capture_delivery_state'') (dict_set ''last_warned_at'' (PInt now) st) else st)
      in case save_state st' now sp of Inl _ \<Rightarrow> (True, sp) | Inr sp' \<Rightarrow> (warn, sp'))"

text \<open>The outcomes folded into the state, steps 5 and 6 of \<open>run\<close>.\<close>

definition fold_outcomes ::
  "pystr list \<Rightarrow> spool_outcome \<Rightarrow> pystr option \<Rightarrow> pystr option \<times> pystr option \<Rightarrow> int \<Rightarrow> int \<Rightarrow> (pystr \<times> py) list \<Rightarrow> (pystr \<times> py) list" where
  "fold_outcomes evicted outcome error drain pending now st =
     (let st1 = (if evicted \<noteq> [] then apply_delivery_outcome DROPPED_FULL pending
            (Some (''spool full: dropped '' @ str_int (int (length evicted)) @ '' capture(s)'')) now st else st);
          st2 = apply_delivery_outcome outcome pending error now st1;
          st3 = (if evicted \<noteq> [] \<and> outcome \<noteq> DELIVERED then dict_set ''capture_delivery_state'' (PStr ''dropped_full'') st2 else st2)
      in case fst drain of
           Some d \<Rightarrow>
             if d \<noteq> outcome_str DELIVERED \<and> py_get st3 ''capture_delivery_state'' = PStr ''delivered''
             then dict_set ''capture_delivery_state'' (PStr (if d \<in> {''spooled'', ''failed''} then d else ''spooled''))
               (dict_set ''last_error'' (opt_py PStr (snd drain)) st3)
             else st3
         | None \<Rightarrow> st3)"

text \<open>
  \<open>run\<close> from step 1 on, for an entry with a fresh body: spooled before any request, the bound, the delivery, the backlog.
  \<open>drains\<close> tells whether enough time is left for the backlog.
\<close>

definition hook_run ::
  "post \<Rightarrow> (spool_entry \<Rightarrow> bool) \<Rightarrow> bool \<Rightarrow> pystr \<Rightarrow> int \<Rightarrow> spool_entry \<Rightarrow> spool \<Rightarrow> (pystr, bool \<times> spool) result" where
  "hook_run post left drains stamp now e sp =
     (let st = load_state sp in
      case write_entry e now sp of
        Inl er \<Rightarrow> Ok (finish_hook (dict_set ''last_attempt_at'' (PInt now) (dict_set ''last_error'' (PStr ''spool write: ValueError'')
            (dict_set ''capture_delivery_state'' (PStr ''failed'') st))) now sp)
      | Inr sp1 \<Rightarrow>
          (let (evicted, sp2) = enforce_cap stamp DEFAULT_MAX_FILES DEFAULT_MAX_BYTES sp1 in
           res_bind (deliver post stamp now e sp2) (\<lambda>((updated, error), sp3).
           res_bind (if se_state updated = outcome_str DELIVERED \<and> drains then drain_backlog post left stamp now (se_key e) sp3 else Ok ((None, None), sp3))
             (\<lambda>(drain, sp4). Ok (finish_hook (fold_outcomes evicted (classify_http (fst (post e))) error drain (pending_count sp4) now st) now sp4)))))"

end
