(* ===== verification/Capture_Spool_Facts.thy ===== *)
theory Capture_Spool_Facts
  imports Capture_Spool
begin

text \<open>What the capture spool guarantees, and where a capture waits for ever or is lost in silence.\<close>

section \<open>Names\<close>

lemma spool_path_Ok: "spool_path k = Ok n \<longleftrightarrow> valid_key k \<and> n = k @ ENTRY_SUFFIX"
  by (auto simp: spool_path_def)

lemma ends_with_iff: "ends_with p s \<longleftrightarrow> (\<exists>t. s = t @ p)"
  unfolding ends_with_def starts_with_iff by (metis rev_append rev_rev_ident)

lemma stem_suffix [simp]: "stem (k @ ENTRY_SUFFIX) = k"
  by (simp add: stem_def)

lemma suffix_stem: "ends_with ENTRY_SUFFIX s \<Longrightarrow> stem s @ ENTRY_SUFFIX = s"
  by (auto simp: ends_with_iff)

lemma valid_key_head: "valid_key k \<Longrightarrow> \<exists>c cs. k = c # cs \<and> c \<in> set hex_digits"
  by (cases k) (auto simp: valid_key_def)

text \<open>The file of a valid key is an entry file.\<close>

lemma valid_key_entry:
  assumes "valid_key k" "sf_name f = k @ ENTRY_SUFFIX"
  shows "is_entry_file f"
proof -
  obtain c cs where k: "k = c # cs" "c \<in> set hex_digits" using valid_key_head [OF assms(1)] by blast
  then have "c \<noteq> CHR ''.''" by (auto simp: hex_digits_def)
  moreover have "k \<noteq> ''state''" using assms(1) by (auto simp: valid_key_def hex_digits_def)
  ultimately show ?thesis using assms(2) k(1)
    by (auto simp: is_entry_file_def ends_with_iff starts_with_def TMP_PREFIX_def STATE_FILE_def ENTRY_SUFFIX_def)
qed

lemma parse_entry_key: "parse_entry f = Some e \<Longrightarrow> se_key e = stem (sf_name f)"
  by (auto simp: parse_entry_def split: option.splits py.splits if_split_asm)

lemma entry_file_name: "is_entry_file f \<Longrightarrow> parse_entry f = Some e \<Longrightarrow> sf_name f = se_key e @ ENTRY_SUFFIX"
  using parse_entry_key suffix_stem by (metis is_entry_file_def)

lemma not_corrupt_name: "is_entry_file f \<Longrightarrow> sf_name f \<noteq> n @ CORRUPT_SUFFIX"
  by (auto simp: is_entry_file_def ends_with_iff ENTRY_SUFFIX_def CORRUPT_SUFFIX_def append_eq_append_conv2 Cons_eq_append_conv append_eq_Cons_conv)

text \<open>What was written is read back.\<close>

lemma parse_written:
  "parse_entry \<lparr>sf_name = se_key e @ ENTRY_SUFFIX, sf_json = Some (entry_payload e), sf_size = n, sf_mtime = m\<rparr> = Some e"
  by (cases e; cases "se_error e") (simp_all add: parse_entry_def entry_payload_def number_def py_str_def)

section \<open>Which files an operation touches\<close>

definition has_file :: "spool_file \<Rightarrow> spool \<Rightarrow> bool" where
  "has_file f sp = (f \<in> set (sp_files sp))"

definition good_names :: "spool \<Rightarrow> bool" where
  "good_names sp = distinct (map sf_name (sp_files sp))"

lemma append_gap_files [simp]: "sp_files (append_gap v sp) = sp_files sp"
  by (simp add: append_gap_def Let_def)

lemma unlink_files [simp]: "sp_files (unlink n sp) = filter (\<lambda>f. sf_name f \<noteq> n) (sp_files sp)" "sp_gaps (unlink n sp) = sp_gaps sp"
  by (simp_all add: unlink_def)

lemma distinct_filter_names: "distinct (map sf_name fs) \<Longrightarrow> distinct (map sf_name (filter P fs))"
  by (induction fs) auto

lemma atomic_write_keep: "has_file f sp \<Longrightarrow> sf_name f \<noteq> n \<Longrightarrow> has_file f (atomic_write n v now sp)"
  by (simp add: has_file_def atomic_write_def Let_def)

lemma atomic_write_names: "good_names sp \<Longrightarrow> good_names (atomic_write n v now sp)"
  by (auto simp: good_names_def atomic_write_def Let_def distinct_filter_names)

lemma write_entry_keep:
  assumes "write_entry e now sp = Ok sp'"
  shows "(has_file f sp \<and> sf_name f \<noteq> se_key e @ ENTRY_SUFFIX \<longrightarrow> has_file f sp') \<and> (good_names sp \<longrightarrow> good_names sp')"
  using assms by (auto simp: write_entry_def spool_path_def atomic_write_keep atomic_write_names split: if_split_asm)

lemma remove_entry_keep:
  assumes "remove_entry k sp = Ok sp'"
  shows "(has_file f sp \<and> sf_name f \<noteq> k @ ENTRY_SUFFIX \<longrightarrow> has_file f sp') \<and> (good_names sp \<longrightarrow> good_names sp')"
  using assms by (auto simp: remove_entry_def spool_path_def has_file_def good_names_def distinct_filter_names split: if_split_asm)

lemma record_attempt_keep:
  assumes "record_attempt stamp now e oc er sp = Ok (u, sp')"
  shows "(has_file f sp \<and> sf_name f \<noteq> se_key e @ ENTRY_SUFFIX \<longrightarrow> has_file f sp') \<and> (good_names sp \<longrightarrow> good_names sp')"
proof (cases oc)
  case DELIVERED
  then have "remove_entry (se_key e) sp = Ok sp'" using assms
    by (cases "remove_entry (se_key e) sp") (auto simp: record_attempt_def Let_def)
  then show ?thesis by (rule remove_entry_keep)
next
  case DROPPED_FULL
  then obtain sp1 where "remove_entry (se_key e) sp = Ok sp1" "sp_files sp' = sp_files sp1"
    using assms by (cases "remove_entry (se_key e) sp") (auto simp: record_attempt_def Let_def)
  with remove_entry_keep [OF this(1), of f] show ?thesis by (simp add: has_file_def good_names_def)
next
  case SPOOLED
  then have "write_entry (attempted e oc er) now sp = Ok sp'" using assms
    by (cases "write_entry (attempted e oc er) now sp") (auto simp: record_attempt_def Let_def)
  from write_entry_keep [OF this, of f] show ?thesis by (simp add: attempted_def)
next
  case FAILED
  then have "write_entry (attempted e oc er) now sp = Ok sp'" using assms
    by (cases "write_entry (attempted e oc er) now sp") (auto simp: record_attempt_def Let_def)
  from write_entry_keep [OF this, of f] show ?thesis by (simp add: attempted_def)
qed

lemma quarantine_keep:
  assumes "has_file f sp" "is_entry_file f" "sf_name f \<noteq> sf_name g"
  shows "has_file f (quarantine stamp g sp)"
  using assms not_corrupt_name [OF assms(2), of "sf_name g"] by (auto simp: has_file_def quarantine_def Let_def)

lemma quarantine_names: "good_names sp \<Longrightarrow> good_names (quarantine stamp g sp)"
  by (auto simp: good_names_def quarantine_def Let_def distinct_filter_names)

lemma read_entries_keep:
  assumes "read_entries stamp n sp = (es, sp')" "good_names sp"
  shows "good_names sp' \<and> (has_file f sp \<and> is_entry_file f \<and> parse_entry f \<noteq> None \<longrightarrow> has_file f sp')"
proof -
  have names: "good_names (fold (quarantine stamp) gs s)" if "good_names s" for gs s
    using that by (induction gs arbitrary: s) (simp_all add: quarantine_names)
  have keep: "has_file f (fold (quarantine stamp) gs s)" if "has_file f s" "is_entry_file f" "sf_name f \<notin> sf_name ` set gs" for gs s
    using that by (induction gs arbitrary: s) (simp_all add: quarantine_keep)
  have "sf_name f \<notin> sf_name ` set (filter (\<lambda>g. parse_entry g = None) (entry_files sp))" if "has_file f sp" "parse_entry f \<noteq> None"
  proof
    assume "sf_name f \<in> sf_name ` set (filter (\<lambda>g. parse_entry g = None) (entry_files sp))"
    then obtain g where "g \<in> set (sp_files sp)" "parse_entry g = None" "sf_name g = sf_name f" by (auto simp: entry_files_def)
    with distinct_on [OF assms(2) [unfolded good_names_def], of f g] that show False by (auto simp: has_file_def)
  qed
  then show ?thesis using assms names keep by (auto simp: read_entries_def Let_def split: if_split_asm)
qed

lemma read_entries_from: "read_entries stamp n sp = (es, sp') \<Longrightarrow> x \<in> set es \<Longrightarrow> \<exists>f. has_file f sp \<and> is_entry_file f \<and> parse_entry f = Some x"
  by (auto simp: read_entries_def Let_def has_file_def entry_files_def List.map_filter_def split: if_split_asm dest!: in_set_takeD) blast

lemma deliver_keep:
  assumes "deliver post stamp now e sp = Ok ((u, er), sp')"
  shows "(has_file f sp \<and> sf_name f \<noteq> se_key e @ ENTRY_SUFFIX \<longrightarrow> has_file f sp') \<and> (good_names sp \<longrightarrow> good_names sp')"
proof -
  obtain u' where "record_attempt stamp now e (classify_http (fst (post e))) (snd (post e)) sp = Ok (u', sp')"
    using assms by (cases "record_attempt stamp now e (classify_http (fst (post e))) (snd (post e)) sp")
      (auto simp: deliver_def split_beta)
  then show ?thesis by (rule record_attempt_keep)
qed

lemma drain_entries_keep:
  assumes "drain_entries post left stamp now skip n prior es sp = Ok (r, sp')" "good_names sp"
    and "\<forall>x \<in> set es. retryable x \<longrightarrow> sf_name f \<noteq> se_key x @ ENTRY_SUFFIX"
  shows "good_names sp' \<and> (has_file f sp \<longrightarrow> has_file f sp')"
  using assms
proof (induction post left stamp now skip n prior es sp rule: drain_entries.induct)
  case (2 post left stamp now skip n prior e es sp)
  show ?case
  proof (cases "se_key e = skip \<or> \<not> retryable e")
    case True
    then show ?thesis using 2 by auto
  next
    case tried: False
    show ?thesis
    proof (cases "DRAIN_MAX_ENTRIES \<le> n \<or> \<not> left e")
      case True
      then show ?thesis using 2 tried by auto
    next
      case False
      then obtain u er sp1 where d: "deliver post stamp now e sp = Ok ((u, er), sp1)"
        using "2.prems"(1) tried by (auto split: sum.splits)
      note k = deliver_keep [OF d, of f]
      show ?thesis
      proof (cases "se_state u = outcome_str DELIVERED")
        case True
        then show ?thesis using "2.IH"(2) [OF tried False d refl refl] "2.prems" tried False d k by auto
      next
        case no: False
        then show ?thesis using "2.prems" tried False d k by auto
      qed
    qed
  qed
qed simp

section \<open>Entries that wait behind others\<close>

definition entry_rank :: "spool_entry \<Rightarrow> int \<times> pystr" where
  "entry_rank e = (se_created e, se_key e)"

text \<open>In the first \<open>n\<close> of a sorted list, with an element comes everything smaller.\<close>

lemma take_sorted_closed:
  assumes "x \<in> set (take n (sort_key f xs))" "y \<in> set xs" "f y < f x"
  shows "y \<in> set (take n (sort_key f xs))"
proof (rule ccontr)
  assume no: "y \<notin> set (take n (sort_key f xs))"
  have "set (take n (sort_key f xs)) \<union> set (drop n (sort_key f xs)) = set xs"
    by (metis append_take_drop_id set_append set_sort)
  then have "y \<in> set (drop n (sort_key f xs))" using assms(2) no by blast
  moreover have "sorted (map f (take n (sort_key f xs)) @ map f (drop n (sort_key f xs)))"
    by (metis append_take_drop_id map_append sorted_sort_key)
  ultimately have "f x \<le> f y" using assms(1) by (auto simp: sorted_append)
  with assms(3) show False by simp
qed

text \<open>Six files that are not to be retried and are older than \<open>x\<close>.\<close>

definition behind_six :: "spool_file list \<Rightarrow> spool_entry \<Rightarrow> spool \<Rightarrow> bool" where
  "behind_six ds x sp = (length ds = 6 \<and> distinct (map sf_name ds) \<and> (\<forall>d \<in> set ds. has_file d sp \<and> is_entry_file d
     \<and> (\<exists>y. parse_entry d = Some y \<and> \<not> retryable y \<and> entry_rank y < entry_rank x)))"

lemma behind_six_not_read:
  assumes "behind_six ds x sp"
  shows "x \<notin> set (fst (read_entries stamp 6 sp))"
proof
  let ?all = "List.map_filter parse_entry (entry_files sp)" and ?y = "\<lambda>d. the (parse_entry d)"
  assume "x \<in> set (fst (read_entries stamp 6 sp))"
  then have x: "x \<in> set (take 6 (sort_key entry_rank ?all))" by (simp add: read_entries_def Let_def entry_rank_def [abs_def])
  have d: "has_file d sp \<and> is_entry_file d \<and> (\<exists>y. parse_entry d = Some y \<and> \<not> retryable y \<and> entry_rank y < entry_rank x)" if "d \<in> set ds" for d
    using assms that by (simp add: behind_six_def)
  have y: "?y d \<in> set (take 6 (sort_key entry_rank ?all)) \<and> entry_rank (?y d) < entry_rank x" if "d \<in> set ds" for d
  proof -
    note dd = d [OF that]
    then obtain y where y: "parse_entry d = Some y" "entry_rank y < entry_rank x" by blast
    then have "y \<in> set ?all" using dd by (force simp: List.map_filter_def entry_files_def has_file_def)
    with take_sorted_closed [OF x this] y show ?thesis by simp
  qed
  have "inj_on ?y (set ds)"
  proof (rule inj_onI)
    fix a b assume ab: "a \<in> set ds" "b \<in> set ds" "?y a = ?y b"
    then have "sf_name a = sf_name b" using d entry_file_name by (metis option.sel)
    with ab show "a = b" using assms distinct_on [of sf_name ds a b] by (simp add: behind_six_def)
  qed
  then have "card (?y ` set ds) = 6" using assms distinct_card [of ds] by (simp add: behind_six_def card_image distinct_map)
  moreover have "x \<notin> ?y ` set ds" using y by blast
  ultimately have "card (insert x (?y ` set ds)) = 7" by simp
  moreover have "insert x (?y ` set ds) \<subseteq> set (take 6 (sort_key entry_rank ?all))" using x y by blast
  ultimately have "7 \<le> card (set (take 6 (sort_key entry_rank ?all)))" using card_mono [OF finite_set] by metis
  moreover have "card (set (take 6 (sort_key entry_rank ?all))) \<le> 6"
    using card_length [of "take 6 (sort_key entry_rank ?all)"] by simp
  ultimately show False by simp
qed

text \<open>The drain leaves every file whose entry it does not read or does not retry.\<close>

lemma drain_backlog_keep:
  assumes d: "drain_backlog post left stamp now skip sp = Ok (r, sp')" and names: "good_names sp"
    and f: "has_file f sp" "is_entry_file f" "parse_entry f = Some y"
    and y: "\<not> retryable y \<or> y \<notin> set (fst (read_entries stamp 6 sp))"
  shows "has_file f sp'"
proof -
  obtain es sp1 where r: "read_entries stamp 6 sp = (es, sp1)" by fastforce
  then have drain: "drain_entries post left stamp now skip 0 (None, None) es sp1 = Ok (r, sp')"
    using d by (simp add: drain_backlog_def DRAIN_MAX_ENTRIES_def)
  have "\<forall>x \<in> set es. retryable x \<longrightarrow> sf_name f \<noteq> se_key x @ ENTRY_SUFFIX"
  proof (intro ballI impI notI)
    fix x assume x: "x \<in> set es" "retryable x" "sf_name f = se_key x @ ENTRY_SUFFIX"
    obtain g where g: "has_file g sp" "is_entry_file g" "parse_entry g = Some x" using read_entries_from [OF r x(1)] by blast
    then have "sf_name g = sf_name f" using x(3) entry_file_name [OF g(2,3)] by simp
    then have "g = f" using names f(1) g(1) by (auto simp: good_names_def has_file_def intro: distinct_on)
    with g f x y r show False by simp
  qed
  moreover have "good_names sp1 \<and> has_file f sp1" using read_entries_keep [OF r names, of f] f by simp
  ultimately show ?thesis using drain_entries_keep [OF drain] by blast
qed

lemma evict_none: "evict stamp mf mb n b fs sp = ([], sp') \<Longrightarrow> sp' = sp"
  by (cases fs) (auto split: if_split_asm prod.splits)

lemma enforce_cap_none: "enforce_cap stamp mf mb sp = ([], sp') \<Longrightarrow> sp' = sp"
  by (auto simp: enforce_cap_def Let_def split: if_split_asm dest: evict_none)

lemma finish_hook_keep:
  assumes "has_file f sp" "sf_name f \<noteq> STATE_FILE"
  shows "has_file f (snd (finish_hook st now sp))"
  using assms by (auto simp: finish_hook_def Let_def save_state_def atomic_write_keep split: sum.split if_split)

lemma finish_hook_names: "good_names sp \<Longrightarrow> good_names (snd (finish_hook st now sp))"
  by (auto simp: finish_hook_def Let_def save_state_def atomic_write_names split: sum.split if_split)

text \<open>The parts of a run.\<close>

lemma hook_run_parts:
  assumes "hook_run post left drains stamp now e sp = Ok (warned, sp')" "valid_key (se_key e)"
  obtains sp1 evicted sp2 u er sp3 drain sp4 where "write_entry e now sp = Ok sp1" "enforce_cap stamp DEFAULT_MAX_FILES DEFAULT_MAX_BYTES sp1 = (evicted, sp2)"
    "deliver post stamp now e sp2 = Ok ((u, er), sp3)"
    "(if se_state u = outcome_str DELIVERED \<and> drains then drain_backlog post left stamp now (se_key e) sp3 else Ok ((None, None), sp3)) = Ok (drain, sp4)"
    "(warned, sp') = finish_hook (fold_outcomes evicted (classify_http (fst (post e))) er drain (pending_count sp4) now (load_state sp)) now sp4"
proof -
  obtain sp1 where w: "write_entry e now sp = Ok sp1" using assms(2) by (auto simp: write_entry_def spool_path_def)
  obtain evicted sp2 where c: "enforce_cap stamp DEFAULT_MAX_FILES DEFAULT_MAX_BYTES sp1 = (evicted, sp2)" by fastforce
  obtain u er sp3 where d: "deliver post stamp now e sp2 = Ok ((u, er), sp3)"
    using assms(1) w c by (auto simp: hook_run_def Let_def res_bind_Ok_iff)
  let ?d = "if se_state u = outcome_str DELIVERED \<and> drains then drain_backlog post left stamp now (se_key e) sp3 else Ok ((None, None), sp3)"
  obtain drain sp4 where dr: "?d = Ok (drain, sp4)" using assms(1) w c d by (auto simp: hook_run_def Let_def res_bind_Ok_iff)
  have "(warned, sp') = finish_hook (fold_outcomes evicted (classify_http (fst (post e))) er drain (pending_count sp4) now (load_state sp)) now sp4"
    using assms(1) by (simp add: hook_run_def Let_def w c d dr del: outcome_str.simps)
  with w c d dr show thesis by (rule that)
qed

text \<open>One run of the hook that evicts nothing, for an entry that is not in the spool.\<close>

inductive hook_step :: "spool \<Rightarrow> spool \<Rightarrow> bool" where
  "hook_run post left drains stamp now e sp = Ok (warned, sp') \<Longrightarrow> valid_key (se_key e)
    \<Longrightarrow> se_key e @ ENTRY_SUFFIX \<notin> sf_name ` set (sp_files sp) \<Longrightarrow> write_entry e now sp = Ok sp1
    \<Longrightarrow> fst (enforce_cap stamp DEFAULT_MAX_FILES DEFAULT_MAX_BYTES sp1) = [] \<Longrightarrow> hook_step sp sp'"

lemma hook_step_keep:
  assumes step: "hook_step sp sp'" and names: "good_names sp" and six: "behind_six ds x sp"
    and f: "has_file f sp" "is_entry_file f" "parse_entry f = Some y" "f \<in> set ds \<or> y = x"
  shows "good_names sp' \<and> has_file f sp'"
  using step
proof cases
  case (1 post left drains stamp now e warned sp1)
  obtain sp1' evicted sp2 u er sp3 drain sp4 where w: "write_entry e now sp = Ok sp1'"
    and c: "enforce_cap stamp DEFAULT_MAX_FILES DEFAULT_MAX_BYTES sp1' = (evicted, sp2)"
    and d: "deliver post stamp now e sp2 = Ok ((u, er), sp3)"
    and dr: "(if se_state u = outcome_str DELIVERED \<and> drains then drain_backlog post left stamp now (se_key e) sp3 else Ok ((None, None), sp3)) = Ok (drain, sp4)"
    and fin: "(warned, sp') = finish_hook (fold_outcomes evicted (classify_http (fst (post e))) er drain (pending_count sp4) now (load_state sp)) now sp4"
    by (rule hook_run_parts [OF 1(1,2)])
  have "sp2 = sp1'" using c w 1(4,5) enforce_cap_none by auto
  have fresh: "sf_name g \<noteq> se_key e @ ENTRY_SUFFIX" if "has_file g sp" for g using 1(3) that by (metis has_file_def imageI)
  have k1: "has_file g sp1' \<and> good_names sp1'" if "has_file g sp" for g
    using write_entry_keep [OF w, of g] fresh [OF that] that names by simp
  then have k3: "has_file g sp3 \<and> good_names sp3" if "has_file g sp" for g
    using deliver_keep [OF d, of g] fresh [OF that] that \<open>sp2 = sp1'\<close> by simp
  have six3: "behind_six ds x sp3" using six k3 by (simp add: behind_six_def)
  have "\<not> retryable y \<or> y \<notin> set (fst (read_entries stamp 6 sp3))"
    using f(3,4) six behind_six_not_read [OF six3, of stamp] by (auto simp: behind_six_def)
  then have k4: "good_names sp4 \<and> has_file f sp4"
  proof (cases "se_state u = outcome_str DELIVERED \<and> drains")
    case True
    then have b: "drain_backlog post left stamp now (se_key e) sp3 = Ok (drain, sp4)" using dr by simp
    obtain es s where r: "read_entries stamp 6 sp3 = (es, s)" by fastforce
    have "drain_entries post left stamp now (se_key e) 0 (None, None) es s = Ok (drain, sp4)"
      using b r by (simp add: drain_backlog_def DRAIN_MAX_ENTRIES_def)
    then have "good_names sp4"
    proof (rule drain_entries_keep [where f = "f\<lparr>sf_name := []\<rparr>", THEN conjunct1])
      show "good_names s" using read_entries_keep [OF r] k3 [OF f(1)] by blast
    qed (simp add: ENTRY_SUFFIX_def)
    moreover have "has_file f sp4"
      using drain_backlog_keep [OF b _ _ f(2,3)] k3 [OF f(1)] \<open>\<not> retryable y \<or> y \<notin> set (fst (read_entries stamp 6 sp3))\<close> by blast
    ultimately show ?thesis ..
  next
    case False
    then show ?thesis using dr k3 [OF f(1)] by auto
  qed
  have "sf_name f \<noteq> STATE_FILE" using f(2) by (simp add: is_entry_file_def)
  with k4 show ?thesis using finish_hook_keep [of f sp4] finish_hook_names [of sp4] fin by (metis snd_conv)
qed

text \<open>
  C39. A capture can wait for ever in the spool (capture_spool.py, tce_capture_input.py): the drain reads only the six oldest
  entries and skips those whose permanent failures are used up, so behind six of them an entry is never sent again,
  whatever the server answers and however often the hook runs, until the bound evicts something.
\<close>

theorem dead_entries_block_the_spool:
  assumes run: "hook_step\<^sup>*\<^sup>* sp sp'" and names: "good_names sp" and six: "behind_six ds x sp"
    and f: "has_file f sp" "is_entry_file f" "parse_entry f = Some x"
  shows "behind_six ds x sp' \<and> has_file f sp' \<and> x \<notin> set (fst (read_entries stamp 6 sp'))"
proof -
  have "good_names sp' \<and> behind_six ds x sp' \<and> has_file f sp'"
    using run
  proof (induction rule: rtranclp_induct)
    case base
    then show ?case using names six f by blast
  next
    case (step s t)
    then have s: "good_names s" "behind_six ds x s" "has_file f s" by auto
    have "good_names t \<and> has_file f t" by (rule hook_step_keep [OF step.hyps(2) s(1,2,3) f(2,3)]) simp
    moreover have "has_file d t" if "d \<in> set ds" for d
    proof -
      obtain y where "has_file d s" "is_entry_file d" "parse_entry d = Some y" using s(2) \<open>d \<in> set ds\<close> by (auto simp: behind_six_def)
      from hook_step_keep [OF step.hyps(2) s(1,2) this] \<open>d \<in> set ds\<close> show ?thesis by blast
    qed
    ultimately show ?case using s(2) by (simp add: behind_six_def)
  qed
  with behind_six_not_read show ?thesis by blast
qed


section \<open>The state that is saved\<close>

lemma py_get_set [simp]: "py_get (dict_set k v d) k' = (if k' = k then v else py_get d k')"
  by (simp add: py_get_def update_conv)

lemma dict_set_keys_image: "fst ` set (dict_set k v d) = insert k (fst ` set d)"
  by (induction d) auto

definition updated_with :: "(pystr \<times> py) list \<Rightarrow> (pystr \<times> py) list \<Rightarrow> (pystr \<times> py) list" where
  "updated_with m d = fold (\<lambda>(k, w). dict_set k w) m d"

lemma updated_with_distinct: "distinct (map fst d) \<Longrightarrow> distinct (map fst (updated_with m d))"
  unfolding updated_with_def by (induction m arbitrary: d) (auto simp: distinct_update)

lemma py_get_updated:
  assumes "distinct (map fst m)"
  shows "py_get (updated_with m d) k = (if k \<in> fst ` set m then py_get m k else py_get d k)"
  using assms unfolding updated_with_def
proof (induction m arbitrary: d)
  case (Cons a m)
  then show ?case by (cases a) (auto simp: image_iff)
qed simp

lemma default_distinct: "distinct (map fst default_state)"
  by (simp add: default_state_def)

lemma load_state_distinct: "distinct (map fst (load_state sp))"
  unfolding load_state_def Let_def updated_with_def [symmetric]
  by (auto simp: default_distinct updated_with_distinct distinct_update split: option.split py.split)

lemma apply_outcome_distinct: "distinct (map fst st) \<Longrightarrow> distinct (map fst (apply_delivery_outcome oc n er now st))"
  by (simp add: apply_delivery_outcome_def Let_def distinct_update)

lemma saved_state_loads:
  assumes "known_state st" "distinct (map fst st)"
  shows "save_state st now sp = Ok (atomic_write STATE_FILE (PDict (updated_with st default_state)) now sp)"
    and "k \<in> fst ` set st \<Longrightarrow> py_get (load_state (atomic_write STATE_FILE (PDict (updated_with st default_state)) now sp)) k = py_get st k"
proof -
  let ?m = "updated_with st default_state" and ?sp = "atomic_write STATE_FILE (PDict (updated_with st default_state)) now sp"
  show "save_state st now sp = Ok ?sp" using assms(1) by (simp add: save_state_def updated_with_def)
  have m: "distinct (map fst ?m)" by (simp add: updated_with_distinct default_distinct)
  have keys: "fst ` set st \<subseteq> fst ` set ?m"
  proof -
    have "fst ` set (updated_with m d) = fst ` set m \<union> fst ` set d" for m d
      unfolding updated_with_def by (induction m arbitrary: d) (simp_all add: dict_set_keys_image split_beta Un_commute)
    then show ?thesis by blast
  qed
  have get: "py_get (updated_with ?m default_state) k = py_get st k" if "k \<in> fst ` set st" for k
    using that keys py_get_updated [OF m, of default_state k] py_get_updated [OF assms(2), of default_state k] by auto
  have "py_get st ''capture_delivery_state'' \<noteq> PNone" using assms(1) by (auto simp: known_state_def)
  then have "''capture_delivery_state'' \<in> fst ` set st" 
    by (force simp: py_get_def split: option.splits dest: map_of_SomeD)
  then have "known_state (updated_with ?m default_state)" using assms(1) by (simp add: known_state_def get)
  moreover have "find (\<lambda>f. sf_name f = STATE_FILE) (filter (\<lambda>f. sf_name f \<noteq> STATE_FILE) (sp_files sp)) = None"
    by (simp add: find_None_iff)
  then have "find (\<lambda>f. sf_name f = STATE_FILE) (sp_files ?sp)
      = Some \<lparr>sf_name = STATE_FILE, sf_json = Some (PDict ?m), sf_size = int (length (ascii_json (PDict ?m))), sf_mtime = now\<rparr>"
    by (simp add: atomic_write_def Let_def find_snoc)
  ultimately have "load_state ?sp = updated_with ?m default_state"
    by (simp add: load_state_def updated_with_def [symmetric] Let_def del: ascii_json.simps)
  then show "k \<in> fst ` set st \<Longrightarrow> py_get (load_state ?sp) k = py_get st k" using get by simp
qed

lemma drain_entries_accepted:
  assumes "drain_entries post left stamp now skip n prior es sp = Ok (r, sp')" "fst prior \<in> {None, Some ''delivered''}"
    and "\<And>x. classify_http (fst (post x)) = DELIVERED"
  shows "fst r \<in> {None, Some ''delivered''}"
  using assms
proof (induction post left stamp now skip n prior es sp rule: drain_entries.induct)
  case (2 post left stamp now skip n prior e es sp)
  show ?case
  proof (cases "se_key e = skip \<or> \<not> retryable e")
    case True
    then show ?thesis using 2 by auto
  next
    case tried: False
    show ?thesis
    proof (cases "DRAIN_MAX_ENTRIES \<le> n \<or> \<not> left e")
      case True
      then show ?thesis using 2 tried by auto
    next
      case False
      then obtain u er sp1 where d: "deliver post stamp now e sp = Ok ((u, er), sp1)"
        using "2.prems"(1) tried by (auto split: sum.splits)
      have "se_state u = outcome_str DELIVERED" using d "2.prems"(3) [of e]
        by (cases "remove_entry (se_key e) sp") (auto simp: deliver_def split_beta record_attempt_def Let_def attempted_def)
      then show ?thesis using "2.IH"(2) [OF tried False d refl refl] "2.prems" tried False d by auto
    qed
  qed
qed simp

text \<open>
  C40. A lost capture can go unnoticed (capture_spool.py, tce_capture_input.py): when the bound evicts captures and the server
  then accepts what is sent, the run ends without a warning, its state reads delivered without gap or failures, so the
  next body reports neither to the server.
\<close>

theorem evictions_go_unnoticed:
  assumes run: "hook_run post left drains stamp now e sp = Ok (warned, sp')" and key: "valid_key (se_key e)"
    and spooled: "write_entry e now sp = Ok sp1"
    and lost: "enforce_cap stamp DEFAULT_MAX_FILES DEFAULT_MAX_BYTES sp1 = (k # ks, sp2)"
    and accepted: "\<And>x. classify_http (fst (post x)) = DELIVERED"
  shows "\<not> warned \<and> py_get (load_state sp') ''capture_delivery_state'' = PStr ''delivered''
    \<and> py_get (load_state sp') ''last_error'' = PNone
    \<and> body_health to_iso (load_state sp') pending = [(''spool_depth'', PInt (max 0 pending)), (''spool_failures'', PInt 0), (''gap_since'', PNone)]"
proof -
  obtain sp1' evicted sp2' u er sp3 drain sp4 where p: "write_entry e now sp = Ok sp1'" "enforce_cap stamp DEFAULT_MAX_FILES DEFAULT_MAX_BYTES sp1' = (evicted, sp2')"
    "deliver post stamp now e sp2' = Ok ((u, er), sp3)"
    "(if se_state u = outcome_str DELIVERED \<and> drains then drain_backlog post left stamp now (se_key e) sp3 else Ok ((None, None), sp3)) = Ok (drain, sp4)"
    "(warned, sp') = finish_hook (fold_outcomes evicted (classify_http (fst (post e))) er drain (pending_count sp4) now (load_state sp)) now sp4"
    by (rule hook_run_parts [OF run key])
  have ev: "evicted = k # ks" using p(1,2) spooled lost by simp
  have "fst drain \<in> {None, Some ''delivered''}"
  proof (cases "se_state u = outcome_str DELIVERED \<and> drains")
    case True
    then have "drain_backlog post left stamp now (se_key e) sp3 = Ok (drain, sp4)" using p(4) by simp
    then obtain es s where "drain_entries post left stamp now (se_key e) 0 (None, None) es s = Ok (drain, sp4)"
      by (cases "read_entries stamp (int DRAIN_MAX_ENTRIES + 1) sp3") (simp add: drain_backlog_def)
    then show ?thesis by (rule drain_entries_accepted) (simp_all add: accepted)
  next
    case False
    then show ?thesis using p(4) by auto
  qed
  then have fine: "fst drain = None \<or> fst drain = Some ''delivered''" by simp
  define st0 where "st0 = apply_delivery_outcome DROPPED_FULL (pending_count sp4) (Some (''spool full: dropped '' @ str_int (int (length evicted)) @ '' capture(s)'')) now (load_state sp)"
  define st where "st = apply_delivery_outcome DELIVERED (pending_count sp4) er now st0"
  have fold: "fold_outcomes evicted (classify_http (fst (post e))) er drain (pending_count sp4) now (load_state sp) = st"
    using fine by (auto simp: fold_outcomes_def accepted ev st_def st0_def Let_def)
  have st: "py_get st ''capture_delivery_state'' = PStr ''delivered''" "py_get st ''last_error'' = PNone" "py_get st ''gap_since'' = PNone"
    "py_get st ''failures_since_delivery'' = PInt 0" "{''capture_delivery_state'', ''last_error'', ''gap_since'', ''failures_since_delivery''} \<subseteq> fst ` set st"
    by (auto simp: st_def apply_delivery_outcome_def Let_def dict_set_keys_image)
  have known: "known_state st" using st by (simp add: known_state_def DELIVERY_STATES_def)
  have dist: "distinct (map fst st)" by (simp add: st_def st0_def apply_outcome_distinct load_state_distinct)
  have "\<not> should_warn st now" using st by (simp add: should_warn_def truthy_def py_str_def NOISY_STATES_def)
  then have fin: "(warned, sp') = (False, atomic_write STATE_FILE (PDict (updated_with st default_state)) now sp4)"
    using p(5) saved_state_loads(1) [OF known dist] by (simp add: fold finish_hook_def Let_def)
  have get: "py_get (load_state sp') key = py_get st key" if "key \<in> fst ` set st" for key
    using saved_state_loads(2) [OF known dist that] fin by simp
  show ?thesis using fin get st by (simp add: body_health_def int_or_zero_def number_def opt_py_def)
qed

section \<open>The bound\<close>

lemma unlink_entry_files:
  assumes "distinct (map sf_name fs)" "f \<in> set fs"
  shows "set (filter (\<lambda>g. sf_name g \<noteq> sf_name f) fs) = set fs - {f}"
  using assms by (auto dest: distinct_on)

lemma evict_bound:
  assumes "evict stamp mf mb n b fs sp = (ks, sp')" "good_names sp" "set fs = set (entry_files sp)" "distinct (map sf_name fs)"
    and "n = int (length fs)" "b = sum_list (map sf_size fs)" "0 \<le> mf" "0 \<le> mb"
  shows "int (length (entry_files sp')) \<le> mf \<and> sum_list (map sf_size (entry_files sp')) \<le> mb"
  using assms
proof (induction stamp mf mb n b fs sp arbitrary: ks rule: evict.induct)
  case (1 stamp mf mb n b sp)
  then show ?case by simp
next
  case (2 stamp mf mb n b f fs sp)
  have names: "distinct (map sf_name (entry_files sp))" using "2.prems"(2) by (simp add: good_names_def entry_files_def distinct_filter_names)
  show ?case
  proof (cases "n \<le> mf \<and> b \<le> mb")
    case True
    have "mset (entry_files sp) = mset (f # fs)"
      using names "2.prems"(3,4) by (metis distinct_map set_eq_iff_mset_eq_distinct)
    then have "length (entry_files sp) = length (f # fs)" "sum_list (map sf_size (entry_files sp)) = sum_list (map sf_size (f # fs))"
      by (metis size_mset, metis mset_map sum_mset_sum_list)
    then show ?thesis using True 2 by simp
  next
    case False
    let ?sp = "append_gap (eviction_gap stamp f) (unlink (sf_name f) sp)"
    obtain ks' where e: "evict stamp mf mb (n - 1) (b - sf_size f) fs ?sp = (ks', sp')"
      using "2.prems"(1) False by (auto split: prod.splits)
    have g: "good_names ?sp" using "2.prems"(2) by (simp add: good_names_def distinct_filter_names)
    have "entry_files ?sp = filter (\<lambda>g. sf_name g \<noteq> sf_name f) (entry_files sp)" by (simp add: entry_files_def filter_filter conj_commute)
    moreover have "f \<in> set (entry_files sp)" using "2.prems"(3) by (metis list.set_intros(1))
    ultimately have "set (entry_files ?sp) = set (entry_files sp) - {f}" using unlink_entry_files [OF names] by simp
    also have "\<dots> = set fs" using "2.prems"(3) [symmetric] "2.prems"(4) by (force simp: distinct_map)
    finally have "set fs = set (entry_files ?sp)" ..
    then show ?thesis using "2.IH" [OF False e g] "2.prems" by simp
  qed
qed

text \<open>The bound holds afterwards.\<close>

lemma spool_is_bounded:
  assumes "enforce_cap stamp max_files max_bytes sp = (evicted, sp')" "good_names sp" "0 \<le> max_files" "0 \<le> max_bytes"
  shows "pending_count sp' \<le> max_files \<and> sum_list (map sf_size (entry_files sp')) \<le> max_bytes"
proof (cases "int (length (entry_files sp)) \<le> max_files \<and> sum_list (map sf_size (entry_files sp)) \<le> max_bytes")
  case True
  then show ?thesis using assms(1) by (simp add: enforce_cap_def pending_count_def)
next
  case False
  let ?fs = "sort_key file_order (entry_files sp)"
  have "mset ?fs = mset (entry_files sp)" by simp
  then have "sum_list (map sf_size ?fs) = sum_list (map sf_size (entry_files sp))" by (metis mset_map sum_mset_sum_list)
  moreover have "distinct (map sf_name (entry_files sp))" using assms(2) by (simp add: good_names_def entry_files_def distinct_filter_names)
  then have "distinct (map sf_name ?fs)" by (simp add: distinct_map)
  moreover have "evict stamp max_files max_bytes (int (length (entry_files sp))) (sum_list (map sf_size (entry_files sp))) ?fs sp = (evicted, sp')"
    using assms(1) False by (auto simp: enforce_cap_def Let_def)
  ultimately show ?thesis using evict_bound [OF _ assms(2), where fs = ?fs] assms(3,4) unfolding pending_count_def
    by (metis length_sort set_sort)
qed

section \<open>What becomes of a capture\<close>

datatype spool_event = Written pystr | Delivered pystr | Gapped pystr

text \<open>
  The operations of any number of hooks, one after another in any order, each in one step, with what has happened to which key.
  The history says for which keys a gap is due; whether \<open>gaps.jsonl\<close> holds them is for the spool to show.
\<close>

inductive spool_run :: "spool \<Rightarrow> spool_event list \<Rightarrow> bool" where
  empty: "spool_run \<lparr>sp_files = [], sp_gaps = []\<rparr> []"
| spooled: "spool_run sp h \<Longrightarrow> write_entry e now sp = Ok sp' \<Longrightarrow> spool_run sp' (h @ [Written (se_key e)])"
| tried: "spool_run sp h \<Longrightarrow> record_attempt stamp now e outcome er sp = Ok (u, sp')
    \<Longrightarrow> spool_run sp' (h @ (case outcome of DELIVERED \<Rightarrow> [Delivered (se_key e)] | DROPPED_FULL \<Rightarrow> [Gapped (se_key e)] | _ \<Rightarrow> []))"
| read: "spool_run sp h \<Longrightarrow> spool_run (snd (read_entries stamp n sp))
    (h @ (if n \<le> 0 then [] else map (\<lambda>f. Gapped (stem (sf_name f))) (filter (\<lambda>f. parse_entry f = None) (entry_files sp))))"
| capped: "spool_run sp h \<Longrightarrow> enforce_cap stamp mf mb sp = (ks, sp') \<Longrightarrow> spool_run sp' (h @ map Gapped ks)"
| saved: "spool_run sp h \<Longrightarrow> save_state st now sp = Ok sp' \<Longrightarrow> spool_run sp' h"

definition has_name :: "pystr \<Rightarrow> spool \<Rightarrow> bool" where
  "has_name n sp = (n \<in> sf_name ` set (sp_files sp))"

lemma has_name_write: "has_name n sp \<Longrightarrow> has_name n (atomic_write m v now sp)" "has_name m (atomic_write m v now sp)"
  by (auto simp: has_name_def atomic_write_def Let_def)

lemma has_name_unlink: "has_name n sp \<Longrightarrow> n \<noteq> m \<Longrightarrow> has_name n (unlink m sp)"
  by (auto simp: has_name_def)

lemma has_name_gap [simp]: "has_name n (append_gap v sp) = has_name n sp"
  by (simp add: has_name_def)

lemma has_name_quarantine: "has_name n sp \<Longrightarrow> n \<noteq> sf_name f \<Longrightarrow> has_name n (quarantine stamp f sp)"
  by (auto simp: has_name_def quarantine_def Let_def)

lemma has_name_quarantines:
  assumes "has_name n sp" "n \<notin> sf_name ` set fs"
  shows "has_name n (fold (quarantine stamp) fs sp)"
  using assms by (induction fs arbitrary: sp) (auto intro: has_name_quarantine)

lemma has_name_evict:
  assumes "evict stamp mf mb m b fs sp = (ks, sp')" "has_name n sp" "stem n \<notin> set ks"
  shows "has_name n sp'"
  using assms
proof (induction stamp mf mb m b fs sp arbitrary: ks rule: evict.induct)
  case (2 stamp mf mb m b f fs sp)
  show ?case
  proof (cases "m \<le> mf \<and> b \<le> mb")
    case False
    let ?sp = "append_gap (eviction_gap stamp f) (unlink (sf_name f) sp)"
    obtain ks' where e: "evict stamp mf mb (m - 1) (b - sf_size f) fs ?sp = (ks', sp')" and ks: "ks = stem (sf_name f) # ks'"
      using "2.prems"(1) False by (auto split: prod.splits)
    then have "n \<noteq> sf_name f" using "2.prems"(3) by auto
    then have "has_name n ?sp" using "2.prems"(2) by (simp add: has_name_unlink)
    then show ?thesis using "2.IH" [OF False e] "2.prems"(3) ks by simp
  qed (use 2 in auto)
qed simp

section \<open>What gaps.jsonl holds\<close>

definition gap_key :: "py \<Rightarrow> pystr" where
  "gap_key v = (case v of PDict m \<Rightarrow> (case py_get m ''delivery_key'' of PStr k \<Rightarrow> k | _ \<Rightarrow> []) | _ \<Rightarrow> [])"

primrec gapped :: "spool_event list \<Rightarrow> pystr list" where
  "gapped [] = []"
| "gapped (e # es) = (case e of Gapped k \<Rightarrow> [k] | _ \<Rightarrow> []) @ gapped es"

lemma gapped_append [simp]: "gapped (xs @ ys) = gapped xs @ gapped ys" "gapped (map Gapped ks) = ks"
proof -
  show "gapped (xs @ ys) = gapped xs @ gapped ys" by (induction xs) simp_all
  show "gapped (map Gapped ks) = ks" by (induction ks) simp_all
qed

lemma set_gapped: "k \<in> set (gapped h) \<longleftrightarrow> Gapped k \<in> set h"
  by (induction h) (auto split: spool_event.splits)

text \<open>The file holds the last of the keys \<open>gs\<close>, all of them unless it was cut, and never fewer lines than a cut leaves.\<close>

definition holds_gaps :: "pystr list \<Rightarrow> spool \<Rightarrow> bool" where
  "holds_gaps gs sp = (\<exists>m. map gap_key (sp_gaps sp) = drop m gs \<and> (m = 0 \<or> GAP_KEEP_LINES \<le> length (sp_gaps sp)))"

lemma gap_key_line [simp]: "gap_key (gap_line k sha ob reason stamp) = k"
  by (simp add: gap_key_def gap_line_def)

lemma gap_key_record [simp]: "gap_key (gap_record e reason stamp) = se_key e"
  by (simp add: gap_record_def)

lemma gap_key_eviction: "gap_key (eviction_gap stamp f) = stem (sf_name f)"
  by (simp add: eviction_gap_def parse_entry_key split: option.split)

lemma holds_gaps_append:
  assumes "holds_gaps gs sp" "gap_key v = k"
  shows "holds_gaps (gs @ [k]) (append_gap v sp)"
proof -
  obtain m where m: "map gap_key (sp_gaps sp) = drop m gs" "m = 0 \<or> GAP_KEEP_LINES \<le> length (sp_gaps sp)"
    using assms(1) by (auto simp: holds_gaps_def)
  let ?ls = "sp_gaps sp @ [v]"
  have "m \<le> length gs"
  proof (rule ccontr)
    assume "\<not> m \<le> length gs"
    then have "sp_gaps sp = []" using m(1) by simp
    then show False using m(2) \<open>\<not> m \<le> length gs\<close> by (simp add: GAP_KEEP_LINES_def)
  qed
  then have ls: "map gap_key ?ls = drop m (gs @ [k])" using m(1) assms(2) by simp
  show ?thesis
  proof (cases "GAP_MAX_BYTES < gap_bytes ?ls \<and> GAP_KEEP_LINES < length ?ls")
    case True
    let ?n = "length ?ls - GAP_KEEP_LINES"
    have "map gap_key (drop ?n ?ls) = drop (?n + m) (gs @ [k])"
      by (simp only: drop_map [symmetric] ls drop_drop)
    moreover have "length (drop ?n ?ls) = GAP_KEEP_LINES" using True by simp
    ultimately show ?thesis using True unfolding holds_gaps_def append_gap_def Let_def by (intro exI [of _ "?n + m"]) simp
  next
    case False
    then have "sp_gaps (append_gap v sp) = ?ls" by (auto simp: append_gap_def Let_def)
    then show ?thesis using ls m(2) unfolding holds_gaps_def by (intro exI [of _ m]) auto
  qed
qed

lemma holds_gaps_cong: "sp_gaps sp' = sp_gaps sp \<Longrightarrow> holds_gaps gs sp' = holds_gaps gs sp"
  by (simp add: holds_gaps_def)

lemma holds_gaps_quarantines:
  assumes "holds_gaps gs sp"
  shows "holds_gaps (gs @ map (\<lambda>f. stem (sf_name f)) fs) (fold (quarantine stamp) fs sp)"
  using assms
proof (induction fs arbitrary: gs sp)
  case (Cons f fs)
  have "holds_gaps (gs @ [stem (sf_name f)]) (quarantine stamp f sp)" unfolding quarantine_def Let_def
    by (rule holds_gaps_append) (use Cons.prems in \<open>simp_all add: holds_gaps_def\<close>)
  from Cons.IH [OF this] show ?case by simp
qed simp

lemma holds_gaps_evict:
  assumes "evict stamp mf mb m b fs sp = (ks, sp')" "holds_gaps gs sp"
  shows "holds_gaps (gs @ ks) sp'"
  using assms
proof (induction stamp mf mb m b fs sp arbitrary: ks gs rule: evict.induct)
  case (2 stamp mf mb m b f fs sp)
  show ?case
  proof (cases "m \<le> mf \<and> b \<le> mb")
    case False
    let ?sp = "append_gap (eviction_gap stamp f) (unlink (sf_name f) sp)"
    obtain ks' where e: "evict stamp mf mb (m - 1) (b - sf_size f) fs ?sp = (ks', sp')" and ks: "ks = stem (sf_name f) # ks'"
      using "2.prems"(1) False by (auto split: prod.splits)
    have "holds_gaps (gs @ [stem (sf_name f)]) ?sp"
      by (rule holds_gaps_append [OF _ gap_key_eviction]) (use "2.prems"(2) in \<open>simp add: holds_gaps_def\<close>)
    from "2.IH" [OF False e this] ks show ?thesis by simp
  qed (use 2 in auto)
qed simp

lemma record_attempt_gaps:
  assumes "record_attempt stamp now e outcome er sp = Ok (u, sp')" "holds_gaps gs sp"
  shows "holds_gaps (gs @ (if outcome = DROPPED_FULL then [se_key e] else [])) sp'"
proof (cases "outcome = DROPPED_FULL")
  case True
  then obtain sp1 where "remove_entry (se_key e) sp = Ok sp1" "sp' = append_gap (gap_record e ''dropped_full'' stamp) sp1"
    using assms by (cases "remove_entry (se_key e) sp") (auto simp: record_attempt_def Let_def)
  moreover from this(1) have "sp_gaps sp1 = sp_gaps sp" by (auto simp: remove_entry_def spool_path_def split: if_split_asm)
  moreover from this have "holds_gaps gs sp1" using holds_gaps_cong assms(2) by metis
  ultimately show ?thesis using True holds_gaps_append [OF _ gap_key_record] by simp
next
  case False
  then have "sp_gaps sp' = sp_gaps sp" using assms(1)
    by (auto simp: record_attempt_def remove_entry_def write_entry_def spool_path_def Let_def atomic_write_def split: if_split_asm)
  with False assms(2) show ?thesis by (simp add: holds_gaps_def)
qed

lemma spool_run_gaps: "spool_run sp h \<Longrightarrow> holds_gaps (gapped h) sp"
proof (induction rule: spool_run.induct)
  case empty
  then show ?case by (simp add: holds_gaps_def)
next
  case (spooled sp h e now sp')
  then have "sp_gaps sp' = sp_gaps sp" by (auto simp: write_entry_def spool_path_def atomic_write_def Let_def split: if_split_asm)
  with spooled.IH show ?case by (simp add: holds_gaps_def)
next
  case (tried sp h stamp now e outcome er u sp')
  from record_attempt_gaps [OF tried.hyps(2) tried.IH] show ?case by (cases outcome) simp_all
next
  case (read sp h stamp n)
  show ?case
  proof (cases "n \<le> 0")
    case True
    then show ?thesis using read.IH by (simp add: read_entries_def)
  next
    case False
    have "gapped (map (\<lambda>f. Gapped (stem (sf_name f))) fs) = map (\<lambda>f. stem (sf_name f)) fs" for fs :: "spool_file list"
      by (induction fs) simp_all
    with False holds_gaps_quarantines [OF read.IH] show ?thesis by (simp add: read_entries_def Let_def)
  qed
next
  case (capped sp h stamp mf mb ks sp')
  then show ?case by (auto simp: enforce_cap_def Let_def split: if_split_asm dest: holds_gaps_evict)
next
  case (saved sp h st now sp')
  then have "sp_gaps sp' = sp_gaps sp" by (auto simp: save_state_def atomic_write_def Let_def split: if_split_asm)
  with saved.IH show ?case by (simp add: holds_gaps_def)
qed

text \<open>Where a key that was written can be.\<close>

lemma spool_run_keys:
  assumes "spool_run sp h" "Written k \<in> set h"
  shows "k @ ENTRY_SUFFIX \<in> sf_name ` set (sp_files sp) \<or> Delivered k \<in> set h \<or> Gapped k \<in> set h"
  unfolding has_name_def [symmetric] using assms
proof (induction rule: spool_run.induct)
  case empty
  then show ?case by simp
next
  case (spooled sp h e now sp')
  then show ?case by (auto simp: write_entry_def spool_path_def has_name_write split: if_split_asm)
next
  case (tried sp h stamp now e outcome er u sp')
  have old: "has_name (k @ ENTRY_SUFFIX) sp \<or> Delivered k \<in> set h \<or> Gapped k \<in> set h"
    using tried.IH tried.prems by (auto split: spool_outcome.splits)
  show ?case
  proof (cases "outcome \<in> {DELIVERED, DROPPED_FULL} \<and> se_key e = k")
    case True
    then show ?thesis by auto
  next
    case False
    then have "has_name (k @ ENTRY_SUFFIX) sp \<Longrightarrow> has_name (k @ ENTRY_SUFFIX) sp'" using tried.hyps(2)
      by (auto simp: record_attempt_def remove_entry_def write_entry_def spool_path_def Let_def has_name_write has_name_unlink split: if_split_asm)
    then show ?thesis using old by auto
  qed
next
  case (read sp h stamp n)
  show ?case
  proof (cases "n \<le> 0")
    case True
    then show ?thesis using read by (simp add: read_entries_def)
  next
    case False
    let ?bad = "filter (\<lambda>f. parse_entry f = None) (entry_files sp)"
    have "has_name (k @ ENTRY_SUFFIX) sp \<or> Delivered k \<in> set h \<or> Gapped k \<in> set h" using read False by auto
    moreover have "has_name (k @ ENTRY_SUFFIX) (snd (read_entries stamp n sp))"
      if "has_name (k @ ENTRY_SUFFIX) sp" "k @ ENTRY_SUFFIX \<notin> sf_name ` set ?bad"
      using has_name_quarantines [OF that] False by (simp add: read_entries_def Let_def)
    moreover have "Gapped k \<in> (\<lambda>f. Gapped (stem (sf_name f))) ` set ?bad" if "k @ ENTRY_SUFFIX \<in> sf_name ` set ?bad"
      using that by (metis (no_types, lifting) imageE imageI stem_suffix)
    ultimately show ?thesis using False by auto
  qed
next
  case (capped sp h stamp mf mb ks sp')
  have old: "has_name (k @ ENTRY_SUFFIX) sp \<or> Delivered k \<in> set h \<or> Gapped k \<in> set h" using capped by auto
  moreover have "has_name (k @ ENTRY_SUFFIX) sp'" if "has_name (k @ ENTRY_SUFFIX) sp" "k \<notin> set ks"
    using capped.hyps(2) that has_name_evict [of stamp mf mb _ _ _ sp ks sp' "k @ ENTRY_SUFFIX"]
    by (auto simp: enforce_cap_def Let_def split: if_split_asm)
  ultimately show ?case by auto
next
  case (saved sp h st now sp')
  then show ?case by (auto simp: save_state_def has_name_write split: if_split_asm)
qed

text \<open>
  C38. No capture disappears (capture_spool.py): in every interleaving of the operations of hooks, a key that was written has
  its file in the spool, or the server had accepted it, or \<open>gaps.jsonl\<close> holds a record for it, unless the file has been cut to
  its last 2000 lines since and still holds at least as many.  The file lists the keys of every capture that was
  evicted, given up or found unreadable, in that order, and loses lines only at the front and by such a cut.
\<close>

theorem captures_are_accounted_for:
  assumes "spool_run sp h" "Written k \<in> set h"
  shows "(k @ ENTRY_SUFFIX \<in> sf_name ` set (sp_files sp) \<or> Delivered k \<in> set h
      \<or> Gapped k \<in> set h \<and> (k \<in> gap_key ` set (sp_gaps sp) \<or> GAP_KEEP_LINES \<le> length (sp_gaps sp)))
    \<and> (\<exists>m. map gap_key (sp_gaps sp) = drop m (gapped h) \<and> (m = 0 \<or> GAP_KEEP_LINES \<le> length (sp_gaps sp)))"
proof -
  have gaps: "holds_gaps (gapped h) sp" by (rule spool_run_gaps [OF assms(1)])
  then obtain m where m: "map gap_key (sp_gaps sp) = drop m (gapped h)" "m = 0 \<or> GAP_KEEP_LINES \<le> length (sp_gaps sp)"
    by (auto simp: holds_gaps_def)
  have "k \<in> gap_key ` set (sp_gaps sp) \<or> GAP_KEEP_LINES \<le> length (sp_gaps sp)" if "Gapped k \<in> set h"
  proof (cases "m = 0")
    case True
    then have "set (map gap_key (sp_gaps sp)) = set (gapped h)" using m(1) by simp
    then show ?thesis using that by (simp add: set_gapped)
  qed (use m(2) in simp)
  with spool_run_keys [OF assms] gaps show ?thesis unfolding holds_gaps_def by blast
qed

section \<open>Concrete spools\<close>

definition accepting :: post where
  "accepting x = (Some 200, None)"

definition new_entry :: spool_entry where
  "new_entry = \<lparr>se_key = ''0000000000000001'', se_body = [], se_created = 9, se_attempts = 0, se_error = None, se_state = ''spooled''\<rparr>"

definition full_spool :: spool where
  "full_spool = \<lparr>sp_files = [\<lparr>sf_name = ''00000000000000aa.json'', sf_json = None, sf_size = 9000000, sf_mtime = 0\<rparr>], sp_gaps = []\<rparr>"

lemma full_run: "\<exists>sp1 k ks sp2 w sp'. write_entry new_entry 9 full_spool = Ok sp1
    \<and> enforce_cap [] DEFAULT_MAX_FILES DEFAULT_MAX_BYTES sp1 = (k # ks, sp2)
    \<and> hook_run accepting (\<lambda>_. True) True [] 9 new_entry full_spool = Ok (w, sp')"
proof -
  have w: "is_ok (write_entry new_entry 9 full_spool)" by code_simp
  have "is_ok (hook_run accepting (\<lambda>_. True) True [] 9 new_entry full_spool)" by code_simp
  moreover have "case write_entry new_entry 9 full_spool of Inl _ \<Rightarrow> False
      | Inr sp1 \<Rightarrow> fst (enforce_cap [] DEFAULT_MAX_FILES DEFAULT_MAX_BYTES sp1) \<noteq> []" by code_simp
  ultimately show ?thesis using w
    by (cases "write_entry new_entry 9 full_spool"; cases "hook_run accepting (\<lambda>_. True) True [] 9 new_entry full_spool")
      (auto simp: neq_Nil_conv prod_eq_iff)
qed

theorem evictions_go_unnoticed_witness:
  "\<exists>sp'. hook_run accepting (\<lambda>_. True) True [] 9 new_entry full_spool = Ok (False, sp')
    \<and> py_get (load_state sp') ''capture_delivery_state'' = PStr ''delivered''
    \<and> body_health (\<lambda>_. ''then'') (load_state sp') 0 = [(''spool_depth'', PInt 0), (''spool_failures'', PInt 0), (''gap_since'', PNone)]"
proof -
  obtain sp1 k ks sp2 w sp' where r: "write_entry new_entry 9 full_spool = Ok sp1"
    "enforce_cap [] DEFAULT_MAX_FILES DEFAULT_MAX_BYTES sp1 = (k # ks, sp2)"
    "hook_run accepting (\<lambda>_. True) True [] 9 new_entry full_spool = Ok (w, sp')"
    using full_run by blast
  have "valid_key (se_key new_entry)" by code_simp
  moreover have "classify_http (fst (accepting x)) = DELIVERED" for x by (simp add: accepting_def classify_http_def)
  ultimately show ?thesis using evictions_go_unnoticed [OF r(3) _ r(1,2), of "\<lambda>_. ''then''" 0] r(3) by simp
qed

definition dead_entry :: "char \<Rightarrow> spool_entry" where
  "dead_entry c = \<lparr>se_key = c # ''000000000000000'', se_body = [], se_created = 0, se_attempts = 3, se_error = None, se_state = ''failed''\<rparr>"

definition waiting_entry :: spool_entry where
  "waiting_entry = \<lparr>se_key = ''f000000000000000'', se_body = [], se_created = 1, se_attempts = 1, se_error = None, se_state = ''spooled''\<rparr>"

definition file_of :: "spool_entry \<Rightarrow> spool_file" where
  "file_of e = \<lparr>sf_name = se_key e @ ENTRY_SUFFIX, sf_json = Some (entry_payload e), sf_size = 200, sf_mtime = 0\<rparr>"

definition dead_files :: "spool_file list" where
  "dead_files = map (\<lambda>c. file_of (dead_entry c)) ''123456''"

definition blocked_spool :: spool where
  "blocked_spool = \<lparr>sp_files = dead_files @ [file_of waiting_entry], sp_gaps = []\<rparr>"

lemma parse_file_of: "parse_entry (file_of e) = Some e"
  unfolding file_of_def by (rule parse_written)

lemma blocked_spool_six: "good_names blocked_spool" "behind_six dead_files waiting_entry blocked_spool"
proof -
  show "good_names blocked_spool" by code_simp
  have "is_entry_file d" if "d \<in> set dead_files" for d
  proof -
    have "list_all is_entry_file dead_files" by code_simp
    with that show ?thesis by (simp add: list_all_iff)
  qed
  moreover have "\<exists>y. parse_entry d = Some y \<and> \<not> retryable y \<and> entry_rank y < entry_rank waiting_entry" if d: "d \<in> set dead_files" for d
  proof -
    obtain c where "d = file_of (dead_entry c)" using d by (auto simp: dead_files_def)
    then show ?thesis
      by (simp add: parse_file_of retryable_def dead_entry_def MAX_FAILED_ATTEMPTS_def entry_rank_def waiting_entry_def)
  qed
  moreover have "has_file d blocked_spool" if "d \<in> set dead_files" for d using that by (simp add: has_file_def blocked_spool_def)
  moreover have "length dead_files = 6" "distinct (map sf_name dead_files)" by code_simp+
  ultimately show "behind_six dead_files waiting_entry blocked_spool" by (simp add: behind_six_def)
qed

theorem dead_entries_block_the_spool_witness:
  "\<exists>sp'. hook_step blocked_spool sp' \<and> has_file (file_of waiting_entry) sp' \<and> waiting_entry \<notin> set (fst (read_entries ''now'' 6 sp'))"
proof -
  have "is_ok (hook_run accepting (\<lambda>_. True) True [] 9 new_entry blocked_spool)" by code_simp
  then obtain w sp' where run: "hook_run accepting (\<lambda>_. True) True [] 9 new_entry blocked_spool = Ok (w, sp')"
    by (cases "hook_run accepting (\<lambda>_. True) True [] 9 new_entry blocked_spool") auto
  have "case write_entry new_entry 9 blocked_spool of Inl _ \<Rightarrow> False
      | Inr sp1 \<Rightarrow> fst (enforce_cap [] DEFAULT_MAX_FILES DEFAULT_MAX_BYTES sp1) = []" by code_simp
  then obtain sp1 where sp1: "write_entry new_entry 9 blocked_spool = Ok sp1" "fst (enforce_cap [] DEFAULT_MAX_FILES DEFAULT_MAX_BYTES sp1) = []"
    by (auto split: sum.splits)
  have "valid_key (se_key new_entry)" "se_key new_entry @ ENTRY_SUFFIX \<notin> sf_name ` set (sp_files blocked_spool)" by code_simp+
  then have step: "hook_step blocked_spool sp'" by (rule hook_step.intros [OF run _ _ sp1])
  have "is_entry_file (file_of waiting_entry)" by code_simp
  moreover have "has_file (file_of waiting_entry) blocked_spool" by (simp add: has_file_def blocked_spool_def)
  ultimately show ?thesis
    using dead_entries_block_the_spool [OF r_into_rtranclp [of hook_step, OF step] blocked_spool_six, of "file_of waiting_entry" "''now''"] parse_file_of step by blast
qed

text \<open>A capture that was written and given up: its gap is on file.\<close>

theorem captures_are_accounted_for_witness:
  "\<exists>sp. spool_run sp [Written (se_key new_entry), Gapped (se_key new_entry)] \<and> map gap_key (sp_gaps sp) = [se_key new_entry]"
proof -
  have "is_ok (write_entry new_entry 9 \<lparr>sp_files = [], sp_gaps = []\<rparr>)" by code_simp
  then obtain sp where "write_entry new_entry 9 \<lparr>sp_files = [], sp_gaps = []\<rparr> = Ok sp"
    by (cases "write_entry new_entry 9 \<lparr>sp_files = [], sp_gaps = []\<rparr>") auto
  from spool_run.spooled [OF spool_run.empty this] have run: "spool_run sp [Written (se_key new_entry)]" by simp
  have "valid_key (se_key new_entry)" by code_simp
  then obtain u sp' where "record_attempt ''now'' 10 new_entry DROPPED_FULL None sp = Ok (u, sp')"
    by (simp add: record_attempt_def remove_entry_def spool_path_def Let_def)
  from spool_run.tried [OF run this] have run': "spool_run sp' [Written (se_key new_entry), Gapped (se_key new_entry)]" by simp
  from captures_are_accounted_for [OF this, of "se_key new_entry"]
  obtain m where m: "map gap_key (sp_gaps sp') = drop m [se_key new_entry]" "m = 0 \<or> GAP_KEEP_LINES \<le> length (sp_gaps sp')" by auto
  have "length (sp_gaps sp') \<le> 1" using arg_cong [OF m(1), of length] by simp
  then have "m = 0" using m(2) by (simp add: GAP_KEEP_LINES_def)
  with m(1) run' show ?thesis by auto
qed

end
