(* ===== verification/Plan_Steps.thy ===== *)
theory Plan_Steps
  imports Task_Json
begin

text \<open>
  \<open>shared/tce_shared/plan_decomposition.py\<close>: an objective as an ordered list of steps.
  \<open>next_open_step\<close> is the progression query; \<open>linearize_plan_steps\<close> flattens the
  dependencies a model declared into one sequence (Kahn passes that stop at a cycle);
  \<open>parse_plan_steps\<close> reads a model's reply.
\<close>

section \<open>Progression\<close>

definition TERMINAL_STEP_STATUSES :: "pystr list" where
  "TERMINAL_STEP_STATUSES = [''done'', ''dropped'']"

definition BLOCKING_STEP_STATUS :: pystr where
  "BLOCKING_STEP_STATUS = ''blocked''"

definition MAX_PLAN_STEPS :: int where
  "MAX_PLAN_STEPS = 12"

record plan_step =
  ps_index :: int
  ps_title :: pystr
  ps_description :: pystr

text \<open>\<open>str(status or "").strip().lower()\<close>.\<close>

definition norm_status :: "pystr \<Rightarrow> pystr" where
  "norm_status s = py_lower (py_strip s)"

definition step_terminal :: "pystr \<Rightarrow> bool" where
  "step_terminal s = (norm_status s \<in> set TERMINAL_STEP_STATUSES)"

definition open_steps :: "(int \<times> pystr) list \<Rightarrow> (int \<times> pystr) list" where
  "open_steps steps =
     sort (map (\<lambda>p. (fst p, norm_status (snd p))) (filter (\<lambda>p. \<not> step_terminal (snd p)) steps))"

definition next_open_step :: "(int \<times> pystr) list \<Rightarrow> int option" where
  "next_open_step steps = (case open_steps steps of
        [] \<Rightarrow> None
      | p # _ \<Rightarrow> if snd p = BLOCKING_STEP_STATUS then None else Some (fst p))"

text \<open>The least element of the open steps, in the order the tuples sort in.\<close>

lemma set_open_steps:
  "set (open_steps steps) = {(i, norm_status s) |i s. (i, s) \<in> set steps \<and> \<not> step_terminal s}"
  by (force simp: open_steps_def)

lemma open_steps_head:
  assumes "open_steps steps = p # r"
  shows "p \<in> set (open_steps steps)" "\<forall>q \<in> set (open_steps steps). p \<le> q"
proof -
  have "sorted (open_steps steps)" by (simp add: open_steps_def)
  with assms show "p \<in> set (open_steps steps)" "\<forall>q \<in> set (open_steps steps). p \<le> q" by auto
qed

lemma next_open_step_Some:
  assumes "next_open_step steps = Some i"
  shows "\<exists>s. (i, s) \<in> set steps \<and> \<not> step_terminal s \<and> norm_status s \<noteq> BLOCKING_STEP_STATUS"
    and "(j, t) \<in> set steps \<Longrightarrow> j < i \<Longrightarrow> step_terminal t"
proof -
  obtain p r where pr: "open_steps steps = p # r" and p: "snd p \<noteq> BLOCKING_STEP_STATUS" "fst p = i"
    using assms by (auto simp: next_open_step_def split: list.splits if_splits)
  note h = open_steps_head [OF pr]
  show "\<exists>s. (i, s) \<in> set steps \<and> \<not> step_terminal s \<and> norm_status s \<noteq> BLOCKING_STEP_STATUS"
    using h(1) p by (auto simp: set_open_steps)
  assume j: "(j, t) \<in> set steps" "j < i"
  show "step_terminal t"
  proof (rule ccontr)
    assume "\<not> step_terminal t"
    with j(1) have "(j, norm_status t) \<in> set (open_steps steps)" by (auto simp: set_open_steps)
    with h(2) have "p \<le> (j, norm_status t)" by blast
    with p(2) j(2) show False by (cases p) (simp add: less_eq_prod_def)
  qed
qed

lemma next_open_step_None:
  assumes "next_open_step steps = None"
  shows "(\<forall>(i, s) \<in> set steps. step_terminal s)
    \<or> (\<exists>(i, s) \<in> set steps. norm_status s = BLOCKING_STEP_STATUS)"
proof (cases "open_steps steps")
  case Nil
  then have "set (open_steps steps) = {}" by simp
  then show ?thesis by (auto simp: set_open_steps)
next
  case (Cons p r)
  then have "snd p = BLOCKING_STEP_STATUS"
    using assms by (simp add: next_open_step_def split: if_splits)
  with open_steps_head(1) [OF Cons] show ?thesis by (auto simp: set_open_steps)
qed

lemma next_open_step_all_terminal:
  "\<forall>p \<in> set steps. step_terminal (snd p) \<Longrightarrow> next_open_step steps = None"
  by (simp add: next_open_step_def open_steps_def filter_False)

section \<open>Reading a model's plan\<close>

definition coerce_step_dicts :: "py \<Rightarrow> (pystr \<times> py) list list" where
  "coerce_step_dicts payload = (case payload of
       PDict m \<Rightarrow>
         if map_of m ''raw'' \<noteq> None \<and> map_of m ''steps'' = None then []
         else mappings (py_get m ''steps'')
     | _ \<Rightarrow> [])"

definition step_title :: "(pystr \<times> py) list \<Rightarrow> pystr" where
  "step_title item = py_strip (str_or_empty (py_get item ''title''))"

definition step_from_dict :: "(pystr \<times> py) list \<Rightarrow> int \<Rightarrow> plan_step option" where
  "step_from_dict item index =
     (let title = step_title item in
      if title = [] then None else
      let description = or_else (py_strip (str_or_empty (py_get item ''description''))) title in
      Some \<lparr>ps_index = index, ps_title = take 180 title, ps_description = take 400 description\<rparr>)"

text \<open>The key a step is known by: its stripped id, or its position.\<close>

definition step_key :: "nat \<Rightarrow> (pystr \<times> py) list \<Rightarrow> pystr" where
  "step_key position item =
     or_else (py_strip (str_or_empty (py_get item ''id''))) (''__pos'' @ str_int (int position))"

definition dep_keys :: "(pystr \<times> py) list \<Rightarrow> pystr list" where
  "dep_keys item = (case py_get item ''depends_on'' of
       PList ds \<Rightarrow> map (\<lambda>d. py_strip (py_str d)) ds | _ \<Rightarrow> [])"

type_synonym keyed = "pystr \<times> (pystr \<times> py) list"

text \<open>\<open>by_id\<close>, in insertion order: \<open>setdefault\<close> keeps the first item of a key.\<close>

definition by_id :: "(pystr \<times> py) list list \<Rightarrow> keyed list" where
  "by_id items = fold (\<lambda>(i, item) d. dict_setdefault (step_key i item) item d) (enumerate 0 items) []"

definition unmet :: "pystr set \<Rightarrow> pystr list \<Rightarrow> (pystr \<times> py) list \<Rightarrow> pystr list" where
  "unmet known placed item = filter (\<lambda>d. d \<in> known \<and> d \<notin> set placed) (dep_keys item)"

text \<open>One pass over \<open>remaining\<close>: what it places, in order, and what still waits.\<close>

fun kahn_pass :: "pystr set \<Rightarrow> pystr list \<Rightarrow> keyed list \<Rightarrow> keyed list \<times> keyed list" where
  "kahn_pass known placed [] = ([], [])"
| "kahn_pass known placed ((key, item) # rest) =
     (if unmet known placed item \<noteq> []
      then (case kahn_pass known placed rest of (out, waiting) \<Rightarrow> (out, (key, item) # waiting))
      else (case kahn_pass known (key # placed) rest of (out, waiting) \<Rightarrow> ((key, item) # out, waiting)))"

lemma kahn_pass_mset:
  "kahn_pass known placed rem = (out, waiting) \<Longrightarrow> mset out + mset waiting = mset rem"
  by (induction known placed rem arbitrary: out waiting rule: kahn_pass.induct)
     (auto split: if_splits prod.splits)

lemma kahn_pass_length:
  "kahn_pass known placed rem = (out, waiting) \<Longrightarrow> length out + length waiting = length rem"
  by (metis kahn_pass_mset size_mset size_union)

text \<open>The passes; a pass that places nothing keeps the rest in declared order.\<close>

function kahn :: "pystr set \<Rightarrow> pystr list \<Rightarrow> keyed list \<Rightarrow> keyed list" where
  "kahn known placed remaining =
     (if remaining = [] then [] else
      case kahn_pass known placed remaining of (out, waiting) \<Rightarrow>
        if out = [] then remaining else out @ kahn known (rev (map fst out) @ placed) waiting)"
  by pat_completeness auto
termination
proof (relation "measure (\<lambda>(k, p, r). length r)", goal_cases)
  case (2 known placed remaining out waiting)
  then show ?case using kahn_pass_length [of known placed remaining out waiting]
    by (cases out) auto
qed simp

declare kahn.simps [simp del]

definition has_title :: "(pystr \<times> py) list \<Rightarrow> bool" where
  "has_title item = (step_title item \<noteq> [])"

text \<open>The last loop numbers the steps it keeps; \<open>len(steps) + 1\<close> is the next index.\<close>

fun number_steps :: "int \<Rightarrow> (pystr \<times> py) list list \<Rightarrow> plan_step list" where
  "number_steps n [] = []"
| "number_steps n (item # rest) =
     (case step_from_dict item n of None \<Rightarrow> number_steps n rest
      | Some st \<Rightarrow> st # number_steps (n + 1) rest)"

definition linear_order :: "(pystr \<times> py) list list \<Rightarrow> (pystr \<times> py) list list" where
  "linear_order items = (let d = by_id items in map snd (kahn (fst ` set d) [] d))"

definition linearize_plan_steps :: "(pystr \<times> py) list list \<Rightarrow> int \<Rightarrow> plan_step list" where
  "linearize_plan_steps raw max_steps =
     number_steps 1 (py_take max_steps (linear_order (filter has_title raw)))"

definition parse_plan_steps :: "py \<Rightarrow> int \<Rightarrow> plan_step list" where
  "parse_plan_steps payload max_steps = linearize_plan_steps (coerce_step_dicts payload) max_steps"

text \<open>The generic plan used when no model plan is available.\<close>

definition FALLBACK_TEMPLATE :: "(pystr \<times> pystr \<times> pystr) list" where
  "FALLBACK_TEMPLATE =
     [(''Establish scope and current state'', ''Determine what '' @ [CHR 0x27],
       CHR 0x27 # '' requires and what already exists.''),
      (''Carry out the main work'', ''Do the substantive work for '' @ [CHR 0x27], CHR 0x27 # ''.''),
      (''Verify the outcome'', ''Check that '' @ [CHR 0x27], CHR 0x27 # '' actually holds, with evidence.'')]"

definition fallback_plan_steps :: "pystr \<Rightarrow> plan_step list" where
  "fallback_plan_steps objective =
     (let cleaned = (let c = py_strip (py_join '' '' (py_split_ws objective)) in
                     if c = [] then ''the stated objective'' else c);
          short = take 120 cleaned
      in map (\<lambda>(i, title, before, after).
            \<lparr>ps_index = int i, ps_title = title, ps_description = before @ short @ after\<rparr>)
          (enumerate 1 FALLBACK_TEMPLATE))"

section \<open>No step is lost, and dependencies come first\<close>

lemma mset_kahn: "mset (kahn known placed rem) = mset rem"
proof (induction known placed rem rule: kahn.induct)
  case (1 known placed rem)
  obtain out waiting where pass: "kahn_pass known placed rem = (out, waiting)" by fastforce
  show ?case
  proof (cases "rem = [] \<or> out = []")
    case True
    with pass show ?thesis by (auto simp: kahn.simps [of known placed rem])
  next
    case False
    with 1 pass kahn_pass_mset [OF pass] show ?thesis
      by (simp add: kahn.simps [of known placed rem])
  qed
qed

text \<open>Every known dependency of an element is placed, or stands before it.\<close>

fun deps_first :: "pystr set \<Rightarrow> pystr set \<Rightarrow> keyed list \<Rightarrow> bool" where
  "deps_first known placed [] = True"
| "deps_first known placed ((k, item) # xs) =
     ((\<forall>d \<in> set (dep_keys item). d \<in> known \<longrightarrow> d \<in> placed) \<and> deps_first known (insert k placed) xs)"

lemma deps_first_append:
  "deps_first known placed (xs @ ys)
   \<longleftrightarrow> deps_first known placed xs \<and> deps_first known (placed \<union> fst ` set xs) ys"
  by (induction xs arbitrary: placed) (auto simp: insert_commute)

lemma unmet_Nil: "unmet known placed item = [] \<longleftrightarrow> (\<forall>d \<in> set (dep_keys item). d \<in> known \<longrightarrow> d \<in> set placed)"
  by (auto simp: unmet_def filter_empty_conv)

lemma kahn_pass_deps_first:
  "kahn_pass known placed rem = (out, waiting) \<Longrightarrow> deps_first known (set placed) out"
  by (induction known placed rem arbitrary: out waiting rule: kahn_pass.induct)
     (auto simp: unmet_Nil split: if_splits prod.splits)

lemma kahn_pass_waiting:
  "kahn_pass known placed rem = (out, waiting) \<Longrightarrow> (k, item) \<in> set waiting
    \<Longrightarrow> unmet known placed item \<noteq> []"
proof (induction known placed rem arbitrary: out waiting rule: kahn_pass.induct)
  case (2 known placed key itm rest)
  have sub: "unmet known (key # placed) item \<noteq> [] \<Longrightarrow> unmet known placed item \<noteq> []"
    by (auto simp: unmet_Nil)
  show ?case using 2 sub by (auto split: if_splits prod.splits)
qed simp

text \<open>A rank that drops along every declared dependency: the declarations have no cycle.\<close>

definition acyclic_deps :: "(pystr \<Rightarrow> nat) \<Rightarrow> pystr set \<Rightarrow> keyed list \<Rightarrow> bool" where
  "acyclic_deps rank known rem =
     (\<forall>(k, item) \<in> set rem. \<forall>d \<in> set (dep_keys item). d \<in> known \<longrightarrow> rank d < rank k)"

lemma kahn_pass_progress:
  assumes "kahn_pass known placed rem = (out, waiting)" "rem \<noteq> []" "acyclic_deps rank known rem"
    and "known \<subseteq> set placed \<union> fst ` set rem"
  shows "out \<noteq> []"
proof
  assume out: "out = []"
  have "\<exists>x \<in> set rem. \<forall>y \<in> set rem. rank (fst x) \<le> rank (fst y)"
    using assms(2) ex_min_if_finite [of "(rank \<circ> fst) ` set rem"] by (auto simp: not_less)
  then obtain x0 where x0: "x0 \<in> set rem" "\<forall>y \<in> set rem. rank (fst x0) \<le> rank (fst y)" by blast
  obtain k item where k: "x0 = (k, item)" by (cases x0)
  have x: "(k, item) \<in> set rem" and min: "\<And>y. y \<in> set rem \<Longrightarrow> rank k \<le> rank (fst y)"
    using x0 by (auto simp: k)
  have "mset waiting = mset rem" using kahn_pass_mset [OF assms(1)] out by simp
  with x have "(k, item) \<in> set waiting" by (metis set_mset_mset)
  from kahn_pass_waiting [OF assms(1) this]
  obtain d where d: "d \<in> set (dep_keys item)" "d \<in> known" "d \<notin> set placed"
    by (auto simp: unmet_Nil)
  with assms(4) obtain y where y: "y \<in> set rem" "d = fst y" by auto
  from assms(3) x d have "rank d < rank k" by (auto simp: acyclic_deps_def)
  with min [OF y(1)] y(2) show False by simp
qed

lemma kahn_deps_first:
  "acyclic_deps rank known rem \<Longrightarrow> known \<subseteq> set placed \<union> fst ` set rem
    \<Longrightarrow> deps_first known (set placed) (kahn known placed rem)"
proof (induction known placed rem rule: kahn.induct)
  case (1 known placed rem)
  obtain out waiting where pass: "kahn_pass known placed rem = (out, waiting)" by fastforce
  show ?case
  proof (cases "rem = []")
    case True
    then show ?thesis by (simp add: kahn.simps)
  next
    case False
    with 1 pass have out: "out \<noteq> []" by (metis kahn_pass_progress)
    have ms: "set out \<union> set waiting = set rem"
      by (metis kahn_pass_mset [OF pass] set_mset_mset set_mset_union)
    have "acyclic_deps rank known waiting" using 1(2) ms by (auto simp: acyclic_deps_def)
    moreover have "known \<subseteq> set (rev (map fst out) @ placed) \<union> fst ` set waiting"
      using 1(3) by (auto simp flip: ms)
    ultimately have "deps_first known (set (rev (map fst out) @ placed))
        (kahn known (rev (map fst out) @ placed) waiting)"
      using 1(1) False out pass by metis
    with kahn_pass_deps_first [OF pass] False out pass show ?thesis
      by (simp add: kahn.simps [of known placed rem] deps_first_append Un_commute)
  qed
qed

section \<open>Numbering\<close>

lemma step_from_dict_has_title: "has_title item \<Longrightarrow> \<exists>st. step_from_dict item n = Some st \<and> ps_index st = n"
  by (auto simp: step_from_dict_def has_title_def Let_def)

lemma number_steps_indices:
  "list_all has_title items \<Longrightarrow>
    map ps_index (number_steps n items) = map (\<lambda>i. n + int i) [0..<length items]"
proof (induction items arbitrary: n)
  case (Cons item rest)
  obtain st where st: "step_from_dict item n = Some st" "ps_index st = n"
    using Cons.prems step_from_dict_has_title by force
  have "map ps_index (number_steps n (item # rest)) = n # map (\<lambda>i. n + 1 + int i) [0..<length rest]"
    using Cons st by simp
  also have "\<dots> = map (\<lambda>i. n + int i) [0..<length (item # rest)]"
    by (simp add: map_upt_Suc add.assoc del: upt_Suc)
  finally show ?case .
qed simp

lemma dict_setdefault_keys:
  "fst ` set (dict_setdefault k v d) = insert k (fst ` set d)"
  by (auto simp: dict_setdefault_def map_of_eq_None_iff image_iff split: option.split dest!: map_of_SomeD)
     (metis fst_conv)

lemma dict_setdefault_vals: "snd ` set (dict_setdefault k v d) \<subseteq> insert v (snd ` set d)"
  by (auto simp: dict_setdefault_def split: option.splits)

lemma fold_setdefault_vals:
  "snd ` set (fold (\<lambda>(i, item) d. dict_setdefault (f i item) item d) ps d) \<subseteq> snd ` set ps \<union> snd ` set d"
proof (induction ps arbitrary: d)
  case (Cons p ps)
  obtain i item where p: "p = (i, item)" by (cases p)
  have "snd ` set (fold (\<lambda>(i, item) d. dict_setdefault (f i item) item d) ps (dict_setdefault (f i item) item d))
      \<subseteq> snd ` set ps \<union> snd ` set (dict_setdefault (f i item) item d)"
    by (rule Cons.IH)
  also have "\<dots> \<subseteq> snd ` set (p # ps) \<union> snd ` set d"
    using dict_setdefault_vals [of "f i item" item d] by (auto simp: p)
  finally show ?case by (simp add: p)
qed simp

lemma by_id_vals: "snd ` set (by_id items) \<subseteq> set items"
proof -
  have "snd ` set (enumerate 0 items) = set items" by (metis map_snd_enumerate set_map)
  with fold_setdefault_vals [of step_key "enumerate 0 items" "[]"] show ?thesis
    by (simp add: by_id_def)
qed

lemma set_linear_order: "set (linear_order items) \<subseteq> set items"
  using by_id_vals [of items] mset_kahn [of "fst ` set (by_id items)" "[]" "by_id items"]
  by (auto simp: linear_order_def Let_def dest: mset_eq_setD)

lemma linear_order_titles: "list_all has_title (py_take n (linear_order (filter has_title raw)))"
  using set_linear_order [of "filter has_title raw"] set_py_take [of n "linear_order (filter has_title raw)"]
  by (auto simp: list_all_iff)

lemma linearize_length: "length (linearize_plan_steps raw m) = length (py_take m (linear_order (filter has_title raw)))"
  using arg_cong [OF number_steps_indices [OF linear_order_titles, of 1 m raw], of length]
  by (simp add: linearize_plan_steps_def)

lemma linearize_indices:
  "map ps_index (linearize_plan_steps raw m) = map (\<lambda>i. 1 + int i) [0..<length (linearize_plan_steps raw m)]"
  using number_steps_indices [OF linear_order_titles, of 1 m raw] linearize_length [of raw m]
  by (simp add: linearize_plan_steps_def)

section \<open>Properties\<close>

text \<open>
  The progression query (plan_decomposition.py): it never proposes a finished or blocked step and never skips
  one: every step below the proposed index is terminal.
\<close>

theorem next_open_step_never_repeats:
  assumes "next_open_step steps = Some i"
  shows "(\<exists>s. (i, s) \<in> set steps \<and> \<not> step_terminal s \<and> norm_status s \<noteq> BLOCKING_STEP_STATUS)
    \<and> (\<forall>(j, t) \<in> set steps. j < i \<longrightarrow> step_terminal t)"
  using next_open_step_Some [OF assms] by blast

theorem next_open_step_never_repeats_witness:
  "\<exists>s. (2, s) \<in> set [(3::int, ''candidate''), (1, ''Done ''), (2, ''executing'')]
      \<and> \<not> step_terminal s \<and> norm_status s \<noteq> BLOCKING_STEP_STATUS"
  by (rule next_open_step_never_repeats [THEN conjunct1]) code_simp

text \<open>
  Linearising a model's plan (plan_decomposition.py): the steps are numbered
  1, 2, 3, ... without a gap, at most \<open>max_steps\<close> of them.
\<close>

theorem linearize_contiguous:
  "map ps_index (linearize_plan_steps raw m) = map (\<lambda>i. 1 + int i) [0..<length (linearize_plan_steps raw m)]
   \<and> (m < 0 \<or> int (length (linearize_plan_steps raw m)) \<le> m)"
  using linearize_indices [of raw m] linearize_length [of raw m] by (auto simp: py_take_def)

text \<open>
  The Kahn passes (plan_decomposition.py) neither lose nor duplicate an item, whether or not the
  declared dependencies have a cycle; without a cycle every known dependency of an item stands
  before it.
\<close>

theorem kahn_complete_and_ordered:
  "mset (kahn (fst ` set d) [] d) = mset d
   \<and> (acyclic_deps rank (fst ` set d) d \<longrightarrow> deps_first (fst ` set d) {} (kahn (fst ` set d) [] d))"
  using kahn_deps_first [of rank "fst ` set d" d "[]"] by (simp add: mset_kahn)

theorem kahn_complete_and_ordered_witness:
  "deps_first {''b'', ''a''} {} (kahn {''b'', ''a''} []
     [(''b'', [(''depends_on'', PList [PStr ''a''])]), (''a'', [])])"
proof -
  let ?d = "[(''b'', [(''depends_on'', PList [PStr ''a''])]), (''a'', [])]"
  have s: "py_strip ''a'' = ''a''" by code_simp
  have "acyclic_deps (\<lambda>k. if k = ''b'' then 1 else 0) (fst ` set ?d) ?d"
    by (simp add: acyclic_deps_def dep_keys_def py_str_def s)
  with kahn_complete_and_ordered [of ?d "\<lambda>k. if k = ''b'' then 1 else 0"] show ?thesis by simp
qed

text \<open>
  Two model steps that carry the same id (plan_decomposition.py, linearize_plan_steps): the second is
  dropped, although the function's documentation says that a step is never dropped.
\<close>

theorem duplicate_id_drops_a_step:
  "map ps_title (linearize_plan_steps
     [[(''id'', PStr ''s1''), (''title'', PStr ''Write'')], [(''id'', PStr ''s1''), (''title'', PStr ''Test'')]] 12)
   = [''Write'']"
proof -
  have s: "py_strip ''s1'' = ''s1''" "py_strip ''Write'' = ''Write''" "py_strip ''Test'' = ''Test''" "py_strip [] = []"
    by code_simp+
  show ?thesis
    by (simp add: linearize_plan_steps_def linear_order_def by_id_def has_title_def step_title_def step_key_def s
        dict_setdefault_def Let_def kahn.simps [of _ _ "[_]"] kahn.simps [of _ _ "[]"] unmet_def dep_keys_def
        py_take_def step_from_dict_def)
qed

end
