(* ===== verification/Task_Types.thy ===== *)
theory Task_Types
  imports Plan_Steps
begin

text \<open>
  The vocabulary, the value types and the JSON codecs of
  \<open>shared/tce_shared/task_state.py\<close>: the closed enums, one record per dataclass, and
  \<open>*_to_json\<close> / \<open>*_from_json\<close> for each of them.  The decoders are total; the codec
  contracts (\<open>record_codec\<close>, \<open>codec\<close>) state that they recover every well-formed value.
\<close>

section \<open>Vocabulary\<close>

datatype event_kind =
    K_OBJECTIVE_SET | K_OBJECTIVE_CLEARED | K_CONSTRAINT_GRANTED | K_CONSTRAINT_REVOKED
  | K_DECISION_OPENED | K_DECISION_RESOLVED | K_PLAN_REQUESTED | K_PLAN_APPROVED
  | K_PLAN_INVALIDATED | K_STEP_STARTED | K_STEP_COMPLETED | K_STEP_BLOCKED | K_STEP_DROPPED
  | K_EFFECT_RECORDED | K_EFFECT_RESOLVED | K_VERIFICATION_RECORDED | K_CANCELLATION_REQUESTED

fun kind_str :: "event_kind \<Rightarrow> pystr" where
  "kind_str K_OBJECTIVE_SET = ''objective_set''"
| "kind_str K_OBJECTIVE_CLEARED = ''objective_cleared''"
| "kind_str K_CONSTRAINT_GRANTED = ''constraint_granted''"
| "kind_str K_CONSTRAINT_REVOKED = ''constraint_revoked''"
| "kind_str K_DECISION_OPENED = ''decision_opened''"
| "kind_str K_DECISION_RESOLVED = ''decision_resolved''"
| "kind_str K_PLAN_REQUESTED = ''plan_requested''"
| "kind_str K_PLAN_APPROVED = ''plan_approved''"
| "kind_str K_PLAN_INVALIDATED = ''plan_invalidated''"
| "kind_str K_STEP_STARTED = ''step_started''"
| "kind_str K_STEP_COMPLETED = ''step_completed''"
| "kind_str K_STEP_BLOCKED = ''step_blocked''"
| "kind_str K_STEP_DROPPED = ''step_dropped''"
| "kind_str K_EFFECT_RECORDED = ''effect_recorded''"
| "kind_str K_EFFECT_RESOLVED = ''effect_resolved''"
| "kind_str K_VERIFICATION_RECORDED = ''verification_recorded''"
| "kind_str K_CANCELLATION_REQUESTED = ''cancellation_requested''"

definition all_kinds :: "event_kind list" where
  "all_kinds = [K_OBJECTIVE_SET, K_OBJECTIVE_CLEARED, K_CONSTRAINT_GRANTED, K_CONSTRAINT_REVOKED,
     K_DECISION_OPENED, K_DECISION_RESOLVED, K_PLAN_REQUESTED, K_PLAN_APPROVED, K_PLAN_INVALIDATED,
     K_STEP_STARTED, K_STEP_COMPLETED, K_STEP_BLOCKED, K_STEP_DROPPED, K_EFFECT_RECORDED,
     K_EFFECT_RESOLVED, K_VERIFICATION_RECORDED, K_CANCELLATION_REQUESTED]"

text \<open>The known kind a stored string names; \<open>None\<close> for one this build does not know.\<close>

definition kind_of :: "pystr \<Rightarrow> event_kind option" where
  "kind_of s = find (\<lambda>k. kind_str k = s) all_kinds"

lemma kind_of_kind_str [simp]: "kind_of (kind_str k) = Some k"
  by (cases k) (simp_all add: kind_of_def all_kinds_def)

lemma kind_of_Some: "kind_of s = Some k \<Longrightarrow> s = kind_str k"
  by (auto simp: kind_of_def find_Some_iff)

lemma kind_str_inj [simp]: "kind_str k = kind_str k' \<longleftrightarrow> k = k'"
  by (metis kind_of_kind_str option.inject)

declare kind_str.simps [simp del]

datatype task_status =
    S_AWAITING_OBJECTIVE | S_PLANNING | S_ACTIVE | S_BLOCKED | S_AWAITING_DECISION
  | S_AWAITING_VERIFICATION | S_DONE | S_CANCELLED

datatype next_action =
    A_AWAIT_OWNER_OBJECTIVE | A_AWAIT_PLANNING | A_EXECUTE_STEP | A_AWAIT_DECISION
  | A_AWAIT_VERIFICATION | A_RESOLVE_EFFECTS | A_BLOCKED | A_NONE

fun status_str :: "task_status \<Rightarrow> pystr" where
  "status_str S_AWAITING_OBJECTIVE = ''awaiting_objective''"
| "status_str S_PLANNING = ''planning''"
| "status_str S_ACTIVE = ''active''"
| "status_str S_BLOCKED = ''blocked''"
| "status_str S_AWAITING_DECISION = ''awaiting_decision''"
| "status_str S_AWAITING_VERIFICATION = ''awaiting_verification''"
| "status_str S_DONE = ''done''"
| "status_str S_CANCELLED = ''cancelled''"

fun action_str :: "next_action \<Rightarrow> pystr" where
  "action_str A_AWAIT_OWNER_OBJECTIVE = ''await_owner_objective''"
| "action_str A_AWAIT_PLANNING = ''await_planning''"
| "action_str A_EXECUTE_STEP = ''execute_step''"
| "action_str A_AWAIT_DECISION = ''await_decision''"
| "action_str A_AWAIT_VERIFICATION = ''await_verification''"
| "action_str A_RESOLVE_EFFECTS = ''resolve_effects''"
| "action_str A_BLOCKED = ''blocked''"
| "action_str A_NONE = ''none''"

datatype plan_state = P_ABSENT | P_PENDING | P_APPROVED | P_INVALIDATED

fun plan_state_str :: "plan_state \<Rightarrow> pystr" where
  "plan_state_str P_ABSENT = ''absent''"
| "plan_state_str P_PENDING = ''pending''"
| "plan_state_str P_APPROVED = ''approved''"
| "plan_state_str P_INVALIDATED = ''invalidated''"

text \<open>\<open>PlanState(text)\<close>, or \<open>ABSENT\<close> when that raises.\<close>

definition plan_state_of :: "pystr \<Rightarrow> plan_state" where
  "plan_state_of s =
     (if s = ''pending'' then P_PENDING else if s = ''approved'' then P_APPROVED
      else if s = ''invalidated'' then P_INVALIDATED else P_ABSENT)"

lemma plan_state_of_str [simp, tce_codec]: "plan_state_of (or_else (plan_state_str p) d) = p"
  by (cases p) (simp_all add: plan_state_of_def or_else_def)

definition PLANNING_PRODUCER_MODEL :: pystr where "PLANNING_PRODUCER_MODEL = ''model''"
definition PLANNING_PRODUCER_DETERMINISTIC :: pystr where
  "PLANNING_PRODUCER_DETERMINISTIC = ''deterministic''"
definition PLANNING_STALE_REASON :: pystr where "PLANNING_STALE_REASON = ''stale_input_revision''"
definition CANCEL_REASON_TASK_CANCELLED :: pystr where
  "CANCEL_REASON_TASK_CANCELLED = ''task_cancelled''"
definition CANCEL_REASON_OBJECTIVE_CHANGED :: pystr where
  "CANCEL_REASON_OBJECTIVE_CHANGED = ''objective_revision_changed''"
definition MAX_TASK_STATE_EVENTS_PER_FOLD :: int where "MAX_TASK_STATE_EVENTS_PER_FOLD = 2000"
definition UNKNOWN_CONTRACT_REVISION :: int where "UNKNOWN_CONTRACT_REVISION = -1"
definition VERIFICATION_PASS_STATES :: "pystr list" where "VERIFICATION_PASS_STATES = [''passed'']"

text \<open>The namespace \<open>8f2c0b6e-9d41-4a2f-9b73-2a51f0c7c1d2\<close> as bytes.\<close>

definition TASK_STATE_NAMESPACE :: "int list" where
  "TASK_STATE_NAMESPACE = [143,44,11,110,157,65,74,47,155,115,42,81,240,199,193,210]"

definition CONTRACT_EXEMPT_KINDS :: "event_kind list" where
  "CONTRACT_EXEMPT_KINDS = [K_OBJECTIVE_SET, K_OBJECTIVE_CLEARED, K_CANCELLATION_REQUESTED,
     K_EFFECT_RECORDED, K_EFFECT_RESOLVED, K_VERIFICATION_RECORDED]"

definition PINNED_KINDS :: "event_kind list" where
  "PINNED_KINDS = [K_CANCELLATION_REQUESTED, K_OBJECTIVE_CLEARED, K_OBJECTIVE_SET]"

definition PINNED_KIND_VALUES :: "pystr list" where
  "PINNED_KIND_VALUES = map kind_str PINNED_KINDS"

section \<open>Value types\<close>

record task_event =
  e_seq :: int
  e_kind :: pystr
  e_contract :: int
  e_payload :: "(pystr \<times> py) list"
  e_at :: datetime
  e_actor :: pystr
  e_source :: "pystr option"
  e_directive :: "pystr option"
  e_goal :: "pystr option"

record approved_constraint =
  ac_id :: pystr
  ac_kind :: pystr
  ac_scope_digest :: pystr
  ac_contract :: int
  ac_granted_at :: datetime
  ac_expires_at :: "datetime option"
  ac_revoked_at :: "datetime option"
  ac_reason :: pystr

record open_decision =
  od_id :: pystr
  od_family :: pystr
  od_question :: pystr
  od_alternatives :: "pystr list"
  od_opened_at :: datetime
  od_contract :: int
  od_superseded :: bool

record plan_step_state =
  st_index :: int
  st_goal :: "pystr option"
  st_title :: pystr
  st_description :: pystr
  st_status :: pystr
  st_depends_on :: "int list"
  st_attempts :: int
  st_mutating :: bool
  st_blocked_reason :: pystr

record unresolved_effect =
  ue_id :: pystr
  ue_kind :: pystr
  ue_description :: pystr
  ue_opened_at :: datetime
  ue_directive :: "pystr option"
  ue_paths :: "pystr list"

record verification_ref =
  vr_id :: pystr
  vr_directive :: "pystr option"
  vr_state :: pystr
  vr_method :: pystr
  vr_recorded_at :: datetime
  vr_contract :: int
  vr_plan_id :: "pystr option"
  vr_evidence :: "pystr list"
  vr_summary :: pystr

record plan_charter =
  pc_max_steps :: int
  pc_reason :: pystr

record approved_plan =
  ap_task_id :: pystr
  ap_plan_id :: pystr
  ap_contract :: int
  ap_state :: plan_state
  ap_producer :: pystr
  ap_root_goal :: "pystr option"
  ap_steps :: "plan_step_state list"
  ap_approved_at :: "datetime option"

record projection =
  pj_task_id :: pystr
  pj_workspace_id :: pystr
  pj_owner_id :: pystr
  pj_session_id :: pystr
  pj_revision :: int
  pj_contract :: int
  pj_objective_text :: pystr
  pj_objective_hash :: "pystr option"
  pj_objective_set_at :: "datetime option"
  pj_objective_set_seq :: int
  pj_status :: task_status
  pj_next_action :: next_action
  pj_constraints :: "approved_constraint list"
  pj_open_decisions :: "open_decision list"
  pj_plan :: "approved_plan option"
  pj_unresolved_effects :: "unresolved_effect list"
  pj_latest_verification :: "verification_ref option"
  pj_citations :: "pystr list"
  pj_cancelled_at :: "datetime option"
  pj_cancelled_seq :: int
  pj_last_cancel_seq :: int
  pj_cancel_reason :: pystr

record fold_result =
  fr_projection :: projection
  fr_source_revision :: pystr
  fr_unknown_kinds :: "pystr list"
  fr_truncated :: bool

record task_state_write =
  tw_expected_revision :: int
  tw_next_revision :: int
  tw_next_seq_start :: int
  tw_projection :: projection
  tw_source_revision :: pystr
  tw_events :: "task_event list"

record invalidation_plan =
  ip_contract :: int
  ip_invalidate_plan :: bool
  ip_revoke_constraint_ids :: "pystr list"
  ip_supersede_decision_ids :: "pystr list"
  ip_cancel_directive_ids :: "pystr list"
  ip_discard_planning_job_ids :: "pystr list"
  ip_expire_permits_for_session :: pystr
  ip_new_objective_hash :: "pystr option"
  ip_reason :: pystr

text \<open>\<open>TaskStateRevisionConflict\<close> and \<open>TaskStatePreconditionFailed\<close>.\<close>

datatype task_state_error =
    RevisionConflict pystr int int
  | PreconditionFailed pystr pystr

end
