(* ===== verification/Task_Codec.thy ===== *)
theory Task_Codec
  imports Task_Types
begin

text \<open>
  The JSON codecs of \<open>shared/tce_shared/task_state.py\<close> and their contracts.  An encoder
  writes one dictionary per record; a decoder reads a list of mappings, skips what has no
  identity and defaults what is missing or mistyped.
\<close>

section \<open>The contract of a list codec\<close>

locale record_codec =
  fixes enc1 :: "'a \<Rightarrow> (pystr \<times> py) list" and dec1 :: "(pystr \<times> py) list \<Rightarrow> 'a option"
    and wf1 :: "'a \<Rightarrow> bool"
  assumes dec1_enc1: "wf1 x \<Longrightarrow> dec1 (enc1 x) = Some x"
begin

lemma list_roundtrip: "list_all wf1 xs \<Longrightarrow> List.map_filter dec1 (map enc1 xs) = xs"
  by (induction xs) (simp_all add: List.map_filter_simps dec1_enc1)

lemma single: "wf1 x \<Longrightarrow> List.map_filter dec1 (mappings (PList [PDict (enc1 x)])) = [x]"
  by (simp add: List.map_filter_simps dec1_enc1)

end

definition EPOCH :: datetime where "EPOCH = Aware 0 0"

definition dt_or :: "datetime option \<Rightarrow> datetime \<Rightarrow> datetime" where
  "dt_or x d = (case x of Some v \<Rightarrow> v | None \<Rightarrow> d)"

lemma dt_or_simps [simp]: "dt_or (Some v) d = v" "dt_or None d = d"
  by (simp_all add: dt_or_def)

section \<open>Constraints\<close>

definition constraint_to_dict :: "approved_constraint \<Rightarrow> (pystr \<times> py) list" where
  "constraint_to_dict c =
     [(''constraint_id'', PStr (ac_id c)), (''kind'', PStr (ac_kind c)),
      (''scope_digest'', PStr (ac_scope_digest c)), (''contract_revision'', PInt (ac_contract c)),
      (''granted_at'', dt_to_json (Some (ac_granted_at c))), (''expires_at'', dt_to_json (ac_expires_at c)),
      (''revoked_at'', dt_to_json (ac_revoked_at c)), (''reason'', PStr (ac_reason c))]"

definition constraints_to_json :: "approved_constraint list \<Rightarrow> py" where
  "constraints_to_json items = PList (map (\<lambda>x. PDict (constraint_to_dict x)) items)"

definition constraint_from_dict :: "(pystr \<times> py) list \<Rightarrow> approved_constraint option" where
  "constraint_from_dict m =
     (let cid = text_of (py_get m ''constraint_id'') [] in
      if cid = [] then None else Some
        \<lparr>ac_id = cid,
         ac_kind = or_else (text_of (py_get m ''kind'') ''permit'') ''permit'',
         ac_scope_digest = text_of (py_get m ''scope_digest'') [],
         ac_contract = integer_of (py_get m ''contract_revision'') 0,
         ac_granted_at = dt_or (dt_from_json (py_get m ''granted_at'') None) EPOCH,
         ac_expires_at = dt_from_json (py_get m ''expires_at'') None,
         ac_revoked_at = dt_from_json (py_get m ''revoked_at'') None,
         ac_reason = text_of (py_get m ''reason'') []\<rparr>)"

definition constraints_from_json :: "py \<Rightarrow> approved_constraint list" where
  "constraints_from_json raw = List.map_filter constraint_from_dict (mappings raw)"

definition constraint_ok :: "approved_constraint \<Rightarrow> bool" where
  "constraint_ok c = (ac_id c \<noteq> [] \<and> ac_kind c \<noteq> [] \<and> utc_ok (ac_granted_at c)
     \<and> utc_opt_ok (ac_expires_at c) \<and> utc_opt_ok (ac_revoked_at c))"

interpretation constraint: record_codec constraint_to_dict constraint_from_dict constraint_ok
  by unfold_locales
    (simp add: constraint_to_dict_def constraint_from_dict_def constraint_ok_def tce_codec)

interpretation constraints: codec constraints_to_json constraints_from_json "list_all constraint_ok"
  by unfold_locales
    (simp add: constraints_to_json_def constraints_from_json_def constraint.list_roundtrip)

section \<open>Decisions\<close>

definition decision_to_dict :: "open_decision \<Rightarrow> (pystr \<times> py) list" where
  "decision_to_dict d =
     [(''decision_id'', PStr (od_id d)), (''family'', PStr (od_family d)),
      (''question_text'', PStr (od_question d)), (''alternatives'', PList (map PStr (od_alternatives d))),
      (''opened_at'', dt_to_json (Some (od_opened_at d))), (''contract_revision'', PInt (od_contract d)),
      (''superseded'', PBool (od_superseded d))]"

definition decisions_to_json :: "open_decision list \<Rightarrow> py" where
  "decisions_to_json items = PList (map (\<lambda>x. PDict (decision_to_dict x)) items)"

definition decision_from_dict :: "(pystr \<times> py) list \<Rightarrow> open_decision option" where
  "decision_from_dict m =
     (let did = text_of (py_get m ''decision_id'') [] in
      if did = [] then None else Some
        \<lparr>od_id = did,
         od_family = text_of (py_get m ''family'') [],
         od_question = text_of (py_get m ''question_text'') [],
         od_alternatives = text_tuple (py_get m ''alternatives''),
         od_opened_at = dt_or (dt_from_json (py_get m ''opened_at'') None) EPOCH,
         od_contract = integer_of (py_get m ''contract_revision'') 0,
         od_superseded = flag_of (py_get m ''superseded'') False\<rparr>)"

definition decisions_from_json :: "py \<Rightarrow> open_decision list" where
  "decisions_from_json raw = List.map_filter decision_from_dict (mappings raw)"

definition decision_ok :: "open_decision \<Rightarrow> bool" where
  "decision_ok d = (od_id d \<noteq> [] \<and> [] \<notin> set (od_alternatives d) \<and> utc_ok (od_opened_at d))"

interpretation decision: record_codec decision_to_dict decision_from_dict decision_ok
  by unfold_locales
    (simp add: decision_to_dict_def decision_from_dict_def decision_ok_def tce_codec)

interpretation decisions: codec decisions_to_json decisions_from_json "list_all decision_ok"
  by unfold_locales
    (simp add: decisions_to_json_def decisions_from_json_def decision.list_roundtrip)

section \<open>Plan steps and plans\<close>

definition step_to_dict :: "plan_step_state \<Rightarrow> (pystr \<times> py) list" where
  "step_to_dict s =
     [(''step_index'', PInt (st_index s)), (''goal_id'', opt_py PStr (st_goal s)),
      (''title'', PStr (st_title s)), (''description'', PStr (st_description s)),
      (''status'', PStr (st_status s)), (''depends_on'', PList (map PInt (st_depends_on s))),
      (''attempts'', PInt (st_attempts s)), (''mutating'', PBool (st_mutating s)),
      (''blocked_reason'', PStr (st_blocked_reason s))]"

definition plan_steps_to_json :: "plan_step_state list \<Rightarrow> py" where
  "plan_steps_to_json items = PList (map (\<lambda>x. PDict (step_to_dict x)) items)"

definition plan_step_from_dict :: "(pystr \<times> py) list \<Rightarrow> plan_step_state option" where
  "plan_step_from_dict m = Some
     \<lparr>st_index = integer_of (py_get m ''step_index'') 0,
      st_goal = opt_text (py_get m ''goal_id''),
      st_title = text_of (py_get m ''title'') [],
      st_description = text_of (py_get m ''description'') [],
      st_status = or_else (text_of (py_get m ''status'') ''candidate'') ''candidate'',
      st_depends_on = int_tuple (py_get m ''depends_on''),
      st_attempts = integer_of (py_get m ''attempts'') 0,
      st_mutating = flag_of (py_get m ''mutating'') False,
      st_blocked_reason = text_of (py_get m ''blocked_reason'') []\<rparr>"

definition plan_steps_from_json :: "py \<Rightarrow> plan_step_state list" where
  "plan_steps_from_json raw = List.map_filter plan_step_from_dict (mappings raw)"

definition step_ok :: "plan_step_state \<Rightarrow> bool" where
  "step_ok s = (opt_ok (st_goal s) \<and> st_status s \<noteq> [])"

interpretation plan_step: record_codec step_to_dict plan_step_from_dict step_ok
  by unfold_locales (simp add: step_to_dict_def plan_step_from_dict_def step_ok_def tce_codec)

interpretation plan_steps: codec plan_steps_to_json plan_steps_from_json "list_all step_ok"
  by unfold_locales
    (simp add: plan_steps_to_json_def plan_steps_from_json_def plan_step.list_roundtrip)

definition approved_plan_to_json :: "approved_plan option \<Rightarrow> py" where
  "approved_plan_to_json p = (case p of None \<Rightarrow> PNone | Some plan \<Rightarrow> PDict
     [(''task_id'', PStr (ap_task_id plan)), (''plan_id'', PStr (ap_plan_id plan)),
      (''contract_revision'', PInt (ap_contract plan)), (''state'', PStr (plan_state_str (ap_state plan))),
      (''producer'', PStr (ap_producer plan)), (''root_goal_id'', opt_py PStr (ap_root_goal plan)),
      (''steps'', plan_steps_to_json (ap_steps plan)), (''approved_at'', dt_to_json (ap_approved_at plan))])"

definition approved_plan_from_json :: "py \<Rightarrow> approved_plan option" where
  "approved_plan_from_json raw = (case raw of
       PDict m \<Rightarrow>
         (let plan_id = text_of (py_get m ''plan_id'') [] in
          if plan_id = [] then None else Some
            \<lparr>ap_task_id = text_of (py_get m ''task_id'') [],
             ap_plan_id = plan_id,
             ap_contract = integer_of (py_get m ''contract_revision'') 0,
             ap_state = plan_state_of (or_else (text_of (py_get m ''state'') ''absent'') ''absent''),
             ap_producer = text_of (py_get m ''producer'') [],
             ap_root_goal = opt_text (py_get m ''root_goal_id''),
             ap_steps = plan_steps_from_json (py_get m ''steps''),
             ap_approved_at = dt_from_json (py_get m ''approved_at'') None\<rparr>)
     | _ \<Rightarrow> None)"

definition plan_ok :: "approved_plan option \<Rightarrow> bool" where
  "plan_ok p = (case p of None \<Rightarrow> True | Some plan \<Rightarrow> ap_plan_id plan \<noteq> [] \<and> opt_ok (ap_root_goal plan)
     \<and> list_all step_ok (ap_steps plan) \<and> utc_opt_ok (ap_approved_at plan))"

interpretation plan: codec approved_plan_to_json approved_plan_from_json plan_ok
  by unfold_locales
    (auto simp: approved_plan_to_json_def approved_plan_from_json_def plan_ok_def
        plan_steps.dec_enc tce_codec split: option.splits)

section \<open>Effects\<close>

definition effect_to_dict :: "unresolved_effect \<Rightarrow> (pystr \<times> py) list" where
  "effect_to_dict e =
     [(''effect_id'', PStr (ue_id e)), (''kind'', PStr (ue_kind e)), (''description'', PStr (ue_description e)),
      (''opened_at'', dt_to_json (Some (ue_opened_at e))), (''directive_id'', opt_py PStr (ue_directive e)),
      (''paths'', PList (map PStr (ue_paths e)))]"

definition effects_to_json :: "unresolved_effect list \<Rightarrow> py" where
  "effects_to_json items = PList (map (\<lambda>x. PDict (effect_to_dict x)) items)"

definition effect_from_dict :: "(pystr \<times> py) list \<Rightarrow> unresolved_effect option" where
  "effect_from_dict m =
     (let eid = text_of (py_get m ''effect_id'') [] in
      if eid = [] then None else Some
        \<lparr>ue_id = eid,
         ue_kind = or_else (text_of (py_get m ''kind'') ''directive'') ''directive'',
         ue_description = text_of (py_get m ''description'') [],
         ue_opened_at = dt_or (dt_from_json (py_get m ''opened_at'') None) EPOCH,
         ue_directive = opt_text (py_get m ''directive_id''),
         ue_paths = text_tuple (py_get m ''paths'')\<rparr>)"

definition effects_from_json :: "py \<Rightarrow> unresolved_effect list" where
  "effects_from_json raw = List.map_filter effect_from_dict (mappings raw)"

definition effect_ok :: "unresolved_effect \<Rightarrow> bool" where
  "effect_ok e = (ue_id e \<noteq> [] \<and> ue_kind e \<noteq> [] \<and> utc_ok (ue_opened_at e)
     \<and> opt_ok (ue_directive e) \<and> [] \<notin> set (ue_paths e))"

interpretation effect: record_codec effect_to_dict effect_from_dict effect_ok
  by unfold_locales (simp add: effect_to_dict_def effect_from_dict_def effect_ok_def tce_codec)

interpretation effects: codec effects_to_json effects_from_json "list_all effect_ok"
  by unfold_locales (simp add: effects_to_json_def effects_from_json_def effect.list_roundtrip)

section \<open>Verifications and planning charters\<close>

definition verification_to_json :: "verification_ref option \<Rightarrow> py" where
  "verification_to_json r = (case r of None \<Rightarrow> PNone | Some ref \<Rightarrow> PDict
     [(''verification_id'', PStr (vr_id ref)), (''directive_id'', opt_py PStr (vr_directive ref)),
      (''state'', PStr (vr_state ref)), (''method'', PStr (vr_method ref)),
      (''recorded_at'', dt_to_json (Some (vr_recorded_at ref))), (''contract_revision'', PInt (vr_contract ref)),
      (''plan_id'', opt_py PStr (vr_plan_id ref)), (''evidence_event_ids'', PList (map PStr (vr_evidence ref))),
      (''summary'', PStr (vr_summary ref))])"

definition verification_from_json :: "py \<Rightarrow> verification_ref option" where
  "verification_from_json raw = (case raw of
       PDict m \<Rightarrow>
         (let vid = text_of (py_get m ''verification_id'') [] in
          if vid = [] then None else Some
            \<lparr>vr_id = vid,
             vr_directive = opt_text (py_get m ''directive_id''),
             vr_state = or_else (text_of (py_get m ''state'') ''unverified'') ''unverified'',
             vr_method = or_else (text_of (py_get m ''method'') ''none'') ''none'',
             vr_recorded_at = dt_or (dt_from_json (py_get m ''recorded_at'') None) EPOCH,
             vr_contract = integer_of (py_get m ''contract_revision'') 0,
             vr_plan_id = opt_text (py_get m ''plan_id''),
             vr_evidence = text_tuple (py_get m ''evidence_event_ids''),
             vr_summary = text_of (py_get m ''summary'') []\<rparr>)
     | _ \<Rightarrow> None)"

definition verification_ok :: "verification_ref option \<Rightarrow> bool" where
  "verification_ok r = (case r of None \<Rightarrow> True | Some ref \<Rightarrow> vr_id ref \<noteq> [] \<and> opt_ok (vr_directive ref)
     \<and> vr_state ref \<noteq> [] \<and> vr_method ref \<noteq> [] \<and> utc_ok (vr_recorded_at ref) \<and> opt_ok (vr_plan_id ref)
     \<and> [] \<notin> set (vr_evidence ref))"

interpretation verification: codec verification_to_json verification_from_json verification_ok
  by unfold_locales
    (auto simp: verification_to_json_def verification_from_json_def verification_ok_def tce_codec
        split: option.splits)

definition charter_to_json :: "plan_charter \<Rightarrow> py" where
  "charter_to_json c = PDict [(''max_steps'', PInt (pc_max_steps c)), (''reason'', PStr (pc_reason c))]"

definition charter_from_json :: "py \<Rightarrow> plan_charter" where
  "charter_from_json raw = (case raw of
       PDict m \<Rightarrow> \<lparr>pc_max_steps = integer_of (py_get m ''max_steps'') MAX_PLAN_STEPS,
                   pc_reason = text_of (py_get m ''reason'') []\<rparr>
     | _ \<Rightarrow> \<lparr>pc_max_steps = MAX_PLAN_STEPS, pc_reason = []\<rparr>)"

interpretation charter: codec charter_to_json charter_from_json "\<lambda>_. True"
  by unfold_locales (simp add: charter_to_json_def charter_from_json_def)

section \<open>Properties\<close>

text \<open>
  The stored projection columns (task_state.py, the codecs): every well-formed list of
  constraints, decisions, effects, plan and verification survives the JSON boundary.
\<close>

theorem projection_columns_roundtrip:
  assumes "list_all constraint_ok cs" "list_all decision_ok ds" "list_all effect_ok es"
    and "plan_ok p" "verification_ok v"
  shows "constraints_from_json (constraints_to_json cs) = cs
    \<and> decisions_from_json (decisions_to_json ds) = ds
    \<and> effects_from_json (effects_to_json es) = es
    \<and> approved_plan_from_json (approved_plan_to_json p) = p
    \<and> verification_from_json (verification_to_json v) = v"
  using assms
  by (simp add: constraints.dec_enc decisions.dec_enc effects.dec_enc plan.dec_enc verification.dec_enc)

definition sample_constraint :: approved_constraint where
  "sample_constraint = \<lparr>ac_id = ''c1'', ac_kind = ''permit'', ac_scope_digest = ''d'', ac_contract = 1,
     ac_granted_at = Aware 5 0, ac_expires_at = None, ac_revoked_at = Some (Aware 9 0), ac_reason = []\<rparr>"

theorem projection_columns_roundtrip_witness:
  "constraints_from_json (constraints_to_json [sample_constraint]) = [sample_constraint]"
  by (rule projection_columns_roundtrip [of _ "[]" "[]" None None, THEN conjunct1])
    (simp_all add: sample_constraint_def constraint_ok_def utc_ok_def utc_opt_ok_def in_range_def MIN_T_def
      MAX_T_def plan_ok_def verification_ok_def)

end
