(* ===== verification/Effect_Journal.thy ===== *)
theory Effect_Journal
  imports Task_Codec
begin

text \<open>
  \<open>shared/tce_shared/effect_journal.py\<close>: what is known of an effect on the world (the
  states, the transition rules per actor and reversibility, when autonomy pauses), the JSON codec of a
  record, and the bridge to the unresolved effects of a task's projection.
\<close>

section \<open>Vocabulary\<close>

definition EFFECT_STATES :: "pystr list" where
  "EFFECT_STATES = [''prepared'', ''running'', ''confirmed'', ''failed'', ''unknown'']"

definition EFFECT_TERMINAL_STATES :: "pystr list" where
  "EFFECT_TERMINAL_STATES = [''confirmed'', ''failed'']"

definition EFFECT_TRANSITIONS :: "(pystr \<times> pystr) list" where
  "EFFECT_TRANSITIONS =
     [(''prepared'', ''running''), (''prepared'', ''failed''), (''prepared'', ''unknown''),
      (''running'', ''confirmed''), (''running'', ''failed''), (''running'', ''unknown''),
      (''unknown'', ''confirmed''), (''unknown'', ''failed'')]"

definition EFFECT_REOPENABLE_TRANSITIONS :: "(pystr \<times> pystr) list" where
  "EFFECT_REOPENABLE_TRANSITIONS = [(''failed'', ''unknown'')]"

definition SYSTEM_ONLY_SOURCES :: "pystr list" where
  "SYSTEM_ONLY_SOURCES = [''system:reconciler'', ''system:verifier'', ''system:owner'']"

definition DEFAULT_REVERSIBILITY_BY_KIND :: "(pystr, pystr) dict" where
  "DEFAULT_REVERSIBILITY_BY_KIND = [(''directive'', ''unknown''), (''write'', ''reversible''),
     (''command'', ''unknown''), (''commit'', ''reversible''), (''external'', ''unknown'')]"

definition KIND_TO_PROJECTION :: "(pystr, pystr) dict" where
  "KIND_TO_PROJECTION = [(''directive'', ''directive''), (''write'', ''write''), (''commit'', ''write''),
     (''command'', ''external''), (''external'', ''external'')]"

text \<open>\<open>EffectTransitionRejected\<close>: the reason and the two states.\<close>

datatype effect_error = TransitionRejected pystr pystr pystr

record effect_intent =
  ei_kind :: pystr
  ei_capability :: pystr
  ei_resource :: pystr
  ei_argv :: "pystr list"
  ei_reversibility :: pystr
  ei_description :: pystr

record effect_record =
  ef_id :: pystr
  ef_directive :: pystr
  ef_seq :: int
  ef_state :: pystr
  ef_intent :: effect_intent
  ef_digest :: pystr
  ef_tier :: pystr
  ef_tracing :: pystr
  ef_lease :: int
  ef_executor :: pystr
  ef_run_id :: "pystr option"
  ef_turn_id :: "pystr option"
  ef_opened_at :: datetime
  ef_resolved_at :: "datetime option"
  ef_source :: "pystr option"
  ef_evidence :: "(pystr \<times> py) list option"

section \<open>Transitions\<close>

definition effect_intent_digest :: "effect_intent \<Rightarrow> pystr" where
  "effect_intent_digest i = sha256_hex (canonical_json (PDict
     [(''kind'', PStr (ei_kind i)), (''capability'', PStr (ei_capability i)),
      (''resource'', PStr (ei_resource i)), (''argv'', PList (map PStr (ei_argv i))),
      (''reversibility'', PStr (ei_reversibility i))]))"

definition validate_effect_transition ::
  "pystr \<Rightarrow> pystr \<Rightarrow> pystr \<Rightarrow> pystr \<Rightarrow> (effect_error, unit) result" where
  "validate_effect_transition current target actor reversibility =
     (let rejected = (\<lambda>reason. Err (TransitionRejected reason current target)); pair = (current, target);
          system_actor = (actor \<in> set SYSTEM_ONLY_SOURCES) in
      if current \<notin> set EFFECT_STATES \<or> target \<notin> set EFFECT_STATES then rejected ''unknown_state''
      else if current \<in> set EFFECT_TERMINAL_STATES \<and> pair \<notin> set EFFECT_REOPENABLE_TRANSITIONS
      then rejected ''terminal''
      else if pair \<notin> set (EFFECT_TRANSITIONS @ EFFECT_REOPENABLE_TRANSITIONS)
      then rejected ''invalid_transition''
      else if (current = ''unknown'' \<or> pair \<in> set EFFECT_REOPENABLE_TRANSITIONS) \<and> \<not> system_actor
      then rejected ''system_only''
      else if reversibility = ''irreversible'' \<and> target \<in> set EFFECT_TERMINAL_STATES \<and> \<not> system_actor
      then rejected ''irreversible_actor''
      else Ok ())"

definition is_effect_terminal :: "pystr \<Rightarrow> bool" where
  "is_effect_terminal state = (state \<in> set EFFECT_TERMINAL_STATES)"

definition pause_required :: "effect_record list \<Rightarrow> bool \<times> pystr" where
  "pause_required records =
     (if list_ex (\<lambda>r. ef_state r = ''unknown''
            \<and> ei_reversibility (ef_intent r) \<in> {''irreversible'', ''unknown''}) records
      then (True, ''unresolved_irreversible_effect'')
      else if list_ex (\<lambda>r. ef_state r \<in> {''prepared'', ''running''}) records then (True, ''effect_still_open'')
      else (False, []))"

definition unresolved_effect_dict :: "effect_record \<Rightarrow> (pystr \<times> py) list" where
  "unresolved_effect_dict r =
     [(''effect_id'', PStr (ef_id r)),
      (''kind'', PStr (case dict_get KIND_TO_PROJECTION (ei_kind (ef_intent r)) of
          None \<Rightarrow> ''external'' | Some k \<Rightarrow> k)),
      (''description'', PStr (or_else (ei_description (ef_intent r)) (ei_resource (ef_intent r)))),
      (''opened_at'', PStr (isoformat (ef_opened_at r))),
      (''directive_id'', PStr (ef_directive r)),
      (''paths'', PList (if ei_resource (ef_intent r) \<noteq> [] then [PStr (ei_resource (ef_intent r))] else [])),
      (''state'', PStr (ef_state r))]"

definition unresolved_effects_json :: "effect_record list \<Rightarrow> py" where
  "unresolved_effects_json records =
     PList (map (\<lambda>r. PDict (unresolved_effect_dict r))
       (filter (\<lambda>r. ef_state r \<notin> set EFFECT_TERMINAL_STATES) records))"

section \<open>Codec\<close>

datatype value_error = ValueError pystr | TypeError

text \<open>\<open>str(value or dflt)\<close>.\<close>

definition str_or :: "py \<Rightarrow> pystr \<Rightarrow> pystr" where
  "str_or v dflt = (if truthy v then py_str v else dflt)"

text \<open>\<open>int(value or 0)\<close>.\<close>

definition int_or_zero :: "py \<Rightarrow> (value_error, int) result" where
  "int_or_zero v = (if \<not> truthy v then Ok 0 else (case v of
       PInt i \<Rightarrow> Ok i
     | PBool b \<Rightarrow> Ok 1
     | PStr s \<Rightarrow> (case py_int s of Some i \<Rightarrow> Ok i | None \<Rightarrow>
         Err (ValueError (''invalid literal for int() with base 10: '' @ repr_str s)))
     | _ \<Rightarrow> Err TypeError))"

text \<open>\<open>tuple(str(item) for item in (value or ()))\<close>: a string yields its characters, a mapping its keys.\<close>

definition str_items :: "py \<Rightarrow> (value_error, pystr list) result" where
  "str_items v = (if \<not> truthy v then Ok [] else (case v of
       PList xs \<Rightarrow> Ok (map py_str xs)
     | PStr s \<Rightarrow> Ok (map (\<lambda>c. [c]) s)
     | PDict m \<Rightarrow> Ok (map fst m)
     | _ \<Rightarrow> Err TypeError))"

definition state_literal :: "py \<Rightarrow> (value_error, pystr) result" where
  "state_literal v = (let raw = str_or v ''prepared'' in
     if raw \<in> {''running'', ''confirmed'', ''failed'', ''unknown'', ''prepared''} then Ok raw
     else Err (ValueError (''unknown effect state '' @ repr_str raw)))"

definition kind_literal :: "py \<Rightarrow> (value_error, pystr) result" where
  "kind_literal v = (let raw = str_or v ''external'' in
     if raw \<in> {''directive'', ''write'', ''command'', ''commit'', ''external''} then Ok raw
     else Err (ValueError (''unknown effect kind '' @ repr_str raw)))"

definition reversibility_literal :: "py \<Rightarrow> pystr" where
  "reversibility_literal v = (let raw = str_or v ''unknown'' in
     if raw \<in> {''reversible'', ''irreversible''} then raw else ''unknown'')"

definition tier_literal :: "py \<Rightarrow> pystr" where
  "tier_literal v = (let raw = str_or v ''advisory'' in
     if raw \<in> {''os_sandbox'', ''container''} then raw else ''advisory'')"

definition tracing_literal :: "py \<Rightarrow> pystr" where
  "tracing_literal v = (if str_or v ''unavailable'' = ''observed'' then ''observed'' else ''unavailable'')"

definition parse_dt :: "py \<Rightarrow> (value_error, datetime) result" where
  "parse_dt v = (case v of PDate d \<Rightarrow> Ok d
     | _ \<Rightarrow> (case fromisoformat (py_str v) of Some d \<Rightarrow> Ok d | None \<Rightarrow>
         Err (ValueError (''Invalid isoformat string: '' @ repr_str (py_str v)))))"

definition parse_dt_opt :: "py \<Rightarrow> (value_error, datetime option) result" where
  "parse_dt_opt v = (if v = PNone then Ok None else res_bind (parse_dt v) (\<lambda>d. Ok (Some d)))"

definition opt_str :: "py \<Rightarrow> pystr option" where
  "opt_str v = (if truthy v then Some (py_str v) else None)"

definition effect_intent_to_json :: "effect_intent \<Rightarrow> (pystr \<times> py) list" where
  "effect_intent_to_json i =
     [(''kind'', PStr (ei_kind i)), (''capability'', PStr (ei_capability i)),
      (''resource'', PStr (ei_resource i)), (''argv'', PList (map PStr (ei_argv i))),
      (''reversibility'', PStr (ei_reversibility i)), (''description'', PStr (ei_description i))]"

definition effect_intent_from_json :: "(pystr \<times> py) list \<Rightarrow> (value_error, effect_intent) result" where
  "effect_intent_from_json m =
     res_bind (kind_literal (py_get m ''kind'')) (\<lambda>kind.
     res_bind (str_items (py_get m ''argv'')) (\<lambda>argv.
     Ok \<lparr>ei_kind = kind, ei_capability = str_or_empty (py_get m ''capability''),
         ei_resource = str_or_empty (py_get m ''resource''), ei_argv = argv,
         ei_reversibility = reversibility_literal (py_get m ''reversibility''),
         ei_description = str_or_empty (py_get m ''description'')\<rparr>))"

definition effect_record_to_json :: "effect_record \<Rightarrow> (pystr \<times> py) list" where
  "effect_record_to_json r =
     [(''effect_id'', PStr (ef_id r)), (''directive_id'', PStr (ef_directive r)), (''seq'', PInt (ef_seq r)),
      (''state'', PStr (ef_state r)), (''intent'', PDict (effect_intent_to_json (ef_intent r))),
      (''intent_digest'', PStr (ef_digest r)), (''enforcement_tier'', PStr (ef_tier r)),
      (''action_tracing'', PStr (ef_tracing r)), (''lease_generation'', PInt (ef_lease r)),
      (''claimed_executor'', PStr (ef_executor r)), (''provider_run_id'', opt_py PStr (ef_run_id r)),
      (''provider_turn_id'', opt_py PStr (ef_turn_id r)), (''opened_at'', PStr (isoformat (ef_opened_at r))),
      (''resolved_at'', opt_py (\<lambda>d. PStr (isoformat d)) (ef_resolved_at r)),
      (''resolution_source'', opt_py PStr (ef_source r)), (''evidence'', opt_py PDict (ef_evidence r)),
      (''schema_version'', PStr ''v1'')]"

definition effect_record_from_json :: "(pystr \<times> py) list \<Rightarrow> (value_error, effect_record) result" where
  "effect_record_from_json m =
     (let tier = tier_literal (py_get m ''enforcement_tier'');
          tracing = tracing_literal (py_get m ''action_tracing'') in
      if tier = ''advisory'' \<and> tracing \<noteq> ''unavailable''
      then Err (ValueError (''enforcement_tier='' @ repr_str ''advisory'' @ '' cannot carry action_tracing=''
        @ repr_str ''observed'' @ '': no boundary observed the action'')) else
      res_bind (effect_intent_from_json (payload_mapping (py_get m ''intent''))) (\<lambda>intent.
      res_bind (int_or_zero (py_get m ''seq'')) (\<lambda>sq.
      res_bind (state_literal (py_get m ''state'')) (\<lambda>state.
      res_bind (int_or_zero (py_get m ''lease_generation'')) (\<lambda>lease.
      res_bind (parse_dt (py_get m ''opened_at'')) (\<lambda>opened.
      res_bind (parse_dt_opt (py_get m ''resolved_at'')) (\<lambda>resolved.
      Ok \<lparr>ef_id = str_or_empty (py_get m ''effect_id''), ef_directive = str_or_empty (py_get m ''directive_id''),
          ef_seq = sq, ef_state = state, ef_intent = intent,
          ef_digest = str_or (py_get m ''intent_digest'') (effect_intent_digest intent),
          ef_tier = tier, ef_tracing = tracing, ef_lease = lease,
          ef_executor = str_or_empty (py_get m ''claimed_executor''),
          ef_run_id = opt_str (py_get m ''provider_run_id''), ef_turn_id = opt_str (py_get m ''provider_turn_id''),
          ef_opened_at = opened, ef_resolved_at = resolved,
          ef_source = opt_str (py_get m ''resolution_source''),
          ef_evidence = as_mapping (py_get m ''evidence'')\<rparr>)))))))"

section \<open>The transition rules\<close>

lemma validate_effect_Ok:
  "validate_effect_transition c t a r = Ok () \<longleftrightarrow>
    (c, t) \<in> set (EFFECT_TRANSITIONS @ EFFECT_REOPENABLE_TRANSITIONS)
    \<and> (a \<in> set SYSTEM_ONLY_SOURCES
       \<or> c \<noteq> ''unknown'' \<and> (c, t) \<notin> set EFFECT_REOPENABLE_TRANSITIONS
         \<and> \<not> (r = ''irreversible'' \<and> t \<in> set EFFECT_TERMINAL_STATES))"
  by (auto simp: validate_effect_transition_def Let_def EFFECT_STATES_def EFFECT_TERMINAL_STATES_def
      EFFECT_TRANSITIONS_def EFFECT_REOPENABLE_TRANSITIONS_def)

lemma confirmed_stuck: "validate_effect_transition ''confirmed'' t a r \<noteq> Ok ()"
  by (simp add: validate_effect_Ok EFFECT_TRANSITIONS_def EFFECT_REOPENABLE_TRANSITIONS_def)

text \<open>A state an effect may take next, for some actor and reversibility.\<close>

definition effect_moves :: "pystr \<Rightarrow> pystr \<Rightarrow> bool" where
  "effect_moves c t = ((c, t) \<in> set (EFFECT_TRANSITIONS @ EFFECT_REOPENABLE_TRANSITIONS))"

interpretation effect_life: lifecycle effect_moves "\<lambda>s. s = ''confirmed''"
  by unfold_locales (simp add: effect_moves_def EFFECT_TRANSITIONS_def EFFECT_REOPENABLE_TRANSITIONS_def)

section \<open>The codec contract\<close>

definition effect_wf :: "effect_record \<Rightarrow> bool" where
  "effect_wf r = (ef_state r \<in> set EFFECT_STATES
     \<and> ei_kind (ef_intent r) \<in> {''directive'', ''write'', ''command'', ''commit'', ''external''}
     \<and> ei_reversibility (ef_intent r) \<in> {''reversible'', ''irreversible'', ''unknown''}
     \<and> ef_digest r \<noteq> [] \<and> ef_tier r \<in> {''os_sandbox'', ''container'', ''advisory''}
     \<and> ef_tracing r \<in> {''observed'', ''unavailable''} \<and> (ef_tier r, ef_tracing r) \<noteq> (''advisory'', ''observed'')
     \<and> opt_ok (ef_run_id r) \<and> opt_ok (ef_turn_id r) \<and> opt_ok (ef_source r)
     \<and> utc_ok (ef_opened_at r) \<and> utc_opt_ok (ef_resolved_at r))"

lemma py_str_PStr [simp]: "py_str (PStr s) = s"
  by (simp add: py_str_def)

lemma str_or_PStr [simp]: "s \<noteq> [] \<Longrightarrow> str_or (PStr s) d = s"
  by (simp add: str_or_def truthy_def)

lemma opt_str_opt_py: "opt_ok x \<Longrightarrow> opt_str (opt_py PStr x) = x"
  by (cases x) (simp_all add: opt_str_def truthy_def opt_ok_def)

lemma int_or_zero_PInt [simp]: "int_or_zero (PInt i) = Ok i"
  by (simp add: int_or_zero_def truthy_def)

lemma str_items_enc [simp]: "str_items (PList (map PStr xs)) = Ok xs"
  by (auto simp: str_items_def truthy_def comp_def)

lemma parse_dt_iso: "utc_ok d \<Longrightarrow> parse_dt (PStr (isoformat d)) = Ok d"
  using iso_roundtrip [of "instant d"] by (cases d) (auto simp: parse_dt_def utc_ok_def)

lemma parse_dt_opt_iso: "utc_opt_ok x \<Longrightarrow> parse_dt_opt (opt_py (\<lambda>d. PStr (isoformat d)) x) = Ok x"
  by (cases x) (simp_all add: parse_dt_opt_def parse_dt_iso utc_opt_ok_def)

lemma as_mapping_opt [simp]: "as_mapping (opt_py PDict x) = x"
  by (cases x) (simp_all add: as_mapping_def)

lemma intent_roundtrip:
  assumes "ei_kind i \<in> {''directive'', ''write'', ''command'', ''commit'', ''external''}"
    and "ei_reversibility i \<in> {''reversible'', ''irreversible'', ''unknown''}"
  shows "effect_intent_from_json (effect_intent_to_json i) = Ok i"
proof -
  have "kind_literal (PStr (ei_kind i)) = Ok (ei_kind i)"
    "reversibility_literal (PStr (ei_reversibility i)) = ei_reversibility i"
    using assms by (auto simp: kind_literal_def reversibility_literal_def)
  then show ?thesis by (simp add: effect_intent_from_json_def effect_intent_to_json_def)
qed

text \<open>
  Decoding any mapping that has a well-formed record's columns; the columns of a journal row and the
  encoder's dictionary are two such mappings.
\<close>

lemma effect_decode:
  assumes "effect_wf r"
    and "effect_intent_from_json (payload_mapping (py_get m ''intent'')) = Ok (ef_intent r)"
    and "py_get m ''effect_id'' = PStr (ef_id r)" "py_get m ''directive_id'' = PStr (ef_directive r)"
      "py_get m ''seq'' = PInt (ef_seq r)" "py_get m ''state'' = PStr (ef_state r)"
      "py_get m ''intent_digest'' = PStr (ef_digest r)" "py_get m ''enforcement_tier'' = PStr (ef_tier r)"
      "py_get m ''action_tracing'' = PStr (ef_tracing r)" "py_get m ''lease_generation'' = PInt (ef_lease r)"
      "py_get m ''claimed_executor'' = PStr (ef_executor r)" "py_get m ''provider_run_id'' = opt_py PStr (ef_run_id r)"
      "py_get m ''provider_turn_id'' = opt_py PStr (ef_turn_id r)"
      "py_get m ''opened_at'' = PStr (isoformat (ef_opened_at r))"
      "py_get m ''resolved_at'' = opt_py (\<lambda>d. PStr (isoformat d)) (ef_resolved_at r)"
      "py_get m ''resolution_source'' = opt_py PStr (ef_source r)" "py_get m ''evidence'' = opt_py PDict (ef_evidence r)"
  shows "effect_record_from_json m = Ok r"
proof -
  have wf: "ef_tier r \<in> {''os_sandbox'', ''container'', ''advisory''}" "ef_state r \<in> set EFFECT_STATES"
    "ef_tracing r \<in> {''observed'', ''unavailable''}" "(ef_tier r, ef_tracing r) \<noteq> (''advisory'', ''observed'')"
    "ef_digest r \<noteq> []" "opt_ok (ef_run_id r)" "opt_ok (ef_turn_id r)" "opt_ok (ef_source r)"
    "utc_ok (ef_opened_at r)" "utc_opt_ok (ef_resolved_at r)"
    using assms(1) unfolding effect_wf_def by blast+
  have "tier_literal (PStr (ef_tier r)) = ef_tier r" using wf(1) by (auto simp: tier_literal_def)
  moreover have "state_literal (PStr (ef_state r)) = Ok (ef_state r)"
    using wf(2) by (auto simp: state_literal_def EFFECT_STATES_def)
  moreover have "tracing_literal (PStr (ef_tracing r)) = ef_tracing r"
    using wf(3) by (auto simp: tracing_literal_def)
  moreover have "\<not> (ef_tier r = ''advisory'' \<and> ef_tracing r \<noteq> ''unavailable'')"
    using wf(3,4) by auto
  ultimately show ?thesis
    unfolding effect_record_from_json_def assms(2-)
    using wf(5-) by (simp only: Let_def if_False str_or_PStr int_or_zero_PInt parse_dt_iso parse_dt_opt_iso
        opt_str_opt_py as_mapping_opt str_or_empty_PStr res_bind_simps) simp
qed

lemma advisory_observed_refused:
  "\<exists>e. effect_record_from_json (effect_record_to_json (r\<lparr>ef_tier := ''advisory'', ef_tracing := ''observed''\<rparr>)) = Err e"
proof -
  let ?m = "effect_record_to_json (r\<lparr>ef_tier := ''advisory'', ef_tracing := ''observed''\<rparr>)"
  have "py_get ?m ''enforcement_tier'' = PStr ''advisory''" "py_get ?m ''action_tracing'' = PStr ''observed''"
    by (simp_all add: effect_record_to_json_def)
  moreover have "tier_literal (PStr ''advisory'') = ''advisory''" "tracing_literal (PStr ''observed'') = ''observed''"
    by (simp_all add: tier_literal_def tracing_literal_def)
  ultimately show ?thesis unfolding effect_record_from_json_def by (simp add: Let_def)
qed

section \<open>Properties\<close>

text \<open>
  No worker is the sole witness of an irreversible change (effect_journal.py,
  validate_effect_transition): a permitted move that resolves an irreversible effect to a terminal
  state, that leaves \<open>unknown\<close>, or that reopens \<open>failed\<close>, is made by the reconciler,
  the verifier or the owner; and no actor moves a confirmed effect.
\<close>

theorem system_witness_required:
  assumes "validate_effect_transition current target actor reversibility = Ok ()"
  shows "current \<noteq> ''confirmed''
    \<and> (actor \<in> set SYSTEM_ONLY_SOURCES
       \<or> current \<noteq> ''unknown'' \<and> current \<noteq> ''failed'' \<and> (reversibility \<noteq> ''irreversible'' \<or> target \<notin> set EFFECT_TERMINAL_STATES))"
  using assms by (auto simp: validate_effect_Ok EFFECT_TRANSITIONS_def EFFECT_REOPENABLE_TRANSITIONS_def)

theorem system_witness_required_witness:
  "''system:owner'' \<in> set SYSTEM_ONLY_SOURCES"
proof -
  have "validate_effect_transition ''unknown'' ''failed'' ''system:owner'' ''irreversible'' = Ok ()"
    by (simp add: validate_effect_transition_def EFFECT_STATES_def EFFECT_TERMINAL_STATES_def
        EFFECT_TRANSITIONS_def EFFECT_REOPENABLE_TRANSITIONS_def SYSTEM_ONLY_SOURCES_def)
  from system_witness_required [OF this] show ?thesis by blast
qed

text \<open>
  When autonomy pauses (effect_journal.py, pause_required): exactly when some effect is unknown and not
  known to be reversible, or some effect is still open; an unknown reversible effect alone never pauses.
\<close>

theorem pause_required_exact:
  "(fst (pause_required records) \<longleftrightarrow>
    list_ex (\<lambda>r. ef_state r = ''unknown'' \<and> ei_reversibility (ef_intent r) \<in> {''irreversible'', ''unknown''}
      \<or> ef_state r \<in> {''prepared'', ''running''}) records)
   \<and> (snd (pause_required records) = ''unresolved_irreversible_effect'' \<longleftrightarrow>
    list_ex (\<lambda>r. ef_state r = ''unknown'' \<and> ei_reversibility (ef_intent r) \<in> {''irreversible'', ''unknown''}) records)"
  by (auto simp: pause_required_def list_ex_iff)

text \<open>
  The journal's codec (effect_journal.py, effect_record_to_json and effect_record_from_json): a
  well-formed record survives the round trip, and a record that claims observed tracing under the
  advisory tier is refused, whatever else it holds.
\<close>

theorem effect_record_codec:
  assumes "effect_wf r"
  shows "effect_record_from_json (effect_record_to_json r) = Ok r
    \<and> (\<exists>e. effect_record_from_json (effect_record_to_json (r\<lparr>ef_tier := ''advisory'', ef_tracing := ''observed''\<rparr>)) = Err e)"
  using effect_decode [OF assms, of "effect_record_to_json r"] intent_roundtrip advisory_observed_refused assms
  by (simp add: effect_record_to_json_def effect_wf_def)

definition sample_effect :: effect_record where
  "sample_effect = \<lparr>ef_id = ''e1'', ef_directive = ''d1'', ef_seq = 1, ef_state = ''unknown'',
     ef_intent = \<lparr>ei_kind = ''command'', ei_capability = ''shell'', ei_resource = ''git push'', ei_argv = [''git'', ''push''],
       ei_reversibility = ''irreversible'', ei_description = []\<rparr>,
     ef_digest = ''abc'', ef_tier = ''container'', ef_tracing = ''observed'', ef_lease = 2, ef_executor = ''x'',
     ef_run_id = None, ef_turn_id = Some ''t'', ef_opened_at = Aware 5 0, ef_resolved_at = None, ef_source = None,
     ef_evidence = Some []\<rparr>"

theorem effect_record_codec_witness:
  "effect_record_from_json (effect_record_to_json sample_effect) = Ok sample_effect"
  by (rule effect_record_codec [THEN conjunct1])
    (simp add: sample_effect_def effect_wf_def EFFECT_STATES_def opt_ok_def utc_ok_def utc_opt_ok_def in_range_def
      MIN_T_def MAX_T_def)

text \<open>What the projection sees of a record that is still open.\<close>

definition projected_effect :: "effect_record \<Rightarrow> unresolved_effect" where
  "projected_effect r = \<lparr>ue_id = ef_id r,
     ue_kind = (case dict_get KIND_TO_PROJECTION (ei_kind (ef_intent r)) of None \<Rightarrow> ''external'' | Some k \<Rightarrow> k),
     ue_description = or_else (ei_description (ef_intent r)) (ei_resource (ef_intent r)),
     ue_opened_at = ef_opened_at r, ue_directive = or_none (ef_directive r),
     ue_paths = (if ei_resource (ef_intent r) \<noteq> [] then [ei_resource (ef_intent r)] else [])\<rparr>"

lemma kind_to_projection_nonempty:
  "(case dict_get KIND_TO_PROJECTION k of None \<Rightarrow> ''external'' | Some x \<Rightarrow> x) \<noteq> []"
  by (simp add: KIND_TO_PROJECTION_def)

lemma dt_from_isoformat: "utc_ok d \<Longrightarrow> dt_from_json (PStr (isoformat d)) None = Some d"
  using dt_json_roundtrip [of d None] by (cases d) (auto simp: dt_to_json_def to_utc_def utc_ok_def)

lemma effect_from_unresolved:
  "ef_id r \<noteq> [] \<Longrightarrow> utc_ok (ef_opened_at r) \<Longrightarrow> effect_from_dict (unresolved_effect_dict r) = Some (projected_effect r)"
  using kind_to_projection_nonempty [of "ei_kind (ef_intent r)"]
  by (simp add: effect_from_dict_def unresolved_effect_dict_def projected_effect_def Let_def dt_from_isoformat
      text_tuple_def)

text \<open>
  The bridge to the task state (effect_journal.py, unresolved_effects_json; task_state.py,
  effects_from_json): the projection's own decoder reads the journal's output as exactly the records that
  are neither confirmed nor failed, in order, none dropped and none invented.
\<close>

theorem unresolved_effects_reach_projection:
  assumes "list_all (\<lambda>r. ef_id r \<noteq> [] \<and> utc_ok (ef_opened_at r)) records"
  shows "effects_from_json (unresolved_effects_json records)
    = map projected_effect (filter (\<lambda>r. \<not> is_effect_terminal (ef_state r)) records)"
  using assms
  by (induction records)
    (simp_all add: effects_from_json_def unresolved_effects_json_def List.map_filter_simps effect_from_unresolved
      is_effect_terminal_def)

theorem unresolved_effects_reach_projection_witness:
  "map ue_id (effects_from_json (unresolved_effects_json [sample_effect, sample_effect\<lparr>ef_state := ''failed''\<rparr>])) = [''e1'']"
proof -
  have "list_all (\<lambda>r. ef_id r \<noteq> [] \<and> utc_ok (ef_opened_at r)) [sample_effect, sample_effect\<lparr>ef_state := ''failed''\<rparr>]"
    by (simp add: sample_effect_def utc_ok_def in_range_def MIN_T_def MAX_T_def)
  from unresolved_effects_reach_projection [OF this] show ?thesis
    by (simp add: sample_effect_def is_effect_terminal_def EFFECT_TERMINAL_STATES_def projected_effect_def)
qed

end
