(* ===== verification/Budget.thy ===== *)
theory Budget
  imports Effect_Journal
begin

text \<open>
  \<open>shared/tce_shared/budget.py\<close>: reserving money against a cap before a dispatch, and turning
  the usage a runtime reports into a recorded cost that says which kind of number it is.  Amounts are
  minor units (\<open>int\<close>).  The cap handed to a runtime is the float \<open>request / 100.0\<close>; the
  model keeps the numerator.
\<close>

definition SPEND_ENFORCEMENT :: "pystr list" where
  "SPEND_ENFORCEMENT = [''enforced'', ''estimated'', ''unsupported'']"

definition SPEND_ENFORCEMENT_BY_SURFACE :: "(pystr, pystr) dict" where
  "SPEND_ENFORCEMENT_BY_SURFACE = [(''claude/stream'', ''estimated''), (''claude/oneshot'', ''estimated''),
     (''codex/app-server'', ''unsupported''), (''codex/exec'', ''unsupported'')]"

definition TOKEN_PRICE_KEYS :: "pystr list" where
  "TOKEN_PRICE_KEYS = [''input'', ''output'', ''cached_input'', ''reasoning'']"

definition TOKEN_USAGE_KEYS :: "(pystr, pystr) dict" where
  "TOKEN_USAGE_KEYS = [(''input'', ''tokens_input''), (''output'', ''tokens_output''),
     (''cached_input'', ''tokens_cached_input''), (''reasoning'', ''tokens_reasoning'')]"

datatype budget_error = BudgetExceeded int int int | NegativeRequest

record reservation =
  rv_reserved :: int
  rv_currency :: pystr
  rv_enforcement :: pystr
  rv_cap_applied :: "int option"

record reconciliation =
  rc_cost :: int
  rc_source :: pystr
  rc_input :: int
  rc_output :: int
  rc_cached :: int
  rc_reasoning :: int
  rc_overshoot :: int

definition enforcement_literal :: "py \<Rightarrow> pystr" where
  "enforcement_literal v = (let raw = str_or v ''unsupported'' in
     if raw = ''enforced'' then ''enforced'' else if raw = ''estimated'' then ''estimated'' else ''unsupported'')"

definition cost_source_literal :: "py \<Rightarrow> pystr" where
  "cost_source_literal v = (let raw = str_or v ''unavailable'' in
     if raw = ''provider_reported'' then ''provider_reported''
     else if raw = ''estimated'' then ''estimated'' else ''unavailable'')"

definition spend_enforcement_for :: "pystr \<Rightarrow> pystr" where
  "spend_enforcement_for surface = enforcement_literal (PStr
     (case dict_get SPEND_ENFORCEMENT_BY_SURFACE surface of None \<Rightarrow> ''unsupported'' | Some e \<Rightarrow> e))"

definition reserve :: "int \<Rightarrow> int \<Rightarrow> int \<Rightarrow> pystr \<Rightarrow> pystr \<Rightarrow> (budget_error, reservation) result" where
  "reserve cap reserved request currency surface =
     (if request < 0 then Err NegativeRequest
      else if reserved + request > cap then Err (BudgetExceeded reserved request cap)
      else (let enforcement = spend_enforcement_for surface in
        Ok \<lparr>rv_reserved = request, rv_currency = or_else currency ''USD'', rv_enforcement = enforcement,
            rv_cap_applied = (if enforcement = ''enforced'' then Some request else None)\<rparr>))"

text \<open>\<open>int(m.get(key, 0) or 0)\<close> on a mapping of integers.\<close>

definition count_of :: "(pystr, int) dict \<Rightarrow> pystr \<Rightarrow> int" where
  "count_of m key = (case dict_get m key of None \<Rightarrow> 0 | Some n \<Rightarrow> n)"

definition priced_total :: "(pystr, int) dict \<Rightarrow> (pystr, int) dict \<Rightarrow> int" where
  "priced_total usage prices = sum_list (map (\<lambda>k. count_of usage k * count_of prices k) TOKEN_PRICE_KEYS)"

definition reconcile ::
  "(pystr, int) dict \<Rightarrow> int option \<Rightarrow> (pystr, (pystr, int) dict) dict \<Rightarrow> pystr \<Rightarrow> reservation \<Rightarrow> reconciliation" where
  "reconcile result_tokens provider_cost price_table model_id r =
     (let is_error = (count_of result_tokens ''is_error'' \<noteq> 0);
          all_zero = list_all (\<lambda>k. count_of result_tokens k = 0) (map fst TOKEN_USAGE_KEYS);
          (cost, source) =
            (case provider_cost of
               Some c \<Rightarrow> (c, ''provider_reported'')
             | None \<Rightarrow>
                 if all_zero \<and> is_error then (0, ''unavailable'')
                 else (case dict_get price_table model_id of
                     None \<Rightarrow> (0, ''unavailable'')
                   | Some prices \<Rightarrow>
                       if prices = [] \<or> all_zero then (0, ''unavailable'')
                       else (priced_total result_tokens prices div 1000000, ''estimated'')))
      in \<lparr>rc_cost = cost, rc_source = source, rc_input = count_of result_tokens ''input'',
          rc_output = count_of result_tokens ''output'', rc_cached = count_of result_tokens ''cached_input'',
          rc_reasoning = count_of result_tokens ''reasoning'',
          rc_overshoot = max 0 (cost - rv_reserved r)\<rparr>)"

definition reconciliation_to_json :: "reconciliation \<Rightarrow> (pystr \<times> py) list" where
  "reconciliation_to_json r =
     [(''cost_minor_units'', PInt (rc_cost r)), (''cost_source'', PStr (rc_source r)),
      (''tokens_input'', PInt (rc_input r)), (''tokens_output'', PInt (rc_output r)),
      (''tokens_cached_input'', PInt (rc_cached r)), (''tokens_reasoning'', PInt (rc_reasoning r)),
      (''overshoot_minor_units'', PInt (rc_overshoot r))]"

definition reconciliation_from_json :: "(pystr \<times> py) list \<Rightarrow> (value_error, reconciliation) result" where
  "reconciliation_from_json m =
     res_bind (int_or_zero (py_get m ''cost_minor_units'')) (\<lambda>cost.
     res_bind (int_or_zero (py_get m ''tokens_input'')) (\<lambda>ti.
     res_bind (int_or_zero (py_get m ''tokens_output'')) (\<lambda>to.
     res_bind (int_or_zero (py_get m ''tokens_cached_input'')) (\<lambda>tc.
     res_bind (int_or_zero (py_get m ''tokens_reasoning'')) (\<lambda>tr.
     res_bind (int_or_zero (py_get m ''overshoot_minor_units'')) (\<lambda>ov.
     Ok \<lparr>rc_cost = cost, rc_source = cost_source_literal (py_get m ''cost_source''), rc_input = ti,
         rc_output = to, rc_cached = tc, rc_reasoning = tr, rc_overshoot = ov\<rparr>))))))"

section \<open>Facts\<close>

lemma spend_enforcement_values: "spend_enforcement_for s \<in> {''estimated'', ''unsupported''}"
  by (simp add: spend_enforcement_for_def SPEND_ENFORCEMENT_BY_SURFACE_def enforcement_literal_def)

lemma reserve_OkE:
  assumes "reserve cap reserved request currency surface = Ok r"
  shows "0 \<le> request" "reserved + request \<le> cap" "rv_reserved r = request" "rv_cap_applied r = None"
  using assms spend_enforcement_values [of surface]
  by (auto simp: reserve_def Let_def split: if_split_asm)

text \<open>
  Reserving (budget.py, reserve): a reservation is granted exactly when the request is not negative and
  fits under the cap on top of what is already reserved; it is for the amount requested, and no surface
  of this host is told to enforce it.  The refusal carries the three amounts.
\<close>

theorem reserve_exact:
  "case reserve cap reserved request currency surface of
     Inl NegativeRequest \<Rightarrow> request < 0
   | Inl (BudgetExceeded r q c) \<Rightarrow> 0 \<le> request \<and> cap < reserved + request \<and> r = reserved \<and> q = request \<and> c = cap
   | Inr rv \<Rightarrow> 0 \<le> request \<and> reserved + request \<le> cap \<and> rv_reserved rv = request \<and> rv_cap_applied rv = None
       \<and> rv_enforcement rv \<in> {''estimated'', ''unsupported''}"
  using spend_enforcement_values [of surface] by (auto simp: reserve_def Let_def)

text \<open>
  What a recorded cost means (budget.py, reconcile): a provider's own figure is taken as it is; a zero that
  means "not known" (an errored run without usage, no usage at all, no price) is recorded as unavailable,
  and a cost is recorded as an estimate only for a run with usage and a price list, as the priced tokens
  per million rounded down; the overshoot is what exceeds the reservation, never clamped away.
\<close>

theorem reconcile_says_what_it_knows:
  "(let rc = reconcile tokens provider prices model r;
        used = (\<exists>k \<in> set (map fst TOKEN_USAGE_KEYS). count_of tokens k \<noteq> 0) in
     (rc_source rc = ''provider_reported'' \<longleftrightarrow> provider \<noteq> None)
     \<and> (rc_source rc = ''estimated'' \<longleftrightarrow> provider = None \<and> used \<and> dict_get prices model \<notin> {None, Some []})
     \<and> (case provider of Some c \<Rightarrow> rc_cost rc = c
        | None \<Rightarrow> (case dict_get prices model of
            Some ps \<Rightarrow> rc_cost rc = (if used \<and> ps \<noteq> [] then priced_total tokens ps div 1000000 else 0)
          | None \<Rightarrow> rc_cost rc = 0))
     \<and> rc_cost rc \<le> rv_reserved r + rc_overshoot rc \<and> 0 \<le> rc_overshoot rc)"
  by (auto simp: reconcile_def Let_def list_all_iff split: option.split)

text \<open>
  The reconciliation that reaches the dispatch record (budget.py): decoding what was encoded gives back
  every field.
\<close>

theorem reconciliation_roundtrip:
  assumes "rc_source r \<in> {''provider_reported'', ''estimated'', ''unavailable''}"
  shows "reconciliation_from_json (reconciliation_to_json r) = Ok r"
  using assms by (auto simp: reconciliation_from_json_def reconciliation_to_json_def cost_source_literal_def)

theorem reconciliation_roundtrip_witness:
  "reconciliation_from_json (reconciliation_to_json (reconcile [(''input'', 3000000)] None [(''m'', [(''input'', 5)])] ''m''
     \<lparr>rv_reserved = 10, rv_currency = ''USD'', rv_enforcement = ''estimated'', rv_cap_applied = None\<rparr>))
   = Ok \<lparr>rc_cost = 15, rc_source = ''estimated'', rc_input = 3000000, rc_output = 0, rc_cached = 0, rc_reasoning = 0,
       rc_overshoot = 5\<rparr>"
proof -
  let ?r = "reconcile [(''input'', 3000000)] None [(''m'', [(''input'', 5)])] ''m''
     \<lparr>rv_reserved = 10, rv_currency = ''USD'', rv_enforcement = ''estimated'', rv_cap_applied = None\<rparr>"
  have "?r = \<lparr>rc_cost = 15, rc_source = ''estimated'', rc_input = 3000000, rc_output = 0, rc_cached = 0,
      rc_reasoning = 0, rc_overshoot = 5\<rparr>"
    by (simp add: reconcile_def TOKEN_USAGE_KEYS_def TOKEN_PRICE_KEYS_def count_of_def priced_total_def)
  then show ?thesis using reconciliation_roundtrip [of ?r] by simp
qed

end
