(* ===== verification/Charter.thy ===== *)
theory Charter
  imports Budget
begin

text \<open>
  \<open>shared/tce_shared/charter.py\<close>, the standing grant of authority: its resolved form, the
  validation of a create payload, narrowing, and the questions asked of it (paths, capabilities, mutating
  actions); with the capability registry of \<open>shared/tce_shared/behavior_control.py\<close>.  A frozen
  set of strings is a list of its members; a JSON column is given by the value it parses to.
\<close>

section \<open>The capability registry\<close>

record capability_entry =
  ce_mutating :: bool
  ce_risk :: pystr

definition CAPABILITY_REGISTRY :: "(pystr, capability_entry) dict" where
  "CAPABILITY_REGISTRY =
     [(''filesystem.read'', \<lparr>ce_mutating = False, ce_risk = ''low''\<rparr>),
      (''filesystem.write'', \<lparr>ce_mutating = True, ce_risk = ''medium''\<rparr>),
      (''git.read'', \<lparr>ce_mutating = False, ce_risk = ''low''\<rparr>),
      (''git.write'', \<lparr>ce_mutating = True, ce_risk = ''high''\<rparr>),
      (''network.read'', \<lparr>ce_mutating = False, ce_risk = ''medium''\<rparr>),
      (''network.write'', \<lparr>ce_mutating = True, ce_risk = ''high''\<rparr>),
      (''process.inspect'', \<lparr>ce_mutating = False, ce_risk = ''low''\<rparr>),
      (''process.execute'', \<lparr>ce_mutating = True, ce_risk = ''high''\<rparr>),
      (''tce.memory.review'', \<lparr>ce_mutating = True, ce_risk = ''medium''\<rparr>)]"

record capability_verdict =
  cv_known :: bool
  cv_mutating :: bool
  cv_risk :: pystr
  cv_decision :: pystr
  cv_reason :: pystr

definition capability_policy :: "pystr \<Rightarrow> capability_verdict" where
  "capability_policy capability = (case dict_get CAPABILITY_REGISTRY capability of
       None \<Rightarrow> \<lparr>cv_known = False, cv_mutating = True, cv_risk = ''critical'', cv_decision = ''blocked'',
         cv_reason = ''unknown capability''\<rparr>
     | Some e \<Rightarrow> \<lparr>cv_known = True, cv_mutating = ce_mutating e, cv_risk = ce_risk e, cv_decision = ''allow'',
         cv_reason = ''registered capability''\<rparr>)"

section \<open>Enforcement tiers, by strength\<close>

datatype tier = OS_SANDBOX | CONTAINER | ADVISORY

fun tier_str :: "tier \<Rightarrow> pystr" where
  "tier_str OS_SANDBOX = ''os_sandbox''"
| "tier_str CONTAINER = ''container''"
| "tier_str ADVISORY = ''advisory''"

text \<open>\<open>TIER_STRENGTH\<close>: lower is stronger; the order of the type is the order of the table.\<close>

fun TIER_STRENGTH :: "tier \<Rightarrow> nat" where
  "TIER_STRENGTH OS_SANDBOX = 0"
| "TIER_STRENGTH CONTAINER = 1"
| "TIER_STRENGTH ADVISORY = 2"

instantiation tier :: linorder
begin

definition less_eq_tier :: "tier \<Rightarrow> tier \<Rightarrow> bool" where
  "less_eq_tier a b = (TIER_STRENGTH a \<le> TIER_STRENGTH b)"

definition less_tier :: "tier \<Rightarrow> tier \<Rightarrow> bool" where
  "less_tier a b = (TIER_STRENGTH a < TIER_STRENGTH b)"

instance
proof
  fix x y :: tier
  show "x \<le> y \<Longrightarrow> y \<le> x \<Longrightarrow> x = y" by (cases x; cases y) (simp_all add: less_eq_tier_def)
qed (auto simp: less_eq_tier_def less_tier_def)

end

definition tier_of :: "pystr \<Rightarrow> tier option" where
  "tier_of s = find (\<lambda>t. tier_str t = s) [OS_SANDBOX, CONTAINER, ADVISORY]"

datatype egress = DENY_ALL | HTTPS_ONLY

fun egress_str :: "egress \<Rightarrow> pystr" where
  "egress_str DENY_ALL = ''deny_all''"
| "egress_str HTTPS_ONLY = ''https_only''"

definition charter_tier_literal :: "py \<Rightarrow> tier" where
  "charter_tier_literal v = (let raw = py_strip (str_or v ''advisory'') in
     if raw = ''os_sandbox'' then OS_SANDBOX else if raw = ''container'' then CONTAINER else ADVISORY)"

definition egress_literal :: "py \<Rightarrow> egress" where
  "egress_literal v = (if py_strip (str_or v ''deny_all'') = ''https_only'' then HTTPS_ONLY else DENY_ALL)"

definition spend_enforcement_literal :: "py \<Rightarrow> pystr" where
  "spend_enforcement_literal v = (let raw = py_strip (str_or v ''unsupported'') in
     if raw = ''enforced'' then ''enforced'' else if raw = ''estimated'' then ''estimated'' else ''unsupported'')"

section \<open>Constants\<close>

definition CAPABILITY_FOR_ACTION_KIND :: "(pystr, pystr) dict" where
  "CAPABILITY_FOR_ACTION_KIND = [(''takeover_step'', ''process.execute''), (''execute'', ''process.execute''),
     (''edit'', ''filesystem.write''), (''write'', ''filesystem.write''), (''delete'', ''filesystem.write''),
     (''commit'', ''git.write''), (''read'', ''filesystem.read''), (''review'', ''filesystem.read'')]"

definition MUTATING_ACTION_KINDS :: "pystr list" where
  "MUTATING_ACTION_KINDS = [''takeover_step'', ''execute'', ''edit'', ''write'', ''delete'', ''commit'']"

definition READ_ONLY_TASK_FAMILIES :: "pystr list" where
  "READ_ONLY_TASK_FAMILIES = [''read_only_review'', ''read_only_analysis'', ''read_only_probe'']"

definition LEGACY_SENSITIVE_TOKENS :: "pystr list" where
  "LEGACY_SENSITIVE_TOKENS = [''services/tce_mcp'', ''infra/'', ''secrets'', ''.env'']"

definition DEFAULT_DENIED_READ_PATHS :: "pystr list" where
  "DEFAULT_DENIED_READ_PATHS = [''~/.ssh'', ''~/Library/Keychains'', ''~/.aws'', ''~/.claude'', ''~/.codex'']"

definition SURFACES :: "pystr list" where
  "SURFACES = [''codex/app-server'', ''codex/exec'', ''claude/stream'', ''claude/oneshot'']"

section \<open>Paths\<close>

text \<open>
  The components of a relative POSIX path: \<open>None\<close> for one that is absolute, starts at a home
  directory, or climbs with \<open>..\<close>.
\<close>

fun norm_parts :: "pystr list \<Rightarrow> pystr list option" where
  "norm_parts [] = Some []"
| "norm_parts (chunk # rest) =
     (if chunk = [] \<or> chunk = ''.'' then norm_parts rest
      else if chunk = ''..'' then None
      else map_option (\<lambda>ps. chunk # ps) (norm_parts rest))"

definition posix_slashes :: "pystr \<Rightarrow> pystr" where
  "posix_slashes = map (\<lambda>c. if c = CHR 0x5C then CHR ''/'' else c)"

definition norm_rel :: "pystr \<Rightarrow> pystr" where
  "norm_rel path = (let raw = posix_slashes (py_strip path) in
     if raw = [] \<or> starts_with ''/'' raw \<or> starts_with ''~'' raw then []
     else (case norm_parts (py_split_on CHR ''/'' raw) of None \<Rightarrow> [] | Some ps \<Rightarrow> py_join ''/'' ps))"

definition under :: "pystr \<Rightarrow> pystr \<Rightarrow> bool" where
  "under path pre = (let normalized_prefix = norm_rel pre; normalized_path = norm_rel path in
     if normalized_path = [] then False
     else if normalized_prefix = [] then py_strip pre \<in> {''.'', ''./'', []}
     else normalized_path = normalized_prefix \<or> starts_with (normalized_prefix @ ''/'') normalized_path)"

section \<open>The resolved charter\<close>

record charter_caps =
  cc_attempts :: int
  cc_concurrent :: int
  cc_wall :: int
  cc_budget :: int
  cc_currency :: pystr
  cc_spend :: pystr

record charter =
  ch_id :: pystr
  ch_workspace :: pystr
  ch_owner :: pystr
  ch_project :: "pystr option"
  ch_version :: pystr
  ch_policy :: pystr
  ch_status :: pystr
  ch_tier :: tier
  ch_roots :: "pystr list"
  ch_protected :: "pystr list"
  ch_denied :: "pystr list"
  ch_capabilities :: "pystr list"
  ch_confirm :: "pystr list"
  ch_egress :: egress
  ch_runtimes :: "(pystr \<times> pystr \<times> pystr) list"
  ch_caps :: charter_caps
  ch_approved_by :: pystr
  ch_approved_at :: datetime
  ch_expires_at :: datetime
  ch_revoked_at :: "datetime option"
  ch_narrowings :: "pystr list"
  ch_digest :: pystr
  ch_schema :: pystr
  ch_risk_ack :: bool

text \<open>\<open>a < b\<close> on datetimes raises a \<open>TypeError\<close> between a naive and an aware one.\<close>

definition dt_less :: "datetime \<Rightarrow> datetime \<Rightarrow> (value_error, bool) result" where
  "dt_less a b = (case (a, b) of
       (Naive s, Naive t) \<Rightarrow> Ok (s < t)
     | (Aware s _, Aware t _) \<Rightarrow> Ok (s < t)
     | _ \<Rightarrow> Err TypeError)"

definition is_active :: "charter \<Rightarrow> datetime \<Rightarrow> (value_error, bool) result" where
  "is_active c now = (if ch_status c \<noteq> ''active'' then Ok False
     else if ch_revoked_at c \<noteq> None then Ok False
     else dt_less now (ch_expires_at c))"

definition allows_capability :: "charter \<Rightarrow> pystr \<Rightarrow> bool" where
  "allows_capability c capability = (capability \<in> set (ch_capabilities c))"

definition allows_path :: "charter \<Rightarrow> pystr \<Rightarrow> bool" where
  "allows_path c path = list_ex (under path) (ch_roots c)"

definition is_protected_write :: "charter \<Rightarrow> pystr \<Rightarrow> bool" where
  "is_protected_write c path = list_ex (under path) (ch_protected c)"

definition allows_runtime :: "charter \<Rightarrow> pystr \<Rightarrow> pystr \<Rightarrow> pystr \<Rightarrow> bool" where
  "allows_runtime c runtime_id version surface = ((runtime_id, version, surface) \<in> set (ch_runtimes c))"

definition capability_for_action_kind :: "pystr \<Rightarrow> pystr" where
  "capability_for_action_kind kind =
     (case dict_get CAPABILITY_FOR_ACTION_KIND (py_lower (py_strip kind)) of
        None \<Rightarrow> ''process.execute'' | Some c \<Rightarrow> c)"

definition is_mutating_action_kind :: "pystr \<Rightarrow> bool" where
  "is_mutating_action_kind kind = (py_lower (py_strip kind) \<in> set MUTATING_ACTION_KINDS)"

definition charter_sensitive_path_hit :: "charter option \<Rightarrow> pystr list \<Rightarrow> bool" where
  "charter_sensitive_path_hit charter paths = (case charter of
       None \<Rightarrow> list_ex (\<lambda>p. list_ex (\<lambda>t. py_contains t p) LEGACY_SENSITIVE_TOKENS) (map py_lower paths)
     | Some c \<Rightarrow> list_ex (\<lambda>p. is_protected_write c p \<or> \<not> allows_path c p) paths)"

fun first_refused_path :: "charter \<Rightarrow> pystr list \<Rightarrow> bool \<times> pystr" where
  "first_refused_path c [] = (False, [])"
| "first_refused_path c (p # ps) =
     (if is_protected_write c p then (True, ''charter: '' @ p @ '' is under a protected write prefix'')
      else if \<not> allows_path c p then (True, ''charter: '' @ p @ '' is outside every permitted root'')
      else first_refused_path c ps)"

definition charter_scope_narrowing :: "charter option \<Rightarrow> pystr \<Rightarrow> pystr list \<Rightarrow> bool \<times> pystr" where
  "charter_scope_narrowing charter kind paths = (case charter of
       None \<Rightarrow> (False, [])
     | Some c \<Rightarrow>
         (let capability = capability_for_action_kind kind in
          if \<not> allows_capability c capability
          then (True, ''charter: capability '' @ capability @ '' is not permitted'')
          else if \<not> is_mutating_action_kind kind then (False, [])
          else first_refused_path c paths))"

datatype charter_required = CharterRequired pystr pystr | Incomparable

text \<open>\<open>now >= charter.expires_at\<close> is read only when the two dates have been compared already.\<close>

definition require_charter_for_action ::
  "charter option \<Rightarrow> pystr \<Rightarrow> bool \<Rightarrow> datetime \<Rightarrow> (charter_required, unit) result" where
  "require_charter_for_action charter kind enabled now =
     (if \<not> enabled then Ok ()
      else if \<not> is_mutating_action_kind kind then Ok ()
      else (case charter of
          None \<Rightarrow> Err (CharterRequired kind ''no_active_charter'')
        | Some c \<Rightarrow>
            if ch_revoked_at c \<noteq> None then Err (CharterRequired kind ''charter_revoked'')
            else (case is_active c now of
                Inl _ \<Rightarrow> Err Incomparable
              | Inr True \<Rightarrow> Ok ()
              | Inr False \<Rightarrow>
                  (case dt_less now (ch_expires_at c) of
                     Inl _ \<Rightarrow> Err Incomparable
                   | Inr False \<Rightarrow> Err (CharterRequired kind ''charter_expired'')
                   | Inr True \<Rightarrow> Err (CharterRequired kind ''no_active_charter'')))))"

end
