(* ===== verification/Charter_Build.thy ===== *)
theory Charter_Build
  imports Charter
begin

text \<open>
  Building, validating and narrowing charters (\<open>shared/tce_shared/charter.py\<close>): the create
  payload's validation, the adapter from a stored row, the JSON form, and monotone narrowing.  A JSON
  column is given by the value it parses to.
\<close>

section \<open>Python's iteration and conversions\<close>

text \<open>\<open>for item in v\<close>.\<close>

definition py_iter :: "py \<Rightarrow> (value_error, py list) result" where
  "py_iter v = (case v of PList xs \<Rightarrow> Ok xs | PStr s \<Rightarrow> Ok (map (\<lambda>c. PStr [c]) s)
     | PDict m \<Rightarrow> Ok (map (\<lambda>kv. PStr (fst kv)) m) | _ \<Rightarrow> Err TypeError)"

definition iter_strs :: "py \<Rightarrow> (value_error, pystr list) result" where
  "iter_strs v = res_bind (py_iter v) (\<lambda>xs. Ok (map py_str xs))"

definition str_tuple :: "py \<Rightarrow> (value_error, pystr list) result" where
  "str_tuple v = (case v of PNone \<Rightarrow> Ok [] | PStr s \<Rightarrow> Ok [s] | _ \<Rightarrow> iter_strs v)"

text \<open>\<open>int(v)\<close>.\<close>

definition py_int_of :: "py \<Rightarrow> (value_error, int) result" where
  "py_int_of v = (case v of PInt i \<Rightarrow> Ok i | PBool b \<Rightarrow> Ok (if b then 1 else 0)
     | PStr s \<Rightarrow> (case py_int s of Some i \<Rightarrow> Ok i
         | None \<Rightarrow> Err (ValueError (''invalid literal for int() with base 10: '' @ repr_str s)))
     | _ \<Rightarrow> Err TypeError)"

text \<open>\<open>int(m.get(key, d))\<close>: only a missing key takes the default.\<close>

definition int_key :: "(pystr \<times> py) list \<Rightarrow> pystr \<Rightarrow> int \<Rightarrow> (value_error, int) result" where
  "int_key m key d = (case dict_get m key of None \<Rightarrow> Ok d | Some v \<Rightarrow> py_int_of v)"

text \<open>\<open>int(v or d)\<close>.\<close>

definition int_or_dflt :: "py \<Rightarrow> int \<Rightarrow> (value_error, int) result" where
  "int_or_dflt v d = (if truthy v then py_int_of v else Ok d)"

definition int_or :: "py \<Rightarrow> int \<Rightarrow> int" where
  "int_or v fallback = (case py_int_of v of Inl _ \<Rightarrow> fallback | Inr i \<Rightarrow> i)"

text \<open>\<open>dict(v or {})\<close>: a mapping, or a sequence of pairs; keys that are not strings are never looked up.\<close>

definition dict_pair :: "nat \<Rightarrow> py \<Rightarrow> (value_error, (pystr \<times> py) list) result" where
  "dict_pair n v = (case py_iter v of
       Inl _ \<Rightarrow> Err TypeError
     | Inr [PStr k, x] \<Rightarrow> Ok [(k, x)]
     | Inr [_, _] \<Rightarrow> Ok []
     | Inr xs \<Rightarrow> Err (ValueError (''dictionary update sequence element #'' @ str_int (int n) @ '' has length ''
         @ str_int (int (length xs)) @ ''; 2 is required'')))"

fun dict_pairs :: "nat \<Rightarrow> py list \<Rightarrow> (pystr \<times> py) list \<Rightarrow> (value_error, (pystr \<times> py) list) result" where
  "dict_pairs n [] acc = Ok acc"
| "dict_pairs n (x # xs) acc =
     res_bind (dict_pair n x) (\<lambda>kv. dict_pairs (Suc n) xs (fold (\<lambda>(k, v). dict_set k v) kv acc))"

definition dict_of :: "py \<Rightarrow> (value_error, (pystr \<times> py) list) result" where
  "dict_of v = (if \<not> truthy v then Ok [] else (case v of
       PDict m \<Rightarrow> Ok m
     | _ \<Rightarrow> res_bind (py_iter v) (\<lambda>xs. dict_pairs 0 xs [])))"

fun res_map :: "('a \<Rightarrow> ('e, 'b) result) \<Rightarrow> 'a list \<Rightarrow> ('e, 'b list) result" where
  "res_map f [] = Ok []"
| "res_map f (x # xs) = res_bind (f x) (\<lambda>y. res_bind (res_map f xs) (\<lambda>ys. Ok (y # ys)))"

definition tuple_repr :: "pystr list \<Rightarrow> pystr" where
  "tuple_repr xs = ''('' @ py_join '', '' (map repr_str xs) @ '')''"

section \<open>Validation of a payload\<close>

datatype charter_error = CharterInvalid pystr pystr | CharterValue value_error

definition safe_relative :: "pystr \<Rightarrow> bool" where
  "safe_relative value = (let raw = py_strip value in
     \<not> (raw = [] \<or> starts_with ''/'' raw \<or> starts_with ''~'' raw \<or> CHR 0x5C \<in> set raw
        \<or> ''..'' \<in> set (py_split_on CHR ''/'' raw)))"

definition check_paths :: "pystr \<Rightarrow> pystr list \<Rightarrow> (charter_error, unit) result" where
  "check_paths field values = (case find (\<lambda>v. \<not> safe_relative v) values of
       None \<Rightarrow> Ok ()
     | Some v \<Rightarrow> Err (CharterInvalid field
         (repr_str (py_strip v) @ '' must be a relative POSIX path with no '' @ repr_str ''..'' @ '' and no leading ''
           @ repr_str ''/'')))"

definition check_capabilities :: "pystr \<Rightarrow> pystr list \<Rightarrow> (charter_error, unit) result" where
  "check_capabilities field values = (case find (\<lambda>c. dict_get CAPABILITY_REGISTRY c = None) values of
       None \<Rightarrow> Ok ()
     | Some c \<Rightarrow> Err (CharterInvalid field (''unknown capability '' @ repr_str c)))"

definition is_mutating_capability :: "pystr \<Rightarrow> bool" where
  "is_mutating_capability c = (case dict_get CAPABILITY_REGISTRY c of None \<Rightarrow> False | Some e \<Rightarrow> ce_mutating e)"

definition check_tier_capabilities :: "pystr \<Rightarrow> pystr list \<Rightarrow> bool \<Rightarrow> (charter_error, unit) result" where
  "check_tier_capabilities tier capabilities acknowledged =
     (let mutating = filter is_mutating_capability capabilities in
      if tier = ''advisory'' \<and> mutating \<noteq> []
      then Err (CharterInvalid ''permitted_capabilities'' (''enforcement_tier='' @ repr_str ''advisory''
        @ '' applies no OS boundary and may not carry a mutating capability''))
      else if tier = ''os_sandbox'' \<and> mutating \<noteq> [] \<and> \<not> acknowledged
      then Err (CharterInvalid ''credential_risk_acknowledged''
        (''a mutating os_sandbox charter must acknowledge that the runtime credential is exfiltrable ''
         @ ''on this host; see docs/charter.md''))
      else Ok ())"

definition check_spend :: "pystr \<Rightarrow> (charter_error, unit) result" where
  "check_spend spend =
     (if spend \<notin> set SPEND_ENFORCEMENT
      then Err (CharterInvalid ''caps'' (''caps.spend_enforcement must be one of '' @ tuple_repr SPEND_ENFORCEMENT))
      else if spend = ''enforced'' \<and> ''enforced'' \<notin> set (map spend_enforcement_for SURFACES)
      then Err (CharterInvalid ''caps'' (''caps.spend_enforcement='' @ repr_str ''enforced''
        @ '' is not available on this host: no runtime surface in ''
        @ ''tce_shared.budget enforces a spend ceiling, so the label would be a claim with nothing ''
        @ ''behind it and would suppress the governance limitation line. Use '' @ repr_str ''estimated''
        @ '' or '' @ repr_str ''unsupported'' @ ''.''))
      else Ok ())"

definition caps_of_payload :: "(pystr \<times> py) list \<Rightarrow> pystr \<Rightarrow> (charter_error, charter_caps) result" where
  "caps_of_payload m spend =
     res_bind (map_error CharterValue (int_key m ''max_attempts'' 3)) (\<lambda>a.
     res_bind (map_error CharterValue (int_key m ''max_concurrent_dispatches'' 1)) (\<lambda>c.
     res_bind (map_error CharterValue (int_key m ''max_wall_seconds'' 1800)) (\<lambda>w.
     res_bind (map_error CharterValue (int_key m ''budget_minor_units'' 0)) (\<lambda>b.
     if a < 1 then Err (CharterInvalid ''caps'' ''caps.max_attempts must be >= 1'')
     else if c < 1 then Err (CharterInvalid ''caps'' ''caps.max_concurrent_dispatches must be >= 1'')
     else if w < 1 then Err (CharterInvalid ''caps'' ''caps.max_wall_seconds must be >= 1'')
     else if b < 0 then Err (CharterInvalid ''caps'' ''caps.budget_minor_units must be >= 0'')
     else Ok \<lparr>cc_attempts = a, cc_concurrent = c, cc_wall = w, cc_budget = b,
       cc_currency = str_or (py_get m ''budget_currency'') ''USD'', cc_spend = spend\<rparr>))))"

definition caps_to_json :: "charter_caps \<Rightarrow> (pystr \<times> py) list" where
  "caps_to_json c =
     [(''max_attempts'', PInt (cc_attempts c)), (''max_concurrent_dispatches'', PInt (cc_concurrent c)),
      (''max_wall_seconds'', PInt (cc_wall c)), (''budget_minor_units'', PInt (cc_budget c)),
      (''budget_currency'', PStr (cc_currency c)), (''spend_enforcement'', PStr (cc_spend c))]"

definition allowlist_triple :: "py \<Rightarrow> (charter_error, py) result" where
  "allowlist_triple entry = res_bind (map_error CharterValue (iter_strs entry)) (\<lambda>triple.
     if length triple \<noteq> 3
     then Err (CharterInvalid ''runtime_allowlist''
       ''each runtime_allowlist entry is [runtime_id, runtime_version, surface]'')
     else Ok (PList (map PStr triple)))"

text \<open>\<open>payload.get(key) or ()\<close>, iterated.\<close>

definition iter_or_empty :: "py \<Rightarrow> (charter_error, py list) result" where
  "iter_or_empty v = (if truthy v then map_error CharterValue (py_iter v) else Ok [])"

definition str_list :: "pystr list \<Rightarrow> py" where
  "str_list xs = PList (map PStr xs)"

record valid_charter =
  vc_tier :: pystr
  vc_egress :: pystr
  vc_roots :: "pystr list"
  vc_prefixes :: "pystr list"
  vc_capabilities :: "pystr list"
  vc_confirm :: "pystr list"
  vc_acknowledged :: bool
  vc_caps :: charter_caps

text \<open>The checks, in the order the code makes them, and what they leave.\<close>

definition check_charter_payload ::
  "(pystr \<times> py) list \<Rightarrow> (charter_error, valid_charter \<times> py list) result" where
  "check_charter_payload payload =
     (case find (\<lambda>k. py_contains ''domain'' (py_lower k)) (map fst payload) of
        Some key \<Rightarrow> Err (CharterInvalid key
          ''domain-level network policy is unsupported; no charter field may name it'')
      | None \<Rightarrow>
     (let tier = py_strip (str_or_empty (py_get payload ''enforcement_tier''));
          egress = py_strip (str_or (py_get payload ''egress_mode'') ''deny_all'');
          ack = truthy (py_get payload ''credential_risk_acknowledged'') in
      if tier_of tier = None
      then Err (CharterInvalid ''enforcement_tier''
        (''enforcement_tier must be one of '' @ tuple_repr [''os_sandbox'', ''container'', ''advisory'']))
      else if egress \<notin> {''deny_all'', ''https_only''}
      then Err (CharterInvalid ''egress_mode''
        (''egress_mode must be one of '' @ tuple_repr [''deny_all'', ''https_only'']))
      else
      res_bind (map_error CharterValue (str_tuple (py_get payload ''permitted_capabilities''))) (\<lambda>capabilities.
      res_bind (check_capabilities ''permitted_capabilities'' capabilities) (\<lambda>_.
      res_bind (map_error CharterValue (str_tuple (py_get payload ''confirm_required_capabilities''))) (\<lambda>confirm.
      res_bind (check_capabilities ''confirm_required_capabilities'' confirm) (\<lambda>_.
      res_bind (check_tier_capabilities tier capabilities ack) (\<lambda>_.
      res_bind (map_error CharterValue (str_tuple (py_get payload ''permitted_roots''))) (\<lambda>roots.
      if roots = [] then Err (CharterInvalid ''permitted_roots'' ''permitted_roots must not be empty'') else
      res_bind (map_error CharterValue (str_tuple (py_get payload ''protected_write_prefixes''))) (\<lambda>prefixes.
      if prefixes = []
      then Err (CharterInvalid ''protected_write_prefixes'' ''protected_write_prefixes must not be empty'') else
      res_bind (check_paths ''permitted_roots'' roots) (\<lambda>_.
      res_bind (check_paths ''protected_write_prefixes'' prefixes) (\<lambda>_.
      res_bind (map_error CharterValue (dict_of (py_get payload ''caps''))) (\<lambda>m.
      (let spend = py_strip (str_or (py_get m ''spend_enforcement'') ''unsupported'') in
      res_bind (check_spend spend) (\<lambda>_.
      res_bind (caps_of_payload m spend) (\<lambda>caps.
      res_bind (iter_or_empty (py_get payload ''runtime_allowlist'')) (\<lambda>entries.
      res_bind (res_map allowlist_triple entries) (\<lambda>allow.
      Ok (\<lparr>vc_tier = tier, vc_egress = egress, vc_roots = roots, vc_prefixes = prefixes,
           vc_capabilities = capabilities, vc_confirm = confirm, vc_acknowledged = ack, vc_caps = caps\<rparr>,
         allow))))))))))))))))))"

definition charter_payload_digest :: "(pystr \<times> py) list \<Rightarrow> pystr" where
  "charter_payload_digest payload = sha256_hex (canonical_json (PDict payload))"

definition normal_root :: "pystr \<Rightarrow> pystr" where
  "normal_root root = or_else (norm_rel root) (py_strip root)"

definition validate_charter_payload :: "(pystr \<times> py) list \<Rightarrow> (charter_error, (pystr \<times> py) list) result" where
  "validate_charter_payload payload =
     res_bind (check_charter_payload payload) (\<lambda>(vc, allow).
     res_bind (map_error CharterValue (str_tuple (py_get payload ''denied_read_paths''))) (\<lambda>denied.
     res_bind (iter_or_empty (py_get payload ''task_families'')) (\<lambda>families.
     (let normalized =
       [(''project_id'', opt_py PStr (opt_str (py_get payload ''project_id''))),
        (''charter_version'', PStr (str_or (py_get payload ''charter_version'') ''v1'')),
        (''policy_revision'', PStr (str_or (py_get payload ''policy_revision'') ''p3-2026-09'')),
        (''enforcement_tier'', PStr (vc_tier vc)), (''egress_mode'', PStr (vc_egress vc)),
        (''credential_risk_acknowledged'', PBool (vc_acknowledged vc)),
        (''permitted_roots'', str_list (map normal_root (vc_roots vc))),
        (''protected_write_prefixes'', str_list (sorted_set (map py_strip (vc_prefixes vc)))),
        (''denied_read_paths'', str_list (sorted_set (map py_strip
           (if denied = [] then DEFAULT_DENIED_READ_PATHS else denied)))),
        (''permitted_capabilities'', str_list (sorted_set (vc_capabilities vc))),
        (''confirm_required_capabilities'', str_list (sorted_set (vc_confirm vc))),
        (''runtime_allowlist'', PList allow),
        (''task_families'', str_list (sorted_set (map (\<lambda>x. py_strip (py_str x)) families))),
        (''caps'', PDict (caps_to_json (vc_caps vc)))]
      in Ok (normalized @ [(''charter_digest'', PStr (charter_payload_digest normalized))])))))"

section \<open>Narrowing\<close>

definition removed_roots :: "pystr list \<Rightarrow> pystr list" where
  "removed_roots requested = filter (\<lambda>s. s \<noteq> []) (map py_strip requested)
     @ filter (\<lambda>s. s \<noteq> []) (map norm_rel requested)"

definition keeps_root :: "pystr list \<Rightarrow> pystr \<Rightarrow> bool" where
  "keeps_root removed root = (py_strip root \<notin> set removed \<and> \<not> (norm_rel root \<noteq> [] \<and> norm_rel root \<in> set removed))"

definition narrow_caps :: "charter_caps \<Rightarrow> (pystr \<times> py) list \<Rightarrow> charter_caps" where
  "narrow_caps c n = c\<lparr>
     cc_attempts := min (cc_attempts c) (int_or (py_get n ''max_attempts'') (cc_attempts c)),
     cc_concurrent := min (cc_concurrent c) (int_or (py_get n ''max_concurrent_dispatches'') (cc_concurrent c)),
     cc_wall := min (cc_wall c) (int_or (py_get n ''max_wall_seconds'') (cc_wall c)),
     cc_budget := min (cc_budget c) (int_or (py_get n ''budget_minor_units'') (cc_budget c))\<rparr>"

definition narrow_tier :: "tier \<Rightarrow> py \<Rightarrow> tier" where
  "narrow_tier t v = (case tier_of (str_or v (tier_str t)) of
       None \<Rightarrow> t | Some t' \<Rightarrow> if t < t' then t else t')"

definition narrow_expiry :: "datetime \<Rightarrow> py \<Rightarrow> (value_error, datetime) result" where
  "narrow_expiry expires v = res_bind (parse_dt_opt v) (\<lambda>narrowed. case narrowed of
       None \<Rightarrow> Ok expires
     | Some d \<Rightarrow> res_bind (dt_less d expires) (\<lambda>earlier. Ok (if earlier then d else expires)))"

definition narrow_charter :: "charter \<Rightarrow> (pystr \<times> py) list \<Rightarrow> (value_error, charter) result" where
  "narrow_charter c n =
     res_bind (str_tuple (py_get n ''remove_roots'')) (\<lambda>removals.
     res_bind (str_tuple (py_get n ''remove_capabilities'')) (\<lambda>dropped.
     res_bind (str_tuple (py_get n ''add_protected_write_prefixes'')) (\<lambda>prefixes.
     res_bind (str_tuple (py_get n ''add_denied_read_paths'')) (\<lambda>denied.
     res_bind (narrow_expiry (ch_expires_at c) (py_get n ''expires_at'')) (\<lambda>expires.
     Ok (c\<lparr>ch_tier := narrow_tier (ch_tier c) (py_get n ''enforcement_tier''),
       ch_roots := filter (keeps_root (removed_roots removals)) (ch_roots c),
       ch_protected := sorted_set (ch_protected c @ prefixes),
       ch_denied := sorted_set (ch_denied c @ denied),
       ch_capabilities := filter (\<lambda>k. k \<notin> set dropped) (ch_capabilities c),
       ch_egress := (if str_or_empty (py_get n ''egress_mode'') = ''deny_all'' then DENY_ALL else ch_egress c),
       ch_caps := narrow_caps (ch_caps c) n, ch_expires_at := expires\<rparr>))))))"

section \<open>Rows and JSON\<close>

definition json_list :: "py \<Rightarrow> py list" where
  "json_list v = (case v of PList xs \<Rightarrow> xs | _ \<Rightarrow> [])"

definition str_column :: "py \<Rightarrow> pystr list" where
  "str_column v = map py_str (json_list v)"

definition runtime_entry :: "py \<Rightarrow> (value_error, (pystr \<times> pystr \<times> pystr) list) result" where
  "runtime_entry entry = res_bind (iter_strs entry) (\<lambda>triple.
     Ok (case triple of [a, b, c] \<Rightarrow> [(a, b, c)] | _ \<Rightarrow> []))"

definition runtime_allowlist :: "py \<Rightarrow> (value_error, (pystr \<times> pystr \<times> pystr) list) result" where
  "runtime_allowlist v = res_bind (res_map runtime_entry (json_list v)) (\<lambda>xss. Ok (concat xss))"

text \<open>\<open>row.get(a) or row.get(b)\<close>.\<close>

definition get_or :: "(pystr \<times> py) list \<Rightarrow> pystr \<Rightarrow> pystr \<Rightarrow> py" where
  "get_or m a b = (if truthy (py_get m a) then py_get m a else py_get m b)"

definition base_charter :: "(pystr \<times> py) list \<Rightarrow> (value_error, charter) result" where
  "base_charter row =
     res_bind (int_or_dflt (py_get row ''max_attempts'') 3) (\<lambda>attempts.
     res_bind (int_or_dflt (py_get row ''max_concurrent_dispatches'') 1) (\<lambda>concurrent.
     res_bind (int_or_dflt (py_get row ''max_wall_seconds'') 1800) (\<lambda>wall.
     res_bind (int_or_dflt (py_get row ''budget_minor_units'') 0) (\<lambda>budget.
     res_bind (runtime_allowlist (get_or row ''runtime_allowlist_json'' ''runtime_allowlist'')) (\<lambda>runtimes.
     res_bind (parse_dt (get_or row ''approved_at'' ''created_at'')) (\<lambda>approved.
     res_bind (parse_dt (py_get row ''expires_at'')) (\<lambda>expires.
     res_bind (parse_dt_opt (py_get row ''revoked_at'')) (\<lambda>revoked.
     Ok \<lparr>ch_id = str_or_empty (get_or row ''id'' ''charter_id''),
         ch_workspace = str_or_empty (py_get row ''workspace_id''), ch_owner = str_or_empty (py_get row ''owner_id''),
         ch_project = opt_str (py_get row ''project_id''),
         ch_version = str_or (py_get row ''charter_version'') ''v1'',
         ch_policy = str_or (py_get row ''policy_revision'') ''p3-2026-09'',
         ch_status = str_or (py_get row ''status'') ''draft'',
         ch_tier = charter_tier_literal (py_get row ''enforcement_tier''),
         ch_roots = str_column (get_or row ''permitted_roots_json'' ''permitted_roots''),
         ch_protected = str_column (get_or row ''protected_write_prefixes_json'' ''protected_write_prefixes''),
         ch_denied = str_column (get_or row ''denied_read_paths_json'' ''denied_read_paths''),
         ch_capabilities = sorted_set (str_column (get_or row ''permitted_capabilities_json'' ''permitted_capabilities'')),
         ch_confirm = sorted_set (str_column
           (get_or row ''confirm_required_capabilities_json'' ''confirm_required_capabilities'')),
         ch_egress = egress_literal (py_get row ''egress_mode''), ch_runtimes = runtimes,
         ch_caps = \<lparr>cc_attempts = attempts, cc_concurrent = concurrent, cc_wall = wall, cc_budget = budget,
           cc_currency = str_or (py_get row ''budget_currency'') ''USD'',
           cc_spend = spend_enforcement_literal (py_get row ''spend_enforcement'')\<rparr>,
         ch_approved_by = str_or_empty (py_get row ''approved_by''), ch_approved_at = approved,
         ch_expires_at = expires, ch_revoked_at = revoked, ch_narrowings = [],
         ch_digest = str_or_empty (py_get row ''charter_digest''),
         ch_schema = str_or (py_get row ''schema_version'') ''v1'',
         ch_risk_ack = truthy (py_get row ''credential_risk_acknowledged'')\<rparr>))))))))"

fun fold_narrowings ::
  "charter \<Rightarrow> (pystr \<times> py) list list \<Rightarrow> (value_error, charter) result" where
  "fold_narrowings c [] = Ok c"
| "fold_narrowings c (row # rows) =
     res_bind (narrow_charter c (payload_mapping (get_or row ''narrowing_json'' ''narrowing'')))
       (\<lambda>c'. fold_narrowings c' rows)"

definition charter_from_row ::
  "(pystr \<times> py) list \<Rightarrow> (pystr \<times> py) list list \<Rightarrow> (value_error, charter) result" where
  "charter_from_row row narrowings =
     res_bind (base_charter row) (\<lambda>base.
     res_bind (fold_narrowings base narrowings) (\<lambda>c.
     Ok (if narrowings = [] then c
         else c\<lparr>ch_narrowings := map (\<lambda>r. str_or_empty (get_or r ''id'' ''narrowing_id'')) narrowings\<rparr>)))"

definition resolved_charter_to_json :: "charter \<Rightarrow> (pystr \<times> py) list" where
  "resolved_charter_to_json c =
     [(''charter_id'', PStr (ch_id c)), (''workspace_id'', PStr (ch_workspace c)), (''owner_id'', PStr (ch_owner c)),
      (''project_id'', opt_py PStr (ch_project c)), (''charter_version'', PStr (ch_version c)),
      (''policy_revision'', PStr (ch_policy c)), (''status'', PStr (ch_status c)),
      (''enforcement_tier'', PStr (tier_str (ch_tier c))), (''permitted_roots'', str_list (ch_roots c)),
      (''protected_write_prefixes'', str_list (ch_protected c)), (''denied_read_paths'', str_list (ch_denied c)),
      (''permitted_capabilities'', str_list (sorted_set (ch_capabilities c))),
      (''confirm_required_capabilities'', str_list (sorted_set (ch_confirm c))),
      (''egress_mode'', PStr (egress_str (ch_egress c))),
      (''runtime_allowlist'', PList (map (\<lambda>(a, b, d). str_list [a, b, d]) (ch_runtimes c))),
      (''caps'', PDict (caps_to_json (ch_caps c))), (''approved_by'', PStr (ch_approved_by c)),
      (''approved_at'', PStr (isoformat (ch_approved_at c))), (''expires_at'', PStr (isoformat (ch_expires_at c))),
      (''revoked_at'', opt_py (\<lambda>d. PStr (isoformat d)) (ch_revoked_at c)),
      (''narrowing_ids'', str_list (ch_narrowings c)), (''charter_digest'', PStr (ch_digest c)),
      (''schema_version'', PStr (ch_schema c)), (''credential_risk_acknowledged'', PBool (ch_risk_ack c))]"

definition resolved_charter_from_json :: "(pystr \<times> py) list \<Rightarrow> (value_error, charter) result" where
  "resolved_charter_from_json m =
     res_bind (dict_of (py_get m ''caps'')) (\<lambda>caps.
     res_bind (int_key caps ''max_attempts'' 3) (\<lambda>attempts.
     res_bind (int_key caps ''max_concurrent_dispatches'' 1) (\<lambda>concurrent.
     res_bind (int_key caps ''max_wall_seconds'' 1800) (\<lambda>wall.
     res_bind (int_key caps ''budget_minor_units'' 0) (\<lambda>budget.
     res_bind (str_tuple (py_get m ''permitted_roots'')) (\<lambda>roots.
     res_bind (str_tuple (py_get m ''protected_write_prefixes'')) (\<lambda>protected.
     res_bind (str_tuple (py_get m ''denied_read_paths'')) (\<lambda>denied.
     res_bind (str_tuple (py_get m ''permitted_capabilities'')) (\<lambda>capabilities.
     res_bind (str_tuple (py_get m ''confirm_required_capabilities'')) (\<lambda>confirm.
     res_bind (runtime_allowlist (py_get m ''runtime_allowlist'')) (\<lambda>runtimes.
     res_bind (parse_dt (py_get m ''approved_at'')) (\<lambda>approved.
     res_bind (parse_dt (py_get m ''expires_at'')) (\<lambda>expires.
     res_bind (parse_dt_opt (py_get m ''revoked_at'')) (\<lambda>revoked.
     res_bind (str_tuple (py_get m ''narrowing_ids'')) (\<lambda>narrowings.
     Ok \<lparr>ch_id = str_or_empty (py_get m ''charter_id''), ch_workspace = str_or_empty (py_get m ''workspace_id''),
         ch_owner = str_or_empty (py_get m ''owner_id''), ch_project = opt_str (py_get m ''project_id''),
         ch_version = str_or (py_get m ''charter_version'') ''v1'',
         ch_policy = str_or (py_get m ''policy_revision'') ''p3-2026-09'',
         ch_status = str_or (py_get m ''status'') ''draft'',
         ch_tier = charter_tier_literal (py_get m ''enforcement_tier''), ch_roots = roots, ch_protected = protected,
         ch_denied = denied, ch_capabilities = sorted_set capabilities, ch_confirm = sorted_set confirm,
         ch_egress = egress_literal (py_get m ''egress_mode''), ch_runtimes = runtimes,
         ch_caps = \<lparr>cc_attempts = attempts, cc_concurrent = concurrent, cc_wall = wall, cc_budget = budget,
           cc_currency = str_or (py_get caps ''budget_currency'') ''USD'',
           cc_spend = spend_enforcement_literal (py_get caps ''spend_enforcement'')\<rparr>,
         ch_approved_by = str_or_empty (py_get m ''approved_by''), ch_approved_at = approved,
         ch_expires_at = expires, ch_revoked_at = revoked, ch_narrowings = narrowings,
         ch_digest = str_or_empty (py_get m ''charter_digest''), ch_schema = str_or (py_get m ''schema_version'') ''v1'',
         ch_risk_ack = truthy (py_get m ''credential_risk_acknowledged'')\<rparr>)))))))))))))))"

end
