(* ===== verification/Charter_Facts.thy ===== *)
theory Charter_Facts
  imports Charter_Build "HOL-Library.Sublist"
begin

text \<open>
  What the charter promises: narrowing only ever shrinks an authority, a validated payload is safe, and
  the path test is the prefix order on path components.
\<close>

section \<open>Paths as component lists\<close>

definition components :: "pystr \<Rightarrow> pystr list option" where
  "components path = (let raw = posix_slashes (py_strip path) in
     if starts_with ''/'' raw \<or> starts_with ''~'' raw then None else norm_parts (py_split_on CHR ''/'' raw))"

abbreviation slashless :: "pystr \<Rightarrow> bool" where
  "slashless s \<equiv> CHR ''/'' \<notin> set s"

lemma split_on_aux_app:
  "split_on_aux sep acc (s @ sep # t) = split_on_aux sep acc s @ split_on_aux sep [] t"
  by (induction sep acc s rule: split_on_aux.induct) simp_all

lemma split_on_aux_free: "sep \<notin> set s \<Longrightarrow> split_on_aux sep acc s = [rev acc @ s]"
  by (induction sep acc s rule: split_on_aux.induct) auto

lemma split_app: "py_split_on sep (s @ sep # t) = py_split_on sep s @ py_split_on sep t"
  by (simp add: py_split_on_def split_on_aux_app)

lemma split_join:
  assumes "ps \<noteq> []" "list_all slashless ps"
  shows "py_split_on CHR ''/'' (py_join ''/'' ps) = ps"
  using assms
proof (induction ps rule: induct_list012)
  case (2 x)
  then show ?case by (simp add: py_split_on_def split_on_aux_free)
next
  case (3 x y zs)
  then show ?case using split_app [of "CHR ''/''" x] by (simp add: py_split_on_def split_on_aux_free)
qed simp

lemma split_slashless: "list_all slashless (py_split_on CHR ''/'' s)"
proof -
  have "slashless acc \<Longrightarrow> list_all slashless (split_on_aux CHR ''/'' acc s)" for acc
    by (induction "CHR ''/''" acc s rule: split_on_aux.induct) (auto simp: list_all_iff)
  then show ?thesis by (simp add: py_split_on_def)
qed

lemma norm_parts_props:
  "norm_parts cs = Some ps \<Longrightarrow> list_all slashless cs \<Longrightarrow> list_all (\<lambda>p. p \<noteq> [] \<and> p \<noteq> ''.'' \<and> p \<noteq> ''..'' \<and> slashless p) ps"
  by (induction cs arbitrary: ps) (auto split: if_split_asm)

lemma components_props:
  "components s = Some ps \<Longrightarrow> list_all (\<lambda>p. p \<noteq> [] \<and> p \<noteq> ''.'' \<and> p \<noteq> ''..'' \<and> slashless p) ps"
  using norm_parts_props split_slashless by (auto simp: components_def Let_def split: if_split_asm)

lemma norm_rel_components:
  "norm_rel s = (case components s of None \<Rightarrow> [] | Some ps \<Rightarrow> py_join ''/'' ps)"
  by (auto simp: norm_rel_def components_def Let_def py_split_on_def starts_with_def)

lemma py_join_Nil: "list_all (\<lambda>p. p \<noteq> []) ps \<Longrightarrow> py_join sep ps = [] \<longleftrightarrow> ps = []"
  by (induction ps rule: induct_list012) auto

lemma py_join_append: "qs \<noteq> [] \<Longrightarrow> rs \<noteq> [] \<Longrightarrow> py_join sep (qs @ rs) = py_join sep qs @ sep @ py_join sep rs"
  by (induction qs rule: induct_list012) (auto simp: neq_Nil_conv)

lemma join_prefix:
  assumes "qs \<noteq> []" "list_all slashless qs" "ps \<noteq> []" "list_all slashless ps"
  shows "(py_join ''/'' ps = py_join ''/'' qs \<or> starts_with (py_join ''/'' qs @ ''/'') (py_join ''/'' ps)) \<longleftrightarrow> prefix qs ps"
proof
  assume "py_join ''/'' ps = py_join ''/'' qs \<or> starts_with (py_join ''/'' qs @ ''/'') (py_join ''/'' ps)"
  then consider "py_join ''/'' ps = py_join ''/'' qs" | t where "py_join ''/'' ps = py_join ''/'' qs @ CHR ''/'' # t"
    by (auto simp: starts_with_iff)
  then show "prefix qs ps"
  proof cases
    case 1
    then show ?thesis using split_join assms by (metis prefix_order.refl)
  next
    case 2
    then have "ps = qs @ py_split_on CHR ''/'' t" using split_join assms split_app by metis
    then show ?thesis by simp
  qed
next
  assume "prefix qs ps"
  then obtain rs where "ps = qs @ rs" by (rule prefixE)
  then show "py_join ''/'' ps = py_join ''/'' qs \<or> starts_with (py_join ''/'' qs @ ''/'') (py_join ''/'' ps)"
    using assms by (cases "rs = []") (auto simp: py_join_append starts_with_iff)
qed

lemma under_components:
  assumes "components pre = Some qs" "qs \<noteq> []"
  shows "under path pre \<longleftrightarrow> (\<exists>ps. components path = Some ps \<and> prefix qs ps)"
proof -
  note q = components_props [OF assms(1)]
  have pre: "norm_rel pre = py_join ''/'' qs" "norm_rel pre \<noteq> []"
    using assms py_join_Nil [of qs] q by (auto simp: norm_rel_components list_all_iff)
  show ?thesis
  proof (cases "components path")
    case None
    then show ?thesis by (simp add: under_def Let_def norm_rel_components)
  next
    case (Some ps)
    note p = components_props [OF Some]
    have path: "norm_rel path = py_join ''/'' ps" "norm_rel path = [] \<longleftrightarrow> ps = []"
      using Some py_join_Nil [of ps] p by (auto simp: norm_rel_components list_all_iff)
    show ?thesis
    proof (cases "ps = []")
      case True
      then show ?thesis using Some assms(2) path by (simp add: under_def Let_def)
    next
      case False
      then have "under path pre \<longleftrightarrow> prefix qs ps"
        using join_prefix [of qs ps] assms(2) p q pre path by (simp add: under_def Let_def list_all_iff)
      then show ?thesis using Some by simp
    qed
  qed
qed

section \<open>Narrowing and the order on authorities\<close>

fun fold_res :: "('a \<Rightarrow> 'n \<Rightarrow> ('e, 'a) result) \<Rightarrow> 'a \<Rightarrow> 'n list \<Rightarrow> ('e, 'a) result" where
  "fold_res f a [] = Ok a"
| "fold_res f a (n # ns) = res_bind (f a n) (\<lambda>b. fold_res f b ns)"

text \<open>An order on authorities and an operation that, when it succeeds, yields a smaller one.\<close>

locale shrinking =
  fixes le :: "'a \<Rightarrow> 'a \<Rightarrow> bool" and narrow :: "'a \<Rightarrow> 'n \<Rightarrow> ('e, 'a) result"
  assumes le_refl: "le a a"
    and le_trans: "le a b \<Longrightarrow> le b c \<Longrightarrow> le a c"
    and narrow_le: "narrow a n = Ok b \<Longrightarrow> le b a"
begin

lemma fold_le: "fold_res narrow a ns = Ok b \<Longrightarrow> le b a"
proof (induction ns arbitrary: a)
  case (Cons n ns)
  from Cons.prems obtain c where "narrow a n = Ok c" "fold_res narrow c ns = Ok b"
    by (auto simp: res_bind_Ok_iff)
  then show ?case using Cons.IH narrow_le le_trans by blast
qed (simp add: le_refl)

end

text \<open>
  One authority below another: fewer roots, more protected prefixes and denied reads, fewer
  capabilities, a tier at least as strong, no new egress, smaller caps, no later expiry, and the same
  identity, approval and revocation.
\<close>

definition caps_le :: "charter_caps \<Rightarrow> charter_caps \<Rightarrow> bool" where
  "caps_le a b = (cc_attempts a \<le> cc_attempts b \<and> cc_concurrent a \<le> cc_concurrent b \<and> cc_wall a \<le> cc_wall b
     \<and> cc_budget a \<le> cc_budget b \<and> cc_currency a = cc_currency b \<and> cc_spend a = cc_spend b)"

definition same_zone :: "datetime \<Rightarrow> datetime \<Rightarrow> bool" where
  "same_zone a b = (case (a, b) of (Naive _, Naive _) \<Rightarrow> True | (Aware _ _, Aware _ _) \<Rightarrow> True | _ \<Rightarrow> False)"

definition charter_identity :: "charter \<Rightarrow> charter" where
  "charter_identity c = c\<lparr>ch_tier := ADVISORY, ch_roots := [], ch_protected := [], ch_denied := [], ch_capabilities := [],
     ch_egress := DENY_ALL, ch_caps := \<lparr>cc_attempts = 0, cc_concurrent = 0, cc_wall = 0, cc_budget = 0, cc_currency = [], cc_spend = []\<rparr>,
     ch_expires_at := Naive 0, ch_narrowings := []\<rparr>"

definition charter_le :: "charter \<Rightarrow> charter \<Rightarrow> bool" where
  "charter_le a b = (set (ch_roots a) \<subseteq> set (ch_roots b) \<and> set (ch_protected b) \<subseteq> set (ch_protected a)
     \<and> set (ch_denied b) \<subseteq> set (ch_denied a) \<and> set (ch_capabilities a) \<subseteq> set (ch_capabilities b)
     \<and> ch_tier a \<le> ch_tier b \<and> ch_egress a \<in> {DENY_ALL, ch_egress b} \<and> caps_le (ch_caps a) (ch_caps b)
     \<and> instant (ch_expires_at a) \<le> instant (ch_expires_at b) \<and> same_zone (ch_expires_at a) (ch_expires_at b)
     \<and> charter_identity a = charter_identity b)"

lemma same_zone_simps [simp]: "same_zone a a" "same_zone a b \<Longrightarrow> same_zone b c \<Longrightarrow> same_zone a c"
  by (auto simp: same_zone_def split: datetime.splits)

lemma charter_le_refl: "charter_le a a"
  by (simp add: charter_le_def caps_le_def)

lemma charter_le_trans: "charter_le a b \<Longrightarrow> charter_le b c \<Longrightarrow> charter_le a c"
  unfolding charter_le_def caps_le_def by (auto intro: same_zone_simps(2))

lemma dt_less_Ok_iff: "dt_less a b = Ok r \<longleftrightarrow> same_zone a b \<and> r = (instant a < instant b)"
  by (cases a; cases b) (auto simp: dt_less_def same_zone_def)

lemma narrow_expiry_earlier:
  "narrow_expiry e v = Ok e' \<Longrightarrow> instant e' \<le> instant e \<and> same_zone e' e"
proof -
  assume ok: "narrow_expiry e v = Ok e'"
  then obtain x where x: "parse_dt_opt v = Ok x" by (auto simp: narrow_expiry_def res_bind_Ok_iff)
  show ?thesis
  proof (cases x)
    case None
    then show ?thesis using ok x by (simp add: narrow_expiry_def)
  next
    case (Some d)
    then obtain b where "dt_less d e = Ok b" "e' = (if b then d else e)"
      using ok x by (auto simp: narrow_expiry_def res_bind_Ok_iff)
    then show ?thesis by (auto simp: dt_less_Ok_iff)
  qed
qed

lemma narrow_tier_stronger: "narrow_tier t v \<le> t"
  by (simp add: narrow_tier_def not_less split: option.split)

lemma narrow_charter_le:
  assumes "narrow_charter c n = Ok c'"
  shows "charter_le c' c"
proof -
  obtain removals dropped prefixes denied expires where
    expires: "narrow_expiry (ch_expires_at c) (py_get n ''expires_at'') = Ok expires"
    and c': "c' = c\<lparr>ch_tier := narrow_tier (ch_tier c) (py_get n ''enforcement_tier''),
       ch_roots := filter (keeps_root (removed_roots removals)) (ch_roots c),
       ch_protected := sorted_set (ch_protected c @ prefixes), ch_denied := sorted_set (ch_denied c @ denied),
       ch_capabilities := filter (\<lambda>k. k \<notin> set dropped) (ch_capabilities c),
       ch_egress := (if str_or_empty (py_get n ''egress_mode'') = ''deny_all'' then DENY_ALL else ch_egress c),
       ch_caps := narrow_caps (ch_caps c) n, ch_expires_at := expires\<rparr>"
    using assms by (auto simp: narrow_charter_def res_bind_Ok_iff)
  have "caps_le (narrow_caps (ch_caps c) n) (ch_caps c)" by (simp add: caps_le_def narrow_caps_def)
  then show ?thesis
    using narrow_expiry_earlier [OF expires] narrow_tier_stronger
    by (auto simp: c' charter_le_def charter_identity_def)
qed

interpretation authority: shrinking charter_le narrow_charter
  by unfold_locales (auto intro: charter_le_refl charter_le_trans narrow_charter_le)

lemma fold_narrowings_eq:
  "fold_narrowings c rows = fold_res narrow_charter c (map (\<lambda>r. payload_mapping (get_or r ''narrowing_json'' ''narrowing'')) rows)"
  by (induction rows arbitrary: c) simp_all

section \<open>What a smaller authority still refuses\<close>

lemma charter_le_paths:
  assumes "charter_le a b"
  shows "allows_path a p \<Longrightarrow> allows_path b p" "is_protected_write b p \<Longrightarrow> is_protected_write a p"
    "allows_capability a k \<Longrightarrow> allows_capability b k"
  using assms unfolding charter_le_def allows_path_def is_protected_write_def allows_capability_def list_ex_iff by blast+

lemma first_refused_path_iff:
  "fst (first_refused_path c ps) \<longleftrightarrow> (\<exists>p \<in> set ps. is_protected_write c p \<or> \<not> allows_path c p)"
  by (induction ps) auto

lemma charter_le_blocks:
  assumes "charter_le a b" "fst (charter_scope_narrowing (Some b) kind paths)"
  shows "fst (charter_scope_narrowing (Some a) kind paths)"
  using assms charter_le_paths [OF assms(1)]
  by (auto simp: charter_scope_narrowing_def Let_def first_refused_path_iff split: if_split_asm)

lemma charter_le_identity:
  assumes "charter_le a b"
  shows "ch_status a = ch_status b" "ch_revoked_at a = ch_revoked_at b" "ch_runtimes a = ch_runtimes b"
    "ch_confirm a = ch_confirm b"
proof -
  have id: "charter_identity a = charter_identity b" using assms by (simp add: charter_le_def)
  have "ch_status a = ch_status (charter_identity a)" "ch_revoked_at a = ch_revoked_at (charter_identity a)"
    "ch_runtimes a = ch_runtimes (charter_identity a)" "ch_confirm a = ch_confirm (charter_identity a)"
    by (simp_all add: charter_identity_def)
  then show "ch_status a = ch_status b" "ch_revoked_at a = ch_revoked_at b" "ch_runtimes a = ch_runtimes b"
    "ch_confirm a = ch_confirm b"
    unfolding id by (simp_all add: charter_identity_def)
qed

lemma charter_le_active:
  assumes "charter_le a b" "is_active a now = Ok True"
  shows "is_active b now = Ok True"
proof -
  have "instant (ch_expires_at a) \<le> instant (ch_expires_at b)" "same_zone (ch_expires_at a) (ch_expires_at b)"
    using assms(1) by (simp_all add: charter_le_def)
  then show ?thesis
    using assms(2) charter_le_identity [OF assms(1)]
    by (auto simp: is_active_def dt_less_def same_zone_def split: if_split_asm datetime.splits)
qed

lemma require_Ok_iff:
  "require_charter_for_action charter kind enabled now = Ok () \<longleftrightarrow>
     \<not> enabled \<or> \<not> is_mutating_action_kind kind
     \<or> (\<exists>c. charter = Some c \<and> ch_revoked_at c = None \<and> is_active c now = Ok True)"
  by (auto simp: require_charter_for_action_def split: option.splits sum.splits bool.splits)

section \<open>Properties\<close>

text \<open>
  C9. Narrowing only shrinks (charter.py, charter_from_row and narrow_charter): the charter resolved with any
  list of narrowing rows is below the one resolved without them in every respect, it refuses whatever that one
  refuses, and a mutating action it admits is admitted by that one.
\<close>

theorem narrowing_shrinks_authority:
  assumes "charter_from_row row [] = Ok base" "charter_from_row row narrowings = Ok c"
  shows "charter_le c base
    \<and> (fst (charter_scope_narrowing (Some c) kind paths) \<or> \<not> fst (charter_scope_narrowing (Some base) kind paths))
    \<and> (require_charter_for_action (Some base) kind enabled now = Ok ()
       \<or> require_charter_for_action (Some c) kind enabled now \<noteq> Ok ())"
proof -
  have base: "base_charter row = Ok base" using assms(1) by (simp add: charter_from_row_def res_bind_Ok_iff)
  then obtain d where d: "fold_narrowings base narrowings = Ok d"
    and c: "c = (if narrowings = [] then d else d\<lparr>ch_narrowings := map (\<lambda>r. str_or_empty (get_or r ''id'' ''narrowing_id'')) narrowings\<rparr>)"
    using assms(2) by (auto simp: charter_from_row_def res_bind_Ok_iff)
  have "charter_le d base" using authority.fold_le d unfolding fold_narrowings_eq by blast
  then have le: "charter_le c base" by (simp add: c charter_le_def charter_identity_def)
  show ?thesis
    using le charter_le_blocks [OF le] charter_le_active [OF le] charter_le_identity [OF le]
    by (auto simp: require_Ok_iff)
qed

definition sample_charter_row :: "(pystr \<times> py) list" where
  "sample_charter_row = [(''id'', PStr ''c1''), (''status'', PStr ''active''), (''enforcement_tier'', PStr ''container''),
     (''permitted_roots'', str_list [''src'', ''docs'']), (''permitted_capabilities'', str_list [''filesystem.write'']),
     (''created_at'', PDate (Aware 1 0)), (''expires_at'', PDate (Aware 9 0))]"

definition sample_narrowing :: "(pystr \<times> py) list" where
  "sample_narrowing = [(''id'', PStr ''n1''), (''narrowing'', PDict [(''remove_roots'', str_list [''docs/'']), (''max_attempts'', PInt 1)])]"

theorem narrowing_shrinks_authority_witness:
  "\<exists>base c. charter_from_row sample_charter_row [] = Ok base \<and> charter_from_row sample_charter_row [sample_narrowing] = Ok c
    \<and> charter_le c base \<and> ch_roots base = [''src'', ''docs''] \<and> ch_roots c = [''src'']"
proof -
  have norm: "norm_rel ''docs/'' = ''docs''" "norm_rel ''docs'' = ''docs''" "norm_rel ''src'' = ''src''"
    "py_strip ''docs/'' = ''docs/''" "py_strip ''docs'' = ''docs''" "py_strip ''src'' = ''src''" by code_simp+
  obtain base where base: "base_charter sample_charter_row = Ok base" and roots: "ch_roots base = [''src'', ''docs'']"
    and exp: "ch_expires_at base = Aware 9 0"
    by (simp add: base_charter_def sample_charter_row_def int_or_dflt_def truthy_def runtime_allowlist_def json_list_def
        get_or_def parse_dt_def parse_dt_opt_def str_list_def str_column_def)
  obtain c where c: "charter_from_row sample_charter_row [sample_narrowing] = Ok c" and rc: "ch_roots c = [''src'']"
    by (simp add: charter_from_row_def base sample_narrowing_def narrow_charter_def get_or_def truthy_def str_tuple_def
        str_list_def iter_strs_def py_iter_def narrow_expiry_def parse_dt_opt_def removed_roots_def keeps_root_def norm roots)
  have b: "charter_from_row sample_charter_row [] = Ok base" by (simp add: charter_from_row_def base)
  show ?thesis using narrowing_shrinks_authority [OF b c] b c roots rc by blast
qed

text \<open>
  The path test (charter.py, _norm_rel, _under and allows_path): a path is under a proper prefix exactly when
  it is relative, climbs nowhere, and its components extend the components of the prefix; so neither an
  absolute path, nor one with a \<open>..\<close> component, nor a sibling that merely shares leading characters
  is ever under it.
\<close>

theorem under_is_component_prefix:
  assumes "components pre = Some qs" "qs \<noteq> []"
  shows "under path pre \<longleftrightarrow> (\<exists>ps. components path = Some ps \<and> prefix qs ps)"
  using assms by (rule under_components)

theorem under_is_component_prefix_witness:
  "under ''src/./a.py'' ''src/'' \<and> \<not> under ''srcs/a.py'' ''src/'' \<and> \<not> under ''src/../etc'' ''src/''"
proof -
  have "components ''src/'' = Some [''src'']" by code_simp
  note u = under_is_component_prefix [OF this]
  have "components ''src/./a.py'' = Some [''src'', ''a.py'']" "components ''srcs/a.py'' = Some [''srcs'', ''a.py'']"
    "components ''src/../etc'' = None" by code_simp+
  then show ?thesis by (simp add: u)
qed

lemma find_check: "(case find P xs of None \<Rightarrow> Ok () | Some x \<Rightarrow> Err (f x)) = Ok () \<longleftrightarrow> list_all (\<lambda>x. \<not> P x) xs"
  by (induction xs) auto

lemma check_capabilities_Ok: "check_capabilities f cs = Ok () \<longleftrightarrow> list_all (\<lambda>c. dict_get CAPABILITY_REGISTRY c \<noteq> None) cs"
  unfolding check_capabilities_def find_check ..

lemma check_paths_Ok: "check_paths f vs = Ok () \<longleftrightarrow> list_all safe_relative vs"
  unfolding check_paths_def find_check by simp

lemma check_spend_Ok: "check_spend s = Ok () \<Longrightarrow> s \<in> {''estimated'', ''unsupported''}"
proof -
  assume ok: "check_spend s = Ok ()"
  have "spend_enforcement_for x \<noteq> ''enforced''" for x using spend_enforcement_values [of x] by auto
  then have "''enforced'' \<notin> set (map spend_enforcement_for SURFACES)" by (metis imageE set_map)
  then have "s \<noteq> ''enforced''" "s \<in> set SPEND_ENFORCEMENT"
    using ok by (auto simp only: check_spend_def split: if_split_asm)
  then show ?thesis by (simp add: SPEND_ENFORCEMENT_def)
qed

lemma check_tier_Ok:
  "check_tier_capabilities t cs ack = Ok () \<longleftrightarrow>
    (t = ''advisory'' \<or> t = ''os_sandbox'' \<and> \<not> ack \<longrightarrow> list_all (\<lambda>c. \<not> is_mutating_capability c) cs)"
  by (cases "filter is_mutating_capability cs = []")
    (auto simp: check_tier_capabilities_def Let_def list_all_iff filter_empty_conv)

lemma caps_of_payload_Ok:
  assumes "caps_of_payload m spend = Ok c"
  shows "1 \<le> cc_attempts c \<and> 1 \<le> cc_concurrent c \<and> 1 \<le> cc_wall c \<and> 0 \<le> cc_budget c \<and> cc_spend c = spend"
  using assms unfolding caps_of_payload_def res_bind_Ok_iff by (auto split: if_split_asm)

definition valid_charter_ok :: "valid_charter \<Rightarrow> bool" where
  "valid_charter_ok vc = (vc_roots vc \<noteq> [] \<and> vc_prefixes vc \<noteq> []
     \<and> list_all safe_relative (vc_roots vc) \<and> list_all safe_relative (vc_prefixes vc)
     \<and> list_all (\<lambda>c. dict_get CAPABILITY_REGISTRY c \<noteq> None) (vc_capabilities vc)
     \<and> list_all (\<lambda>c. dict_get CAPABILITY_REGISTRY c \<noteq> None) (vc_confirm vc)
     \<and> tier_of (vc_tier vc) \<noteq> None
     \<and> (vc_tier vc = ''advisory'' \<or> vc_tier vc = ''os_sandbox'' \<and> \<not> vc_acknowledged vc
        \<longrightarrow> list_all (\<lambda>c. \<not> is_mutating_capability c) (vc_capabilities vc))
     \<and> 1 \<le> cc_attempts (vc_caps vc) \<and> 1 \<le> cc_concurrent (vc_caps vc) \<and> 1 \<le> cc_wall (vc_caps vc)
     \<and> 0 \<le> cc_budget (vc_caps vc) \<and> cc_spend (vc_caps vc) \<in> {''estimated'', ''unsupported''})"

lemma check_charter_payload_ok:
  assumes "check_charter_payload p = Ok (vc, allow)"
  shows "valid_charter_ok vc"
proof -
  have "find (\<lambda>k. py_contains ''domain'' (py_lower k)) (map fst p) = None"
    using assms by (auto simp: check_charter_payload_def split: option.splits)
  note step = assms [unfolded check_charter_payload_def this option.case Let_def]
  show ?thesis using step
    unfolding res_bind_Ok_iff
    by (clarsimp simp: res_bind_Ok_iff valid_charter_ok_def check_capabilities_Ok check_paths_Ok
        check_tier_Ok dest!: check_spend_Ok caps_of_payload_Ok split: if_split_asm)
qed

lemma validate_charter_stores:
  assumes "validate_charter_payload p = Ok n"
  shows "\<exists>vc allow. check_charter_payload p = Ok (vc, allow)
    \<and> py_get n ''permitted_roots'' = str_list (map normal_root (vc_roots vc))
    \<and> py_get n ''protected_write_prefixes'' = str_list (sorted_set (map py_strip (vc_prefixes vc)))
    \<and> py_get n ''permitted_capabilities'' = str_list (sorted_set (vc_capabilities vc))
    \<and> py_get n ''enforcement_tier'' = PStr (vc_tier vc) \<and> py_get n ''caps'' = PDict (caps_to_json (vc_caps vc))"
  using assms by (auto simp: validate_charter_payload_def res_bind_Ok_iff Let_def split: prod.splits)

text \<open>
  C8. What a stored charter is (charter.py, validate_charter_payload): an accepted payload yields roots and
  protected prefixes that are non-empty and all relative without a \<open>..\<close> component, only registered
  capabilities, no mutating one under the advisory tier or under the sandbox without the acknowledged
  credential risk, positive caps, and never a claim that spending is enforced.
\<close>

theorem validated_charter_is_safe:
  assumes "validate_charter_payload p = Ok n"
  shows "\<exists>vc. valid_charter_ok vc
    \<and> py_get n ''permitted_roots'' = str_list (map normal_root (vc_roots vc))
    \<and> py_get n ''protected_write_prefixes'' = str_list (sorted_set (map py_strip (vc_prefixes vc)))
    \<and> py_get n ''permitted_capabilities'' = str_list (sorted_set (vc_capabilities vc))
    \<and> py_get n ''enforcement_tier'' = PStr (vc_tier vc) \<and> py_get n ''caps'' = PDict (caps_to_json (vc_caps vc))"
  using validate_charter_stores [OF assms] check_charter_payload_ok by blast

definition sample_payload :: "(pystr \<times> py) list" where
  "sample_payload = [(''enforcement_tier'', PStr ''container''), (''permitted_roots'', str_list [''src'']),
     (''protected_write_prefixes'', str_list [''tests/'']), (''permitted_capabilities'', str_list [''git.write''])]"

theorem validated_charter_is_safe_witness:
  "\<exists>n vc. validate_charter_payload sample_payload = Ok n \<and> valid_charter_ok vc
    \<and> py_get n ''permitted_roots'' = str_list (map normal_root (vc_roots vc))"
proof -
  have "is_ok (check_charter_payload sample_payload)" by code_simp
  then obtain vc allow where c: "check_charter_payload sample_payload = Ok (vc, allow)"
    by (cases "check_charter_payload sample_payload") auto
  have get: "py_get sample_payload ''denied_read_paths'' = PNone" "py_get sample_payload ''task_families'' = PNone"
    by (simp_all add: sample_payload_def)
  obtain n where n: "validate_charter_payload sample_payload = Ok n"
    using get by (simp add: validate_charter_payload_def c str_tuple_def iter_or_empty_def map_error_def truthy_def Let_def)
  from validated_charter_is_safe [OF n] n show ?thesis by blast
qed

text \<open>
  Narrowing is documented never to raise (charter.py, narrow_charter), but an expiry that is not an ISO
  timestamp, and a naive expiry against a charter's aware one, each make it raise.
\<close>

theorem narrow_charter_can_raise:
  "is_ok (narrow_charter c [(''expires_at'', PStr ''soon'')]) = False
   \<and> is_ok (narrow_charter (c\<lparr>ch_expires_at := Aware t 0\<rparr>) [(''expires_at'', PDate (Naive t'))]) = False"
proof -
  have "fromisoformat ''soon'' = None" by code_simp
  then show ?thesis
    by (simp add: narrow_charter_def narrow_expiry_def parse_dt_opt_def parse_dt_def str_tuple_def py_str_def dt_less_def)
qed

section \<open>The JSON form\<close>

definition charter_wf :: "charter \<Rightarrow> bool" where
  "charter_wf c = (opt_ok (ch_project c) \<and> ch_version c \<noteq> [] \<and> ch_policy c \<noteq> [] \<and> ch_status c \<noteq> []
     \<and> ch_schema c \<noteq> [] \<and> cc_currency (ch_caps c) \<noteq> [] \<and> cc_spend (ch_caps c) \<in> set SPEND_ENFORCEMENT
     \<and> sorted_set (ch_capabilities c) = ch_capabilities c \<and> sorted_set (ch_confirm c) = ch_confirm c
     \<and> utc_ok (ch_approved_at c) \<and> utc_ok (ch_expires_at c) \<and> utc_opt_ok (ch_revoked_at c))"

lemma iter_strs_list [simp]: "iter_strs (str_list xs) = Ok xs"
  by (simp add: iter_strs_def py_iter_def str_list_def comp_def)

lemma str_tuple_list [simp]: "str_tuple (str_list xs) = Ok xs"
  using iter_strs_list [of xs] by (simp add: str_tuple_def str_list_def)

lemma runtime_allowlist_list:
  "runtime_allowlist (PList (map (\<lambda>(a, b, d). str_list [a, b, d]) rs)) = Ok rs"
proof -
  have "res_map runtime_entry (map (\<lambda>(a, b, d). str_list [a, b, d]) rs) = Ok (map (\<lambda>r. [r]) rs)"
    by (induction rs) (auto simp: runtime_entry_def)
  moreover have "concat (map (\<lambda>r. [r]) rs) = rs" by (induction rs) simp_all
  ultimately show ?thesis by (simp add: runtime_allowlist_def json_list_def)
qed

lemma tier_literal_str: "charter_tier_literal (PStr (tier_str t)) = t"
proof -
  have "list_all (\<lambda>t. charter_tier_literal (PStr (tier_str t)) = t) [OS_SANDBOX, CONTAINER, ADVISORY]" by code_simp
  then show ?thesis by (cases t) simp_all
qed

lemma egress_literal_str: "egress_literal (PStr (egress_str e)) = e"
proof -
  have "list_all (\<lambda>e. egress_literal (PStr (egress_str e)) = e) [DENY_ALL, HTTPS_ONLY]" by code_simp
  then show ?thesis by (cases e) simp_all
qed

lemma spend_literal_str: "s \<in> set SPEND_ENFORCEMENT \<Longrightarrow> spend_enforcement_literal (PStr s) = s"
proof -
  have "list_all (\<lambda>s. spend_enforcement_literal (PStr s) = s) SPEND_ENFORCEMENT" by code_simp
  then show "s \<in> set SPEND_ENFORCEMENT \<Longrightarrow> spend_enforcement_literal (PStr s) = s" by (simp add: list_all_iff)
qed

text \<open>
  The charter's JSON form (charter.py, resolved_charter_to_json and resolved_charter_from_json): a charter
  with UTC dates and non-empty labels is recovered field by field from what was written.
\<close>

theorem charter_json_roundtrip:
  assumes "charter_wf c"
  shows "resolved_charter_from_json (resolved_charter_to_json c) = Ok c"
proof -
  let ?m = "resolved_charter_to_json c"
  have caps: "dict_of (py_get ?m ''caps'') = Ok (caps_to_json (ch_caps c))"
    by (simp add: resolved_charter_to_json_def dict_of_def truthy_def caps_to_json_def)
  have ints: "int_key (caps_to_json (ch_caps c)) ''max_attempts'' 3 = Ok (cc_attempts (ch_caps c))"
    "int_key (caps_to_json (ch_caps c)) ''max_concurrent_dispatches'' 1 = Ok (cc_concurrent (ch_caps c))"
    "int_key (caps_to_json (ch_caps c)) ''max_wall_seconds'' 1800 = Ok (cc_wall (ch_caps c))"
    "int_key (caps_to_json (ch_caps c)) ''budget_minor_units'' 0 = Ok (cc_budget (ch_caps c))"
    by (simp_all add: int_key_def caps_to_json_def py_int_of_def)
  have labels: "str_or (py_get (caps_to_json (ch_caps c)) ''budget_currency'') ''USD'' = cc_currency (ch_caps c)"
    "spend_enforcement_literal (py_get (caps_to_json (ch_caps c)) ''spend_enforcement'') = cc_spend (ch_caps c)"
    using assms by (simp_all add: charter_wf_def caps_to_json_def spend_literal_str)
  have dates: "parse_dt (PStr (isoformat (ch_approved_at c))) = Ok (ch_approved_at c)"
    "parse_dt (PStr (isoformat (ch_expires_at c))) = Ok (ch_expires_at c)"
    "parse_dt_opt (opt_py (\<lambda>d. PStr (isoformat d)) (ch_revoked_at c)) = Ok (ch_revoked_at c)"
    using assms by (simp_all add: charter_wf_def parse_dt_iso parse_dt_opt_iso)
  show ?thesis
    unfolding resolved_charter_from_json_def caps res_bind_simps ints labels
    using assms dates
    by (simp add: resolved_charter_to_json_def charter_wf_def runtime_allowlist_list tier_literal_str egress_literal_str
        opt_str_opt_py truthy_def)
qed

definition sample_charter :: charter where
  "sample_charter = \<lparr>ch_id = ''c1'', ch_workspace = ''W'', ch_owner = ''O'', ch_project = None, ch_version = ''v1'',
     ch_policy = ''p'', ch_status = ''active'', ch_tier = OS_SANDBOX, ch_roots = [''src''], ch_protected = [''tests/''],
     ch_denied = [''~/.ssh''], ch_capabilities = [''git.write''], ch_confirm = [], ch_egress = DENY_ALL,
     ch_runtimes = [(''claude'', ''1'', ''claude/stream'')],
     ch_caps = \<lparr>cc_attempts = 3, cc_concurrent = 1, cc_wall = 60, cc_budget = 100, cc_currency = ''USD'',
       cc_spend = ''estimated''\<rparr>,
     ch_approved_by = ''O'', ch_approved_at = Aware 5 0, ch_expires_at = Aware 9 0, ch_revoked_at = None,
     ch_narrowings = [], ch_digest = ''d'', ch_schema = ''v1'', ch_risk_ack = True\<rparr>"

theorem charter_json_roundtrip_witness:
  "resolved_charter_from_json (resolved_charter_to_json sample_charter) = Ok sample_charter"
  by (rule charter_json_roundtrip)
    (simp add: sample_charter_def charter_wf_def opt_ok_def SPEND_ENFORCEMENT_def sorted_set_def utc_ok_def utc_opt_ok_def
      in_range_def MIN_T_def MAX_T_def)

end
