(* ===== verification/Lite_Db.thy ===== *)
theory Lite_Db
  imports Task_Json
begin

text \<open>
  What the Lite stores share: text columns that hold timestamps, the permit row, and the write-locked
  section of \<open>services/tce_lite_api/tce_lite_api/task_state_store.py\<close>.  A table is the list of its
  rows in insertion order.  A column that holds JSON is given by the value its text parses to.
\<close>

section \<open>Columns\<close>

text \<open>\<open>_parse_dt(value)\<close>: an empty or unreadable text reads as no timestamp.\<close>

definition parse_dt_column :: "pystr option \<Rightarrow> datetime option" where
  "parse_dt_column v = (case v of None \<Rightarrow> None
     | Some s \<Rightarrow> if s = [] then None else map_option aware (fromisoformat s))"

text \<open>\<open>d.astimezone(UTC).isoformat()\<close>.\<close>

definition utc_text :: "datetime \<Rightarrow> pystr" where
  "utc_text d = isoformat (to_utc d)"

text \<open>\<open>str(x) if x else None\<close> on a nullable text column.\<close>

definition text_or_none :: "pystr option \<Rightarrow> pystr option" where
  "text_or_none x = (case x of None \<Rightarrow> None | Some s \<Rightarrow> or_none s)"

lemma text_or_none_simps [simp]: "text_or_none None = None" "text_or_none (Some s) = or_none s"
  by (simp_all add: text_or_none_def)

lemma text_or_none_ok: "opt_ok x \<Longrightarrow> text_or_none x = x"
  by (cases x) (auto simp: opt_ok_def or_none_def)

lemma utc_text_nonempty [simp]: "utc_text d \<noteq> []"
  using isoformat_not_blank [of "instant d"] by (auto simp: utc_text_def to_utc_def)

lemma parse_utc_text: "utc_ok d \<Longrightarrow> parse_dt_column (Some (utc_text d)) = Some d"
  using iso_roundtrip [of "instant d"] utc_text_nonempty [of d]
  by (cases d) (auto simp: parse_dt_column_def utc_ok_def utc_text_def to_utc_def)

section \<open>Permits\<close>

record permit_row =
  pm_id :: pystr
  pm_workspace :: pystr
  pm_session :: pystr
  pm_charter :: "pystr option"
  pm_decision :: pystr
  pm_reason :: pystr
  pm_expires :: "pystr option"
  pm_resolved :: "pystr option"

section \<open>The write-locked section\<close>

text \<open>
  The section's body runs on the database under the write lock, so no other connection commits while it
  runs; an error rolls the whole section back.  \<open>Operational\<close> is \<open>sqlite3.OperationalError\<close> with
  its message.  The body is given the number of the attempt, as a second run may meet another database.
\<close>

datatype 'e section_error = Operational pystr | Raised 'e

definition RETRYABLE_CAS_TOKENS :: "pystr list" where
  "RETRYABLE_CAS_TOKENS = [''database is locked'', ''database table is locked'', ''busy'']"

definition is_retryable_cas_error :: "'e section_error \<Rightarrow> bool" where
  "is_retryable_cas_error e = (case e of
       Operational msg \<Rightarrow> list_ex (\<lambda>t. py_contains t (py_lower (py_strip msg))) RETRYABLE_CAS_TOKENS
     | Raised _ \<Rightarrow> False)"

definition end_section :: "'d \<Rightarrow> ('e, 'a \<times> 'd) result \<Rightarrow> ('e, 'a) result \<times> 'd" where
  "end_section db r = (case r of Inl e \<Rightarrow> (Err e, db) | Inr (x, db') \<Rightarrow> (Ok x, db'))"

definition run_cas_section ::
  "'d \<Rightarrow> (nat \<Rightarrow> 'd \<Rightarrow> ('e section_error, 'a \<times> 'd) result) \<Rightarrow> ('e section_error, 'a) result \<times> 'd" where
  "run_cas_section db fn = (case fn 1 db of
       Inl e \<Rightarrow> if is_retryable_cas_error e then end_section db (fn 2 db) else (Err e, db)
     | Inr (x, db') \<Rightarrow> (Ok x, db'))"

lemma run_cas_section_atomic:
  "run_cas_section db fn = (r, db') \<Longrightarrow>
    (\<exists>e. r = Err e \<and> db' = db) \<or> (\<exists>n x. r = Ok x \<and> n \<in> {1, 2} \<and> fn n db = Ok (x, db'))"
  by (auto simp: run_cas_section_def end_section_def split: sum.splits prod.splits if_splits)

end
