(* ===== verification/Charter_Store.thy ===== *)
theory Charter_Store
  imports Charter_Facts Lite_Db
begin

text \<open>
  \<open>services/tce_lite_api/tce_lite_api/charter_store.py\<close>: creating, approving, revoking and narrowing a
  charter, and resolving the active one.  Of a row of \<open>authority_charters\<close> the columns that change are
  fields, the others, which no statement updates, are the list \<open>cw_terms\<close>.  Random ids are arguments.
\<close>

section \<open>Tables\<close>

record charter_row =
  cw_id :: pystr
  cw_workspace :: pystr
  cw_owner :: pystr
  cw_status :: pystr
  cw_approved_by :: "pystr option"
  cw_approved_at :: "pystr option"
  cw_created_at :: pystr
  cw_expires_at :: pystr
  cw_revoked_at :: "pystr option"
  cw_revoke_reason :: "pystr option"
  cw_superseded_by :: "pystr option"
  cw_terms :: "(pystr \<times> py) list"

record narrowing_row =
  nr_id :: pystr
  nr_charter :: pystr
  nr_workspace :: pystr
  nr_owner :: pystr
  nr_session :: pystr
  nr_receipt :: pystr
  nr_narrowing :: "(pystr \<times> py) list"
  nr_created_at :: pystr
  nr_expires_at :: "pystr option"

record receipt_row =
  rr_id :: pystr
  rr_workspace :: pystr
  rr_owner :: pystr
  rr_subject :: pystr

record charter_db =
  cdb_charters :: "charter_row list"
  cdb_narrowings :: "narrowing_row list"
  cdb_receipts :: "receipt_row list"
  cdb_permits :: "permit_row list"

record auth_context =
  au_workspace :: pystr
  au_user :: pystr
  au_subject :: pystr

datatype charter_fault = Invalid charter_error | CharterNotFound | CharterNotDraft pystr | ReceiptNotFound
  | BadRow value_error | DuplicateId | Refused charter_required

text \<open>The row as the mapping \<open>_row_map\<close> hands to \<open>charter_from_row\<close>.\<close>

definition row_map :: "charter_row \<Rightarrow> (pystr \<times> py) list" where
  "row_map r = [(''id'', PStr (cw_id r)), (''workspace_id'', PStr (cw_workspace r)), (''owner_id'', PStr (cw_owner r)),
     (''status'', PStr (cw_status r)), (''approved_by'', opt_py PStr (cw_approved_by r)),
     (''approved_at'', opt_py PStr (cw_approved_at r)), (''created_at'', PStr (cw_created_at r)),
     (''expires_at'', PStr (cw_expires_at r)), (''revoked_at'', opt_py PStr (cw_revoked_at r)),
     (''revoke_reason'', opt_py PStr (cw_revoke_reason r)), (''superseded_by'', opt_py PStr (cw_superseded_by r))]
     @ cw_terms r"

definition narrowing_map :: "narrowing_row \<Rightarrow> (pystr \<times> py) list" where
  "narrowing_map n = [(''id'', PStr (nr_id n)), (''narrowing_json'', PDict (nr_narrowing n)),
     (''created_at'', PStr (nr_created_at n)), (''expires_at'', opt_py PStr (nr_expires_at n))]"

section \<open>Reads\<close>

definition require_receipt :: "charter_db \<Rightarrow> auth_context \<Rightarrow> pystr \<Rightarrow> (charter_fault, unit) result" where
  "require_receipt db auth receipt_id =
     guard (list_ex (\<lambda>r. rr_id r = receipt_id \<and> rr_workspace r = au_workspace auth
       \<and> (rr_owner r = au_user auth \<or> rr_subject r = au_user auth \<or> rr_subject r = au_subject auth)) (cdb_receipts db))
       ReceiptNotFound"

definition load_row :: "charter_db \<Rightarrow> pystr \<Rightarrow> pystr \<Rightarrow> charter_row option" where
  "load_row db w charter_id = find (\<lambda>r. cw_id r = charter_id \<and> cw_workspace r = w) (cdb_charters db)"

text \<open>\<open>expires_at IS NULL OR expires_at > ?\<close> compares the column's text with that of now.\<close>

definition narrowing_live :: "pystr \<Rightarrow> datetime \<Rightarrow> narrowing_row \<Rightarrow> bool" where
  "narrowing_live charter_id now n = (nr_charter n = charter_id
     \<and> (case nr_expires_at n of None \<Rightarrow> True | Some x \<Rightarrow> isoformat now < x))"

definition load_narrowings :: "charter_db \<Rightarrow> pystr \<Rightarrow> datetime \<Rightarrow> (pystr \<times> py) list list" where
  "load_narrowings db charter_id now =
     map narrowing_map (sort_key nr_created_at (filter (narrowing_live charter_id now) (cdb_narrowings db)))"

definition resolve :: "charter_row \<Rightarrow> (pystr \<times> py) list list \<Rightarrow> (charter_fault, charter) result" where
  "resolve row narrowings = map_error BadRow (charter_from_row (row_map row) narrowings)"

text \<open>What \<open>_charter_response\<close> reports: the resolved charter, and the row whose columns it repeats.\<close>

type_synonym charter_response = "charter \<times> charter_row"

definition charter_response :: "charter_row \<Rightarrow> (pystr \<times> py) list list \<Rightarrow> (charter_fault, charter_response) result" where
  "charter_response row narrowings = res_bind (resolve row narrowings) (\<lambda>c. Ok (c, row))"

section \<open>Creation\<close>

record charter_settings =
  se_default_ttl :: int
  se_min_ttl :: int
  se_max_ttl :: int
  se_enforcement :: bool

definition dt_plus_seconds :: "datetime \<Rightarrow> int \<Rightarrow> datetime" where
  "dt_plus_seconds d s = (case d of Naive t \<Rightarrow> Naive (t + s * 1000000) | Aware t off \<Rightarrow> Aware (t + s * 1000000) off)"

definition charter_terms :: "(pystr \<times> py) list \<Rightarrow> pystr \<Rightarrow> (pystr \<times> py) list" where
  "charter_terms n receipt_id =
     (let caps = payload_mapping (py_get n ''caps'') in
     [(''project_id'', py_get n ''project_id''), (''charter_version'', py_get n ''charter_version''),
      (''policy_revision'', py_get n ''policy_revision''), (''enforcement_tier'', py_get n ''enforcement_tier''),
      (''credential_risk_acknowledged'', PInt (if truthy (py_get n ''credential_risk_acknowledged'') then 1 else 0)),
      (''source_receipt_id'', PStr receipt_id), (''permitted_roots_json'', py_get n ''permitted_roots''),
      (''protected_write_prefixes_json'', py_get n ''protected_write_prefixes''),
      (''denied_read_paths_json'', py_get n ''denied_read_paths''),
      (''permitted_capabilities_json'', py_get n ''permitted_capabilities''),
      (''confirm_required_capabilities_json'', py_get n ''confirm_required_capabilities''),
      (''egress_mode'', py_get n ''egress_mode''), (''runtime_allowlist_json'', py_get n ''runtime_allowlist''),
      (''task_families_json'', py_get n ''task_families''), (''max_attempts'', py_get caps ''max_attempts''),
      (''max_concurrent_dispatches'', py_get caps ''max_concurrent_dispatches''),
      (''max_wall_seconds'', py_get caps ''max_wall_seconds''),
      (''budget_minor_units'', py_get caps ''budget_minor_units''),
      (''budget_currency'', py_get caps ''budget_currency''), (''spend_enforcement'', py_get caps ''spend_enforcement''),
      (''charter_digest'', py_get n ''charter_digest''), (''schema_version'', PStr ''v1'')])"

definition draft_row :: "pystr \<Rightarrow> auth_context \<Rightarrow> (pystr \<times> py) list \<Rightarrow> pystr \<Rightarrow> int \<Rightarrow> datetime \<Rightarrow> charter_row" where
  "draft_row uuid auth n receipt_id ttl now =
     \<lparr>cw_id = uuid, cw_workspace = au_workspace auth, cw_owner = au_user auth, cw_status = ''draft'',
      cw_approved_by = None, cw_approved_at = None, cw_created_at = isoformat now,
      cw_expires_at = isoformat (dt_plus_seconds now ttl), cw_revoked_at = None, cw_revoke_reason = None,
      cw_superseded_by = None, cw_terms = charter_terms n receipt_id\<rparr>"

definition insert_charter :: "charter_row \<Rightarrow> charter_db \<Rightarrow> (charter_fault, charter_db) result" where
  "insert_charter row db = (if list_ex (\<lambda>r. cw_id r = cw_id row) (cdb_charters db) then Err DuplicateId
     else Ok (db\<lparr>cdb_charters := cdb_charters db @ [row]\<rparr>))"

definition create_charter ::
  "charter_settings \<Rightarrow> pystr \<Rightarrow> auth_context \<Rightarrow> (pystr \<times> py) list \<Rightarrow> int option \<Rightarrow> pystr \<Rightarrow> datetime \<Rightarrow> charter_db
    \<Rightarrow> (charter_fault, charter_response \<times> charter_db) result" where
  "create_charter se uuid auth body ttl_seconds receipt_id now db =
     res_bind (map_error Invalid (validate_charter_payload body)) (\<lambda>n.
     let ttl = (case ttl_seconds of None \<Rightarrow> se_default_ttl se | Some s \<Rightarrow> s) in
     if ttl < se_min_ttl se
     then Err (Invalid (CharterInvalid ''ttl_seconds'' (''ttl_seconds must be >= '' @ str_int (se_min_ttl se))))
     else if se_max_ttl se < ttl
     then Err (Invalid (CharterInvalid ''ttl_seconds'' (''ttl_seconds must be <= '' @ str_int (se_max_ttl se))))
     else res_bind (require_receipt db auth receipt_id) (\<lambda>_.
     let row = draft_row uuid auth n receipt_id ttl now in
     res_bind (insert_charter row db) (\<lambda>db'.
     res_bind (charter_response row []) (\<lambda>resp. Ok (resp, db')))))"

section \<open>Approval, revocation, narrowing\<close>

definition status_of_row :: "charter_row \<Rightarrow> pystr" where
  "status_of_row r = or_else (cw_status r) ''draft''"

definition supersede :: "pystr \<Rightarrow> charter_row \<Rightarrow> charter_row \<Rightarrow> charter_row" where
  "supersede w approved r =
     (if cw_workspace r = w \<and> cw_owner r = cw_owner approved \<and> cw_status r = ''active'' \<and> cw_id r \<noteq> cw_id approved
      then r\<lparr>cw_status := ''superseded'', cw_superseded_by := Some (cw_id approved)\<rparr> else r)"

definition activate :: "pystr \<Rightarrow> pystr \<Rightarrow> pystr \<Rightarrow> datetime \<Rightarrow> charter_row \<Rightarrow> charter_row" where
  "activate w charter_id user now r =
     (if cw_id r = charter_id \<and> cw_workspace r = w \<and> cw_status r = ''draft''
      then r\<lparr>cw_status := ''active'', cw_approved_by := Some user, cw_approved_at := Some (isoformat now)\<rparr> else r)"

definition reply :: "charter_db \<Rightarrow> pystr \<Rightarrow> pystr \<Rightarrow> datetime \<Rightarrow> (charter_fault, charter_response \<times> charter_db) result" where
  "reply db w charter_id now = (case load_row db w charter_id of
       None \<Rightarrow> Err CharterNotFound
     | Some fresh \<Rightarrow> res_bind (charter_response fresh (load_narrowings db charter_id now)) (\<lambda>resp. Ok (resp, db)))"

definition approve_charter ::
  "auth_context \<Rightarrow> pystr \<Rightarrow> datetime \<Rightarrow> charter_db \<Rightarrow> (charter_fault, charter_response \<times> charter_db) result" where
  "approve_charter auth charter_id now db =
     (let w = au_workspace auth in
      case load_row db w charter_id of
        None \<Rightarrow> Err CharterNotFound
      | Some row \<Rightarrow>
          if status_of_row row = ''active'' then reply db w charter_id now
          else if status_of_row row \<noteq> ''draft'' then Err (CharterNotDraft (status_of_row row))
          else reply (db\<lparr>cdb_charters := map (activate w charter_id (au_user auth) now)
                 (map (supersede w row) (cdb_charters db))\<rparr>) w charter_id now)"

definition revoke_row :: "pystr \<Rightarrow> pystr \<Rightarrow> pystr \<Rightarrow> datetime \<Rightarrow> charter_row \<Rightarrow> charter_row" where
  "revoke_row w charter_id reason now r =
     (if cw_id r = charter_id \<and> cw_workspace r = w
      then r\<lparr>cw_status := ''revoked'', cw_revoked_at := Some (case cw_revoked_at r of None \<Rightarrow> isoformat now | Some x \<Rightarrow> x),
        cw_revoke_reason := Some reason\<rparr> else r)"

definition permit_under :: "pystr \<Rightarrow> permit_row \<Rightarrow> bool" where
  "permit_under charter_id p = (pm_charter p = Some charter_id \<and> pm_decision p = ''allow'' \<and> pm_resolved p = None)"

definition block_permit :: "pystr \<Rightarrow> permit_row \<Rightarrow> permit_row" where
  "block_permit stamp p = p\<lparr>pm_decision := ''blocked'', pm_reason := ''charter_revoked'', pm_resolved := Some stamp\<rparr>"

definition revoke_charter ::
  "auth_context \<Rightarrow> pystr \<Rightarrow> pystr \<Rightarrow> datetime \<Rightarrow> charter_db \<Rightarrow> (charter_fault, charter_response \<times> charter_db) result" where
  "revoke_charter auth charter_id reason now db =
     (let w = au_workspace auth in
      case load_row db w charter_id of
        None \<Rightarrow> Err CharterNotFound
      | Some _ \<Rightarrow> reply (db\<lparr>cdb_charters := map (revoke_row w charter_id reason now) (cdb_charters db),
          cdb_permits := map (\<lambda>p. if permit_under charter_id p then block_permit (isoformat now) p else p)
            (cdb_permits db)\<rparr>) w charter_id now)"

record narrowing_body =
  nb_charter :: pystr
  nb_session :: pystr
  nb_receipt :: pystr
  nb_remove_roots :: "pystr list"
  nb_remove_capabilities :: "pystr list"
  nb_prefixes :: "pystr list"
  nb_denied :: "pystr list"
  nb_tier :: "pystr option"
  nb_egress :: "pystr option"
  nb_budget :: "int option"
  nb_attempts :: "int option"
  nb_wall :: "int option"
  nb_concurrent :: "int option"
  nb_expires :: "datetime option"
  nb_reason :: pystr

definition narrowing_of :: "narrowing_body \<Rightarrow> (pystr \<times> py) list" where
  "narrowing_of b =
     [(''remove_roots'', str_list (nb_remove_roots b)), (''remove_capabilities'', str_list (nb_remove_capabilities b)),
      (''add_protected_write_prefixes'', str_list (nb_prefixes b)), (''add_denied_read_paths'', str_list (nb_denied b)),
      (''enforcement_tier'', opt_py PStr (nb_tier b)), (''egress_mode'', opt_py PStr (nb_egress b)),
      (''budget_minor_units'', opt_py PInt (nb_budget b)), (''max_attempts'', opt_py PInt (nb_attempts b)),
      (''max_wall_seconds'', opt_py PInt (nb_wall b)), (''max_concurrent_dispatches'', opt_py PInt (nb_concurrent b)),
      (''reason'', PStr (nb_reason b))]"

definition new_narrowing :: "pystr \<Rightarrow> auth_context \<Rightarrow> narrowing_body \<Rightarrow> charter_row \<Rightarrow> datetime \<Rightarrow> narrowing_row" where
  "new_narrowing uuid auth b row now =
     \<lparr>nr_id = uuid, nr_charter = nb_charter b, nr_workspace = au_workspace auth, nr_owner = au_user auth,
      nr_session = or_else (nb_session b) ''default'', nr_receipt = nb_receipt b, nr_narrowing = narrowing_of b,
      nr_created_at = isoformat now,
      nr_expires_at = (case nb_expires b of Some d \<Rightarrow> Some (isoformat d) | None \<Rightarrow> or_none (cw_expires_at row))\<rparr>"

definition insert_narrowing :: "narrowing_row \<Rightarrow> charter_db \<Rightarrow> (charter_fault, charter_db) result" where
  "insert_narrowing n db = (if list_ex (\<lambda>m. nr_id m = nr_id n) (cdb_narrowings db) then Err DuplicateId
     else Ok (db\<lparr>cdb_narrowings := cdb_narrowings db @ [n]\<rparr>))"

definition apply_narrowing ::
  "pystr \<Rightarrow> auth_context \<Rightarrow> narrowing_body \<Rightarrow> datetime \<Rightarrow> charter_db \<Rightarrow> (charter_fault, charter_response \<times> charter_db) result" where
  "apply_narrowing uuid auth b now db =
     (let w = au_workspace auth in
      case load_row db w (nb_charter b) of
        None \<Rightarrow> Err CharterNotFound
      | Some row \<Rightarrow>
          res_bind (require_receipt db auth (nb_receipt b)) (\<lambda>_.
          res_bind (insert_narrowing (new_narrowing uuid auth b row now) db) (\<lambda>db'.
          reply db' w (nb_charter b) now)))"

section \<open>Resolution\<close>

definition charter_live :: "pystr \<Rightarrow> pystr \<Rightarrow> datetime \<Rightarrow> charter_row \<Rightarrow> bool" where
  "charter_live w ow now r = (cw_workspace r = w \<and> cw_owner r = ow \<and> cw_status r = ''active'' \<and> cw_revoked_at r = None
     \<and> isoformat now < cw_expires_at r)"

text \<open>\<open>ORDER BY approved_at DESC LIMIT 1\<close>; a missing \<open>approved_at\<close> sorts last.\<close>

definition approved_after :: "charter_row \<Rightarrow> charter_row \<Rightarrow> bool" where
  "approved_after a b = (case (cw_approved_at a, cw_approved_at b) of
     (None, _) \<Rightarrow> False | (Some _, None) \<Rightarrow> True | (Some x, Some y) \<Rightarrow> y < x)"

definition newest :: "charter_row list \<Rightarrow> charter_row option" where
  "newest rows = fold (\<lambda>r best. case best of None \<Rightarrow> Some r | Some b \<Rightarrow> if approved_after r b then Some r else best) rows None"

definition load_active_charter ::
  "charter_db \<Rightarrow> pystr \<Rightarrow> pystr \<Rightarrow> datetime \<Rightarrow> (charter_fault, charter option) result" where
  "load_active_charter db w ow now = (case newest (filter (charter_live w ow now) (cdb_charters db)) of
       None \<Rightarrow> Ok None
     | Some r \<Rightarrow> res_bind (resolve r (load_narrowings db (cw_id r) now)) (\<lambda>c. Ok (Some c)))"

definition resolve_charter_or_refuse ::
  "charter_settings \<Rightarrow> charter_db \<Rightarrow> auth_context \<Rightarrow> pystr \<Rightarrow> datetime \<Rightarrow> (charter_fault, charter option) result" where
  "resolve_charter_or_refuse se db auth action_kind now =
     res_bind (load_active_charter db (au_workspace auth) (au_user auth) now) (\<lambda>charter.
     res_bind (map_error Refused (require_charter_for_action charter action_kind (se_enforcement se) now)) (\<lambda>_. Ok charter))"

definition load_charter_by_id :: "charter_db \<Rightarrow> pystr \<Rightarrow> pystr \<Rightarrow> (charter_fault, charter option) result" where
  "load_charter_by_id db w charter_id = (case load_row db w charter_id of
       None \<Rightarrow> Ok None | Some r \<Rightarrow> res_bind (resolve r []) (\<lambda>c. Ok (Some c)))"

text \<open>One committed section of a serving process.\<close>

inductive charter_step :: "charter_db \<Rightarrow> charter_db \<Rightarrow> bool" where
  create: "create_charter se uuid auth body ttl receipt_id now db = Ok (resp, db') \<Longrightarrow> charter_step db db'"
| approve: "approve_charter auth charter_id now db = Ok (resp, db') \<Longrightarrow> charter_step db db'"
| revoke: "revoke_charter auth charter_id reason now db = Ok (resp, db') \<Longrightarrow> charter_step db db'"
| narrow: "apply_narrowing uuid auth b now db = Ok (resp, db') \<Longrightarrow> charter_step db db'"

end
