(* ===== verification/Charter_Store_Facts.thy ===== *)
theory Charter_Store_Facts
  imports Charter_Store
begin

text \<open>
  What the charter store promises in every run of its sections: at most one active charter per owner, no
  way back from superseded or revoked, terms that never change, and no mutating action without a live grant.
\<close>

section \<open>Runs of the store\<close>

definition same_scope :: "charter_row \<Rightarrow> charter_row \<Rightarrow> bool" where
  "same_scope r s = (cw_workspace r = cw_workspace s \<and> cw_owner r = cw_owner s)"

definition charter_ok :: "charter_db \<Rightarrow> bool" where
  "charter_ok db = (distinct (map cw_id (cdb_charters db))
     \<and> (\<forall>r \<in> set (cdb_charters db). \<forall>s \<in> set (cdb_charters db).
          cw_status r = ''active'' \<and> cw_status s = ''active'' \<and> same_scope r s \<longrightarrow> r = s)
     \<and> (\<forall>r \<in> set (cdb_charters db). cw_revoked_at r \<noteq> None \<longleftrightarrow> cw_status r = ''revoked''))"

text \<open>The moves of a status along a run.\<close>

definition status_after :: "pystr \<Rightarrow> pystr \<Rightarrow> bool" where
  "status_after a b = (b = a \<or> b = ''revoked''
     \<or> (a = ''draft'' \<and> b \<in> {''active'', ''superseded''}) \<or> (a = ''active'' \<and> b = ''superseded''))"

definition row_after :: "charter_row \<Rightarrow> charter_row \<Rightarrow> bool" where
  "row_after r s = (cw_id s = cw_id r \<and> same_scope r s \<and> cw_created_at s = cw_created_at r
     \<and> cw_expires_at s = cw_expires_at r \<and> cw_terms s = cw_terms r \<and> status_after (cw_status r) (cw_status s)
     \<and> (cw_revoked_at r \<noteq> None \<longrightarrow> cw_revoked_at s = cw_revoked_at r))"

definition charters_after :: "charter_db \<Rightarrow> charter_db \<Rightarrow> bool" where
  "charters_after db db' = (\<forall>r \<in> set (cdb_charters db). \<exists>s \<in> set (cdb_charters db'). row_after r s)"

lemma status_after_refl [simp]: "status_after a a"
  by (simp add: status_after_def)

lemma status_after_trans: "status_after a b \<Longrightarrow> status_after b c \<Longrightarrow> status_after a c"
  by (auto simp: status_after_def)

lemma row_after_refl [simp]: "row_after r r"
  by (simp add: row_after_def same_scope_def)

lemma row_after_trans: "row_after r s \<Longrightarrow> row_after s t \<Longrightarrow> row_after r t"
  unfolding row_after_def same_scope_def by (auto intro: status_after_trans)

lemma charters_after_sub: "set (cdb_charters db) \<subseteq> set (cdb_charters db') \<Longrightarrow> charters_after db db'"
  unfolding charters_after_def using row_after_refl by (meson subsetD)

lemma charters_after_refl: "charters_after db db"
  by (rule charters_after_sub) simp

lemma charters_after_trans: "charters_after a b \<Longrightarrow> charters_after b c \<Longrightarrow> charters_after a c"
  unfolding charters_after_def by (meson row_after_trans)

lemma charters_after_map:
  assumes "\<And>r. r \<in> set (cdb_charters db) \<Longrightarrow> row_after r (f r)" "cdb_charters db' = map f (cdb_charters db)"
  shows "charters_after db db'"
  using assms by (auto simp: charters_after_def)

lemma reply_Ok: "reply db w charter_id now = Ok (resp, db') \<Longrightarrow> db' = db"
  by (auto simp: reply_def res_bind_Ok_iff split: option.splits)

lemma load_row_Some: "load_row db w i = Some r \<Longrightarrow> r \<in> set (cdb_charters db) \<and> cw_id r = i \<and> cw_workspace r = w"
  by (auto simp: load_row_def find_Some_iff)

section \<open>Each operation\<close>

lemma supersede_after [simp]: "row_after r (supersede w row r)"
  by (auto simp: supersede_def row_after_def same_scope_def status_after_def)

lemma activate_after [simp]: "row_after r (activate w i user now r)"
  by (auto simp: activate_def row_after_def same_scope_def status_after_def)

lemma revoke_after [simp]: "row_after r (revoke_row w i reason now r)"
  by (auto simp: revoke_row_def row_after_def same_scope_def status_after_def)

lemma after_frame [simp]:
  "cw_id (supersede w row r) = cw_id r" "cw_id (activate w i user now r) = cw_id r" "cw_id (revoke_row w i reason now r) = cw_id r"
  "same_scope (supersede w row r) s = same_scope r s" "same_scope (activate w i user now r) s = same_scope r s"
  "same_scope (revoke_row w i reason now r) s = same_scope r s"
  "same_scope s (supersede w row r) = same_scope s r" "same_scope s (activate w i user now r) = same_scope s r"
  "same_scope s (revoke_row w i reason now r) = same_scope s r"
  by (simp_all add: supersede_def activate_def revoke_row_def same_scope_def)

lemma supersede_active: "cw_status (supersede w row r) = ''active'' \<Longrightarrow> cw_status r = ''active'' \<and> supersede w row r = r
    \<and> (cw_id r = cw_id row \<or> \<not> (cw_workspace r = w \<and> cw_owner r = cw_owner row))"
  by (auto simp: supersede_def split: if_split_asm)

lemma activate_active:
  "cw_status (activate w i user now r) = ''active'' \<Longrightarrow>
    (cw_id r = i \<and> cw_workspace r = w) \<or> (cw_status r = ''active'' \<and> activate w i user now r = r)"
  by (auto simp: activate_def split: if_split_asm)

lemma distinct_id: "distinct (map cw_id xs) \<Longrightarrow> r \<in> set xs \<Longrightarrow> s \<in> set xs \<Longrightarrow> cw_id r = cw_id s \<Longrightarrow> r = s"
  by (auto simp: distinct_map inj_on_def)

text \<open>Approving a row leaves at most one active charter in its scope.\<close>

lemma approve_ok:
  assumes ok: "charter_ok db" and row: "load_row db w i = Some row"
    and db': "cdb_charters db' = map (activate w i user now) (map (supersede w row) (cdb_charters db))"
  shows "charter_ok db' \<and> charters_after db db'"
proof
  let ?f = "\<lambda>r. activate w i user now (supersede w row r)"
  note ld = load_row_Some [OF row]
  have ids: "distinct (map cw_id (cdb_charters db))" using ok by (simp add: charter_ok_def)
  show "charters_after db db'"
    by (rule charters_after_map [where f = ?f]) (auto simp: db' intro: row_after_trans [OF supersede_after activate_after])
  show "charter_ok db'"
    unfolding charter_ok_def
  proof (intro conjI ballI impI)
    show "distinct (map cw_id (cdb_charters db'))" using ids by (simp add: db' comp_def)
    fix r' s' assume "r' \<in> set (cdb_charters db')" "s' \<in> set (cdb_charters db')"
      and act: "cw_status r' = ''active'' \<and> cw_status s' = ''active'' \<and> same_scope r' s'"
    then obtain r s where r: "r \<in> set (cdb_charters db)" "r' = ?f r" and s: "s \<in> set (cdb_charters db)" "s' = ?f s"
      by (auto simp: db')
    have cases: "x = row \<or> (cw_status x = ''active'' \<and> \<not> same_scope x row)"
      if "x \<in> set (cdb_charters db)" "cw_status (?f x) = ''active''" for x
    proof (cases "cw_id x = i")
      case True
      then show ?thesis using distinct_id [OF ids that(1)] ld by auto
    next
      case False
      then have "cw_status (supersede w row x) = ''active''" using activate_active [OF that(2)] by auto
      from supersede_active [OF this] False ld show ?thesis by (auto simp: same_scope_def)
    qed
    have scope: "same_scope r s" using act r s by simp
    from cases [OF r(1)] cases [OF s(1)] act r s scope ok show "r' = s'"
      unfolding charter_ok_def by (auto simp: same_scope_def)
  next
    fix r'
    assume "r' \<in> set (cdb_charters db')"
    then obtain r where r: "r \<in> set (cdb_charters db)" "r' = ?f r" by (auto simp: db')
    then have "cw_revoked_at r \<noteq> None \<longleftrightarrow> cw_status r = ''revoked''" using ok by (simp add: charter_ok_def)
    then show "cw_revoked_at r' \<noteq> None \<longleftrightarrow> cw_status r' = ''revoked''"
      unfolding r(2) by (auto simp: activate_def supersede_def)
  qed
qed

lemma revoke_ok:
  assumes "charter_ok db" "cdb_charters db' = map (revoke_row w i reason now) (cdb_charters db)"
  shows "charter_ok db' \<and> charters_after db db'"
proof
  show "charters_after db db'" by (rule charters_after_map) (use assms in auto)
  have "cw_status (revoke_row w i reason now r) = ''active'' \<Longrightarrow> cw_status r = ''active'' \<and> revoke_row w i reason now r = r" for r
    by (auto simp: revoke_row_def split: if_split_asm)
  then have "\<forall>r \<in> set (cdb_charters db'). \<forall>s \<in> set (cdb_charters db').
      cw_status r = ''active'' \<and> cw_status s = ''active'' \<and> same_scope r s \<longrightarrow> r = s"
    using assms unfolding charter_ok_def by (simp only: set_map ball_simps) (metis after_frame(6,9))
  moreover have "cw_revoked_at (revoke_row w i reason now r) \<noteq> None \<longleftrightarrow> cw_status (revoke_row w i reason now r) = ''revoked''"
    if "r \<in> set (cdb_charters db)" for r
    using that assms(1) by (simp add: revoke_row_def charter_ok_def)
  moreover have "distinct (map cw_id (cdb_charters db'))" using assms by (simp add: charter_ok_def comp_def)
  ultimately show "charter_ok db'" using assms(2) unfolding charter_ok_def by simp
qed

lemma insert_charter_ok:
  assumes "charter_ok db" "insert_charter row db = Ok db'" "cw_status row = ''draft''" "cw_revoked_at row = None"
  shows "charter_ok db' \<and> charters_after db db'"
proof -
  have new: "\<forall>r \<in> set (cdb_charters db). cw_id r \<noteq> cw_id row" and db': "db' = db\<lparr>cdb_charters := cdb_charters db @ [row]\<rparr>"
    using assms(2) by (auto simp: insert_charter_def list_ex_iff split: if_split_asm)
  have "charter_ok db'" using assms(1,3,4) new unfolding charter_ok_def by (fastforce simp: db')
  moreover have "charters_after db db'" by (rule charters_after_sub) (auto simp: db')
  ultimately show ?thesis ..
qed

lemma same_charters: "cdb_charters db' = cdb_charters db \<Longrightarrow> charter_ok db \<Longrightarrow> charter_ok db' \<and> charters_after db db'"
  using charters_after_sub [of db db'] by (simp add: charter_ok_def)

lemma charter_step_ok: "charter_step db db' \<Longrightarrow> charter_ok db \<Longrightarrow> charter_ok db' \<and> charters_after db db'"
proof (induction rule: charter_step.induct)
  case (create se uuid auth body ttl receipt_id now db resp db')
  then obtain n t where "insert_charter (draft_row uuid auth n receipt_id t now) db = Ok db'"
    by (auto simp: create_charter_def res_bind_Ok_iff Let_def split: if_split_asm)
  then show ?case using insert_charter_ok [OF create.prems] by (simp add: draft_row_def)
next
  case (approve auth charter_id now db resp db')
  show ?case
  proof (cases "load_row db (au_workspace auth) charter_id")
    case (Some row)
    show ?thesis
    proof (cases "db' = db")
      case False
      then have "cdb_charters db' = map (activate (au_workspace auth) charter_id (au_user auth) now)
          (map (supersede (au_workspace auth) row) (cdb_charters db))"
        using approve.hyps Some by (auto simp: approve_charter_def Let_def dest!: reply_Ok split: if_split_asm)
      then show ?thesis by (rule approve_ok [OF approve.prems Some])
    qed (use approve.prems charters_after_refl in simp)
  qed (use approve.hyps in \<open>simp add: approve_charter_def\<close>)
next
  case (revoke auth charter_id reason now db resp db')
  then have "cdb_charters db' = map (revoke_row (au_workspace auth) charter_id reason now) (cdb_charters db)"
    by (auto simp: revoke_charter_def Let_def dest!: reply_Ok split: option.splits)
  then show ?case by (rule revoke_ok [OF revoke.prems])
next
  case (narrow uuid auth b now db resp db')
  then have "cdb_charters db' = cdb_charters db"
    by (auto simp: apply_narrowing_def Let_def res_bind_Ok_iff insert_narrowing_def dest!: reply_Ok
        split: option.splits if_split_asm)
  then show ?case by (rule same_charters [OF _ narrow.prems])
qed



interpretation charters: invariant_step charter_step charter_ok
  by unfold_locales (blast dest: charter_step_ok)

lemma charter_run: "charter_step\<^sup>*\<^sup>* db db' \<Longrightarrow> charter_ok db \<Longrightarrow> charters_after db db'"
  by (rule charters.reach_related [where R = charters_after])
    (use charter_step_ok charters_after_refl charters_after_trans in blast)+

section \<open>What is resolved\<close>

lemma newest_in: "newest rows = Some r \<Longrightarrow> r \<in> set rows"
proof -
  have "fold (\<lambda>r best. case best of None \<Rightarrow> Some r | Some b \<Rightarrow> if approved_after r b then Some r else best) rows x = Some r
    \<Longrightarrow> r \<in> set rows \<or> x = Some r" for x
    by (induction rows arbitrary: x) (auto split: option.splits if_split_asm)
  then show "newest rows = Some r \<Longrightarrow> ?thesis" unfolding newest_def by fastforce
qed


lemma load_activeE:
  assumes "load_active_charter db w ow now = Ok (Some c)"
  obtains r where "r \<in> set (cdb_charters db)" "charter_live w ow now r"
    "resolve r (load_narrowings db (cw_id r) now) = Ok c"
  using assms by (auto simp: load_active_charter_def res_bind_Ok_iff split: option.splits dest!: newest_in)



lemma resolve_base:
  assumes "resolve r narrowings = Ok c"
  shows "\<exists>base. resolve r [] = Ok base \<and> charter_le c base"
proof -
  have c: "charter_from_row (row_map r) narrowings = Ok c"
    using assms by (simp add: resolve_def map_error_def split: sum.splits)
  then obtain base d where base: "base_charter (row_map r) = Ok base" and d: "fold_narrowings base narrowings = Ok d"
    and cd: "c = (if narrowings = [] then d else d\<lparr>ch_narrowings := map (\<lambda>n. str_or_empty (get_or n ''id'' ''narrowing_id'')) narrowings\<rparr>)"
    by (auto simp: charter_from_row_def res_bind_Ok_iff)
  have "charter_le d base" using authority.fold_le d unfolding fold_narrowings_eq by blast
  then have "charter_le c base" by (simp add: cd charter_le_def charter_identity_def)
  with base show ?thesis by (simp add: resolve_def charter_from_row_def map_error_def)
qed

section \<open>Stores to try\<close>

definition sample_terms :: "(pystr \<times> py) list" where
  "sample_terms = [(''enforcement_tier'', PStr ''container''), (''permitted_roots_json'', str_list [''src'']),
     (''permitted_capabilities_json'', str_list [''filesystem.write''])]"

definition sample_grant :: "pystr \<Rightarrow> pystr \<Rightarrow> charter_row" where
  "sample_grant i status = \<lparr>cw_id = i, cw_workspace = ''W'', cw_owner = ''O'', cw_status = status, cw_approved_by = None,
     cw_approved_at = None, cw_created_at = isoformat (Aware 0 0), cw_expires_at = isoformat (Aware 9000000 0),
     cw_revoked_at = None, cw_revoke_reason = None, cw_superseded_by = None, cw_terms = sample_terms\<rparr>"

definition charter_sample :: charter_db where
  "charter_sample = \<lparr>cdb_charters = [sample_grant ''a'' ''active'', sample_grant ''b'' ''draft''], cdb_narrowings = [],
     cdb_receipts = [], cdb_permits = [\<lparr>pm_id = ''p'', pm_workspace = ''W'', pm_session = ''S'', pm_charter = Some ''a'',
       pm_decision = ''allow'', pm_reason = [], pm_expires = None, pm_resolved = None\<rparr>]\<rparr>"

definition sample_auth :: auth_context where
  "sample_auth = \<lparr>au_workspace = ''W'', au_user = ''O'', au_subject = ''O''\<rparr>"

lemma sample_charter_ok: "charter_ok charter_sample"
  by (simp add: charter_ok_def charter_sample_def sample_grant_def)

lemma isoformat_epoch: "isoformat (Aware 0 0) = ''1970-01-01T00:00:00+00:00''"
    "isoformat (Aware 9000000 0) = ''1970-01-01T00:00:09+00:00''" "isoformat (Aware 5000000 0) = ''1970-01-01T00:00:05+00:00''"
  by code_simp+

lemma sample_parse: "fromisoformat ''1970-01-01T00:00:00+00:00'' = Some (Aware 0 0)"
    "fromisoformat ''1970-01-01T00:00:09+00:00'' = Some (Aware 9000000 0)"
    "fromisoformat ''1970-01-01T00:00:05+00:00'' = Some (Aware 5000000 0)"
  by code_simp+

lemma sample_auth_simps [simp]: "au_workspace sample_auth = ''W''" "au_user sample_auth = ''O''"
  by (simp_all add: sample_auth_def)

lemma approve_draft:
  "load_row db (au_workspace auth) i = Some row \<Longrightarrow> status_of_row row = ''draft'' \<Longrightarrow>
    approve_charter auth i now db = reply (db\<lparr>cdb_charters := map (activate (au_workspace auth) i (au_user auth) now)
      (map (supersede (au_workspace auth) row) (cdb_charters db))\<rparr>) (au_workspace auth) i now"
  by (simp add: approve_charter_def Let_def)

lemma status_of_grant [simp]: "status_of_row (sample_grant i ''draft'') = ''draft''"
  by (simp add: status_of_row_def sample_grant_def)


section \<open>Properties\<close>

text \<open>
  C15. At most one charter is active for an owner (charter_store.py, create_charter, approve_charter, revoke_charter,
  apply_narrowing): every sequence of committed sections keeps identifiers unique and at most one active
  charter per workspace and owner, although the table has no unique index for it; exactly the revoked charters carry a
  revocation date; a charter's terms, owner, creation and expiry never change; superseded and revoked are never
  left for active; a revocation date stays.
\<close>

theorem one_active_charter:
  assumes "charter_step\<^sup>*\<^sup>* db db'" "charter_ok db"
  shows "distinct (map cw_id (cdb_charters db'))
    \<and> (\<forall>r \<in> set (cdb_charters db'). \<forall>s \<in> set (cdb_charters db').
        cw_status r = ''active'' \<and> cw_status s = ''active'' \<and> same_scope r s \<longrightarrow> r = s)
    \<and> (\<forall>r \<in> set (cdb_charters db'). cw_revoked_at r \<noteq> None \<longleftrightarrow> cw_status r = ''revoked'')
    \<and> charters_after db db'"
  using charters.reach_keeps [OF assms] charter_run [OF assms] unfolding charter_ok_def by blast

theorem one_active_charter_witness:
  "\<exists>db'::charter_db. approve_charter sample_auth ''b'' (Aware 5000000 0) charter_sample \<noteq> Err CharterNotFound
    \<and> distinct (map cw_id (cdb_charters db')) \<and> map cw_status (cdb_charters db') = [''superseded'', ''active'']"
proof -
  let ?db = "charter_sample\<lparr>cdb_charters := map (activate ''W'' ''b'' ''O'' (Aware 5000000 0))
      (map (supersede ''W'' (sample_grant ''b'' ''draft'')) (cdb_charters charter_sample))\<rparr>"
  have load: "load_row charter_sample ''W'' ''b'' = Some (sample_grant ''b'' ''draft'')"
    by (simp add: load_row_def charter_sample_def sample_grant_def)
  obtain resp where "reply ?db ''W'' ''b'' (Aware 5000000 0) = Ok (resp, ?db)"
    by (simp add: reply_def load_row_def charter_sample_def sample_grant_def supersede_def activate_def isoformat_epoch
        charter_response_def resolve_def map_error_def charter_from_row_def load_narrowings_def base_charter_def row_map_def
        sample_terms_def int_or_dflt_def truthy_def runtime_allowlist_def json_list_def get_or_def parse_dt_def
        parse_dt_opt_def py_str_def sample_parse str_list_def str_column_def)
  then have step: "approve_charter sample_auth ''b'' (Aware 5000000 0) charter_sample = Ok (resp, ?db)"
    using approve_draft [of charter_sample sample_auth "''b''", unfolded sample_auth_simps, OF load] by simp
  from one_active_charter [OF r_into_rtranclp [of charter_step, OF charter_step.approve [OF step]] sample_charter_ok] step
  show ?thesis by (intro exI [of _ ?db]) (simp add: charter_sample_def sample_grant_def supersede_def activate_def)
qed



text \<open>
  No mutating action without a live grant (charter_store.py, resolve_charter_or_refuse and load_active_charter): with
  enforcement on, a mutating action passes only with a charter of this workspace and owner that is active, not
  revoked, not expired by its text and by its date, and whose resolved authority is at most what was approved.
\<close>

theorem mutating_needs_live_grant:
  assumes "resolve_charter_or_refuse se db auth kind now = Ok x" "se_enforcement se" "is_mutating_action_kind kind"
  shows "\<exists>r c base. x = Some c \<and> r \<in> set (cdb_charters db) \<and> charter_live (au_workspace auth) (au_user auth) now r
    \<and> resolve r [] = Ok base \<and> charter_le c base \<and> is_active c now = Ok True"
proof -
  from assms(1) have load: "load_active_charter db (au_workspace auth) (au_user auth) now = Ok x"
    and req: "require_charter_for_action x kind (se_enforcement se) now = Ok ()"
    by (auto simp: resolve_charter_or_refuse_def res_bind_Ok_iff map_error_def split: sum.splits)
  from req assms(2,3) obtain c where c: "x = Some c" "is_active c now = Ok True" by (auto simp: require_Ok_iff)
  from load [unfolded c(1)] obtain r where r: "r \<in> set (cdb_charters db)" "charter_live (au_workspace auth) (au_user auth) now r"
    "resolve r (load_narrowings db (cw_id r) now) = Ok c"
    by (rule load_activeE)
  from resolve_base [OF r(3)] c r show ?thesis by blast
qed

theorem mutating_needs_live_grant_witness:
  "\<exists>c. resolve_charter_or_refuse \<lparr>se_default_ttl = 1, se_min_ttl = 1, se_max_ttl = 1, se_enforcement = True\<rparr> charter_sample
      sample_auth ''edit'' (Aware 5000000 0) = Ok (Some c) \<and> is_active c (Aware 5000000 0) = Ok True"
proof -
  let ?now = "Aware 5000000 0" and ?se = "\<lparr>se_default_ttl = 1, se_min_ttl = 1, se_max_ttl = 1, se_enforcement = True\<rparr>"
  have mut: "is_mutating_action_kind ''edit''" by code_simp
  have live: "filter (charter_live ''W'' ''O'' ?now) (cdb_charters charter_sample) = [sample_grant ''a'' ''active'']"
    by (simp add: charter_sample_def sample_grant_def charter_live_def isoformat_epoch)
  obtain c where c: "load_active_charter charter_sample ''W'' ''O'' ?now = Ok (Some c)" and "is_active c ?now = Ok True"
    "ch_revoked_at c = None"
    by (simp add: load_active_charter_def live newest_def)
      (simp add: charter_sample_def sample_grant_def isoformat_epoch resolve_def map_error_def
        charter_from_row_def load_narrowings_def base_charter_def row_map_def sample_terms_def int_or_dflt_def truthy_def
        runtime_allowlist_def json_list_def get_or_def parse_dt_def parse_dt_opt_def py_str_def sample_parse str_list_def
        str_column_def is_active_def dt_less_def)
  then have "resolve_charter_or_refuse ?se charter_sample sample_auth ''edit'' ?now = Ok (Some c)"
    by (simp add: resolve_charter_or_refuse_def sample_auth_def map_error_def require_Ok_iff [THEN iffD2])
  from mutating_needs_live_grant [OF this _ mut] this show ?thesis by auto
qed

text \<open>
  A narrowing with an expiry in another zone lapses early (charter_store.py, apply_narrowing and _load_narrowings): the
  expiry is stored in the client's zone and compared as text with the UTC time, so a narrowing that expires at
  15:00 UTC, written as 10:00 at five hours west, is gone at 12:00 UTC and the authority is wide again.
\<close>

theorem narrowing_lapses_early:
  "let b = \<lparr>nb_charter = ''a'', nb_session = ''S'', nb_receipt = ''r'', nb_remove_roots = [''src''], nb_remove_capabilities = [],
        nb_prefixes = [], nb_denied = [], nb_tier = None, nb_egress = None, nb_budget = None, nb_attempts = None, nb_wall = None,
        nb_concurrent = None, nb_expires = Some (Aware 54000000000 (-18000000000)), nb_reason = []\<rparr>;
      now = Aware 43200000000 0;
      db' = charter_sample\<lparr>cdb_narrowings := [new_narrowing ''n'' sample_auth b (sample_grant ''a'' ''active'') (Aware 0 0)]\<rparr>
   in instant now < 54000000000 \<and> load_narrowings db' ''a'' now = []
     \<and> length (load_narrowings db' ''a'' (Aware 0 0)) = 1"
proof -
  have "isoformat (Aware 54000000000 (-18000000000)) = ''1970-01-01T10:00:00-05:00''"
    "isoformat (Aware 43200000000 0) = ''1970-01-01T12:00:00+00:00''" by code_simp+
  moreover have "\<not> ''1970-01-01T12:00:00+00:00'' < ''1970-01-01T10:00:00-05:00''"
    "''1970-01-01T00:00:00+00:00'' < ''1970-01-01T10:00:00-05:00''" by code_simp+
  ultimately show ?thesis
    by (simp add: load_narrowings_def new_narrowing_def narrowing_live_def isoformat_epoch)
qed

end
