(* ===== verification/Deadline.thy ===== *)
theory Deadline
  imports Complex_Main Task_Json Tce_Hash
begin

text \<open>
  \<open>shared/tce_shared/deadline.py\<close>: one budget for a turn, which its children only narrow, the ledger of
  what retrieval did, and the cache keys.  A reading of the monotonic clock is an exact rational number of
  seconds.  The clock is part of a machine: each reading comes \<open>delay n\<close> seconds after what went before, \<open>n\<close>
  counting the readings.
\<close>

section \<open>The machine\<close>

datatype sql_exception = SqlOperational pystr | SqlDatabase pystr | OtherException pystr

record executed_query =
  xq_name :: pystr
  xq_ms :: int
  xq_rows :: int

record timed_out_query =
  tq_name :: pystr
  tq_budget :: int

record skipped_query =
  sq_name :: pystr
  sq_remaining :: int
  sq_reason :: pystr

record retrieval_ledger =
  lg_executed :: "executed_query list"
  lg_timed_out :: "timed_out_query list"
  lg_skipped :: "skipped_query list"
  lg_cached :: "(pystr \<times> pystr) list"

text \<open>
  The ledger is the turn's own, \<open>None\<close> where the caller passes none; the handler is the moment at which the
  connection's progress handler starts to interrupt; \<open>mc_sleeps\<close> lists the milliseconds given to \<open>time.sleep\<close>,
  and \<open>mc_calls\<close> counts the queries run.
\<close>

record machine =
  mc_time :: rat
  mc_reads :: nat
  mc_handler :: "rat option"
  mc_ledger :: "retrieval_ledger option"
  mc_sleeps :: "int list"
  mc_calls :: nat

definition tick :: "(nat \<Rightarrow> rat) \<Rightarrow> machine \<Rightarrow> rat \<times> machine" where
  "tick delay mc = (let t = mc_time mc + delay (mc_reads mc) in (t, mc\<lparr>mc_time := t, mc_reads := Suc (mc_reads mc)\<rparr>))"

text \<open>\<open>int(x)\<close> of a float cuts towards zero.\<close>

definition py_trunc :: "rat \<Rightarrow> int" where
  "py_trunc x = (if 0 \<le> x then \<lfloor>x\<rfloor> else \<lceil>x\<rceil>)"

section \<open>Deadlines\<close>

definition RETRIEVAL_DEADLINE_POLICY_REVISION :: pystr where "RETRIEVAL_DEADLINE_POLICY_REVISION = ''p2-2026-09''"
definition RETRIEVAL_REASON_DEADLINE_SKIP :: pystr where "RETRIEVAL_REASON_DEADLINE_SKIP = ''deadline_expired_skip''"
definition SQLITE_INTERRUPT_MARKER :: pystr where "SQLITE_INTERRUPT_MARKER = ''interrupted''"
definition ADVISOR_TIMEOUT_BUCKET_MS :: int where "ADVISOR_TIMEOUT_BUCKET_MS = 250"

datatype deadline = Deadline (dl_started: rat) (dl_budget: int) (dl_backend: int) (dl_floor: int) (dl_label: pystr)
  (dl_parent: "deadline option")

definition start_deadline :: "(nat \<Rightarrow> rat) \<Rightarrow> int \<Rightarrow> int \<Rightarrow> int \<Rightarrow> pystr \<Rightarrow> machine \<Rightarrow> deadline \<times> machine" where
  "start_deadline delay budget backend floor_ms label mc = (case tick delay mc of (t, mc') \<Rightarrow>
     (Deadline t (max 0 budget) (max 1 backend) (max 0 floor_ms) label None, mc'))"

definition unbounded_deadline :: "(nat \<Rightarrow> rat) \<Rightarrow> pystr \<Rightarrow> machine \<Rightarrow> deadline \<times> machine" where
  "unbounded_deadline delay label mc = (case tick delay mc of (t, mc') \<Rightarrow> (Deadline t (10 ^ 9) (10 ^ 9) 0 label None, mc'))"

definition elapsed_ms :: "deadline \<Rightarrow> rat \<Rightarrow> int" where
  "elapsed_ms d now = max 0 (py_trunc ((now - dl_started d) * 1000))"

text \<open>\<open>remaining_ms(now)\<close> on a given reading.\<close>

fun remaining_at :: "deadline \<Rightarrow> rat \<Rightarrow> int" where
  "remaining_at (Deadline s b be f l p) now =
     (let own = max 0 (b - elapsed_ms (Deadline s b be f l p) now) in
      case p of None \<Rightarrow> own | Some d \<Rightarrow> min own (remaining_at d now))"

text \<open>\<open>remaining_ms()\<close>: every level of the chain reads the clock for itself.\<close>

fun remaining_ms :: "(nat \<Rightarrow> rat) \<Rightarrow> deadline \<Rightarrow> machine \<Rightarrow> int \<times> machine" where
  "remaining_ms delay (Deadline s b be f l p) mc =
     (case tick delay mc of (now, mc1) \<Rightarrow>
        let own = max 0 (b - elapsed_ms (Deadline s b be f l p) now) in
        case p of None \<Rightarrow> (own, mc1)
        | Some d \<Rightarrow> (case remaining_ms delay d mc1 of (r, mc2) \<Rightarrow> (min own r, mc2)))"

definition expired :: "(nat \<Rightarrow> rat) \<Rightarrow> deadline \<Rightarrow> machine \<Rightarrow> bool \<times> machine" where
  "expired delay d mc = (case remaining_ms delay d mc of (r, mc') \<Rightarrow> (r \<le> 0, mc'))"

definition allows :: "(nat \<Rightarrow> rat) \<Rightarrow> deadline \<Rightarrow> int \<Rightarrow> machine \<Rightarrow> bool \<times> machine" where
  "allows delay d minimum mc = (case remaining_ms delay d mc of (r, mc') \<Rightarrow> (max minimum (dl_floor d) \<le> r, mc'))"

definition slice_ms :: "(nat \<Rightarrow> rat) \<Rightarrow> deadline \<Rightarrow> int \<Rightarrow> machine \<Rightarrow> int \<times> machine" where
  "slice_ms delay d requested mc = (case remaining_ms delay d mc of (r, mc') \<Rightarrow>
     (max 0 (min (min requested (dl_backend d)) r), mc'))"

definition child :: "(nat \<Rightarrow> rat) \<Rightarrow> deadline \<Rightarrow> pystr \<Rightarrow> int option \<Rightarrow> int option \<Rightarrow> int option \<Rightarrow> machine \<Rightarrow> deadline \<times> machine" where
  "child delay d label budget backend floor_ms mc = (case tick delay mc of (now, mc') \<Rightarrow>
     let remaining = remaining_at d now;
         requested = (case budget of None \<Rightarrow> remaining | Some b \<Rightarrow> max 0 b)
     in (Deadline now (min requested remaining)
           (min (case backend of None \<Rightarrow> dl_backend d | Some b \<Rightarrow> max 1 b) (dl_backend d))
           (case floor_ms of None \<Rightarrow> dl_floor d | Some f \<Rightarrow> max 0 f) label (Some d), mc'))"

definition retrieval_child :: "(nat \<Rightarrow> rat) \<Rightarrow> deadline \<Rightarrow> bool \<Rightarrow> int \<Rightarrow> machine \<Rightarrow> deadline \<times> machine" where
  "retrieval_child delay turn enabled budget mc =
     (if \<not> enabled then (turn, mc) else child delay turn ''retrieval'' (Some (max 0 budget)) None None mc)"

section \<open>The ledger\<close>

definition empty_ledger :: retrieval_ledger where
  "empty_ledger = \<lparr>lg_executed = [], lg_timed_out = [], lg_skipped = [], lg_cached = []\<rparr>"

definition record_executed :: "pystr \<Rightarrow> int \<Rightarrow> int \<Rightarrow> retrieval_ledger \<Rightarrow> retrieval_ledger" where
  "record_executed name ms rows l = l\<lparr>lg_executed := lg_executed l @ [\<lparr>xq_name = name, xq_ms = ms, xq_rows = rows\<rparr>]\<rparr>"

definition record_timeout :: "pystr \<Rightarrow> int \<Rightarrow> retrieval_ledger \<Rightarrow> retrieval_ledger" where
  "record_timeout name budget l = l\<lparr>lg_timed_out := lg_timed_out l @ [\<lparr>tq_name = name, tq_budget = budget\<rparr>]\<rparr>"

definition record_skip :: "pystr \<Rightarrow> int \<Rightarrow> pystr \<Rightarrow> retrieval_ledger \<Rightarrow> retrieval_ledger" where
  "record_skip name remaining reason l =
     l\<lparr>lg_skipped := lg_skipped l @ [\<lparr>sq_name = name, sq_remaining = remaining, sq_reason = reason\<rparr>]\<rparr>"

definition record_cache_hit :: "pystr \<Rightarrow> pystr \<Rightarrow> retrieval_ledger \<Rightarrow> retrieval_ledger" where
  "record_cache_hit name key l = l\<lparr>lg_cached := lg_cached l @ [(name, key)]\<rparr>"

definition is_first_query :: "retrieval_ledger \<Rightarrow> bool" where
  "is_first_query l = (lg_executed l = [] \<and> lg_timed_out l = [])"

definition degraded :: "retrieval_ledger \<Rightarrow> bool" where
  "degraded l = (lg_timed_out l \<noteq> [] \<or> lg_skipped l \<noteq> [])"

definition to_meta :: "(nat \<Rightarrow> rat) \<Rightarrow> deadline option \<Rightarrow> retrieval_ledger \<Rightarrow> machine \<Rightarrow> (pystr \<times> py) list \<times> machine" where
  "to_meta delay deadline l mc =
     (let (remaining, mc1) = (case deadline of None \<Rightarrow> (0, mc) | Some d \<Rightarrow> remaining_ms delay d mc);
          (over, mc2) = (case deadline of None \<Rightarrow> (False, mc1) | Some d \<Rightarrow> expired delay d mc1)
      in ([(''deadline_policy_revision'', PStr RETRIEVAL_DEADLINE_POLICY_REVISION),
           (''deadline_budget_ms'', PInt (case deadline of None \<Rightarrow> 0 | Some d \<Rightarrow> dl_budget d)),
           (''deadline_backend_budget_ms'', PInt (case deadline of None \<Rightarrow> 0 | Some d \<Rightarrow> dl_backend d)),
           (''deadline_remaining_ms'', PInt remaining), (''deadline_expired'', PBool over),
           (''queries_executed'', PList (map (\<lambda>q. PDict [(''name'', PStr (xq_name q)), (''ms'', PInt (xq_ms q)),
              (''rows'', PInt (xq_rows q))]) (lg_executed l))),
           (''queries_timed_out'', PList (map (\<lambda>q. PDict [(''name'', PStr (tq_name q)), (''budget_ms'', PInt (tq_budget q))])
              (lg_timed_out l))),
           (''queries_skipped'', PList (map (\<lambda>q. PDict [(''name'', PStr (sq_name q)), (''remaining_ms'', PInt (sq_remaining q)),
              (''reason'', PStr (sq_reason q))]) (lg_skipped l))),
           (''queries_cached'', PList (map (\<lambda>(name, key). PDict [(''name'', PStr name), (''key'', PStr key)]) (lg_cached l))),
           (''retrieval_degraded'', PBool (degraded l))], mc2))"

section \<open>Cache keys\<close>

definition collapse_ws :: "pystr \<Rightarrow> pystr" where
  "collapse_ws s = py_join '' '' (py_split_ws s)"

definition retrieval_cache_key ::
  "pystr \<Rightarrow> pystr \<Rightarrow> pystr list \<Rightarrow> pystr \<Rightarrow> pystr option \<Rightarrow> pystr \<Rightarrow> int \<Rightarrow> pystr \<Rightarrow> pystr \<Rightarrow> (pystr \<times> py) list \<Rightarrow> pystr \<Rightarrow> pystr" where
  "retrieval_cache_key kind w owners subject project policy contract evidence intent flags query =
     ''tce:r2:'' @ kind @ '':'' @ take 32 (sha256_hex (canonical_json (PDict
       [(''workspace_id'', PStr w), (''owner_ids'', PList (map PStr (sort owners))), (''subject_user_id'', PStr subject),
        (''project_id'', PStr (case project of None \<Rightarrow> [] | Some p \<Rightarrow> p)), (''policy_revision'', PStr policy),
        (''contract_revision'', PInt contract), (''evidence_revision'', PStr evidence), (''query_intent'', PStr intent),
        (''flags'', PDict (sort_key fst flags)), (''query_text'', PStr query)])))"

definition embedding_cache_key :: "pystr \<Rightarrow> int \<Rightarrow> pystr \<Rightarrow> pystr" where
  "embedding_cache_key model dimensions query =
     ''tce:emb:v2:'' @ take 24 (sha256_hex (model @ ''|'' @ str_int dimensions @ ''|'' @ py_lower (collapse_ws query)))"

definition embedding_cooldown_key :: "pystr \<Rightarrow> pystr \<Rightarrow> pystr" where
  "embedding_cooldown_key model w = ''tce:emb:cooldown:v2:'' @ take 24 (sha256_hex (model @ ''|'' @ w))"

definition advisor_timeout_bucket_ms :: "int \<Rightarrow> int" where
  "advisor_timeout_bucket_ms remaining =
     max ADVISOR_TIMEOUT_BUCKET_MS ((remaining div ADVISOR_TIMEOUT_BUCKET_MS) * ADVISOR_TIMEOUT_BUCKET_MS)"

end
