(* ===== verification/Deadline_Sqlite.thy ===== *)
theory Deadline_Sqlite
  imports Deadline
begin

text \<open>
  \<open>services/tce_lite_api/tce_lite_api/deadline_sqlite.py\<close> and the two functions of store.py that run a read
  under it, \<open>_run_sql_retry\<close> and \<open>_guarded_read\<close>.  The query is a function of the machine it starts on, its
  progress handler included; it answers with a result or an exception, and how long it took.
  \<open>time.perf_counter\<close> and \<open>time.monotonic\<close> are one clock.
\<close>

section \<open>The guard\<close>

definition UNBOUNDED_REMAINING_MS :: int where "UNBOUNDED_REMAINING_MS = 10 ^ 8"

record deadline_guard =
  gd_name :: pystr
  gd_budget :: int
  gd_started :: rat
  gd_unbounded :: bool

definition teardown :: "deadline_guard \<Rightarrow> machine \<Rightarrow> machine" where
  "teardown g mc = (if gd_unbounded g then mc else mc\<lparr>mc_handler := None\<rparr>)"

definition ledger_do :: "(retrieval_ledger \<Rightarrow> retrieval_ledger) \<Rightarrow> machine \<Rightarrow> machine" where
  "ledger_do f mc = mc\<lparr>mc_ledger := map_option f (mc_ledger mc)\<rparr>"

definition no_deadline :: "(nat \<Rightarrow> rat) \<Rightarrow> deadline option \<Rightarrow> machine \<Rightarrow> bool \<times> machine" where
  "no_deadline delay deadline mc = (case deadline of
       None \<Rightarrow> (True, mc)
     | Some d \<Rightarrow> (case remaining_ms delay d mc of (r, mc') \<Rightarrow> (UNBOUNDED_REMAINING_MS \<le> r, mc')))"

definition first_query :: "machine \<Rightarrow> bool" where
  "first_query mc = (case mc_ledger mc of None \<Rightarrow> False | Some l \<Rightarrow> is_first_query l)"

text \<open>The skip, with what is left by then.\<close>

definition skip_query :: "(nat \<Rightarrow> rat) \<Rightarrow> deadline \<Rightarrow> pystr \<Rightarrow> machine \<Rightarrow> machine" where
  "skip_query delay d name mc = (case mc_ledger mc of
       None \<Rightarrow> mc
     | Some _ \<Rightarrow> (case remaining_ms delay d mc of (r, mc') \<Rightarrow>
         ledger_do (record_skip name r RETRIEVAL_REASON_DEADLINE_SKIP) mc'))"

definition begin_sqlite_deadline ::
  "(nat \<Rightarrow> rat) \<Rightarrow> deadline option \<Rightarrow> pystr \<Rightarrow> int \<Rightarrow> int \<Rightarrow> machine \<Rightarrow> deadline_guard option \<times> machine" where
  "begin_sqlite_deadline delay deadline name requested floor_ms mc0 =
     (case tick delay mc0 of (started, mc1) \<Rightarrow> case no_deadline delay deadline mc1 of (free, mc2) \<Rightarrow>
      if free \<or> first_query mc2 then (Some \<lparr>gd_name = name, gd_budget = 0, gd_started = started, gd_unbounded = True\<rparr>, mc2)
      else (case deadline of
          None \<Rightarrow> (None, mc2)
        | Some d \<Rightarrow> (case allows delay d floor_ms mc2 of (ok, mc3) \<Rightarrow>
            if \<not> ok then (None, skip_query delay d name mc3)
            else (case slice_ms delay d requested mc3 of (ms, mc4) \<Rightarrow>
              (let budget = max 1 ms in
               (Some \<lparr>gd_name = name, gd_budget = budget, gd_started = started, gd_unbounded = False\<rparr>,
                mc4\<lparr>mc_handler := Some (started + rat_of_int budget / 1000)\<rparr>))))))"

definition finish_sqlite_deadline :: "(nat \<Rightarrow> rat) \<Rightarrow> deadline_guard \<Rightarrow> machine \<Rightarrow> machine" where
  "finish_sqlite_deadline delay g mc = (let mc1 = teardown g mc in
     case mc_ledger mc1 of
       None \<Rightarrow> mc1
     | Some _ \<Rightarrow> (case tick delay mc1 of (now, mc2) \<Rightarrow>
         ledger_do (record_executed (gd_name g) (py_trunc (max 0 (now - gd_started g) * 1000)) 0) mc2))"

definition exc_text :: "sql_exception \<Rightarrow> pystr" where
  "exc_text e = (case e of SqlOperational m \<Rightarrow> m | SqlDatabase m \<Rightarrow> m | OtherException m \<Rightarrow> m)"

definition absorb_sqlite_deadline :: "deadline_guard \<Rightarrow> sql_exception \<Rightarrow> machine \<Rightarrow> bool \<times> machine" where
  "absorb_sqlite_deadline g e mc = (let mc1 = teardown g mc in
     if gd_unbounded g then (False, mc1)
     else if \<not> py_contains SQLITE_INTERRUPT_MARKER (py_lower (exc_text e)) then (False, mc1)
     else (True, ledger_do (record_timeout (gd_name g) (gd_budget g)) mc1))"

section \<open>Retries\<close>

record read_settings =
  rd_retry :: bool
  rd_attempts :: int
  rd_backoff :: int
  rd_retry_budget :: int
  rd_budget :: int
  rd_floor :: int

definition RETRYABLE_DB_TOKENS :: "pystr list" where
  "RETRYABLE_DB_TOKENS = [''database is locked'', ''database is busy'', ''locked'', ''busy'', ''timeout'', ''temporarily unavailable'']"

definition is_retryable_db_error :: "sql_exception \<Rightarrow> bool" where
  "is_retryable_db_error e = (let text = py_lower (py_strip (exc_text e)) in
     text \<noteq> [] \<and> \<not> py_contains SQLITE_INTERRUPT_MARKER text \<and> list_ex (\<lambda>token. py_contains token text) RETRYABLE_DB_TOKENS)"

type_synonym 'a query = "nat \<Rightarrow> machine \<Rightarrow> (sql_exception, 'a) result \<times> rat"

definition run_query :: "'a query \<Rightarrow> machine \<Rightarrow> (sql_exception, 'a) result \<times> machine" where
  "run_query query mc = (case query (mc_calls mc) mc of (r, took) \<Rightarrow>
     (r, mc\<lparr>mc_time := mc_time mc + took, mc_calls := Suc (mc_calls mc)\<rparr>))"

definition sleep_ms :: "int \<Rightarrow> machine \<Rightarrow> machine" where
  "sleep_ms ms mc = mc\<lparr>mc_time := mc_time mc + rat_of_int ms / 1000, mc_sleeps := mc_sleeps mc @ [ms]\<rparr>"

text \<open>What the deadline leaves of the retry budget; \<open>None\<close> where the exception is raised again.\<close>

definition retry_left :: "(nat \<Rightarrow> rat) \<Rightarrow> read_settings \<Rightarrow> deadline option \<Rightarrow> rat \<Rightarrow> machine \<Rightarrow> int option \<times> machine" where
  "retry_left delay se deadline started mc = (case tick delay mc of (now, mc1) \<Rightarrow>
     let left = max 0 (rd_retry_budget se) - py_trunc ((now - started) * 1000) in
     if left \<le> 0 then (None, mc1)
     else (case deadline of
         None \<Rightarrow> (Some left, mc1)
       | Some d \<Rightarrow> (case allows delay d (rd_floor se) mc1 of (ok, mc2) \<Rightarrow>
           if \<not> ok then (None, mc2)
           else (case remaining_ms delay d mc2 of (r, mc3) \<Rightarrow>
             if min left r \<le> 0 then (None, mc3) else (Some (min left r), mc3)))))"

text \<open>The loop, over the attempts that are left.\<close>

fun retry_loop ::
  "(nat \<Rightarrow> rat) \<Rightarrow> read_settings \<Rightarrow> deadline option \<Rightarrow> 'a query \<Rightarrow> nat \<Rightarrow> rat \<Rightarrow> nat list \<Rightarrow> sql_exception option \<Rightarrow> machine
    \<Rightarrow> (sql_exception, 'a) result \<times> machine" where
  "retry_loop delay se deadline query attempts started [] last_exc mc =
     (case last_exc of Some e \<Rightarrow> (Err e, mc) | None \<Rightarrow> (Err (OtherException ''sqlite retry loop exited unexpectedly''), mc))"
| "retry_loop delay se deadline query attempts started (k # ks) last_exc mc =
     (case run_query query mc of
        (Inr x, mc1) \<Rightarrow> (Ok x, mc1)
      | (Inl (SqlOperational m), mc1) \<Rightarrow>
          if attempts \<le> Suc k \<or> \<not> is_retryable_db_error (SqlOperational m) then (Err (SqlOperational m), mc1)
          else (case retry_left delay se deadline started mc1 of
              (None, mc2) \<Rightarrow> (Err (SqlOperational m), mc2)
            | (Some left, mc2) \<Rightarrow>
                retry_loop delay se deadline query attempts started ks (Some (SqlOperational m))
                  (sleep_ms (min left (max 1 (rd_backoff se) * 2 ^ k)) mc2))
      | (Inl e, mc1) \<Rightarrow> (Err e, mc1))"

definition run_sql_retry ::
  "(nat \<Rightarrow> rat) \<Rightarrow> read_settings \<Rightarrow> deadline option \<Rightarrow> 'a query \<Rightarrow> machine \<Rightarrow> (sql_exception, 'a) result \<times> machine" where
  "run_sql_retry delay se deadline query mc =
     (if \<not> rd_retry se then run_query query mc
      else (let attempts = nat (max 1 (rd_attempts se)) in
        case tick delay mc of (started, mc1) \<Rightarrow> retry_loop delay se deadline query attempts started [0..<attempts] None mc1))"

section \<open>A guarded read\<close>

definition guarded_read ::
  "(nat \<Rightarrow> rat) \<Rightarrow> read_settings \<Rightarrow> deadline option \<Rightarrow> pystr \<Rightarrow> 'a list query \<Rightarrow> machine \<Rightarrow> (sql_exception, 'a list) result \<times> machine" where
  "guarded_read delay se deadline name query mc =
     (case begin_sqlite_deadline delay deadline name (rd_budget se) (rd_floor se) mc of
        (None, mc1) \<Rightarrow> (Ok [], mc1)
      | (Some g, mc1) \<Rightarrow>
          (case run_sql_retry delay se deadline query mc1 of
             (Inr rows, mc2) \<Rightarrow> (Ok rows, finish_sqlite_deadline delay g mc2)
           | (Inl (OtherException m), mc2) \<Rightarrow> (Err (OtherException m), mc2)
           | (Inl e, mc2) \<Rightarrow>
               (case absorb_sqlite_deadline g e mc2 of
                  (True, mc3) \<Rightarrow> (Ok [], mc3)
                | (False, mc3) \<Rightarrow> (Err e, mc3))))"

end
