(* ===== verification/Deadline_Facts.thy ===== *)
theory Deadline_Facts
  imports Deadline_Sqlite
begin

text \<open>
  Time already spent is never granted again: a child has at most what its parent has left, an interrupt is set
  for no later than a millisecond after the whole chain has expired, retries end, and a read leaves the
  connection without a handler and the ledger with one entry.
\<close>

section \<open>The clock\<close>

definition clock_ok :: "(nat \<Rightarrow> rat) \<Rightarrow> bool" where
  "clock_ok delay = (\<forall>n. 0 \<le> delay n)"

text \<open>Only time has passed.\<close>

definition quiet :: "machine \<Rightarrow> machine \<Rightarrow> bool" where
  "quiet mc mc' = (mc_time mc \<le> mc_time mc' \<and> mc_handler mc' = mc_handler mc \<and> mc_ledger mc' = mc_ledger mc
     \<and> mc_sleeps mc' = mc_sleeps mc \<and> mc_calls mc' = mc_calls mc)"

lemma quiet_refl [simp]: "quiet mc mc"
  by (simp add: quiet_def)

lemma quiet_trans [trans]: "quiet a b \<Longrightarrow> quiet b c \<Longrightarrow> quiet a c"
  by (auto simp: quiet_def)

lemma tick_quiet: "clock_ok delay \<Longrightarrow> tick delay mc = (t, mc') \<Longrightarrow> t = mc_time mc' \<and> quiet mc mc'"
  by (auto simp: tick_def Let_def quiet_def clock_ok_def)

lemma py_trunc_mono: "x \<le> y \<Longrightarrow> py_trunc x \<le> py_trunc y"
  by (auto simp: py_trunc_def intro: floor_mono ceiling_mono order_trans [of _ 0])

lemma py_trunc_bounds: "0 \<le> x \<Longrightarrow> rat_of_int (py_trunc x) \<le> x \<and> x < rat_of_int (py_trunc x) + 1"
  by (simp add: py_trunc_def) linarith

lemma py_trunc_of_int [simp]: "py_trunc (rat_of_int n) = n"
  by (simp add: py_trunc_def)

section \<open>What is left of a deadline\<close>

lemma elapsed_mono: "s \<le> t \<Longrightarrow> elapsed_ms d s \<le> elapsed_ms d t"
  unfolding elapsed_ms_def by (intro max.mono py_trunc_mono order_refl) simp

lemma elapsed_bound: "(t - dl_started d) * 1000 < rat_of_int (elapsed_ms d t) + 1"
proof (cases "dl_started d \<le> t")
  case True
  then show ?thesis using py_trunc_bounds [of "(t - dl_started d) * 1000"] by (auto simp: elapsed_ms_def max_def)
next
  case False
  then have "(t - dl_started d) * 1000 < 0" by simp
  then show ?thesis by (simp add: elapsed_ms_def)
qed

lemma remaining_nonneg [simp]: "0 \<le> remaining_at d t"
  by (induction d t rule: remaining_at.induct) (auto simp: Let_def split: option.split)

lemma remaining_antimono: "s \<le> t \<Longrightarrow> remaining_at d t \<le> remaining_at d s"
proof (induction d s rule: remaining_at.induct)
  case (1 s0 b be f l p s)
  have "elapsed_ms (Deadline s0 b be f l p) s \<le> elapsed_ms (Deadline s0 b be f l p) t" using 1(2) by (rule elapsed_mono)
  moreover have "remaining_at d t \<le> remaining_at d s" if "p = Some d" for d using 1 that by blast
  ultimately show ?case by (cases p) (auto simp: Let_def intro: min.mono)
qed

text \<open>A chain that reads the clock level by level sees less than at the first reading.\<close>

lemma remaining_live:
  "remaining_ms delay d mc = (r, mc') \<Longrightarrow> clock_ok delay \<Longrightarrow> r \<le> remaining_at d (mc_time mc) \<and> 0 \<le> r \<and> quiet mc mc'"
proof (induction delay d mc arbitrary: r mc' rule: remaining_ms.induct)
  case (1 delay s b be f l p mc)
  obtain now mc1 where t: "tick delay mc = (now, mc1)" by (cases "tick delay mc")
  note now = tick_quiet [OF 1(3) t]
  let ?d = "Deadline s b be f l p"
  have own: "elapsed_ms ?d (mc_time mc) \<le> elapsed_ms ?d now" using now by (simp add: elapsed_mono quiet_def)
  show ?case
  proof (cases p)
    case None
    then show ?thesis using 1(2) own now t by (auto simp: Let_def)
  next
    case (Some d)
    obtain r2 mc2 where r: "remaining_ms delay d mc1 = (r2, mc2)" by (cases "remaining_ms delay d mc1")
    have "r2 \<le> remaining_at d (mc_time mc1)" "0 \<le> r2" "quiet mc1 mc2" using 1(1) [OF t [symmetric] refl Some r 1(3)] by auto
    moreover have "remaining_at d now \<le> remaining_at d (mc_time mc)" using now by (simp add: remaining_antimono quiet_def)
    ultimately show ?thesis using 1(2) own now t r Some by (auto simp: Let_def dest: quiet_trans)
  qed
qed

lemma allows_live:
  "allows delay d m mc = (ok, mc') \<Longrightarrow> clock_ok delay \<Longrightarrow> quiet mc mc' \<and> (ok \<longrightarrow> max m (dl_floor d) \<le> remaining_at d (mc_time mc))"
  by (auto simp: allows_def split: prod.splits dest: remaining_live)

lemma slice_live:
  "slice_ms delay d m mc = (r, mc') \<Longrightarrow> clock_ok delay \<Longrightarrow>
    quiet mc mc' \<and> 0 \<le> r \<and> r \<le> max 0 m \<and> r \<le> max 0 (dl_backend d) \<and> r \<le> remaining_at d (mc_time mc)"
  by (auto simp: slice_ms_def split: prod.splits dest!: remaining_live)

section \<open>Children\<close>

inductive narrower :: "(nat \<Rightarrow> rat) \<Rightarrow> deadline \<Rightarrow> deadline \<Rightarrow> bool" for delay where
  root: "narrower delay d d"
| child: "narrower delay d c \<Longrightarrow> child delay c label budget backend floor_ms mc = (c', mc') \<Longrightarrow> narrower delay d c'"

lemma child_bounds:
  assumes "child delay d label budget backend floor_ms mc = (c, mc')"
  shows "remaining_at c t \<le> remaining_at d t \<and> dl_backend c \<le> dl_backend d \<and> dl_parent c = Some d"
  using assms by (auto simp: child_def Let_def split: prod.splits option.splits)

lemma narrower_bounds: "narrower delay d c \<Longrightarrow> remaining_at c t \<le> remaining_at d t \<and> dl_backend c \<le> dl_backend d"
proof (induction rule: narrower.induct)
  case (child c label budget backend floor_ms mc c' mc')
  then show ?case using child_bounds [OF child.hyps(2), of t] by simp
qed simp

text \<open>
  A child never outlives its parent (deadline.py, Deadline.child and slice_ms): whatever budgets a chain of
  children asks for and whenever they are made, the time any of them grants for a query is at most what the first
  deadline has left at that moment, and at most its backend budget; and a bounded child has at most its own budget.
\<close>

theorem child_never_outlives:
  assumes "clock_ok delay" "narrower delay d c" "slice_ms delay c requested mc = (ms, mc')"
  shows "0 \<le> ms \<and> ms \<le> remaining_at d (mc_time mc) \<and> ms \<le> max 0 (dl_backend d) \<and> ms \<le> max 0 requested"
  using slice_live [OF assms(3,1)] narrower_bounds [OF assms(2), of "mc_time mc"] by auto

section \<open>The interrupt\<close>

text \<open>The moment at which the whole chain has expired.\<close>

fun expires_at :: "deadline \<Rightarrow> rat" where
  "expires_at (Deadline s b be f l p) = (let own = s + rat_of_int b / 1000 in
     case p of None \<Rightarrow> own | Some d \<Rightarrow> min own (expires_at d))"

lemma remaining_before:
  "1 \<le> k \<Longrightarrow> k \<le> remaining_at d t \<Longrightarrow> t + rat_of_int k / 1000 < expires_at d + 1 / 1000"
proof (induction d t rule: remaining_at.induct)
  case (1 s b be f l p t)
  let ?d = "Deadline s b be f l p"
  have "k \<le> b - elapsed_ms ?d t" using 1(2,3) by (cases p) (auto simp: Let_def split: if_splits)
  then have "rat_of_int k \<le> rat_of_int b - rat_of_int (elapsed_ms ?d t)" by linarith
  moreover have "(t - s) * 1000 < rat_of_int (elapsed_ms ?d t) + 1" using elapsed_bound [of t ?d] by simp
  ultimately have own: "t + rat_of_int k / 1000 < s + rat_of_int b / 1000 + 1 / 1000" by (simp add: field_simps)
  show ?case
  proof (cases p)
    case (Some d)
    then have "t + rat_of_int k / 1000 < expires_at d + 1 / 1000" using 1 by (simp add: Let_def)
    then show ?thesis using own Some by (simp add: Let_def)
  qed (use own in \<open>simp add: Let_def\<close>)
qed


lemma no_deadline_quiet: "no_deadline delay deadline mc = (free, mc') \<Longrightarrow> clock_ok delay \<Longrightarrow> quiet mc mc'"
  by (auto simp: no_deadline_def split: option.splits prod.splits dest: remaining_live)

lemma quiet_first: "quiet mc mc' \<Longrightarrow> first_query mc' = first_query mc"
  by (simp add: quiet_def first_query_def)

text \<open>A guard is returned free, or with an interrupt that its slice set.\<close>

lemma begin_guard:
  assumes ok: "clock_ok delay" and g: "begin_sqlite_deadline delay deadline name requested floor_ms mc = (Some g, mc')"
  shows "(gd_unbounded g \<and> quiet mc mc')
    \<or> (\<exists>d t. deadline = Some d \<and> \<not> gd_unbounded g \<and> \<not> first_query mc \<and> mc_time mc \<le> gd_started g \<and> gd_started g \<le> t
        \<and> max floor_ms (dl_floor d) \<le> remaining_at d t
        \<and> (gd_budget g = 1 \<or> (\<exists>u\<ge>t. 1 \<le> gd_budget g \<and> gd_budget g \<le> remaining_at d u))
        \<and> quiet mc (mc'\<lparr>mc_handler := mc_handler mc\<rparr>)
        \<and> mc_handler mc' = Some (gd_started g + rat_of_int (gd_budget g) / 1000))"
proof -
  obtain started mc1 where t: "tick delay mc = (started, mc1)" by (cases "tick delay mc")
  obtain free mc2 where f: "no_deadline delay deadline mc1 = (free, mc2)" by (cases "no_deadline delay deadline mc1")
  have q1: "started = mc_time mc1" "quiet mc mc1" using tick_quiet [OF ok t] by auto
  have q2: "quiet mc mc2" "started \<le> mc_time mc2" using q1 no_deadline_quiet [OF f ok] quiet_trans by (auto simp: quiet_def)
  show ?thesis
  proof (cases "free \<or> first_query mc2")
    case True
    then show ?thesis using g t f q2 by (auto simp: begin_sqlite_deadline_def)
  next
    case False
    then obtain d where d: "deadline = Some d" using g t f by (auto simp: begin_sqlite_deadline_def split: option.splits)
    obtain a mc3 where a: "allows delay d floor_ms mc2 = (a, mc3)" by (cases "allows delay d floor_ms mc2")
    obtain ms mc4 where sl: "slice_ms delay d requested mc3 = (ms, mc4)" by (cases "slice_ms delay d requested mc3")
    have a': a and g': "g = \<lparr>gd_name = name, gd_budget = max 1 ms, gd_started = started, gd_unbounded = False\<rparr>"
      "mc' = mc4\<lparr>mc_handler := Some (started + rat_of_int (max 1 ms) / 1000)\<rparr>"
      using g t f False d a sl by (auto simp: begin_sqlite_deadline_def Let_def split: if_splits)
    note al = allows_live [OF a ok] and sv = slice_live [OF sl ok]
    have "quiet mc mc4" using q2 al sv quiet_trans by blast
    moreover have "mc_time mc2 \<le> mc_time mc3" using al by (simp add: quiet_def)
    moreover have "max 1 ms = 1 \<or> (1 \<le> max 1 ms \<and> max 1 ms \<le> remaining_at d (mc_time mc3))" using sv by auto
    moreover have "mc_time mc \<le> started" using q1 by (simp add: quiet_def)
    ultimately show ?thesis using False q2 al a' d quiet_first [OF q2(1)]
      by (intro disjI2 exI [of _ d] exI [of _ "mc_time mc2"]) (auto simp: g' quiet_def)
  qed
qed

text \<open>
  A bounded read is interrupted in time (deadline_sqlite.py, begin_sqlite_deadline): with a floor of at least a
  millisecond, the handler a read installs starts to interrupt before the whole chain of deadlines has been
  expired for one millisecond, however long the steps between the readings of the clock take.
\<close>

theorem interrupt_within_deadline:
  assumes "clock_ok delay" "begin_sqlite_deadline delay (Some d) name requested floor_ms mc = (Some g, mc')" "\<not> gd_unbounded g"
    and "1 \<le> max floor_ms (dl_floor d)"
  shows "\<exists>abort. mc_handler mc' = Some abort \<and> gd_started g < abort \<and> abort < expires_at d + 1 / 1000"
proof -
  from begin_guard [OF assms(1,2)] assms(3) obtain t where t: "gd_started g \<le> t" "max floor_ms (dl_floor d) \<le> remaining_at d t"
    and b: "gd_budget g = 1 \<or> (\<exists>u\<ge>t. 1 \<le> gd_budget g \<and> gd_budget g \<le> remaining_at d u)"
    and h: "mc_handler mc' = Some (gd_started g + rat_of_int (gd_budget g) / 1000)" by auto
  have "1 \<le> remaining_at d t" using t(2) assms(4) by linarith
  from remaining_before [OF order_refl this] have one: "gd_started g + rat_of_int 1 / 1000 < expires_at d + 1 / 1000"
    using t(1) by simp
  from b show ?thesis
  proof (elim disjE exE conjE)
    fix u assume u: "t \<le> u" "1 \<le> gd_budget g" "gd_budget g \<le> remaining_at d u"
    from remaining_before [OF u(2,3)] have "gd_started g + rat_of_int (gd_budget g) / 1000 < expires_at d + 1 / 1000"
      using u(1) t(1) by linarith
    then show ?thesis using h u(2) by simp
  qed (use h one in simp)
qed

section \<open>Retries\<close>

definition query_ok :: "'a query \<Rightarrow> bool" where
  "query_ok query = (\<forall>n mc. 0 \<le> snd (query n mc))"

lemma run_query_props:
  assumes "query_ok query" "run_query query mc = (r, mc')"
  shows "mc_time mc \<le> mc_time mc' \<and> mc_handler mc' = mc_handler mc \<and> mc_ledger mc' = mc_ledger mc
    \<and> mc_sleeps mc' = mc_sleeps mc \<and> mc_calls mc' = Suc (mc_calls mc)"
proof -
  have "0 \<le> snd (query (mc_calls mc) mc)" using assms(1) by (simp add: query_ok_def)
  then show ?thesis using assms(2) by (auto simp: run_query_def split: prod.splits)
qed

lemma retry_left_live:
  assumes "clock_ok delay" "retry_left delay se deadline started mc = (left, mc')" "rat_of_int slept \<le> (mc_time mc - started) * 1000"
  shows "quiet mc mc' \<and> (\<forall>n. left = Some n \<longrightarrow> 0 < n \<and> n \<le> max 0 (rd_retry_budget se) - slept)"
proof -
  obtain now mc1 where t: "tick delay mc = (now, mc1)" by (cases "tick delay mc")
  note q = tick_quiet [OF assms(1) t]
  have "rat_of_int slept \<le> (now - started) * 1000" using assms(3) q by (simp add: quiet_def)
  from py_trunc_mono [OF this] have slept: "slept \<le> py_trunc ((now - started) * 1000)" by simp
  show ?thesis
  proof (cases deadline)
    case None
    then show ?thesis using assms(2) t q slept by (auto simp: retry_left_def Let_def split: if_splits)
  next
    case (Some d)
    obtain a mc2 where a: "allows delay d (rd_floor se) mc1 = (a, mc2)" by (cases "allows delay d (rd_floor se) mc1")
    obtain r mc3 where r: "remaining_ms delay d mc2 = (r, mc3)" by (cases "remaining_ms delay d mc2")
    have "quiet mc mc2" "quiet mc mc3"
      using q allows_live [OF a assms(1)] remaining_live [OF r assms(1)] quiet_trans by blast+
    then show ?thesis using assms(2) t q slept a r Some by (auto simp: retry_left_def Let_def split: if_splits)
  qed
qed

text \<open>The loop's invariant: what has been slept is within the budget, and the clock has moved by at least as much.\<close>

lemma retry_loop_bounds:
  assumes "clock_ok delay" "query_ok query"
  shows "retry_loop delay se deadline query attempts started ks e mc = (r, mc') \<Longrightarrow>
    rat_of_int (sum_list (mc_sleeps mc) - s0) \<le> (mc_time mc - started) * 1000 \<Longrightarrow>
    sum_list (mc_sleeps mc) - s0 \<le> max 0 (rd_retry_budget se) \<Longrightarrow>
    mc_calls mc' \<le> mc_calls mc + length ks \<and> sum_list (mc_sleeps mc') - s0 \<le> max 0 (rd_retry_budget se)
    \<and> mc_handler mc' = mc_handler mc \<and> mc_ledger mc' = mc_ledger mc"
proof (induction ks arbitrary: e mc)
  case Nil
  then show ?case by (cases e) auto
next
  case (Cons k ks)
  obtain x mc1 where q: "run_query query mc = (x, mc1)" by (cases "run_query query mc")
  note p = run_query_props [OF assms(2) q]
  let ?again = "\<exists>m. x = Err (SqlOperational m) \<and> \<not> (attempts \<le> Suc k \<or> \<not> is_retryable_db_error (SqlOperational m))"
  show ?case
  proof (cases ?again)
    case False
    then have "mc' = mc1" using Cons.prems(1) q
      by (auto split: sum.splits sql_exception.splits if_splits)
    then show ?thesis using p Cons.prems(3) by simp
  next
    case True
    then obtain m where m: "x = Err (SqlOperational m)" "\<not> (attempts \<le> Suc k \<or> \<not> is_retryable_db_error (SqlOperational m))" by blast
    obtain left mc2 where l: "retry_left delay se deadline started mc1 = (left, mc2)" by (cases "retry_left delay se deadline started mc1")
    have slept: "rat_of_int (sum_list (mc_sleeps mc) - s0) \<le> (mc_time mc1 - started) * 1000" 
      using Cons.prems(2) p by (intro order_trans [OF Cons.prems(2)] mult_right_mono) simp_all
    note rl = retry_left_live [OF assms(1) l slept]
    show ?thesis
    proof (cases left)
      case None
      then show ?thesis using Cons.prems(1,3) q m l rl p by (auto simp: quiet_def)
    next
      case (Some n)
      let ?ms = "min n (max 1 (rd_backoff se) * 2 ^ k)"
      have run: "retry_loop delay se deadline query attempts started ks (Some (SqlOperational m)) (sleep_ms ?ms mc2) = (r, mc')"
        using Cons.prems(1) q m l Some by simp
      have n: "?ms \<le> max 0 (rd_retry_budget se) - (sum_list (mc_sleeps mc) - s0)" using rl Some by auto
      have "(mc_time mc1 - started) * 1000 \<le> (mc_time mc2 - started) * 1000" using rl by (simp add: quiet_def)
      with slept have "rat_of_int (sum_list (mc_sleeps (sleep_ms ?ms mc2)) - s0) \<le> (mc_time (sleep_ms ?ms mc2) - started) * 1000"
        using rl p by (simp add: sleep_ms_def quiet_def algebra_simps del: of_int_min)
      moreover have "sum_list (mc_sleeps (sleep_ms ?ms mc2)) - s0 \<le> max 0 (rd_retry_budget se)"
        using n rl p by (simp add: sleep_ms_def quiet_def)
      ultimately show ?thesis using Cons.IH [OF run] rl p by (simp add: sleep_ms_def quiet_def)
    qed
  qed
qed


text \<open>The answer is the last query's: the end of the loop is not reached.\<close>

lemma run_query_answer: "run_query query mc = (r, mc') \<Longrightarrow> mc_calls mc' = Suc (mc_calls mc) \<and> r = fst (query (mc_calls mc) mc)"
  by (auto simp: run_query_def split: prod.splits)

lemma retry_left_calls: "clock_ok delay \<Longrightarrow> retry_left delay se deadline started mc = (left, mc') \<Longrightarrow> mc_calls mc' = mc_calls mc"
  using retry_left_live [OF _ _ of_int_floor_le] by (simp add: quiet_def)

lemma retry_loop_answer:
  assumes "clock_ok delay"
  shows "retry_loop delay se deadline query attempts started [k..<attempts] e mc = (r, mc') \<Longrightarrow> k < attempts \<Longrightarrow>
    mc_calls mc < mc_calls mc' \<and> (\<exists>m. r = fst (query (mc_calls mc' - 1) m))"
proof (induction "attempts - k" arbitrary: k e mc)
  case (Suc n)
  have ks: "[k..<attempts] = k # [Suc k..<attempts]" using Suc.prems(2) by (rule upt_conv_Cons)
  obtain x mc1 where q: "run_query query mc = (x, mc1)" by (cases "run_query query mc")
  note ans = run_query_answer [OF q]
  show ?case
  proof (cases "r = x \<and> mc_calls mc' = mc_calls mc1")
    case True
    then show ?thesis using ans by auto
  next
    case False
    then obtain m left mc2 where again: "x = Err (SqlOperational m)" "Suc k < attempts"
      "retry_left delay se deadline started mc1 = (Some left, mc2)"
      "retry_loop delay se deadline query attempts started [Suc k..<attempts] (Some (SqlOperational m))
        (sleep_ms (min left (max 1 (rd_backoff se) * 2 ^ k)) mc2) = (r, mc')"
      using Suc.prems(1) q retry_left_calls [OF assms]
      by (fastforce simp: ks split: sum.splits sql_exception.splits if_splits option.splits prod.splits)
    have "n = attempts - Suc k" using Suc.hyps(2) by simp
    from Suc.hyps(1) [OF this again(4,2)] ans retry_left_calls [OF assms again(3)] show ?thesis
      by (simp add: sleep_ms_def)
  qed
qed simp

text \<open>
  C21. A retried read ends (store.py, _run_sql_retry): it runs its query at least once and at most as often as the
  settings say, all its sleeps together fit the retry budget whatever the backoff, and it answers what the last
  of these queries answered, so that the error after the loop is never raised by it.
\<close>

theorem retries_end:
  assumes "clock_ok delay" "query_ok query" "run_sql_retry delay se deadline query mc = (r, mc')"
  shows "mc_calls mc < mc_calls mc' \<and> mc_calls mc' \<le> mc_calls mc + nat (max 1 (rd_attempts se))
    \<and> sum_list (mc_sleeps mc') - sum_list (mc_sleeps mc) \<le> max 0 (rd_retry_budget se)
    \<and> (\<exists>m. r = fst (query (mc_calls mc' - 1) m))"
proof (cases "rd_retry se")
  case False
  then have "run_query query mc = (r, mc')" using assms(3) by (simp add: run_sql_retry_def)
  then show ?thesis using run_query_props [OF assms(2)] run_query_answer by fastforce
next
  case True
  let ?n = "nat (max 1 (rd_attempts se))"
  obtain started mc1 where t: "tick delay mc = (started, mc1)" by (cases "tick delay mc")
  note q = tick_quiet [OF assms(1) t]
  have loop: "retry_loop delay se deadline query ?n started [0..<?n] None mc1 = (r, mc')"
    using assms(3) True t by (simp add: run_sql_retry_def Let_def)
  have "mc_calls mc' \<le> mc_calls mc1 + length [0..<?n]
      \<and> sum_list (mc_sleeps mc') - sum_list (mc_sleeps mc) \<le> max 0 (rd_retry_budget se)"
    using retry_loop_bounds [OF assms(1,2) loop, of "sum_list (mc_sleeps mc)"] q by (simp add: quiet_def)
  moreover have "0 < ?n" by simp
  note retry_loop_answer [OF assms(1) loop this]
  ultimately show ?thesis using q by (simp add: quiet_def)
qed

lemma run_sql_retry_frame:
  assumes "clock_ok delay" "query_ok query" "run_sql_retry delay se deadline query mc = (r, mc')"
  shows "mc_handler mc' = mc_handler mc \<and> mc_ledger mc' = mc_ledger mc"
proof (cases "rd_retry se")
  case False
  then have "run_query query mc = (r, mc')" using assms(3) by (simp add: run_sql_retry_def)
  from run_query_props [OF assms(2) this] show ?thesis by simp
next
  case True
  obtain started mc1 where t: "tick delay mc = (started, mc1)" by (cases "tick delay mc")
  note q = tick_quiet [OF assms(1) t]
  have "retry_loop delay se deadline query (nat (max 1 (rd_attempts se))) started [0..<nat (max 1 (rd_attempts se))] None mc1 = (r, mc')"
    using assms(3) True t by (simp add: run_sql_retry_def Let_def)
  from retry_loop_bounds [OF assms(1,2) this, of "sum_list (mc_sleeps mc)"] q show ?thesis by (simp add: quiet_def)
qed

section \<open>Guarded reads\<close>

definition entries :: "retrieval_ledger \<Rightarrow> nat" where
  "entries l = length (lg_executed l) + length (lg_timed_out l) + length (lg_skipped l)"

lemma entries_simps [simp]:
  "entries (record_executed a ms n l) = Suc (entries l)" "entries (record_timeout a b l) = Suc (entries l)"
  "entries (record_skip a m rs l) = Suc (entries l)"
  by (simp_all add: entries_def record_executed_def record_timeout_def record_skip_def)

lemma begin_skip:
  assumes "clock_ok delay" "begin_sqlite_deadline delay deadline name requested floor_ms mc = (None, mc')"
  shows "mc_handler mc' = mc_handler mc
    \<and> (\<exists>m. mc_ledger mc' = map_option (record_skip name m RETRIEVAL_REASON_DEADLINE_SKIP) (mc_ledger mc))"
proof -
  obtain started mc1 where t: "tick delay mc = (started, mc1)" by (cases "tick delay mc")
  obtain free mc2 where f: "no_deadline delay deadline mc1 = (free, mc2)" by (cases "no_deadline delay deadline mc1")
  have q2: "quiet mc mc2" using tick_quiet [OF assms(1) t] no_deadline_quiet [OF f assms(1)] quiet_trans by blast
  have "\<not> free" using assms(2) t f by (auto simp: begin_sqlite_deadline_def)
  then obtain d where d: "deadline = Some d" using f by (auto simp: no_deadline_def split: option.splits)
  obtain a mc3 where a: "allows delay d floor_ms mc2 = (a, mc3)" by (cases "allows delay d floor_ms mc2")
  have q3: "quiet mc mc3" using q2 allows_live [OF a assms(1)] quiet_trans by blast
  have mc': "mc' = skip_query delay d name mc3"
    using assms(2) t f d a by (auto simp: begin_sqlite_deadline_def Let_def split: if_splits prod.splits)
  obtain m mc4 where r: "remaining_ms delay d mc3 = (m, mc4)" by (cases "remaining_ms delay d mc3")
  have "quiet mc mc4" using q3 remaining_live [OF r assms(1)] quiet_trans by blast
  then show ?thesis using q3 r by (auto simp: mc' skip_query_def ledger_do_def quiet_def split: option.splits)
qed


lemma finish_entry:
  assumes "mc_ledger mc = Some l" "gd_unbounded g \<longrightarrow> mc_handler mc = None"
  shows "mc_handler (finish_sqlite_deadline delay g mc) = None
    \<and> (\<exists>ms. mc_ledger (finish_sqlite_deadline delay g mc) = Some (record_executed (gd_name g) ms 0 l))"
  using assms by (auto simp: finish_sqlite_deadline_def teardown_def ledger_do_def tick_def Let_def)

lemma absorb_entry:
  assumes "absorb_sqlite_deadline g e mc = (ok, mc')" "mc_ledger mc = Some l" "gd_unbounded g \<longrightarrow> mc_handler mc = None"
  shows "mc_handler mc' = None
    \<and> mc_ledger mc' = Some (if ok then record_timeout (gd_name g) (gd_budget g) l else l)
    \<and> (ok \<longrightarrow> py_contains SQLITE_INTERRUPT_MARKER (py_lower (exc_text e)))"
  using assms by (auto simp: absorb_sqlite_deadline_def teardown_def ledger_do_def Let_def split: if_splits)

text \<open>
  A read leaves the connection as it found it (store.py, _guarded_read): with queries that raise nothing but
  sqlite3.OperationalError and sqlite3.DatabaseError, no progress handler is left installed on any path, the
  skip, the abort, the error and the success; and the turn's ledger has one more entry exactly when the read
  answered, so that an empty answer for want of time is always accounted for.
\<close>

theorem guarded_read_cleans_up:
  assumes "clock_ok delay" "query_ok query" "\<And>n m x. fst (query n m) \<noteq> Err (OtherException x)"
    and "guarded_read delay se deadline name query mc = (r, mc')" "mc_handler mc = None" "mc_ledger mc = Some l"
  shows "mc_handler mc' = None
    \<and> (\<exists>l'. mc_ledger mc' = Some l' \<and> entries l' = entries l + (if is_ok r then 1 else 0))"
proof -
  obtain g mc1 where b: "begin_sqlite_deadline delay deadline name (rd_budget se) (rd_floor se) mc = (g, mc1)"
    by (cases "begin_sqlite_deadline delay deadline name (rd_budget se) (rd_floor se) mc")
  show ?thesis
  proof (cases g)
    case None
    then show ?thesis using begin_skip [OF assms(1), of deadline name "rd_budget se" "rd_floor se" mc mc1] b assms(4-6)
      by (auto simp: guarded_read_def)
  next
    case (Some g')
    note bg = begin_guard [OF assms(1) b [unfolded Some]]
    then have led: "mc_ledger mc1 = Some l" and free: "gd_unbounded g' \<longrightarrow> mc_handler mc1 = None"
      using assms(5,6) by (auto simp: quiet_def)
    obtain x mc2 where x: "run_sql_retry delay se deadline query mc1 = (x, mc2)" by (cases "run_sql_retry delay se deadline query mc1")
    have led2: "mc_ledger mc2 = Some l" and free2: "gd_unbounded g' \<longrightarrow> mc_handler mc2 = None"
      using run_sql_retry_frame [OF assms(1,2) x] led free by auto
    show ?thesis
    proof (cases x)
      case (Inr rows)
      then have "r = Ok rows \<and> mc' = finish_sqlite_deadline delay g' mc2" using assms(4) b Some x by (simp add: guarded_read_def)
      then show ?thesis using finish_entry [OF led2 free2, of delay] by auto
    next
      case (Inl e)
      have "x \<noteq> Err (OtherException m)" for m using retries_end [OF assms(1,2) x] assms(3) by metis
      then have e: "case e of OtherException _ \<Rightarrow> False | _ \<Rightarrow> True" using Inl by (cases e) auto
      obtain ok mc3 where a: "absorb_sqlite_deadline g' e mc2 = (ok, mc3)" by (cases "absorb_sqlite_deadline g' e mc2")
      have "r = (if ok then Ok [] else Err e) \<and> mc' = mc3"
        using assms(4) b Some x Inl a e by (auto simp: guarded_read_def split: sql_exception.splits bool.splits)
      then show ?thesis using absorb_entry [OF a led2 free2] by auto
    qed
  qed
qed

section \<open>Keys and buckets\<close>

text \<open>The order of owners and of flags does not change a retrieval key.\<close>

lemma cache_key_order_free:
  assumes "mset owners = mset owners'" "mset flags = mset flags'" "distinct (map fst flags)"
  shows "retrieval_cache_key kind w owners s p r c e i flags q = retrieval_cache_key kind w owners' s p r c e i flags' q"
proof -
  have "sort owners = sort owners'" using assms(1) by (intro properties_for_sort) (simp_all add: mset_sort)
  moreover have "sort_key fst flags = sort_key fst flags'"
  proof (rule map_sorted_distinct_set_unique)
    have "mset (map fst flags') = mset (map fst flags)" using assms(2) by simp
    then have d: "distinct (map fst flags')" using assms(3) mset_eq_imp_distinct_iff by blast
    have s: "set flags' = set flags" using assms(2) mset_eq_setD by metis
    have "mset (map fst (sort_key fst flags)) = mset (map fst flags)" "mset (map fst (sort_key fst flags')) = mset (map fst flags')"
      by simp_all
    then show "distinct (map fst (sort_key fst flags))" "distinct (map fst (sort_key fst flags'))"
      using assms(3) d mset_eq_imp_distinct_iff by blast+
    show "inj_on fst (set (sort_key fst flags) \<union> set (sort_key fst flags'))" using assms(3) s by (simp add: distinct_map)
    show "set (sort_key fst flags) = set (sort_key fst flags')" using s by simp
  qed simp_all
  ultimately show ?thesis by (simp add: retrieval_cache_key_def)
qed

text \<open>An advisor timeout is a bucket of at least 250 ms; a turn of 3500 ms has fourteen of them.\<close>

lemma advisor_bucket:
  "250 \<le> advisor_timeout_bucket_ms n" "250 \<le> n \<Longrightarrow> advisor_timeout_bucket_ms n \<le> n" "n \<le> m \<Longrightarrow> advisor_timeout_bucket_ms n \<le> advisor_timeout_bucket_ms m"
  by (auto simp: advisor_timeout_bucket_ms_def ADVISOR_TIMEOUT_BUCKET_MS_def intro: max.coboundedI2 zdiv_mono1)

section \<open>A turn to try\<close>

definition sample_clock :: "nat \<Rightarrow> rat" where "sample_clock n = 1 / 1000"

definition busy_ledger :: retrieval_ledger where
  "busy_ledger = record_executed ''first'' 3 0 empty_ledger"

definition sample_machine :: machine where
  "sample_machine = \<lparr>mc_time = 1, mc_reads = 0, mc_handler = None, mc_ledger = Some busy_ledger, mc_sleeps = [], mc_calls = 0\<rparr>"

definition turn_deadline :: deadline where
  "turn_deadline = Deadline 1 100 60 5 ''turn'' None"

definition sample_reads :: read_settings where
  "sample_reads = \<lparr>rd_retry = True, rd_attempts = 2, rd_backoff = 8, rd_retry_budget = 40, rd_budget = 120, rd_floor = 10\<rparr>"

text \<open>Locked on the first call, then interrupted.\<close>

definition slow_query :: "int list query" where
  "slow_query n mc = (if n = 0 then Err (SqlOperational ''database is locked'') else Err (SqlOperational ''interrupted''), 1 / 100)"

definition broken_query :: "pystr \<Rightarrow> int list query" where
  "broken_query msg n mc = (Err (OtherException msg), 1 / 1000)"

lemma sample_clock_ok: "clock_ok sample_clock"
  by (simp add: clock_ok_def sample_clock_def)


lemma slow_query_ok: "query_ok slow_query" "fst (slow_query n m) \<noteq> Err (OtherException x)"
  by (simp_all add: query_ok_def slow_query_def)

theorem child_never_outlives_witness:
  "fst (slice_ms sample_clock (fst (child sample_clock turn_deadline ''retrieval'' (Some 1000) None None sample_machine)) 120
      (sample_machine\<lparr>mc_time := 53 / 50\<rparr>)) \<le> 40"
proof -
  let ?c = "fst (child sample_clock turn_deadline ''retrieval'' (Some 1000) None None sample_machine)"
  let ?m = "sample_machine\<lparr>mc_time := 53 / 50\<rparr>"
  obtain c mc' where c: "child sample_clock turn_deadline ''retrieval'' (Some 1000) None None sample_machine = (c, mc')"
    by (cases "child sample_clock turn_deadline ''retrieval'' (Some 1000) None None sample_machine")
  obtain ms mc2 where ms: "slice_ms sample_clock c 120 ?m = (ms, mc2)" by (cases "slice_ms sample_clock c 120 ?m")
  have "narrower sample_clock turn_deadline c" by (rule narrower.child [OF narrower.root c])
  from child_never_outlives [OF sample_clock_ok this ms] have "ms \<le> remaining_at turn_deadline (53 / 50)" by simp
  moreover have "remaining_at turn_deadline (53 / 50) = 40" by code_simp
  ultimately show ?thesis by (simp add: c ms)
qed

theorem interrupt_within_deadline_witness:
  "\<exists>abort. mc_handler (snd (begin_sqlite_deadline sample_clock (Some turn_deadline) ''q'' 120 10 sample_machine)) = Some abort
    \<and> abort < 1101 / 1000"
proof -
  obtain r mc' where b: "begin_sqlite_deadline sample_clock (Some turn_deadline) ''q'' 120 10 sample_machine = (r, mc')"
    by (cases "begin_sqlite_deadline sample_clock (Some turn_deadline) ''q'' 120 10 sample_machine")
  have "map_option gd_unbounded (fst (begin_sqlite_deadline sample_clock (Some turn_deadline) ''q'' 120 10 sample_machine)) = Some False"
    by code_simp
  then obtain g where g: "r = Some g" "\<not> gd_unbounded g" by (auto simp: b)
  have e: "expires_at turn_deadline + 1 / 1000 = 1101 / 1000" and f: "1 \<le> max 10 (dl_floor turn_deadline)"
    by (simp_all add: turn_deadline_def)
  from interrupt_within_deadline [OF sample_clock_ok b [unfolded g(1)] g(2) f, unfolded e] show ?thesis by (auto simp only: b snd_conv)
qed

theorem retries_end_witness:
  "mc_calls (snd (run_sql_retry sample_clock sample_reads (Some turn_deadline) slow_query sample_machine)) \<in> {1, 2}
    \<and> sum_list (mc_sleeps (snd (run_sql_retry sample_clock sample_reads (Some turn_deadline) slow_query sample_machine))) \<le> 40"
proof -
  obtain r mc' where r: "run_sql_retry sample_clock sample_reads (Some turn_deadline) slow_query sample_machine = (r, mc')"
    by (cases "run_sql_retry sample_clock sample_reads (Some turn_deadline) slow_query sample_machine")
  have "mc_calls sample_machine = 0" "mc_sleeps sample_machine = []" "nat (max 1 (rd_attempts sample_reads)) = 2"
    "max 0 (rd_retry_budget sample_reads) = 40" by (simp_all add: sample_machine_def sample_reads_def)
  with retries_end [OF sample_clock_ok slow_query_ok(1) r] show ?thesis by (auto simp: r)
qed

theorem guarded_read_cleans_up_witness:
  "mc_handler (snd (guarded_read sample_clock sample_reads (Some turn_deadline) ''q'' slow_query sample_machine)) = None
    \<and> map_option entries (mc_ledger (snd (guarded_read sample_clock sample_reads (Some turn_deadline) ''q'' slow_query sample_machine))) = Some 2"
proof -
  obtain r mc' where r: "guarded_read sample_clock sample_reads (Some turn_deadline) ''q'' slow_query sample_machine = (r, mc')"
    by (cases "guarded_read sample_clock sample_reads (Some turn_deadline) ''q'' slow_query sample_machine")
  have "is_ok (fst (guarded_read sample_clock sample_reads (Some turn_deadline) ''q'' slow_query sample_machine))" by code_simp
  then have "is_ok r" by (simp add: r)
  moreover have "mc_handler sample_machine = None" "mc_ledger sample_machine = Some busy_ledger" "entries busy_ledger = 1"
    by (simp_all add: sample_machine_def busy_ledger_def) (simp add: entries_def empty_ledger_def)
  ultimately show ?thesis
    using guarded_read_cleans_up [OF sample_clock_ok slow_query_ok r] by (auto simp: r)
qed

text \<open>
  An exception of another class leaves the handler behind (store.py, _guarded_read): its docstring says that every
  exit path tears the progress handler down, but only sqlite3.OperationalError and sqlite3.DatabaseError are caught;
  any other exception passes with the handler still installed, and the next statement of the connection that runs
  past the old moment, a write included, is interrupted.
\<close>

theorem escaping_exception_keeps_handler:
  "fst (guarded_read sample_clock sample_reads (Some turn_deadline) ''q'' (broken_query msg) sample_machine) = Err (OtherException msg)
    \<and> mc_handler sample_machine = None
    \<and> mc_handler (snd (guarded_read sample_clock sample_reads (Some turn_deadline) ''q'' (broken_query msg) sample_machine)) \<noteq> None"
proof -
  let ?b = "begin_sqlite_deadline sample_clock (Some turn_deadline) ''q'' 120 10 sample_machine"
  have b: "(case ?b of (Some g, mc) \<Rightarrow> \<not> gd_unbounded g \<and> mc_handler mc \<noteq> None | _ \<Rightarrow> False)" by code_simp
  obtain g mc1 where g: "?b = (Some g, mc1)" "mc_handler mc1 \<noteq> None" using b by (auto split: prod.splits option.splits)
  have "(\<exists>mc2. run_sql_retry sample_clock sample_reads (Some turn_deadline) (broken_query msg) mc1 = (Err (OtherException msg), mc2)
      \<and> mc_handler mc2 = mc_handler mc1)"
    by (simp add: run_sql_retry_def sample_reads_def tick_def Let_def upt_conv_Cons run_query_def broken_query_def numeral_2_eq_2)
  then show ?thesis using g by (auto simp: guarded_read_def sample_reads_def sample_machine_def)
qed

end
