(* ===== verification/Dispatch_Store.thy ===== *)
theory Dispatch_Store
  imports Charter_Store
begin

text \<open>
  \<open>services/tce_lite_api/tce_lite_api/dispatch_store.py\<close>: the record of one run of a coding runtime
  under a charter.  Opening one passes the gates (reconcile done, read-only family or a fresh measured
  sandbox), then, under the write lock, takes one of the charter's concurrent slots and reserves money
  against its cap; the post-run accounting closes it.  The columns the accounting writes are a record of
  their own.
\<close>

section \<open>Runtime capabilities (runtime_contract.py)\<close>

definition VERBS :: "pystr list" where
  "VERBS = [''start'', ''observe'', ''resume'', ''interrupt'', ''read_result'', ''capabilities'']"

definition RUNTIME_CAPABILITIES :: "(pystr, (pystr, pystr) dict) dict" where
  "RUNTIME_CAPABILITIES =
     [(''codex/app-server'', [(''start'', ''supported''), (''observe'', ''supported''), (''resume'', ''supported''),
        (''interrupt'', ''supported''), (''read_result'', ''supported''), (''capabilities'', ''supported'')]),
      (''codex/exec'', [(''start'', ''supported''), (''observe'', ''supported''), (''resume'', ''supported''),
        (''interrupt'', ''unsupported''), (''read_result'', ''supported''), (''capabilities'', ''degraded'')]),
      (''claude/stream'', [(''start'', ''supported''), (''observe'', ''supported''), (''resume'', ''supported''),
        (''interrupt'', ''supported''), (''read_result'', ''supported''), (''capabilities'', ''degraded'')]),
      (''claude/oneshot'', [(''start'', ''supported''), (''observe'', ''degraded''), (''resume'', ''supported''),
        (''interrupt'', ''unsupported''), (''read_result'', ''supported''), (''capabilities'', ''degraded'')])]"

datatype runtime_error = UnknownKey pystr | UnsupportedVerb pystr pystr

definition capability_matrix_json :: "pystr \<Rightarrow> (runtime_error, (pystr, pystr) dict) result" where
  "capability_matrix_json surface = (case dict_get RUNTIME_CAPABILITIES surface of
     None \<Rightarrow> Err (UnknownKey surface) | Some m \<Rightarrow> Ok m)"

definition require_verb :: "pystr \<Rightarrow> pystr \<Rightarrow> (runtime_error, unit) result" where
  "require_verb surface verb = res_bind (capability_matrix_json surface) (\<lambda>m. case dict_get m verb of
     None \<Rightarrow> Err (UnknownKey verb)
   | Some support \<Rightarrow> if support = ''unsupported'' then Err (UnsupportedVerb surface verb) else Ok ())"

section \<open>Rows\<close>

record dispatch_accounting =
  da_outcome :: "pystr option"
  da_terminal :: "pystr option"
  da_wall :: "int option"
  da_interventions :: int
  da_cost :: "int option"
  da_source :: "pystr option"
  da_input :: int
  da_output :: int
  da_cached :: int
  da_reasoning :: int
  da_finished :: "pystr option"
  da_reconciled :: "pystr option"

record dispatch_row =
  dp_id :: pystr
  dp_workspace :: pystr
  dp_owner :: pystr
  dp_session :: pystr
  dp_task :: "pystr option"
  dp_directive :: pystr
  dp_attempt :: int
  dp_charter :: pystr
  dp_charter_digest :: pystr
  dp_claimed_by :: pystr
  dp_tier :: pystr
  dp_provider :: pystr
  dp_profile :: "pystr option"
  dp_self_test :: "pystr option"
  dp_runtime :: pystr
  dp_runtime_version :: pystr
  dp_surface :: pystr
  dp_model :: pystr
  dp_contract :: pystr
  dp_matrix :: "(pystr, pystr) dict"
  dp_run :: "pystr option"
  dp_turn :: "pystr option"
  dp_family :: pystr
  dp_reserved :: int
  dp_currency :: pystr
  dp_enforcement :: pystr
  dp_cap_applied :: "int option"
  dp_accounting :: dispatch_accounting
  dp_started :: "pystr option"
  dp_created :: pystr
  dp_updated :: pystr

record self_test_row =
  sf_id :: pystr
  sf_workspace :: pystr
  sf_host :: pystr
  sf_provider :: pystr
  sf_version :: pystr
  sf_digest :: pystr
  sf_assertions :: "py list"
  sf_passed :: bool
  sf_uid_separation :: bool
  sf_ran_at :: pystr

text \<open>The columns of \<open>directive_executions\<close> that a dispatch writes.\<close>

record directive_link =
  dk_directive :: pystr
  dk_dispatch :: "pystr option"
  dk_charter :: "pystr option"
  dk_updated :: pystr

record dispatch_db =
  dd_dispatches :: "dispatch_row list"
  dd_self_tests :: "self_test_row list"
  dd_directives :: "directive_link list"

record dispatch_settings =
  ds_max_age :: int
  ds_default_minor_units :: int
  ds_currency :: pystr

record dispatch_auth = auth_context +
  au_consumer :: pystr

record dispatch_body =
  ob_session :: pystr
  ob_directive :: pystr
  ob_task :: "pystr option"
  ob_attempt :: int
  ob_runtime :: pystr
  ob_runtime_version :: pystr
  ob_surface :: pystr
  ob_model :: pystr
  ob_contract :: pystr
  ob_family :: pystr
  ob_tier :: pystr
  ob_provider :: pystr
  ob_profile :: "pystr option"
  ob_run :: pystr
  ob_turn :: "pystr option"
  ob_request :: "int option"

datatype dispatch_fault = ReconcilePending | FamilyNotReadOnly pystr | SelfTestMissing | SelfTestFailed | SelfTestStale pystr
  | SelfTestDigest pystr pystr | BadTime value_error | ConcurrencyExceeded int | BudgetRefused budget_error
  | BadSurface runtime_error | UniqueDispatch | DispatchNotFound | BadReconciliation value_error

text \<open>
  What \<open>_dispatch_response\<close> reports: the row with its nullable columns normalised (\<open>or ''\<close>,
  \<open>if ... else None\<close>), and the time of the answer.
\<close>

type_synonym dispatch_response = "dispatch_row \<times> pystr"

definition dispatch_response :: "dispatch_row \<Rightarrow> datetime \<Rightarrow> dispatch_response" where
  "dispatch_response r now =
     (let a = dp_accounting r in
      (r\<lparr>dp_attempt := (if dp_attempt r = 0 then 1 else dp_attempt r), dp_profile := text_or_none (dp_profile r),
         dp_self_test := text_or_none (dp_self_test r), dp_run := text_or_none (dp_run r), dp_turn := text_or_none (dp_turn r),
         dp_family := or_else (dp_family r) ''unspecified'', dp_currency := or_else (dp_currency r) ''USD'',
         dp_enforcement := or_else (dp_enforcement r) ''unsupported'', dp_started := text_or_none (dp_started r),
         dp_accounting := a\<lparr>da_source := text_or_none (da_source a), da_outcome := text_or_none (da_outcome a),
           da_terminal := text_or_none (da_terminal a), da_finished := text_or_none (da_finished a),
           da_reconciled := text_or_none (da_reconciled a)\<rparr>\<rparr>, isoformat now))"

section \<open>Queries\<close>

definition dispatch_open :: "pystr \<Rightarrow> pystr \<Rightarrow> dispatch_row \<Rightarrow> bool" where
  "dispatch_open w ow r = (dp_workspace r = w \<and> dp_owner r = ow \<and> da_finished (dp_accounting r) = None)"

definition open_reservation_total :: "dispatch_db \<Rightarrow> pystr \<Rightarrow> pystr \<Rightarrow> int" where
  "open_reservation_total db w ow = sum_list (map dp_reserved (filter (dispatch_open w ow) (dd_dispatches db)))"

definition open_dispatch_count :: "dispatch_db \<Rightarrow> pystr \<Rightarrow> pystr \<Rightarrow> int" where
  "open_dispatch_count db w ow = int (length (filter (dispatch_open w ow) (dd_dispatches db)))"

text \<open>\<open>ORDER BY ran_at DESC LIMIT 1\<close>, on the text of the column.\<close>

definition latest_self_test :: "dispatch_db \<Rightarrow> pystr \<Rightarrow> pystr \<Rightarrow> self_test_row option" where
  "latest_self_test db w provider =
     fold (\<lambda>r best. case best of None \<Rightarrow> Some r | Some b \<Rightarrow> if sf_ran_at b < sf_ran_at r then Some r else best)
       (filter (\<lambda>r. sf_workspace r = w \<and> sf_provider r = provider) (dd_self_tests db)) None"

definition record_self_test :: "self_test_row \<Rightarrow> datetime \<Rightarrow> dispatch_db \<Rightarrow> dispatch_db" where
  "record_self_test body now db = db\<lparr>dd_self_tests := dd_self_tests db @ [body\<lparr>sf_ran_at := isoformat now\<rparr>]\<rparr>"

section \<open>Opening\<close>

text \<open>The checks before the section: the identifier of the self-test the run rests on, none for \<open>advisory\<close>.\<close>

definition dispatch_gates ::
  "bool \<Rightarrow> dispatch_settings \<Rightarrow> dispatch_auth \<Rightarrow> dispatch_body \<Rightarrow> datetime \<Rightarrow> dispatch_db \<Rightarrow> (dispatch_fault, pystr option) result" where
  "dispatch_gates reconciled se auth b now db =
     (if \<not> reconciled then Err ReconcilePending
      else if ob_tier b = ''advisory'' \<and> ob_family b \<notin> set READ_ONLY_TASK_FAMILIES then Err (FamilyNotReadOnly (ob_family b))
      else if ob_tier b = ''advisory'' then Ok None
      else (case latest_self_test db (au_workspace auth) (ob_provider b) of
          None \<Rightarrow> Err SelfTestMissing
        | Some t \<Rightarrow>
            if \<not> sf_passed t then Err SelfTestFailed
            else res_bind (map_error BadTime (parse_dt (PStr (sf_ran_at t)))) (\<lambda>ran_at.
              res_bind (map_error BadTime (dt_less (dt_plus_seconds ran_at (max 1 (ds_max_age se))) now)) (\<lambda>stale.
              if stale then Err (SelfTestStale (sf_ran_at t))
              else if sf_digest t \<noteq> (case ob_profile b of None \<Rightarrow> [] | Some d \<Rightarrow> d)
              then Err (SelfTestDigest (sf_digest t) (case ob_profile b of None \<Rightarrow> [] | Some d \<Rightarrow> d))
              else Ok (Some (sf_id t))))))"

definition no_accounting :: dispatch_accounting where
  "no_accounting = \<lparr>da_outcome = None, da_terminal = None, da_wall = None, da_interventions = 0, da_cost = None, da_source = None,
     da_input = 0, da_output = 0, da_cached = 0, da_reasoning = 0, da_finished = None, da_reconciled = None\<rparr>"

definition new_dispatch ::
  "pystr \<Rightarrow> dispatch_auth \<Rightarrow> charter \<Rightarrow> pystr option \<Rightarrow> dispatch_body \<Rightarrow> (pystr, pystr) dict \<Rightarrow> reservation \<Rightarrow> datetime \<Rightarrow> dispatch_row" where
  "new_dispatch uuid auth c self_test b matrix r now =
     \<lparr>dp_id = uuid, dp_workspace = au_workspace auth, dp_owner = au_user auth, dp_session = or_else (ob_session b) ''default'',
      dp_task = ob_task b, dp_directive = ob_directive b, dp_attempt = ob_attempt b, dp_charter = ch_id c,
      dp_charter_digest = ch_digest c, dp_claimed_by = au_consumer auth, dp_tier = ob_tier b, dp_provider = ob_provider b,
      dp_profile = ob_profile b, dp_self_test = self_test, dp_runtime = ob_runtime b, dp_runtime_version = ob_runtime_version b,
      dp_surface = ob_surface b, dp_model = ob_model b, dp_contract = ob_contract b, dp_matrix = matrix, dp_run = Some (ob_run b),
      dp_turn = ob_turn b, dp_family = or_else (ob_family b) ''unspecified'', dp_reserved = rv_reserved r,
      dp_currency = rv_currency r, dp_enforcement = rv_enforcement r, dp_cap_applied = rv_cap_applied r,
      dp_accounting = no_accounting, dp_started = Some (isoformat now), dp_created = isoformat now, dp_updated = isoformat now\<rparr>"

definition insert_dispatch :: "dispatch_row \<Rightarrow> dispatch_db \<Rightarrow> (dispatch_fault, dispatch_db) result" where
  "insert_dispatch row db =
     (if list_ex (\<lambda>r. dp_id r = dp_id row \<or> (dp_directive r = dp_directive row \<and> dp_attempt r = dp_attempt row)) (dd_dispatches db)
      then Err UniqueDispatch else Ok (db\<lparr>dd_dispatches := dd_dispatches db @ [row]\<rparr>))"

definition link_directive :: "dispatch_row \<Rightarrow> pystr \<Rightarrow> dispatch_db \<Rightarrow> dispatch_db" where
  "link_directive row stamp db = db\<lparr>dd_directives := map (\<lambda>d. if dk_directive d = dp_directive row
     then d\<lparr>dk_dispatch := Some (dp_id row), dk_charter := Some (dp_charter row), dk_updated := stamp\<rparr> else d) (dd_directives db)\<rparr>"

definition find_dispatch :: "dispatch_db \<Rightarrow> pystr \<Rightarrow> int \<Rightarrow> dispatch_row option" where
  "find_dispatch db directive attempt = find (\<lambda>r. dp_directive r = directive \<and> dp_attempt r = attempt) (dd_dispatches db)"

text \<open>The write-locked section.\<close>

definition open_section ::
  "dispatch_settings \<Rightarrow> pystr \<Rightarrow> dispatch_auth \<Rightarrow> charter \<Rightarrow> pystr option \<Rightarrow> dispatch_body \<Rightarrow> datetime \<Rightarrow> dispatch_db
    \<Rightarrow> (dispatch_fault, dispatch_response \<times> dispatch_db) result" where
  "open_section se uuid auth c self_test b now db =
     (let w = au_workspace auth; ow = au_user auth in
      case find_dispatch db (ob_directive b) (ob_attempt b) of
        Some r \<Rightarrow> Ok (dispatch_response r now, db)
      | None \<Rightarrow>
          if cc_concurrent (ch_caps c) \<le> open_dispatch_count db w ow
          then Err (ConcurrencyExceeded (cc_concurrent (ch_caps c)))
          else res_bind (map_error BudgetRefused (reserve (cc_budget (ch_caps c)) (open_reservation_total db w ow)
              (case ob_request b of Some n \<Rightarrow> n | None \<Rightarrow> ds_default_minor_units se) (ds_currency se) (ob_surface b))) (\<lambda>r.
            res_bind (map_error BadSurface (capability_matrix_json (ob_surface b))) (\<lambda>matrix.
            let row = new_dispatch uuid auth c self_test b matrix r now in
            res_bind (insert_dispatch row db) (\<lambda>db'.
            Ok (dispatch_response row now, link_directive row (isoformat now) db')))))"

text \<open>\<open>others\<close> is what other connections commit between the self-test query and the write lock.\<close>

definition open_dispatch ::
  "(dispatch_db \<Rightarrow> dispatch_db) \<Rightarrow> bool \<Rightarrow> dispatch_settings \<Rightarrow> pystr \<Rightarrow> dispatch_auth \<Rightarrow> charter \<Rightarrow> dispatch_body \<Rightarrow> datetime
    \<Rightarrow> dispatch_db \<Rightarrow> (dispatch_fault, dispatch_response \<times> dispatch_db) result" where
  "open_dispatch others reconciled se uuid auth c b now db =
     res_bind (dispatch_gates reconciled se auth b now db) (\<lambda>self_test.
       open_section se uuid auth c self_test b now (others db))"

section \<open>Afterwards\<close>

definition bind_provider_run :: "pystr \<Rightarrow> pystr \<Rightarrow> pystr option \<Rightarrow> datetime \<Rightarrow> dispatch_db \<Rightarrow> dispatch_db" where
  "bind_provider_run dispatch_id run turn now db = db\<lparr>dd_dispatches := map (\<lambda>r. if dp_id r = dispatch_id
     then r\<lparr>dp_run := Some run, dp_turn := turn, dp_updated := isoformat now\<rparr> else r) (dd_dispatches db)\<rparr>"

record reconcile_body =
  rb_outcome :: pystr
  rb_terminal :: pystr
  rb_wall :: int
  rb_interventions :: int
  rb_reconciliation :: "(pystr \<times> py) list"

definition account :: "reconcile_body \<Rightarrow> reconciliation \<Rightarrow> pystr \<Rightarrow> dispatch_row \<Rightarrow> dispatch_row" where
  "account b rc stamp r = r\<lparr>dp_accounting := \<lparr>da_outcome = Some (rb_outcome b), da_terminal = Some (rb_terminal b),
       da_wall = Some (rb_wall b), da_interventions = rb_interventions b, da_cost = Some (rc_cost rc), da_source = Some (rc_source rc),
       da_input = rc_input rc, da_output = rc_output rc, da_cached = rc_cached rc, da_reasoning = rc_reasoning rc,
       da_finished = (case da_finished (dp_accounting r) of None \<Rightarrow> Some stamp | Some t \<Rightarrow> Some t), da_reconciled = Some stamp\<rparr>,
     dp_updated := stamp\<rparr>"

definition reconcile_dispatch ::
  "pystr \<Rightarrow> reconcile_body \<Rightarrow> datetime \<Rightarrow> dispatch_db \<Rightarrow> (dispatch_fault, dispatch_response \<times> dispatch_db) result" where
  "reconcile_dispatch dispatch_id b now db = (case find (\<lambda>r. dp_id r = dispatch_id) (dd_dispatches db) of
       None \<Rightarrow> Err DispatchNotFound
     | Some row \<Rightarrow> res_bind (map_error BadReconciliation (reconciliation_from_json (rb_reconciliation b))) (\<lambda>rc.
         Ok (dispatch_response (account b rc (isoformat now) row) now,
             db\<lparr>dd_dispatches := map (\<lambda>r. if dp_id r = dispatch_id then account b rc (isoformat now) r else r) (dd_dispatches db)\<rparr>)))"

definition load_dispatch :: "dispatch_db \<Rightarrow> pystr \<Rightarrow> pystr \<Rightarrow> (dispatch_fault, dispatch_response option) result" where
  "load_dispatch db dispatch_id w = (case find (\<lambda>r. dp_id r = dispatch_id \<and> dp_workspace r = w) (dd_dispatches db) of
       None \<Rightarrow> Ok None
     | Some r \<Rightarrow> res_bind (map_error BadTime (parse_dt (PStr (dp_updated r)))) (\<lambda>t. Ok (Some (dispatch_response r t))))"

text \<open>One committed section of a serving process.\<close>

inductive dispatch_step :: "(charter \<Rightarrow> pystr \<Rightarrow> pystr \<Rightarrow> bool) \<Rightarrow> dispatch_db \<Rightarrow> dispatch_db \<Rightarrow> bool" for granted where
  opened: "granted c (au_workspace auth) (au_user auth) \<Longrightarrow> open_section se uuid auth c self_test b now db = Ok (resp, db')
    \<Longrightarrow> dispatch_step granted db db'"
| bound: "dispatch_step granted db (bind_provider_run dispatch_id run turn now db)"
| accounted: "reconcile_dispatch dispatch_id rb now db = Ok (resp, db') \<Longrightarrow> dispatch_step granted db db'"
| tested: "dispatch_step granted db (record_self_test body now db)"

end
