(* ===== verification/Dispatch_Facts.thy ===== *)
theory Dispatch_Facts
  imports Dispatch_Store
begin

text \<open>
  What dispatching promises in every run of its committed sections: the open reservations and the open
  dispatches of an owner stay within the caps of the charters used, a retried request finds the record it
  made, nothing opens without its gates, and the accounting frees what was reserved.
\<close>

section \<open>Totals\<close>

definition caps_ok :: "int \<Rightarrow> int \<Rightarrow> pystr \<Rightarrow> pystr \<Rightarrow> dispatch_db \<Rightarrow> bool" where
  "caps_ok B N w ow db = (list_all (\<lambda>r. 0 \<le> dp_reserved r) (dd_dispatches db)
     \<and> open_reservation_total db w ow \<le> B \<and> open_dispatch_count db w ow \<le> N)"

definition caps_within :: "int \<Rightarrow> int \<Rightarrow> pystr \<Rightarrow> pystr \<Rightarrow> charter \<Rightarrow> pystr \<Rightarrow> pystr \<Rightarrow> bool" where
  "caps_within B N w ow c w' ow' = (w' = w \<and> ow' = ow \<longrightarrow> cc_budget (ch_caps c) \<le> B \<and> cc_concurrent (ch_caps c) \<le> N)"

text \<open>An update that keeps the reservation and opens nothing.\<close>

definition closes_only :: "(dispatch_row \<Rightarrow> dispatch_row) \<Rightarrow> bool" where
  "closes_only f = (\<forall>r. dp_reserved (f r) = dp_reserved r \<and> dp_id (f r) = dp_id r \<and> dp_directive (f r) = dp_directive r
     \<and> dp_attempt (f r) = dp_attempt r \<and> (\<forall>w ow. dispatch_open w ow (f r) \<longrightarrow> dispatch_open w ow r))"

lemma closes_only_totals:
  assumes "closes_only f" "list_all (\<lambda>r. 0 \<le> dp_reserved r) xs"
  shows "sum_list (map dp_reserved (filter (dispatch_open w ow) (map f xs))) \<le> sum_list (map dp_reserved (filter (dispatch_open w ow) xs))"
    and "length (filter (dispatch_open w ow) (map f xs)) \<le> length (filter (dispatch_open w ow) xs)"
  using assms by (induction xs) (auto simp: closes_only_def)

lemma caps_ok_map:
  assumes "caps_ok B N w ow db" "closes_only f"
  shows "caps_ok B N w ow (db\<lparr>dd_dispatches := map f (dd_dispatches db)\<rparr>)"
  using assms closes_only_totals [OF assms(2), of "dd_dispatches db" w ow]
  by (auto simp: caps_ok_def open_reservation_total_def open_dispatch_count_def list_all_iff closes_only_def)

lemma closes_only_account: "closes_only (\<lambda>r. if dp_id r = i then account b rc stamp r else r)"
  by (auto simp: closes_only_def account_def dispatch_open_def split: option.splits)

lemma closes_only_bind: "closes_only (\<lambda>r. if dp_id r = i then r\<lparr>dp_run := run, dp_turn := turn, dp_updated := stamp\<rparr> else r)"
  by (auto simp: closes_only_def dispatch_open_def)

lemma open_sectionE:
  assumes "open_section se uuid auth c self_test b now db = Ok (resp, db')"
  obtains (replay) r where "find_dispatch db (ob_directive b) (ob_attempt b) = Some r" "resp = dispatch_response r now" "db' = db"
  | (new) rv matrix db1 where "find_dispatch db (ob_directive b) (ob_attempt b) = None"
      "open_dispatch_count db (au_workspace auth) (au_user auth) < cc_concurrent (ch_caps c)"
      "reserve (cc_budget (ch_caps c)) (open_reservation_total db (au_workspace auth) (au_user auth))
         (case ob_request b of Some n \<Rightarrow> n | None \<Rightarrow> ds_default_minor_units se) (ds_currency se) (ob_surface b) = Ok rv"
      "insert_dispatch (new_dispatch uuid auth c self_test b matrix rv now) db = Ok db1"
      "resp = dispatch_response (new_dispatch uuid auth c self_test b matrix rv now) now"
      "db' = link_directive (new_dispatch uuid auth c self_test b matrix rv now) (isoformat now) db1"
proof (cases "find_dispatch db (ob_directive b) (ob_attempt b)")
  case None
  with assms show ?thesis
    by (auto simp: open_section_def Let_def res_bind_Ok_iff map_error_Ok_iff split: if_split_asm intro: new)
next
  case (Some r)
  with assms show ?thesis by (auto simp: open_section_def Let_def intro: replay)
qed

lemma insert_dispatch_Ok: "insert_dispatch row db = Ok db' \<Longrightarrow> db' = db\<lparr>dd_dispatches := dd_dispatches db @ [row]\<rparr>"
  by (auto simp: insert_dispatch_def split: if_split_asm)

lemma new_dispatch_simps [simp]:
  "dp_id (new_dispatch uuid auth c st b m r now) = uuid" "dp_reserved (new_dispatch uuid auth c st b m r now) = rv_reserved r"
  "dp_directive (new_dispatch uuid auth c st b m r now) = ob_directive b" "dp_attempt (new_dispatch uuid auth c st b m r now) = ob_attempt b"
  "dp_tier (new_dispatch uuid auth c st b m r now) = ob_tier b" "dp_self_test (new_dispatch uuid auth c st b m r now) = st"
  "dp_charter (new_dispatch uuid auth c st b m r now) = ch_id c"
  "dispatch_open w ow (new_dispatch uuid auth c st b m r now) = (au_workspace auth = w \<and> au_user auth = ow)"
  by (simp_all add: new_dispatch_def dispatch_open_def no_accounting_def)

lemma link_directive_dispatches [simp]: "dd_dispatches (link_directive row stamp db) = dd_dispatches db"
  by (simp add: link_directive_def)

lemma open_section_caps:
  assumes "open_section se uuid auth c self_test b now db = Ok (resp, db')" "caps_within B N w ow c (au_workspace auth) (au_user auth)"
    "caps_ok B N w ow db"
  shows "caps_ok B N w ow db'"
  using assms(1)
proof (cases rule: open_sectionE)
  case (new rv matrix db1)
  note r = reserve_OkE [OF new(3)]
  have d: "dd_dispatches db' = dd_dispatches db @ [new_dispatch uuid auth c self_test b matrix rv now]"
    using new(6) insert_dispatch_Ok [OF new(4)] by simp
  have "0 \<le> rv_reserved rv" using r by simp
  moreover have "open_reservation_total db' w ow \<le> B" "open_dispatch_count db' w ow \<le> N"
    using assms(2,3) new(2) r
    by (auto simp: caps_ok_def caps_within_def open_reservation_total_def open_dispatch_count_def d)
  ultimately show ?thesis using assms(3) by (simp add: caps_ok_def d)
qed (use assms in simp)

lemma dispatch_step_caps:
  "dispatch_step (caps_within B N w ow) db db' \<Longrightarrow> caps_ok B N w ow db \<Longrightarrow> caps_ok B N w ow db'"
proof (induction rule: dispatch_step.induct)
  case (opened c auth se uuid self_test b now db resp db')
  then show ?case using open_section_caps by blast
next
  case (bound db i run turn now)
  then show ?case unfolding bind_provider_run_def by (rule caps_ok_map) (rule closes_only_bind)
next
  case (accounted i rb now db resp db')
  then obtain rc where "db' = db\<lparr>dd_dispatches := map (\<lambda>r. if dp_id r = i then account rb rc (isoformat now) r else r) (dd_dispatches db)\<rparr>"
    by (auto simp: reconcile_dispatch_def res_bind_Ok_iff split: option.splits)
  with accounted(2) show ?case using caps_ok_map closes_only_account by metis
next
  case (tested db body now)
  then show ?case by (simp add: caps_ok_def open_reservation_total_def open_dispatch_count_def record_self_test_def)
qed

interpretation dispatches: invariant_step "dispatch_step (caps_within B N w ow)" "caps_ok B N w ow" for B N w ow
  by unfold_locales (rule dispatch_step_caps)

text \<open>
  C18. The caps hold whatever the interleaving (dispatch_store.py, open_dispatch and reconcile_dispatch; budget.py,
  reserve): as long as every dispatch of an owner is opened under a charter with a budget of at most B and at
  most N concurrent dispatches, its open reservations never sum to more than B and it never has more than N
  dispatches open, in any sequence of openings, bindings, accountings and self-tests of any owners.
\<close>

theorem dispatch_caps_hold:
  assumes "(dispatch_step (caps_within B N w ow))\<^sup>*\<^sup>* db db'" "caps_ok B N w ow db"
  shows "open_reservation_total db' w ow \<le> B \<and> open_dispatch_count db' w ow \<le> N"
  using dispatches.reach_keeps [OF assms] by (simp add: caps_ok_def)

definition sample_charter :: charter where
  "sample_charter = \<lparr>ch_id = ''c'', ch_workspace = ''W'', ch_owner = ''O'', ch_project = None, ch_version = ''v1'', ch_policy = [],
     ch_status = ''active'', ch_tier = CONTAINER, ch_roots = [''src''], ch_protected = [], ch_denied = [], ch_capabilities = [],
     ch_confirm = [], ch_egress = DENY_ALL, ch_runtimes = [],
     ch_caps = \<lparr>cc_attempts = 3, cc_concurrent = 1, cc_wall = 60, cc_budget = 500, cc_currency = ''USD'', cc_spend = ''unsupported''\<rparr>,
     ch_approved_by = ''O'', ch_approved_at = Aware 0 0, ch_expires_at = Aware 9000000 0, ch_revoked_at = None, ch_narrowings = [],
     ch_digest = ''g'', ch_schema = ''v1'', ch_risk_ack = False\<rparr>"

definition sample_dispatcher :: dispatch_auth where
  "sample_dispatcher = \<lparr>au_workspace = ''W'', au_user = ''O'', au_subject = ''O'', au_consumer = ''x''\<rparr>"

definition sample_request :: dispatch_body where
  "sample_request = \<lparr>ob_session = ''S'', ob_directive = ''d'', ob_task = None, ob_attempt = 1, ob_runtime = ''claude'',
     ob_runtime_version = ''1'', ob_surface = ''claude/stream'', ob_model = [], ob_contract = [], ob_family = ''read_only_review'',
     ob_tier = ''advisory'', ob_provider = ''none'', ob_profile = None, ob_run = ''r'', ob_turn = None, ob_request = None\<rparr>"

definition sample_dispatch_settings :: dispatch_settings where
  "sample_dispatch_settings = \<lparr>ds_max_age = 3600, ds_default_minor_units = 200, ds_currency = ''USD''\<rparr>"

definition no_dispatches :: dispatch_db where
  "no_dispatches = \<lparr>dd_dispatches = [], dd_self_tests = [], dd_directives = []\<rparr>"

definition sample_reservation :: reservation where
  "sample_reservation = \<lparr>rv_reserved = 200, rv_currency = ''USD'', rv_enforcement = ''estimated'', rv_cap_applied = None\<rparr>"

definition sample_dispatch :: dispatch_row where
  "sample_dispatch = new_dispatch ''u'' sample_dispatcher sample_charter None sample_request
     (the (dict_get RUNTIME_CAPABILITIES ''claude/stream'')) sample_reservation (Aware 0 0)"

lemma sample_opens:
  "open_section sample_dispatch_settings ''u'' sample_dispatcher sample_charter None sample_request (Aware 0 0) no_dispatches
    = Ok (dispatch_response sample_dispatch (Aware 0 0), no_dispatches\<lparr>dd_dispatches := [sample_dispatch]\<rparr>)"
  by (simp add: open_section_def Let_def no_dispatches_def find_dispatch_def open_dispatch_count_def open_reservation_total_def
      sample_charter_def sample_request_def sample_dispatch_settings_def reserve_def spend_enforcement_for_def
      SPEND_ENFORCEMENT_BY_SURFACE_def enforcement_literal_def capability_matrix_json_def RUNTIME_CAPABILITIES_def
      insert_dispatch_def link_directive_def sample_dispatch_def sample_reservation_def or_else_def)

theorem dispatch_caps_hold_witness:
  "open_reservation_total (no_dispatches\<lparr>dd_dispatches := [sample_dispatch]\<rparr>) ''W'' ''O'' \<le> 500
    \<and> open_dispatch_count (no_dispatches\<lparr>dd_dispatches := [sample_dispatch]\<rparr>) ''W'' ''O'' \<le> 1"
proof (rule dispatch_caps_hold)
  have "caps_within 500 1 ''W'' ''O'' sample_charter (au_workspace sample_dispatcher) (au_user sample_dispatcher)"
    by (simp add: caps_within_def sample_charter_def)
  from dispatch_step.opened [of "caps_within 500 1 ''W'' ''O''", OF this sample_opens]
  show "(dispatch_step (caps_within 500 1 ''W'' ''O''))\<^sup>*\<^sup>* no_dispatches (no_dispatches\<lparr>dd_dispatches := [sample_dispatch]\<rparr>)"
    by (rule r_into_rtranclp)
  show "caps_ok 500 1 ''W'' ''O'' no_dispatches"
    by (simp add: caps_ok_def no_dispatches_def open_reservation_total_def open_dispatch_count_def)
qed

section \<open>Retries\<close>

definition same_dispatch :: "dispatch_row \<Rightarrow> dispatch_row \<Rightarrow> bool" where
  "same_dispatch r s = (dp_id s = dp_id r \<and> dp_reserved s = dp_reserved r)"

lemma find_dispatch_map:
  assumes "closes_only f" "find_dispatch db d n = Some r"
  shows "find_dispatch (db\<lparr>dd_dispatches := map f (dd_dispatches db)\<rparr>) d n = Some (f r)"
proof -
  have "find P xs = Some r \<Longrightarrow> (\<And>x. P (f x) = P x) \<Longrightarrow> find P (map f xs) = Some (f r)" for P xs
    by (induction xs) (auto split: if_split_asm)
  then show ?thesis using assms by (simp add: find_dispatch_def closes_only_def)
qed

lemma find_dispatch_step:
  assumes "dispatch_step granted db db'" "find_dispatch db d n = Some r"
  shows "\<exists>s. find_dispatch db' d n = Some s \<and> same_dispatch r s"
  using assms
proof (induction rule: dispatch_step.induct)
  case (opened c auth se uuid self_test b now db resp db')
  from opened(2) show ?case
  proof (cases rule: open_sectionE)
    case (new rv matrix db1)
    have "dd_dispatches db' = dd_dispatches db @ [new_dispatch uuid auth c self_test b matrix rv now]"
      using new(6) insert_dispatch_Ok [OF new(4)] by simp
    then show ?thesis using opened(3) by (simp add: find_dispatch_def find_snoc same_dispatch_def)
  qed (use opened in \<open>simp add: same_dispatch_def\<close>)
next
  case (bound db i run turn now)
  then show ?case
    using find_dispatch_map [OF closes_only_bind] by (auto simp: bind_provider_run_def same_dispatch_def)
next
  case (accounted i rb now db resp db')
  then obtain rc where "db' = db\<lparr>dd_dispatches := map (\<lambda>r. if dp_id r = i then account rb rc (isoformat now) r else r) (dd_dispatches db)\<rparr>"
    by (auto simp: reconcile_dispatch_def res_bind_Ok_iff split: option.splits)
  then show ?case
    using find_dispatch_map [OF closes_only_account accounted(2)] by (auto simp: same_dispatch_def account_def)
next
  case (tested db body now)
  then show ?case by (simp add: find_dispatch_def record_self_test_def same_dispatch_def)
qed

lemma find_dispatch_run:
  "(dispatch_step granted)\<^sup>*\<^sup>* db db' \<Longrightarrow> find_dispatch db d n = Some r \<Longrightarrow> \<exists>s. find_dispatch db' d n = Some s \<and> same_dispatch r s"
proof (induction rule: rtranclp_induct)
  case base
  then show ?case by (simp add: same_dispatch_def)
next
  case (step y z)
  then obtain t where "find_dispatch y d n = Some t" "same_dispatch r t" by blast
  with find_dispatch_step [OF step.hyps(2)] show ?case by (force simp: same_dispatch_def)
qed

lemma open_section_finds:
  assumes "open_section se uuid auth c self_test b now db = Ok (resp, db')"
  shows "\<exists>r. find_dispatch db' (ob_directive b) (ob_attempt b) = Some r \<and> resp = dispatch_response r now"
  using assms
proof (cases rule: open_sectionE)
  case (new rv matrix db1)
  have "dd_dispatches db' = dd_dispatches db @ [new_dispatch uuid auth c self_test b matrix rv now]"
    using new(6) insert_dispatch_Ok [OF new(4)] by simp
  with new(1,5) show ?thesis by (simp add: find_dispatch_def find_snoc)
qed simp

text \<open>
  A retried request finds its record (dispatch_store.py, open_dispatch): once a dispatch has been opened for a
  directive and attempt, then after any run every later opening for the same two answers with that record,
  whatever its identifier, charter, caps or amount, and writes nothing: no second reservation is made.
\<close>

theorem dispatch_retry_replays:
  assumes "open_section se uuid auth c st b now db = Ok (resp, db1)" "(dispatch_step granted)\<^sup>*\<^sup>* db1 db2"
    and "ob_directive b' = ob_directive b" "ob_attempt b' = ob_attempt b"
  shows "\<exists>r s. resp = dispatch_response r now \<and> same_dispatch r s
    \<and> open_section se' uuid' auth' c' st' b' later db2 = Ok (dispatch_response s later, db2)"
proof -
  from open_section_finds [OF assms(1)] obtain r where
    r: "find_dispatch db1 (ob_directive b) (ob_attempt b) = Some r" "resp = dispatch_response r now" by blast
  from find_dispatch_run [OF assms(2) r(1)] obtain s where
    "find_dispatch db2 (ob_directive b) (ob_attempt b) = Some s" "same_dispatch r s" by blast
  then show ?thesis using r(2) assms(3,4) by (auto simp: open_section_def Let_def)
qed

theorem dispatch_retry_replays_witness:
  "\<exists>s. open_section sample_dispatch_settings ''v'' sample_dispatcher sample_charter None sample_request (Aware 5000000 0)
      (no_dispatches\<lparr>dd_dispatches := [sample_dispatch]\<rparr>)
    = Ok (dispatch_response s (Aware 5000000 0), no_dispatches\<lparr>dd_dispatches := [sample_dispatch]\<rparr>)"
  using dispatch_retry_replays [OF sample_opens rtranclp.rtrancl_refl refl refl] by blast

section \<open>The gates\<close>

lemma latest_self_test_in:
  "latest_self_test db w provider = Some t \<Longrightarrow> t \<in> set (dd_self_tests db) \<and> sf_workspace t = w \<and> sf_provider t = provider"
proof -
  have "fold (\<lambda>r best. case best of None \<Rightarrow> Some r | Some b \<Rightarrow> if sf_ran_at b < sf_ran_at r then Some r else best) xs b0 = Some t
    \<Longrightarrow> t \<in> set xs \<or> b0 = Some t" for xs b0
    by (induction xs arbitrary: b0) (auto split: option.splits if_split_asm)
  then show "latest_self_test db w provider = Some t \<Longrightarrow> ?thesis" by (force simp: latest_self_test_def)
qed

text \<open>A measurement a run of \<open>b\<close> at \<open>now\<close> may rest on.\<close>

definition measured :: "dispatch_settings \<Rightarrow> pystr \<Rightarrow> dispatch_body \<Rightarrow> datetime \<Rightarrow> self_test_row \<Rightarrow> bool" where
  "measured se w b now t = (sf_workspace t = w \<and> sf_provider t = ob_provider b \<and> sf_passed t
     \<and> sf_digest t = (case ob_profile b of None \<Rightarrow> [] | Some d \<Rightarrow> d)
     \<and> (\<exists>ran. fromisoformat (sf_ran_at t) = Some ran \<and> instant now \<le> instant ran + max 1 (ds_max_age se) * 1000000))"

lemma dt_not_less: "dt_less a b = Ok False \<Longrightarrow> instant b \<le> instant a"
  by (auto simp: dt_less_def instant_def split: datetime.splits)

lemma instant_plus: "instant (dt_plus_seconds d n) = instant d + n * 1000000"
  by (simp add: dt_plus_seconds_def instant_def split: datetime.split)

text \<open>
  Nothing opens without its gates (dispatch_store.py, open_dispatch): a new record means that the startup
  reconcile has completed, and that the run is advisory with a read-only task family, or rests on a
  self-test of this workspace and sandbox that passed, is no older than the limit and measured the profile
  requested; the record names that self-test.
\<close>

theorem dispatch_needs_its_gates:
  assumes "open_dispatch others reconciled se uuid auth c b now db = Ok (resp, db')" "db' \<noteq> others db"
  shows "reconciled \<and> (\<exists>row. dd_dispatches db' = dd_dispatches (others db) @ [row] \<and> dp_tier row = ob_tier b
    \<and> (ob_tier b = ''advisory'' \<and> ob_family b \<in> set READ_ONLY_TASK_FAMILIES \<and> dp_self_test row = None
       \<or> ob_tier b \<noteq> ''advisory'' \<and> (\<exists>t \<in> set (dd_self_tests db). measured se (au_workspace auth) b now t
           \<and> dp_self_test row = Some (sf_id t))))"
proof -
  from assms(1) obtain st where gates: "dispatch_gates reconciled se auth b now db = Ok st"
    and sect: "open_section se uuid auth c st b now (others db) = Ok (resp, db')"
    by (auto simp: open_dispatch_def res_bind_Ok_iff)
  from sect assms(2) obtain rv matrix where
    row: "dd_dispatches db' = dd_dispatches (others db) @ [new_dispatch uuid auth c st b matrix rv now]"
    by (cases rule: open_sectionE) (auto dest: insert_dispatch_Ok)
  have "ob_tier b = ''advisory'' \<and> ob_family b \<in> set READ_ONLY_TASK_FAMILIES \<and> st = None
    \<or> ob_tier b \<noteq> ''advisory'' \<and> (\<exists>t \<in> set (dd_self_tests db). measured se (au_workspace auth) b now t \<and> st = Some (sf_id t))"
    using gates
    by (auto simp: dispatch_gates_def res_bind_Ok_iff map_error_Ok_iff measured_def instant_plus [symmetric] parse_dt_def
        split: if_split_asm option.splits dest!: latest_self_test_in dt_not_less)
  moreover have "reconciled" using gates by (auto simp: dispatch_gates_def split: if_split_asm)
  ultimately show ?thesis using row by auto
qed

lemma sample_dispatched:
  "open_dispatch (\<lambda>d. d) True sample_dispatch_settings ''u'' sample_dispatcher sample_charter sample_request (Aware 0 0) no_dispatches
    = Ok (dispatch_response sample_dispatch (Aware 0 0), no_dispatches\<lparr>dd_dispatches := [sample_dispatch]\<rparr>)"
  by (simp add: open_dispatch_def sample_opens dispatch_gates_def sample_request_def [THEN arg_cong [where f = ob_tier]]
      sample_request_def [THEN arg_cong [where f = ob_family]] READ_ONLY_TASK_FAMILIES_def)

theorem dispatch_needs_its_gates_witness:
  "dp_tier sample_dispatch = ''advisory'' \<and> ob_family sample_request \<in> set READ_ONLY_TASK_FAMILIES"
  using dispatch_needs_its_gates [OF sample_dispatched]
  by (simp add: no_dispatches_def)

text \<open>
  The tier of a run is the caller's choice (dispatch_store.py, open_dispatch; docs/charter.md says the charter
  chooses it): under a charter that grants the container tier, with its one retry cap of three attempts, an
  advisory run of attempt 99 opens, and the record says so.
\<close>

theorem dispatch_tier_is_the_callers:
  "\<exists>resp db'. open_dispatch (\<lambda>d. d) True sample_dispatch_settings ''u'' sample_dispatcher sample_charter
      (sample_request\<lparr>ob_attempt := 99\<rparr>) (Aware 0 0) no_dispatches = Ok (resp, db')
    \<and> ch_tier sample_charter = CONTAINER \<and> cc_attempts (ch_caps sample_charter) = 3
    \<and> map (\<lambda>r. (dp_tier r, dp_attempt r, dp_charter r)) (dd_dispatches db') = [(''advisory'', 99, ''c'')]"
  by (simp add: open_dispatch_def dispatch_gates_def READ_ONLY_TASK_FAMILIES_def open_section_def Let_def no_dispatches_def
      find_dispatch_def open_dispatch_count_def open_reservation_total_def sample_charter_def sample_request_def
      sample_dispatch_settings_def reserve_def spend_enforcement_for_def SPEND_ENFORCEMENT_BY_SURFACE_def enforcement_literal_def
      capability_matrix_json_def RUNTIME_CAPABILITIES_def insert_dispatch_def link_directive_def)

section \<open>The accounting\<close>

text \<open>
  The accounting frees the slot and tells the truth (dispatch_store.py, reconcile_dispatch): it closes an open
  dispatch, so the reservation total falls by what was reserved and the count by one; the cost recorded
  is the one reported, over the reservation or not.
\<close>

theorem accounting_frees_the_slot:
  assumes "distinct (map dp_id (dd_dispatches db))" "row \<in> set (dd_dispatches db)" "dispatch_open w ow row"
    and "reconcile_dispatch (dp_id row) rb now db = Ok (resp, db1)"
  shows "open_reservation_total db1 w ow = open_reservation_total db w ow - dp_reserved row
    \<and> open_dispatch_count db1 w ow = open_dispatch_count db w ow - 1
    \<and> (\<exists>rc row1. reconciliation_from_json (rb_reconciliation rb) = Ok rc \<and> row1 \<in> set (dd_dispatches db1) \<and> dp_id row1 = dp_id row
        \<and> da_cost (dp_accounting row1) = Some (rc_cost rc) \<and> da_finished (dp_accounting row1) = Some (isoformat now))"
proof -
  let ?acc = "\<lambda>rc r. if dp_id r = dp_id row then account rb rc (isoformat now) r else r"
  have row: "find (\<lambda>r. dp_id r = dp_id row) (dd_dispatches db) = Some row" by (rule find_unique [OF assms(1,2)])
  with assms(4) obtain rc where rc: "reconciliation_from_json (rb_reconciliation rb) = Ok rc"
    and db1: "db1 = db\<lparr>dd_dispatches := map (?acc rc) (dd_dispatches db)\<rparr>"
    by (auto simp: reconcile_dispatch_def res_bind_Ok_iff map_error_Ok_iff)
  have shut: "\<not> dispatch_open w ow (account rb rc (isoformat now) r)" for r
    by (auto simp: dispatch_open_def account_def split: option.splits)
  have tot: "sum_list (map dp_reserved (filter (dispatch_open w ow) (map (?acc rc) xs)))
      = sum_list (map dp_reserved (filter (dispatch_open w ow) xs)) - (if row \<in> set xs then dp_reserved row else 0)
    \<and> int (length (filter (dispatch_open w ow) (map (?acc rc) xs)))
      = int (length (filter (dispatch_open w ow) xs)) - (if row \<in> set xs then 1 else 0)"
    if "distinct (map dp_id xs)" "set xs \<subseteq> set (dd_dispatches db)" for xs
    using that
  proof (induction xs)
    case (Cons x xs)
    show ?case
    proof (cases "dp_id x = dp_id row")
      case True
      then have "x = row" "row \<notin> set xs" using Cons.prems distinct_on [OF assms(1) _ assms(2), of x] by auto
      with Cons shut assms(3) show ?thesis by auto
    next
      case False
      with Cons show ?thesis by auto
    qed
  qed simp
  have "account rb rc (isoformat now) row \<in> set (dd_dispatches db1)" using assms(2) by (force simp: db1)
  moreover have "da_cost (dp_accounting (account rb rc (isoformat now) row)) = Some (rc_cost rc)"
    "da_finished (dp_accounting (account rb rc (isoformat now) row)) = Some (isoformat now)" "dp_id (account rb rc (isoformat now) row) = dp_id row"
    using assms(3) by (simp_all add: account_def dispatch_open_def)
  ultimately show ?thesis
    using tot [OF assms(1) subset_refl] assms(2) rc
    by (auto simp: open_reservation_total_def open_dispatch_count_def db1)
qed

theorem accounting_frees_the_slot_witness:
  "\<exists>resp db1. reconcile_dispatch ''u'' \<lparr>rb_outcome = ''ok'', rb_terminal = [], rb_wall = 5, rb_interventions = 0,
       rb_reconciliation = [(''cost_minor_units'', PInt 900)]\<rparr> (Aware 5000000 0) (no_dispatches\<lparr>dd_dispatches := [sample_dispatch]\<rparr>) = Ok (resp, db1)
    \<and> open_reservation_total db1 ''W'' ''O'' = 0 \<and> map (\<lambda>r. da_cost (dp_accounting r)) (dd_dispatches db1) = [Some 900]"
proof -
  let ?rb = "\<lparr>rb_outcome = ''ok'', rb_terminal = [], rb_wall = 5, rb_interventions = 0,
       rb_reconciliation = [(''cost_minor_units'', PInt 900)]\<rparr>"
  let ?db = "no_dispatches\<lparr>dd_dispatches := [sample_dispatch]\<rparr>"
  have id: "dp_id sample_dispatch = ''u''" "dp_reserved sample_dispatch = 200" "dispatch_open ''W'' ''O'' sample_dispatch"
    by (simp_all add: sample_dispatch_def sample_reservation_def sample_dispatcher_def)
  obtain resp db1 where run: "reconcile_dispatch ''u'' ?rb (Aware 5000000 0) ?db = Ok (resp, db1)"
    and cost: "map (\<lambda>r. da_cost (dp_accounting r)) (dd_dispatches db1) = [Some 900]"
    by (simp add: reconcile_dispatch_def reconciliation_from_json_def id account_def int_or_zero_def truthy_def)
  from accounting_frees_the_slot [of ?db sample_dispatch "''W''" "''O''" ?rb, unfolded id(1), OF _ _ id(3) run]
  have "open_reservation_total db1 ''W'' ''O'' = 0" by (simp add: open_reservation_total_def id)
  then show ?thesis by (intro exI conjI) (rule run, assumption, rule cost)
qed

end
