(* ===== verification/Effect_Store.thy ===== *)
theory Effect_Store
  imports Effect_Journal
begin

text \<open>
  The Lite effect journal, \<open>services/tce_lite_api/tce_lite_api/effect_store.py\<close>: opening
  an effect before it happens and resolving it afterwards, both fenced by the lease of the directive.
  The database holds the journal rows in insertion order and, per directive, the lease generation and
  the claiming executor.  The identifier a new row gets (\<open>uuid4\<close>) is an argument.  A \<open>SELECT\<close> takes no lock, so
  other connections may commit between it and the next statement; \<open>others\<close> is what they do there.
\<close>

record effect_row =
  er_id :: pystr
  er_workspace :: pystr
  er_owner :: pystr
  er_session :: pystr
  er_task :: "pystr option"
  er_dispatch :: "pystr option"
  er_record :: effect_record
  er_runtime :: pystr
  er_runtime_version :: pystr
  er_model :: pystr
  er_resolved_by :: "pystr option"
  er_created_at :: datetime

record effect_db =
  ed_effects :: "effect_row list"
  ed_directives :: "(pystr, int \<times> pystr option) dict"

datatype store_error =
    StaleLease
  | UniqueFailed
  | BadValue pystr
  | Rejected effect_error

definition TIERS :: "pystr list" where
  "TIERS = [''os_sandbox'', ''container'', ''advisory'']"

definition ACTION_TRACING :: "pystr list" where
  "ACTION_TRACING = [''observed'', ''unavailable'']"

definition reject_forbidden_pair :: "pystr \<Rightarrow> pystr \<Rightarrow> (store_error, unit) result" where
  "reject_forbidden_pair tier tracing =
     (if tier \<notin> set TIERS
      then Err (BadValue (''enforcement_tier must be one of (''
        @ repr_str ''os_sandbox'' @ '', '' @ repr_str ''container'' @ '', '' @ repr_str ''advisory'' @ '')''))
      else if tracing \<notin> set ACTION_TRACING
      then Err (BadValue (''action_tracing must be one of (''
        @ repr_str ''observed'' @ '', '' @ repr_str ''unavailable'' @ '')''))
      else if tier = ''advisory'' \<and> tracing \<noteq> ''unavailable''
      then Err (BadValue (''enforcement_tier='' @ repr_str ''advisory'' @ '' cannot claim observed action tracing''))
      else Ok ())"

text \<open>The \<open>EXISTS\<close> subquery of both statements.\<close>

definition fence_ok :: "effect_db \<Rightarrow> pystr \<Rightarrow> int \<Rightarrow> pystr \<Rightarrow> bool \<Rightarrow> bool" where
  "fence_ok db directive lease executor is_system = (case dict_get (ed_directives db) directive of
       None \<Rightarrow> False
     | Some (l, claimed) \<Rightarrow> l = lease \<and> (claimed = Some executor \<or> is_system))"

definition find_effect :: "effect_db \<Rightarrow> pystr \<Rightarrow> pystr \<Rightarrow> effect_row option" where
  "find_effect db directive digest =
     find (\<lambda>r. ef_directive (er_record r) = directive \<and> ef_digest (er_record r) = digest) (ed_effects db)"

definition max_seq :: "effect_db \<Rightarrow> pystr \<Rightarrow> int" where
  "max_seq db directive =
     (case map (\<lambda>r. ef_seq (er_record r)) (filter (\<lambda>r. ef_directive (er_record r) = directive) (ed_effects db)) of
        [] \<Rightarrow> 0 | s # ss \<Rightarrow> fold max ss s)"

record open_args =
  oa_workspace :: pystr
  oa_owner :: pystr
  oa_session :: pystr
  oa_task :: "pystr option"
  oa_directive :: pystr
  oa_dispatch :: "pystr option"
  oa_intent :: effect_intent
  oa_tier :: pystr
  oa_tracing :: pystr
  oa_lease :: int
  oa_executor :: pystr
  oa_run_id :: "pystr option"
  oa_turn_id :: "pystr option"
  oa_runtime :: pystr
  oa_runtime_version :: pystr
  oa_model :: pystr
  oa_now :: datetime

definition new_row :: "effect_db \<Rightarrow> pystr \<Rightarrow> open_args \<Rightarrow> effect_row" where
  "new_row db uuid a = \<lparr>er_id = uuid, er_workspace = oa_workspace a, er_owner = oa_owner a,
     er_session = oa_session a, er_task = oa_task a,
     er_dispatch = (case oa_dispatch a of Some d \<Rightarrow> or_none d | None \<Rightarrow> None),
     er_record = \<lparr>ef_id = uuid, ef_directive = oa_directive a, ef_seq = max_seq db (oa_directive a) + 1,
       ef_state = ''prepared'', ef_intent = oa_intent a, ef_digest = effect_intent_digest (oa_intent a),
       ef_tier = oa_tier a, ef_tracing = oa_tracing a, ef_lease = oa_lease a, ef_executor = oa_executor a,
       ef_run_id = oa_run_id a, ef_turn_id = oa_turn_id a, ef_opened_at = oa_now a, ef_resolved_at = None,
       ef_source = None, ef_evidence = Some []\<rparr>,
     er_runtime = oa_runtime a, er_runtime_version = oa_runtime_version a, er_model = oa_model a,
     er_resolved_by = None, er_created_at = oa_now a\<rparr>"

text \<open>
  \<open>INSERT ... ON CONFLICT (directive_id, intent_digest) DO NOTHING\<close> against the unique indexes of db.py.  The index
  of the conflict clause is tested first; a clash on the other index or on the primary key raises
  (\<open>UniqueFailed\<close> is \<open>sqlite3.IntegrityError\<close>).
\<close>

definition insert_effect :: "effect_db \<Rightarrow> effect_row \<Rightarrow> (store_error, effect_db) result" where
  "insert_effect db row =
     (if find_effect db (ef_directive (er_record row)) (ef_digest (er_record row)) \<noteq> None then Ok db
      else if list_ex (\<lambda>r. er_id r = er_id row \<or> ef_directive (er_record r) = ef_directive (er_record row)
           \<and> ef_seq (er_record r) = ef_seq (er_record row)) (ed_effects db)
      then Err UniqueFailed
      else Ok (db\<lparr>ed_effects := ed_effects db @ [row]\<rparr>))"

text \<open>
  Three \<open>SELECT\<close>s and the \<open>INSERT\<close>, each on the database as it then is; the last \<open>SELECT\<close> runs in the transaction the
  \<open>INSERT\<close> opened.
\<close>

definition open_effect ::
  "(nat \<Rightarrow> effect_db \<Rightarrow> effect_db) \<Rightarrow> effect_db \<Rightarrow> pystr \<Rightarrow> open_args \<Rightarrow> (store_error, pystr \<times> effect_db) result" where
  "open_effect others db uuid a =
     res_bind (reject_forbidden_pair (oa_tier a) (oa_tracing a)) (\<lambda>_.
       case find_effect db (oa_directive a) (effect_intent_digest (oa_intent a)) of
         Some r \<Rightarrow> Ok (er_id r, db)
       | None \<Rightarrow>
           (let db1 = others 0 db in
            if \<not> fence_ok db1 (oa_directive a) (oa_lease a) (oa_executor a) (oa_executor a \<in> set SYSTEM_ONLY_SOURCES)
            then Err StaleLease
            else (let db2 = others 1 db1 in
              res_bind (insert_effect (others 2 db2) (new_row db2 uuid a)) (\<lambda>db3.
                case find_effect db3 (oa_directive a) (effect_intent_digest (oa_intent a)) of
                  Some r \<Rightarrow> Ok (er_id r, db3)
                | None \<Rightarrow> Ok (uuid, db3)))))"

text \<open>A call that no other connection interrupts.\<close>

abbreviation alone :: "nat \<Rightarrow> 'd \<Rightarrow> 'd" where
  "alone \<equiv> \<lambda>_ db. db"

text \<open>\<open>executor:\<close> is stripped from the actor; everything else is the actor itself.\<close>

definition executor_of :: "pystr \<Rightarrow> pystr" where
  "executor_of actor = (if starts_with ''executor:'' actor then drop 9 actor else actor)"

definition resolve_row ::
  "pystr \<Rightarrow> pystr \<Rightarrow> pystr \<Rightarrow> (pystr \<times> py) list \<Rightarrow> datetime \<Rightarrow> effect_row \<Rightarrow> effect_row" where
  "resolve_row target actor source evidence now r =
     r\<lparr>er_record := (er_record r)\<lparr>ef_state := target, ef_resolved_at := Some now, ef_source := Some source,
          ef_evidence := Some evidence\<rparr>,
       er_resolved_by := Some actor\<rparr>"

text \<open>The row is read, the move validated, and the \<open>UPDATE\<close> compares the state it was validated against.\<close>

definition resolve_effect ::
  "(nat \<Rightarrow> effect_db \<Rightarrow> effect_db) \<Rightarrow> effect_db \<Rightarrow> pystr \<Rightarrow> pystr \<Rightarrow> pystr \<Rightarrow> pystr \<Rightarrow> (pystr \<times> py) list \<Rightarrow> int
    \<Rightarrow> datetime \<Rightarrow> (store_error, bool \<times> effect_db) result" where
  "resolve_effect others db effect_id target actor source evidence expected_lease now =
     (case find (\<lambda>r. er_id r = effect_id) (ed_effects db) of
        None \<Rightarrow> Ok (False, db)
      | Some row \<Rightarrow>
          (let current = ef_state (er_record row) in
           case validate_effect_transition current target actor (ei_reversibility (ef_intent (er_record row))) of
             Inl e \<Rightarrow> Err (Rejected e)
           | Inr _ \<Rightarrow>
               let db1 = others 0 db; hit = (\<lambda>r. er_id r = effect_id \<and> ef_state (er_record r) = current
                  \<and> fence_ok db1 (ef_directive (er_record r)) expected_lease (executor_of actor)
                      (actor \<in> set SYSTEM_ONLY_SOURCES)) in
               Ok (length (filter hit (ed_effects db1)) = 1,
                   db1\<lparr>ed_effects := map (\<lambda>r. if hit r then resolve_row target actor source evidence now r else r)
                        (ed_effects db1)\<rparr>)))"

text \<open>The plain \<open>UPDATE\<close> of the evidence column (reconcile.py, resolve_effects_for_directive).\<close>

definition mark_evidence :: "pystr \<Rightarrow> (pystr \<times> py) list \<Rightarrow> effect_db \<Rightarrow> effect_db" where
  "mark_evidence effect_id evidence db = db\<lparr>ed_effects := map (\<lambda>r. if er_id r = effect_id
     then r\<lparr>er_record := (er_record r)\<lparr>ef_evidence := Some evidence\<rparr>\<rparr> else r) (ed_effects db)\<rparr>"

text \<open>The lease bump of a reap or a claim, by which the directive store fences workers out.\<close>

definition bump_lease :: "pystr \<Rightarrow> pystr option \<Rightarrow> effect_db \<Rightarrow> effect_db" where
  "bump_lease directive executor db = (case dict_get (ed_directives db) directive of
       None \<Rightarrow> db
     | Some (l, _) \<Rightarrow> db\<lparr>ed_directives := dict_set directive (l + 1, executor) (ed_directives db)\<rparr>)"

definition is_open_state :: "pystr \<Rightarrow> bool" where
  "is_open_state s = (s \<in> {''prepared'', ''running'', ''unknown''})"

text \<open>
  The adapter from a row's columns to a record: every column is coerced and decoded by
  \<open>effect_record_from_json\<close>, which may refuse it.  A row holds \<open>er_record\<close> column by column.
\<close>

definition opt_column :: "pystr option \<Rightarrow> py" where
  "opt_column c = (case c of None \<Rightarrow> PNone | Some s \<Rightarrow> if s = [] then PNone else PStr s)"

definition row_payload :: "effect_row \<Rightarrow> (pystr \<times> py) list" where
  "row_payload row = (let r = er_record row; i = ef_intent r in
     [(''effect_id'', PStr (ef_id r)), (''directive_id'', PStr (ef_directive r)), (''seq'', PInt (ef_seq r)),
      (''state'', PStr (ef_state r)),
      (''intent'', PDict
        [(''kind'', PStr (ei_kind i)), (''capability'', PStr (ei_capability i)),
         (''resource'', PStr (ei_resource i)), (''argv'', PList (map PStr (ei_argv i))),
         (''reversibility'', PStr (or_else (ei_reversibility i) ''unknown'')),
         (''description'', PStr (ei_description i))]),
      (''intent_digest'', PStr (ef_digest r)),
      (''enforcement_tier'', PStr (or_else (ef_tier r) ''advisory'')),
      (''action_tracing'', PStr (or_else (ef_tracing r) ''unavailable'')),
      (''lease_generation'', PInt (ef_lease r)), (''claimed_executor'', PStr (ef_executor r)),
      (''provider_run_id'', opt_column (ef_run_id r)), (''provider_turn_id'', opt_column (ef_turn_id r)),
      (''opened_at'', PStr (isoformat (ef_opened_at r))),
      (''resolved_at'', opt_py (\<lambda>d. PStr (isoformat d)) (ef_resolved_at r)),
      (''resolution_source'', opt_column (ef_source r)),
      (''evidence'', PDict (case ef_evidence r of None \<Rightarrow> [] | Some m \<Rightarrow> m))])"

definition record_from_row :: "effect_row \<Rightarrow> (value_error, effect_record) result" where
  "record_from_row row = effect_record_from_json (row_payload row)"

fun records_from_rows :: "effect_row list \<Rightarrow> (value_error, effect_record list) result" where
  "records_from_rows [] = Ok []"
| "records_from_rows (r # rs) =
     res_bind (record_from_row r) (\<lambda>x. res_bind (records_from_rows rs) (\<lambda>xs. Ok (x # xs)))"

text \<open>\<open>ORDER BY opened_at, seq\<close>: the text of \<open>opened_at\<close> is compared.\<close>

definition list_open_effects :: "effect_db \<Rightarrow> pystr \<Rightarrow> pystr \<Rightarrow> pystr \<Rightarrow> (value_error, effect_record list) result" where
  "list_open_effects db workspace owner session =
     records_from_rows (sort_key (\<lambda>r. (isoformat (ef_opened_at (er_record r)), ef_seq (er_record r)))
       (filter (\<lambda>r. er_workspace r = workspace \<and> er_owner r = owner \<and> er_session r = session
          \<and> is_open_state (ef_state (er_record r))) (ed_effects db)))"

definition load_effects_for_directive :: "effect_db \<Rightarrow> pystr \<Rightarrow> (value_error, effect_record list) result" where
  "load_effects_for_directive db directive =
     records_from_rows (sort_key (\<lambda>r. ef_seq (er_record r))
       (filter (\<lambda>r. ef_directive (er_record r) = directive) (ed_effects db)))"

definition open_effect_count :: "effect_db \<Rightarrow> pystr \<Rightarrow> pystr \<Rightarrow> pystr \<Rightarrow> pystr option \<Rightarrow> int" where
  "open_effect_count db workspace owner session exclude =
     int (length (filter (\<lambda>r. er_workspace r = workspace \<and> er_owner r = owner \<and> er_session r = session
          \<and> is_open_state (ef_state (er_record r))
          \<and> (exclude \<in> {None, Some []} \<or> Some (ef_directive (er_record r)) \<noteq> exclude)) (ed_effects db)))"

section \<open>The journal's invariant\<close>

text \<open>
  One write of one connection.  An open decides on what its three \<open>SELECT\<close>s read earlier (\<open>seen\<close>, \<open>fenced\<close>, \<open>numbered\<close>:
  any databases at all); its \<open>INSERT\<close> meets the journal as it is.  A resolution compares the state it was
  validated against, so it is the step of the moment of its \<open>UPDATE\<close> (\<open>resolve_effect_steps\<close> below).  The reconciler
  marks effects it has just read as open, in the transaction of its reap.  Directive rows come and go.
\<close>

inductive journal_step :: "effect_db \<Rightarrow> effect_db \<Rightarrow> bool" where
  opened: "reject_forbidden_pair (oa_tier a) (oa_tracing a) = Ok () \<Longrightarrow>
    find_effect seen (oa_directive a) (effect_intent_digest (oa_intent a)) = None \<Longrightarrow>
    fence_ok fenced (oa_directive a) (oa_lease a) (oa_executor a) (oa_executor a \<in> set SYSTEM_ONLY_SOURCES) \<Longrightarrow>
    insert_effect db (new_row numbered uuid a) = Ok db' \<Longrightarrow> journal_step db db'"
| resolved: "resolve_effect alone db eid target actor source evidence lease now = Ok (won, db') \<Longrightarrow> journal_step db db'"
| marked: "list_all (\<lambda>r. er_id r = eid \<longrightarrow> ef_state (er_record r) \<notin> {''confirmed'', ''failed'', ''unknown''}) (ed_effects db) \<Longrightarrow>
    db' = mark_evidence eid evidence db \<Longrightarrow> journal_step db db'"
| bumped: "db' = bump_lease directive executor db \<Longrightarrow> journal_step db db'"
| directives: "db' = db\<lparr>ed_directives := dirs\<rparr> \<Longrightarrow> journal_step db db'"

inductive_cases journal_stepE: "journal_step db db'"

definition effect_key :: "effect_row \<Rightarrow> pystr \<times> pystr" where
  "effect_key r = (ef_directive (er_record r), ef_digest (er_record r))"

definition effect_slot :: "effect_row \<Rightarrow> pystr \<times> int" where
  "effect_slot r = (ef_directive (er_record r), ef_seq (er_record r))"

definition honest :: "effect_row \<Rightarrow> bool" where
  "honest r = (ef_tier (er_record r) \<in> set TIERS \<and> ef_tracing (er_record r) \<in> set ACTION_TRACING
     \<and> \<not> (ef_tier (er_record r) = ''advisory'' \<and> ef_tracing (er_record r) = ''observed''))"

text \<open>An irreversible effect found resolved was resolved by a system actor.\<close>

definition witnessed :: "effect_row \<Rightarrow> bool" where
  "witnessed r = (ei_reversibility (ef_intent (er_record r)) = ''irreversible''
     \<and> is_effect_terminal (ef_state (er_record r)) \<longrightarrow> er_resolved_by r \<in> Some ` set SYSTEM_ONLY_SOURCES)"

definition row_ok :: "effect_row \<Rightarrow> bool" where
  "row_ok r = (honest r \<and> witnessed r \<and> ef_state (er_record r) \<in> set EFFECT_STATES
     \<and> er_id r = ef_id (er_record r))"

definition journal_ok :: "effect_db \<Rightarrow> bool" where
  "journal_ok db = (distinct (map er_id (ed_effects db)) \<and> distinct (map effect_key (ed_effects db))
     \<and> distinct (map effect_slot (ed_effects db)) \<and> list_all row_ok (ed_effects db))"

text \<open>What an update may not touch: everything but the state and the resolution; a confirmed row is final.\<close>

definition frozen_columns :: "effect_row \<Rightarrow> effect_row" where
  "frozen_columns r = r\<lparr>er_record := (er_record r)\<lparr>ef_state := [], ef_resolved_at := None, ef_source := None,
     ef_evidence := None\<rparr>, er_resolved_by := None\<rparr>"

definition row_extends :: "effect_row \<Rightarrow> effect_row \<Rightarrow> bool" where
  "row_extends r r' = (frozen_columns r' = frozen_columns r
     \<and> effect_moves\<^sup>*\<^sup>* (ef_state (er_record r)) (ef_state (er_record r'))
     \<and> (ef_state (er_record r) = ''confirmed'' \<longrightarrow> r' = r))"

section \<open>Single operations\<close>

lemma max_seq_bound:
  "r \<in> set (ed_effects db) \<Longrightarrow> ef_seq (er_record r) \<le> max_seq db (ef_directive (er_record r))"
proof -
  assume r: "r \<in> set (ed_effects db)"
  let ?f = "map (\<lambda>q. ef_seq (er_record q)) (filter (\<lambda>q. ef_directive (er_record q) = ef_directive (er_record r)) (ed_effects db))"
  have "ef_seq (er_record r) \<in> set ?f" using r by auto
  moreover have "(case xs of [] \<Rightarrow> 0 | s # ss \<Rightarrow> fold max ss s) = Max (set xs)" if "xs \<noteq> []" for xs :: "int list"
    using that by (cases xs) (simp_all only: list.case Max.set_eq_fold)
  then have "max_seq db (ef_directive (er_record r)) = Max (set ?f)" if "?f \<noteq> []"
    using that unfolding max_seq_def by blast
  ultimately show ?thesis by (metis List.finite_set Max_ge empty_iff list.set(1))
qed

lemma find_effect_None:
  "find_effect db d g = None \<longleftrightarrow> (d, g) \<notin> effect_key ` set (ed_effects db)"
  by (auto simp: find_effect_def find_None_iff effect_key_def image_iff)

lemma reject_pair_Ok: "reject_forbidden_pair t c = Ok () \<longleftrightarrow>
   t \<in> set TIERS \<and> c \<in> set ACTION_TRACING \<and> \<not> (t = ''advisory'' \<and> c = ''observed'')"
  by (auto simp: reject_forbidden_pair_def ACTION_TRACING_def)

lemma new_row_simps [simp]:
  "er_id (new_row db uuid a) = uuid" "ef_id (er_record (new_row db uuid a)) = uuid"
  "ef_directive (er_record (new_row db uuid a)) = oa_directive a"
  "ef_digest (er_record (new_row db uuid a)) = effect_intent_digest (oa_intent a)"
  "ef_seq (er_record (new_row db uuid a)) = max_seq db (oa_directive a) + 1"
  by (simp_all add: new_row_def)

lemma insert_effectE:
  assumes "insert_effect db row = Ok db'"
  obtains (kept) r where "find_effect db (ef_directive (er_record row)) (ef_digest (er_record row)) = Some r" "db' = db"
  | (added) "find_effect db (ef_directive (er_record row)) (ef_digest (er_record row)) = None"
      "er_id row \<notin> er_id ` set (ed_effects db)" "effect_slot row \<notin> effect_slot ` set (ed_effects db)"
      "db' = db\<lparr>ed_effects := ed_effects db @ [row]\<rparr>"
proof (cases "find_effect db (ef_directive (er_record row)) (ef_digest (er_record row))")
  case None
  then show thesis using assms by (intro added) (auto simp: insert_effect_def effect_slot_def list_ex_iff split: if_split_asm)
next
  case (Some r)
  then show thesis using assms by (intro kept) (auto simp: insert_effect_def)
qed

text \<open>After a successful \<open>INSERT\<close> the last \<open>SELECT\<close> finds a row.\<close>

lemma insert_effect_found:
  assumes "insert_effect db row = Ok db'"
  shows "\<exists>r. find_effect db' (ef_directive (er_record row)) (ef_digest (er_record row)) = Some r"
  using assms by (cases rule: insert_effectE) (auto simp: find_effect_def find_snoc split: option.split)

lemma open_effectE:
  assumes "open_effect others db uuid a = Ok (eid, db')"
  obtains (old) r where "find_effect db (oa_directive a) (effect_intent_digest (oa_intent a)) = Some r"
      "eid = er_id r" "db' = db"
  | (new) r where "find_effect db (oa_directive a) (effect_intent_digest (oa_intent a)) = None"
      "reject_forbidden_pair (oa_tier a) (oa_tracing a) = Ok ()"
      "fence_ok (others 0 db) (oa_directive a) (oa_lease a) (oa_executor a) (oa_executor a \<in> set SYSTEM_ONLY_SOURCES)"
      "insert_effect (others 2 (others 1 (others 0 db))) (new_row (others 1 (others 0 db)) uuid a) = Ok db'"
      "find_effect db' (oa_directive a) (effect_intent_digest (oa_intent a)) = Some r" "eid = er_id r"
proof (cases "find_effect db (oa_directive a) (effect_intent_digest (oa_intent a))")
  case None
  from assms None obtain db3 where ins: "reject_forbidden_pair (oa_tier a) (oa_tracing a) = Ok ()"
    "fence_ok (others 0 db) (oa_directive a) (oa_lease a) (oa_executor a) (oa_executor a \<in> set SYSTEM_ONLY_SOURCES)"
    "insert_effect (others 2 (others 1 (others 0 db))) (new_row (others 1 (others 0 db)) uuid a) = Ok db3"
    "(case find_effect db3 (oa_directive a) (effect_intent_digest (oa_intent a)) of
        Some r \<Rightarrow> Ok (er_id r, db3) | None \<Rightarrow> Ok (uuid, db3)) = (Ok (eid, db') :: (store_error, pystr \<times> effect_db) result)"
    by (auto simp: open_effect_def res_bind_Ok_iff Let_def split: if_split_asm)
  from insert_effect_found [OF ins(3)] obtain r
    where r: "find_effect db3 (oa_directive a) (effect_intent_digest (oa_intent a)) = Some r" by auto
  with ins(4) have "db3 = db'" "eid = er_id r" by simp_all
  with ins(1-3) r None show thesis by (intro new) simp_all
next
  case (Some r)
  then show thesis using assms by (intro old) (auto simp: open_effect_def res_bind_Ok_iff)
qed

text \<open>A number drawn from the journal the row goes into is free.\<close>

lemma insert_fresh:
  assumes "find_effect db (oa_directive a) (effect_intent_digest (oa_intent a)) = None" "uuid \<notin> er_id ` set (ed_effects db)"
  shows "insert_effect db (new_row db uuid a) = Ok (db\<lparr>ed_effects := ed_effects db @ [new_row db uuid a]\<rparr>)"
proof -
  have "\<not> list_ex (\<lambda>r. er_id r = uuid \<or> ef_directive (er_record r) = oa_directive a
      \<and> ef_seq (er_record r) = max_seq db (oa_directive a) + 1) (ed_effects db)"
    using assms(2) max_seq_bound [of _ db] by (fastforce simp: list_ex_iff image_iff)
  then show ?thesis using assms(1) by (simp add: insert_effect_def)
qed

text \<open>An open that nobody interrupts decides and inserts on one database.\<close>

lemma open_effect_alone:
  assumes "uuid \<notin> er_id ` set (ed_effects db)"
    and "find_effect db (oa_directive a) (effect_intent_digest (oa_intent a)) = None"
    and "reject_forbidden_pair (oa_tier a) (oa_tracing a) = Ok ()"
  shows "open_effect alone db uuid a =
    (if fence_ok db (oa_directive a) (oa_lease a) (oa_executor a) (oa_executor a \<in> set SYSTEM_ONLY_SOURCES)
     then Ok (uuid, db\<lparr>ed_effects := ed_effects db @ [new_row db uuid a]\<rparr>) else Err StaleLease)"
  using assms insert_fresh [OF assms(2,1)]
  by (simp add: open_effect_def Let_def find_effect_def find_snoc)

definition resolve_hit :: "effect_db \<Rightarrow> effect_row \<Rightarrow> pystr \<Rightarrow> int \<Rightarrow> effect_row \<Rightarrow> bool" where
  "resolve_hit db row actor lease r = (er_id r = er_id row \<and> ef_state (er_record r) = ef_state (er_record row)
     \<and> fence_ok db (ef_directive (er_record r)) lease (executor_of actor) (actor \<in> set SYSTEM_ONLY_SOURCES))"

lemma resolve_effectE:
  assumes "resolve_effect alone db eid target actor source evidence lease now = Ok (won, db')"
  obtains (missing) "eid \<notin> er_id ` set (ed_effects db)" "\<not> won" "db' = db"
  | (row) row where "row \<in> set (ed_effects db)" "er_id row = eid"
      "validate_effect_transition (ef_state (er_record row)) target actor
         (ei_reversibility (ef_intent (er_record row))) = Ok ()"
      "won = (length (filter (resolve_hit db row actor lease) (ed_effects db)) = 1)"
      "db' = db\<lparr>ed_effects := map (\<lambda>r. if resolve_hit db row actor lease r
         then resolve_row target actor source evidence now r else r) (ed_effects db)\<rparr>"
proof (cases "find (\<lambda>r. er_id r = eid) (ed_effects db)")
  case None
  then have "eid \<notin> er_id ` set (ed_effects db)" by (auto simp: find_None_iff)
  with None show thesis using assms by (intro missing) (simp_all add: resolve_effect_def)
next
  case (Some r)
  then have "r \<in> set (ed_effects db)" "er_id r = eid" by (auto simp: find_Some_iff)
  then show thesis using assms row [of r] Some
    by (auto simp: resolve_effect_def Let_def resolve_hit_def [abs_def] split: sum.splits)
qed

text \<open>A hit is the row itself, so a move it makes is a legal one.\<close>

lemma resolve_hit_row:
  assumes "journal_ok db" "row \<in> set (ed_effects db)" "r \<in> set (ed_effects db)" "resolve_hit db row actor lease r"
  shows "r = row"
  using assms by (auto simp: journal_ok_def resolve_hit_def distinct_map inj_on_def)

lemma resolve_row_key [simp]:
  "er_id (resolve_row t a s e n r) = er_id r" "effect_key (resolve_row t a s e n r) = effect_key r"
  "effect_slot (resolve_row t a s e n r) = effect_slot r"
  by (simp_all add: resolve_row_def effect_key_def effect_slot_def)

lemma resolve_row_ok:
  assumes "row_ok r" "validate_effect_transition (ef_state (er_record r)) t a
    (ei_reversibility (ef_intent (er_record r))) = Ok ()"
  shows "row_ok (resolve_row t a s e n r)" "row_extends r (resolve_row t a s e n r)"
proof -
  have move: "effect_moves (ef_state (er_record r)) t"
    using assms(2) by (simp add: validate_effect_Ok effect_moves_def)
  have "t \<in> set EFFECT_STATES"
    using move by (auto simp: effect_moves_def EFFECT_TRANSITIONS_def EFFECT_REOPENABLE_TRANSITIONS_def EFFECT_STATES_def)
  then show "row_ok (resolve_row t a s e n r)"
    using assms by (auto simp: row_ok_def honest_def witnessed_def resolve_row_def validate_effect_Ok is_effect_terminal_def)
  have "ef_state (er_record r) \<noteq> ''confirmed''" using assms(2) confirmed_stuck by metis
  then show "row_extends r (resolve_row t a s e n r)"
    using move by (simp add: row_extends_def resolve_row_def frozen_columns_def)
qed

lemma row_extends_refl [simp]: "row_extends r r"
  by (simp add: row_extends_def)

lemma row_extends_trans: "row_extends r r' \<Longrightarrow> row_extends r' r'' \<Longrightarrow> row_extends r r''"
  unfolding row_extends_def by (auto intro: rtranclp_trans)

section \<open>Preservation\<close>

lemma journal_ok_insert:
  assumes "journal_ok db" "reject_forbidden_pair (oa_tier a) (oa_tracing a) = Ok ()"
    and "insert_effect db (new_row numbered uuid a) = Ok db'"
  shows "journal_ok db'" "\<exists>new. ed_effects db' = ed_effects db @ new"
proof -
  have "journal_ok db' \<and> (\<exists>new. ed_effects db' = ed_effects db @ new)"
    using assms(3)
  proof (cases rule: insert_effectE)
    case added
    let ?r = "new_row numbered uuid a"
    have "effect_key ?r \<notin> effect_key ` set (ed_effects db)"
      using added(1) by (simp add: find_effect_None effect_key_def)
    moreover have "row_ok ?r"
      using assms(2) by (simp add: row_ok_def new_row_def honest_def reject_pair_Ok witnessed_def is_effect_terminal_def
          EFFECT_TERMINAL_STATES_def EFFECT_STATES_def)
    ultimately show ?thesis using assms(1) added(2-4) by (simp add: journal_ok_def)
  qed (use assms(1) in simp)
  then show "journal_ok db'" "\<exists>new. ed_effects db' = ed_effects db @ new" by simp_all
qed

lemma journal_ok_resolve:
  assumes "journal_ok db" "resolve_effect alone db eid target actor source evidence lease now = Ok (won, db')"
  shows "journal_ok db'" "list_all2 row_extends (ed_effects db) (ed_effects db')"
proof -
  have "journal_ok db' \<and> list_all2 row_extends (ed_effects db) (ed_effects db')"
    using assms(2)
  proof (cases rule: resolve_effectE)
    case missing
    then show ?thesis using assms(1) by (simp add: list_all2_refl)
  next
    case (row row)
    let ?u = "\<lambda>r. if resolve_hit db row actor lease r then resolve_row target actor source evidence now r else r"
    have step: "row_ok (?u r) \<and> row_extends r (?u r)" if "r \<in> set (ed_effects db)" for r
    proof (cases "resolve_hit db row actor lease r")
      case True
      then have "r = row" using resolve_hit_row assms(1) row(1) that by blast
      then show ?thesis using True assms(1) row(1,3) resolve_row_ok [of row target actor]
        by (simp add: journal_ok_def list_all_iff)
    qed (use assms(1) that in \<open>simp add: journal_ok_def list_all_iff\<close>)
    have eff: "ed_effects db' = map ?u (ed_effects db)" using row(5) by simp
    have "map er_id (ed_effects db') = map er_id (ed_effects db)"
      "map effect_key (ed_effects db') = map effect_key (ed_effects db)"
      "map effect_slot (ed_effects db') = map effect_slot (ed_effects db)"
      unfolding eff map_map by (rule map_cong; simp)+
    moreover have "list_all row_ok (ed_effects db')" unfolding eff list_all_iff set_map using step by blast
    ultimately have "journal_ok db'" using assms(1) by (simp only: journal_ok_def)
    then show ?thesis using step row(5) by (simp add: list_all2_map2 list_all2_same)
  qed
  then show "journal_ok db'" "list_all2 row_extends (ed_effects db) (ed_effects db')" by simp_all
qed

lemma bump_lease_effects [simp]: "ed_effects (bump_lease d x db) = ed_effects db"
  by (simp add: bump_lease_def split: option.split)

lemma mark_evidence_keeps:
  assumes "journal_ok db"
    and "list_all (\<lambda>r. er_id r = eid \<longrightarrow> ef_state (er_record r) \<notin> {''confirmed'', ''failed'', ''unknown''}) (ed_effects db)"
  shows "journal_ok (mark_evidence eid evidence db)"
    "list_all2 row_extends (ed_effects db) (ed_effects (mark_evidence eid evidence db))"
proof -
  let ?u = "\<lambda>r. if er_id r = eid then r\<lparr>er_record := (er_record r)\<lparr>ef_evidence := Some evidence\<rparr>\<rparr> else r"
  have eff: "ed_effects (mark_evidence eid evidence db) = map ?u (ed_effects db)" by (simp add: mark_evidence_def)
  have "map er_id (map ?u (ed_effects db)) = map er_id (ed_effects db)"
    "map effect_key (map ?u (ed_effects db)) = map effect_key (ed_effects db)"
    "map effect_slot (map ?u (ed_effects db)) = map effect_slot (ed_effects db)"
    by (simp_all add: effect_key_def effect_slot_def)
  moreover have "list_all row_ok (map ?u (ed_effects db))"
    using assms(1) by (auto simp: journal_ok_def list_all_iff row_ok_def honest_def witnessed_def)
  ultimately show "journal_ok (mark_evidence eid evidence db)" using assms(1) by (simp only: journal_ok_def eff)
  show "list_all2 row_extends (ed_effects db) (ed_effects (mark_evidence eid evidence db))"
    using assms(2) unfolding eff list_all2_map2
    by (auto simp: list_all2_same list_all_iff row_extends_def frozen_columns_def)
qed

lemma journal_step_ok:
  assumes "journal_step db db'" "journal_ok db"
  shows "journal_ok db' \<and> (\<exists>new. \<exists>old. ed_effects db' = old @ new \<and> list_all2 row_extends (ed_effects db) old)"
  using assms(1)
proof (cases rule: journal_step.cases)
  case (opened a seen fenced numbered uuid)
  from journal_ok_insert [OF assms(2) opened(1,4)] show ?thesis
    using list_all2_refl [of row_extends "ed_effects db"] by auto
next
  case resolved
  note keeps = journal_ok_resolve [OF assms(2) resolved]
  then show ?thesis by (intro conjI exI [of _ "[]"] exI [of _ "ed_effects db'"]) simp_all
next
  case (marked eid evidence)
  with mark_evidence_keeps [OF assms(2) marked(1)] show ?thesis
    by (intro conjI exI [of _ "[]"] exI [of _ "ed_effects db'"]) simp_all
next
  case bumped
  then show ?thesis using assms(2) list_all2_refl [of row_extends "ed_effects db"]
    by (intro conjI exI [of _ "[]"] exI [of _ "ed_effects db"]) (simp_all add: journal_ok_def)
next
  case directives
  then show ?thesis using assms(2) list_all2_refl [of row_extends "ed_effects db"]
    by (intro conjI exI [of _ "[]"] exI [of _ "ed_effects db"]) (simp_all add: journal_ok_def)
qed

interpretation journal: invariant_step journal_step journal_ok
  by unfold_locales (use journal_step_ok in blast)

text \<open>Whatever a row becomes keeps its identifier.\<close>

lemma row_extends_id:
  assumes "row_extends r r'"
  shows "er_id r' = er_id r" "ei_reversibility (ef_intent (er_record r')) = ei_reversibility (ef_intent (er_record r))"
proof -
  have eq: "frozen_columns r' = frozen_columns r" using assms by (simp add: row_extends_def)
  show "er_id r' = er_id r" using arg_cong [OF eq, of er_id] by (simp add: frozen_columns_def)
  show "ei_reversibility (ef_intent (er_record r')) = ei_reversibility (ef_intent (er_record r))"
    using arg_cong [OF eq, of "\<lambda>x. ei_reversibility (ef_intent (er_record x))"] by (simp add: frozen_columns_def)
qed

section \<open>Calls among others\<close>

text \<open>An open whose gaps are filled by steps of others is itself a run of steps.\<close>

lemma open_effect_steps:
  assumes others: "\<And>n d. journal_step\<^sup>*\<^sup>* d (others n d)" and "open_effect others db uuid a = Ok (eid, db')"
  shows "journal_step\<^sup>*\<^sup>* db db'"
  using assms(2)
proof (cases rule: open_effectE)
  case (new r)
  have "journal_step (others 2 (others 1 (others 0 db))) db'" by (rule journal_step.opened [OF new(2,1,3,4)])
  then show ?thesis using others [of db 0] others [of "others 0 db" 1] others [of "others 1 (others 0 db)" 2]
    by (meson rtranclp.rtrancl_into_rtrancl rtranclp_trans)
qed simp

lemma open_effect_answers:
  assumes "open_effect others db uuid a = Ok (eid, db')"
  shows "\<exists>r \<in> set (ed_effects db'). er_id r = eid \<and> effect_key r = (oa_directive a, effect_intent_digest (oa_intent a))"
  using assms
proof (cases rule: open_effectE)
  case (old r)
  then show ?thesis by (auto simp: find_effect_def find_Some_iff effect_key_def intro!: bexI [of _ r])
next
  case (new r)
  then show ?thesis by (auto simp: find_effect_def find_Some_iff effect_key_def intro!: bexI [of _ r])
qed

text \<open>What any run leaves of the rows that were there.\<close>

definition grown :: "effect_db \<Rightarrow> effect_db \<Rightarrow> bool" where
  "grown db db' = (\<exists>old new. ed_effects db' = old @ new \<and> list_all2 row_extends (ed_effects db) old)"

lemma grown_refl: "grown db db"
  unfolding grown_def using list_all2_refl [of row_extends "ed_effects db"]
  by (intro exI [of _ "ed_effects db"] exI [of _ "[]"]) simp

lemma grown_trans:
  assumes "grown x y" "grown y z"
  shows "grown x z"
proof -
  from assms obtain o1 n1 o2 n2 where "ed_effects y = o1 @ n1" "list_all2 row_extends (ed_effects x) o1"
    "ed_effects z = o2 @ n2" "list_all2 row_extends (o1 @ n1) o2" by (auto simp: grown_def)
  moreover from this(4) obtain p q where "o2 = p @ q" "list_all2 row_extends o1 p" by (auto simp: list_all2_append1)
  ultimately show ?thesis
    using list_all2_trans [of row_extends row_extends row_extends "ed_effects x" o1 p] row_extends_trans
    unfolding grown_def by (intro exI [of _ p] exI [of _ "q @ n2"]) auto
qed

lemma journal_grown:
  assumes "journal_step\<^sup>*\<^sup>* db db'" "journal_ok db"
  shows "grown db db'"
proof (rule journal.reach_related [OF assms, where R = grown])
  show "journal_ok x \<Longrightarrow> journal_step x y \<Longrightarrow> grown x y" for x y
    using journal_step_ok [of x y] unfolding grown_def by blast
qed (rule grown_refl, rule grown_trans)

lemma list_all2_mem: "list_all2 P xs ys \<Longrightarrow> x \<in> set xs \<Longrightarrow> \<exists>y \<in> set ys. P x y"
  by (induction rule: list_all2_induct) auto

lemma grown_row: "grown db db' \<Longrightarrow> r \<in> set (ed_effects db) \<Longrightarrow> \<exists>r' \<in> set (ed_effects db'). row_extends r r'"
  unfolding grown_def using list_all2_mem by fastforce

text \<open>
  A resolution whose \<open>UPDATE\<close> runs after others have moved is the resolution of that moment: the state it compares
  is the one it was validated against, and reversibility is frozen.
\<close>

lemma resolve_effect_steps:
  assumes others: "\<And>d. journal_step\<^sup>*\<^sup>* d (others 0 d)" and ok: "journal_ok db"
    and res: "resolve_effect others db eid target actor source evidence lease now = Ok (won, db')"
  shows "journal_step\<^sup>*\<^sup>* db db'"
proof (cases "find (\<lambda>r. er_id r = eid) (ed_effects db)")
  case None
  then show ?thesis using res by (simp add: resolve_effect_def)
next
  case (Some row)
  then have row: "row \<in> set (ed_effects db)" "er_id row = eid" by (auto simp: find_Some_iff)
  let ?db = "others 0 db"
  have ok': "journal_ok ?db" using journal.reach_keeps [OF others ok] .
  obtain r where r: "r \<in> set (ed_effects ?db)" "row_extends row r" using grown_row [OF journal_grown [OF others ok] row(1)] by blast
  note same = row_extends_id [OF r(2)]
  have found: "find (\<lambda>r. er_id r = eid) (ed_effects ?db) = Some r"
    using find_unique [of er_id "ed_effects ?db" r] ok' r(1) same row(2) by (simp add: journal_ok_def)
  have only: "q = r" if "q \<in> set (ed_effects ?db)" "er_id q = eid" for q
    using that ok' r(1) same row(2) by (auto simp: journal_ok_def distinct_map dest: inj_onD)
  have valid: "validate_effect_transition (ef_state (er_record row)) target actor (ei_reversibility (ef_intent (er_record row))) = Ok ()"
    using res Some by (auto simp: resolve_effect_def Let_def split: sum.splits)
  show ?thesis
  proof (cases "ef_state (er_record r) = ef_state (er_record row)")
    case True
    then have "resolve_effect alone ?db eid target actor source evidence lease now = Ok (won, db')"
      using res Some found valid same by (simp add: resolve_effect_def Let_def)
    then have "journal_step ?db db'" by (rule journal_step.resolved)
    with others show ?thesis by (meson rtranclp.rtrancl_into_rtrancl)
  next
    case False
    then have miss: "er_id q = eid \<Longrightarrow> ef_state (er_record q) \<noteq> ef_state (er_record row)" if "q \<in> set (ed_effects ?db)" for q
      using only [OF that] by auto
    have none: "map (\<lambda>q. if er_id q = eid \<and> ef_state (er_record q) = ef_state (er_record row) \<and> Q q then f q else q)
        (ed_effects ?db) = ed_effects ?db" for Q f
      by (intro map_idI) (auto dest: miss)
    have "db' = ?db\<lparr>ed_effects := ed_effects ?db\<rparr>"
      using res Some valid by (auto simp: resolve_effect_def Let_def none)
    with others show ?thesis by simp
  qed
qed

section \<open>Properties\<close>

text \<open>
  C6. The journal's invariant (effect_store.py, open_effect and resolve_effect; the unique indexes of db.py):
  however opens, resolutions, evidence marks and lease bumps interleave, starting from an empty journal, an open's
  \<open>INSERT\<close> deciding on reads made at any earlier moments, a directive has at most one row per intent and per
  sequence number, no row claims observed tracing under the advisory tier, and an irreversible effect is only ever
  found resolved by the reconciler, the verifier or the owner.  A call whose statements others interrupt is
  such a run itself, and an open that returns answers the identifier of the one row of its intent.
\<close>

theorem journal_reachable:
  assumes "journal_step\<^sup>*\<^sup>* \<lparr>ed_effects = [], ed_directives = dirs\<rparr> db"
    and "\<And>n d. journal_step\<^sup>*\<^sup>* d (others n d)"
  shows "distinct (map effect_key (ed_effects db)) \<and> distinct (map effect_slot (ed_effects db))
    \<and> list_all honest (ed_effects db) \<and> list_all witnessed (ed_effects db)
    \<and> (case open_effect others db uuid a of Err e \<Rightarrow> True
       | Ok (eid, db') \<Rightarrow> journal_step\<^sup>*\<^sup>* db db' \<and> (\<exists>r \<in> set (ed_effects db').
           er_id r = eid \<and> effect_key r = (oa_directive a, effect_intent_digest (oa_intent a))))
    \<and> (case resolve_effect others db eff target actor source evidence lease now of Err e \<Rightarrow> True
       | Ok (won, db') \<Rightarrow> journal_step\<^sup>*\<^sup>* db db')"
proof -
  have "journal_ok \<lparr>ed_effects = [], ed_directives = dirs\<rparr>" by (simp add: journal_ok_def)
  from journal.reach_keeps [OF assms(1) this] have ok: "journal_ok db" .
  then have "distinct (map effect_key (ed_effects db)) \<and> distinct (map effect_slot (ed_effects db))
    \<and> list_all honest (ed_effects db) \<and> list_all witnessed (ed_effects db)"
    by (simp add: journal_ok_def list_all_iff row_ok_def)
  then show ?thesis
    using open_effect_steps [OF assms(2)] open_effect_answers [of others db uuid a] resolve_effect_steps [OF assms(2) ok]
    by (auto split: sum.splits)
qed

text \<open>A worker \<open>x\<close> holding lease 2 of directive \<open>d\<close>.\<close>

definition sample_open :: open_args where
  "sample_open = \<lparr>oa_workspace = ''W'', oa_owner = ''O'', oa_session = ''S'', oa_task = None, oa_directive = ''d'',
     oa_dispatch = None, oa_intent = ef_intent sample_effect, oa_tier = ''container'', oa_tracing = ''observed'',
     oa_lease = 2, oa_executor = ''x'', oa_run_id = None, oa_turn_id = None, oa_runtime = ''r'',
     oa_runtime_version = ''1'', oa_model = ''m'', oa_now = Aware 5 0\<rparr>"

definition sample_leases :: "(pystr, int \<times> pystr option) dict" where
  "sample_leases = [(''d'', (2, Some ''x''))]"

definition sample_row :: effect_row where
  "sample_row = new_row \<lparr>ed_effects = [], ed_directives = []\<rparr> ''u'' sample_open"

definition sample_journal :: effect_db where
  "sample_journal = \<lparr>ed_effects = [sample_row], ed_directives = sample_leases\<rparr>"

lemmas sample_journal_defs = sample_journal_def sample_row_def sample_leases_def sample_open_def new_row_def max_seq_def

lemma sample_open_ok:
  "open_effect alone \<lparr>ed_effects = [], ed_directives = sample_leases\<rparr> ''u'' sample_open = Ok (''u'', sample_journal)"
proof -
  let ?db = "\<lparr>ed_effects = [], ed_directives = sample_leases\<rparr>"
  have "new_row ?db ''u'' sample_open = sample_row" by (simp add: sample_row_def new_row_def max_seq_def)
  with open_effect_alone [of "''u''" ?db sample_open] show ?thesis
    by (simp add: sample_journal_def sample_leases_def sample_open_def reject_forbidden_pair_def TIERS_def ACTION_TRACING_def
        find_effect_def fence_ok_def)
qed

lemma sample_step: "journal_step\<^sup>*\<^sup>* \<lparr>ed_effects = [], ed_directives = sample_leases\<rparr> sample_journal"
  by (rule open_effect_steps [OF _ sample_open_ok]) simp

lemma sample_journal_ok: "journal_ok sample_journal"
  using journal.reach_keeps [OF sample_step] by (simp add: journal_ok_def)

text \<open>
  Two workers post the same intent: the second one's \<open>SELECT\<close> found nothing, the first one's row \<open>u\<close> lands, and the
  second answers \<open>u\<close> without a second row.
\<close>

definition rival :: "nat \<Rightarrow> effect_db \<Rightarrow> effect_db" where
  "rival n db = (case open_effect alone db ''u'' sample_open of Err e \<Rightarrow> db | Ok (eid, db') \<Rightarrow> if n = 0 then db' else db)"

lemma rival_steps: "journal_step\<^sup>*\<^sup>* db (rival n db)"
  using open_effect_steps [of alone db "''u''" sample_open] by (auto simp: rival_def split: sum.split)

theorem journal_reachable_witness:
  "\<exists>db'. open_effect rival \<lparr>ed_effects = [], ed_directives = sample_leases\<rparr> ''v'' sample_open = Ok (''u'', db')
    \<and> journal_step\<^sup>*\<^sup>* \<lparr>ed_effects = [], ed_directives = sample_leases\<rparr> db' \<and> length (ed_effects db') = 1"
proof -
  let ?db = "\<lparr>ed_effects = [], ed_directives = sample_leases\<rparr>"
  have rival: "rival 0 ?db = sample_journal" "rival (Suc n) d = d" for n d
    using sample_open_ok by (simp_all add: rival_def split: sum.split)
  have key: "find_effect sample_journal (oa_directive sample_open) (effect_intent_digest (oa_intent sample_open)) = Some sample_row"
    by (simp add: sample_journal_def find_effect_def sample_row_def)
  have "reject_forbidden_pair (oa_tier sample_open) (oa_tracing sample_open) = Ok ()"
    by (simp add: sample_open_def reject_pair_Ok TIERS_def ACTION_TRACING_def)
  then have run: "open_effect rival ?db ''v'' sample_open = Ok (''u'', sample_journal)"
    using key rival(2) [of 0] rival(2) [of 1]
    by (simp add: open_effect_def find_effect_def [of ?db] rival(1) insert_effect_def fence_ok_def numeral_2_eq_2)
      (simp add: sample_journal_def sample_leases_def sample_open_def sample_row_def)
  with journal_reachable [OF rtranclp.rtrancl_refl, where others = rival and uuid = "''v''" and a = sample_open
      and dirs = sample_leases and eff = "''u''", OF rival_steps]
  show ?thesis by (auto simp: sample_journal_def)
qed

text \<open>
  C7. The journal is append-only (effect_store.py, resolve_effect): after any run every earlier row is still
  there at its place, with all columns but the state and the resolution as they were, its state reached by
  legal moves, and unchanged altogether if it was confirmed.
\<close>

theorem journal_append_only:
  assumes "journal_step\<^sup>*\<^sup>* db db'" "journal_ok db"
  shows "\<exists>old new. ed_effects db' = old @ new \<and> list_all2 row_extends (ed_effects db) old"
  using journal_grown [OF assms] by (simp add: grown_def)

theorem journal_append_only_witness:
  "\<exists>old new. ed_effects (bump_lease ''d'' None sample_journal) = old @ new
    \<and> list_all2 row_extends (ed_effects sample_journal) old"
proof (rule journal_append_only [OF _ sample_journal_ok])
  show "journal_step\<^sup>*\<^sup>* sample_journal (bump_lease ''d'' None sample_journal)"
    by (rule r_into_rtranclp, rule journal_step.bumped) (rule refl)
qed

text \<open>
  Opening is idempotent (effect_store.py, open_effect): once an open has succeeded, a retry of the same
  intent for the same directive returns the same identifier and changes nothing, whatever the lease,
  executor or provider identifiers of the retry.
\<close>

theorem open_effect_idempotent:
  assumes "open_effect others db uuid a = Ok (eid, db')"
  shows "open_effect others' db' uuid' (a\<lparr>oa_lease := lease, oa_executor := executor, oa_run_id := run, oa_turn_id := turn,
    oa_now := now\<rparr>) = Ok (eid, db')"
proof -
  have "reject_forbidden_pair (oa_tier a) (oa_tracing a) = Ok ()"
    using assms by (auto simp: open_effect_def res_bind_Ok_iff)
  moreover have "\<exists>r. find_effect db' (oa_directive a) (effect_intent_digest (oa_intent a)) = Some r \<and> er_id r = eid"
    using assms by (cases rule: open_effectE) auto
  ultimately show ?thesis by (auto simp: open_effect_def)
qed

theorem open_effect_idempotent_witness:
  "open_effect alone sample_journal ''v'' (sample_open\<lparr>oa_lease := 1, oa_executor := ''y'', oa_run_id := None, oa_turn_id := None,
    oa_now := Aware 9 0\<rparr>) = Ok (''u'', sample_journal)"
  by (rule open_effect_idempotent [OF sample_open_ok])

text \<open>
  The fence (effect_store.py, open_effect and resolve_effect): once the lease of a directive has been
  bumped, a worker still holding the old lease neither opens a new effect for it nor resolves one of its
  effects, whoever the actor is; the journal is left as it was.
\<close>

theorem stale_lease_fenced:
  assumes "dict_get (ed_directives db) (oa_directive a) = Some (oa_lease a, claimed)"
    and "find_effect db (oa_directive a) (effect_intent_digest (oa_intent a)) = None"
    and "reject_forbidden_pair (oa_tier a) (oa_tracing a) = Ok ()"
    and "row \<in> set (ed_effects db)" "ef_directive (er_record row) = oa_directive a" "distinct (map er_id (ed_effects db))"
  shows "open_effect alone (bump_lease (oa_directive a) executor db) uuid a = Err StaleLease
    \<and> (case resolve_effect alone (bump_lease (oa_directive a) executor db) (er_id row) target actor source evidence (oa_lease a) now of
         Inl e \<Rightarrow> True | Inr (won, db') \<Rightarrow> \<not> won \<and> db' = bump_lease (oa_directive a) executor db)"
proof -
  let ?db = "bump_lease (oa_directive a) executor db"
  have fence: "\<not> fence_ok ?db (oa_directive a) (oa_lease a) x sys" for x sys
    using assms(1) by (simp add: fence_ok_def bump_lease_def update_conv')
  have nohit: "\<not> (er_id r = er_id row \<and> Q \<and> fence_ok ?db (ef_directive (er_record r)) (oa_lease a) x sys)"
    if "r \<in> set (ed_effects db)" for r Q x sys
    using that assms(4-6) fence by (auto simp: distinct_map inj_on_def)
  have "find_effect ?db (oa_directive a) (effect_intent_digest (oa_intent a)) = None"
    using assms(2) by (simp add: find_effect_def)
  then have "open_effect alone ?db uuid a = Err StaleLease"
    using assms(3) fence by (simp add: open_effect_def)
  moreover have "\<not> won \<and> db' = ?db"
    if "resolve_effect alone ?db (er_id row) target actor source evidence (oa_lease a) now = Ok (won, db')" for won db'
    using that
  proof (cases rule: resolve_effectE)
    case (row row')
    then have "\<not> resolve_hit ?db row' actor (oa_lease a) r" if "r \<in> set (ed_effects db)" for r
      using nohit [OF that] by (simp add: resolve_hit_def)
    with row(4,5) show ?thesis by (simp cong: map_cong filter_cong)
  qed simp
  ultimately show ?thesis by (auto split: sum.split)
qed

theorem stale_lease_fenced_witness:
  "open_effect alone (bump_lease ''d'' None (sample_journal\<lparr>ed_effects := [sample_row\<lparr>er_record := sample_effect
     \<lparr>ef_directive := ''d'', ef_digest := []\<rparr>\<rparr>]\<rparr>)) ''v'' sample_open = Err StaleLease"
proof -
  let ?row = "sample_row\<lparr>er_record := sample_effect\<lparr>ef_directive := ''d'', ef_digest := []\<rparr>\<rparr>"
  let ?db = "sample_journal\<lparr>ed_effects := [?row]\<rparr>"
  have d: "oa_directive sample_open = ''d''" "oa_lease sample_open = 2" by (simp_all add: sample_open_def)
  have "find_effect ?db ''d'' (effect_intent_digest (oa_intent sample_open)) = None"
    by (simp add: find_effect_def effect_intent_digest_def sha256_hex_nonempty [symmetric])
  moreover have "reject_forbidden_pair (oa_tier sample_open) (oa_tracing sample_open) = Ok ()"
    by (simp add: sample_open_def reject_pair_Ok TIERS_def ACTION_TRACING_def)
  ultimately show ?thesis
    using stale_lease_fenced [of ?db sample_open "Some ''x''" ?row] by (simp add: d sample_journal_def sample_leases_def)
qed

text \<open>A journal row whose columns a caller could have written: the record is well formed.\<close>

definition row_wf :: "effect_row \<Rightarrow> bool" where
  "row_wf r = (effect_wf (er_record r) \<and> ef_evidence (er_record r) \<noteq> None)"

lemma opt_column_ok: "opt_ok c \<Longrightarrow> opt_column c = opt_py PStr c"
  by (cases c) (auto simp: opt_column_def opt_ok_def)

lemma record_from_row_wf:
  assumes "row_wf r"
  shows "record_from_row r = Ok (er_record r)"
proof -
  let ?r = "er_record r"
  have wf: "effect_wf ?r" "ei_kind (ef_intent ?r) \<in> {''directive'', ''write'', ''command'', ''commit'', ''external''}"
    "ei_reversibility (ef_intent ?r) \<in> {''reversible'', ''irreversible'', ''unknown''}"
    "opt_ok (ef_run_id ?r)" "opt_ok (ef_turn_id ?r)" "opt_ok (ef_source ?r)"
    "ef_tier ?r \<in> {''os_sandbox'', ''container'', ''advisory''}" "ef_tracing ?r \<in> {''observed'', ''unavailable''}"
    using assms unfolding row_wf_def effect_wf_def by blast+
  have "or_else (ei_reversibility (ef_intent ?r)) ''unknown'' = ei_reversibility (ef_intent ?r)"
    "or_else (ef_tier ?r) ''advisory'' = ef_tier ?r" "or_else (ef_tracing ?r) ''unavailable'' = ef_tracing ?r"
    using wf(3,7,8) by (auto simp: or_else_def)
  then show ?thesis
    using effect_decode [OF wf(1), of "row_payload r"] intent_roundtrip [OF wf(2,3)] wf(4-6) assms
    by (auto simp: record_from_row_def row_payload_def Let_def opt_column_ok effect_intent_to_json_def row_wf_def)
qed

lemma records_from_rows_wf: "list_all row_wf rs \<Longrightarrow> records_from_rows rs = Ok (map er_record rs)"
  by (induction rs) (simp_all add: record_from_row_wf)

text \<open>
  Reading the journal back (effect_store.py, load_effects_for_directive and record_from_row): in a journal
  that satisfies the invariant and whose rows hold well-formed columns, the query answers, and its records
  are exactly the directive's effects, column for column, in strictly increasing sequence order.
\<close>

theorem load_effects_exact:
  assumes "journal_ok db" "list_all row_wf (ed_effects db)"
  shows "\<exists>records. load_effects_for_directive db directive = Ok records
    \<and> mset records = mset (filter (\<lambda>r. ef_directive r = directive) (map er_record (ed_effects db)))
    \<and> sorted_wrt (<) (map ef_seq records)"
proof -
  let ?mine = "filter (\<lambda>r. ef_directive (er_record r) = directive) (ed_effects db)"
  let ?rows = "sort_key (\<lambda>r. ef_seq (er_record r)) ?mine"
  have "load_effects_for_directive db directive = Ok (map er_record ?rows)"
    unfolding load_effects_for_directive_def
    using assms(2) by (intro records_from_rows_wf) (simp add: list_all_iff)
  moreover have "mset (map er_record ?rows) = mset (filter (\<lambda>r. ef_directive r = directive) (map er_record (ed_effects db)))"
    by (simp add: filter_map comp_def)
  moreover have "distinct (map (\<lambda>r. ef_seq (er_record r)) ?mine)"
    using assms(1) by (auto simp: journal_ok_def distinct_map inj_on_def effect_slot_def)
  then have "distinct (map (\<lambda>r. ef_seq (er_record r)) ?rows)"
    by (metis mset_map mset_sort mset_eq_imp_distinct_iff)
  then have "sorted_wrt (<) (map ef_seq (map er_record ?rows))"
    by (simp add: strict_sorted_iff comp_def)
  ultimately show ?thesis by blast
qed

theorem load_effects_exact_witness:
  "\<exists>records. load_effects_for_directive sample_journal ''d'' = Ok records
    \<and> mset records = mset (filter (\<lambda>r. ef_directive r = ''d'') (map er_record (ed_effects sample_journal)))
    \<and> sorted_wrt (<) (map ef_seq records)"
proof (rule load_effects_exact [OF sample_journal_ok])
  have "effect_wf (er_record sample_row)"
    by (simp add: effect_wf_def sample_journal_defs sample_effect_def EFFECT_STATES_def opt_ok_def utc_ok_def utc_opt_ok_def
        in_range_def MIN_T_def MAX_T_def effect_intent_digest_def)
  then show "list_all row_wf (ed_effects sample_journal)" by (simp add: row_wf_def sample_journal_defs)
qed

end
