(* ===== verification/Directive_Transitions.thy ===== *)
theory Directive_Transitions
  imports Task_Json
begin

text \<open>
  \<open>shared/tce_shared/execution_transitions.py\<close>: the directive lifecycle (the transition
  table, \<open>validate_transition\<close>, the lease), the idempotency helpers and the permit binding; and
  the fenced \<open>UPDATE\<close> statements by which the Lite runtime
  (\<open>services/tce_lite_api/tce_lite_api/store.py\<close>) commits claims, reports, cancellations and
  reaps, as a step relation on a directive row.
\<close>

section \<open>Vocabulary\<close>

datatype dstate = D_PENDING | D_IN_PROGRESS | D_SUCCEEDED | D_FAILED | D_BLOCKED | D_ABANDONED
  | D_CANCELLED | D_REJECTED

fun dstate_str :: "dstate \<Rightarrow> pystr" where
  "dstate_str D_PENDING = ''pending''"
| "dstate_str D_IN_PROGRESS = ''in_progress''"
| "dstate_str D_SUCCEEDED = ''succeeded''"
| "dstate_str D_FAILED = ''failed''"
| "dstate_str D_BLOCKED = ''blocked''"
| "dstate_str D_ABANDONED = ''abandoned''"
| "dstate_str D_CANCELLED = ''cancelled''"
| "dstate_str D_REJECTED = ''rejected''"

definition all_dstates :: "dstate list" where
  "all_dstates = [D_PENDING, D_IN_PROGRESS, D_SUCCEEDED, D_FAILED, D_BLOCKED, D_ABANDONED, D_CANCELLED, D_REJECTED]"

definition SYSTEM_ACTOR :: pystr where "SYSTEM_ACTOR = ''system:reaper''"

definition TERMINAL_STATES :: "dstate list" where
  "TERMINAL_STATES = [D_SUCCEEDED, D_FAILED, D_BLOCKED, D_ABANDONED, D_CANCELLED, D_REJECTED]"

datatype transition_reason = TR_OK | TR_INVALID_TRANSITION | TR_NOT_CLAIMED | TR_CLAIMED_BY_OTHER
  | TR_STALE_LEASE | TR_LEASE_REQUIRED | TR_PERMIT_INVALID | TR_TERMINAL | TR_SYSTEM_ONLY
  | TR_CONCURRENT_UPDATE

record transition =
  tr_source :: dstate
  tr_target :: dstate
  tr_claim :: bool
  tr_permit :: bool
  tr_system :: bool
  tr_bumps :: bool
  tr_audit :: pystr

abbreviation tr :: "dstate \<Rightarrow> dstate \<Rightarrow> bool \<Rightarrow> bool \<Rightarrow> bool \<Rightarrow> bool \<Rightarrow> pystr \<Rightarrow> transition" where
  "tr s t c p sy b a \<equiv> \<lparr>tr_source = s, tr_target = t, tr_claim = c, tr_permit = p, tr_system = sy,
     tr_bumps = b, tr_audit = a\<rparr>"

definition ALLOWED_TRANSITIONS :: "transition list" where
  "ALLOWED_TRANSITIONS =
    [tr D_PENDING D_IN_PROGRESS False True False True ''directive_claimed'',
     tr D_IN_PROGRESS D_IN_PROGRESS True False False False ''directive_reclaim_noop'',
     tr D_IN_PROGRESS D_SUCCEEDED True True False False ''directive_succeeded'',
     tr D_IN_PROGRESS D_FAILED True True False False ''directive_failed'',
     tr D_IN_PROGRESS D_BLOCKED True False False False ''directive_blocked'',
     tr D_IN_PROGRESS D_CANCELLED True False False False ''directive_cancelled'',
     tr D_PENDING D_CANCELLED False False False False ''directive_cancelled'',
     tr D_PENDING D_REJECTED False False False False ''directive_rejected'',
     tr D_PENDING D_ABANDONED False False True False ''directive_reaped'',
     tr D_IN_PROGRESS D_ABANDONED False False True True ''directive_reaped'']"

text \<open>The dictionary \<open>_TRANSITION_INDEX\<close>; the pairs of the table are distinct.\<close>

definition TRANSITION_INDEX :: "(dstate \<times> dstate, transition) dict" where
  "TRANSITION_INDEX = dict_by (\<lambda>t. (tr_source t, tr_target t)) ALLOWED_TRANSITIONS"

definition REPORT_ONLY_TARGETS :: "dstate list" where
  "REPORT_ONLY_TARGETS = [D_SUCCEEDED, D_FAILED, D_BLOCKED]"

record transition_decision =
  td_allowed :: bool
  td_reason :: transition_reason
  td_next_state :: "dstate option"
  td_next_lease :: int
  td_http_status :: int
  td_audited_as :: pystr
  td_message :: pystr

definition coerce_state :: "pystr \<Rightarrow> dstate option" where
  "coerce_state value = find (\<lambda>d. dstate_str d = py_lower (py_strip value)) all_dstates"

definition is_terminal :: "pystr \<Rightarrow> bool" where
  "is_terminal state = (case coerce_state state of None \<Rightarrow> False | Some d \<Rightarrow> d \<in> set TERMINAL_STATES)"

definition next_lease :: "int option \<Rightarrow> int" where
  "next_lease current = (case current of None \<Rightarrow> 0 | Some n \<Rightarrow> n) + 1"

definition find_transition :: "pystr \<Rightarrow> pystr \<Rightarrow> transition option" where
  "find_transition current requested = (case coerce_state current of
       None \<Rightarrow> None
     | Some source \<Rightarrow> (case coerce_state requested of
           None \<Rightarrow> None
         | Some target \<Rightarrow> dict_get TRANSITION_INDEX (source, target)))"

definition reject :: "transition_reason \<Rightarrow> pystr \<Rightarrow> int \<Rightarrow> transition_decision" where
  "reject reason message lease = \<lparr>td_allowed = False, td_reason = reason, td_next_state = None,
     td_next_lease = lease, td_http_status = 409, td_audited_as = [], td_message = message\<rparr>"

record transition_request =
  rq_current :: pystr
  rq_claimed_by :: "pystr option"
  rq_lease :: "int option"
  rq_requested :: pystr
  rq_actor :: pystr
  rq_actor_lease :: "int option"
  rq_permit_ok :: bool
  rq_require_echo :: bool

definition current_lease :: "transition_request \<Rightarrow> int" where
  "current_lease rq = (case rq_lease rq of None \<Rightarrow> 0 | Some n \<Rightarrow> n)"

definition apply_transition :: "transition \<Rightarrow> transition_request \<Rightarrow> transition_decision" where
  "apply_transition t rq =
     (let lease = current_lease rq; is_system = (rq_actor rq = SYSTEM_ACTOR) in
      if tr_system t \<and> \<not> is_system
      then reject TR_SYSTEM_ONLY ''transition is reserved for the system reaper'' lease
      else if tr_source t = D_PENDING \<and> tr_target t = D_IN_PROGRESS
           \<and> rq_claimed_by rq \<notin> {None, Some [], Some (rq_actor rq)}
      then reject TR_CLAIMED_BY_OTHER ''directive is already bound to another executor'' lease
      else if tr_claim t \<and> \<not> is_system \<and> rq_claimed_by rq \<in> {None, Some []}
      then reject TR_NOT_CLAIMED ''directive is not claimed by any executor; claim it before reporting'' lease
      else if tr_claim t \<and> \<not> is_system \<and> rq_claimed_by rq \<noteq> Some (rq_actor rq)
      then reject TR_CLAIMED_BY_OTHER ''directive is claimed by another executor'' lease
      else if tr_claim t \<and> \<not> is_system \<and> rq_actor_lease rq = None \<and> rq_require_echo rq
      then reject TR_LEASE_REQUIRED ''lease_generation must be echoed by the reporting executor'' lease
      else if tr_claim t \<and> \<not> is_system \<and> rq_actor_lease rq \<notin> {None, Some lease}
      then reject TR_STALE_LEASE (''stale lease '' @ str_int (the (rq_actor_lease rq))
             @ ''; current lease is '' @ str_int lease) lease
      else if tr_permit t \<and> \<not> rq_permit_ok rq
      then reject TR_PERMIT_INVALID ''execution permit is missing, expired or out of scope'' lease
      else \<lparr>td_allowed = True, td_reason = TR_OK, td_next_state = Some (tr_target t),
            td_next_lease = (if tr_bumps t then next_lease (Some lease) else lease),
            td_http_status = 0, td_audited_as = tr_audit t, td_message = ''ok''\<rparr>)"

definition validate_transition :: "transition_request \<Rightarrow> transition_decision" where
  "validate_transition rq =
     (let lease = current_lease rq in
      if is_terminal (rq_current rq) then reject TR_TERMINAL ''directive already terminal'' lease
      else (case find_transition (rq_current rq) (rq_requested rq) of
          None \<Rightarrow>
            if coerce_state (rq_current rq) = Some D_PENDING
               \<and> coerce_state (rq_requested rq) \<in> Some ` set REPORT_ONLY_TARGETS
            then reject TR_NOT_CLAIMED ''directive must be claimed before it can be reported'' lease
            else reject TR_INVALID_TRANSITION
              (''transition '' @ rq_current rq @ ''->'' @ rq_requested rq @ '' is not allowed'') lease
        | Some t \<Rightarrow> apply_transition t rq))"

section \<open>Idempotency and permits\<close>

definition REPORT_FINGERPRINT_KEYS :: "pystr list" where
  "REPORT_FINGERPRINT_KEYS = [''state'', ''result'', ''failure_reason'', ''details'', ''step_id'',
     ''step_output'', ''contract_type'', ''rollback_performed'']"

definition COMPLETION_VOLATILE_KEYS :: "pystr list" where
  "COMPLETION_VOLATILE_KEYS = [''ts'', ''created_at'', ''captured_at'', ''packet_id'', ''id'', ''session_id'']"

definition report_subset :: "(pystr \<times> py) list \<Rightarrow> (pystr \<times> py) list" where
  "report_subset body = map (\<lambda>k. (k, if k = ''state'' \<and> py_get body k \<noteq> PNone
     then PStr (py_str (py_get body k)) else py_get body k)) REPORT_FINGERPRINT_KEYS"

definition report_payload_fingerprint :: "(pystr \<times> py) list \<Rightarrow> pystr" where
  "report_payload_fingerprint body = sha256_hex (canonical_json (PDict (report_subset body)))"

definition completion_subset :: "(pystr \<times> py) list \<Rightarrow> (pystr \<times> py) list" where
  "completion_subset milestone = filter (\<lambda>kv. fst kv \<notin> set COMPLETION_VOLATILE_KEYS) milestone"

definition completion_payload_fingerprint :: "(pystr \<times> py) list \<Rightarrow> pystr" where
  "completion_payload_fingerprint milestone = sha256_hex (canonical_json (PDict (completion_subset milestone)))"

definition idempotency_outcome :: "pystr option \<Rightarrow> pystr \<Rightarrow> pystr" where
  "idempotency_outcome existing new = (case existing of None \<Rightarrow> ''new''
     | Some h \<Rightarrow> if h = new then ''replay'' else ''conflict'')"

definition permit_scope_digest :: "pystr \<Rightarrow> pystr list \<Rightarrow> pystr option \<Rightarrow> pystr" where
  "permit_scope_digest action_kind target_paths command_preview =
     sha256_hex (canonical_json (PDict [(''action_kind'', PStr action_kind),
       (''target_paths'', PList (map PStr (sorted_set target_paths))),
       (''command_preview'', PStr (case command_preview of None \<Rightarrow> [] | Some c \<Rightarrow> c))]))"

record permit_check =
  pq_decision :: "pystr option"
  pq_expires_at :: "datetime option"
  pq_user_id :: "pystr option"
  pq_directive_id :: "pystr option"
  pq_objective_hash :: "pystr option"
  pq_scope_digest :: "pystr option"
  pq_expected_digest :: "pystr option"
  pq_enforced :: bool
  pq_charter_id :: "pystr option"
  pq_active_charter :: "pystr option"
  pq_for_directive :: pystr
  pq_for_user :: pystr
  pq_for_objective :: "pystr option"
  pq_started_at :: "datetime option"
  pq_now :: datetime

definition both_differ :: "'a option \<Rightarrow> 'a option \<Rightarrow> bool" where
  "both_differ a b = (a \<noteq> None \<and> b \<noteq> None \<and> a \<noteq> b)"

text \<open>\<open>Err\<close> is the \<open>ValueError\<close> for an unknown phase.\<close>

definition permit_binding_ok :: "permit_check \<Rightarrow> pystr \<Rightarrow> (pystr, bool \<times> pystr) result" where
  "permit_binding_ok p phase =
     (if phase \<notin> {''claim'', ''report''} then Err (''unknown permit phase: '' @ repr_str phase)
      else Ok (
        if pq_decision p \<noteq> Some ''allow'' then (False, ''permit_not_allowed'')
        else if pq_enforced p \<and> (pq_scope_digest p = None \<or> pq_expected_digest p = None)
        then (False, ''permit_scope_digest_missing'')
        else if both_differ (pq_scope_digest p) (pq_expected_digest p)
        then (False, ''permit_scope_digest_mismatch'')
        else if both_differ (pq_charter_id p) (pq_active_charter p) then (False, ''permit_charter_superseded'')
        else if pq_user_id p \<noteq> None \<and> pq_user_id p \<noteq> Some (pq_for_user p) then (False, ''permit_scope_mismatch'')
        else if pq_directive_id p \<noteq> None \<and> pq_directive_id p \<noteq> Some (pq_for_directive p)
        then (False, ''permit_scope_mismatch'')
        else if pq_objective_hash p \<noteq> None \<and> pq_objective_hash p \<noteq> pq_for_objective p
        then (False, ''permit_scope_mismatch'')
        else (case pq_expires_at p of
            None \<Rightarrow> (True, ''ok'')
          | Some ex \<Rightarrow>
              if phase = ''claim''
              then (if instant (pq_now p) < instant ex then (True, ''ok'') else (False, ''permit_expired''))
              else (case pq_started_at p of
                  None \<Rightarrow> (False, ''permit_expired_before_start'')
                | Some st \<Rightarrow> if instant st \<le> instant ex then (True, ''ok'')
                    else (False, ''permit_expired_before_start'')))))"

section \<open>The directive row and its fenced updates\<close>

record directive_row =
  dr_state :: dstate
  dr_claimed_by :: "pystr option"
  dr_executor :: "pystr option"
  dr_lease :: int
  dr_lease_expires :: "datetime option"
  dr_expires :: "datetime option"
  dr_started :: "datetime option"
  dr_finished :: "datetime option"
  dr_cancelled :: "datetime option"
  dr_cancel_reason :: "pystr option"

definition coalesce :: "'a option \<Rightarrow> 'a option \<Rightarrow> 'a option" where
  "coalesce x y = (case x of None \<Rightarrow> y | Some _ \<Rightarrow> x)"

definition request_of :: "directive_row \<Rightarrow> dstate \<Rightarrow> pystr \<Rightarrow> int option \<Rightarrow> bool \<Rightarrow> bool \<Rightarrow> transition_request" where
  "request_of row requested actor actor_lease permit_ok echo =
     \<lparr>rq_current = dstate_str (dr_state row), rq_claimed_by = dr_executor row, rq_lease = Some (dr_lease row),
      rq_requested = dstate_str requested, rq_actor = actor, rq_actor_lease = actor_lease,
      rq_permit_ok = permit_ok, rq_require_echo = echo\<rparr>"

text \<open>Each update names the state and the lease it was validated against; \<open>None\<close> is row count 0.\<close>

definition claim_update ::
  "pystr \<Rightarrow> pystr \<Rightarrow> int \<Rightarrow> int \<Rightarrow> datetime \<Rightarrow> datetime \<Rightarrow> directive_row \<Rightarrow> directive_row option" where
  "claim_update executor claimer lease new_lease claim_expires now row =
     (if dr_state row = D_PENDING \<and> dr_lease row = lease
      then Some (row\<lparr>dr_state := D_IN_PROGRESS, dr_claimed_by := Some claimer, dr_executor := Some executor,
        dr_lease := new_lease, dr_lease_expires := Some claim_expires,
        dr_started := coalesce (dr_started row) (Some now), dr_expires := Some claim_expires\<rparr>)
      else None)"

definition report_update ::
  "pystr \<Rightarrow> int \<Rightarrow> dstate \<Rightarrow> datetime \<Rightarrow> directive_row \<Rightarrow> directive_row option" where
  "report_update executor lease effective now row =
     (if dr_state row = D_IN_PROGRESS \<and> dr_lease row = lease \<and> dr_executor row = Some executor
      then Some (row\<lparr>dr_state := effective, dr_finished := Some now\<rparr>)
      else None)"

definition cancel_update ::
  "dstate \<Rightarrow> int \<Rightarrow> dstate \<Rightarrow> pystr \<Rightarrow> datetime \<Rightarrow> directive_row \<Rightarrow> directive_row option" where
  "cancel_update seen lease target reason now row =
     (if dr_state row = seen \<and> dr_lease row = lease
      then Some (row\<lparr>dr_state := target, dr_finished := Some now, dr_cancelled := Some now,
        dr_cancel_reason := Some reason\<rparr>)
      else None)"

definition task_cancel_update :: "dstate \<Rightarrow> int \<Rightarrow> pystr \<Rightarrow> datetime \<Rightarrow> directive_row \<Rightarrow> directive_row option" where
  "task_cancel_update seen lease reason now row =
     (if dr_state row = seen \<and> dr_lease row = lease
      then Some (row\<lparr>dr_state := D_CANCELLED, dr_finished := Some now, dr_cancelled := Some now,
        dr_cancel_reason := coalesce (dr_cancel_reason row) (Some reason)\<rparr>)
      else None)"

definition reap_pending_update :: "int \<Rightarrow> datetime \<Rightarrow> directive_row \<Rightarrow> directive_row option" where
  "reap_pending_update lease now row =
     (if dr_state row = D_PENDING \<and> dr_lease row = lease
      then Some (row\<lparr>dr_state := D_ABANDONED, dr_finished := Some now\<rparr>) else None)"

definition reap_stale_update :: "int \<Rightarrow> int \<Rightarrow> datetime \<Rightarrow> directive_row \<Rightarrow> directive_row option" where
  "reap_stale_update lease new_lease now row =
     (if dr_state row = D_IN_PROGRESS \<and> dr_lease row = lease
      then Some (row\<lparr>dr_state := D_ABANDONED, dr_lease := new_lease, dr_finished := Some now\<rparr>) else None)"

text \<open>The cancellation of an objective change names the two live states and no lease.\<close>

definition objective_cancel_update :: "pystr \<Rightarrow> datetime \<Rightarrow> directive_row \<Rightarrow> directive_row option" where
  "objective_cancel_update reason now row =
     (if dr_state row \<in> {D_PENDING, D_IN_PROGRESS}
      then Some (row\<lparr>dr_state := D_CANCELLED, dr_finished := Some now, dr_cancelled := Some now,
        dr_cancel_reason := coalesce (dr_cancel_reason row) (Some reason)\<rparr>)
      else None)"

text \<open>The boot sweep's \<open>UPDATE\<close> (reconcile.py) names the lease it read, and no state.\<close>

definition boot_reap_update :: "int \<Rightarrow> directive_row \<Rightarrow> directive_row option" where
  "boot_reap_update lease row =
     (if dr_lease row = lease
      then Some (row\<lparr>dr_state := D_ABANDONED, dr_lease := lease + 1, dr_lease_expires := None\<rparr>) else None)"

text \<open>
  One committed write of a serving process.  The decision is taken on a row \<open>seen\<close> read earlier, any row at all;
  the update then runs against the row as it is, so every interleaving of readers and writers is a
  sequence of these steps.
\<close>

inductive serving_step :: "directive_row \<Rightarrow> directive_row \<Rightarrow> bool" where
  claim: "dr_state seen = D_PENDING \<Longrightarrow>
    validate_transition (request_of seen D_IN_PROGRESS actor None permit_ok False) = d \<Longrightarrow> td_allowed d \<Longrightarrow>
    claim_update actor claimer (dr_lease seen) (td_next_lease d) claim_expires now row = Some row' \<Longrightarrow>
    serving_step row row'"
| report: "requested \<notin> {D_CANCELLED, D_REJECTED} \<Longrightarrow>
    td_allowed (validate_transition (request_of seen requested actor presented permit_ok echo)) \<Longrightarrow>
    effective \<in> {requested, D_FAILED} \<Longrightarrow>
    report_update actor (dr_lease seen) effective now row = Some row' \<Longrightarrow> serving_step row row'"
| cancel: "requested \<in> {D_CANCELLED, D_REJECTED} \<Longrightarrow>
    td_allowed (validate_transition (request_of seen requested actor presented permit_ok echo)) \<Longrightarrow>
    cancel_update (dr_state seen) (dr_lease seen) requested reason now row = Some row' \<Longrightarrow>
    serving_step row row'"
| task_cancel: "dr_state seen \<in> {D_PENDING, D_IN_PROGRESS} \<Longrightarrow>
    td_allowed (validate_transition (request_of seen D_CANCELLED SYSTEM_ACTOR None True False)) \<Longrightarrow>
    task_cancel_update (dr_state seen) (dr_lease seen) reason now row = Some row' \<Longrightarrow>
    serving_step row row'"
| reap_pending: "dr_state seen = D_PENDING \<Longrightarrow>
    td_allowed (validate_transition (request_of seen D_ABANDONED SYSTEM_ACTOR None True False)) \<Longrightarrow>
    reap_pending_update (dr_lease seen) now row = Some row' \<Longrightarrow> serving_step row row'"
| reap_stale: "dr_state seen = D_IN_PROGRESS \<Longrightarrow>
    validate_transition (request_of seen D_ABANDONED SYSTEM_ACTOR None True False) = d \<Longrightarrow> td_allowed d \<Longrightarrow>
    reap_stale_update (dr_lease seen) (td_next_lease d) now row = Some row' \<Longrightarrow> serving_step row row'"
| objective_cancel: "objective_cancel_update reason now row = Some row' \<Longrightarrow> serving_step row row'"

inductive_cases serving_stepE: "serving_step row row'"

text \<open>
  A boot sweep (\<open>startup_reconcile\<close>) runs while other processes serve: it decides on a row it read as live,
  and its \<open>UPDATE\<close> compares the lease alone.
\<close>

inductive directive_step :: "directive_row \<Rightarrow> directive_row \<Rightarrow> bool" where
  serving: "serving_step row row' \<Longrightarrow> directive_step row row'"
| boot_sweep: "dr_state (seen::directive_row) \<in> {D_PENDING, D_IN_PROGRESS} \<Longrightarrow> boot_reap_update (dr_lease seen) row = Some row' \<Longrightarrow>
    directive_step row row'"

inductive_cases directive_stepE: "directive_step row row'"

section \<open>Facts about the validator\<close>

lemma coerce_dstate [simp]: "coerce_state (dstate_str d) = Some d"
proof -
  have "list_all (\<lambda>d. coerce_state (dstate_str d) = Some d) all_dstates" by code_simp
  moreover have "d \<in> set all_dstates" by (cases d) (simp_all add: all_dstates_def)
  ultimately show ?thesis by (simp add: list_all_iff)
qed

lemma is_terminal_dstate [simp]: "is_terminal (dstate_str d) \<longleftrightarrow> d \<in> set TERMINAL_STATES"
  by (simp add: is_terminal_def)

lemma TRANSITION_INDEX_eq:
  "TRANSITION_INDEX = map (\<lambda>t. ((tr_source t, tr_target t), t)) ALLOWED_TRANSITIONS"
  unfolding TRANSITION_INDEX_def by (rule dict_by_distinct) (simp add: ALLOWED_TRANSITIONS_def)

lemma find_transition_Some:
  "find_transition a b = Some t \<Longrightarrow>
    t \<in> set ALLOWED_TRANSITIONS \<and> coerce_state a = Some (tr_source t) \<and> coerce_state b = Some (tr_target t)"
  by (auto simp: find_transition_def TRANSITION_INDEX_eq dest!: map_of_SomeD split: option.splits)

lemma reject_simps [simp]:
  "\<not> td_allowed (reject r m l)" "td_reason (reject r m l) = r" "td_next_lease (reject r m l) = l"
  "td_next_state (reject r m l) = None" "td_http_status (reject r m l) = 409"
  by (simp_all add: reject_def)

text \<open>Everything an allowed decision has passed.\<close>

lemma apply_transition_allowed:
  assumes "td_allowed (apply_transition t rq)"
  shows "tr_system t \<Longrightarrow> rq_actor rq = SYSTEM_ACTOR"
    and "tr_source t = D_PENDING \<Longrightarrow> tr_target t = D_IN_PROGRESS \<Longrightarrow>
       rq_claimed_by rq \<in> {None, Some [], Some (rq_actor rq)}"
    and "tr_claim t \<Longrightarrow> rq_actor rq \<noteq> SYSTEM_ACTOR \<Longrightarrow> rq_claimed_by rq = Some (rq_actor rq)"
    and "tr_claim t \<Longrightarrow> rq_actor rq \<noteq> SYSTEM_ACTOR \<Longrightarrow> rq_actor_lease rq \<in> {None, Some (current_lease rq)}"
    and "tr_permit t \<Longrightarrow> rq_permit_ok rq"
    and "td_next_state (apply_transition t rq) = Some (tr_target t)"
    and "td_next_lease (apply_transition t rq) = (if tr_bumps t then current_lease rq + 1 else current_lease rq)"
  using assms
  by (simp_all only: apply_transition_def Let_def split: if_split_asm) (simp_all add: next_lease_def)

lemma validate_allowed:
  assumes "td_allowed (validate_transition rq)"
  obtains t where "find_transition (rq_current rq) (rq_requested rq) = Some t"
    "\<not> is_terminal (rq_current rq)" "validate_transition rq = apply_transition t rq"
    "td_allowed (apply_transition t rq)"
proof -
  have nt: "\<not> is_terminal (rq_current rq)" using assms by (auto simp: validate_transition_def Let_def)
  obtain t where ft: "find_transition (rq_current rq) (rq_requested rq) = Some t"
    using assms nt
    by (cases "find_transition (rq_current rq) (rq_requested rq)")
      (auto simp: validate_transition_def Let_def split: if_splits)
  then have "validate_transition rq = apply_transition t rq"
    using nt by (simp add: validate_transition_def)
  with that [OF ft nt] assms show ?thesis by simp
qed

lemma current_lease_request [simp]: "current_lease (request_of row d a l p e) = dr_lease row"
  by (simp add: current_lease_def request_of_def)

lemma request_of_simps [simp]:
  "rq_current (request_of row d a l p e) = dstate_str (dr_state row)"
  "rq_requested (request_of row d a l p e) = dstate_str d"
  "rq_claimed_by (request_of row d a l p e) = dr_executor row"
  "rq_actor (request_of row d a l p e) = a"
  "rq_permit_ok (request_of row d a l p e) = p"
  by (simp_all add: request_of_def)

section \<open>Invariants of the row\<close>

abbreviation dr_terminal :: "directive_row \<Rightarrow> bool" where
  "dr_terminal row \<equiv> dr_state row \<in> set TERMINAL_STATES"

lemma request_allowed:
  assumes "td_allowed (validate_transition (request_of seen target actor al p e))"
  obtains t where "t \<in> set ALLOWED_TRANSITIONS" "tr_source t = dr_state seen" "tr_target t = target"
    "dr_state seen \<notin> set TERMINAL_STATES"
    "td_allowed (apply_transition t (request_of seen target actor al p e))"
    "validate_transition (request_of seen target actor al p e) = apply_transition t (request_of seen target actor al p e)"
proof (rule validate_allowed [OF assms])
  fix t assume t: "find_transition (rq_current (request_of seen target actor al p e))
      (rq_requested (request_of seen target actor al p e)) = Some t"
    "\<not> is_terminal (rq_current (request_of seen target actor al p e))"
    "validate_transition (request_of seen target actor al p e) = apply_transition t (request_of seen target actor al p e)"
    "td_allowed (apply_transition t (request_of seen target actor al p e))"
  from find_transition_Some [OF t(1)] t(2-4) show thesis by (intro that [of t]) auto
qed

lemma claim_next_lease:
  assumes "dr_state seen = D_PENDING" "td_allowed (validate_transition (request_of seen D_IN_PROGRESS actor None p False))"
  shows "td_next_lease (validate_transition (request_of seen D_IN_PROGRESS actor None p False)) = dr_lease seen + 1"
  using assms(2)
proof (rule request_allowed)
  fix t assume t: "t \<in> set ALLOWED_TRANSITIONS" "tr_source t = dr_state seen" "tr_target t = D_IN_PROGRESS"
    "td_allowed (apply_transition t (request_of seen D_IN_PROGRESS actor None p False))"
    "validate_transition (request_of seen D_IN_PROGRESS actor None p False)
      = apply_transition t (request_of seen D_IN_PROGRESS actor None p False)"
  from t(1-3) assms(1) have "tr_bumps t" by (auto simp: ALLOWED_TRANSITIONS_def)
  with apply_transition_allowed(7) [OF t(4)] t(5) show ?thesis by simp
qed

lemma reap_next_lease:
  assumes "dr_state seen = D_IN_PROGRESS" "td_allowed (validate_transition (request_of seen D_ABANDONED actor al p e))"
  shows "td_next_lease (validate_transition (request_of seen D_ABANDONED actor al p e)) = dr_lease seen + 1"
  using assms(2)
proof (rule request_allowed)
  fix t assume t: "t \<in> set ALLOWED_TRANSITIONS" "tr_source t = dr_state seen" "tr_target t = D_ABANDONED"
    "td_allowed (apply_transition t (request_of seen D_ABANDONED actor al p e))"
    "validate_transition (request_of seen D_ABANDONED actor al p e)
      = apply_transition t (request_of seen D_ABANDONED actor al p e)"
  from t(1-3) assms(1) have "tr_bumps t" by (auto simp: ALLOWED_TRANSITIONS_def)
  with apply_transition_allowed(7) [OF t(4)] t(5) show ?thesis by simp
qed

lemmas update_defs = claim_update_def report_update_def cancel_update_def task_cancel_update_def
  reap_pending_update_def reap_stale_update_def objective_cancel_update_def

lemma serving_step_live: "serving_step row row' \<Longrightarrow> \<not> dr_terminal row"
proof (induction rule: serving_step.induct)
  case (cancel requested seen actor presented permit_ok echo reason now row row')
  from cancel(2) have "dr_state seen \<notin> set TERMINAL_STATES" by (rule request_allowed)
  with cancel(3) show ?case by (simp add: cancel_update_def split: if_split_asm)
qed (auto simp: update_defs TERMINAL_STATES_def split: if_split_asm)

lemma serving_step_lease: "serving_step row row' \<Longrightarrow> dr_lease row \<le> dr_lease row'"
  by (erule serving_stepE)
    (auto simp: claim_update_def report_update_def cancel_update_def task_cancel_update_def
      reap_pending_update_def reap_stale_update_def objective_cancel_update_def claim_next_lease reap_next_lease split: if_splits)

text \<open>What a boot sweep leaves of a row it hits.\<close>

lemma boot_reapE:
  assumes "boot_reap_update lease row = Some row'"
  obtains "dr_lease row = lease"
    "row' = row\<lparr>dr_state := D_ABANDONED, dr_lease := dr_lease row + 1, dr_lease_expires := None\<rparr>"
  using assms by (auto simp: boot_reap_update_def split: if_split_asm)

lemma directive_step_lease: "directive_step row row' \<Longrightarrow> dr_lease row \<le> dr_lease row'"
  by (erule directive_stepE) (auto dest: serving_step_lease elim: boot_reapE)

lemma directive_steps_lease: "directive_step\<^sup>*\<^sup>* row row' \<Longrightarrow> dr_lease row \<le> dr_lease row'"
  by (induction rule: rtranclp_induct) (auto dest: directive_step_lease)

interpretation directive: lifecycle serving_step dr_terminal
  by unfold_locales (use serving_step_live in blast)

text \<open>What a boot sweep can have made of a row: itself, or abandoned under a higher lease.\<close>

definition boot_swept :: "directive_row \<Rightarrow> directive_row \<Rightarrow> bool" where
  "boot_swept row row' = (row' = row
     \<or> (\<exists>l > dr_lease row. row' = row\<lparr>dr_state := D_ABANDONED, dr_lease := l, dr_lease_expires := None\<rparr>))"

lemma boot_swept_terminal: "boot_swept row row' \<Longrightarrow> dr_terminal row \<Longrightarrow> dr_terminal row'"
  by (auto simp: boot_swept_def TERMINAL_STATES_def)

lemma boot_swept_boot: "boot_swept row row' \<Longrightarrow> boot_reap_update lease row' = Some row'' \<Longrightarrow> boot_swept row row''"
  by (erule boot_reapE) (auto simp: boot_swept_def intro: exI [of _ "dr_lease row' + 1"])

lemma boot_swept_steps: "directive_step\<^sup>*\<^sup>* row row' \<Longrightarrow> dr_terminal row \<Longrightarrow> boot_swept row row'"
proof (induction rule: rtranclp_induct)
  case base
  show ?case by (simp add: boot_swept_def)
next
  case (step y z)
  then have y: "boot_swept row y" by simp
  from step(2) show ?case
  proof (rule directive_stepE)
    assume "serving_step y z"
    with serving_step_live boot_swept_terminal [OF y step(4)] show ?case by blast
  qed (rule boot_swept_boot [OF y])
qed

text \<open>A row in progress, or resolved by a report, was claimed.\<close>

definition claimed_ok :: "directive_row \<Rightarrow> bool" where
  "claimed_ok row = (dr_state row \<in> {D_IN_PROGRESS, D_SUCCEEDED, D_FAILED, D_BLOCKED} \<longrightarrow>
     dr_executor row \<noteq> None \<and> 1 \<le> dr_lease row \<and> dr_started row \<noteq> None)"

lemma claimed_ok_over: "dr_state row \<in> {D_CANCELLED, D_REJECTED, D_ABANDONED} \<Longrightarrow> claimed_ok row"
  by (auto simp: claimed_ok_def)

lemma serving_step_claimed:
  assumes "serving_step row row'" "claimed_ok row" "0 \<le> dr_lease row"
  shows "claimed_ok row'"
  using assms(1)
proof (cases rule: serving_step.cases)
  case (claim seen actor permit_ok d claimer claim_expires now)
  have "td_next_lease d = dr_lease seen + 1" using claim_next_lease claim(1-3) by blast
  then show ?thesis using claim(4) assms(3)
    by (auto simp: claim_update_def claimed_ok_def coalesce_def split: if_split_asm option.split)
next
  case (report requested seen actor presented permit_ok echo effective now)
  from report(4) have "dr_state row = D_IN_PROGRESS" "dr_executor row' = dr_executor row" "dr_lease row' = dr_lease row"
    "dr_started row' = dr_started row"
    by (auto simp: report_update_def split: if_split_asm)
  with assms(2) show ?thesis by (simp add: claimed_ok_def)
next
  case (cancel requested seen actor presented permit_ok echo reason now)
  from cancel(3) have "dr_state row' = requested" by (auto simp: cancel_update_def split: if_split_asm)
  with cancel(1) show ?thesis by (intro claimed_ok_over) auto
next
  case (task_cancel seen reason now)
  from task_cancel(3) show ?thesis by (intro claimed_ok_over) (auto simp: task_cancel_update_def split: if_split_asm)
next
  case (reap_pending seen now)
  from reap_pending(3) show ?thesis by (intro claimed_ok_over) (auto simp: reap_pending_update_def split: if_split_asm)
next
  case (reap_stale seen d now)
  from reap_stale(4) show ?thesis by (intro claimed_ok_over) (auto simp: reap_stale_update_def split: if_split_asm)
next
  case (objective_cancel reason now)
  from objective_cancel(1) show ?thesis
    by (intro claimed_ok_over) (auto simp: objective_cancel_update_def split: if_split_asm)
qed

lemma claimed_ok_step:
  assumes "directive_step row row'" "claimed_ok row" "0 \<le> dr_lease row"
  shows "claimed_ok row'"
  using assms(1)
proof (rule directive_stepE)
  show "serving_step row row' \<Longrightarrow> claimed_ok row'" using serving_step_claimed assms(2,3) by blast
  show "boot_reap_update lease row = Some row' \<Longrightarrow> claimed_ok row'" for lease
    by (erule boot_reapE) (simp add: claimed_ok_def)
qed

lemma claimed_ok_steps:
  "directive_step\<^sup>*\<^sup>* row row' \<Longrightarrow> claimed_ok row \<Longrightarrow> 0 \<le> dr_lease row \<Longrightarrow> claimed_ok row' \<and> 0 \<le> dr_lease row'"
proof (induction rule: rtranclp_induct)
  case (step y z)
  then show ?case using claimed_ok_step [of y z] directive_step_lease [of y z] by auto
qed simp

section \<open>Properties\<close>

definition fresh_row :: directive_row where
  "fresh_row = \<lparr>dr_state = D_PENDING, dr_claimed_by = None, dr_executor = None, dr_lease = 0,
     dr_lease_expires = None, dr_expires = None, dr_started = None, dr_finished = None, dr_cancelled = None,
     dr_cancel_reason = None\<rparr>"

text \<open>
  C4. A terminal directive never becomes live again (execution_transitions.py, validate_transition; store.py,
  task_state_store.py and reconcile.py, every \<open>UPDATE\<close> of the state): no interleaving of claims, reports,
  cancellations and reaps of serving processes, each decided on any earlier read, alters a row in a
  terminal state while the row exists; the \<open>UPDATE\<close> of a boot sweep, which compares the lease alone, is the one
  write that can, and all it can do is abandon the row and raise its lease.
\<close>

theorem terminal_directive_is_final:
  assumes "directive_step\<^sup>*\<^sup>* row row'" "dr_state row \<in> set TERMINAL_STATES"
  shows "dr_state row' \<in> set TERMINAL_STATES \<and> (serving_step\<^sup>*\<^sup>* row row' \<longrightarrow> row' = row)
    \<and> (row' = row
        \<or> (\<exists>l > dr_lease row. row' = row\<lparr>dr_state := D_ABANDONED, dr_lease := l, dr_lease_expires := None\<rparr>))"
proof (intro conjI impI)
  show "row' = row" if "serving_step\<^sup>*\<^sup>* row row'" using that assms(2) by (rule directive.terminal_absorbing)
  note kept = boot_swept_steps [OF assms]
  then show "dr_state row' \<in> set TERMINAL_STATES" using assms(2) by (auto simp: boot_swept_def TERMINAL_STATES_def)
  show "row' = row
      \<or> (\<exists>l > dr_lease row. row' = row\<lparr>dr_state := D_ABANDONED, dr_lease := l, dr_lease_expires := None\<rparr>)"
    using kept by (simp add: boot_swept_def)
qed

text \<open>A succeeded row under lease 1, and the sweep that read it in progress under that lease.\<close>

theorem terminal_directive_is_final_witness:
  "dr_state (fresh_row\<lparr>dr_state := D_ABANDONED, dr_lease := 2\<rparr>) \<in> set TERMINAL_STATES"
proof -
  let ?row = "fresh_row\<lparr>dr_state := D_SUCCEEDED, dr_lease := 1\<rparr>"
  let ?seen = "fresh_row\<lparr>dr_state := D_IN_PROGRESS, dr_lease := 1\<rparr>"
  have "directive_step ?row (fresh_row\<lparr>dr_state := D_ABANDONED, dr_lease := 2\<rparr>)"
    by (rule directive_step.boot_sweep [where seen = ?seen]) (simp_all add: boot_reap_update_def fresh_row_def)
  then have "directive_step\<^sup>*\<^sup>* ?row (fresh_row\<lparr>dr_state := D_ABANDONED, dr_lease := 2\<rparr>)" by (rule r_into_rtranclp)
  from terminal_directive_is_final [OF this] show ?thesis by (simp add: TERMINAL_STATES_def)
qed

text \<open>
  C5. At most one claim per lease (store.py, the claim's \<open>UPDATE\<close>): after a claim has committed, and
  after whatever else happens to the row, a second claim decided on the same lease finds no row to
  update.
\<close>

theorem claim_wins_once:
  assumes "dr_state seen = D_PENDING"
    and "td_allowed (validate_transition (request_of seen D_IN_PROGRESS actor None permit_ok False))"
    and "claim_update actor claimer (dr_lease seen)
          (td_next_lease (validate_transition (request_of seen D_IN_PROGRESS actor None permit_ok False)))
          expires now row = Some row'"
    and "directive_step\<^sup>*\<^sup>* row' row''"
  shows "claim_update actor2 claimer2 (dr_lease seen) lease2 expires2 now2 row'' = None
    \<and> report_update actor2 (dr_lease seen) effective now2 row'' = None
    \<and> dr_lease row' = dr_lease seen + 1 \<and> dr_executor row' = Some actor"
proof -
  note lease = claim_next_lease [OF assms(1,2)]
  from assms(3) have row': "dr_lease row' = dr_lease seen + 1" "dr_executor row' = Some actor"
    by (auto simp: claim_update_def lease split: if_split_asm)
  with directive_steps_lease [OF assms(4)] have "dr_lease row'' \<noteq> dr_lease seen" by simp
  with row' show ?thesis by (simp add: claim_update_def report_update_def)
qed

theorem claim_wins_once_witness:
  "\<exists>row'. claim_update ''b'' ''B'' 0 1 (Aware 9 0) (Aware 2 0) row' = None \<and> dr_executor row' = Some ''a''"
proof -
  let ?d = "validate_transition (request_of fresh_row D_IN_PROGRESS ''a'' None True False)"
  have ok: "td_allowed ?d" by code_simp
  obtain row' where row': "claim_update ''a'' ''A'' (dr_lease fresh_row) (td_next_lease ?d) (Aware 9 0) (Aware 1 0)
      fresh_row = Some row'"
    by (simp add: claim_update_def fresh_row_def)
  have "dr_state fresh_row = D_PENDING" by (simp add: fresh_row_def)
  from claim_wins_once [OF this ok row' rtranclp.rtrancl_refl, of "''b''" "''B''" 1 "Aware 9 0" "Aware 2 0"]
  show ?thesis by (auto simp: fresh_row_def)
qed

text \<open>
  Nothing is reported that was not claimed (execution_transitions.py and store.py): in every row reachable
  from a fresh directive, a state in progress, succeeded, failed or blocked comes with a claiming
  executor, a start time and a lease of at least one.
\<close>

theorem resolved_directives_were_claimed:
  assumes "directive_step\<^sup>*\<^sup>* fresh_row row" "dr_state row \<in> {D_IN_PROGRESS, D_SUCCEEDED, D_FAILED, D_BLOCKED}"
  shows "dr_executor row \<noteq> None \<and> 1 \<le> dr_lease row \<and> dr_started row \<noteq> None"
  using claimed_ok_steps [OF assms(1)] assms(2) by (auto simp: claimed_ok_def fresh_row_def)

theorem resolved_directives_were_claimed_witness:
  "\<exists>row::directive_row. dr_state row = D_IN_PROGRESS \<and> dr_started row \<noteq> None"
proof -
  let ?d = "validate_transition (request_of fresh_row D_IN_PROGRESS ''a'' None True False)"
  have ok: "td_allowed ?d" by code_simp
  obtain row where row: "claim_update ''a'' ''A'' (dr_lease fresh_row) (td_next_lease ?d) (Aware 9 0) (Aware 1 0)
      fresh_row = Some row" and st: "dr_state row = D_IN_PROGRESS"
    by (simp add: claim_update_def fresh_row_def)
  have "serving_step fresh_row row"
    by (rule serving_step.claim [OF _ refl ok row]) (simp add: fresh_row_def)
  then have "directive_step fresh_row row" by (rule directive_step.serving)
  then have "directive_step\<^sup>*\<^sup>* fresh_row row" by blast
  then have "dr_started row \<noteq> None" using resolved_directives_were_claimed [of row] st by simp
  with st show ?thesis by blast
qed

text \<open>
  What an allowed transition has passed (execution_transitions.py, validate_transition): the state was not
  terminal, the move is one of the table, a system-only move was made by the reaper, a claim-bound move
  by the holder of the claim with the current lease when one was echoed, a permit-bound move under a
  valid permit; the lease moves exactly when the table says so.  A refusal changes no state and keeps
  the lease.
\<close>

theorem validate_transition_sound:
  "if td_allowed (validate_transition rq)
   then (\<exists>t. t \<in> set ALLOWED_TRANSITIONS \<and> coerce_state (rq_current rq) = Some (tr_source t)
      \<and> coerce_state (rq_requested rq) = Some (tr_target t) \<and> \<not> is_terminal (rq_current rq)
      \<and> (rq_actor rq = SYSTEM_ACTOR \<or> \<not> tr_system t)
      \<and> (rq_actor rq = SYSTEM_ACTOR \<or> \<not> tr_claim t
          \<or> rq_claimed_by rq = Some (rq_actor rq) \<and> rq_actor_lease rq \<in> {None, Some (current_lease rq)})
      \<and> (rq_permit_ok rq \<or> \<not> tr_permit t)
      \<and> td_next_state (validate_transition rq) = Some (tr_target t)
      \<and> td_next_lease (validate_transition rq) = (if tr_bumps t then current_lease rq + 1 else current_lease rq))
   else td_next_state (validate_transition rq) = None \<and> td_next_lease (validate_transition rq) = current_lease rq
      \<and> td_http_status (validate_transition rq) = 409"
proof (cases "td_allowed (validate_transition rq)")
  case True
  then obtain t where t: "find_transition (rq_current rq) (rq_requested rq) = Some t"
    "\<not> is_terminal (rq_current rq)" "validate_transition rq = apply_transition t rq"
    "td_allowed (apply_transition t rq)" by (rule validate_allowed)
  with True find_transition_Some [OF t(1)] apply_transition_allowed [OF t(4)] show ?thesis
    by (simp only: if_True) (rule exI [of _ t], auto)
next
  case False
  then show ?thesis
    by (simp add: validate_transition_def apply_transition_def Let_def split: option.split)
      (auto simp: validate_transition_def apply_transition_def Let_def split: option.splits if_split_asm)
qed

definition bindings_match :: "permit_check \<Rightarrow> bool" where
  "bindings_match p = (pq_decision p = Some ''allow''
     \<and> pq_scope_digest p \<noteq> None \<and> pq_scope_digest p = pq_expected_digest p
     \<and> \<not> both_differ (pq_charter_id p) (pq_active_charter p)
     \<and> pq_user_id p \<in> {None, Some (pq_for_user p)} \<and> pq_directive_id p \<in> {None, Some (pq_for_directive p)}
     \<and> pq_objective_hash p \<in> {None, pq_for_objective p})"

text \<open>
  What a valid permit says (execution_transitions.py, permit_binding_ok): with digest enforcement on, a
  permit is accepted for a claim exactly when it allows, both digests are present and equal, its charter
  is not superseded, its user, directive and objective bindings are wildcards or match, and it has not
  expired; for a report, expiry is judged at the start of the work, so a receipt that arrives late is
  still honoured.
\<close>

theorem permit_binding_exact:
  assumes "pq_enforced p"
  shows "(permit_binding_ok p ''claim'' = Ok (True, ''ok'') \<longleftrightarrow>
      bindings_match p \<and> (case pq_expires_at p of None \<Rightarrow> True | Some ex \<Rightarrow> instant (pq_now p) < instant ex))
    \<and> (permit_binding_ok p ''report'' = Ok (True, ''ok'') \<longleftrightarrow>
      bindings_match p \<and> (case pq_expires_at p of None \<Rightarrow> True
        | Some ex \<Rightarrow> (\<exists>st. pq_started_at p = Some st \<and> instant st \<le> instant ex)))"
  using assms
  by (auto simp: permit_binding_ok_def bindings_match_def both_differ_def split: option.splits if_splits)

definition sample_permit :: permit_check where
  "sample_permit = \<lparr>pq_decision = Some ''allow'', pq_expires_at = Some (Aware 10 0), pq_user_id = None,
     pq_directive_id = Some ''d1'', pq_objective_hash = None, pq_scope_digest = Some ''x'',
     pq_expected_digest = Some ''x'', pq_enforced = True, pq_charter_id = None, pq_active_charter = Some ''c'',
     pq_for_directive = ''d1'', pq_for_user = ''u'', pq_for_objective = None,
     pq_started_at = Some (Aware 9 0), pq_now = Aware 50 0\<rparr>"

theorem permit_binding_exact_witness:
  "permit_binding_ok sample_permit ''report'' = Ok (True, ''ok'')"
  by (rule permit_binding_exact [THEN conjunct2, THEN iffD2])
    (simp_all add: sample_permit_def bindings_match_def both_differ_def)

text \<open>
  Retried reports (execution_transitions.py, report_payload_fingerprint and idempotency_outcome): a report
  that agrees on the eight semantic keys has the fingerprint of the first one, whatever its transport
  fields, so it is a replay and never a conflict.
\<close>

theorem same_report_is_replay:
  assumes "list_all (\<lambda>k. py_get body k = py_get body' k) REPORT_FINGERPRINT_KEYS"
  shows "idempotency_outcome (Some (report_payload_fingerprint body)) (report_payload_fingerprint body') = ''replay''"
proof -
  have "report_subset body = report_subset body'"
    using assms by (auto simp: report_subset_def list_all_iff)
  then show ?thesis by (simp add: idempotency_outcome_def report_payload_fingerprint_def)
qed

theorem same_report_is_replay_witness:
  "idempotency_outcome (Some (report_payload_fingerprint [(''state'', PStr ''failed''), (''lease_generation'', PInt 1)]))
     (report_payload_fingerprint [(''lease_generation'', PInt 2), (''state'', PStr ''failed'')]) = ''replay''"
  by (rule same_report_is_replay) (simp add: REPORT_FINGERPRINT_KEYS_def)

text \<open>
  The boot sweep is not fenced by the state (reconcile.py, startup_reconcile): it reads a directive in
  progress, the executor's report of success commits (a report keeps the lease), and the sweep's
  \<open>UPDATE\<close>, which names the lease alone, still hits the row and turns the succeeded directive
  into an abandoned one.  The live reaper's \<open>UPDATE\<close> on the same row hits nothing.
\<close>

theorem boot_sweep_overwrites_a_report:
  "\<exists>seen row row'. dr_state seen = D_IN_PROGRESS \<and> serving_step seen row \<and> dr_state row = D_SUCCEEDED
    \<and> boot_reap_update (dr_lease seen) row = Some row' \<and> dr_state row' = D_ABANDONED
    \<and> reap_stale_update (dr_lease seen) (dr_lease seen + 1) now row = None"
proof -
  let ?seen = "fresh_row\<lparr>dr_state := D_IN_PROGRESS, dr_executor := Some ''a'', dr_lease := 1\<rparr>"
  let ?row = "?seen\<lparr>dr_state := D_SUCCEEDED, dr_finished := Some (Aware 5 0)\<rparr>"
  have "td_allowed (validate_transition (request_of ?seen D_SUCCEEDED ''a'' (Some 1) True False))" by code_simp
  then have "serving_step ?seen ?row"
    by (rule serving_step.report [rotated, where effective = D_SUCCEEDED and now = "Aware 5 0"])
      (simp_all add: report_update_def)
  then show ?thesis
    by (intro exI [of _ ?seen] exI [of _ ?row] exI [of _ "?row\<lparr>dr_state := D_ABANDONED, dr_lease := 2, dr_lease_expires := None\<rparr>"])
      (simp add: boot_reap_update_def reap_stale_update_def)
qed

end
