(* ===== verification/Reconcile.thy ===== *)
theory Reconcile
  imports Effect_Store Directive_Transitions Lite_Db
begin

text \<open>
  \<open>services/tce_lite_api/tce_lite_api/reconcile.py\<close>: what a reap does to the effects its directive left
  open, the guard that stops a session with an effect nobody can account for, and the sweep a service
  runs at boot before it lets any dispatch open.
\<close>

section \<open>The effects of a reaped directive\<close>

definition EFFECT_ACTOR_RECONCILER :: pystr where
  "EFFECT_ACTOR_RECONCILER = ''system:reconciler''"

datatype reconcile_fault = BadRecord value_error | StoreRefused store_error

definition reap_resolve ::
  "pystr \<Rightarrow> (pystr \<times> py) list \<Rightarrow> int \<Rightarrow> datetime \<Rightarrow> effect_record \<Rightarrow> effect_db \<Rightarrow> (reconcile_fault, bool \<times> effect_db) result" where
  "reap_resolve target evidence lease now r db =
     map_error StoreRefused (resolve_effect alone db (ef_id r) target EFFECT_ACTOR_RECONCILER ''reaper'' evidence lease now)"

definition pending_evidence :: "pystr \<Rightarrow> (pystr \<times> py) list" where
  "pending_evidence run = [(''reconcile_pending'', PBool True), (''provider_run_id'', PStr run)]"

definition UNREAD_EVIDENCE :: "(pystr \<times> py) list" where
  "UNREAD_EVIDENCE = [(''reason'', PStr ''reaped_without_provider_record'')]"

text \<open>One turn of the loop; the pair counts the effects left unknown and those resolved.\<close>

definition settle ::
  "int \<Rightarrow> datetime \<Rightarrow> effect_record \<Rightarrow> effect_db \<Rightarrow> (reconcile_fault, (int \<times> int) \<times> effect_db) result" where
  "settle lease now r db =
     (if ef_state r \<in> {''confirmed'', ''failed'', ''unknown''} then Ok ((0, 0), db)
      else (case ef_run_id r of
          Some (c # cs) \<Rightarrow>
            (let run = c # cs; marked = mark_evidence (ef_id r) (pending_evidence run @ [(''marked_at'', PStr (isoformat now))]) db
             in res_bind (reap_resolve ''unknown'' (pending_evidence run) lease now r marked)
                  (\<lambda>(won, db'). Ok ((of_bool won, 0), db')))
        | _ \<Rightarrow>
            if ei_reversibility (ef_intent r) = ''reversible''
            then res_bind (reap_resolve ''failed'' UNREAD_EVIDENCE lease now r db) (\<lambda>(won, db'). Ok ((0, of_bool won), db'))
            else res_bind (reap_resolve ''unknown'' UNREAD_EVIDENCE lease now r db) (\<lambda>(won, db'). Ok ((of_bool won, 0), db'))))"

fun settle_all ::
  "int \<Rightarrow> datetime \<Rightarrow> effect_record list \<Rightarrow> (int \<times> int) \<Rightarrow> effect_db \<Rightarrow> (reconcile_fault, (int \<times> int) \<times> effect_db) result" where
  "settle_all lease now [] counts db = Ok (counts, db)"
| "settle_all lease now (r # rs) counts db = res_bind (settle lease now r db) (\<lambda>(n, db').
     settle_all lease now rs (fst counts + fst n, snd counts + snd n) db')"

definition resolve_effects_for_directive ::
  "bool \<Rightarrow> effect_db \<Rightarrow> pystr \<Rightarrow> int \<Rightarrow> datetime \<Rightarrow> (reconcile_fault, (int \<times> int) \<times> effect_db) result" where
  "resolve_effects_for_directive journal_enabled db directive bumped now =
     (if \<not> journal_enabled then Ok ((0, 0), db)
      else res_bind (map_error BadRecord (load_effects_for_directive db directive)) (\<lambda>records.
        settle_all bumped now records (0, 0) db))"

section \<open>The pause guard\<close>

text \<open>The two verdicts the scan looks at; \<open>effect_still_open\<close> is a healthy run and pauses nothing.\<close>

definition pauses :: "effect_record \<Rightarrow> bool" where
  "pauses r = (ef_state r = ''unknown'' \<and> ei_reversibility (ef_intent r) \<in> {''irreversible'', ''unknown''})"

definition pause_guard_for_session ::
  "bool \<Rightarrow> effect_db \<Rightarrow> pystr \<Rightarrow> pystr \<Rightarrow> pystr \<Rightarrow> (value_error, bool \<times> pystr \<times> pystr) result" where
  "pause_guard_for_session pause_enabled db w ow session =
     (if \<not> pause_enabled then Ok (False, [], [])
      else res_bind (list_open_effects db w ow session) (\<lambda>records.
        case pause_required records of (paused, reason) \<Rightarrow>
          if paused \<and> reason = ''unresolved_irreversible_effect''
          then (case find pauses records of
              Some r \<Rightarrow> Ok (True, reason, ef_id r) | None \<Rightarrow> Ok (False, [], []))
          else Ok (False, [], [])))"

section \<open>The boot sweep\<close>

record boot_directive =
  bo_id :: pystr
  bo_workspace :: pystr
  bo_user :: pystr
  bo_session :: pystr
  bo_state :: dstate
  bo_lease :: int
  bo_lease_expires :: "pystr option"
  bo_executor :: "pystr option"
  bo_created :: pystr
  bo_updated :: pystr

record boot_db =
  bd_directives :: "boot_directive list"
  bd_effects :: "effect_row list"
  bd_done :: bool

record reconcile_settings =
  rs_journal :: bool
  rs_pause :: bool
  rs_claim_ttl :: int
  rs_batch :: int

record boot_counters =
  bc_scanned :: int
  bc_reaped :: int
  bc_unknown :: int
  bc_resolved :: int
  bc_paused :: int
  bc_drained :: int

text \<open>The journal as its statements see it: their fence reads the lease and the claim of the directive's row.\<close>

definition journal_view :: "boot_db \<Rightarrow> effect_db" where
  "journal_view db = \<lparr>ed_effects = bd_effects db,
     ed_directives = map (\<lambda>d. (bo_id d, bo_lease d, bo_executor d)) (bd_directives db)\<rparr>"

definition with_journal :: "effect_db \<Rightarrow> boot_db \<Rightarrow> boot_db" where
  "with_journal j db = db\<lparr>bd_effects := ed_effects j\<rparr>"

definition boot_live :: "boot_directive \<Rightarrow> bool" where
  "boot_live d = (bo_state d \<in> {D_PENDING, D_IN_PROGRESS})"

definition boot_batch :: "int \<Rightarrow> boot_db \<Rightarrow> boot_directive list" where
  "boot_batch batch db = take (nat (max 1 batch)) (sort_key bo_created (filter boot_live (bd_directives db)))"

definition stale_window_seconds :: "reconcile_settings \<Rightarrow> int" where
  "stale_window_seconds se = max 120 (rs_claim_ttl se * 3)"

definition is_stale :: "reconcile_settings \<Rightarrow> datetime \<Rightarrow> boot_directive \<Rightarrow> (value_error, bool) result" where
  "is_stale se now d = (case bo_lease_expires d of
       Some (c # cs) \<Rightarrow> (case fromisoformat (c # cs) of
           None \<Rightarrow> Err (ValueError (''Invalid isoformat string: '' @ repr_str (c # cs)))
         | Some t \<Rightarrow> Ok (instant (aware t) < instant now - stale_window_seconds se * 1000000))
     | _ \<Rightarrow> Ok True)"

definition boot_reap :: "boot_directive \<Rightarrow> datetime \<Rightarrow> boot_directive \<Rightarrow> boot_directive" where
  "boot_reap seen now d = (if bo_id d = bo_id seen \<and> bo_lease d = bo_lease seen
     then d\<lparr>bo_state := D_ABANDONED, bo_lease := bo_lease seen + 1, bo_lease_expires := None, bo_updated := isoformat now\<rparr>
     else d)"

type_synonym sweep = "boot_counters \<times> (pystr \<times> pystr \<times> pystr) list \<times> boot_db"

definition sweep_row ::
  "reconcile_settings \<Rightarrow> datetime \<Rightarrow> boot_directive \<Rightarrow> sweep \<Rightarrow> (reconcile_fault, sweep) result" where
  "sweep_row se now seen s = (case s of (c, paused, db) \<Rightarrow>
     let c1 = c\<lparr>bc_scanned := bc_scanned c + 1\<rparr> in
     res_bind (map_error BadRecord (is_stale se now seen)) (\<lambda>stale.
     if \<not> stale then Ok (c1, paused, db)
     else (let db1 = db\<lparr>bd_directives := map (boot_reap seen now) (bd_directives db)\<rparr> in
       res_bind (resolve_effects_for_directive (rs_journal se) (journal_view db1) (bo_id seen) (bo_lease seen + 1) now)
         (\<lambda>(n, j). Ok (c1\<lparr>bc_reaped := bc_reaped c1 + 1, bc_unknown := bc_unknown c1 + fst n,
              bc_resolved := bc_resolved c1 + snd n\<rparr>,
            (if 0 < fst n then (bo_workspace seen, bo_user seen, bo_session seen) # paused else paused),
            with_journal j db1)))))"

fun sweep_all ::
  "reconcile_settings \<Rightarrow> datetime \<Rightarrow> boot_directive list \<Rightarrow> sweep \<Rightarrow> (reconcile_fault, sweep) result" where
  "sweep_all se now [] s = Ok s"
| "sweep_all se now (d # ds) s = res_bind (sweep_row se now d s) (sweep_all se now ds)"

fun count_paused ::
  "bool \<Rightarrow> effect_db \<Rightarrow> (pystr \<times> pystr \<times> pystr) list \<Rightarrow> (value_error, int) result" where
  "count_paused enabled db [] = Ok 0"
| "count_paused enabled db ((w, ow, session) # rest) =
     res_bind (pause_guard_for_session enabled db w ow session) (\<lambda>(paused, _, _).
     res_bind (count_paused enabled db rest) (\<lambda>n. Ok (of_bool paused + n)))"

text \<open>
  \<open>others n\<close> is what other connections commit at the two points at which the sweep holds no lock: after its
  query, and after its first commit.  \<open>drained\<close> is what \<open>drain_pending_handoffs\<close> reports; it works on the
  handoff outbox alone.  The flag is set last.
\<close>

definition startup_reconcile ::
  "(nat \<Rightarrow> boot_db \<Rightarrow> boot_db) \<Rightarrow> reconcile_settings \<Rightarrow> datetime \<Rightarrow> int \<Rightarrow> boot_db
    \<Rightarrow> (reconcile_fault, boot_counters \<times> boot_db) result" where
  "startup_reconcile others se now drained db =
     (let c0 = \<lparr>bc_scanned = 0, bc_reaped = 0, bc_unknown = 0, bc_resolved = 0, bc_paused = 0, bc_drained = 0\<rparr> in
      res_bind (sweep_all se now (boot_batch (rs_batch se) db) (c0, [], others 0 db)) (\<lambda>(c, paused, db1).
      let db2 = others 1 db1 in
      res_bind (map_error BadRecord (count_paused (rs_pause se) (journal_view db2) (sorted_set paused))) (\<lambda>n.
      Ok (c\<lparr>bc_paused := n, bc_drained := drained\<rparr>, db2\<lparr>bd_done := True\<rparr>))))"

definition reconcile_complete :: "boot_db \<Rightarrow> bool" where
  "reconcile_complete = bd_done"

definition reset_for_tests :: "boot_db \<Rightarrow> boot_db" where
  "reset_for_tests db = db\<lparr>bd_done := False\<rparr>"

end
