(* ===== verification/Full_Effects.thy ===== *)
theory Full_Effects
  imports Reconcile Charter_Build
begin

text \<open>
  The Full backend's effect journal and boot sweep, \<open>services/tce_api/tce_api/effect_store.py\<close> and
  \<open>reconcile.py\<close>: SQL over PostgreSQL under READ COMMITTED.  A statement sees what is committed when it starts;
  \<open>others n\<close> is what other transactions commit between two statements of a call, \<open>n\<close> counting the places.
  An uuid is its text, a timestamp column a datetime.
\<close>

record full_directive =
  fx_workspace :: pystr
  fx_user :: pystr
  fx_session :: pystr
  fx_state :: pystr
  fx_lease :: int
  fx_claimed :: "pystr option"
  fx_created :: datetime
  fx_updated :: datetime
  fx_finished :: "datetime option"
  fx_failure :: "pystr option"

record full_db =
  fu_effects :: "effect_row list"
  fu_directives :: "(pystr, full_directive) dict"
  fu_done :: bool

type_synonym others = "nat \<Rightarrow> full_db \<Rightarrow> full_db"

text \<open>The \<open>LookupError\<close>s by their message, the \<open>ValueError\<close>s, the unique index on the number, and a refused move.\<close>

datatype full_error = UnknownDirective | FullStale | InsertFailed | UnknownEffect | FullValue pystr | SeqTaken
  | FullRejected effect_error | FullBadRecord value_error

section \<open>Opening and resolving\<close>

definition EFFECT_KINDS :: "pystr list" where
  "EFFECT_KINDS = [''directive'', ''write'', ''command'', ''commit'', ''external'']"

definition full_reject_pair :: "pystr \<Rightarrow> pystr \<Rightarrow> (full_error, unit) result" where
  "full_reject_pair tier tracing =
     (if tier \<notin> {''os_sandbox'', ''container'', ''advisory''} then Err (FullValue (''unknown enforcement_tier '' @ repr_str tier))
      else if tracing \<notin> set ACTION_TRACING then Err (FullValue (''unknown action_tracing '' @ repr_str tracing))
      else if tier = ''advisory'' \<and> tracing \<noteq> ''unavailable''
      then Err (FullValue (''enforcement_tier='' @ repr_str ''advisory'' @ '' applies no OS boundary; action_tracing must be ''
        @ repr_str ''unavailable''))
      else Ok ())"

text \<open>The journal as the statements see it.\<close>

definition full_journal :: "full_db \<Rightarrow> effect_db" where
  "full_journal db = \<lparr>ed_effects = fu_effects db,
     ed_directives = map (\<lambda>(d, x). (d, (fx_lease x, fx_claimed x))) (fu_directives db)\<rparr>"

definition full_fence :: "full_db \<Rightarrow> open_args \<Rightarrow> (full_error, unit) result" where
  "full_fence db a = (case dict_get (fu_directives db) (oa_directive a) of
       None \<Rightarrow> Err UnknownDirective
     | Some x \<Rightarrow>
         if fx_workspace x \<noteq> oa_workspace a then Err UnknownDirective
         else if oa_executor a \<in> set SYSTEM_ONLY_SOURCES then Ok ()
         else if fx_lease x \<noteq> oa_lease a then Err FullStale
         else if (case fx_claimed x of None \<Rightarrow> [] | Some c \<Rightarrow> c) \<noteq> oa_executor a then Err FullStale
         else Ok ())"

text \<open>
  \<open>INSERT ... SELECT MAX(seq) + 1 ... ON CONFLICT (directive_id, intent_digest) DO NOTHING\<close>: the number comes from
  the statement's snapshot, the two unique indexes are checked against the live rows.
\<close>

definition full_insert :: "full_db \<Rightarrow> full_db \<Rightarrow> pystr \<Rightarrow> open_args \<Rightarrow> (full_error, full_db) result" where
  "full_insert snapshot db uuid a =
     (let row = new_row (full_journal snapshot) uuid a in
      if find_effect (full_journal db) (oa_directive a) (effect_intent_digest (oa_intent a)) \<noteq> None then Ok db
      else if list_ex (\<lambda>r. ef_directive (er_record r) = oa_directive a \<and> ef_seq (er_record r) = ef_seq (er_record row)) (fu_effects db)
      then Err SeqTaken
      else Ok (db\<lparr>fu_effects := fu_effects db @ [row]\<rparr>))"

definition full_open_effect :: "others \<Rightarrow> full_db \<Rightarrow> pystr \<Rightarrow> open_args \<Rightarrow> (full_error, pystr \<times> full_db) result" where
  "full_open_effect others db uuid a =
     (if ei_kind (oa_intent a) \<notin> set EFFECT_KINDS then Err (FullValue (''unknown effect kind '' @ repr_str (ei_kind (oa_intent a))))
      else res_bind (full_reject_pair (oa_tier a) (oa_tracing a)) (\<lambda>_.
        res_bind (full_fence db a) (\<lambda>_.
        let snapshot = others 0 db in
        res_bind (full_insert snapshot (others 1 snapshot) uuid a) (\<lambda>db1.
        let db2 = others 2 db1 in
        case find_effect (full_journal db2) (oa_directive a) (effect_intent_digest (oa_intent a)) of
          None \<Rightarrow> Err InsertFailed
        | Some r \<Rightarrow> Ok (er_id r, db2)))))"

definition full_load_effect :: "full_db \<Rightarrow> pystr \<Rightarrow> effect_row option" where
  "full_load_effect db effect_id = find (\<lambda>r. er_id r = effect_id) (fu_effects db)"

text \<open>The row is locked between the two statements; the directive is not.\<close>

definition full_resolve_effect ::
  "others \<Rightarrow> full_db \<Rightarrow> pystr \<Rightarrow> pystr \<Rightarrow> pystr \<Rightarrow> pystr \<Rightarrow> (pystr \<times> py) list \<Rightarrow> int \<Rightarrow> datetime
    \<Rightarrow> (full_error, bool \<times> full_db) result" where
  "full_resolve_effect others db effect_id target actor source evidence expected_lease now =
     (case full_load_effect db effect_id of
        None \<Rightarrow> Err UnknownEffect
      | Some row \<Rightarrow>
          (let current = ef_state (er_record row); reversibility = or_else (ei_reversibility (ef_intent (er_record row))) ''unknown'' in
           res_bind (map_error FullRejected (validate_effect_transition current target actor reversibility)) (\<lambda>_.
             let db1 = others 0 db;
                 hit = (\<lambda>r. er_id r = effect_id \<and> ef_state (er_record r) = current
                  \<and> fence_ok (full_journal db1) (ef_directive (er_record r)) expected_lease (executor_of actor)
                      (actor \<in> set SYSTEM_ONLY_SOURCES)) in
             Ok (0 < length (filter hit (fu_effects db1)),
                 db1\<lparr>fu_effects := map (\<lambda>r. if hit r then resolve_row target actor source evidence now r else r) (fu_effects db1)\<rparr>))))"

section \<open>Reading\<close>

text \<open>The row's mapping, as \<open>_record_from_row\<close> coerces it.\<close>

definition full_row_payload :: "effect_row \<Rightarrow> (pystr \<times> py) list" where
  "full_row_payload row = (let r = er_record row; i = ef_intent r in
     [(''effect_id'', PStr (ef_id r)), (''directive_id'', PStr (ef_directive r)), (''seq'', PInt (ef_seq r)),
      (''state'', PStr (or_else (ef_state r) ''prepared'')),
      (''intent'', PDict
        [(''kind'', PStr (or_else (ei_kind i) ''external'')), (''capability'', PStr (ei_capability i)),
         (''resource'', PStr (ei_resource i)), (''argv'', PList (map PStr (ei_argv i))),
         (''reversibility'', PStr (or_else (ei_reversibility i) ''unknown'')),
         (''description'', PStr (ei_description i))]),
      (''intent_digest'', PStr (ef_digest r)),
      (''enforcement_tier'', PStr (or_else (ef_tier r) ''advisory'')),
      (''action_tracing'', PStr (or_else (ef_tracing r) ''unavailable'')),
      (''lease_generation'', PInt (ef_lease r)), (''claimed_executor'', PStr (ef_executor r)),
      (''provider_run_id'', opt_py PStr (ef_run_id r)), (''provider_turn_id'', opt_py PStr (ef_turn_id r)),
      (''opened_at'', PDate (ef_opened_at r)), (''resolved_at'', opt_py PDate (ef_resolved_at r)),
      (''resolution_source'', opt_py PStr (ef_source r)),
      (''evidence'', (case ef_evidence r of None \<Rightarrow> PNone | Some [] \<Rightarrow> PNone | Some m \<Rightarrow> PDict m))])"

definition full_record_from_row :: "effect_row \<Rightarrow> (value_error, effect_record) result" where
  "full_record_from_row row = effect_record_from_json (full_row_payload row)"

definition of_session :: "pystr \<Rightarrow> pystr \<Rightarrow> pystr \<Rightarrow> effect_row \<Rightarrow> bool" where
  "of_session w ow session r = (er_workspace r = w \<and> er_owner r = ow \<and> er_session r = session)"

text \<open>\<open>ORDER BY (state = 'unknown') DESC, opened_at ASC LIMIT 200\<close>.\<close>

definition open_window :: "full_db \<Rightarrow> pystr \<Rightarrow> pystr \<Rightarrow> pystr \<Rightarrow> effect_row list" where
  "open_window db w ow session =
     take 200 (sort_key (\<lambda>r. (ef_state (er_record r) \<noteq> ''unknown'', instant (ef_opened_at (er_record r))))
       (filter (\<lambda>r. of_session w ow session r \<and> is_open_state (ef_state (er_record r))) (fu_effects db)))"

definition full_list_open_effects :: "full_db \<Rightarrow> pystr \<Rightarrow> pystr \<Rightarrow> pystr \<Rightarrow> (value_error, effect_record list) result" where
  "full_list_open_effects db w ow session = res_map full_record_from_row (open_window db w ow session)"

definition full_load_effects_for_directive :: "full_db \<Rightarrow> pystr \<Rightarrow> (value_error, effect_record list) result" where
  "full_load_effects_for_directive db directive =
     res_map full_record_from_row (sort_key (\<lambda>r. ef_seq (er_record r))
       (filter (\<lambda>r. ef_directive (er_record r) = directive) (fu_effects db)))"

definition full_open_effect_count :: "full_db \<Rightarrow> pystr \<Rightarrow> pystr \<Rightarrow> pystr \<Rightarrow> pystr option \<Rightarrow> int" where
  "full_open_effect_count db w ow session exclude =
     int (length (filter (\<lambda>r. of_session w ow session r \<and> is_open_state (ef_state (er_record r))
       \<and> (case exclude of None \<Rightarrow> True | Some d \<Rightarrow> ef_directive (er_record r) \<noteq> d)) (fu_effects db)))"

section \<open>The pause guard\<close>

definition PAUSE_TEXT_PREFIX :: pystr where
  "PAUSE_TEXT_PREFIX = ''AUTONOMOUS MODE PAUSED: an effect from a previous run is unresolved''"

definition full_pause_guard :: "bool \<Rightarrow> full_db \<Rightarrow> pystr \<Rightarrow> pystr \<Rightarrow> pystr \<Rightarrow> (value_error, bool \<times> pystr \<times> pystr) result" where
  "full_pause_guard pause_enabled db w ow session =
     (if \<not> pause_enabled then Ok (False, [], [])
      else res_bind (full_list_open_effects db w ow session) (\<lambda>records.
        case pause_required records of (paused, reason) \<Rightarrow>
          if \<not> paused \<or> reason \<noteq> ''unresolved_irreversible_effect'' then Ok (False, [], [])
          else (case find pauses records of Some r \<Rightarrow> Ok (True, reason, ef_id r) | None \<Rightarrow> Ok (True, reason, []))))"

definition pause_text_for :: "pystr \<Rightarrow> pystr" where
  "pause_text_for effect_id = PAUSE_TEXT_PREFIX @ '' and may be irreversible. Resolve effect '' @ effect_id @ '' before continuing.''"

section \<open>The reap and the boot sweep\<close>

definition still_open :: "effect_row \<Rightarrow> bool" where
  "still_open r = (ef_state (er_record r) \<in> {''prepared'', ''running''})"

definition full_target :: "effect_row \<Rightarrow> pystr" where
  "full_target r = (if or_else (ei_reversibility (ef_intent (er_record r))) ''unknown'' \<in> {''irreversible'', ''unknown''}
     then ''unknown'' else ''failed'')"

definition full_reap_evidence :: "datetime \<Rightarrow> effect_row \<Rightarrow> (pystr \<times> py) list" where
  "full_reap_evidence now r = (''reconciled_at'', PStr (isoformat now)) # (case ef_run_id (er_record r) of
       Some (c # cs) \<Rightarrow> [(''reconcile_pending'', PBool True), (''provider_run_id'', PStr (c # cs))] | _ \<Rightarrow> [])"

text \<open>The unfenced \<open>UPDATE\<close> of one row the query saw; it counts whether or not it hits.\<close>

definition full_settle :: "datetime \<Rightarrow> effect_row \<Rightarrow> full_db \<Rightarrow> full_db" where
  "full_settle now seen db = db\<lparr>fu_effects := map (\<lambda>r.
     if er_id r = er_id seen \<and> ef_state (er_record r) = ef_state (er_record seen)
     then resolve_row (full_target seen) EFFECT_ACTOR_RECONCILER ''reaper'' (full_reap_evidence now seen) now r else r) (fu_effects db)\<rparr>"

fun full_settle_all :: "others \<Rightarrow> nat \<Rightarrow> datetime \<Rightarrow> effect_row list \<Rightarrow> int \<times> int \<Rightarrow> full_db \<Rightarrow> (int \<times> int) \<times> nat \<times> full_db" where
  "full_settle_all others n now [] counts db = (counts, n, db)"
| "full_settle_all others n now (r # rs) counts db =
     full_settle_all others (Suc n) now rs
       (if full_target r = ''unknown'' then (fst counts + 1, snd counts) else (fst counts, snd counts + 1))
       (full_settle now r (others n db))"

definition full_resolve_effects_for_directive ::
  "others \<Rightarrow> nat \<Rightarrow> full_db \<Rightarrow> pystr \<Rightarrow> datetime \<Rightarrow> (int \<times> int) \<times> nat \<times> full_db" where
  "full_resolve_effects_for_directive others n db directive now =
     full_settle_all others n now (sort_key (\<lambda>r. ef_seq (er_record r))
       (filter (\<lambda>r. ef_directive (er_record r) = directive \<and> still_open r) (fu_effects db))) (0, 0) db"

definition sweep_batch :: "reconcile_settings \<Rightarrow> datetime \<Rightarrow> full_db \<Rightarrow> (pystr \<times> full_directive) list" where
  "sweep_batch se now db = take (nat (max 1 (rs_batch se))) (sort_key (\<lambda>(_, d). instant (fx_created d))
     (filter (\<lambda>(_, d). fx_state d \<in> {''pending'', ''in_progress''}
        \<and> instant (fx_updated d) \<le> instant now - stale_window_seconds se * 1000000) (fu_directives db)))"

text \<open>The \<open>UPDATE\<close> on a row it finds, whose guard is the state.\<close>

definition abandon_directive :: "datetime \<Rightarrow> full_directive \<Rightarrow> full_directive" where
  "abandon_directive now d = (if fx_state d = ''in_progress''
     then d\<lparr>fx_state := ''abandoned'', fx_lease := fx_lease d + 1,
         fx_finished := (case fx_finished d of None \<Rightarrow> Some now | Some t \<Rightarrow> Some t),
         fx_failure := coalesce (fx_failure d) (Some ''startup_reconcile_reaped''), fx_updated := now\<rparr> else d)"

definition full_abandon :: "datetime \<Rightarrow> pystr \<Rightarrow> full_db \<Rightarrow> full_db" where
  "full_abandon now directive db = db\<lparr>fu_directives :=
     map (\<lambda>(i, d). (i, if i = directive then abandon_directive now d else d)) (fu_directives db)\<rparr>"

fun full_sweep :: "others \<Rightarrow> nat \<Rightarrow> reconcile_settings \<Rightarrow> datetime \<Rightarrow> (pystr \<times> full_directive) list \<Rightarrow> boot_counters \<Rightarrow> full_db
    \<Rightarrow> boot_counters \<times> nat \<times> full_db" where
  "full_sweep others n se now [] c db = (c, n, db)"
| "full_sweep others n se now ((i, d) # rest) c db =
     (let db0 = others n db;
          (db1, reaped) = (if fx_state d = ''in_progress'' then (full_abandon now i db0, 1) else (db0, 0));
          (delta, n2, db2) = (if rs_journal se then full_resolve_effects_for_directive others (Suc n) (others (Suc n) db1) i now
             else ((0, 0), Suc n, db1))
      in full_sweep others (Suc n2) se now rest (c\<lparr>bc_scanned := bc_scanned c + 1, bc_reaped := bc_reaped c + reaped,
           bc_unknown := bc_unknown c + fst delta, bc_resolved := bc_resolved c + snd delta,
           bc_paused := bc_paused c + (if fst delta \<noteq> 0 then 1 else 0)\<rparr>) db2)"

text \<open>\<open>drained\<close> is what the outbox drain reports, which works on the handoff tables; with the journal off it does not run.\<close>

definition full_startup_reconcile :: "others \<Rightarrow> reconcile_settings \<Rightarrow> datetime \<Rightarrow> int \<Rightarrow> full_db \<Rightarrow> boot_counters \<times> full_db" where
  "full_startup_reconcile others se now drained db =
     (case full_sweep others 0 se now (sweep_batch se now db)
         \<lparr>bc_scanned = 0, bc_reaped = 0, bc_unknown = 0, bc_resolved = 0, bc_paused = 0, bc_drained = 0\<rparr> db of
        (c, n, db1) \<Rightarrow> (c\<lparr>bc_drained := (if rs_journal se then drained else 0)\<rparr>, db1\<lparr>fu_done := True\<rparr>))"

definition full_reconcile_complete :: "full_db \<Rightarrow> bool" where
  "full_reconcile_complete = fu_done"

end
