(* ===== verification/Reconcile_Facts.thy ===== *)
theory Reconcile_Facts
  imports Reconcile
begin

text \<open>
  What a reap leaves behind: no effect of the directive is prepared or running, a reversible one that no
  provider ran has failed and every other is unknown, and a session with one that may not be undone is
  paused.
\<close>

section \<open>One effect\<close>

definition unsettled :: "effect_record \<Rightarrow> bool" where
  "unsettled r = (ef_state r \<in> {''prepared'', ''running''})"

definition provider_ran :: "effect_record \<Rightarrow> bool" where
  "provider_ran r = (ef_run_id r \<notin> {None, Some []})"

definition reap_target :: "effect_record \<Rightarrow> pystr" where
  "reap_target r = (if \<not> provider_ran r \<and> ei_reversibility (ef_intent r) = ''reversible'' then ''failed'' else ''unknown'')"

definition reap_evidence :: "effect_record \<Rightarrow> (pystr \<times> py) list" where
  "reap_evidence r = (if provider_ran r then pending_evidence (the (ef_run_id r)) else UNREAD_EVIDENCE)"

definition reaped :: "datetime \<Rightarrow> effect_row \<Rightarrow> effect_row" where
  "reaped now r = resolve_row (reap_target (er_record r)) EFFECT_ACTOR_RECONCILER ''reaper'' (reap_evidence (er_record r)) now r"

definition reap_count :: "effect_record \<Rightarrow> int \<times> int" where
  "reap_count r = (of_bool (unsettled r \<and> reap_target r = ''unknown''), of_bool (unsettled r \<and> reap_target r = ''failed''))"

lemma reconciler_is_system: "EFFECT_ACTOR_RECONCILER \<in> set SYSTEM_ONLY_SOURCES"
  by (simp add: EFFECT_ACTOR_RECONCILER_def SYSTEM_ONLY_SOURCES_def)

lemma reconciler_resolves:
  assumes row: "row \<in> set (ed_effects db)" and ids: "distinct (map er_id (ed_effects db))"
    and st: "unsettled (er_record row)" and t: "target \<in> {''unknown'', ''failed''}"
    and lease: "dict_get (ed_directives db) (ef_directive (er_record row)) = Some (lease, claimed)"
  shows "resolve_effect alone db (er_id row) target EFFECT_ACTOR_RECONCILER source evidence lease now
    = Ok (True, db\<lparr>ed_effects := map (\<lambda>x. if er_id x = er_id row
        then resolve_row target EFFECT_ACTOR_RECONCILER source evidence now row else x) (ed_effects db)\<rparr>)"
proof -
  let ?hit = "\<lambda>r. er_id r = er_id row \<and> ef_state (er_record r) = ef_state (er_record row)
    \<and> fence_ok db (ef_directive (er_record r)) lease (executor_of EFFECT_ACTOR_RECONCILER)
        (EFFECT_ACTOR_RECONCILER \<in> set SYSTEM_ONLY_SOURCES)"
  have same: "x = row" if "x \<in> set (ed_effects db)" "er_id x = er_id row" for x
    using that row ids by (auto simp: distinct_map dest: inj_onD)
  have hit: "?hit x \<longleftrightarrow> er_id x = er_id row" if "x \<in> set (ed_effects db)" for x
    using same [OF that] lease reconciler_is_system by (auto simp: fence_ok_def)
  have "filter ?hit (ed_effects db) = filter (\<lambda>x. er_id x = er_id row) (ed_effects db)"
    by (intro filter_cong refl hit)
  then have "filter ?hit (ed_effects db) = [row]" by (simp only: filter_unique [OF ids row])
  moreover have "map (\<lambda>x. if ?hit x then resolve_row target EFFECT_ACTOR_RECONCILER source evidence now x else x) (ed_effects db)
    = map (\<lambda>x. if er_id x = er_id row then resolve_row target EFFECT_ACTOR_RECONCILER source evidence now row else x) (ed_effects db)"
    using hit same by (intro map_cong refl) auto
  moreover have "validate_effect_transition (ef_state (er_record row)) target EFFECT_ACTOR_RECONCILER
      (ei_reversibility (ef_intent (er_record row))) = Ok ()"
    unfolding validate_effect_Ok using st t reconciler_is_system by (auto simp: unsettled_def EFFECT_TRANSITIONS_def)
  ultimately show ?thesis
    using find_unique [OF ids row] by (simp add: resolve_effect_def Let_def)
qed

lemma resolve_row_evidence:
  "resolve_row target actor source evidence now (r\<lparr>er_record := (er_record r)\<lparr>ef_evidence := e\<rparr>\<rparr>)
    = resolve_row target actor source evidence now r"
  by (simp add: resolve_row_def)

lemma settle_open:
  assumes row: "row \<in> set (ed_effects db)" and ids: "distinct (map er_id (ed_effects db))"
    and id: "er_id row = ef_id (er_record row)" and st: "unsettled (er_record row)"
    and lease: "dict_get (ed_directives db) (ef_directive (er_record row)) = Some (lease, claimed)"
  shows "settle lease now (er_record row) db = Ok (reap_count (er_record row),
    db\<lparr>ed_effects := map (\<lambda>x. if er_id x = er_id row then reaped now row else x) (ed_effects db)\<rparr>)"
proof -
  have live: "ef_state (er_record row) \<notin> {''confirmed'', ''failed'', ''unknown''}" using st by (auto simp: unsettled_def)
  show ?thesis
  proof (cases "provider_ran (er_record row)")
    case False
    then have none: "\<And>c cs. ef_run_id (er_record row) \<noteq> Some (c # cs)" by (auto simp: provider_ran_def)
    then have run: "(case ef_run_id (er_record row) of Some (c # cs) \<Rightarrow> g c cs | _ \<Rightarrow> h) = h" for g and h :: 'a
      by (auto split: option.split list.split)
    note res = reconciler_resolves [OF row ids st _ lease, unfolded id]
    show ?thesis
      using live False res [of "''unknown''"] res [of "''failed''"] st
      by (simp add: settle_def run reap_resolve_def reap_target_def reap_evidence_def reap_count_def reaped_def id)
  next
    case True
    then obtain c cs where run: "ef_run_id (er_record row) = Some (c # cs)"
      by (cases "ef_run_id (er_record row)"; cases "the (ef_run_id (er_record row))") (auto simp: provider_ran_def)
    let ?e = "pending_evidence (c # cs) @ [(''marked_at'', PStr (isoformat now))]"
    let ?row = "row\<lparr>er_record := (er_record row)\<lparr>ef_evidence := Some ?e\<rparr>\<rparr>"
    let ?db = "mark_evidence (ef_id (er_record row)) ?e db"
    have "?row \<in> set (ed_effects ?db)" "distinct (map er_id (ed_effects ?db))"
      "dict_get (ed_directives ?db) (ef_directive (er_record ?row)) = Some (lease, claimed)"
      using row ids lease id by (force simp: mark_evidence_def comp_def if_distrib cong: if_cong)+
    from reconciler_resolves [OF this(1,2) _ _ this(3), of "''unknown''" "''reaper''" "pending_evidence (c # cs)" now] st
    have "resolve_effect alone ?db (ef_id (er_record row)) ''unknown'' EFFECT_ACTOR_RECONCILER ''reaper'' (pending_evidence (c # cs)) lease now
      = Ok (True, db\<lparr>ed_effects := map (\<lambda>x. if er_id x = er_id row
          then resolve_row ''unknown'' EFFECT_ACTOR_RECONCILER ''reaper'' (pending_evidence (c # cs)) now row else x) (ed_effects db)\<rparr>)"
      by (auto simp: unsettled_def id resolve_row_evidence mark_evidence_def comp_def intro!: map_cong)
    then show ?thesis
      using live True run st
      by (simp add: settle_def reap_resolve_def reap_target_def reap_evidence_def reap_count_def reaped_def)
  qed
qed

lemma settle_closed:
  "ef_state r \<in> {''confirmed'', ''failed'', ''unknown''} \<Longrightarrow> settle lease now r db = Ok (reap_count r, db)"
  by (auto simp: settle_def reap_count_def unsettled_def)

section \<open>All effects of the directive\<close>

definition reap_rows :: "datetime \<Rightarrow> pystr set \<Rightarrow> effect_db \<Rightarrow> effect_db" where
  "reap_rows now ids db = db\<lparr>ed_effects := map (\<lambda>x. if er_id x \<in> ids \<and> unsettled (er_record x) then reaped now x else x)
     (ed_effects db)\<rparr>"

lemma reaped_id [simp]: "er_id (reaped now x) = er_id x"
  by (simp add: reaped_def resolve_row_def)

lemma reap_rows_ids [simp]: "map er_id (ed_effects (reap_rows now ids db)) = map er_id (ed_effects db)"
  by (simp add: reap_rows_def comp_def if_distrib cong: if_cong)

lemma reap_rows_directives [simp]: "ed_directives (reap_rows now ids db) = ed_directives db"
  by (simp add: reap_rows_def)

lemma reap_rows_add:
  assumes "i \<notin> ids"
  shows "reap_rows now ids (reap_rows now {i} db) = reap_rows now (insert i ids) db"
  unfolding reap_rows_def using assms
  by simp (rule arg_cong [where f = "\<lambda>xs. db\<lparr>ed_effects := xs\<rparr>"], rule map_cong, auto)

lemma reap_rows_none: "reap_rows now {} db = db"
  by (simp add: reap_rows_def)

lemma settle_one:
  assumes "row \<in> set (ed_effects db)" "distinct (map er_id (ed_effects db))"
    "er_id row = ef_id (er_record row)" "ef_state (er_record row) \<in> set EFFECT_STATES"
    "dict_get (ed_directives db) (ef_directive (er_record row)) = Some (lease, claimed)"
  shows "settle lease now (er_record row) db = Ok (reap_count (er_record row), reap_rows now {er_id row} db)"
proof (cases "unsettled (er_record row)")
  case True
  have same: "x = row" if "x \<in> set (ed_effects db)" "er_id x = er_id row" for x
    using that assms(1,2) by (auto simp: distinct_map dest: inj_onD)
  have "map (\<lambda>x. if er_id x = er_id row then reaped now row else x) (ed_effects db)
    = map (\<lambda>x. if er_id x \<in> {er_id row} \<and> unsettled (er_record x) then reaped now x else x) (ed_effects db)"
    using same True by (intro map_cong refl) auto
  then show ?thesis using settle_open [OF assms(1-3) True assms(5)] by (simp add: reap_rows_def)
next
  case False
  have same: "x = row" if "x \<in> set (ed_effects db)" "er_id x = er_id row" for x
    using that assms(1,2) by (auto simp: distinct_map dest: inj_onD)
  have "reap_rows now {er_id row} db = db\<lparr>ed_effects := map (\<lambda>x. x) (ed_effects db)\<rparr>"
    unfolding reap_rows_def using same False by (intro arg_cong [where f = "\<lambda>xs. db\<lparr>ed_effects := xs\<rparr>"] map_cong refl) auto
  then show ?thesis
    using settle_closed [of "er_record row"] False assms(4) by (auto simp: unsettled_def EFFECT_STATES_def)
qed

lemma settle_all_rows:
  assumes "set rs \<subseteq> set (ed_effects db)" "distinct (map er_id rs)" "distinct (map er_id (ed_effects db))"
    and "list_all (\<lambda>r. er_id r = ef_id (er_record r) \<and> ef_state (er_record r) \<in> set EFFECT_STATES
        \<and> ef_directive (er_record r) = d) rs"
    and "dict_get (ed_directives db) d = Some (lease, claimed)"
  shows "settle_all lease now (map er_record rs) (a, b) db
    = Ok ((a + (\<Sum>r\<leftarrow>rs. fst (reap_count (er_record r))), b + (\<Sum>r\<leftarrow>rs. snd (reap_count (er_record r)))),
          reap_rows now (er_id ` set rs) db)"
  using assms
proof (induction rs arbitrary: a b db)
  case Nil
  then show ?case by (simp add: reap_rows_none)
next
  case (Cons r rs)
  let ?db = "reap_rows now {er_id r} db"
  have one: "settle lease now (er_record r) db = Ok (reap_count (er_record r), ?db)"
    using Cons.prems by (intro settle_one) auto
  have new: "er_id x \<noteq> er_id r" if "x \<in> set rs" for x using that Cons.prems(2) by (metis distinct.simps(2) image_eqI list.set_map list.simps(9))
  have "set rs \<subseteq> set (ed_effects ?db)"
  proof
    fix x
    assume x: "x \<in> set rs"
    with Cons.prems(1) new [OF x] show "x \<in> set (ed_effects ?db)" by (force simp: reap_rows_def)
  qed
  with Cons.IH [of ?db] Cons.prems(2-5)
  have "settle_all lease now (map er_record rs) (a', b') ?db
    = Ok ((a' + (\<Sum>r\<leftarrow>rs. fst (reap_count (er_record r))), b' + (\<Sum>r\<leftarrow>rs. snd (reap_count (er_record r)))),
          reap_rows now (er_id ` set rs) ?db)" for a' b' by simp
  moreover have "reap_rows now (er_id ` set rs) ?db = reap_rows now (er_id ` set (r # rs)) db"
    using Cons.prems(2) by (simp add: reap_rows_add)
  ultimately show ?case by (simp add: one)
qed

text \<open>The whole call on a journal in order.\<close>

definition of_directive :: "pystr \<Rightarrow> effect_db \<Rightarrow> effect_row list" where
  "of_directive d db = filter (\<lambda>r. ef_directive (er_record r) = d) (ed_effects db)"

lemma reap_exact:
  assumes ok: "journal_ok db" and wf: "list_all row_wf (ed_effects db)"
    and lease: "dict_get (ed_directives db) d = Some (lease, claimed)"
  shows "resolve_effects_for_directive True db d lease now
    = Ok (((\<Sum>r\<leftarrow>of_directive d db. fst (reap_count (er_record r))), (\<Sum>r\<leftarrow>of_directive d db. snd (reap_count (er_record r)))),
          reap_rows now (er_id ` set (of_directive d db)) db)"
proof -
  let ?rows = "sort_key (\<lambda>r. ef_seq (er_record r)) (of_directive d db)"
  have load: "load_effects_for_directive db d = Ok (map er_record ?rows)"
    unfolding load_effects_for_directive_def of_directive_def using wf by (intro records_from_rows_wf) (simp add: list_all_iff)
  have ids: "distinct (map er_id (ed_effects db))" "list_all row_ok (ed_effects db)" using ok by (simp_all add: journal_ok_def)
  have "distinct (map er_id (of_directive d db))"
    using ids(1) unfolding of_directive_def by (rule distinct_map_filter)
  then have dist: "distinct (map er_id ?rows)"
    by (metis mset_map mset_sort mset_eq_imp_distinct_iff)
  have sum: "(\<Sum>r\<leftarrow>?rows. f r) = (\<Sum>r\<leftarrow>of_directive d db. f r)" for f :: "effect_row \<Rightarrow> int"
    by (simp flip: sum_mset_sum_list)
  have sub: "set ?rows \<subseteq> set (ed_effects db)" by (simp add: of_directive_def)
  have all: "list_all (\<lambda>r. er_id r = ef_id (er_record r) \<and> ef_state (er_record r) \<in> set EFFECT_STATES
      \<and> ef_directive (er_record r) = d) ?rows"
    using ids(2) by (simp add: list_all_iff row_ok_def of_directive_def)
  have "settle_all lease now (map er_record ?rows) (0, 0) db
    = Ok ((0 + (\<Sum>r\<leftarrow>?rows. fst (reap_count (er_record r))), 0 + (\<Sum>r\<leftarrow>?rows. snd (reap_count (er_record r)))),
          reap_rows now (er_id ` set ?rows) db)"
    by (rule settle_all_rows [OF sub dist ids(1) all lease])
  then show ?thesis by (simp only: resolve_effects_for_directive_def load sum map_error_Ok res_bind_simps) simp
qed

section \<open>The journal after a reap\<close>

definition settled_by :: "datetime \<Rightarrow> pystr set \<Rightarrow> effect_row \<Rightarrow> effect_row" where
  "settled_by now ds r = (if ef_directive (er_record r) \<in> ds \<and> unsettled (er_record r) then reaped now r else r)"

lemma reap_rows_of_directive:
  assumes "distinct (map er_id (ed_effects db))"
  shows "reap_rows now (er_id ` set (of_directive d db)) db = db\<lparr>ed_effects := map (settled_by now {d}) (ed_effects db)\<rparr>"
proof -
  have "er_id x \<in> er_id ` set (of_directive d db) \<longleftrightarrow> ef_directive (er_record x) = d" if "x \<in> set (ed_effects db)" for x
    using that assms by (auto simp: of_directive_def distinct_map dest: inj_onD)
  then have "map (\<lambda>x. if er_id x \<in> er_id ` set (of_directive d db) \<and> unsettled (er_record x) then reaped now x else x) (ed_effects db)
    = map (settled_by now {d}) (ed_effects db)" by (intro map_cong refl) (auto simp: settled_by_def)
  then show ?thesis by (simp add: reap_rows_def)
qed

lemma resolve_row_record:
  "er_record (resolve_row t a s e now r) = (er_record r)\<lparr>ef_state := t, ef_resolved_at := Some now, ef_source := Some s, ef_evidence := Some e\<rparr>"
  by (simp add: resolve_row_def)

lemma reaped_record [simp]:
  "ef_state (er_record (reaped now r)) = reap_target (er_record r)" "ef_intent (er_record (reaped now r)) = ef_intent (er_record r)"
  "ef_directive (er_record (reaped now r)) = ef_directive (er_record r)" "er_workspace (reaped now r) = er_workspace r"
  "er_owner (reaped now r) = er_owner r" "er_session (reaped now r) = er_session r"
  by (simp_all add: reaped_def resolve_row_def)

lemma reaped_wf: "row_wf r \<Longrightarrow> utc_ok now \<Longrightarrow> row_wf (reaped now r)"
  by (simp add: row_wf_def effect_wf_def reaped_def resolve_row_record reap_target_def EFFECT_STATES_def opt_ok_def utc_opt_ok_def)

lemma reaped_settled [simp]: "\<not> unsettled (er_record (reaped now r))"
  by (simp add: unsettled_def reap_target_def)

lemma settled_by_simps [simp]:
  "er_id (settled_by now ds r) = er_id r" "ef_directive (er_record (settled_by now ds r)) = ef_directive (er_record r)"
  "er_workspace (settled_by now ds r) = er_workspace r" "er_owner (settled_by now ds r) = er_owner r"
  "er_session (settled_by now ds r) = er_session r"
  by (simp_all add: settled_by_def)

lemma settled_by_wf: "row_wf r \<Longrightarrow> utc_ok now \<Longrightarrow> row_wf (settled_by now ds r)"
  by (simp add: settled_by_def reaped_wf)

lemma settled_by_done: "ef_directive (er_record r) \<in> ds \<Longrightarrow> \<not> unsettled (er_record (settled_by now ds r))"
  by (simp add: settled_by_def)

section \<open>The pause guard reads it\<close>

lemma pause_required_pauses:
  "list_ex pauses records \<Longrightarrow> pause_required records = (True, ''unresolved_irreversible_effect'')"
  by (auto simp: pause_required_def pauses_def list_ex_iff)

lemma pause_required_no_pause:
  "\<not> list_ex pauses records \<Longrightarrow> snd (pause_required records) \<noteq> ''unresolved_irreversible_effect''"
  by (auto simp: pause_required_def pauses_def list_ex_iff)

lemma pause_guard_exact:
  assumes "list_all row_wf (ed_effects db)"
  shows "(\<exists>r \<in> set (ed_effects db). er_workspace r = w \<and> er_owner r = ow \<and> er_session r = session \<and> pauses (er_record r))
      \<and> (\<exists>r. r \<in> set (ed_effects db) \<and> pauses (er_record r) \<and> er_session r = session
          \<and> pause_guard_for_session True db w ow session = Ok (True, ''unresolved_irreversible_effect'', ef_id (er_record r)))
    \<or> pause_guard_for_session True db w ow session = Ok (False, [], [])
      \<and> \<not> (\<exists>r \<in> set (ed_effects db). er_workspace r = w \<and> er_owner r = ow \<and> er_session r = session \<and> pauses (er_record r))"
proof -
  let ?rows = "sort_key (\<lambda>r. (isoformat (ef_opened_at (er_record r)), ef_seq (er_record r)))
    (filter (\<lambda>r. er_workspace r = w \<and> er_owner r = ow \<and> er_session r = session \<and> is_open_state (ef_state (er_record r))) (ed_effects db))"
  let ?records = "map er_record ?rows"
  have load: "list_open_effects db w ow session = Ok ?records"
    unfolding list_open_effects_def using assms by (intro records_from_rows_wf) (simp add: list_all_iff)
  have ex: "list_ex pauses ?records \<longleftrightarrow> (\<exists>r \<in> set (ed_effects db). er_workspace r = w \<and> er_owner r = ow \<and> er_session r = session
      \<and> pauses (er_record r))"
    by (auto simp: list_ex_iff pauses_def is_open_state_def)
  show ?thesis
  proof (cases "list_ex pauses ?records")
    case True
    then obtain x where x: "find pauses ?records = Some x"
      by (cases "find pauses ?records") (auto simp: find_None_iff list_ex_iff)
    then obtain r where r: "r \<in> set (ed_effects db)" "pauses (er_record r)" "er_session r = session" "x = er_record r"
      using find_in [OF x] by auto
    have "pause_guard_for_session True db w ow session = Ok (True, ''unresolved_irreversible_effect'', ef_id x)"
      by (simp add: pause_guard_for_session_def load pause_required_pauses [OF True] x)
    with True ex r show ?thesis by blast
  next
    case False
    then have "pause_guard_for_session True db w ow session = Ok (False, [], [])"
      using pause_required_no_pause [OF False] by (cases "pause_required ?records") (simp add: pause_guard_for_session_def load)
    with False ex show ?thesis by blast
  qed
qed

section \<open>A reap, then the guard\<close>

lemma reap_accounted:
  assumes "journal_ok db" "list_all row_wf (ed_effects db)" "dict_get (ed_directives db) d = Some (lease, claimed)"
  shows "resolve_effects_for_directive True db d lease now
    = Ok ((int (length (filter (\<lambda>r. unsettled (er_record r) \<and> reap_target (er_record r) = ''unknown'') (of_directive d db))),
           int (length (filter (\<lambda>r. unsettled (er_record r) \<and> reap_target (er_record r) = ''failed'') (of_directive d db)))),
          db\<lparr>ed_effects := map (settled_by now {d}) (ed_effects db)\<rparr>)"
proof -
  have count: "(\<Sum>r\<leftarrow>xs. of_bool (P r)) = int (length (filter P xs))" for P and xs :: "effect_row list"
    by (induction xs) simp_all
  have "distinct (map er_id (ed_effects db))" using assms(1) by (simp add: journal_ok_def)
  then show ?thesis
    using reap_exact [OF assms, of now]
    by (simp add: reap_rows_of_directive reap_count_def count del: of_bool_conj)
qed

text \<open>
  A reap accounts for every effect (reconcile.py, resolve_effects_for_directive): with the bumped lease in
  place the call succeeds; every effect of the directive that was prepared or running is now failed, if it
  is reversible and no provider ran it, and unknown otherwise, resolved by the reconciler; every other row
  is as it was; and the two counters are the numbers of those rows.
\<close>

theorem reap_accounts_for_every_effect:
  assumes "journal_ok db" "list_all row_wf (ed_effects db)" "dict_get (ed_directives db) d = Some (lease, claimed)"
  shows "resolve_effects_for_directive True db d lease now
    = Ok ((int (length (filter (\<lambda>r. unsettled (er_record r) \<and> reap_target (er_record r) = ''unknown'') (of_directive d db))),
           int (length (filter (\<lambda>r. unsettled (er_record r) \<and> reap_target (er_record r) = ''failed'') (of_directive d db)))),
          db\<lparr>ed_effects := map (settled_by now {d}) (ed_effects db)\<rparr>)
    \<and> filter (\<lambda>r. ef_directive (er_record r) = d \<and> unsettled (er_record r)) (map (settled_by now {d}) (ed_effects db)) = []"
  by (simp add: reap_accounted [OF assms] filter_empty_conv settled_by_done)

lemma sample_journal_wf: "list_all row_wf (ed_effects sample_journal)"
proof -
  have "effect_wf (er_record sample_row)"
    by (simp add: effect_wf_def sample_journal_defs sample_effect_def EFFECT_STATES_def opt_ok_def utc_ok_def utc_opt_ok_def
        in_range_def MIN_T_def MAX_T_def effect_intent_digest_def)
  then show ?thesis by (simp add: row_wf_def sample_journal_defs)
qed

lemma sample_journal_lease: "dict_get (ed_directives sample_journal) ''d'' = Some (2, Some ''x'')"
  by (simp add: sample_journal_def sample_leases_def)

theorem reap_accounts_for_every_effect_witness:
  "\<exists>db'. resolve_effects_for_directive True sample_journal ''d'' 2 (Aware 9 0) = Ok ((1, 0), db')
    \<and> map (\<lambda>r. ef_state (er_record r)) (ed_effects db') = [''unknown'']"
  using reap_accounts_for_every_effect [OF sample_journal_ok sample_journal_wf sample_journal_lease, of "Aware 9 0"]
  by (simp add: of_directive_def sample_journal_defs sample_effect_def settled_by_def unsettled_def reap_target_def provider_ran_def)

text \<open>
  What a reap could not account for stops the session (reconcile.py, resolve_effects_for_directive and
  pause_guard_for_session): if the reaped directive left an effect prepared or running that is not
  reversible, then right after the reap the guard pauses the session of that effect and names an effect of it that
  is unknown and not reversible.
\<close>

theorem reap_then_pause:
  assumes "journal_ok db" "list_all row_wf (ed_effects db)" "dict_get (ed_directives db) d = Some (lease, claimed)" "utc_ok now"
    and "r \<in> set (ed_effects db)" "ef_directive (er_record r) = d" "unsettled (er_record r)"
    and "ei_reversibility (ef_intent (er_record r)) \<noteq> ''reversible''"
  shows "\<exists>n db' s. resolve_effects_for_directive True db d lease now = Ok (n, db')
    \<and> pause_guard_for_session True db' (er_workspace r) (er_owner r) (er_session r)
        = Ok (True, ''unresolved_irreversible_effect'', ef_id (er_record s))
    \<and> s \<in> set (ed_effects db') \<and> er_session s = er_session r \<and> pauses (er_record s)"
proof -
  let ?db = "db\<lparr>ed_effects := map (settled_by now {d}) (ed_effects db)\<rparr>"
  have run: "\<exists>n. resolve_effects_for_directive True db d lease now = Ok (n, ?db)"
    using reap_accounted [OF assms(1-3), of now] by blast
  have wf: "list_all row_wf (ed_effects ?db)"
    using assms(2,4) by (simp add: list_all_iff settled_by_wf)
  have rw: "row_wf r" using assms(2,5) by (simp add: list_all_iff)
  have "pauses (er_record (settled_by now {d} r))"
    using assms(6-8) rw by (auto simp: settled_by_def pauses_def reap_target_def row_wf_def effect_wf_def)
  moreover have "settled_by now {d} r \<in> set (ed_effects ?db)" using assms(5) by simp
  ultimately have "\<exists>x \<in> set (ed_effects ?db). er_workspace x = er_workspace r \<and> er_owner x = er_owner r
      \<and> er_session x = er_session r \<and> pauses (er_record x)" by (metis settled_by_simps(3-5))
  with pause_guard_exact [OF wf, of "er_workspace r" "er_owner r" "er_session r"] run show ?thesis by blast
qed

theorem reap_then_pause_witness:
  "\<exists>n db' i. resolve_effects_for_directive True sample_journal ''d'' 2 (Aware 9 0) = Ok (n, db')
    \<and> pause_guard_for_session True db' ''W'' ''O'' ''S'' = Ok (True, ''unresolved_irreversible_effect'', i)"
proof -
  have r: "sample_row \<in> set (ed_effects sample_journal)" "ef_directive (er_record sample_row) = ''d''"
    "unsettled (er_record sample_row)" "ei_reversibility (ef_intent (er_record sample_row)) \<noteq> ''reversible''"
    "er_workspace sample_row = ''W''" "er_owner sample_row = ''O''" "er_session sample_row = ''S''"
    by (simp_all add: sample_journal_defs sample_effect_def unsettled_def)
  have "utc_ok (Aware 9 0)" by (simp add: utc_ok_def in_range_def MIN_T_def MAX_T_def)
  from reap_then_pause [OF sample_journal_ok sample_journal_wf sample_journal_lease this r(1-4)] r(5-7)
  show ?thesis by (simp only: r) blast
qed

section \<open>The boot sweep\<close>

definition abandoned :: "datetime \<Rightarrow> boot_directive \<Rightarrow> boot_directive" where
  "abandoned now d = d\<lparr>bo_state := D_ABANDONED, bo_lease := bo_lease d + 1, bo_lease_expires := None, bo_updated := isoformat now\<rparr>"

definition boot_ok :: "boot_db \<Rightarrow> bool" where
  "boot_ok db = (distinct (map bo_id (bd_directives db)) \<and> journal_ok (journal_view db) \<and> list_all row_wf (bd_effects db))"

lemma abandoned_id [simp]: "bo_id (abandoned now d) = bo_id d"
  by (simp add: abandoned_def)

lemma settled_by_key:
  "effect_key (settled_by now ids r) = effect_key r" "effect_slot (settled_by now ids r) = effect_slot r"
  by (simp_all add: settled_by_def effect_key_def effect_slot_def reaped_def resolve_row_record)

lemma settled_by_row_ok: "row_ok r \<Longrightarrow> row_ok (settled_by now ids r)"
  using reconciler_is_system
  by (auto simp: settled_by_def row_ok_def honest_def witnessed_def reaped_def resolve_row_def reap_target_def EFFECT_STATES_def)

text \<open>
  A fence that fails refuses the resolution and changes nothing; the plain \<open>UPDATE\<close> of the evidence, which precedes it
  when a provider ran the effect, has no fence.
\<close>

definition marked_evidence :: "datetime \<Rightarrow> effect_record \<Rightarrow> (pystr \<times> py) list" where
  "marked_evidence now r = pending_evidence (the (ef_run_id r)) @ [(''marked_at'', PStr (isoformat now))]"

definition marked_by :: "datetime \<Rightarrow> pystr set \<Rightarrow> effect_row \<Rightarrow> effect_row" where
  "marked_by now ds r = (if ef_directive (er_record r) \<in> ds \<and> unsettled (er_record r) \<and> provider_ran (er_record r)
     then r\<lparr>er_record := (er_record r)\<lparr>ef_evidence := Some (marked_evidence now (er_record r))\<rparr>\<rparr> else r)"

lemma marked_by_simps [simp]:
  "er_id (marked_by now ds r) = er_id r" "ef_directive (er_record (marked_by now ds r)) = ef_directive (er_record r)"
  "effect_key (marked_by now ds r) = effect_key r" "effect_slot (marked_by now ds r) = effect_slot r"
  "ef_state (er_record (marked_by now ds r)) = ef_state (er_record r)"
  by (simp_all add: marked_by_def effect_key_def effect_slot_def)

lemma marked_by_unsettled [simp]: "unsettled (er_record (marked_by now ds r)) = unsettled (er_record r)"
  by (simp add: unsettled_def)

lemma marked_by_row_ok: "row_ok r \<Longrightarrow> row_ok (marked_by now ds r)"
  by (simp add: marked_by_def row_ok_def honest_def witnessed_def)

lemma marked_by_wf: "row_wf r \<Longrightarrow> row_wf (marked_by now ds r)"
  by (simp add: marked_by_def row_wf_def effect_wf_def)

lemma resolve_refused:
  assumes "row \<in> set (ed_effects db)" "distinct (map er_id (ed_effects db))"
    and "unsettled (er_record row)" "target \<in> {''unknown'', ''failed''}"
    and "\<And>claimed. dict_get (ed_directives db) (ef_directive (er_record row)) \<noteq> Some (lease, claimed)"
  shows "resolve_effect alone db (er_id row) target EFFECT_ACTOR_RECONCILER source evidence lease now = Ok (False, db)"
proof -
  have valid: "validate_effect_transition (ef_state (er_record row)) target EFFECT_ACTOR_RECONCILER
      (ei_reversibility (ef_intent (er_record row))) = Ok ()"
    unfolding validate_effect_Ok using assms(3,4) reconciler_is_system by (auto simp: unsettled_def EFFECT_TRANSITIONS_def)
  have closed: "\<not> fence_ok db (ef_directive (er_record row)) lease x sys" for x sys
    using assms(5) by (auto simp: fence_ok_def split: option.split)
  have only: "x = row" if "x \<in> set (ed_effects db)" "er_id x = er_id row" for x
    using that assms(1,2) by (auto simp: distinct_map dest: inj_onD)
  have miss: "\<not> fence_ok db (ef_directive (er_record x)) lease y sys"
    if "x \<in> set (ed_effects db)" "er_id x = er_id row" for x y sys
    using only [OF that] closed by auto
  have "filter (\<lambda>x. er_id x = er_id row \<and> P x \<and> fence_ok db (ef_directive (er_record x)) lease y sys) (ed_effects db) = []"
    for P y sys by (auto simp: filter_empty_conv miss)
  moreover have "map (\<lambda>x. if er_id x = er_id row \<and> P x \<and> fence_ok db (ef_directive (er_record x)) lease y sys then f x else x)
      (ed_effects db) = ed_effects db" for P y sys f
    by (rule map_idI) (use miss in auto)
  ultimately show ?thesis using find_unique [OF assms(2,1)] valid by (simp add: resolve_effect_def Let_def)
qed

definition mark_rows :: "datetime \<Rightarrow> pystr set \<Rightarrow> effect_db \<Rightarrow> effect_db" where
  "mark_rows now ids db = db\<lparr>ed_effects := map (\<lambda>x. if er_id x \<in> ids then marked_by now {ef_directive (er_record x)} x else x)
     (ed_effects db)\<rparr>"

lemma mark_rows_simps [simp]:
  "map er_id (ed_effects (mark_rows now ids db)) = map er_id (ed_effects db)"
  "ed_directives (mark_rows now ids db) = ed_directives db" "mark_rows now {} db = db"
  by (simp_all add: mark_rows_def comp_def if_distrib cong: if_cong)

lemma mark_rows_add:
  assumes "i \<notin> ids"
  shows "mark_rows now ids (mark_rows now {i} db) = mark_rows now (insert i ids) db"
  unfolding mark_rows_def using assms by simp

lemma settle_refused:
  assumes row: "row \<in> set (ed_effects db)" and ids: "distinct (map er_id (ed_effects db))"
    and id: "er_id row = ef_id (er_record row)" and st: "ef_state (er_record row) \<in> set EFFECT_STATES"
    and fence: "\<And>claimed. dict_get (ed_directives db) (ef_directive (er_record row)) \<noteq> Some (lease, claimed)"
  shows "settle lease now (er_record row) db = Ok ((0, 0), mark_rows now {er_id row} db)"
proof -
  have only: "x = row" if "x \<in> set (ed_effects db)" "er_id x = er_id row" for x
    using that row ids by (auto simp: distinct_map dest: inj_onD)
  consider (closed) "\<not> unsettled (er_record row)" | (ran) "unsettled (er_record row)" "provider_ran (er_record row)"
    | (idle) "unsettled (er_record row)" "\<not> provider_ran (er_record row)" by blast
  then show ?thesis
  proof cases
    case closed
    then have "marked_by now {ef_directive (er_record row)} row = row" by (simp add: marked_by_def)
    then have "map (\<lambda>x. if er_id x \<in> {er_id row} then marked_by now {ef_directive (er_record x)} x else x) (ed_effects db) = ed_effects db"
      using only by (intro map_idI) auto
    then show ?thesis using settle_closed [of "er_record row" lease now db] closed st
      by (auto simp: unsettled_def EFFECT_STATES_def reap_count_def mark_rows_def)
  next
    case ran
    then obtain c cs where run: "ef_run_id (er_record row) = Some (c # cs)"
      by (cases "ef_run_id (er_record row)"; cases "the (ef_run_id (er_record row))") (auto simp: provider_ran_def)
    let ?e = "pending_evidence (c # cs) @ [(''marked_at'', PStr (isoformat now))]"
    let ?row = "row\<lparr>er_record := (er_record row)\<lparr>ef_evidence := Some ?e\<rparr>\<rparr>"
    let ?db = "mark_evidence (ef_id (er_record row)) ?e db"
    have "?row \<in> set (ed_effects ?db)" "distinct (map er_id (ed_effects ?db))" "ed_directives ?db = ed_directives db"
      using row ids id by (force simp: mark_evidence_def comp_def if_distrib cong: if_cong)+
    from resolve_refused [OF this(1,2), of "''unknown''" lease "''reaper''" "pending_evidence (c # cs)" now] ran this(3) fence
    have res: "resolve_effect alone ?db (ef_id (er_record row)) ''unknown'' EFFECT_ACTOR_RECONCILER ''reaper'' (pending_evidence (c # cs))
        lease now = Ok (False, ?db)"
      by (simp add: unsettled_def id)
    have "marked_by now {ef_directive (er_record row)} row = ?row"
      using ran run by (simp add: marked_by_def marked_evidence_def)
    then have "map (\<lambda>x. if er_id x \<in> {er_id row} then marked_by now {ef_directive (er_record x)} x else x) (ed_effects db)
      = map (\<lambda>x. if er_id x = ef_id (er_record row) then x\<lparr>er_record := (er_record x)\<lparr>ef_evidence := Some ?e\<rparr>\<rparr> else x) (ed_effects db)"
      using only id by (intro map_cong refl) auto
    then have "?db = mark_rows now {er_id row} db" by (simp add: mark_evidence_def mark_rows_def)
    then show ?thesis using ran run res by (auto simp: settle_def reap_resolve_def unsettled_def)
  next
    case idle
    then have none: "\<And>c cs. ef_run_id (er_record row) \<noteq> Some (c # cs)" by (auto simp: provider_ran_def)
    then have run: "(case ef_run_id (er_record row) of Some (c # cs) \<Rightarrow> g c cs | _ \<Rightarrow> h) = h" for g and h :: 'a
      by (auto split: option.split list.split)
    have "marked_by now {ef_directive (er_record row)} row = row" using idle by (simp add: marked_by_def)
    then have "map (\<lambda>x. if er_id x \<in> {er_id row} then marked_by now {ef_directive (er_record x)} x else x) (ed_effects db) = ed_effects db"
      using only by (intro map_idI) auto
    then have "mark_rows now {er_id row} db = db" by (simp add: mark_rows_def)
    then show ?thesis
      using idle resolve_refused [OF row ids idle(1) _ fence, unfolded id, of "''unknown''"]
        resolve_refused [OF row ids idle(1) _ fence, unfolded id, of "''failed''"]
      by (auto simp: settle_def run reap_resolve_def unsettled_def id)
  qed
qed

lemma settle_all_refused:
  assumes "set rs \<subseteq> set (ed_effects db)" "distinct (map er_id rs)" "distinct (map er_id (ed_effects db))"
    and "list_all (\<lambda>r. er_id r = ef_id (er_record r) \<and> ef_state (er_record r) \<in> set EFFECT_STATES
        \<and> ef_directive (er_record r) = d) rs"
    and "\<And>claimed. dict_get (ed_directives db) d \<noteq> Some (lease, claimed)"
  shows "settle_all lease now (map er_record rs) n db = Ok (n, mark_rows now (er_id ` set rs) db)"
  using assms
proof (induction rs arbitrary: db)
  case (Cons r rs)
  let ?db = "mark_rows now {er_id r} db"
  have one: "settle lease now (er_record r) db = Ok ((0, 0), ?db)"
    using Cons.prems by (intro settle_refused) auto
  have new: "er_id x \<noteq> er_id r" if "x \<in> set rs" for x using that Cons.prems(2) by (metis distinct.simps(2) image_eqI list.set_map list.simps(9))
  have "set rs \<subseteq> set (ed_effects ?db)"
  proof
    fix x
    assume x: "x \<in> set rs"
    with Cons.prems(1) new [OF x] show "x \<in> set (ed_effects ?db)" by (force simp: mark_rows_def)
  qed
  with Cons.IH [of ?db] Cons.prems(2-5)
  have "settle_all lease now (map er_record rs) n ?db = Ok (n, mark_rows now (er_id ` set rs) ?db)" by simp
  moreover have "mark_rows now (er_id ` set rs) ?db = mark_rows now (er_id ` set (r # rs)) db"
    using Cons.prems(2) by (simp add: mark_rows_add)
  ultimately show ?case by (simp add: one)
qed simp

lemma reap_refused:
  assumes ok: "journal_ok db" and wf: "list_all row_wf (ed_effects db)"
    and fence: "\<And>claimed. dict_get (ed_directives db) d \<noteq> Some (lease, claimed)"
  shows "resolve_effects_for_directive True db d lease now = Ok ((0, 0), db\<lparr>ed_effects := map (marked_by now {d}) (ed_effects db)\<rparr>)"
proof -
  let ?rows = "sort_key (\<lambda>r. ef_seq (er_record r)) (of_directive d db)"
  have load: "load_effects_for_directive db d = Ok (map er_record ?rows)"
    unfolding load_effects_for_directive_def of_directive_def using wf by (intro records_from_rows_wf) (simp add: list_all_iff)
  have ids: "distinct (map er_id (ed_effects db))" "list_all row_ok (ed_effects db)" using ok by (simp_all add: journal_ok_def)
  have "distinct (map er_id (of_directive d db))"
    using ids(1) unfolding of_directive_def by (rule distinct_map_filter)
  then have dist: "distinct (map er_id ?rows)"
    by (metis mset_map mset_sort mset_eq_imp_distinct_iff)
  have sub: "set ?rows \<subseteq> set (ed_effects db)" by (simp add: of_directive_def)
  have all: "list_all (\<lambda>r. er_id r = ef_id (er_record r) \<and> ef_state (er_record r) \<in> set EFFECT_STATES
      \<and> ef_directive (er_record r) = d) ?rows"
    using ids(2) by (simp add: list_all_iff row_ok_def of_directive_def)
  note all_rows = settle_all_refused [OF sub dist ids(1) all fence, of now "(0, 0)"]
  have "er_id x \<in> er_id ` set (of_directive d db) \<longleftrightarrow> ef_directive (er_record x) = d" if "x \<in> set (ed_effects db)" for x
    using that ids(1) by (auto simp: of_directive_def distinct_map dest: inj_onD)
  then have "mark_rows now (er_id ` set ?rows) db = db\<lparr>ed_effects := map (marked_by now {d}) (ed_effects db)\<rparr>"
    unfolding mark_rows_def set_sort by (intro arg_cong [where f = "\<lambda>xs. db\<lparr>ed_effects := xs\<rparr>"] map_cong refl) (auto simp: marked_by_def)
  then show ?thesis using all_rows by (simp only: resolve_effects_for_directive_def load map_error_Ok res_bind_simps) simp
qed

lemma journal_view_lease:
  assumes "distinct (map bo_id (bd_directives db))" "d \<in> set (bd_directives db)"
  shows "dict_get (ed_directives (journal_view db)) (bo_id d) = Some (bo_lease d, bo_executor d)"
  using dict_get_unique [OF assms, of "\<lambda>d. (bo_lease d, bo_executor d)"] by (simp add: journal_view_def)

lemma journal_ok_cong: "ed_effects a = ed_effects b \<Longrightarrow> journal_ok a = journal_ok b"
  by (simp add: journal_ok_def)

text \<open>
  What the sweep makes of a database for the stale rows \<open>ss\<close> it read earlier: a directive still under the lease that was
  read is abandoned; effects are settled where the directive is now under that lease plus one, whether
  the sweep's own \<open>UPDATE\<close> or somebody else's claim put it there, and merely marked elsewhere.
\<close>

definition fence_holds :: "boot_db \<Rightarrow> boot_directive \<Rightarrow> bool" where
  "fence_holds db seen = (\<exists>d \<in> set (bd_directives db). bo_id d = bo_id seen \<and> bo_lease d \<in> {bo_lease seen, bo_lease seen + 1})"

definition swept_directive :: "datetime \<Rightarrow> boot_directive list \<Rightarrow> boot_directive \<Rightarrow> boot_directive" where
  "swept_directive now ss d = (if \<exists>s \<in> set ss. bo_id s = bo_id d \<and> bo_lease s = bo_lease d then abandoned now d else d)"

definition settled_ids :: "boot_db \<Rightarrow> boot_directive list \<Rightarrow> pystr set" where
  "settled_ids db ss = bo_id ` {s \<in> set ss. fence_holds db s}"

definition missed_ids :: "boot_db \<Rightarrow> boot_directive list \<Rightarrow> pystr set" where
  "missed_ids db ss = bo_id ` {s \<in> set ss. \<not> fence_holds db s}"

definition swept_effect :: "datetime \<Rightarrow> boot_db \<Rightarrow> boot_directive list \<Rightarrow> effect_row \<Rightarrow> effect_row" where
  "swept_effect now db ss r = marked_by now (missed_ids db ss) (settled_by now (settled_ids db ss) r)"

definition after_sweep :: "bool \<Rightarrow> datetime \<Rightarrow> boot_directive list \<Rightarrow> boot_db \<Rightarrow> boot_db" where
  "after_sweep journal now ss db = db\<lparr>bd_directives := map (swept_directive now ss) (bd_directives db),
     bd_effects := (if journal then map (swept_effect now db ss) (bd_effects db) else bd_effects db)\<rparr>"

lemma swept_directive_id [simp]: "bo_id (swept_directive now ss d) = bo_id d"
  by (simp add: swept_directive_def)

lemma boot_reap_swept: "boot_reap seen now = swept_directive now [seen]"
  by (rule ext) (simp add: boot_reap_def swept_directive_def abandoned_def)

lemma swept_effect_id [simp]: "er_id (swept_effect now db ss r) = er_id r"
  by (simp add: swept_effect_def)

lemma after_sweep_ok:
  assumes "boot_ok db" "utc_ok now"
  shows "boot_ok (after_sweep journal now ss db)"
  using assms
  by (auto simp: boot_ok_def journal_ok_def journal_view_def after_sweep_def list_all_iff comp_def swept_effect_def settled_by_key
      marked_by_row_ok settled_by_row_ok marked_by_wf settled_by_wf)

lemma after_sweep_Nil [simp]: "after_sweep journal now [] db = db"
proof -
  have "swept_effect now db [] = (\<lambda>r. r)"
    by (rule ext) (simp add: swept_effect_def settled_ids_def missed_ids_def settled_by_def marked_by_def)
  moreover have "swept_directive now [] = (\<lambda>d. d)" by (rule ext) (simp add: swept_directive_def)
  ultimately show ?thesis by (simp add: after_sweep_def)
qed

lemma fence_holds_other:
  assumes "bo_id x \<noteq> bo_id s"
  shows "fence_holds (after_sweep journal now [s] db) x = fence_holds db x"
proof -
  have "swept_directive now [s] d = d" if "bo_id d = bo_id x" for d
    using assms that by (simp add: swept_directive_def)
  then show ?thesis by (auto simp: fence_holds_def after_sweep_def)
qed

lemma swept_ids_one [simp]:
  "settled_ids db [s] = (if fence_holds db s then {bo_id s} else {})"
  "missed_ids db [s] = (if fence_holds db s then {} else {bo_id s})"
  by (auto simp: settled_ids_def missed_ids_def)

lemma marked_by_none [simp]: "marked_by now {} r = r"
  by (simp add: marked_by_def)

lemma settled_by_none [simp]: "settled_by now {} r = r"
  by (simp add: settled_by_def)

lemma swept_effect_one:
  "swept_effect now db [s] r = (if fence_holds db s then settled_by now {bo_id s} r else marked_by now {bo_id s} r)"
  by (simp add: swept_effect_def)

lemma by_Un:
  "ef_directive (er_record r) \<notin> ds \<Longrightarrow> settled_by now ds r = r"
  "ef_directive (er_record r) \<notin> ds \<Longrightarrow> marked_by now ds r = r"
  "ef_directive (er_record r) \<notin> ds \<Longrightarrow> settled_by now (es \<union> ds) r = settled_by now es r"
  "ef_directive (er_record r) \<notin> ds \<Longrightarrow> marked_by now (es \<union> ds) r = marked_by now es r"
  "ef_directive (er_record r) \<notin> es \<Longrightarrow> settled_by now (es \<union> ds) r = settled_by now ds r"
  "ef_directive (er_record r) \<notin> es \<Longrightarrow> marked_by now (es \<union> ds) r = marked_by now ds r"
  by (simp_all add: settled_by_def marked_by_def)

lemma swept_effect_Cons:
  assumes "bo_id s \<notin> bo_id ` set ss" "\<And>x. x \<in> set ss \<Longrightarrow> fence_holds db' x = fence_holds db x"
  shows "swept_effect now db' ss (swept_effect now db [s] r) = swept_effect now db (s # ss) r"
proof -
  have ids: "settled_ids db' ss = settled_ids db ss" "missed_ids db' ss = missed_ids db ss"
    using assms(2) by (auto simp: settled_ids_def missed_ids_def)
  have both: "settled_ids db (s # ss) = settled_ids db [s] \<union> settled_ids db ss"
    "missed_ids db (s # ss) = missed_ids db [s] \<union> missed_ids db ss"
    by (auto simp: settled_ids_def missed_ids_def)
  have new: "bo_id s \<notin> settled_ids db ss" "bo_id s \<notin> missed_ids db ss"
    using assms(1) by (auto simp: settled_ids_def missed_ids_def)
  show ?thesis
  proof (cases "ef_directive (er_record r) = bo_id s")
    case True
    with new have out: "ef_directive (er_record r) \<notin> settled_ids db ss" "ef_directive (er_record r) \<notin> missed_ids db ss" by simp_all
    show ?thesis unfolding swept_effect_one unfolding swept_effect_def ids both
      using out by (cases "fence_holds db s") (simp_all add: by_Un del: Un_insert_left)
  next
    case False
    then have "ef_directive (er_record r) \<notin> {bo_id s}" by simp
    then show ?thesis unfolding swept_effect_one unfolding swept_effect_def ids both
      by (cases "fence_holds db s") (simp_all add: by_Un del: singleton_iff insert_iff Un_insert_left)
  qed
qed

lemma after_sweep_Cons:
  assumes "bo_id s \<notin> bo_id ` set ss"
  shows "after_sweep journal now ss (after_sweep journal now [s] db) = after_sweep journal now (s # ss) db"
proof -
  define db1 where "db1 = after_sweep journal now [s] db"
  have ne: "bo_id x \<noteq> bo_id s" if "x \<in> set ss" for x using assms that by (metis image_eqI)
  have "fence_holds db1 x = fence_holds db x" if "x \<in> set ss" for x
    unfolding db1_def by (rule fence_holds_other [OF ne [OF that]])
  note eff = swept_effect_Cons [OF assms this]
  have dir: "swept_directive now ss (swept_directive now [s] d) = swept_directive now (s # ss) d" for d
    using ne by (auto simp: swept_directive_def)
  have "after_sweep journal now ss db1 = db\<lparr>bd_directives := map (swept_directive now ss) (bd_directives db1),
      bd_effects := (if journal then map (swept_effect now db1 ss) (bd_effects db1) else bd_effects db1)\<rparr>"
    unfolding after_sweep_def [of journal now ss db1] by (simp add: db1_def after_sweep_def)
  also have "bd_directives db1 = map (swept_directive now [s]) (bd_directives db)" by (simp add: db1_def after_sweep_def)
  also have "bd_effects db1 = (if journal then map (swept_effect now db [s]) (bd_effects db) else bd_effects db)"
    by (simp add: db1_def after_sweep_def)
  finally have "after_sweep journal now ss db1 = after_sweep journal now (s # ss) db"
    by (simp add: after_sweep_def [of journal now "s # ss" db] comp_def dir eff)
  then show ?thesis by (simp only: db1_def)
qed

lemma journal_lease_after:
  assumes "distinct (map bo_id (bd_directives db))"
  shows "(\<exists>claimed. dict_get (ed_directives (journal_view (db\<lparr>bd_directives := map (boot_reap seen now) (bd_directives db)\<rparr>)))
      (bo_id seen) = Some (bo_lease seen + 1, claimed)) \<longleftrightarrow> fence_holds db seen"
proof -
  let ?db = "db\<lparr>bd_directives := map (boot_reap seen now) (bd_directives db)\<rparr>"
  have "map bo_id (bd_directives ?db) = map bo_id (bd_directives db)" by (simp add: boot_reap_swept comp_def)
  with assms have dist: "distinct (map bo_id (bd_directives ?db))" by (simp only:)
  have get: "dict_get (ed_directives (journal_view ?db)) (bo_id seen) = Some v
      \<longleftrightarrow> (\<exists>d \<in> set (bd_directives ?db). bo_id d = bo_id seen \<and> v = (bo_lease d, bo_executor d))" for v
  proof
    assume "dict_get (ed_directives (journal_view ?db)) (bo_id seen) = Some v"
    then have "(bo_id seen, v) \<in> set (ed_directives (journal_view ?db))" by (rule map_of_SomeD)
    then show "\<exists>d \<in> set (bd_directives ?db). bo_id d = bo_id seen \<and> v = (bo_lease d, bo_executor d)"
      by (force simp: journal_view_def)
  qed (use journal_view_lease [OF dist] in metis)
  have reap: "bo_id (boot_reap seen now d) = bo_id seen \<and> bo_lease (boot_reap seen now d) = bo_lease seen + 1
      \<longleftrightarrow> bo_id d = bo_id seen \<and> bo_lease d \<in> {bo_lease seen, bo_lease seen + 1}" for d
    by (auto simp: boot_reap_def)
  have "(\<exists>claimed. \<exists>d \<in> set (bd_directives ?db). bo_id d = bo_id seen \<and> (bo_lease seen + 1, claimed) = (bo_lease d, bo_executor d))
      \<longleftrightarrow> (\<exists>d \<in> set (bd_directives db). bo_id (boot_reap seen now d) = bo_id seen \<and> bo_lease (boot_reap seen now d) = bo_lease seen + 1)"
    by fastforce
  then show ?thesis unfolding get fence_holds_def reap .
qed

lemma sweep_row_exact:
  assumes ok: "boot_ok db" and stale: "is_stale se now seen = Ok True"
  shows "\<exists>c' paused'. sweep_row se now seen (c, paused, db) = Ok (c', paused', after_sweep (rs_journal se) now [seen] db)
    \<and> bc_reaped c' = bc_reaped c + 1"
proof (cases "rs_journal se")
  case False
  then show ?thesis using stale
    by (simp add: sweep_row_def Let_def resolve_effects_for_directive_def with_journal_def journal_view_def after_sweep_def boot_reap_swept)
next
  case True
  let ?db = "db\<lparr>bd_directives := map (boot_reap seen now) (bd_directives db)\<rparr>"
  have ids: "distinct (map bo_id (bd_directives db))" using ok by (simp add: boot_ok_def)
  have view: "journal_ok (journal_view ?db)" "list_all row_wf (ed_effects (journal_view ?db))" "ed_effects (journal_view ?db) = bd_effects db"
    using ok journal_ok_cong [of "journal_view ?db" "journal_view db"] by (simp_all add: boot_ok_def journal_view_def)
  have eff: "swept_effect now db [seen] = (if fence_holds db seen then settled_by now {bo_id seen} else marked_by now {bo_id seen})"
    by (rule ext) (simp add: swept_effect_one)
  have "\<exists>n. resolve_effects_for_directive True (journal_view ?db) (bo_id seen) (bo_lease seen + 1) now
      = Ok (n, (journal_view ?db)\<lparr>ed_effects := map (swept_effect now db [seen]) (bd_effects db)\<rparr>)"
  proof (cases "fence_holds db seen")
    case True
    then obtain claimed where "dict_get (ed_directives (journal_view ?db)) (bo_id seen) = Some (bo_lease seen + 1, claimed)"
      using journal_lease_after [OF ids] by blast
    from reap_accounted [OF view(1,2) this, of now] show ?thesis unfolding view(3) eff if_P [OF True] by (rule exI)
  next
    case False
    then have "\<And>claimed. dict_get (ed_directives (journal_view ?db)) (bo_id seen) \<noteq> Some (bo_lease seen + 1, claimed)"
      using journal_lease_after [OF ids] by blast
    from reap_refused [OF view(1,2) this, of now] show ?thesis unfolding view(3) eff if_not_P [OF False] by (rule exI)
  qed
  then obtain n where "resolve_effects_for_directive True (journal_view ?db) (bo_id seen) (bo_lease seen + 1) now
      = Ok (n, (journal_view ?db)\<lparr>ed_effects := map (swept_effect now db [seen]) (bd_effects db)\<rparr>)" by blast
  then have "sweep_row se now seen (c, paused, db) = Ok (c\<lparr>bc_scanned := bc_scanned c + 1, bc_reaped := bc_reaped c + 1,
        bc_unknown := bc_unknown c + fst n, bc_resolved := bc_resolved c + snd n\<rparr>,
      (if 0 < fst n then (bo_workspace seen, bo_user seen, bo_session seen) # paused else paused),
      with_journal ((journal_view ?db)\<lparr>ed_effects := map (swept_effect now db [seen]) (bd_effects db)\<rparr>) ?db)"
    by (simp add: sweep_row_def Let_def stale True)
  moreover have "with_journal ((journal_view ?db)\<lparr>ed_effects := map (swept_effect now db [seen]) (bd_effects db)\<rparr>) ?db
      = after_sweep (rs_journal se) now [seen] db"
    by (simp add: with_journal_def after_sweep_def boot_reap_swept True)
  ultimately show ?thesis by simp
qed

definition stale_rows :: "reconcile_settings \<Rightarrow> datetime \<Rightarrow> boot_directive list \<Rightarrow> boot_directive list" where
  "stale_rows se now ds = filter (\<lambda>d. is_stale se now d = Ok True) ds"

lemma sweep_all_exact:
  assumes "boot_ok db" "utc_ok now" "list_all (\<lambda>d. is_ok (is_stale se now d)) ds" "distinct (map bo_id ds)"
  shows "\<exists>c' paused'. sweep_all se now ds (c, paused, db) = Ok (c', paused', after_sweep (rs_journal se) now (stale_rows se now ds) db)
    \<and> bc_reaped c' = bc_reaped c + int (length (stale_rows se now ds))"
  using assms
proof (induction ds arbitrary: c paused db)
  case Nil
  then show ?case by (simp add: stale_rows_def)
next
  case (Cons d ds)
  obtain stale where st: "is_stale se now d = Ok stale"
    using Cons.prems(3) by (cases "is_stale se now d") (simp_all add: is_ok_def)
  show ?case
  proof (cases stale)
    case True
    let ?db = "after_sweep (rs_journal se) now [d] db"
    from sweep_row_exact [OF Cons.prems(1), of se now d c paused] st True
    obtain c1 p1 where one: "sweep_row se now d (c, paused, db) = Ok (c1, p1, ?db)" "bc_reaped c1 = bc_reaped c + 1" by auto
    have new: "bo_id d \<notin> bo_id ` set (stale_rows se now ds)" using Cons.prems(4) by (auto simp: stale_rows_def)
    have "stale_rows se now (d # ds) = d # stale_rows se now ds" using st True by (simp add: stale_rows_def)
    with Cons.IH [OF after_sweep_ok [OF Cons.prems(1,2), of "rs_journal se" "[d]"], of c1 p1] Cons.prems(2-4) one
    show ?thesis by (auto simp: after_sweep_Cons [OF new])
  next
    case False
    then have "stale_rows se now (d # ds) = stale_rows se now ds" using st by (simp add: stale_rows_def)
    with Cons.IH [OF Cons.prems(1,2), of "c\<lparr>bc_scanned := bc_scanned c + 1\<rparr>" paused] Cons.prems(3,4) st False
    show ?thesis by (simp add: sweep_row_def Let_def)
  qed
qed

lemma count_paused_Ok: "list_all row_wf (ed_effects db) \<Longrightarrow> \<exists>n. count_paused enabled db scopes = Ok n"
proof (induction scopes)
  case (Cons x xs)
  obtain w ow session where x: "x = (w, ow, session)" by (cases x)
  have "\<exists>p. pause_guard_for_session enabled db w ow session = Ok p"
    using pause_guard_exact [OF Cons.prems, of w ow session] by (cases enabled) (auto simp: pause_guard_for_session_def)
  with Cons show ?case by (auto simp: x)
qed simp

text \<open>
  C17. What the boot sweep does among other writers (reconcile.py, startup_reconcile): on stores in order whose batch holds
  readable stamps, whatever others commit after its query and after its first commit, the sweep returns and dispatch
  may open.  Of the rows it read as stale, exactly the directives still under the lease it read are abandoned, under the
  next lease; the open effects of those, and of a directive someone else has meanwhile taken to that next lease, are
  settled, none of them staying open; where the directive has moved further, an effect keeps its state and at most has its
  evidence column overwritten.  Every other row, and with the journal disabled every effect, is as the others left it.
\<close>

theorem boot_sweep_completes:
  assumes "boot_ok db" "boot_ok (others 0 db)" "\<And>d. boot_ok d \<Longrightarrow> boot_ok (others 1 d)" "utc_ok now"
    and "list_all (\<lambda>d. is_ok (is_stale se now d)) (boot_batch (rs_batch se) db)"
    and "ss = stale_rows se now (boot_batch (rs_batch se) db)"
  shows "\<exists>c mid. startup_reconcile others se now drained db = Ok (c, (others 1 mid)\<lparr>bd_done := True\<rparr>)
    \<and> reconcile_complete ((others 1 mid)\<lparr>bd_done := True\<rparr>) \<and> bc_reaped c = int (length ss)
    \<and> bd_directives mid = map (\<lambda>d. if \<exists>s \<in> set ss. bo_id s = bo_id d \<and> bo_lease s = bo_lease d then abandoned now d else d)
        (bd_directives (others 0 db))
    \<and> bd_effects mid = (if rs_journal se
        then map (\<lambda>r. marked_by now (missed_ids (others 0 db) ss) (settled_by now (settled_ids (others 0 db) ss) r)) (bd_effects (others 0 db))
        else bd_effects (others 0 db))
    \<and> (\<not> rs_journal se \<or> filter (\<lambda>r. ef_directive (er_record r) \<in> settled_ids (others 0 db) ss \<and> unsettled (er_record r))
        (bd_effects mid) = [])"
proof -
  let ?ds = "boot_batch (rs_batch se) db" and ?db = "others 0 db"
  let ?mid = "after_sweep (rs_journal se) now ss ?db"
  have "distinct (map bo_id (sort_key bo_created (filter boot_live (bd_directives db))))"
    using assms(1) distinct_map_filter unfolding boot_ok_def by (metis mset_map mset_sort mset_eq_imp_distinct_iff)
  then have "distinct (map bo_id ?ds)" unfolding boot_batch_def take_map [symmetric] by (rule distinct_take)
  from sweep_all_exact [OF assms(2,4,5) this, of "\<lparr>bc_scanned = 0, bc_reaped = 0, bc_unknown = 0, bc_resolved = 0,
      bc_paused = 0, bc_drained = 0\<rparr>" "[]"]
  obtain c paused where sweep: "sweep_all se now ?ds (\<lparr>bc_scanned = 0, bc_reaped = 0, bc_unknown = 0, bc_resolved = 0,
      bc_paused = 0, bc_drained = 0\<rparr>, [], ?db) = Ok (c, paused, ?mid)" "bc_reaped c = int (length ss)"
    unfolding assms(6) by auto
  have "boot_ok (others 1 ?mid)" using assms(3) after_sweep_ok [OF assms(2,4)] by blast
  then have "list_all row_wf (ed_effects (journal_view (others 1 ?mid)))" by (simp add: boot_ok_def journal_view_def)
  from count_paused_Ok [OF this] obtain n
    where "count_paused (rs_pause se) (journal_view (others 1 ?mid)) (sorted_set paused) = Ok n" by blast
  with sweep(1) have run: "startup_reconcile others se now drained db
      = Ok (c\<lparr>bc_paused := n, bc_drained := drained\<rparr>, (others 1 ?mid)\<lparr>bd_done := True\<rparr>)"
    by (simp add: startup_reconcile_def Let_def)
  have closed: "\<not> unsettled (er_record (swept_effect now ?db ss r))" if "ef_directive (er_record r) \<in> settled_ids ?db ss" for r
    using that by (simp add: swept_effect_def settled_by_done)
  have "bd_effects ?mid = (if rs_journal se then map (swept_effect now ?db ss) (bd_effects ?db) else bd_effects ?db)"
    "bd_directives ?mid = map (swept_directive now ss) (bd_directives ?db)" by (simp_all add: after_sweep_def)
  with run sweep(2) closed show ?thesis
    by (intro exI [of _ "c\<lparr>bc_paused := n, bc_drained := drained\<rparr>"] exI [of _ ?mid])
      (auto simp: reconcile_complete_def swept_directive_def [abs_def] swept_effect_def [abs_def] filter_empty_conv)
qed

definition boot_sample :: boot_db where
  "boot_sample = \<lparr>bd_directives = [\<lparr>bo_id = ''d'', bo_workspace = ''W'', bo_user = ''O'', bo_session = ''S'', bo_state = D_IN_PROGRESS,
     bo_lease = 2, bo_lease_expires = Some ''1970-01-01T00:00:00+00:00'', bo_executor = Some ''x'', bo_created = [], bo_updated = []\<rparr>],
     bd_effects = [sample_row], bd_done = False\<rparr>"

definition boot_settings :: reconcile_settings where
  "boot_settings = \<lparr>rs_journal = True, rs_pause = True, rs_claim_ttl = 300, rs_batch = 200\<rparr>"

lemma boot_sample_ok: "boot_ok boot_sample"
  using sample_journal_ok sample_journal_wf journal_ok_cong [of "journal_view boot_sample" sample_journal]
  by (simp add: boot_ok_def boot_sample_def journal_view_def sample_journal_def)

lemma boot_sample_now: "utc_ok (Aware 1000000000 0)"
  by (simp add: utc_ok_def in_range_def MIN_T_def MAX_T_def)

lemma boot_sample_reaped: "ef_state (er_record (settled_by now {''d''} sample_row)) = ''unknown''"
  by (simp add: settled_by_def unsettled_def reap_target_def sample_journal_defs sample_effect_def)

lemma epoch_parses: "fromisoformat ''1970-01-01T00:00:00+00:00'' = Some (Aware 0 0)"
  by code_simp

theorem boot_sweep_completes_witness:
  "\<exists>c db'. startup_reconcile alone boot_settings (Aware 1000000000 0) 0 boot_sample = Ok (c, db')
    \<and> map bo_state (bd_directives db') = [D_ABANDONED] \<and> map (\<lambda>r. ef_state (er_record r)) (bd_effects db') = [''unknown'']"
proof -
  let ?now = "Aware 1000000000 0"
  have batch: "boot_batch (rs_batch boot_settings) boot_sample = bd_directives boot_sample"
    by (simp add: boot_batch_def boot_sample_def boot_settings_def boot_live_def)
  have stale: "is_stale boot_settings ?now d = Ok True" if "d \<in> set (bd_directives boot_sample)" for d
    using that epoch_parses by (simp add: boot_sample_def is_stale_def stale_window_seconds_def boot_settings_def instant_def aware_def)
  let ?ss = "stale_rows boot_settings ?now (bd_directives boot_sample)"
  have ss: "?ss = bd_directives boot_sample" using stale by (simp add: stale_rows_def filter_id_conv)
  have "list_all (\<lambda>d. is_ok (is_stale boot_settings ?now d)) (bd_directives boot_sample)" using stale by (simp add: list_all_iff)
  from boot_sweep_completes [OF boot_sample_ok, of alone ?now boot_settings _ 0, unfolded batch, OF boot_sample_ok _ _ this refl]
  obtain c mid where run: "startup_reconcile alone boot_settings ?now 0 boot_sample = Ok (c, mid\<lparr>bd_done := True\<rparr>)"
    and dirs: "bd_directives mid = map (\<lambda>d. if \<exists>s \<in> set ?ss. bo_id s = bo_id d \<and> bo_lease s = bo_lease d then abandoned ?now d else d)
        (bd_directives boot_sample)"
    and effs: "bd_effects mid = map (\<lambda>r. marked_by ?now (missed_ids boot_sample ?ss) (settled_by ?now (settled_ids boot_sample ?ss) r))
        (bd_effects boot_sample)"
    using boot_sample_now by (simp add: boot_settings_def) blast
  from dirs have "map bo_state (bd_directives mid) = [D_ABANDONED]"
    unfolding ss by (simp add: boot_sample_def abandoned_def)
  moreover define row where "row = hd (bd_directives boot_sample)"
  have row: "bd_directives boot_sample = [row]" "bo_id row = ''d''" by (simp_all add: row_def boot_sample_def)
  then have "fence_holds boot_sample row" by (simp add: fence_holds_def)
  then have "settled_ids boot_sample ?ss = {''d''}" "missed_ids boot_sample ?ss = {}"
    unfolding ss using row by simp_all
  with effs have "map (\<lambda>r. ef_state (er_record r)) (bd_effects mid) = [''unknown'']"
    by (simp add: boot_sample_def boot_sample_reaped)
  ultimately show ?thesis using run by auto
qed

text \<open>
  The sweep does not look at its row count (reconcile.py, startup_reconcile): a worker claims a pending directive
  between the sweep's query and its UPDATE, under the next lease, and opens an effect; the UPDATE misses, so the
  directive stays in progress under the worker, yet the sweep counts it as reaped and, as the worker's lease is
  the number it computed itself, the fence lets it turn the worker's live effect into an unknown one.
\<close>

theorem boot_sweep_settles_a_live_claim:
  "\<exists>db claim c db'. boot_ok db \<and> boot_ok (claim db)
    \<and> map (\<lambda>d. (bo_state d, bo_lease d)) (bd_directives db) = [(D_PENDING, 1)]
    \<and> map (\<lambda>d. (bo_state d, bo_lease d)) (bd_directives (claim db)) = [(D_IN_PROGRESS, 2)]
    \<and> map (\<lambda>r. (ef_state (er_record r), ef_lease (er_record r))) (bd_effects (claim db)) = [(''prepared'', 2)]
    \<and> startup_reconcile (\<lambda>n. if n = 0 then claim else (\<lambda>d. d)) boot_settings (Aware 1000000000 0) 0 db = Ok (c, db')
    \<and> bc_reaped c = 1 \<and> bd_directives db' = bd_directives (claim db)
    \<and> map (\<lambda>r. ef_state (er_record r)) (bd_effects db') = [''unknown'']"
proof -
  let ?now = "Aware 1000000000 0"
  define seen :: boot_directive where "seen = \<lparr>bo_id = ''d'', bo_workspace = ''W'', bo_user = ''O'', bo_session = ''S'',
    bo_state = D_PENDING, bo_lease = 1, bo_lease_expires = None, bo_executor = None, bo_created = [], bo_updated = []\<rparr>"
  define db where "db = \<lparr>bd_directives = [seen], bd_effects = [], bd_done = False\<rparr>"
  define claim :: "boot_db \<Rightarrow> boot_db" where "claim = (\<lambda>_. boot_sample)"
  define c0 where "c0 = \<lparr>bc_scanned = 0, bc_reaped = 0, bc_unknown = 0, bc_resolved = 0, bc_paused = 0, bc_drained = 0\<rparr>"
  have ok: "boot_ok db" by (simp add: db_def boot_ok_def journal_ok_def journal_view_def)
  have batch: "boot_batch (rs_batch boot_settings) db = [seen]"
    by (simp add: boot_batch_def db_def boot_settings_def boot_live_def seen_def)
  have stale: "is_stale boot_settings ?now seen = Ok True" by (simp add: is_stale_def seen_def)
  let ?after = "after_sweep True ?now [seen] boot_sample"
  have journal: "rs_journal boot_settings" by (simp add: boot_settings_def)
  from sweep_row_exact [OF boot_sample_ok stale, of c0 "[]"] journal
  obtain c p where sweep: "sweep_row boot_settings ?now seen (c0, [], boot_sample) = Ok (c, p, ?after)" "bc_reaped c = 1"
    by (auto simp: c0_def)
  have "fence_holds boot_sample seen" by (simp add: fence_holds_def boot_sample_def seen_def)
  then have held: "settled_ids boot_sample [seen] = {''d''}" "missed_ids boot_sample [seen] = {}"
    by (simp_all add: seen_def)
  have after: "bd_directives ?after = bd_directives boot_sample"
    by (simp add: after_sweep_def swept_directive_def boot_sample_def seen_def)
  have "list_all row_wf (ed_effects (journal_view ?after))"
    using after_sweep_ok [OF boot_sample_ok boot_sample_now] by (simp add: boot_ok_def journal_view_def)
  from count_paused_Ok [OF this] obtain n where
    "count_paused (rs_pause boot_settings) (journal_view ?after) (sorted_set p) = Ok n" by blast
  with sweep(1) have run: "startup_reconcile (\<lambda>n. if n = 0 then claim else (\<lambda>d. d)) boot_settings ?now 0 db
      = Ok (c\<lparr>bc_paused := n, bc_drained := 0\<rparr>, ?after\<lparr>bd_done := True\<rparr>)"
    by (simp add: startup_reconcile_def Let_def batch claim_def flip: c0_def)
  have "bd_effects ?after = map (\<lambda>r. marked_by ?now {} (settled_by ?now {''d''} r)) (bd_effects boot_sample)"
    unfolding after_sweep_def swept_effect_def [abs_def] held by simp
  then have "map (\<lambda>r. ef_state (er_record r)) (bd_effects ?after) = [''unknown'']"
    by (simp add: boot_sample_def boot_sample_reaped)
  moreover have "map (\<lambda>r. (ef_state (er_record r), ef_lease (er_record r))) (bd_effects boot_sample) = [(''prepared'', 2)]"
    by (simp add: boot_sample_def sample_journal_defs)
  moreover have "map (\<lambda>d. (bo_state d, bo_lease d)) (bd_directives db) = [(D_PENDING, 1)]"
    "map (\<lambda>d. (bo_state d, bo_lease d)) (bd_directives boot_sample) = [(D_IN_PROGRESS, 2)]"
    by (simp_all add: db_def seen_def boot_sample_def)
  ultimately show ?thesis
    using run ok boot_sample_ok sweep(2) after by (intro exI [of _ db] exI [of _ claim]) (simp add: claim_def)
qed

end
