(* ===== verification/Full_Effects_Facts.thy ===== *)
theory Full_Effects_Facts
  imports Full_Effects Reconcile_Facts
begin

text \<open>
  Where the Full backend's journal and boot sweep agree with the Lite ones, and where they part: undisturbed
  they journal alike, but Full's opening is not fenced at its INSERT, its guard reads a window, and its sweep
  settles without a fence.
\<close>

section \<open>The two journals\<close>

lemma full_journal_simps [simp]:
  "ed_effects (full_journal db) = fu_effects db"
  "dict_get (ed_directives (full_journal db)) d = map_option (\<lambda>x. (fx_lease x, fx_claimed x)) (dict_get (fu_directives db) d)"
  using map_of_map [of "\<lambda>x. (fx_lease x, fx_claimed x)" "fu_directives db"] by (simp_all add: full_journal_def)

lemma sort_key_filter_length: "length (filter P (sort_key f xs)) = length (filter P xs)"
  by (metis mset_filter mset_sort size_mset)

lemma length_filter_conj: "length (filter (\<lambda>x. P x \<and> Q x) xs) \<le> length (filter P xs)"
  by (induction xs) auto

definition as_full :: "full_db \<Rightarrow> (store_error, 'a \<times> effect_db) result \<Rightarrow> (full_error, 'a \<times> full_db) result" where
  "as_full db r = (case r of
       Inl StaleLease \<Rightarrow> Err FullStale
     | Inl (BadValue m) \<Rightarrow> Err (FullValue m)
     | Inl (Rejected e) \<Rightarrow> Err (FullRejected e)
     | Inr (x, j) \<Rightarrow> Ok (x, db\<lparr>fu_effects := ed_effects j\<rparr>))"

lemma reversibility_or_unknown [simp]: "or_else (or_else r ''unknown'') ''unknown'' = or_else r ''unknown''"
  by (cases r) (simp_all add: or_else_def)

lemma as_full_simps [simp]:
  "as_full db (Inl (Rejected e)) = Err (FullRejected e)"
  "as_full db (Inl StaleLease) = Err FullStale"
  "as_full db (Ok (x, full_journal db\<lparr>ed_effects := rows\<rparr>)) = Ok (x, db\<lparr>fu_effects := rows\<rparr>)"
  by (simp_all add: as_full_def)

lemma find_last: "find P xs = None \<Longrightarrow> P x \<Longrightarrow> find P (xs @ [x]) = Some x"
  by (induction xs) (simp_all split: if_splits)

lemma validate_cong:
  "(r = ''irreversible'') = (r' = ''irreversible'') \<Longrightarrow> validate_effect_transition c t a r = validate_effect_transition c t a r'"
  by (simp only: validate_effect_transition_def Let_def)

definition full_sample_directive :: full_directive where
  "full_sample_directive = \<lparr>fx_workspace = ''W'', fx_user = ''O'', fx_session = ''S'', fx_state = ''in_progress'', fx_lease = 2,
     fx_claimed = Some ''x'', fx_created = Aware 0 0, fx_updated = Aware 0 0, fx_finished = None, fx_failure = None\<rparr>"

definition full_sample :: full_db where
  "full_sample = \<lparr>fu_effects = [sample_row], fu_directives = [(''d'', full_sample_directive)], fu_done = False\<rparr>"

text \<open>
  Without a writer in between, the Full backend's resolving CAS is the Lite one, on every branch: the same verdict,
  the same refusal, the same journal.
\<close>

theorem full_resolve_is_lite:
  assumes "distinct (map er_id (fu_effects db))" "eid \<in> er_id ` set (fu_effects db)"
  shows "full_resolve_effect (\<lambda>_ d. d) db eid target actor source evidence lease now
    = as_full db (resolve_effect alone (full_journal db) eid target actor source evidence lease now)"
proof -
  obtain row where row: "row \<in> set (fu_effects db)" "er_id row = eid" using assms(2) by auto
  have found: "find (\<lambda>r. er_id r = eid) (fu_effects db) = Some row" using find_unique [OF assms(1) row(1)] row(2) by simp
  have one: "0 < length (filter (\<lambda>r. er_id r = eid \<and> Q r) (fu_effects db)) \<longleftrightarrow> length (filter (\<lambda>r. er_id r = eid \<and> Q r) (fu_effects db)) = Suc 0" for Q
  proof -
    have "length (filter (\<lambda>r. er_id r = eid \<and> Q r) (fu_effects db)) \<le> length (filter (\<lambda>r. er_id r = eid) (fu_effects db))"
      by (rule length_filter_conj)
    then have "length (filter (\<lambda>r. er_id r = eid \<and> Q r) (fu_effects db)) \<le> Suc 0"
      using filter_unique [OF assms(1) row(1)] row(2) by simp
    then show ?thesis by linarith
  qed
  let ?c = "ef_state (er_record row)"
  let ?r = "ei_reversibility (ef_intent (er_record row))"
  have same: "validate_effect_transition ?c target actor (or_else ?r ''unknown'') = validate_effect_transition ?c target actor ?r"
    by (rule validate_cong) (simp add: or_else_def)
  show ?thesis
    by (cases "validate_effect_transition ?c target actor ?r")
       (simp_all only: full_resolve_effect_def full_load_effect_def resolve_effect_def found Let_def as_full_simps res_bind_def map_error_def
          same one full_journal_simps option.case sum.case One_nat_def)
qed

theorem full_resolve_is_lite_witness:
  "\<exists>db'. full_resolve_effect (\<lambda>_ d. d) full_sample ''u'' ''running'' ''executor:x'' ''worker'' [] 2 (Aware 6 0) = Ok (True, db')
    \<and> map (\<lambda>r. ef_state (er_record r)) (fu_effects db') = [''running'']"
proof -
  have row: "distinct (map er_id (fu_effects full_sample))" "''u'' \<in> er_id ` set (fu_effects full_sample)"
    by (simp_all add: full_sample_def sample_journal_defs)
  have "validate_effect_transition ''prepared'' ''running'' ''executor:x'' ''irreversible'' = Ok ()"
    by (simp add: validate_effect_Ok EFFECT_TRANSITIONS_def EFFECT_REOPENABLE_TRANSITIONS_def EFFECT_TERMINAL_STATES_def)
  then show ?thesis
    unfolding full_resolve_is_lite [OF row]
    by (simp add: resolve_effect_def full_journal_def full_sample_def full_sample_directive_def sample_journal_defs sample_effect_def
        fence_ok_def executor_of_def starts_with_def SYSTEM_ONLY_SOURCES_def resolve_row_def as_full_def Let_def)
qed

lemma full_pair_honest:
  "full_reject_pair t g = Ok () \<longleftrightarrow> reject_forbidden_pair t g = Ok ()"
  by (auto simp: full_reject_pair_def reject_forbidden_pair_def TIERS_def)

lemma full_fence_is_lite:
  assumes "dict_get (fu_directives db) (oa_directive a) = Some x" "fx_workspace x = oa_workspace a"
    "oa_executor a \<notin> set SYSTEM_ONLY_SOURCES" "oa_executor a \<noteq> []"
  shows "full_fence db a = (if fence_ok (full_journal db) (oa_directive a) (oa_lease a) (oa_executor a) False then Ok () else Err FullStale)"
  using assms by (simp add: full_fence_def fence_ok_def split: option.split)

lemma full_insert_fresh:
  assumes "find_effect (full_journal db) (oa_directive a) (effect_intent_digest (oa_intent a)) = None"
  shows "full_insert db db uuid a = Ok (db\<lparr>fu_effects := fu_effects db @ [new_row (full_journal db) uuid a]\<rparr>)"
proof -
  let ?row = "new_row (full_journal db) uuid a"
  have "ef_directive (er_record ?row) = oa_directive a" "ef_seq (er_record ?row) = max_seq (full_journal db) (oa_directive a) + 1"
    by (simp_all add: new_row_def)
  then have "\<not> list_ex (\<lambda>r. ef_directive (er_record r) = oa_directive a \<and> ef_seq (er_record r) = ef_seq (er_record ?row)) (fu_effects db)"
    using max_seq_bound [of _ "full_journal db"] by (fastforce simp: list_ex_iff)
  then show ?thesis using assms by (simp add: full_insert_def Let_def)
qed

lemma full_insert_found:
  assumes "find_effect (full_journal db) (oa_directive a) (effect_intent_digest (oa_intent a)) = None"
  shows "find_effect (full_journal (db\<lparr>fu_effects := fu_effects db @ [new_row (full_journal db) uuid a]\<rparr>)) (oa_directive a)
      (effect_intent_digest (oa_intent a)) = Some (new_row (full_journal db) uuid a)"
  using assms by (simp add: find_effect_def find_last new_row_def)

lemma full_open_is_lite:
  assumes known: "dict_get (fu_directives db) (oa_directive a) = Some x" "fx_workspace x = oa_workspace a"
    and caller: "oa_executor a \<notin> set SYSTEM_ONLY_SOURCES" "oa_executor a \<noteq> []"
    and intent: "ei_kind (oa_intent a) \<in> set EFFECT_KINDS" "reject_forbidden_pair (oa_tier a) (oa_tracing a) = Ok ()"
    and fresh: "find_effect (full_journal db) (oa_directive a) (effect_intent_digest (oa_intent a)) = None"
      "uuid \<notin> er_id ` set (fu_effects db)"
  shows "full_open_effect alone db uuid a = as_full db (open_effect alone (full_journal db) uuid a)"
proof -
  have "uuid \<notin> er_id ` set (ed_effects (full_journal db))" using fresh(2) by (simp add: full_journal_def)
  from open_effect_alone [OF this fresh(1) intent(2)] show ?thesis
    by (simp add: full_open_effect_def intent full_pair_honest [THEN iffD2, OF intent(2)] res_bind_def fresh
        full_fence_is_lite [OF known caller] caller full_insert_fresh [OF fresh(1)] full_insert_found [OF fresh(1)] Let_def)
qed

section \<open>The fence and the insert\<close>

lemma map_of_map_entries: "map_of (map (\<lambda>(k, v). (k, f k v)) xs) k = map_option (f k) (map_of xs k)"
  by (induction xs) auto

lemma full_abandon_get:
  "dict_get (fu_directives (full_abandon now i db)) k
    = map_option (\<lambda>d. if k = i then abandon_directive now d else d) (dict_get (fu_directives db) k)"
  by (simp add: full_abandon_def map_of_map_entries [of "\<lambda>j d. if j = i then abandon_directive now d else d"])

lemma full_abandon_effects [simp]: "fu_effects (full_abandon now i db) = fu_effects db"
  by (simp add: full_abandon_def)

text \<open>
  A worker opens an effect while the reaper takes its directive: the lease is bumped after the fence was read
  and before the row is inserted.  The row is inserted all the same, with the lease that no longer holds, though an
  open that reads the fence on the very database the row lands in is refused.  Lite reads its fence in a statement
  of its own too.
\<close>

theorem full_open_races:
  assumes known: "dict_get (fu_directives db) (oa_directive a) = Some x" "fx_workspace x = oa_workspace a"
    and held: "fx_state x = ''in_progress''" "fx_lease x = oa_lease a" "fx_claimed x = Some (oa_executor a)"
    and caller: "oa_executor a \<notin> set SYSTEM_ONLY_SOURCES" "oa_executor a \<noteq> []"
    and intent: "ei_kind (oa_intent a) \<in> set EFFECT_KINDS" "full_reject_pair (oa_tier a) (oa_tracing a) = Ok ()"
    and fresh: "find_effect (full_journal db) (oa_directive a) (effect_intent_digest (oa_intent a)) = None"
  shows "full_open_effect (\<lambda>n. if n = 0 then full_abandon now (oa_directive a) else id) db uuid a
      = Ok (uuid, (full_abandon now (oa_directive a) db)\<lparr>fu_effects := fu_effects db @ [new_row (full_journal db) uuid a]\<rparr>)
    \<and> open_effect alone (full_journal (full_abandon now (oa_directive a) db)) uuid a = Err StaleLease"
proof -
  let ?db = "full_abandon now (oa_directive a) db"
  let ?row = "new_row (full_journal db) uuid a"
  have ed [simp]: "max_seq (full_journal ?db) = max_seq (full_journal db)" by (rule ext) (simp add: max_seq_def)
  then have row: "new_row (full_journal ?db) uuid a = ?row" by (simp add: new_row_def)
  have found: "find_effect (full_journal ?db) (oa_directive a) (effect_intent_digest (oa_intent a)) = None"
    using fresh by (simp add: find_effect_def)
  have ins: "full_insert ?db ?db uuid a = Ok (?db\<lparr>fu_effects := fu_effects db @ [?row]\<rparr>)"
    using full_insert_fresh [OF found, of uuid] by (simp add: row)
  have after: "find_effect (full_journal (?db\<lparr>fu_effects := fu_effects db @ [?row]\<rparr>)) (oa_directive a) (effect_intent_digest (oa_intent a)) = Some ?row"
    using full_insert_found [OF found, of uuid] by (simp add: row)
  have fence: "full_fence db a = Ok ()" using known held caller by (simp add: full_fence_def)
  have "fence_ok (full_journal ?db) (oa_directive a) (oa_lease a) (oa_executor a) False = False"
    using known held by (simp add: fence_ok_def full_abandon_get abandon_directive_def)
  then have "open_effect alone (full_journal ?db) uuid a = Err StaleLease"
    using intent(2) caller by (simp add: open_effect_def full_pair_honest res_bind_def found)
  moreover have "er_id ?row = uuid" by (simp add: new_row_def)
  ultimately show ?thesis
    using intent by (simp add: full_open_effect_def fence ins after res_bind_def Let_def)
qed

theorem full_open_races_witness:
  "\<exists>db'. full_open_effect (\<lambda>n. if n = 0 then full_abandon (Aware 6 0) ''d'' else id) (full_sample\<lparr>fu_effects := []\<rparr>) ''u'' sample_open = Ok (''u'', db')
    \<and> map (\<lambda>(i, d). (fx_state d, fx_lease d)) (fu_directives db') = [(''abandoned'', 3)]
    \<and> map (\<lambda>r. (ef_state (er_record r), ef_lease (er_record r))) (fu_effects db') = [(''prepared'', 2)]"
proof -
  let ?db = "full_sample\<lparr>fu_effects := []\<rparr>"
  note run = full_open_races [of ?db sample_open full_sample_directive "Aware 6 0" "''u''", THEN conjunct1]
  have d: "oa_directive sample_open = ''d''" by (simp add: sample_open_def)
  have "full_open_effect (\<lambda>n. if n = 0 then full_abandon (Aware 6 0) ''d'' else id) ?db ''u'' sample_open
    = Ok (''u'', (full_abandon (Aware 6 0) ''d'' ?db)\<lparr>fu_effects := [new_row (full_journal ?db) ''u'' sample_open]\<rparr>)"
    using run unfolding d
    by (simp add: full_sample_def full_sample_directive_def sample_open_def sample_effect_def find_effect_def full_reject_pair_def
        ACTION_TRACING_def EFFECT_KINDS_def SYSTEM_ONLY_SOURCES_def)
  then show ?thesis
    by (simp add: full_abandon_def abandon_directive_def full_sample_def full_sample_directive_def new_row_def sample_open_def)
qed

end
