(* ===== verification/Full_Sweep.thy ===== *)
theory Full_Sweep
  imports Full_Effects_Facts
begin

text \<open>
  The Full boot sweep, with no other writer: which directives it abandons, which effects it settles and how, and
  where its settling differs from the Lite twin's.
\<close>

section \<open>The reap\<close>

definition full_settled :: "datetime \<Rightarrow> effect_row \<Rightarrow> effect_row" where
  "full_settled now r = resolve_row (full_target r) EFFECT_ACTOR_RECONCILER ''reaper'' (full_reap_evidence now r) now r"

definition full_settled_by :: "datetime \<Rightarrow> pystr set \<Rightarrow> effect_row \<Rightarrow> effect_row" where
  "full_settled_by now ds r = (if ef_directive (er_record r) \<in> ds \<and> still_open r then full_settled now r else r)"

lemma full_settled_simps [simp]:
  "er_id (full_settled now r) = er_id r" "ef_directive (er_record (full_settled now r)) = ef_directive (er_record r)"
  "ef_state (er_record (full_settled now r)) = full_target r" "\<not> still_open (full_settled now r)"
  by (simp_all add: full_settled_def resolve_row_def still_open_def full_target_def)

lemma full_settled_by_simps [simp]:
  "er_id (full_settled_by now ds r) = er_id r" "ef_directive (er_record (full_settled_by now ds r)) = ef_directive (er_record r)"
  "full_settled_by now {} r = r" "full_settled_by now ds (full_settled_by now es r) = full_settled_by now (es \<union> ds) r"
  by (auto simp: full_settled_by_def)

lemma full_settled_ids [simp]: "er_id \<circ> (\<lambda>x. if P x then full_settled now x else x) = er_id" "er_id \<circ> full_settled_by now ds = er_id"
  by auto

lemma full_settle_seen:
  assumes "distinct (map er_id (fu_effects db))" "r \<in> set (fu_effects db)"
  shows "full_settle now r db = db\<lparr>fu_effects := map (\<lambda>x. if er_id x = er_id r then full_settled now x else x) (fu_effects db)\<rparr>"
proof -
  have "x = r" if "x \<in> set (fu_effects db)" "er_id x = er_id r" for x
    using assms that by (metis distinct_map inj_onD)
  then show ?thesis unfolding full_settle_def full_settled_def by (intro arg_cong [where f = "\<lambda>e. db\<lparr>fu_effects := e\<rparr>"] map_cong) auto
qed

definition full_count :: "effect_row list \<Rightarrow> int \<times> int" where
  "full_count rs = (int (length (filter (\<lambda>r. full_target r = ''unknown'') rs)), int (length (filter (\<lambda>r. full_target r \<noteq> ''unknown'') rs)))"

lemma full_settle_all_exact:
  assumes "distinct (map er_id (fu_effects db))" "distinct (map er_id rs)" "set rs \<subseteq> set (fu_effects db)"
  shows "full_settle_all (\<lambda>_ d. d) n now rs c db = ((fst c + fst (full_count rs), snd c + snd (full_count rs)), n + length rs,
     db\<lparr>fu_effects := map (\<lambda>x. if er_id x \<in> er_id ` set rs then full_settled now x else x) (fu_effects db)\<rparr>)"
  using assms
proof (induction rs arbitrary: n c db)
  case Nil
  then show ?case by (simp add: full_count_def)
next
  case (Cons r rs)
  let ?db = "db\<lparr>fu_effects := map (\<lambda>x. if er_id x = er_id r then full_settled now x else x) (fu_effects db)\<rparr>"
  have step: "full_settle now r db = ?db" using Cons.prems by (intro full_settle_seen) auto
  have ids: "map er_id (fu_effects ?db) = map er_id (fu_effects db)" by simp
  have "x \<in> set (fu_effects ?db)" if "x \<in> set rs" for x
    using that Cons.prems(2,3) by (auto simp: image_iff intro!: bexI [of _ x])
  then have sub: "set rs \<subseteq> set (fu_effects ?db)" by blast
  have "distinct (map er_id (fu_effects ?db))" "distinct (map er_id rs)" using Cons.prems ids by simp_all
  note IH = Cons.IH [OF this sub]
  have "map (\<lambda>x. if er_id x \<in> er_id ` set rs then full_settled now x else x) (fu_effects ?db)
      = map (\<lambda>x. if er_id x \<in> er_id ` set (r # rs) then full_settled now x else x) (fu_effects db)"
    using Cons.prems(2) by auto
  then show ?case by (simp add: step IH full_count_def)
qed

lemma distinct_map_sort_key: "distinct (map f (sort_key g xs)) = distinct (map f xs)"
  by (metis mset_map mset_sort mset_eq_imp_distinct_iff)

lemma full_reap_exact:
  assumes "distinct (map er_id (fu_effects db))"
  shows "\<exists>n'. full_resolve_effects_for_directive (\<lambda>_ d. d) n db d now
    = (full_count (filter (\<lambda>r. ef_directive (er_record r) = d \<and> still_open r) (fu_effects db)), n',
       db\<lparr>fu_effects := map (full_settled_by now {d}) (fu_effects db)\<rparr>)"
proof -
  let ?open = "filter (\<lambda>r. ef_directive (er_record r) = d \<and> still_open r) (fu_effects db)"
  let ?rs = "sort_key (\<lambda>r. ef_seq (er_record r)) ?open"
  have dist: "distinct (map er_id ?rs)" unfolding distinct_map_sort_key by (rule distinct_map_filter [OF assms])
  have count: "full_count ?rs = full_count ?open"
    by (simp only: full_count_def sort_key_filter_length)
  have sub: "set ?rs \<subseteq> set (fu_effects db)" by auto
  have "er_id x \<in> er_id ` set ?rs \<longleftrightarrow> ef_directive (er_record x) = d \<and> still_open x" if x: "x \<in> set (fu_effects db)" for x
  proof
    assume "er_id x \<in> er_id ` set ?rs"
    then obtain y where y: "y \<in> set (fu_effects db)" "er_id x = er_id y" "ef_directive (er_record y) = d \<and> still_open y" by auto
    have "x = y" using x y(1,2) assms by (metis distinct_map inj_onD)
    with y(3) show "ef_directive (er_record x) = d \<and> still_open x" by blast
  next
    assume "ef_directive (er_record x) = d \<and> still_open x"
    with x have "x \<in> set ?rs" by simp
    then show "er_id x \<in> er_id ` set ?rs" by (rule imageI)
  qed
  then have "map (\<lambda>x. if er_id x \<in> er_id ` set ?rs then full_settled now x else x) (fu_effects db)
      = map (full_settled_by now {d}) (fu_effects db)"
    by (intro map_cong refl) (simp only: full_settled_by_def singleton_iff)
  then show ?thesis
    using full_settle_all_exact [OF assms dist sub, of n now "(0, 0)"]
    by (intro exI [of _ "n + length ?rs"])
      (simp only: full_resolve_effects_for_directive_def count fst_conv snd_conv add_0_left prod.collapse)
qed

text \<open>The two backends settle an effect alike unless a provider ran one that can be undone.\<close>

lemma twins_settle:
  assumes "row_wf r"
  shows "full_target r = reap_target (er_record r) \<longleftrightarrow> \<not> (provider_ran (er_record r) \<and> ei_reversibility (ef_intent (er_record r)) = ''reversible'')"
proof -
  have "ei_reversibility (ef_intent (er_record r)) \<in> {''reversible'', ''irreversible'', ''unknown''}"
    using assms unfolding row_wf_def effect_wf_def by blast
  then show ?thesis by (auto simp: full_target_def reap_target_def or_else_def)
qed

section \<open>The sweep\<close>

definition swept_directives :: "datetime \<Rightarrow> pystr set \<Rightarrow> (pystr, full_directive) dict \<Rightarrow> (pystr, full_directive) dict" where
  "swept_directives now ds = map (\<lambda>(i, d). (i, if i \<in> ds then abandon_directive now d else d))"

lemma swept_directives_keys [simp]: "map fst (swept_directives now ds xs) = map fst xs"
  by (induction xs) (auto simp: swept_directives_def)

lemma swept_directives_twice: "swept_directives now ds (swept_directives now es xs) = swept_directives now (es \<union> ds) xs"
  by (induction xs) (auto simp: swept_directives_def abandon_directive_def)

lemma swept_directives_keeps: "(j, e) \<in> set xs \<Longrightarrow> j \<notin> ds \<Longrightarrow> (j, e) \<in> set (swept_directives now ds xs)"
  unfolding swept_directives_def set_map by (rule image_eqI [where x = "(j, e)"]) simp_all

lemma sweep_abandons:
  assumes "distinct (map fst (fu_directives db))" "(i, d) \<in> set (fu_directives db)"
  shows "(if fx_state d = ''in_progress'' then full_abandon now i db else db) = db\<lparr>fu_directives := swept_directives now {i} (fu_directives db)\<rparr>"
proof -
  have "swept_directives now {i} (fu_directives db) = fu_directives db" if "fx_state d \<noteq> ''in_progress''"
  proof -
    have "x = d" if "(i, x) \<in> set (fu_directives db)" for x using that assms by (metis eq_key_imp_eq_value)
    then show ?thesis using that unfolding swept_directives_def by (intro map_idI) (auto simp: abandon_directive_def)
  qed
  then show ?thesis by (simp add: full_abandon_def swept_directives_def)
qed

lemma full_sweep_exact:
  assumes "rs_journal se" "distinct (map er_id (fu_effects db))" "distinct (map fst (fu_directives db))"
    "distinct (map fst batch)" "set batch \<subseteq> set (fu_directives db)"
  shows "\<exists>c' n'. full_sweep (\<lambda>_ d. d) n se now batch c db = (c', n',
      db\<lparr>fu_effects := map (full_settled_by now (fst ` set batch)) (fu_effects db),
         fu_directives := swept_directives now (fst ` set batch) (fu_directives db)\<rparr>)
    \<and> bc_scanned c' = bc_scanned c + int (length batch)
    \<and> bc_reaped c' = bc_reaped c + int (length (filter (\<lambda>(_, d). fx_state d = ''in_progress'') batch))"
  using assms
proof (induction batch arbitrary: n c db)
  case Nil
  then show ?case by (simp add: swept_directives_def)
next
  case (Cons x batch)
  obtain i d where x: "x = (i, d)" by (cases x)
  let ?db1 = "db\<lparr>fu_directives := swept_directives now {i} (fu_directives db)\<rparr>"
  have ab: "(if fx_state d = ''in_progress'' then full_abandon now i db else db) = ?db1"
    using Cons.prems by (intro sweep_abandons) (auto simp: x)
  obtain n1 where reap: "full_resolve_effects_for_directive (\<lambda>_ d. d) (Suc n) ?db1 i now
      = (full_count (filter (\<lambda>r. ef_directive (er_record r) = i \<and> still_open r) (fu_effects db)), n1,
         ?db1\<lparr>fu_effects := map (full_settled_by now {i}) (fu_effects db)\<rparr>)" (is "_ = (?k, _, ?db2)")
    using full_reap_exact [of ?db1 "Suc n" i now] Cons.prems(2) by auto
  let ?c = "c\<lparr>bc_scanned := bc_scanned c + 1, bc_reaped := bc_reaped c + (if fx_state d = ''in_progress'' then 1 else 0),
      bc_unknown := bc_unknown c + fst ?k, bc_resolved := bc_resolved c + snd ?k, bc_paused := bc_paused c + (if fst ?k \<noteq> 0 then 1 else 0)\<rparr>"
  have step: "full_sweep (\<lambda>_ d. d) n se now (x # batch) c db = full_sweep (\<lambda>_ d. d) (Suc n1) se now batch ?c ?db2"
  proof -
    have "(if fx_state d = ''in_progress'' then (full_abandon now i db, 1 :: int) else (db, 0))
        = (?db1, if fx_state d = ''in_progress'' then 1 else 0)" using ab by (simp split: if_splits)
    then show ?thesis by (simp only: x full_sweep.simps Let_def split_conv Cons.prems(1) if_True reap)
  qed
  have "map er_id (fu_effects ?db2) = map er_id (fu_effects db)" by simp
  moreover have "map fst (fu_directives ?db2) = map fst (fu_directives db)" by simp
  moreover have "y \<in> set (fu_directives ?db2)" if "y \<in> set batch" for y
  proof -
    obtain j e where y: "y = (j, e)" by (cases y)
    have "j \<in> fst ` set batch" using that y by (metis fst_conv imageI)
    then have "j \<noteq> i" using Cons.prems(4) by (auto simp: x)
    moreover have "(j, e) \<in> set (fu_directives db)" using that y Cons.prems(5) by auto
    ultimately show ?thesis using swept_directives_keeps [of j e "fu_directives db" "{i}" now] by (simp add: y)
  qed
  ultimately have "\<exists>c' n'. full_sweep (\<lambda>_ d. d) (Suc n1) se now batch ?c ?db2 = (c', n',
      ?db2\<lparr>fu_effects := map (full_settled_by now (fst ` set batch)) (fu_effects ?db2),
         fu_directives := swept_directives now (fst ` set batch) (fu_directives ?db2)\<rparr>)
      \<and> bc_scanned c' = bc_scanned ?c + int (length batch)
      \<and> bc_reaped c' = bc_reaped ?c + int (length (filter (\<lambda>(_, d). fx_state d = ''in_progress'') batch))"
    using Cons.prems(1-4) by (intro Cons.IH) (simp_all only: list.simps distinct.simps, blast)
  then obtain c' n' where rest: "full_sweep (\<lambda>_ d. d) (Suc n1) se now batch ?c ?db2 = (c', n',
      ?db2\<lparr>fu_effects := map (full_settled_by now (fst ` set batch)) (fu_effects ?db2),
         fu_directives := swept_directives now (fst ` set batch) (fu_directives ?db2)\<rparr>)"
      "bc_scanned c' = bc_scanned ?c + int (length batch)"
      "bc_reaped c' = bc_reaped ?c + int (length (filter (\<lambda>(_, d). fx_state d = ''in_progress'') batch))" by blast
  show ?case
    unfolding step rest(1)
  proof (intro exI conjI)
    show "(c', n', ?db2\<lparr>fu_effects := map (full_settled_by now (fst ` set batch)) (fu_effects ?db2),
         fu_directives := swept_directives now (fst ` set batch) (fu_directives ?db2)\<rparr>)
      = (c', n', db\<lparr>fu_effects := map (full_settled_by now (fst ` set (x # batch))) (fu_effects db),
         fu_directives := swept_directives now (fst ` set (x # batch)) (fu_directives db)\<rparr>)"
      by (simp add: swept_directives_twice comp_def x)
  qed (use rest(2,3) in \<open>simp_all add: x\<close>)
qed

section \<open>Properties\<close>

lemma sweep_batch_of:
  assumes "distinct (map fst (fu_directives db))"
  shows "distinct (map fst (sweep_batch se now db))" "set (sweep_batch se now db) \<subseteq> set (fu_directives db)"
proof -
  let ?old = "sort_key (\<lambda>(_, d). instant (fx_created d)) (filter (\<lambda>(_, d). fx_state d \<in> {''pending'', ''in_progress''}
        \<and> instant (fx_updated d) \<le> instant now - stale_window_seconds se * 1000000) (fu_directives db))"
  have "distinct (map fst ?old)" unfolding distinct_map_sort_key by (rule distinct_map_filter [OF assms])
  then show "distinct (map fst (sweep_batch se now db))"
    unfolding sweep_batch_def take_map [symmetric] by (rule distinct_take)
  show "set (sweep_batch se now db) \<subseteq> set (fu_directives db)"
    unfolding sweep_batch_def by (rule subset_trans [OF set_take_subset]) auto
qed

text \<open>
  With no other writer the Full boot sweep always finishes and opens the gate: the directives of its batch that were in
  progress are abandoned under the next lease, and every effect they and the batch's pending ones left open is
  failed if it can be undone and unknown otherwise; everything else is as it was.
\<close>

theorem full_boot_sweep_exact:
  assumes "rs_journal se" "distinct (map er_id (fu_effects db))" "distinct (map fst (fu_directives db))"
  shows "\<exists>c. full_startup_reconcile (\<lambda>_ d. d) se now drained db = (c,
      \<lparr>fu_effects = map (full_settled_by now (fst ` set (sweep_batch se now db))) (fu_effects db),
       fu_directives = swept_directives now (fst ` set (sweep_batch se now db)) (fu_directives db), fu_done = True\<rparr>)
    \<and> bc_scanned c = int (length (sweep_batch se now db)) \<and> bc_drained c = drained
    \<and> bc_reaped c = int (length (filter (\<lambda>(_, d). fx_state d = ''in_progress'') (sweep_batch se now db)))"
proof -
  let ?c0 = "\<lparr>bc_scanned = 0, bc_reaped = 0, bc_unknown = 0, bc_resolved = 0, bc_paused = 0, bc_drained = 0\<rparr>"
  from full_sweep_exact [OF assms sweep_batch_of [OF assms(3)], of 0 now se now ?c0]
  obtain c n where sweep: "full_sweep (\<lambda>_ d. d) 0 se now (sweep_batch se now db) ?c0 db = (c, n,
      db\<lparr>fu_effects := map (full_settled_by now (fst ` set (sweep_batch se now db))) (fu_effects db),
         fu_directives := swept_directives now (fst ` set (sweep_batch se now db)) (fu_directives db)\<rparr>)"
    "bc_scanned c = int (length (sweep_batch se now db))"
    "bc_reaped c = int (length (filter (\<lambda>(_, d). fx_state d = ''in_progress'') (sweep_batch se now db)))" by auto
  show ?thesis unfolding full_startup_reconcile_def sweep(1) split_conv
    by (intro exI [of _ "c\<lparr>bc_drained := drained\<rparr>"]) (simp add: sweep(2,3) assms(1))
qed

theorem full_boot_sweep_exact_witness:
  "\<exists>c db'. full_startup_reconcile (\<lambda>_ d. d) boot_settings (Aware 1000000000 0) 0 full_sample = (c, db') \<and> fu_done db'
    \<and> map (\<lambda>(i, d). (fx_state d, fx_lease d)) (fu_directives db') = [(''abandoned'', 3)]
    \<and> map (\<lambda>r. ef_state (er_record r)) (fu_effects db') = [''unknown'']"
proof -
  have batch: "sweep_batch boot_settings (Aware 1000000000 0) full_sample = fu_directives full_sample"
    by (simp add: sweep_batch_def full_sample_def full_sample_directive_def boot_settings_def stale_window_seconds_def)
  have "rs_journal boot_settings" "distinct (map er_id (fu_effects full_sample))" "distinct (map fst (fu_directives full_sample))"
    by (simp_all add: boot_settings_def full_sample_def)
  from full_boot_sweep_exact [OF this, of "Aware 1000000000 0" 0, unfolded batch] show ?thesis
    by (auto simp: full_sample_def full_sample_directive_def swept_directives_def abandon_directive_def full_settled_by_def
        sample_journal_defs sample_effect_def still_open_def full_target_def or_else_def)
qed

text \<open>
  A worker claims a pending directive of the batch after the query: nothing stops the sweep from settling the
  worker's effects, and the directive stays the worker's.
\<close>

lemma full_settle_all_quiet:
  "(\<And>m. n \<le> m \<Longrightarrow> others m = (\<lambda>d. d)) \<Longrightarrow> full_settle_all others n now rs c db = full_settle_all (\<lambda>_ d. d) n now rs c db"
  by (induction rs arbitrary: n c db) simp_all

lemma full_sweep_settles_a_live_claim:
  assumes "sweep_batch se now db = [(i, d)]" "fx_state d = ''pending''" "rs_journal se" "distinct (map er_id (fu_effects (claim db)))"
  shows "\<exists>c. full_startup_reconcile (\<lambda>n. if n = 0 then claim else (\<lambda>d. d)) se now drained db
    = (c, (claim db)\<lparr>fu_effects := map (full_settled_by now {i}) (fu_effects (claim db)), fu_done := True\<rparr>)"
proof -
  let ?others = "\<lambda>n :: nat. if n = 0 then claim else (\<lambda>d. d)"
  have "full_resolve_effects_for_directive ?others (Suc 0) (claim db) i now = full_resolve_effects_for_directive (\<lambda>_ d. d) (Suc 0) (claim db) i now"
    unfolding full_resolve_effects_for_directive_def by (intro full_settle_all_quiet) simp
  moreover obtain n where "full_resolve_effects_for_directive (\<lambda>_ d. d) (Suc 0) (claim db) i now
      = (full_count (filter (\<lambda>r. ef_directive (er_record r) = i \<and> still_open r) (fu_effects (claim db))), n,
         (claim db)\<lparr>fu_effects := map (full_settled_by now {i}) (fu_effects (claim db))\<rparr>)"
    using full_reap_exact [OF assms(4), of "Suc 0" i now] by blast
  ultimately have reap: "full_resolve_effects_for_directive ?others (Suc 0) (claim db) i now
      = (full_count (filter (\<lambda>r. ef_directive (er_record r) = i \<and> still_open r) (fu_effects (claim db))), n,
         (claim db)\<lparr>fu_effects := map (full_settled_by now {i}) (fu_effects (claim db))\<rparr>)" by (rule trans)
  have pending: "(fx_state d = ''in_progress'') = False" using assms(2) by simp
  have "rs_journal se = True" using assms(3) by simp
  note eqs = this pending assms(1) reap
  show ?thesis
    unfolding full_startup_reconcile_def
    by (intro exI) (simp only: eqs full_sweep.simps Let_def if_False if_True split_conv nat.simps simp_thms fst_conv snd_conv)
qed

end
