(* ===== verification/Full_Window.thy ===== *)
theory Full_Window
  imports Full_Effects_Facts
begin

text \<open>
  What the Full backend's pause guard sees: the 200 rows \<open>list_open_effects\<close> returns, the unknown ones first.
  The guard decides as the whole table would while the session has at most 200 unknown effects; past that, the
  unknown effects that could be undone may fill the window.
\<close>

section \<open>A window over a sorted list\<close>

lemma take_sort_keeps:
  assumes "y \<in> set xs" "length (filter (\<lambda>x. f x \<le> f y) xs) \<le> n"
  shows "y \<in> set (take n (sort_key f xs))"
proof (rule ccontr)
  let ?ys = "sort_key f xs"
  assume out: "y \<notin> set (take n ?ys)"
  have "y \<in> set (take n ?ys) \<union> set (drop n ?ys)" using assms(1) by (metis append_take_drop_id set_append set_sort)
  then have late: "y \<in> set (drop n ?ys)" using out by blast
  have "sorted (map f (take n ?ys @ drop n ?ys))" by simp
  then have "\<forall>x \<in> set (take n ?ys). f x \<le> f y" using late unfolding map_append sorted_append by auto
  then have "filter (\<lambda>x. f x \<le> f y) (take n ?ys) = take n ?ys" by (simp add: filter_id_conv)
  moreover have "y \<in> set (filter (\<lambda>x. f x \<le> f y) (drop n ?ys))" using late by simp
  then have "0 < length (filter (\<lambda>x. f x \<le> f y) (drop n ?ys))" by (metis length_pos_if_in_set)
  moreover have "n < length ?ys" using late by (metis drop_all empty_iff empty_set not_less)
  moreover have "length (filter (\<lambda>x. f x \<le> f y) ?ys)
      = length (filter (\<lambda>x. f x \<le> f y) (take n ?ys)) + length (filter (\<lambda>x. f x \<le> f y) (drop n ?ys))"
    by (metis append_take_drop_id filter_append length_append)
  ultimately show False using assms(2) by (simp add: sort_key_filter_length)
qed

lemma take_sort_drops:
  assumes "n \<le> length (filter (\<lambda>x. f x < f y) xs)"
  shows "y \<notin> set (take n (sort_key f xs))"
proof
  let ?ys = "sort_key f xs"
  assume "y \<in> set (take n ?ys)"
  then obtain i where i: "i < n" "i < length ?ys" "?ys ! i = y" by (auto simp: in_set_conv_nth)
  have "sorted (map f ?ys)" by simp
  then have "\<forall>x \<in> set (drop i ?ys). \<not> f x < f y"
    using i by (auto simp: in_set_conv_nth not_less sorted_iff_nth_mono)
  then have "filter (\<lambda>x. f x < f y) (drop i ?ys) = []" by (simp add: filter_empty_conv)
  then have "length (filter (\<lambda>x. f x < f y) ?ys) = length (filter (\<lambda>x. f x < f y) (take i ?ys))"
    by (metis append_Nil2 append_take_drop_id filter_append)
  also have "\<dots> \<le> i" by (metis i(2) length_filter_le length_take less_imp_le min.absorb2)
  finally show False using assms i(1) by (simp add: sort_key_filter_length)
qed

section \<open>Decoding\<close>

definition decoded :: "effect_row \<Rightarrow> effect_record" where
  "decoded r = (er_record r)\<lparr>ef_evidence := (case ef_evidence (er_record r) of Some [] \<Rightarrow> None | e \<Rightarrow> e)\<rparr>"

lemma decoded_simps [simp]: "pauses (decoded r) = pauses (er_record r)" "ef_id (decoded r) = ef_id (er_record r)"
  "ef_state (decoded r) = ef_state (er_record r)"
  by (simp_all add: decoded_def pauses_def)

lemma full_row_payload_get:
  "py_get (full_row_payload r) ''effect_id'' = PStr (ef_id (er_record r))"
  "py_get (full_row_payload r) ''directive_id'' = PStr (ef_directive (er_record r))"
  "py_get (full_row_payload r) ''seq'' = PInt (ef_seq (er_record r))"
  "py_get (full_row_payload r) ''state'' = PStr (or_else (ef_state (er_record r)) ''prepared'')"
  "py_get (full_row_payload r) ''intent_digest'' = PStr (ef_digest (er_record r))"
  "py_get (full_row_payload r) ''enforcement_tier'' = PStr (or_else (ef_tier (er_record r)) ''advisory'')"
  "py_get (full_row_payload r) ''action_tracing'' = PStr (or_else (ef_tracing (er_record r)) ''unavailable'')"
  "py_get (full_row_payload r) ''lease_generation'' = PInt (ef_lease (er_record r))"
  "py_get (full_row_payload r) ''claimed_executor'' = PStr (ef_executor (er_record r))"
  "py_get (full_row_payload r) ''provider_run_id'' = opt_py PStr (ef_run_id (er_record r))"
  "py_get (full_row_payload r) ''provider_turn_id'' = opt_py PStr (ef_turn_id (er_record r))"
  "py_get (full_row_payload r) ''opened_at'' = PDate (ef_opened_at (er_record r))"
  "py_get (full_row_payload r) ''resolved_at'' = opt_py PDate (ef_resolved_at (er_record r))"
  "py_get (full_row_payload r) ''resolution_source'' = opt_py PStr (ef_source (er_record r))"
  "py_get (full_row_payload r) ''evidence'' = opt_py PDict (ef_evidence (decoded r))"
  "py_get (full_row_payload r) ''intent'' = PDict (effect_intent_to_json ((ef_intent (er_record r))
     \<lparr>ei_kind := or_else (ei_kind (ef_intent (er_record r))) ''external'',
      ei_reversibility := or_else (ei_reversibility (ef_intent (er_record r))) ''unknown''\<rparr>))"
  by (simp_all add: full_row_payload_def Let_def effect_intent_to_json_def decoded_def split: option.split list.split)

lemma parse_dt_opt_date: "parse_dt_opt (opt_py PDate d) = Ok d"
  by (cases d) (simp_all add: parse_dt_opt_def parse_dt_def)

lemma full_record_wf:
  assumes "row_wf r"
  shows "full_record_from_row r = Ok (decoded r)"
proof -
  let ?r = "er_record r"
  have wf: "ef_tier ?r \<in> {''os_sandbox'', ''container'', ''advisory''}" "ef_state ?r \<in> set EFFECT_STATES"
    "ef_tracing ?r \<in> {''observed'', ''unavailable''}" "(ef_tier ?r, ef_tracing ?r) \<noteq> (''advisory'', ''observed'')"
    "ei_kind (ef_intent ?r) \<in> {''directive'', ''write'', ''command'', ''commit'', ''external''}"
    "ei_reversibility (ef_intent ?r) \<in> {''reversible'', ''irreversible'', ''unknown''}"
    "ef_digest ?r \<noteq> []" "opt_ok (ef_run_id ?r)" "opt_ok (ef_turn_id ?r)" "opt_ok (ef_source ?r)"
    using assms unfolding row_wf_def effect_wf_def by blast+
  have cols: "or_else (ei_kind (ef_intent ?r)) ''external'' = ei_kind (ef_intent ?r)"
    "or_else (ei_reversibility (ef_intent ?r)) ''unknown'' = ei_reversibility (ef_intent ?r)"
    "or_else (ef_state ?r) ''prepared'' = ef_state ?r" "or_else (ef_tier ?r) ''advisory'' = ef_tier ?r"
    "or_else (ef_tracing ?r) ''unavailable'' = ef_tracing ?r"
    subgoal using wf(5) by (auto simp: or_else_def)
    subgoal using wf(6) by (auto simp: or_else_def)
    subgoal using wf(2) by (auto simp: or_else_def EFFECT_STATES_def)
    subgoal using wf(1) by (auto simp: or_else_def)
    subgoal using wf(3) by (auto simp: or_else_def)
    done
  have intent: "(ef_intent ?r)\<lparr>ei_kind := ei_kind (ef_intent ?r), ei_reversibility := ei_reversibility (ef_intent ?r)\<rparr> = ef_intent ?r"
    by simp
  have read: "effect_intent_from_json (payload_mapping (PDict (effect_intent_to_json (ef_intent ?r)))) = Ok (ef_intent ?r)"
    using intent_roundtrip [OF wf(5,6)] by (simp add: payload_mapping_def)
  have lits: "tier_literal (PStr (ef_tier ?r)) = ef_tier ?r" "state_literal (PStr (ef_state ?r)) = Ok (ef_state ?r)"
    "tracing_literal (PStr (ef_tracing ?r)) = ef_tracing ?r" "parse_dt (PDate (ef_opened_at ?r)) = Ok (ef_opened_at ?r)"
    subgoal using wf(1) by (auto simp: tier_literal_def)
    subgoal using wf(2) by (auto simp: state_literal_def EFFECT_STATES_def)
    subgoal using wf(3) by (auto simp: tracing_literal_def)
    subgoal by (simp add: parse_dt_def)
    done
  have ok: "(ef_tier ?r = ''advisory'' \<and> ef_tracing ?r \<noteq> ''unavailable'') = False" using wf(3,4) by auto
  have rest: "str_or (PStr (ef_digest ?r)) d = ef_digest ?r" "opt_str (opt_py PStr (ef_run_id ?r)) = ef_run_id ?r"
    "opt_str (opt_py PStr (ef_turn_id ?r)) = ef_turn_id ?r" "opt_str (opt_py PStr (ef_source ?r)) = ef_source ?r" for d
    using wf(7-) by (simp_all add: opt_str_opt_py)
  show ?thesis
    unfolding full_record_from_row_def effect_record_from_json_def full_row_payload_get cols intent read lits Let_def ok if_False
      res_bind_simps int_or_zero_PInt parse_dt_opt_date rest as_mapping_opt str_or_empty_PStr
    by (simp add: decoded_def)
qed

section \<open>The guard\<close>

lemma res_map_decoded: "list_all row_wf rs \<Longrightarrow> res_map full_record_from_row rs = Ok (map decoded rs)"
  by (induction rs) (simp_all add: full_record_wf)

lemma find_decoded: "find pauses (map decoded rs) = map_option decoded (find (\<lambda>r. pauses (er_record r)) rs)"
  by (induction rs) auto

lemma find_exists: "(\<exists>x. find P xs = Some x) \<longleftrightarrow> (\<exists>x \<in> set xs. P x)"
  by (induction xs) auto

lemma full_pause_guard_window:
  assumes "list_all row_wf (fu_effects db)"
  shows "full_pause_guard True db w ow session = (case find (\<lambda>r. pauses (er_record r)) (open_window db w ow session) of
       Some r \<Rightarrow> Ok (True, ''unresolved_irreversible_effect'', ef_id (er_record r)) | None \<Rightarrow> Ok (False, [], []))"
proof -
  let ?rows = "open_window db w ow session"
  have "list_all row_wf ?rows"
    using assms by (auto simp: open_window_def list_all_iff dest!: in_set_takeD)
  then have load: "full_list_open_effects db w ow session = Ok (map decoded ?rows)"
    by (simp add: full_list_open_effects_def res_map_decoded)
  note found = find_decoded [of ?rows]
  show ?thesis
  proof (cases "find (\<lambda>r. pauses (er_record r)) ?rows")
    case None
    then have "\<not> list_ex pauses (map decoded ?rows)" by (auto simp: find_None_iff list_ex_iff)
    from pause_required_no_pause [OF this] show ?thesis
      using None by (cases "pause_required (map decoded ?rows)") (simp add: full_pause_guard_def load)
  next
    case (Some r)
    then have "list_ex pauses (map decoded ?rows)"
      using find_in [OF Some] by (auto simp: list_ex_iff)
    from pause_required_pauses [OF this] show ?thesis by (simp add: full_pause_guard_def load Some found)
  qed
qed

text \<open>Where an effect comes in the order of the query.\<close>

definition window_key :: "effect_row \<Rightarrow> bool \<times> int" where
  "window_key r = (ef_state (er_record r) \<noteq> ''unknown'', instant (ef_opened_at (er_record r)))"

definition unknown_of :: "full_db \<Rightarrow> pystr \<Rightarrow> pystr \<Rightarrow> pystr \<Rightarrow> effect_row list" where
  "unknown_of db w ow session = filter (\<lambda>r. of_session w ow session r \<and> ef_state (er_record r) = ''unknown'') (fu_effects db)"

lemma open_window_key: "open_window db w ow session = take 200 (sort_key window_key
    (filter (\<lambda>r. of_session w ow session r \<and> is_open_state (ef_state (er_record r))) (fu_effects db)))"
  by (simp add: open_window_def window_key_def [abs_def])

lemma unknown_within:
  assumes "ef_state (er_record y) = ''unknown''"
  shows "filter (\<lambda>r. window_key r \<le> window_key y) (filter (\<lambda>r. of_session w ow session r \<and> is_open_state (ef_state (er_record r))) (fu_effects db))
    = filter (\<lambda>r. window_key r \<le> window_key y) (unknown_of db w ow session)"
  using assms by (auto simp: unknown_of_def window_key_def is_open_state_def less_eq_prod_def intro!: filter_cong)

lemma unknown_before:
  assumes "ef_state (er_record y) = ''unknown''"
  shows "filter (\<lambda>r. window_key r < window_key y) (filter (\<lambda>r. of_session w ow session r \<and> is_open_state (ef_state (er_record r))) (fu_effects db))
    = filter (\<lambda>r. instant (ef_opened_at (er_record r)) < instant (ef_opened_at (er_record y))) (unknown_of db w ow session)"
  using assms by (auto simp: unknown_of_def window_key_def is_open_state_def less_prod_def intro!: filter_cong)

text \<open>
  C22. While a session has at most 200 unknown effects, the Full guard decides as the whole table does; when 200
  unknown effects that can be undone come before every one that cannot, it does not pause.
\<close>

theorem full_pause_guard_exact:
  assumes "list_all row_wf (fu_effects db)"
  shows "(length (unknown_of db w ow session) \<le> 200 \<longrightarrow>
      ((\<exists>eid. full_pause_guard True db w ow session = Ok (True, ''unresolved_irreversible_effect'', eid))
        \<longleftrightarrow> (\<exists>r \<in> set (unknown_of db w ow session). pauses (er_record r))))
    \<and> ((\<forall>y \<in> set (unknown_of db w ow session). pauses (er_record y) \<longrightarrow>
        200 \<le> length (filter (\<lambda>r. instant (ef_opened_at (er_record r)) < instant (ef_opened_at (er_record y))) (unknown_of db w ow session)))
      \<longrightarrow> full_pause_guard True db w ow session = Ok (False, [], []))"
proof (intro conjI impI)
  have seen: "r \<in> set (unknown_of db w ow session)" if "r \<in> set (open_window db w ow session)" "pauses (er_record r)" for r
    using that by (auto simp: open_window_def unknown_of_def pauses_def dest!: in_set_takeD)
  {
    assume few: "length (unknown_of db w ow session) \<le> 200"
    have "r \<in> set (open_window db w ow session)" if r: "r \<in> set (unknown_of db w ow session)" for r
    proof -
      have u: "ef_state (er_record r) = ''unknown''" using r by (simp add: unknown_of_def)
      have "length (filter (\<lambda>x. window_key x \<le> window_key r) (unknown_of db w ow session)) \<le> 200"
        using few length_filter_le [of "\<lambda>x. window_key x \<le> window_key r" "unknown_of db w ow session"] by linarith
      then show ?thesis unfolding open_window_key using r u
        by (intro take_sort_keeps) (simp_all add: unknown_within del: filter_filter, simp add: unknown_of_def is_open_state_def)
    qed
    then have "(\<exists>r \<in> set (unknown_of db w ow session). pauses (er_record r))
        \<longleftrightarrow> (\<exists>r. find (\<lambda>r. pauses (er_record r)) (open_window db w ow session) = Some r)"
      using seen unfolding find_exists by blast
    then show "(\<exists>eid. full_pause_guard True db w ow session = Ok (True, ''unresolved_irreversible_effect'', eid))
        \<longleftrightarrow> (\<exists>r \<in> set (unknown_of db w ow session). pauses (er_record r))"
      by (auto simp: full_pause_guard_window [OF assms] split: option.splits)
  }
  assume early: "\<forall>y \<in> set (unknown_of db w ow session). pauses (er_record y) \<longrightarrow>
        200 \<le> length (filter (\<lambda>r. instant (ef_opened_at (er_record r)) < instant (ef_opened_at (er_record y))) (unknown_of db w ow session))"
  have "\<not> pauses (er_record y)" if y: "y \<in> set (open_window db w ow session)" for y
  proof
    assume p: "pauses (er_record y)"
    then have u: "ef_state (er_record y) = ''unknown''" by (simp add: pauses_def)
    have "y \<notin> set (open_window db w ow session)" unfolding open_window_key
      using early seen [OF y p] p by (intro take_sort_drops) (simp add: unknown_before [OF u] del: filter_filter)
    with y show False by simp
  qed
  then have "find (\<lambda>r. pauses (er_record r)) (open_window db w ow session) = None" by (simp add: find_None_iff)
  then show "full_pause_guard True db w ow session = Ok (False, [], [])" by (simp add: full_pause_guard_window [OF assms])
qed

text \<open>200 effects that can be undone, then one that cannot.\<close>

definition probe :: "nat \<Rightarrow> effect_row" where
  "probe i = sample_row\<lparr>er_record := sample_effect\<lparr>ef_state := ''unknown'', ef_opened_at := Aware (int i) 0,
     ef_intent := (ef_intent sample_effect)\<lparr>ei_reversibility := if i = 200 then ''irreversible'' else ''reversible''\<rparr>\<rparr>\<rparr>"

definition probe_db :: full_db where
  "probe_db = \<lparr>fu_effects = map probe [0..<201], fu_directives = [], fu_done = False\<rparr>"

lemma probe_simps [simp]:
  "ef_state (er_record (probe i)) = ''unknown''" "instant (ef_opened_at (er_record (probe i))) = int i"
  "pauses (er_record (probe i)) \<longleftrightarrow> i = 200" "of_session ''W'' ''O'' ''S'' (probe i)"
  by (simp_all add: probe_def pauses_def of_session_def sample_row_def sample_open_def new_row_def sample_effect_def)

lemma probe_wf: "i < 201 \<Longrightarrow> row_wf (probe i)"
  by (simp add: probe_def row_wf_def effect_wf_def sample_effect_def EFFECT_STATES_def opt_ok_def utc_ok_def utc_opt_ok_def
      in_range_def MIN_T_def MAX_T_def)

lemma probes_unknown: "unknown_of probe_db ''W'' ''O'' ''S'' = map probe [0..<201]"
  by (simp add: unknown_of_def probe_db_def filter_id_conv del: upt.simps upt_rec_numeral)

theorem full_pause_guard_exact_witness:
  "full_pause_guard True probe_db ''W'' ''O'' ''S'' = Ok (False, [], [])
    \<and> (\<exists>r \<in> set (unknown_of probe_db ''W'' ''O'' ''S''). pauses (er_record r))"
proof
  have "list_all row_wf (fu_effects probe_db)"
    by (simp add: probe_db_def list_all_iff probe_wf del: upt.simps upt_rec_numeral)
  moreover have "filter (\<lambda>r. instant (ef_opened_at (er_record r)) < 200) (map probe [0..<201]) = map probe [0..<200]"
    using upt_add_eq_append [of 0 200 1] by (simp add: filter_map comp_def filter_id_conv del: upt.simps upt_rec_numeral)
  then have "200 \<le> length (filter (\<lambda>r. instant (ef_opened_at (er_record r)) < 200) (map probe [0..<201]))"
    by (simp del: upt.simps upt_rec_numeral)
  ultimately show "full_pause_guard True probe_db ''W'' ''O'' ''S'' = Ok (False, [], [])"
    by (intro full_pause_guard_exact [THEN conjunct2, rule_format]) (auto simp: probes_unknown simp del: upt.simps upt_rec_numeral)
  show "\<exists>r \<in> set (unknown_of probe_db ''W'' ''O'' ''S''). pauses (er_record r)"
    unfolding probes_unknown by (rule bexI [of _ "probe 200"]) (simp_all del: upt.simps upt_rec_numeral)
qed

end
