(* ===== verification/Scope.thy ===== *)
theory Scope
  imports Tce_Prelude Tce_Time Task_Json
begin

text \<open>
  \<open>shared/tce_shared/scope.py\<close>: the scope of a request, resolved from the caller's credentials, and the \<open>WHERE\<close>
  clauses that filter events, goals, handoffs and observations by it, rendered for PostgreSQL and for SQLite.
  The identity \<open>canonical_project_context\<close> gives a project is an argument; a frozenset is a list read as a set.
\<close>

section \<open>The scope\<close>

definition PROJECT_BOUND :: pystr where "PROJECT_BOUND = ''bound''"
definition PROJECT_INHERITED :: pystr where "PROJECT_INHERITED = ''inherited''"
definition PROJECT_UNBOUND :: pystr where "PROJECT_UNBOUND = ''unbound''"
definition SCOPE_POLICY_REVISION :: pystr where "SCOPE_POLICY_REVISION = ''p0-2026-09''"
definition WORKSPACE_TAG :: pystr where "WORKSPACE_TAG = ''_tce_workspace''"
definition OWNER_TAG :: pystr where "OWNER_TAG = ''_tce_owner''"
definition PROJECT_TAG :: pystr where "PROJECT_TAG = ''project_id''"

record auth_like =
  al_consumer :: pystr
  al_workspace :: pystr
  al_user :: pystr
  al_subject :: pystr

record resolved_scope =
  sc_workspace :: pystr
  sc_executor :: pystr
  sc_owner :: pystr
  sc_subject :: pystr
  sc_project :: "pystr option"
  sc_binding :: pystr
  sc_task :: "pystr option"
  sc_policy :: pystr
  sc_owners :: "pystr list"
  sc_continuity :: bool
  sc_source_session :: "pystr option"
  sc_legacy :: bool
  sc_retention :: int

definition is_bound :: "resolved_scope \<Rightarrow> bool" where
  "is_bound sc = (sc_binding sc \<in> {PROJECT_BOUND, PROJECT_INHERITED})"

definition sql_owner_ids :: "resolved_scope \<Rightarrow> pystr list" where
  "sql_owner_ids sc = sorted_set (sc_owners sc)"

definition narrowed_to_owner :: "resolved_scope \<Rightarrow> pystr option \<Rightarrow> resolved_scope" where
  "narrowed_to_owner sc target_owner =
     (let target = py_strip (case target_owner of None \<Rightarrow> [] | Some t \<Rightarrow> t) in
      if target = [] \<or> target \<notin> set (sc_owners sc) then sc else sc\<lparr>sc_owners := [target]\<rparr>)"

definition normalize_owner_token :: "pystr \<Rightarrow> pystr" where
  "normalize_owner_token value = py_lower (py_strip value)"

text \<open>\<open>canonical\<close> is the \<open>project_id\<close> of the canonical context, empty when it has none.\<close>

definition project_id_from :: "((pystr \<times> py) list \<Rightarrow> pystr) \<Rightarrow> (pystr \<times> py) list \<Rightarrow> pystr option" where
  "project_id_from canonical context = (if context = [] then None else or_none (py_strip (canonical context)))"

definition resolve_scope :: "((pystr \<times> py) list \<Rightarrow> pystr) \<Rightarrow> auth_like \<Rightarrow> (pystr \<times> py) list \<Rightarrow> (pystr \<times> py) list
    \<Rightarrow> pystr option \<Rightarrow> pystr option \<Rightarrow> bool \<Rightarrow> pystr option \<Rightarrow> bool \<Rightarrow> int \<Rightarrow> resolved_scope" where
  "resolve_scope canonical auth project_hint session_project task_id target_owner continuity source_session legacy retention =
     (let (project, binding) = (case project_id_from canonical project_hint of
            Some p \<Rightarrow> (Some p, PROJECT_BOUND)
          | None \<Rightarrow> (case project_id_from canonical session_project of
              Some p \<Rightarrow> (Some p, PROJECT_INHERITED)
            | None \<Rightarrow> (None, PROJECT_UNBOUND)));
          target = py_strip (case target_owner of None \<Rightarrow> [] | Some t \<Rightarrow> t);
          owners = al_user auth # (if continuity \<and> target \<noteq> [] then [target] else []) in
      \<lparr>sc_workspace = al_workspace auth, sc_executor = al_consumer auth, sc_owner = al_user auth, sc_subject = al_subject auth,
       sc_project = project, sc_binding = binding, sc_task = task_id, sc_policy = SCOPE_POLICY_REVISION, sc_owners = owners,
       sc_continuity = continuity, sc_source_session = source_session, sc_legacy = legacy, sc_retention = retention\<rparr>)"

section \<open>The predicate builder\<close>

datatype scope_dialect = POSTGRES | SQLITE

text \<open>A bound value: one text, a list of texts, a datetime.\<close>

datatype bound = BText pystr | BList "pystr list" | BTime datetime

record scope_predicate =
  sp_clauses :: "pystr list"
  sp_named :: "(pystr, bound) dict"
  sp_positional :: "bound list"

definition empty_predicate :: scope_predicate where
  "empty_predicate = \<lparr>sp_clauses = [], sp_named = [], sp_positional = []\<rparr>"

definition where_sql :: "scope_predicate \<Rightarrow> pystr" where
  "where_sql p = (if sp_clauses p \<noteq> [] then py_join '' AND '' (sp_clauses p) else ''1 = 1'')"

definition pg_whitespace :: pystr where
  "pg_whitespace = ''E'' @ [CHR 39] @ '' '' @ [CHR 92] @ ''t'' @ [CHR 92] @ ''n'' @ [CHR 92] @ ''r'' @ [CHR 92] @ ''f'' @ [CHR 92] @ ''v'' @ [CHR 39]"

definition sqlite_whitespace :: pystr where
  "sqlite_whitespace = [CHR 39] @ '' '' @ [CHR 39] @ '' || char(9, 10, 11, 12, 13)''"

definition bind_one :: "scope_dialect \<Rightarrow> pystr \<Rightarrow> bound \<Rightarrow> scope_predicate \<Rightarrow> pystr \<times> scope_predicate" where
  "bind_one d name v b = (case d of
       POSTGRES \<Rightarrow> ('':'' @ name, b\<lparr>sp_named := dict_set name v (sp_named b)\<rparr>)
     | SQLITE \<Rightarrow> (''?'', b\<lparr>sp_positional := sp_positional b @ [v]\<rparr>))"

definition bind_membership :: "scope_dialect \<Rightarrow> pystr \<Rightarrow> pystr list \<Rightarrow> scope_predicate \<Rightarrow> pystr \<times> scope_predicate" where
  "bind_membership d name values b = (case d of
       POSTGRES \<Rightarrow> (''= ANY(CAST(:'' @ name @ '' AS text[]))'', b\<lparr>sp_named := dict_set name (BList values) (sp_named b)\<rparr>)
     | SQLITE \<Rightarrow> (''IN ('' @ py_join '', '' (map (\<lambda>_. ''?'') values) @ '')'', b\<lparr>sp_positional := sp_positional b @ map BText values\<rparr>))"

definition json_text :: "scope_dialect \<Rightarrow> pystr \<Rightarrow> pystr \<Rightarrow> pystr" where
  "json_text d column key = (case d of
       POSTGRES \<Rightarrow> column @ ''->>'' @ [CHR 39] @ key @ [CHR 39]
     | SQLITE \<Rightarrow> ''json_extract('' @ column @ '', '' @ [CHR 39] @ ''$.'' @ key @ [CHR 39] @ '')'')"

definition trim_fn :: "scope_dialect \<Rightarrow> pystr" where
  "trim_fn d = (case d of POSTGRES \<Rightarrow> ''btrim'' | SQLITE \<Rightarrow> ''trim'')"

definition whitespace_of :: "scope_dialect \<Rightarrow> pystr" where
  "whitespace_of d = (case d of POSTGRES \<Rightarrow> pg_whitespace | SQLITE \<Rightarrow> sqlite_whitespace)"

definition trimmed :: "scope_dialect \<Rightarrow> pystr \<Rightarrow> pystr" where
  "trimmed d e = trim_fn d @ ''('' @ e @ '', '' @ whitespace_of d @ '')''"

definition trimmed_lower :: "scope_dialect \<Rightarrow> pystr \<Rightarrow> pystr" where
  "trimmed_lower d e = ''lower('' @ trim_fn d @ ''('' @ e @ '', '' @ whitespace_of d @ ''))''"

definition add_clause :: "pystr \<Rightarrow> scope_predicate \<Rightarrow> scope_predicate" where
  "add_clause c b = b\<lparr>sp_clauses := sp_clauses b @ [c]\<rparr>"

definition qualified_column :: "pystr \<Rightarrow> pystr option \<Rightarrow> pystr" where
  "qualified_column column table_alias = (case table_alias of None \<Rightarrow> column | Some a \<Rightarrow> if a = [] then column else a @ ''.'' @ column)"

text \<open>\<open>builder.add(f"{column} = {builder.bind(name, value)}")\<close>.\<close>

definition add_equals :: "scope_dialect \<Rightarrow> pystr \<Rightarrow> pystr \<Rightarrow> bound \<Rightarrow> scope_predicate \<Rightarrow> scope_predicate" where
  "add_equals d column name v b = (let (ph, b1) = bind_one d name v b in add_clause (column @ '' = '' @ ph) b1)"

section \<open>The four predicates\<close>

definition scope_owners :: "resolved_scope \<Rightarrow> pystr list" where
  "scope_owners sc = sorted_set (filter (\<lambda>o'. o' \<noteq> []) (map normalize_owner_token (sc_owners sc)))"

definition events_scope_predicate :: "resolved_scope \<Rightarrow> scope_dialect \<Rightarrow> bool \<Rightarrow> pystr \<Rightarrow> bool \<Rightarrow> scope_predicate" where
  "events_scope_predicate sc d strict context_column include_project =
     (let ws = json_text d context_column WORKSPACE_TAG;
          b1 = (if strict then add_equals d ws ''scope_workspace'' (BText (sc_workspace sc)) empty_predicate
            else (let (ph, b) = bind_one d ''scope_workspace'' (BText (sc_workspace sc)) empty_predicate in
              add_clause (''('' @ ws @ '' IS NULL OR '' @ ws @ '' = '' @ [CHR 39, CHR 39] @ '' OR '' @ ws @ '' = '' @ ph @ '')'') b));
          owners = scope_owners sc;
          ow = json_text d context_column OWNER_TAG;
          b2 = (if owners = [] then b1
            else (let (tail, b) = bind_membership d ''scope_owners'' owners b1 in
              add_clause (if strict then trimmed_lower d ow @ '' '' @ tail
                else ''('' @ ow @ '' IS NULL OR '' @ trimmed d ow @ '' = '' @ [CHR 39, CHR 39] @ '' OR '' @ trimmed_lower d ow @ '' '' @ tail @ '')'') b)) in
      case sc_project sc of
        Some p \<Rightarrow> if include_project \<and> is_bound sc \<and> p \<noteq> []
          then add_equals d (json_text d context_column PROJECT_TAG) ''scope_project'' (BText p) b2 else b2
      | None \<Rightarrow> b2)"

definition goals_scope_predicate :: "resolved_scope \<Rightarrow> scope_dialect \<Rightarrow> pystr option \<Rightarrow> pystr option \<Rightarrow> scope_predicate" where
  "goals_scope_predicate sc d session_id table_alias =
     (let b1 = add_equals d (qualified_column ''workspace_id'' table_alias) ''scope_workspace'' (BText (sc_workspace sc)) empty_predicate;
          b2 = add_equals d (qualified_column ''user_id'' table_alias) ''scope_owner'' (BText (sc_owner sc)) b1 in
      case session_id of
        Some s \<Rightarrow> if s \<noteq> [] then add_equals d (qualified_column ''session_id'' table_alias) ''scope_session'' (BText s) b2 else b2
      | None \<Rightarrow> b2)"

text \<open>\<open>(column = ... OR column IS NULL)\<close>.\<close>

definition add_equals_or_null :: "scope_dialect \<Rightarrow> pystr \<Rightarrow> pystr \<Rightarrow> bound \<Rightarrow> scope_predicate \<Rightarrow> scope_predicate" where
  "add_equals_or_null d column name v b =
     (let (ph, b1) = bind_one d name v b in add_clause (''('' @ column @ '' = '' @ ph @ '' OR '' @ column @ '' IS NULL)'') b1)"

text \<open>\<open>now\<close> is a datetime, or the text its caller already made of it.\<close>

datatype now_arg = NowTime datetime | NowText pystr

definition bound_now :: "scope_dialect \<Rightarrow> now_arg \<Rightarrow> bound" where
  "bound_now d now = (case now of NowTime t \<Rightarrow> (case d of SQLITE \<Rightarrow> BText (isoformat t) | POSTGRES \<Rightarrow> BTime t) | NowText s \<Rightarrow> BText s)"

definition handoff_session :: "resolved_scope \<Rightarrow> pystr option \<Rightarrow> (pystr, (pystr \<times> pystr) option) result" where
  "handoff_session sc reader_session =
     (if sc_legacy sc then
        (let reader = (case reader_session of Some (c # cs) \<Rightarrow> c # cs | _ \<Rightarrow> (case sc_task sc of None \<Rightarrow> [] | Some t \<Rightarrow> t)) in
         if reader = [] then Err ''legacy_session_scope requires reader_session_id (or scope.task_id)''
         else Ok (Some (''scope_session'', reader)))
      else (case sc_source_session sc of
          Some (c # cs) \<Rightarrow> Ok (Some (''scope_source_session'', c # cs)) | _ \<Rightarrow> Ok None))"

definition handoffs_scope_predicate :: "resolved_scope \<Rightarrow> scope_dialect \<Rightarrow> pystr option \<Rightarrow> now_arg option \<Rightarrow> pystr option
    \<Rightarrow> (pystr, scope_predicate) result" where
  "handoffs_scope_predicate sc d reader_session now table_alias =
     (let b1 = add_equals d (qualified_column ''workspace_id'' table_alias) ''scope_workspace'' (BText (sc_workspace sc)) empty_predicate;
          owners = filter (\<lambda>o'. py_strip o' \<noteq> []) (sql_owner_ids sc);
          b2 = (if owners = [] then b1
            else (let (tail, b) = bind_membership d ''scope_owners'' owners b1 in
              add_clause (qualified_column ''owner_id'' table_alias @ '' '' @ tail) b));
          b3 = (case now of None \<Rightarrow> b2
            | Some t \<Rightarrow> (let (ph, b) = bind_one d ''scope_now'' (bound_now d t) b2 in
                add_clause (qualified_column ''expires_at'' table_alias @ '' > '' @ ph) b)) in
      res_bind (handoff_session sc reader_session) (\<lambda>session.
        let b4 = (case session of None \<Rightarrow> b3
              | Some (name, s) \<Rightarrow> add_equals d (qualified_column ''session_id'' table_alias) name (BText s) b3) in
        Ok (case sc_project sc of
            Some p \<Rightarrow> if sc_binding sc = PROJECT_BOUND \<and> p \<noteq> []
              then add_equals_or_null d (qualified_column ''project_id'' table_alias) ''scope_project'' (BText p) b4 else b4
          | None \<Rightarrow> b4)))"

definition observations_scope_predicate :: "resolved_scope \<Rightarrow> scope_dialect \<Rightarrow> pystr option \<Rightarrow> bool \<Rightarrow> bool \<Rightarrow> scope_predicate" where
  "observations_scope_predicate sc d table_alias include_project allow_null_project =
     (let b1 = add_equals d (qualified_column ''workspace_id'' table_alias) ''scope_workspace'' (BText (sc_workspace sc)) empty_predicate;
          b2 = add_equals d (qualified_column ''subject_user_id'' table_alias) ''scope_subject'' (BText (sc_subject sc)) b1 in
      case sc_project sc of
        Some p \<Rightarrow> if include_project \<and> is_bound sc \<and> p \<noteq> []
          then (if allow_null_project then add_equals_or_null else add_equals) d (qualified_column ''project_id'' table_alias) ''scope_project'' (BText p) b2
          else b2
      | None \<Rightarrow> b2)"

end
