(* ===== verification/Task_Status.thy ===== *)
theory Task_Status
  imports Task_Codec
begin

text \<open>
  The status table of \<open>shared/tce_shared/task_state.py\<close>: \<open>root_status\<close> of a
  plan, \<open>verification_is_current\<close>, the ten rules of \<open>derive_status\<close>, and the
  provenance stamp whose two fields the ninth rule reads.
\<close>

section \<open>The status of a plan\<close>

datatype root = R_ABSENT | R_BLOCKED | R_ACTIVE | R_DONE

definition st_norm :: "plan_step_state \<Rightarrow> pystr" where
  "st_norm s = norm_status (st_status s)"

definition status_by_index :: "plan_step_state list \<Rightarrow> (int, pystr) dict" where
  "status_by_index steps = fold (\<lambda>s d. dict_set (st_index s) (st_norm s) d) steps []"

text \<open>An open step one of whose dependencies is blocked or was dropped.\<close>

definition step_stalled :: "(int, pystr) dict \<Rightarrow> plan_step_state \<Rightarrow> bool" where
  "step_stalled d s = (\<not> step_terminal (st_status s) \<and>
     list_ex (\<lambda>i. dict_get d i \<in> {Some BLOCKING_STEP_STATUS, Some ''dropped''}) (st_depends_on s))"

definition step_pairs :: "plan_step_state list \<Rightarrow> (int \<times> pystr) list" where
  "step_pairs steps = map (\<lambda>s. (st_index s, st_status s)) steps"

definition root_status :: "plan_step_state list \<Rightarrow> root" where
  "root_status steps =
     (if steps = [] then R_ABSENT else
      let d = status_by_index steps; statuses = map snd d in
      if list_ex (\<lambda>x. x = BLOCKING_STEP_STATUS) statuses then R_BLOCKED
      else if list_ex (step_stalled d) steps then R_BLOCKED
      else if next_open_step (step_pairs steps) \<noteq> None then R_ACTIVE
      else if list_all (\<lambda>x. x \<in> set TERMINAL_STEP_STATUSES) statuses \<and> list_ex (\<lambda>x. x = ''done'') statuses
        then R_DONE
      else R_BLOCKED)"

lemma step_terminal_norm: "step_terminal (st_status s) \<longleftrightarrow> st_norm s \<in> set TERMINAL_STEP_STATUSES"
  by (simp add: step_terminal_def st_norm_def)

lemma blocking_not_terminal: "BLOCKING_STEP_STATUS \<notin> set TERMINAL_STEP_STATUSES"
  by (simp add: BLOCKING_STEP_STATUS_def TERMINAL_STEP_STATUSES_def)

lemma status_by_index_distinct:
  "distinct (map st_index steps) \<Longrightarrow> status_by_index steps = map (\<lambda>s. (st_index s, st_norm s)) steps"
  using fold_dict_set_distinct [of st_index steps "[]" st_norm] by (simp add: status_by_index_def)

text \<open>With one step per index, the statuses are those of the steps.\<close>

lemma root_status_done_iff:
  assumes "distinct (map st_index steps)"
  shows "root_status steps = R_DONE \<longleftrightarrow>
    list_all (\<lambda>s. step_terminal (st_status s)) steps \<and> list_ex (\<lambda>s. st_norm s = ''done'') steps"
    (is "?l \<longleftrightarrow> ?all \<and> ?ex")
proof
  assume ?l
  then show "?all \<and> ?ex"
    by (auto simp: root_status_def Let_def status_by_index_distinct [OF assms] step_terminal_norm
        list_all_iff list_ex_iff split: if_splits)
next
  assume r: "?all \<and> ?ex"
  then have "next_open_step (step_pairs steps) = None"
    by (intro next_open_step_all_terminal) (auto simp: step_pairs_def list_all_iff)
  with r show ?l
    using blocking_not_terminal
    by (auto simp: root_status_def Let_def status_by_index_distinct [OF assms] step_terminal_norm
        step_stalled_def list_all_iff list_ex_iff intro: rev_image_eqI)
qed

lemma root_status_blocked:
  assumes "distinct (map st_index steps)" "s \<in> set steps" "st_norm s = BLOCKING_STEP_STATUS"
  shows "root_status steps = R_BLOCKED"
proof -
  have "BLOCKING_STEP_STATUS \<in> set (map snd (status_by_index steps))"
    using assms(2,3) unfolding status_by_index_distinct [OF assms(1)] by (force simp: image_iff)
  then have "list_ex (\<lambda>x. x = BLOCKING_STEP_STATUS) (map snd (status_by_index steps))"
    unfolding list_ex_iff by blast
  with assms(2) show ?thesis by (auto simp: root_status_def Let_def)
qed

lemma root_status_active:
  "root_status steps = R_ACTIVE \<Longrightarrow> \<exists>i. next_open_step (step_pairs steps) = Some i"
  by (auto simp: root_status_def Let_def split: if_splits)

lemma root_status_active_not_stalled:
  "root_status steps = R_ACTIVE \<Longrightarrow> \<not> list_ex (step_stalled (status_by_index steps)) steps"
  by (auto simp: root_status_def Let_def split: if_splits)

section \<open>The rule table\<close>

record status_inputs =
  si_cancelled_at :: "datetime option"
  si_cancelled_seq :: int
  si_objective_set_at :: "datetime option"
  si_objective_set_seq :: int
  si_objective_text :: pystr
  si_contract :: int
  si_open_decisions :: "open_decision list"
  si_plan :: "approved_plan option"
  si_unresolved_effects :: "unresolved_effect list"
  si_latest_verification :: "verification_ref option"

text \<open>\<open>(at, seq)\<close> tuples compare by instant, then by sequence number.\<close>

definition moment :: "datetime \<Rightarrow> int \<Rightarrow> int \<times> int" where
  "moment at sq = (instant at, sq)"

definition cancel_stands :: "datetime option \<Rightarrow> int \<Rightarrow> datetime option \<Rightarrow> int \<Rightarrow> bool" where
  "cancel_stands cancelled cseq objective oseq = (case cancelled of None \<Rightarrow> False
     | Some c \<Rightarrow> moment (case objective of Some o' \<Rightarrow> o' | None \<Rightarrow> datetime_min) oseq < moment c cseq)"

definition verification_is_current :: "status_inputs \<Rightarrow> bool" where
  "verification_is_current parts = (case si_latest_verification parts of
       None \<Rightarrow> False
     | Some ref \<Rightarrow> if vr_contract ref \<noteq> si_contract parts then False
         else (case vr_plan_id ref of None \<Rightarrow> False
           | Some pid \<Rightarrow> (case si_plan parts of None \<Rightarrow> False | Some plan \<Rightarrow> pid = ap_plan_id plan)))"

definition live_plan :: "status_inputs \<Rightarrow> approved_plan option" where
  "live_plan parts = (case si_plan parts of
       None \<Rightarrow> None
     | Some plan \<Rightarrow> if ap_state plan \<in> {P_ABSENT, P_PENDING, P_INVALIDATED} \<or> ap_contract plan \<noteq> si_contract parts
         then None else Some plan)"

definition passed :: "verification_ref option \<Rightarrow> bool" where
  "passed v = (case v of None \<Rightarrow> False | Some ref \<Rightarrow> vr_state ref \<in> set VERIFICATION_PASS_STATES)"

definition derive_status :: "status_inputs \<Rightarrow> task_status \<times> next_action" where
  "derive_status parts =
     (if cancel_stands (si_cancelled_at parts) (si_cancelled_seq parts)
           (si_objective_set_at parts) (si_objective_set_seq parts)
      then (S_CANCELLED, A_NONE)
      else if py_strip (si_objective_text parts) = [] then (S_AWAITING_OBJECTIVE, A_AWAIT_OWNER_OBJECTIVE)
      else if list_ex (\<lambda>d. \<not> od_superseded d) (si_open_decisions parts)
      then (S_AWAITING_DECISION, A_AWAIT_DECISION)
      else (case live_plan parts of
          None \<Rightarrow> (S_PLANNING, A_AWAIT_PLANNING)
        | Some plan \<Rightarrow>
          (let root = root_status (ap_steps plan) in
           if root = R_BLOCKED then (S_BLOCKED, A_BLOCKED)
           else if root = R_ACTIVE then (S_ACTIVE, A_EXECUTE_STEP)
           else if root = R_ABSENT then (S_PLANNING, A_AWAIT_PLANNING)
           else if si_unresolved_effects parts \<noteq> [] then (S_AWAITING_VERIFICATION, A_RESOLVE_EFFECTS)
           else if verification_is_current parts \<and> passed (si_latest_verification parts)
           then (S_DONE, A_NONE)
           else (S_AWAITING_VERIFICATION, A_AWAIT_VERIFICATION))))"

definition owner_gates_open :: "status_inputs \<Rightarrow> bool" where
  "owner_gates_open parts = (\<not> cancel_stands (si_cancelled_at parts) (si_cancelled_seq parts)
       (si_objective_set_at parts) (si_objective_set_seq parts)
     \<and> \<not> blank (si_objective_text parts) \<and> list_all od_superseded (si_open_decisions parts))"

lemma live_plan_Some:
  "live_plan parts = Some plan \<longleftrightarrow>
    si_plan parts = Some plan \<and> ap_state plan = P_APPROVED \<and> ap_contract plan = si_contract parts"
  by (cases "si_plan parts"; cases "ap_state plan") (auto simp: live_plan_def)

lemma not_list_ex: "\<not> list_ex (\<lambda>x. \<not> P x) xs \<longleftrightarrow> list_all P xs"
  by (simp add: list_ex_iff list_all_iff)

lemma derive_status_open:
  "owner_gates_open parts \<Longrightarrow> derive_status parts = (case live_plan parts of
          None \<Rightarrow> (S_PLANNING, A_AWAIT_PLANNING)
        | Some plan \<Rightarrow> (case root_status (ap_steps plan) of
             R_BLOCKED \<Rightarrow> (S_BLOCKED, A_BLOCKED) | R_ACTIVE \<Rightarrow> (S_ACTIVE, A_EXECUTE_STEP)
           | R_ABSENT \<Rightarrow> (S_PLANNING, A_AWAIT_PLANNING)
           | R_DONE \<Rightarrow>
             if si_unresolved_effects parts \<noteq> [] then (S_AWAITING_VERIFICATION, A_RESOLVE_EFFECTS)
             else if verification_is_current parts \<and> passed (si_latest_verification parts)
             then (S_DONE, A_NONE) else (S_AWAITING_VERIFICATION, A_AWAIT_VERIFICATION)))"
  by (auto simp: derive_status_def owner_gates_open_def py_strip_Nil_iff not_list_ex Let_def
      split: option.split root.split)

lemma derive_status_closed:
  "\<not> owner_gates_open parts \<Longrightarrow>
    derive_status parts \<in> {(S_CANCELLED, A_NONE), (S_AWAITING_OBJECTIVE, A_AWAIT_OWNER_OBJECTIVE),
      (S_AWAITING_DECISION, A_AWAIT_DECISION)}"
  by (auto simp: derive_status_def owner_gates_open_def py_strip_Nil_iff not_list_ex)

lemma derive_status_DONE:
  "fst (derive_status parts) = S_DONE \<longleftrightarrow>
    owner_gates_open parts \<and> (\<exists>plan. live_plan parts = Some plan \<and> root_status (ap_steps plan) = R_DONE)
    \<and> si_unresolved_effects parts = [] \<and> verification_is_current parts
    \<and> passed (si_latest_verification parts)"
proof (cases "owner_gates_open parts")
  case True
  then show ?thesis by (simp add: derive_status_open split: option.split root.split)
next
  case False
  with derive_status_closed [OF this] show ?thesis by auto
qed

lemma derive_status_ACTIVE:
  "derive_status parts = (S_ACTIVE, A_EXECUTE_STEP) \<longleftrightarrow>
    owner_gates_open parts \<and> (\<exists>plan. live_plan parts = Some plan \<and> root_status (ap_steps plan) = R_ACTIVE)"
proof (cases "owner_gates_open parts")
  case True
  then show ?thesis by (simp add: derive_status_open split: option.split root.split)
next
  case False
  with derive_status_closed [OF this] show ?thesis by auto
qed

lemma derive_status_EXECUTE: "snd (derive_status parts) = A_EXECUTE_STEP \<longleftrightarrow> derive_status parts = (S_ACTIVE, A_EXECUTE_STEP)"
proof (cases "owner_gates_open parts")
  case True
  then show ?thesis by (simp add: derive_status_open split: option.split root.split)
next
  case False
  with derive_status_closed [OF this] show ?thesis by auto
qed

lemma derive_status_CANCELLED:
  "fst (derive_status parts) = S_CANCELLED \<longleftrightarrow>
    cancel_stands (si_cancelled_at parts) (si_cancelled_seq parts)
       (si_objective_set_at parts) (si_objective_set_seq parts)"
  by (simp add: derive_status_def Let_def split: option.split)

section \<open>Provenance\<close>

definition plan_id_for :: "pystr \<Rightarrow> int \<Rightarrow> pystr" where
  "plan_id_for task_id contract = uuid5_str TASK_STATE_NAMESPACE (task_id @ ''|'' @ str_int contract)"

text \<open>The dictionary is updated in place: three assignments, in this order.\<close>

definition stamp_verification_provenance ::
  "(pystr \<times> py) list \<Rightarrow> projection \<Rightarrow> pystr option \<Rightarrow> int option \<Rightarrow> (pystr \<times> py) list" where
  "stamp_verification_provenance v p directive work =
     (let current = pj_contract p;
          revision = (case work of None \<Rightarrow> current | Some r \<Rightarrow> r);
          plan_id = (if revision = current then opt_py (\<lambda>plan. PStr (ap_plan_id plan)) (pj_plan p)
                     else if 0 \<le> revision then PStr (plan_id_for (pj_task_id p) revision)
                     else PNone)
      in dict_set ''directive_id'' (opt_py PStr directive)
           (dict_set ''plan_id'' plan_id (dict_set ''contract_revision'' (PInt revision) v)))"

lemma stamp_contract:
  "py_get (stamp_verification_provenance v p d work) ''contract_revision'' =
     PInt (case work of None \<Rightarrow> pj_contract p | Some r \<Rightarrow> r)"
  by (simp add: stamp_verification_provenance_def Let_def py_get_def update_conv')

text \<open>What the status table reads of a projection.\<close>

definition status_inputs_of :: "projection \<Rightarrow> status_inputs" where
  "status_inputs_of p = \<lparr>si_cancelled_at = pj_cancelled_at p, si_cancelled_seq = pj_cancelled_seq p,
     si_objective_set_at = pj_objective_set_at p, si_objective_set_seq = pj_objective_set_seq p,
     si_objective_text = pj_objective_text p, si_contract = pj_contract p,
     si_open_decisions = pj_open_decisions p, si_plan = pj_plan p,
     si_unresolved_effects = pj_unresolved_effects p, si_latest_verification = pj_latest_verification p\<rparr>"

section \<open>Properties\<close>

text \<open>The ninth rule in full: the only route to \<open>DONE\<close>, and all it asks for.\<close>

lemma derive_status_done_iff:
  assumes "\<And>plan. si_plan parts = Some plan \<Longrightarrow> distinct (map st_index (ap_steps plan))"
  shows "fst (derive_status parts) = S_DONE \<longleftrightarrow>
    \<not> cancel_stands (si_cancelled_at parts) (si_cancelled_seq parts)
        (si_objective_set_at parts) (si_objective_set_seq parts)
    \<and> \<not> blank (si_objective_text parts)
    \<and> list_all od_superseded (si_open_decisions parts)
    \<and> (\<exists>plan ref. si_plan parts = Some plan \<and> ap_state plan = P_APPROVED
        \<and> ap_contract plan = si_contract parts
        \<and> list_all (\<lambda>s. step_terminal (st_status s)) (ap_steps plan)
        \<and> list_ex (\<lambda>s. st_norm s = ''done'') (ap_steps plan)
        \<and> si_latest_verification parts = Some ref \<and> vr_state ref = ''passed''
        \<and> vr_contract ref = si_contract parts \<and> vr_plan_id ref = Some (ap_plan_id plan))
    \<and> si_unresolved_effects parts = []"
proof (cases "si_plan parts")
  case None
  then show ?thesis by (simp add: derive_status_DONE live_plan_Some)
next
  case (Some plan)
  note fin = root_status_done_iff [OF assms [OF Some]]
  show ?thesis
    by (auto simp: derive_status_DONE live_plan_Some fin Some owner_gates_open_def verification_is_current_def
        passed_def VERIFICATION_PASS_STATES_def split: option.split)
qed

definition sample_step :: "int \<Rightarrow> pystr \<Rightarrow> plan_step_state" where
  "sample_step i s = \<lparr>st_index = i, st_goal = None, st_title = ''t'', st_description = ''d'', st_status = s,
     st_depends_on = [], st_attempts = 1, st_mutating = False, st_blocked_reason = []\<rparr>"

definition sample_plan :: approved_plan where
  "sample_plan = \<lparr>ap_task_id = ''T'', ap_plan_id = ''P'', ap_contract = 1, ap_state = P_APPROVED,
     ap_producer = ''model'', ap_root_goal = None,
     ap_steps = [sample_step 1 ''done'', sample_step 2 ''dropped''], ap_approved_at = None\<rparr>"

definition sample_ref :: "int \<Rightarrow> verification_ref" where
  "sample_ref c = \<lparr>vr_id = ''V'', vr_directive = None, vr_state = ''passed'', vr_method = ''checks'',
     vr_recorded_at = Aware 0 0, vr_contract = c, vr_plan_id = Some ''P'', vr_evidence = [], vr_summary = []\<rparr>"

definition sample_parts :: "approved_plan \<Rightarrow> verification_ref \<Rightarrow> status_inputs" where
  "sample_parts plan ref = \<lparr>si_cancelled_at = None, si_cancelled_seq = 0, si_objective_set_at = None,
     si_objective_set_seq = 1, si_objective_text = ''ship'', si_contract = 1, si_open_decisions = [],
     si_plan = Some plan, si_unresolved_effects = [], si_latest_verification = Some ref\<rparr>"

lemmas sample_defs = sample_step_def sample_plan_def sample_ref_def sample_parts_def

text \<open>
  A turn is told to execute a step (task_state.py, derive_status) exactly when no owner gate is
  shut and the approved plan of the current contract has no blocked step, no stalled dependency, and
  an open step; the progression query then names that step.
\<close>

theorem execute_step_sound:
  assumes "snd (derive_status parts) = A_EXECUTE_STEP"
  shows "owner_gates_open parts \<and>
    (\<exists>plan i. si_plan parts = Some plan \<and> ap_state plan = P_APPROVED \<and> ap_contract plan = si_contract parts
      \<and> \<not> list_ex (step_stalled (status_by_index (ap_steps plan))) (ap_steps plan)
      \<and> next_open_step (step_pairs (ap_steps plan)) = Some i)"
proof -
  obtain plan where p: "live_plan parts = Some plan" "root_status (ap_steps plan) = R_ACTIVE"
    and o: "owner_gates_open parts"
    using assms by (auto simp: derive_status_EXECUTE derive_status_ACTIVE)
  with root_status_active [OF p(2)] root_status_active_not_stalled [OF p(2)] show ?thesis
    by (auto simp: live_plan_Some)
qed

theorem execute_step_sound_witness:
  "next_open_step (step_pairs [sample_step 1 ''done'', sample_step 2 ''candidate'']) \<noteq> None"
proof -
  let ?plan = "sample_plan\<lparr>ap_steps := [sample_step 1 ''done'', sample_step 2 ''candidate'']\<rparr>"
  have "snd (derive_status (sample_parts ?plan (sample_ref 1))) = A_EXECUTE_STEP" by code_simp
  from execute_step_sound [OF this] show ?thesis by (auto simp: sample_defs)
qed

text \<open>
  Evidence for an older contract never completes the task (task_state.py,
  stamp_verification_provenance and derive_status): a passing verification stamped with the revision
  the work happened under, read back through the codec, leaves the task short of \<open>DONE\<close> when
  that is not the current contract.
\<close>

theorem stale_evidence_never_done:
  assumes "verification_from_json (PDict (stamp_verification_provenance v p d (Some r))) = Some ref"
    and "r \<noteq> pj_contract p" and "si_latest_verification parts = Some ref" "si_contract parts = pj_contract p"
  shows "fst (derive_status parts) \<noteq> S_DONE"
proof -
  have "vr_contract ref = r"
    using assms(1) stamp_contract [of v p d "Some r"]
    by (auto simp: verification_from_json_def Let_def split: if_splits)
  with assms have "\<not> verification_is_current parts" by (simp add: verification_is_current_def)
  then show ?thesis by (simp add: derive_status_DONE)
qed

definition sample_projection :: projection where
  "sample_projection = \<lparr>pj_task_id = ''T'', pj_workspace_id = ''W'', pj_owner_id = ''O'',
     pj_session_id = ''S'', pj_revision = 4, pj_contract = 2, pj_objective_text = ''ship'',
     pj_objective_hash = Some ''h2'', pj_objective_set_at = None, pj_objective_set_seq = 3,
     pj_status = S_PLANNING, pj_next_action = A_AWAIT_PLANNING, pj_constraints = [],
     pj_open_decisions = [], pj_plan = None, pj_unresolved_effects = [], pj_latest_verification = None,
     pj_citations = [], pj_cancelled_at = None, pj_cancelled_seq = 0, pj_last_cancel_seq = 0,
     pj_cancel_reason = []\<rparr>"

theorem stale_evidence_never_done_witness:
  "\<exists>ref. verification_from_json (PDict (stamp_verification_provenance
      [(''verification_id'', PStr ''V''), (''state'', PStr ''passed'')] sample_projection None (Some 1))) = Some ref
    \<and> vr_state ref = ''passed''
    \<and> fst (derive_status ((sample_parts sample_plan ref)\<lparr>si_contract := 2\<rparr>)) \<noteq> S_DONE"
proof -
  obtain ref where ref: "verification_from_json (PDict (stamp_verification_provenance
      [(''verification_id'', PStr ''V''), (''state'', PStr ''passed'')] sample_projection None (Some 1))) = Some ref"
    and st: "vr_state ref = ''passed''"
    by (simp add: verification_from_json_def stamp_verification_provenance_def sample_projection_def Let_def)
  have "fst (derive_status ((sample_parts sample_plan ref)\<lparr>si_contract := 2\<rparr>)) \<noteq> S_DONE"
    by (rule stale_evidence_never_done [OF ref]) (simp_all add: sample_projection_def sample_parts_def)
  with ref st show ?thesis by blast
qed

end
