(* ===== verification/Task_Fold.thy ===== *)
theory Task_Fold
  imports Task_Status
begin

text \<open>
  \<open>fold_task_state\<close> of \<open>shared/tce_shared/task_state.py\<close>: the order, the
  removal of duplicates, the truncation window, one step of the loop per event kind, and the
  projection built at the end.  \<open>fold_state\<close> holds the loop's local variables.
\<close>

section \<open>Order, duplicates, window\<close>

definition payload_digest :: "(pystr \<times> py) list \<Rightarrow> pystr" where
  "payload_digest payload = take 12 (sha256_hex (canonical_json (json_safe (PDict payload))))"

definition event_key :: "task_event \<Rightarrow> int \<times> pystr \<times> pystr" where
  "event_key e = (e_seq e, e_kind e, canonical_json (json_safe (PDict (e_payload e))))"

definition dedupe_key :: "task_event \<Rightarrow> int \<times> pystr \<times> pystr" where
  "dedupe_key e = (e_seq e, e_kind e, payload_digest (e_payload e))"

definition dedupe :: "task_event list \<Rightarrow> task_event list" where
  "dedupe events = dedup_by dedupe_key [] events"

definition latest_of :: "pystr \<Rightarrow> task_event list \<Rightarrow> task_event option" where
  "latest_of kind ordered = fold (\<lambda>e latest. if e_kind e = kind then Some e else latest) ordered None"

definition pinned_events :: "task_event list \<Rightarrow> task_event list" where
  "pinned_events ordered = List.map_filter (\<lambda>k. latest_of k ordered) PINNED_KIND_VALUES"

definition tail_events :: "int \<Rightarrow> 'a list \<Rightarrow> 'a list" where
  "tail_events n xs = drop (length xs - nat n) xs"

definition fold_window :: "int \<Rightarrow> task_event list \<Rightarrow> task_event list \<times> bool" where
  "fold_window max_events events =
     (let ordered = dedupe (sort_key event_key events) in
      if max_events < int (length ordered) then
        (let tail = tail_events (max 0 (max_events - int (length PINNED_KINDS))) ordered
         in (dedupe (sort_key event_key (pinned_events ordered @ tail)), True))
      else (ordered, False))"

section \<open>The loop's state\<close>

record fold_state =
  fs_contract :: int
  fs_objective_text :: pystr
  fs_objective_hash :: "pystr option"
  fs_objective_set_at :: "datetime option"
  fs_objective_set_seq :: int
  fs_constraints :: "(pystr, approved_constraint) dict"
  fs_decisions :: "(pystr, open_decision) dict"
  fs_plan :: "approved_plan option"
  fs_steps :: "(int, plan_step_state) dict"
  fs_effects :: "(pystr, unresolved_effect) dict"
  fs_verification :: "verification_ref option"
  fs_citations :: "pystr list"
  fs_cancelled_at :: "datetime option"
  fs_cancelled_seq :: int
  fs_last_cancel_seq :: int
  fs_cancel_reason :: pystr
  fs_unknown :: "pystr list"

definition fold_init :: fold_state where
  "fold_init = \<lparr>fs_contract = 0, fs_objective_text = [], fs_objective_hash = None,
     fs_objective_set_at = None, fs_objective_set_seq = 0, fs_constraints = [], fs_decisions = [],
     fs_plan = None, fs_steps = [], fs_effects = [], fs_verification = None, fs_citations = [],
     fs_cancelled_at = None, fs_cancelled_seq = 0, fs_last_cancel_seq = 0, fs_cancel_reason = [],
     fs_unknown = []\<rparr>"

definition add_unknown :: "pystr \<Rightarrow> fold_state \<Rightarrow> fold_state" where
  "add_unknown k s = s\<lparr>fs_unknown := fs_unknown s @ [k]\<rparr>"

section \<open>Citations\<close>

text \<open>
  \<open>uuid.UUID(value)\<close> accepts what \<open>int(_, 16)\<close> reads in 32 characters once
  \<open>urn:\<close>, \<open>uuid:\<close>, surrounding braces and every dash are gone.
\<close>

function remove_all :: "pystr \<Rightarrow> pystr \<Rightarrow> pystr" where
  "remove_all sub [] = []"
| "remove_all sub (c # cs) =
     (if starts_with sub (c # cs) then remove_all sub (drop (length sub - 1) cs) else c # remove_all sub cs)"
  by pat_completeness auto
termination by (relation "measure (\<lambda>(p, s). length s)") auto

definition strip_chars :: "char list \<Rightarrow> pystr \<Rightarrow> pystr" where
  "strip_chars cs s = rev (dropWhile (\<lambda>c. c \<in> set cs) (rev (dropWhile (\<lambda>c. c \<in> set cs) s)))"

definition is_hex :: "char \<Rightarrow> bool" where
  "is_hex c = (let n = code c in (48 \<le> n \<and> n \<le> 57) \<or> (97 \<le> n \<and> n \<le> 102) \<or> (65 \<le> n \<and> n \<le> 70))"

fun hex_digits_us :: "bool \<Rightarrow> pystr \<Rightarrow> bool" where
  "hex_digits_us after_digit [] = after_digit"
| "hex_digits_us after_digit (c # cs) =
     (if c = CHR ''_'' then after_digit \<and> hex_digits_us False cs
      else is_hex c \<and> hex_digits_us True cs)"

definition int_space :: "char \<Rightarrow> bool" where
  "int_space c = (let n = code c in (9 \<le> n \<and> n \<le> 13) \<or> n = 32 \<or> n = 133 \<or> n = 160)"

definition int16_ok :: "pystr \<Rightarrow> bool" where
  "int16_ok s0 =
     (let s1 = rev (dropWhile int_space (rev (dropWhile int_space s0)));
          s2 = (case s1 of c # cs \<Rightarrow> if c = CHR ''+'' then cs else s1 | [] \<Rightarrow> []);
          s3 = (if take 2 s2 = ''0x'' \<or> take 2 s2 = ''0X''
                then (case drop 2 s2 of c # cs \<Rightarrow> if c = CHR ''_'' then cs else c # cs | [] \<Rightarrow> [])
                else s2)
      in hex_digits_us False s3)"

definition uuid_ok :: "pystr \<Rightarrow> bool" where
  "uuid_ok value =
     (let hex = filter (\<lambda>c. c \<noteq> CHR ''-'') (strip_chars ''{}'' (remove_all ''uuid:'' (remove_all ''urn:'' value)))
      in length hex = 32 \<and> int16_ok hex)"

definition cite :: "pystr \<Rightarrow> fold_state \<Rightarrow> fold_state" where
  "cite value s =
     (if value = [] then s
      else if \<not> uuid_ok value then add_unknown ''citation_not_uuid'' s
      else s\<lparr>fs_citations := List.insert value (fs_citations s)\<rparr>)"

section \<open>One event\<close>

definition objective_contract_revision :: "int \<Rightarrow> pystr option \<Rightarrow> pystr option \<Rightarrow> int" where
  "objective_contract_revision current current_hash new_hash =
     (if new_hash \<in> {None, Some [], current_hash} then current else current + 1)"

definition on_objective_set :: "task_event \<Rightarrow> fold_state \<Rightarrow> fold_state" where
  "on_objective_set e s =
     (let payload = e_payload e; at = aware (e_at e);
          new_hash = opt_text (py_get payload ''objective_hash'');
          s1 = s\<lparr>fs_contract := objective_contract_revision (fs_contract s) (fs_objective_hash s) new_hash,
                 fs_objective_text := text_of (py_get payload ''objective_text'') [],
                 fs_objective_hash := new_hash,
                 fs_objective_set_at := Some at,
                 fs_objective_set_seq := e_seq e\<rparr>
      in (case fs_cancelled_at s1 of
            None \<Rightarrow> s1
          | Some c \<Rightarrow>
              if moment c (fs_cancelled_seq s1) < moment at (e_seq e)
              then s1\<lparr>fs_cancelled_at := None, fs_cancelled_seq := 0, fs_cancel_reason := []\<rparr>
              else s1))"

definition on_objective_cleared :: "fold_state \<Rightarrow> fold_state" where
  "on_objective_cleared s = s\<lparr>fs_objective_text := [], fs_objective_hash := None\<rparr>"

definition on_constraint_granted :: "task_event \<Rightarrow> fold_state \<Rightarrow> fold_state" where
  "on_constraint_granted e s =
     fold (\<lambda>c s. s\<lparr>fs_constraints := dict_set (ac_id c) c (fs_constraints s)\<rparr>)
       (constraints_from_json (PList [PDict (e_payload e)])) s"

definition on_constraint_revoked :: "task_event \<Rightarrow> fold_state \<Rightarrow> fold_state" where
  "on_constraint_revoked e s =
     (let payload = e_payload e; cid = text_of (py_get payload ''constraint_id'') [] in
      case dict_get (fs_constraints s) cid of
        None \<Rightarrow> s
      | Some existing \<Rightarrow> s\<lparr>fs_constraints := dict_set cid
          (existing\<lparr>ac_revoked_at :=
               Some (dt_or (dt_from_json (py_get payload ''revoked_at'') None) (aware (e_at e))),
             ac_reason := or_else (text_of (py_get payload ''reason'') (ac_reason existing)) (ac_reason existing)\<rparr>)
          (fs_constraints s)\<rparr>)"

definition on_decision_opened :: "task_event \<Rightarrow> fold_state \<Rightarrow> fold_state" where
  "on_decision_opened e s =
     fold (\<lambda>d s. s\<lparr>fs_decisions := dict_set (od_id d) d (fs_decisions s)\<rparr>)
       (decisions_from_json (PList [PDict (e_payload e)])) s"

definition on_decision_resolved :: "task_event \<Rightarrow> fold_state \<Rightarrow> fold_state" where
  "on_decision_resolved e s =
     (let did = text_of (py_get (e_payload e) ''decision_id'') [] in
      case dict_get (fs_decisions s) did of
        None \<Rightarrow> s
      | Some d \<Rightarrow> s\<lparr>fs_decisions := dict_set did (d\<lparr>od_superseded := True\<rparr>) (fs_decisions s)\<rparr>)"

definition plan_is_current :: "fold_state \<Rightarrow> bool" where
  "plan_is_current s = (case fs_plan s of None \<Rightarrow> False | Some plan \<Rightarrow> ap_contract plan = fs_contract s)"

definition on_plan_requested :: "pystr \<Rightarrow> task_event \<Rightarrow> fold_state \<Rightarrow> fold_state" where
  "on_plan_requested task_id e s =
     (if plan_is_current s then s
      else s\<lparr>fs_plan := Some \<lparr>ap_task_id = task_id, ap_plan_id = plan_id_for task_id (fs_contract s),
               ap_contract = fs_contract s, ap_state = P_PENDING,
               ap_producer = text_of (py_get (e_payload e) ''producer'') [],
               ap_root_goal = None, ap_steps = [], ap_approved_at = None\<rparr>,
             fs_steps := []\<rparr>)"

definition on_plan_approved :: "pystr \<Rightarrow> task_event \<Rightarrow> fold_state \<Rightarrow> fold_state" where
  "on_plan_approved task_id e s =
     (let payload = e_payload e;
          plan_contract = (if e_contract e \<noteq> 0 then e_contract e else fs_contract s);
          approved_steps = plan_steps_from_json (py_get payload ''steps'')
      in s\<lparr>fs_plan := Some
             \<lparr>ap_task_id = task_id,
              ap_plan_id = or_else (text_of (py_get payload ''plan_id'') []) (plan_id_for task_id plan_contract),
              ap_contract = plan_contract, ap_state = P_APPROVED,
              ap_producer = or_else (text_of (py_get payload ''producer'') PLANNING_PRODUCER_DETERMINISTIC)
                PLANNING_PRODUCER_DETERMINISTIC,
              ap_root_goal = opt_text (py_get payload ''root_goal_id''),
              ap_steps = approved_steps, ap_approved_at = Some (aware (e_at e))\<rparr>,
           fs_steps := dict_by st_index approved_steps\<rparr>)"

definition on_plan_invalidated :: "fold_state \<Rightarrow> fold_state" where
  "on_plan_invalidated s =
     s\<lparr>fs_plan := map_option (\<lambda>plan. plan\<lparr>ap_state := P_INVALIDATED\<rparr>) (fs_plan s)\<rparr>"

definition on_step :: "event_kind \<Rightarrow> task_event \<Rightarrow> fold_state \<Rightarrow> fold_state" where
  "on_step kind e s =
     (let payload = e_payload e; index = integer_of (py_get payload ''step_index'') (-1) in
      case dict_get (fs_steps s) index of
        None \<Rightarrow> add_unknown (kind_str kind @ '':unknown_step'') s
      | Some st \<Rightarrow>
          if kind = K_STEP_STARTED then
            s\<lparr>fs_steps := dict_set index (st\<lparr>st_status := ''executing'', st_attempts := st_attempts st + 1,
                st_blocked_reason := []\<rparr>) (fs_steps s)\<rparr>
          else if kind = K_STEP_COMPLETED then
            s\<lparr>fs_steps := dict_set index (st\<lparr>st_status := ''done'', st_blocked_reason := []\<rparr>) (fs_steps s)\<rparr>
          else if kind = K_STEP_BLOCKED then
            s\<lparr>fs_steps := dict_set index (st\<lparr>st_status := BLOCKING_STEP_STATUS,
                st_blocked_reason := text_of (py_get payload ''blocked_reason'') []\<rparr>) (fs_steps s)\<rparr>
          else if st_norm st = BLOCKING_STEP_STATUS then add_unknown ''step_dropped:blocked'' s
          else s\<lparr>fs_steps := dict_set index (st\<lparr>st_status := ''dropped''\<rparr>) (fs_steps s)\<rparr>)"

definition on_effect_recorded :: "task_event \<Rightarrow> fold_state \<Rightarrow> fold_state" where
  "on_effect_recorded e s =
     fold (\<lambda>x s. s\<lparr>fs_effects := dict_set (ue_id x) x (fs_effects s)\<rparr>)
       (effects_from_json (PList [PDict (e_payload e)])) s"

definition on_effect_resolved :: "task_event \<Rightarrow> fold_state \<Rightarrow> fold_state" where
  "on_effect_resolved e s =
     s\<lparr>fs_effects := dict_pop (text_of (py_get (e_payload e) ''effect_id'') []) (fs_effects s)\<rparr>"

definition on_verification_recorded :: "task_event \<Rightarrow> fold_state \<Rightarrow> fold_state" where
  "on_verification_recorded e s = (case verification_from_json (PDict (e_payload e)) of
       None \<Rightarrow> s
     | Some ref \<Rightarrow> fold cite (vr_evidence ref) (s\<lparr>fs_verification := Some ref\<rparr>))"

definition on_cancellation_requested :: "task_event \<Rightarrow> fold_state \<Rightarrow> fold_state" where
  "on_cancellation_requested e s =
     s\<lparr>fs_cancelled_at := Some (aware (e_at e)), fs_cancelled_seq := e_seq e,
       fs_last_cancel_seq := max (fs_last_cancel_seq s) (e_seq e),
       fs_cancel_reason := or_else (text_of (py_get (e_payload e) ''reason'') CANCEL_REASON_TASK_CANCELLED)
         CANCEL_REASON_TASK_CANCELLED\<rparr>"

fun on_kind :: "pystr \<Rightarrow> event_kind \<Rightarrow> task_event \<Rightarrow> fold_state \<Rightarrow> fold_state" where
  "on_kind t K_OBJECTIVE_SET e s = on_objective_set e s"
| "on_kind t K_OBJECTIVE_CLEARED e s = on_objective_cleared s"
| "on_kind t K_CONSTRAINT_GRANTED e s = on_constraint_granted e s"
| "on_kind t K_CONSTRAINT_REVOKED e s = on_constraint_revoked e s"
| "on_kind t K_DECISION_OPENED e s = on_decision_opened e s"
| "on_kind t K_DECISION_RESOLVED e s = on_decision_resolved e s"
| "on_kind t K_PLAN_REQUESTED e s = on_plan_requested t e s"
| "on_kind t K_PLAN_APPROVED e s = on_plan_approved t e s"
| "on_kind t K_PLAN_INVALIDATED e s = on_plan_invalidated s"
| "on_kind t K_STEP_STARTED e s = on_step K_STEP_STARTED e s"
| "on_kind t K_STEP_COMPLETED e s = on_step K_STEP_COMPLETED e s"
| "on_kind t K_STEP_BLOCKED e s = on_step K_STEP_BLOCKED e s"
| "on_kind t K_STEP_DROPPED e s = on_step K_STEP_DROPPED e s"
| "on_kind t K_EFFECT_RECORDED e s = on_effect_recorded e s"
| "on_kind t K_EFFECT_RESOLVED e s = on_effect_resolved e s"
| "on_kind t K_VERIFICATION_RECORDED e s = on_verification_recorded e s"
| "on_kind t K_CANCELLATION_REQUESTED e s = on_cancellation_requested e s"

definition fold_step :: "pystr \<Rightarrow> task_event \<Rightarrow> fold_state \<Rightarrow> fold_state" where
  "fold_step task_id e s0 =
     (let s = cite (text_of (opt_py PStr (e_source e)) []) s0 in
      case kind_of (e_kind e) of
        None \<Rightarrow> add_unknown (e_kind e) s
      | Some kind \<Rightarrow>
          if kind \<notin> set CONTRACT_EXEMPT_KINDS \<and> e_contract e < fs_contract s then s
          else on_kind task_id kind e s)"

section \<open>The projection\<close>

definition fold_events :: "pystr \<Rightarrow> task_event list \<Rightarrow> fold_state" where
  "fold_events task_id ordered = fold (fold_step task_id) ordered fold_init"

definition final_plan :: "fold_state \<Rightarrow> approved_plan option" where
  "final_plan s = map_option (\<lambda>plan. plan\<lparr>ap_steps := sorted_values (fs_steps s)\<rparr>) (fs_plan s)"

definition inputs_of_state :: "fold_state \<Rightarrow> status_inputs" where
  "inputs_of_state s = \<lparr>si_cancelled_at = fs_cancelled_at s, si_cancelled_seq = fs_cancelled_seq s,
     si_objective_set_at = fs_objective_set_at s, si_objective_set_seq = fs_objective_set_seq s,
     si_objective_text = fs_objective_text s, si_contract = fs_contract s,
     si_open_decisions = sorted_values (fs_decisions s), si_plan = final_plan s,
     si_unresolved_effects = sorted_values (fs_effects s), si_latest_verification = fs_verification s\<rparr>"

definition projection_of_state ::
  "pystr \<Rightarrow> pystr \<Rightarrow> pystr \<Rightarrow> pystr \<Rightarrow> int \<Rightarrow> fold_state \<Rightarrow> projection" where
  "projection_of_state task_id workspace_id owner_id session_id revision s =
     (let st = derive_status (inputs_of_state s) in
      \<lparr>pj_task_id = task_id, pj_workspace_id = workspace_id, pj_owner_id = owner_id,
       pj_session_id = session_id, pj_revision = revision, pj_contract = fs_contract s,
       pj_objective_text = fs_objective_text s, pj_objective_hash = fs_objective_hash s,
       pj_objective_set_at = fs_objective_set_at s, pj_objective_set_seq = fs_objective_set_seq s,
       pj_status = fst st, pj_next_action = snd st,
       pj_constraints = sorted_values (fs_constraints s), pj_open_decisions = sorted_values (fs_decisions s),
       pj_plan = final_plan s, pj_unresolved_effects = sorted_values (fs_effects s),
       pj_latest_verification = fs_verification s, pj_citations = sort (fs_citations s),
       pj_cancelled_at = fs_cancelled_at s, pj_cancelled_seq = fs_cancelled_seq s,
       pj_last_cancel_seq = fs_last_cancel_seq s, pj_cancel_reason = fs_cancel_reason s\<rparr>)"

definition source_revision :: "task_event list \<Rightarrow> pystr" where
  "source_revision events =
     (if events = [] then ''empty''
      else take 32 (sha256_hex (py_join ''|'' (map (\<lambda>e. str_int (e_seq e) @ '':'' @ e_kind e @ '':''
        @ payload_digest (e_payload e)) events))))"

definition fold_task_state ::
  "task_event list \<Rightarrow> pystr \<Rightarrow> pystr \<Rightarrow> pystr \<Rightarrow> pystr \<Rightarrow> int \<Rightarrow> int \<Rightarrow> fold_result" where
  "fold_task_state events task_id workspace_id owner_id session_id revision max_events =
     (case fold_window max_events events of (ordered, truncated) \<Rightarrow>
        let s = fold_events task_id ordered in
        \<lparr>fr_projection = projection_of_state task_id workspace_id owner_id session_id revision s,
         fr_source_revision = source_revision ordered,
         fr_unknown_kinds = fs_unknown s,
         fr_truncated = truncated\<rparr>)"

section \<open>What each operation leaves alone\<close>

lemma cite_frame [simp, tce_frame]:
  "fs_contract (cite v s) = fs_contract s"
  "fs_objective_text (cite v s) = fs_objective_text s"
  "fs_objective_hash (cite v s) = fs_objective_hash s"
  "fs_objective_set_at (cite v s) = fs_objective_set_at s"
  "fs_objective_set_seq (cite v s) = fs_objective_set_seq s"
  "fs_constraints (cite v s) = fs_constraints s"
  "fs_decisions (cite v s) = fs_decisions s"
  "fs_plan (cite v s) = fs_plan s"
  "fs_steps (cite v s) = fs_steps s"
  "fs_effects (cite v s) = fs_effects s"
  "fs_verification (cite v s) = fs_verification s"
  "fs_cancelled_at (cite v s) = fs_cancelled_at s"
  "fs_cancelled_seq (cite v s) = fs_cancelled_seq s"
  "fs_last_cancel_seq (cite v s) = fs_last_cancel_seq s"
  "fs_cancel_reason (cite v s) = fs_cancel_reason s"
  by (simp_all add: cite_def add_unknown_def)

lemma fold_cite_frame [simp, tce_frame]:
  "fs_contract (fold cite vs s) = fs_contract s"
  "fs_objective_text (fold cite vs s) = fs_objective_text s"
  "fs_objective_hash (fold cite vs s) = fs_objective_hash s"
  "fs_objective_set_at (fold cite vs s) = fs_objective_set_at s"
  "fs_objective_set_seq (fold cite vs s) = fs_objective_set_seq s"
  "fs_constraints (fold cite vs s) = fs_constraints s"
  "fs_decisions (fold cite vs s) = fs_decisions s"
  "fs_plan (fold cite vs s) = fs_plan s"
  "fs_steps (fold cite vs s) = fs_steps s"
  "fs_effects (fold cite vs s) = fs_effects s"
  "fs_verification (fold cite vs s) = fs_verification s"
  "fs_cancelled_at (fold cite vs s) = fs_cancelled_at s"
  "fs_cancelled_seq (fold cite vs s) = fs_cancelled_seq s"
  "fs_last_cancel_seq (fold cite vs s) = fs_last_cancel_seq s"
  "fs_cancel_reason (fold cite vs s) = fs_cancel_reason s"
  by (induction vs arbitrary: s) simp_all

lemma add_unknown_frame [simp, tce_frame]:
  "fs_contract (add_unknown k s) = fs_contract s"
  "fs_objective_text (add_unknown k s) = fs_objective_text s"
  "fs_objective_hash (add_unknown k s) = fs_objective_hash s"
  "fs_objective_set_at (add_unknown k s) = fs_objective_set_at s"
  "fs_objective_set_seq (add_unknown k s) = fs_objective_set_seq s"
  "fs_constraints (add_unknown k s) = fs_constraints s"
  "fs_decisions (add_unknown k s) = fs_decisions s"
  "fs_plan (add_unknown k s) = fs_plan s"
  "fs_steps (add_unknown k s) = fs_steps s"
  "fs_effects (add_unknown k s) = fs_effects s"
  "fs_verification (add_unknown k s) = fs_verification s"
  "fs_cancelled_at (add_unknown k s) = fs_cancelled_at s"
  "fs_cancelled_seq (add_unknown k s) = fs_cancelled_seq s"
  "fs_last_cancel_seq (add_unknown k s) = fs_last_cancel_seq s"
  "fs_cancel_reason (add_unknown k s) = fs_cancel_reason s"
  "fs_citations (add_unknown k s) = fs_citations s"
  by (simp_all add: add_unknown_def)

lemma singleton_from_json:
  "constraints_from_json (PList [PDict m]) = (case constraint_from_dict m of None \<Rightarrow> [] | Some c \<Rightarrow> [c])"
  "decisions_from_json (PList [PDict m]) = (case decision_from_dict m of None \<Rightarrow> [] | Some d \<Rightarrow> [d])"
  "effects_from_json (PList [PDict m]) = (case effect_from_dict m of None \<Rightarrow> [] | Some x \<Rightarrow> [x])"
  by (simp_all add: constraints_from_json_def decisions_from_json_def effects_from_json_def
      List.map_filter_simps split: option.split)

lemmas on_kind_defs = on_objective_set_def on_objective_cleared_def on_constraint_granted_def
  on_constraint_revoked_def on_decision_opened_def on_decision_resolved_def on_plan_requested_def
  on_plan_approved_def on_plan_invalidated_def on_step_def on_effect_recorded_def on_effect_resolved_def
  on_verification_recorded_def on_cancellation_requested_def singleton_from_json

text \<open>A step is: cite the source, then nothing, an unknown kind, or the event's branch.\<close>

lemma fold_step_cases:
  obtains (unknown) "fold_step t e s = add_unknown (e_kind e) (cite (text_of (opt_py PStr (e_source e)) []) s)"
      "kind_of (e_kind e) = None"
  | (superseded) k where "fold_step t e s = cite (text_of (opt_py PStr (e_source e)) []) s"
      "e_kind e = kind_str k" "k \<notin> set CONTRACT_EXEMPT_KINDS" "e_contract e < fs_contract s"
  | (acts) k where "fold_step t e s = on_kind t k e (cite (text_of (opt_py PStr (e_source e)) []) s)"
      "e_kind e = kind_str k" "k \<in> set CONTRACT_EXEMPT_KINDS \<or> fs_contract s \<le> e_contract e"
proof (cases "kind_of (e_kind e)")
  case None
  with unknown show ?thesis by (simp add: fold_step_def Let_def)
next
  case (Some k)
  note k = kind_of_Some [OF this]
  show ?thesis
  proof (cases "k \<notin> set CONTRACT_EXEMPT_KINDS \<and> e_contract e < fs_contract s")
    case True
    with Some k superseded show ?thesis by (simp add: fold_step_def Let_def)
  next
    case False
    with Some k acts show ?thesis by (auto simp: fold_step_def Let_def)
  qed
qed

section \<open>High-water marks\<close>

lemma on_kind_contract:
  "k \<noteq> K_OBJECTIVE_SET \<Longrightarrow> fs_contract (on_kind t k e s) = fs_contract s"
  by (cases k) (auto simp: on_kind_defs Let_def split: option.split)

lemma on_objective_set_contract:
  "fs_contract (on_objective_set e s) =
    objective_contract_revision (fs_contract s) (fs_objective_hash s) (opt_text (py_get (e_payload e) ''objective_hash''))"
  by (simp add: on_objective_set_def Let_def split: option.split)

lemma objective_contract_revision_step:
  "objective_contract_revision c h h' \<in> {c, c + 1}"
  by (simp add: objective_contract_revision_def)

lemma fold_step_contract:
  "fs_contract s \<le> fs_contract (fold_step t e s)
   \<and> fs_contract (fold_step t e s) \<le> fs_contract s + (if e_kind e = kind_str K_OBJECTIVE_SET then 1 else 0)"
proof (cases rule: fold_step_cases [of t e s])
  case (acts k)
  then show ?thesis
    using objective_contract_revision_step [of "fs_contract s" "fs_objective_hash s"
        "opt_text (py_get (e_payload e) ''objective_hash'')"]
    by (cases "k = K_OBJECTIVE_SET")
      (auto simp: on_kind_contract on_objective_set_contract)
qed simp_all

lemma on_kind_last_cancel:
  "fs_last_cancel_seq (on_kind t k e s) =
    (if k = K_CANCELLATION_REQUESTED then max (fs_last_cancel_seq s) (e_seq e) else fs_last_cancel_seq s)"
  by (cases k) (auto simp: on_kind_defs Let_def split: option.split)

lemma fold_step_last_cancel:
  "fs_last_cancel_seq (fold_step t e s) =
    (if e_kind e = kind_str K_CANCELLATION_REQUESTED then max (fs_last_cancel_seq s) (e_seq e)
     else fs_last_cancel_seq s)"
proof (cases rule: fold_step_cases [of t e s])
  case unknown
  then have "e_kind e \<noteq> kind_str K_CANCELLATION_REQUESTED" by (metis kind_of_kind_str option.distinct(1))
  with unknown show ?thesis by simp
next
  case (superseded k)
  then show ?thesis by (auto simp: CONTRACT_EXEMPT_KINDS_def)
next
  case (acts k)
  then show ?thesis by (simp add: on_kind_last_cancel)
qed

interpretation contract_mark: fold_monotone "fold_step t" fs_contract for t
  by unfold_locales (simp add: fold_step_contract)

interpretation cancel_mark: fold_monotone "fold_step t" fs_last_cancel_seq for t
  by unfold_locales (simp add: fold_step_last_cancel)

lemma fold_last_cancel:
  "fs_last_cancel_seq (fold (fold_step t) es s) =
    fold max (map e_seq (filter (\<lambda>e. e_kind e = kind_str K_CANCELLATION_REQUESTED) es)) (fs_last_cancel_seq s)"
  by (induction es arbitrary: s) (simp_all add: fold_step_last_cancel max.commute)

lemma fold_contract_upper:
  "fs_contract (fold (fold_step t) es s) \<le>
    fs_contract s + int (length (filter (\<lambda>e. e_kind e = kind_str K_OBJECTIVE_SET) es))"
proof (induction es arbitrary: s)
  case (Cons e es)
  from Cons.IH [of "fold_step t e s"] fold_step_contract [of s t e] show ?case
    by (simp split: if_splits)
qed simp

section \<open>The invariant of the loop\<close>

definition cancel_wf :: "fold_state \<Rightarrow> bool" where
  "cancel_wf s = (case fs_cancelled_at s of
       None \<Rightarrow> fs_cancelled_seq s = 0 \<and> fs_cancel_reason s = []
     | Some c \<Rightarrow> fs_cancelled_seq s \<le> fs_last_cancel_seq s \<and> fs_cancel_reason s \<noteq> [])"

definition plan_wf :: "pystr \<Rightarrow> fold_state \<Rightarrow> bool" where
  "plan_wf t s = (case fs_plan s of None \<Rightarrow> fs_steps s = [] | Some plan \<Rightarrow> ap_task_id plan = t)"

definition cites_wf :: "fold_state \<Rightarrow> bool" where
  "cites_wf s = (distinct (fs_citations s) \<and> list_all uuid_ok (fs_citations s))"

definition fold_wf :: "pystr \<Rightarrow> fold_state \<Rightarrow> bool" where
  "fold_wf t s = (dict_keyed ac_id (fs_constraints s) \<and> dict_keyed od_id (fs_decisions s)
     \<and> dict_keyed ue_id (fs_effects s) \<and> dict_keyed st_index (fs_steps s)
     \<and> cancel_wf s \<and> plan_wf t s \<and> cites_wf s \<and> 0 \<le> fs_contract s \<and> 0 \<le> fs_last_cancel_seq s)"

lemma fold_wf_init: "fold_wf t fold_init"
  by (simp add: fold_wf_def fold_init_def cancel_wf_def plan_wf_def cites_wf_def)

lemma cites_wf_cite: "cites_wf s \<Longrightarrow> cites_wf (cite v s)"
  by (auto simp: cites_wf_def cite_def add_unknown_def List.insert_def)

lemma wf_cite: "fold_wf t s \<Longrightarrow> fold_wf t (cite v s)"
  by (auto simp: fold_wf_def cites_wf_cite cancel_wf_def plan_wf_def split: option.splits)

lemma wf_fold_cite: "fold_wf t s \<Longrightarrow> fold_wf t (fold cite vs s)"
  by (induction vs arbitrary: s) (simp_all add: wf_cite)

lemma wf_unknown: "fold_wf t s \<Longrightarrow> fold_wf t (add_unknown k s)"
  by (auto simp: fold_wf_def cites_wf_def cancel_wf_def plan_wf_def split: option.splits)

lemma or_else_nonempty: "d \<noteq> [] \<Longrightarrow> or_else x d \<noteq> []"
  by (simp add: or_else_def)

lemmas wf_parts = fold_wf_def cancel_wf_def plan_wf_def cites_wf_def

lemma wf_objective_set: "fold_wf t s \<Longrightarrow> fold_wf t (on_objective_set e s)"
  using objective_contract_revision_step [of "fs_contract s" "fs_objective_hash s"
      "opt_text (py_get (e_payload e) ''objective_hash'')"]
  by (auto simp: on_objective_set_def wf_parts Let_def split: option.splits)

lemma wf_set:
  "fold_wf t s \<Longrightarrow> dict_keyed ac_id d \<Longrightarrow> fold_wf t (s\<lparr>fs_constraints := d\<rparr>)"
  "fold_wf t s \<Longrightarrow> dict_keyed od_id d' \<Longrightarrow> fold_wf t (s\<lparr>fs_decisions := d'\<rparr>)"
  "fold_wf t s \<Longrightarrow> dict_keyed ue_id d'' \<Longrightarrow> fold_wf t (s\<lparr>fs_effects := d''\<rparr>)"
  "fold_wf t s \<Longrightarrow> fold_wf t (s\<lparr>fs_verification := v\<rparr>)"
  by (auto simp: wf_parts split: option.splits)

lemma wf_keyed:
  "fold_wf t s \<Longrightarrow> dict_keyed ac_id (fs_constraints s)"
  "fold_wf t s \<Longrightarrow> dict_keyed od_id (fs_decisions s)"
  "fold_wf t s \<Longrightarrow> dict_keyed ue_id (fs_effects s)"
  "fold_wf t s \<Longrightarrow> dict_keyed st_index (fs_steps s)"
  by (simp_all add: fold_wf_def)

lemma wf_get:
  "fold_wf t s \<Longrightarrow> dict_get (fs_constraints s) k = Some c \<Longrightarrow> ac_id c = k"
  "fold_wf t s \<Longrightarrow> dict_get (fs_decisions s) k = Some d \<Longrightarrow> od_id d = k"
  "fold_wf t s \<Longrightarrow> dict_get (fs_steps s) i = Some st \<Longrightarrow> st_index st = i"
  by (auto intro: dict_keyed_get dest: wf_keyed)

lemma wf_constraint:
  "fold_wf t s \<Longrightarrow> fold_wf t (on_constraint_granted e s)"
  "fold_wf t s \<Longrightarrow> fold_wf t (on_constraint_revoked e s)"
  by (auto simp: on_constraint_granted_def on_constraint_revoked_def singleton_from_json Let_def
      wf_keyed split: option.split intro!: wf_set dict_keyed_set dest: wf_get(1))

lemma wf_decision:
  "fold_wf t s \<Longrightarrow> fold_wf t (on_decision_opened e s)"
  "fold_wf t s \<Longrightarrow> fold_wf t (on_decision_resolved e s)"
  by (auto simp: on_decision_opened_def on_decision_resolved_def singleton_from_json Let_def
      wf_keyed split: option.split intro!: wf_set dict_keyed_set dest: wf_get(2))

lemma wf_effect:
  "fold_wf t s \<Longrightarrow> fold_wf t (on_effect_recorded e s)"
  "fold_wf t s \<Longrightarrow> fold_wf t (on_effect_resolved e s)"
  by (auto simp: on_effect_recorded_def on_effect_resolved_def singleton_from_json wf_keyed
      split: option.split intro!: wf_set dict_keyed_set dict_keyed_pop)

lemma wf_plan:
  "fold_wf t s \<Longrightarrow> fold_wf t (on_plan_requested t e s)"
  "fold_wf t s \<Longrightarrow> fold_wf t (on_plan_approved t e s)"
  "fold_wf t s \<Longrightarrow> fold_wf t (on_plan_invalidated s)"
  by (auto simp: on_plan_requested_def on_plan_approved_def on_plan_invalidated_def fold_wf_def plan_wf_def
      cites_wf_def cancel_wf_def Let_def dict_keyed_by split: option.splits)

lemma wf_step: "fold_wf t s \<Longrightarrow> fold_wf t (on_step k e s)"
proof -
  assume wf: "fold_wf t s"
  have keyed: "fold_wf t (s\<lparr>fs_steps := dict_set i st (fs_steps s)\<rparr>)"
    if "st_index st = i" "dict_get (fs_steps s) i \<noteq> None" for i st
    using wf that by (auto simp: wf_parts dict_keyed_set split: option.splits)
  have idx: "st_index st = i" if "dict_get (fs_steps s) i = Some st" for i st
    using wf that by (rule wf_get(3))
  show ?thesis
    by (auto simp: on_step_def Let_def wf_unknown wf idx keyed split: option.split)
qed

lemma wf_cancellation: "fold_wf t s \<Longrightarrow> fold_wf t (on_cancellation_requested e s)"
  by (auto simp: on_cancellation_requested_def wf_parts or_else_nonempty CANCEL_REASON_TASK_CANCELLED_def
      split: option.splits)

lemma wf_verification: "fold_wf t s \<Longrightarrow> fold_wf t (on_verification_recorded e s)"
  by (auto simp: on_verification_recorded_def split: option.split intro!: wf_fold_cite wf_set)

lemma wf_cleared: "fold_wf t s \<Longrightarrow> fold_wf t (on_objective_cleared s)"
  by (auto simp: on_objective_cleared_def wf_parts split: option.splits)

lemma wf_on_kind: "fold_wf t s \<Longrightarrow> fold_wf t (on_kind t k e s)"
  by (cases k) (simp_all add: wf_objective_set wf_constraint wf_decision wf_effect wf_plan wf_step
      wf_cancellation wf_verification wf_cleared)

lemma wf_fold_step: "fold_wf t s \<Longrightarrow> fold_wf t (fold_step t e s)"
  by (cases rule: fold_step_cases [of t e s]) (simp_all add: wf_cite wf_unknown wf_on_kind)

interpretation task_fold: fold_invariant "fold_step t" "fold_wf t" for t
  by unfold_locales (rule wf_fold_step)

lemma fold_events_wf: "fold_wf t (fold_events t es)"
  unfolding fold_events_def by (rule task_fold.fold_inv) (rule fold_wf_init)

end
