(* ===== verification/Task_Fold_Facts.thy ===== *)
theory Task_Fold_Facts
  imports Task_Fold
begin

text \<open>
  What the fold of task_state.py guarantees: it reads a set of events, not a sequence; appending
  later events continues it; its projection is well formed; superseded events do not decide;
  cancellation, revival and blocked steps behave as the module states.
\<close>

section \<open>The fold reads a set\<close>

lemma event_key_less: "e_seq e < e_seq e' \<Longrightarrow> event_key e < event_key e'"
  by (simp add: event_key_def less_prod_def)

lemma ordered_cong:
  assumes "set es = set es'" "inj_on event_key (set es)"
  shows "dedupe (sort_key event_key es) = dedupe (sort_key event_key es')"
  unfolding dedupe_def by (rule sort_dedup_cong [OF assms])

lemma fold_window_cong:
  "set es = set es' \<Longrightarrow> inj_on event_key (set es) \<Longrightarrow> fold_window m es = fold_window m es'"
  by (simp add: fold_window_def ordered_cong [of es es'])

lemma dedupe_seqs: "dedupe_key e = dedupe_key e' \<Longrightarrow> e_seq e = e_seq e'"
  by (simp add: dedupe_key_def)

lemma ordered_append:
  assumes "\<forall>e \<in> set prior. \<forall>e' \<in> set new. e_seq e < e_seq e'"
  shows "dedupe (sort_key event_key (prior @ new))
    = dedupe (sort_key event_key prior) @ dedupe (sort_key event_key new)"
proof -
  have "sort_key event_key (prior @ new) = sort_key event_key prior @ sort_key event_key new"
    by (rule sort_key_append) (use assms in \<open>blast intro: event_key_less\<close>)
  moreover have "dedupe_key e \<noteq> dedupe_key e'" if "e \<in> set prior" "e' \<in> set new" for e e'
    using assms that dedupe_seqs [of e e'] by force
  then have "dedupe_key ` set (sort_key event_key prior) \<inter> dedupe_key ` set (sort_key event_key new) = {}"
    unfolding set_sort by blast
  ultimately show ?thesis by (simp add: dedupe_def dedup_by_append)
qed

lemma length_dedup_by: "length (dedup_by f seen xs) \<le> length xs"
  by (induction xs arbitrary: seen) (auto intro: le_SucI)

lemma length_dedupe: "length (dedupe (sort_key event_key es)) \<le> length es"
  using length_dedup_by [of dedupe_key "[]" "sort_key event_key es"] by (simp add: dedupe_def)

lemma fold_window_small:
  assumes "int (length es) \<le> m"
  shows "fold_window m es = (dedupe (sort_key event_key es), False)"
proof -
  have "int (length (dedupe (sort_key event_key es))) \<le> m" using assms length_dedupe [of es] by linarith
  then show ?thesis by (simp add: fold_window_def Let_def)
qed

lemma set_dedupe_sort: "set (dedupe (sort_key event_key es)) \<subseteq> set es"
  using dedup_by_set [of dedupe_key "[]" "sort_key event_key es"] by (simp add: dedupe_def)

lemma set_latest_of: "latest_of k es = Some e \<Longrightarrow> e \<in> set es \<and> e_kind e = k"
proof -
  have "fold (\<lambda>e l. if e_kind e = k then Some e else l) es l = Some e
    \<Longrightarrow> l = Some e \<or> (e \<in> set es \<and> e_kind e = k)" for l
    by (induction es arbitrary: l) (auto split: if_splits)
  from this [of None] show "latest_of k es = Some e \<Longrightarrow> ?thesis" by (simp add: latest_of_def)
qed

lemma set_fold_window: "set (fst (fold_window m es)) \<subseteq> set es"
proof -
  let ?o = "dedupe (sort_key event_key es)"
  have p: "set (pinned_events ?o) \<subseteq> set ?o"
    using set_latest_of by (force simp: pinned_events_def List.map_filter_def)
  have "set (tail_events n ?o) \<subseteq> set ?o" for n
    by (simp add: tail_events_def set_drop_subset)
  with p set_dedupe_sort [of es]
    set_dedupe_sort [of "pinned_events ?o @ tail_events (max 0 (m - int (length PINNED_KINDS))) ?o"]
  show ?thesis by (auto simp: fold_window_def Let_def dest!: subsetD)
qed

lemma fold_events_append: "fold_events t (es @ es') = fold (fold_step t) es' (fold_events t es)"
  by (simp add: fold_events_def)

section \<open>Well-formed projections\<close>

definition strictly_sorted :: "'a::linorder list \<Rightarrow> bool" where
  "strictly_sorted xs = (sorted xs \<and> distinct xs)"

definition projection_wf :: "projection \<Rightarrow> bool" where
  "projection_wf p = (strictly_sorted (map ac_id (pj_constraints p))
     \<and> strictly_sorted (map od_id (pj_open_decisions p))
     \<and> strictly_sorted (map ue_id (pj_unresolved_effects p))
     \<and> (case pj_plan p of None \<Rightarrow> True
        | Some plan \<Rightarrow> ap_task_id plan = pj_task_id p \<and> strictly_sorted (map st_index (ap_steps plan)))
     \<and> strictly_sorted (pj_citations p) \<and> list_all uuid_ok (pj_citations p)
     \<and> 0 \<le> pj_contract p
     \<and> (case pj_cancelled_at p of None \<Rightarrow> pj_cancelled_seq p = 0
        | Some c \<Rightarrow> pj_cancelled_seq p \<le> pj_last_cancel_seq p)
     \<and> (pj_status p, pj_next_action p) = derive_status (status_inputs_of p))"

lemma strictly_sorted_values: "dict_keyed f d \<Longrightarrow> strictly_sorted (map f (sorted_values d))"
  by (simp add: strictly_sorted_def dict_keyed_values)

lemma inputs_of_projection [simp]:
  "status_inputs_of (projection_of_state t w ow se r s) = inputs_of_state s"
  by (simp add: status_inputs_of_def projection_of_state_def inputs_of_state_def Let_def)

lemma projection_of_state_wf: "fold_wf t s \<Longrightarrow> projection_wf (projection_of_state t w ow se r s)"
  using inputs_of_projection [of t w ow se r s]
  by (auto simp: projection_wf_def fold_wf_def projection_of_state_def Let_def strictly_sorted_values
      final_plan_def plan_wf_def cites_wf_def cancel_wf_def strictly_sorted_def [of "sort _"] list_all_iff
      split: option.splits)

lemma fold_projection:
  "fr_projection (fold_task_state es t w ow se r m)
    = projection_of_state t w ow se r (fold_events t (fst (fold_window m es)))"
  by (simp add: fold_task_state_def Let_def split: prod.split)

lemma projection_of_state_simps [simp]:
  "pj_status (projection_of_state t w ow se r s) = fst (derive_status (inputs_of_state s))"
  "pj_next_action (projection_of_state t w ow se r s) = snd (derive_status (inputs_of_state s))"
  "pj_plan (projection_of_state t w ow se r s) = final_plan s"
  "pj_contract (projection_of_state t w ow se r s) = fs_contract s"
  "pj_last_cancel_seq (projection_of_state t w ow se r s) = fs_last_cancel_seq s"
  "pj_cancelled_at (projection_of_state t w ow se r s) = fs_cancelled_at s"
  "pj_revision (projection_of_state t w ow se r s) = r"
  by (simp_all add: projection_of_state_def Let_def)

section \<open>Cancellation and revival\<close>

abbreviation is_cancel :: "task_event \<Rightarrow> bool" where
  "is_cancel e \<equiv> e_kind e = kind_str K_CANCELLATION_REQUESTED"

abbreviation is_objective :: "task_event \<Rightarrow> bool" where
  "is_objective e \<equiv> e_kind e = kind_str K_OBJECTIVE_SET"

definition event_moment :: "task_event \<Rightarrow> int \<times> int" where
  "event_moment e = moment (e_at e) (e_seq e)"

lemma moment_aware [simp]: "moment (aware a) n = moment a n"
  by (simp add: moment_def)

lemma on_kind_cancelled:
  "k \<noteq> K_CANCELLATION_REQUESTED \<Longrightarrow> k \<noteq> K_OBJECTIVE_SET \<Longrightarrow>
    fs_cancelled_at (on_kind t k e s) = fs_cancelled_at s \<and> fs_cancelled_seq (on_kind t k e s) = fs_cancelled_seq s"
  by (cases k) (auto simp: on_kind_defs Let_def split: option.split)

lemma on_kind_objective:
  "k \<noteq> K_OBJECTIVE_SET \<Longrightarrow>
    fs_objective_set_at (on_kind t k e s) = fs_objective_set_at s
    \<and> fs_objective_set_seq (on_kind t k e s) = fs_objective_set_seq s"
  by (cases k) (auto simp: on_kind_defs Let_def split: option.split)

lemma fold_step_exempt:
  "e_kind e = kind_str k \<Longrightarrow> k \<in> set CONTRACT_EXEMPT_KINDS \<Longrightarrow>
    fold_step t e s = on_kind t k e (cite (text_of (opt_py PStr (e_source e)) []) s)"
  by (simp add: fold_step_def Let_def)

lemma exempt_members [simp]:
  "K_CANCELLATION_REQUESTED \<in> set CONTRACT_EXEMPT_KINDS" "K_OBJECTIVE_SET \<in> set CONTRACT_EXEMPT_KINDS"
  by (simp_all add: CONTRACT_EXEMPT_KINDS_def)

text \<open>The recorded cancellation and objective are those of folded events.\<close>

definition cancel_before :: "int \<times> int \<Rightarrow> fold_state \<Rightarrow> bool" where
  "cancel_before M s = (case fs_cancelled_at s of None \<Rightarrow> True | Some c \<Rightarrow> moment c (fs_cancelled_seq s) < M)"

definition objective_before :: "int \<times> int \<Rightarrow> fold_state \<Rightarrow> bool" where
  "objective_before M s = (case fs_objective_set_at s of None \<Rightarrow> fs_objective_set_seq s = 0
     | Some o' \<Rightarrow> moment o' (fs_objective_set_seq s) < M)"

lemma cancel_before_step:
  assumes "cancel_before M s" "is_cancel e \<Longrightarrow> event_moment e < M"
  shows "cancel_before M (fold_step t e s)"
proof (cases rule: fold_step_cases [of t e s])
  case (acts k)
  consider "k = K_CANCELLATION_REQUESTED" | "k = K_OBJECTIVE_SET"
    | "k \<noteq> K_CANCELLATION_REQUESTED" "k \<noteq> K_OBJECTIVE_SET" by blast
  then show ?thesis
  proof cases
    case 1
    with acts assms show ?thesis
      by (simp add: cancel_before_def on_cancellation_requested_def event_moment_def)
  next
    case 2
    with acts assms(1) show ?thesis
      by (auto simp: cancel_before_def on_objective_set_def Let_def split: option.splits)
  next
    case 3
    with acts assms(1) show ?thesis
      by (auto simp: cancel_before_def on_kind_cancelled split: option.splits)
  qed
qed (use assms(1) in \<open>auto simp: cancel_before_def split: option.splits\<close>)

lemma objective_before_step:
  assumes "objective_before M s" "is_objective e \<Longrightarrow> event_moment e < M"
  shows "objective_before M (fold_step t e s)"
proof (cases rule: fold_step_cases [of t e s])
  case (acts k)
  with assms show ?thesis
    by (cases "k = K_OBJECTIVE_SET")
      (auto simp: objective_before_def on_objective_set_def event_moment_def on_kind_objective Let_def
        split: option.splits)
qed (use assms(1) in \<open>auto simp: objective_before_def split: option.splits\<close>)

lemma cancel_before_fold:
  "(\<And>e. e \<in> set es \<Longrightarrow> is_cancel e \<Longrightarrow> event_moment e < M) \<Longrightarrow> cancel_before M (fold_events t es)"
proof (induction es rule: rev_induct)
  case Nil
  show ?case by (simp add: fold_events_def cancel_before_def fold_init_def)
next
  case (snoc e es)
  then show ?case by (simp add: fold_events_append cancel_before_step)
qed

lemma objective_before_fold:
  "(\<And>e. e \<in> set es \<Longrightarrow> is_objective e \<Longrightarrow> event_moment e < M) \<Longrightarrow> objective_before M (fold_events t es)"
proof (induction es rule: rev_induct)
  case Nil
  show ?case by (simp add: fold_events_def objective_before_def fold_init_def)
next
  case (snoc e es)
  then show ?case by (simp add: fold_events_append objective_before_step)
qed

lemma objective_set_clears:
  "cancel_before (event_moment e) s \<Longrightarrow> fs_cancelled_at (on_objective_set e s) = None"
  by (auto simp: on_objective_set_def cancel_before_def event_moment_def Let_def split: option.splits)

section \<open>Blocked steps\<close>

definition step_blocked :: "int \<Rightarrow> fold_state \<Rightarrow> bool" where
  "step_blocked i s = (\<exists>st. dict_get (fs_steps s) i = Some st \<and> st_norm st = BLOCKING_STEP_STATUS)"

text \<open>The events that may clear a block: a new plan, a restart or a completion of that step.\<close>

definition clears_block :: "int \<Rightarrow> task_event \<Rightarrow> bool" where
  "clears_block i e = (e_kind e \<in> {kind_str K_PLAN_REQUESTED, kind_str K_PLAN_APPROVED}
     \<or> e_kind e \<in> {kind_str K_STEP_STARTED, kind_str K_STEP_COMPLETED}
       \<and> integer_of (py_get (e_payload e) ''step_index'') (-1) = i)"

lemma norm_blocking: "norm_status BLOCKING_STEP_STATUS = BLOCKING_STEP_STATUS"
  by code_simp

lemma on_kind_steps:
  "k \<notin> {K_PLAN_REQUESTED, K_PLAN_APPROVED, K_STEP_STARTED, K_STEP_COMPLETED, K_STEP_BLOCKED, K_STEP_DROPPED}
    \<Longrightarrow> fs_steps (on_kind t k e s) = fs_steps s"
  by (cases k) (auto simp: on_kind_defs Let_def split: option.split)

lemma on_step_blocked:
  "step_blocked i s \<Longrightarrow> k \<in> {K_STEP_BLOCKED, K_STEP_DROPPED} \<or>
      integer_of (py_get (e_payload e) ''step_index'') (-1) \<noteq> i \<Longrightarrow> step_blocked i (on_step k e s)"
  by (auto simp: step_blocked_def on_step_def Let_def update_conv' st_norm_def norm_blocking add_unknown_def
      split: option.splits)

lemma fold_step_blocked:
  assumes "step_blocked i s" "\<not> clears_block i e"
  shows "step_blocked i (fold_step t e s)"
proof (cases rule: fold_step_cases [of t e s])
  case (acts k)
  let ?c = "cite (text_of (opt_py PStr (e_source e)) []) s"
  have c: "step_blocked i ?c" using assms(1) by (simp add: step_blocked_def)
  have "step_blocked i (on_kind t k e ?c)"
  proof (cases "k \<in> {K_PLAN_REQUESTED, K_PLAN_APPROVED, K_STEP_STARTED, K_STEP_COMPLETED, K_STEP_BLOCKED,
      K_STEP_DROPPED}")
    case True
    with assms(2) acts(2) show ?thesis
      by (auto simp: clears_block_def intro: on_step_blocked [OF c])
  next
    case False
    from c on_kind_steps [OF this] show ?thesis by (simp add: step_blocked_def)
  qed
  with acts show ?thesis by simp
qed (use assms in \<open>simp_all add: step_blocked_def\<close>)

section \<open>The cancel epoch under truncation\<close>

lemma latest_of_snoc:
  "latest_of k (es @ [e]) = (if e_kind e = k then Some e else latest_of k es)"
  by (simp add: latest_of_def)

lemma event_key_le_seq: "event_key e \<le> event_key e' \<Longrightarrow> e_seq e \<le> e_seq e'"
  by (auto simp: event_key_def less_eq_prod_def)

lemma latest_of_max:
  "sorted (map event_key es) \<Longrightarrow> e \<in> set es \<Longrightarrow> e_kind e = k \<Longrightarrow>
    \<exists>l. latest_of k es = Some l \<and> e_seq e \<le> e_seq l"
proof (induction es rule: rev_induct)
  case (snoc x es)
  then have srt: "sorted (map event_key es)" and le: "e \<in> set es \<Longrightarrow> event_key e \<le> event_key x"
    by (auto simp: sorted_append)
  show ?case
  proof (cases "e_kind x = k")
    case True
    with snoc.prems(2) le show ?thesis by (auto simp: latest_of_snoc dest: event_key_le_seq)
  next
    case False
    with snoc srt show ?thesis by (auto simp: latest_of_snoc)
  qed
qed simp

lemma dedupe_sort_covers:
  assumes "e \<in> set es"
  shows "\<exists>e' \<in> set (dedupe (sort_key event_key es)). e_seq e' = e_seq e \<and> e_kind e' = e_kind e"
proof -
  have "dedupe_key ` set (dedupe (sort_key event_key es)) = dedupe_key ` set es"
    by (simp add: dedupe_def dedup_by_keys)
  with assms have "dedupe_key e \<in> dedupe_key ` set (dedupe (sort_key event_key es))" by simp
  then show ?thesis by (auto simp: dedupe_key_def)
qed

lemma cancel_in_window:
  assumes "e \<in> set es" "is_cancel e"
  shows "\<exists>l \<in> set (fst (fold_window m es)). is_cancel l \<and> e_seq e \<le> e_seq l"
proof -
  let ?o = "dedupe (sort_key event_key es)"
  obtain e' where e': "e' \<in> set ?o" "e_seq e' = e_seq e" "is_cancel e'"
    using dedupe_sort_covers [OF assms(1)] assms(2) by auto
  show ?thesis
  proof (cases "m < int (length ?o)")
    case False
    with e' show ?thesis by (force simp: fold_window_def Let_def)
  next
    case True
    let ?p = "pinned_events ?o @ tail_events (max 0 (m - int (length PINNED_KINDS))) ?o"
    have "sorted (map event_key ?o)" by (simp add: dedupe_def sorted_dedup_by)
    from latest_of_max [OF this e'(1) e'(3)]
    obtain l where l: "latest_of (kind_str K_CANCELLATION_REQUESTED) ?o = Some l" "e_seq e \<le> e_seq l"
      using e'(2) by auto
    then have "l \<in> set ?p"
      by (simp add: pinned_events_def PINNED_KIND_VALUES_def PINNED_KINDS_def List.map_filter_simps
          split: option.split)
    from dedupe_sort_covers [OF this] l set_latest_of [OF l(1)] True show ?thesis
      by (fastforce simp: fold_window_def Let_def)
  qed
qed

lemma fold_max_Max: "fold max xs (a::int) = Max (insert a (set xs))"
  using Max.set_eq_fold [of a xs] by simp

lemma fold_max_cofinal:
  assumes "set xs \<subseteq> set ys" "\<And>y. y \<in> set ys \<Longrightarrow> \<exists>x \<in> set xs. y \<le> x"
  shows "fold max xs (a::int) = fold max ys a"
proof (rule antisym)
  show "fold max xs a \<le> fold max ys a"
    unfolding fold_max_Max by (rule Max_mono) (use assms(1) in auto)
  show "fold max ys a \<le> fold max xs a"
    unfolding fold_max_Max
  proof (rule Max.boundedI)
    fix b assume "b \<in> insert a (set ys)"
    then consider "b = a" | x where "x \<in> set xs" "b \<le> x" using assms(2) by auto
    then show "b \<le> Max (insert a (set xs))"
      by cases (auto intro: order_trans [OF _ Max_ge])
  qed auto
qed

section \<open>Events in order\<close>

lemma ordered_id:
  assumes "sorted_wrt (<) (map e_seq es)"
  shows "dedupe (sort_key event_key es) = es"
proof -
  have "sorted_wrt (\<lambda>x y. event_key x < event_key y) es"
    using assms unfolding sorted_wrt_map by (rule sorted_wrt_mono_rel [rotated]) (rule event_key_less)
  then have "sorted (map event_key es)"
    unfolding sorted_map by (rule sorted_wrt_mono_rel [rotated]) (rule less_imp_le)
  then have srt: "sort_key event_key es = es" by (rule sort_key_id_if_sorted)
  have "distinct (map e_seq es)" using assms by (simp add: strict_sorted_iff)
  then have "distinct (map dedupe_key es)"
    by (auto simp: distinct_map inj_on_def dedupe_key_def)
  with srt show ?thesis by (simp add: dedupe_def dedup_by_distinct)
qed

lemma fold_window_ordered:
  "sorted_wrt (<) (map e_seq es) \<Longrightarrow> int (length es) \<le> m \<Longrightarrow> fold_window m es = (es, False)"
  by (simp add: fold_window_small ordered_id)

definition sample_event :: "int \<Rightarrow> event_kind \<Rightarrow> int \<Rightarrow> (pystr \<times> py) list \<Rightarrow> task_event" where
  "sample_event n k c payload = \<lparr>e_seq = n, e_kind = kind_str k, e_contract = c, e_payload = payload,
     e_at = Aware n 0, e_actor = ''user'', e_source = None, e_directive = None, e_goal = None\<rparr>"

definition sample_objective :: "int \<Rightarrow> pystr \<Rightarrow> task_event" where
  "sample_objective n h = sample_event n K_OBJECTIVE_SET 0
     [(''objective_text'', PStr ''ship''), (''objective_hash'', PStr h)]"

definition sample_approval :: "int \<Rightarrow> int \<Rightarrow> pystr \<Rightarrow> task_event" where
  "sample_approval n c status = sample_event n K_PLAN_APPROVED c [(''plan_id'', PStr ''P''),
     (''steps'', PList [PDict [(''step_index'', PInt 1), (''title'', PStr ''t''), (''status'', PStr status)]])]"

section \<open>Properties\<close>

text \<open>
  C3. The fold reads a set of events (task_state.py, fold_task_state): the order in which rows
  arrive and repeated rows change neither the projection nor the source revision, as long as the
  sort key tells distinct events apart.
\<close>

theorem fold_order_independent:
  assumes "set es = set es'" "inj_on event_key (set es)"
  shows "fold_task_state es t w ow se r m = fold_task_state es' t w ow se r m"
  using fold_window_cong [OF assms] by (simp add: fold_task_state_def)

theorem fold_order_independent_witness:
  "fold_task_state [sample_objective 1 ''h'', sample_objective 2 ''g''] ''T'' ''W'' ''O'' ''S'' 1 9
   = fold_task_state [sample_objective 2 ''g'', sample_objective 1 ''h'', sample_objective 2 ''g''] ''T'' ''W'' ''O'' ''S'' 1 9"
  by (rule fold_order_independent) (auto simp: sample_objective_def sample_event_def event_key_def)

text \<open>
  Appending later events continues the fold (task_state.py, fold_task_state and prepare_write): a
  log replayed from scratch gives the state reached by folding the new events onto the state of the
  old ones, while the log fits the window.
\<close>

theorem fold_incremental:
  assumes "\<forall>e \<in> set prior. \<forall>e' \<in> set new. e_seq e < e_seq e'" "int (length prior + length new) \<le> m"
  shows "fr_projection (fold_task_state (prior @ new) t w ow se r m)
    = projection_of_state t w ow se r
        (fold (fold_step t) (fst (fold_window m new)) (fold_events t (fst (fold_window m prior))))"
proof -
  have "fold_window m (prior @ new)
      = (fst (fold_window m prior) @ fst (fold_window m new), False)"
    using assms by (simp add: fold_window_small ordered_append)
  then show ?thesis by (simp add: fold_projection fold_events_append)
qed

theorem fold_incremental_witness:
  "fr_projection (fold_task_state ([sample_objective 1 ''h''] @ [sample_objective 2 ''g'']) ''T'' ''W'' ''O'' ''S'' 1 10)
    = projection_of_state ''T'' ''W'' ''O'' ''S'' 1 (fold (fold_step ''T'') (fst (fold_window 10 [sample_objective 2 ''g'']))
        (fold_events ''T'' (fst (fold_window 10 [sample_objective 1 ''h'']))))"
  by (rule fold_incremental) (simp_all add: sample_objective_def sample_event_def)

text \<open>
  Every fold yields a well-formed projection (task_state.py, fold_task_state): constraints,
  decisions, effects and plan steps strictly ordered by their identity, citations strictly ordered and
  each a UUID, the plan that of the task, no cancellation newer than the cancel epoch, and status and
  next action those of the rule table on the projection itself.
\<close>

theorem fold_projection_wf:
  "projection_wf (fr_projection (fold_task_state es t w ow se r m))"
  by (simp add: fold_projection projection_of_state_wf fold_events_wf)

text \<open>
  C1. \<open>DONE\<close> for a folded log (task_state.py, fold_task_state and derive_status): exactly when
  no cancellation stands, the objective is stated, every decision is superseded, the approved plan of
  the current contract has only terminal steps with one done, no effect is unresolved, and the latest
  verification passed for this contract and this plan.
\<close>

theorem fold_done_iff:
  "pj_status (fr_projection (fold_task_state es t w ow se r m)) = S_DONE \<longleftrightarrow>
    (let s = fold_events t (fst (fold_window m es)) in
      \<not> cancel_stands (fs_cancelled_at s) (fs_cancelled_seq s) (fs_objective_set_at s) (fs_objective_set_seq s)
      \<and> \<not> blank (fs_objective_text s)
      \<and> list_all od_superseded (sorted_values (fs_decisions s))
      \<and> (\<exists>plan ref. fs_plan s = Some plan \<and> ap_state plan = P_APPROVED \<and> ap_contract plan = fs_contract s
          \<and> list_all (\<lambda>x. step_terminal (st_status x)) (sorted_values (fs_steps s))
          \<and> list_ex (\<lambda>x. st_norm x = ''done'') (sorted_values (fs_steps s))
          \<and> fs_verification s = Some ref \<and> vr_state ref = ''passed''
          \<and> vr_contract ref = fs_contract s \<and> vr_plan_id ref = Some (ap_plan_id plan))
      \<and> fs_effects s = [])"
proof -
  let ?s = "fold_events t (fst (fold_window m es))"
  have d: "distinct (map st_index (ap_steps plan))" if "si_plan (inputs_of_state ?s) = Some plan" for plan
    using that wf_keyed(4) [OF fold_events_wf [of t "fst (fold_window m es)"]]
    by (auto simp: inputs_of_state_def final_plan_def dict_keyed_values)
  show ?thesis
    using derive_status_done_iff [OF d]
    by (simp add: fold_projection Let_def) (auto simp: inputs_of_state_def final_plan_def)
qed

text \<open>
  An event of an unknown kind, or one superseded by a newer contract, does not decide
  (task_state.py, fold_task_state): it may add a citation or an unknown-kind mark, and leaves every
  input of the status table, the constraints and the cancel epoch as they were.
\<close>

theorem superseded_never_decides:
  assumes "kind_of (e_kind e) = None
    \<or> (\<exists>k. e_kind e = kind_str k \<and> k \<notin> set CONTRACT_EXEMPT_KINDS \<and> e_contract e < fs_contract s)"
  shows "inputs_of_state (fold_step t e s) = inputs_of_state s
    \<and> fs_constraints (fold_step t e s) = fs_constraints s
    \<and> fs_objective_hash (fold_step t e s) = fs_objective_hash s
    \<and> fs_last_cancel_seq (fold_step t e s) = fs_last_cancel_seq s"
proof (cases rule: fold_step_cases [of t e s])
  case (acts k)
  with assms show ?thesis by auto
qed (simp_all add: inputs_of_state_def final_plan_def)

theorem superseded_never_decides_witness:
  "inputs_of_state (fold_step ''T'' (sample_event 9 K_STEP_DROPPED 1 []) (fold_init\<lparr>fs_contract := 2\<rparr>))
    = inputs_of_state (fold_init\<lparr>fs_contract := 2\<rparr>)"
proof -
  have "kind_of (e_kind (sample_event 9 K_STEP_DROPPED 1 [])) = None
    \<or> (\<exists>k. e_kind (sample_event 9 K_STEP_DROPPED 1 []) = kind_str k \<and> k \<notin> set CONTRACT_EXEMPT_KINDS
      \<and> e_contract (sample_event 9 K_STEP_DROPPED 1 []) < fs_contract (fold_init\<lparr>fs_contract := 2\<rparr>))"
    by (rule disjI2, rule exI [of _ K_STEP_DROPPED]) (simp add: sample_event_def CONTRACT_EXEMPT_KINDS_def)
  from superseded_never_decides [OF this] show ?thesis by blast
qed

text \<open>
  The cancel epoch is a high-water mark that truncation cannot lose (task_state.py,
  fold_task_state): whatever the window keeps, \<open>last_cancel_seq\<close> is the greatest sequence
  number of a cancellation in the whole log, or 0.
\<close>

theorem cancel_epoch_is_high_water_mark:
  "pj_last_cancel_seq (fr_projection (fold_task_state es t w ow se r m))
    = fold max (map e_seq (filter is_cancel es)) 0"
proof -
  let ?w = "fst (fold_window m es)"
  have "fold max (map e_seq (filter is_cancel ?w)) 0 = fold max (map e_seq (filter is_cancel es)) (0::int)"
  proof (rule fold_max_cofinal)
    show "set (map e_seq (filter is_cancel ?w)) \<subseteq> set (map e_seq (filter is_cancel es))"
      using set_fold_window [of m es] by auto
    fix y assume "y \<in> set (map e_seq (filter is_cancel es))"
    then obtain e where e: "e \<in> set es" "is_cancel e" "y = e_seq e" by auto
    from cancel_in_window [OF e(1,2), of m] e(3)
    show "\<exists>x \<in> set (map e_seq (filter is_cancel ?w)). y \<le> x" by auto
  qed
  then show ?thesis by (simp add: fold_projection fold_events_def fold_last_cancel) (simp add: fold_init_def)
qed

text \<open>
  The contract revision only moves forward (task_state.py, fold_task_state and
  objective_contract_revision): replaying more events never lowers it, it rises at most once per
  restated objective, and an objective event raises it exactly when its hash is present and new.
\<close>

theorem contract_revision_moves_forward:
  "fs_contract (fold_events t es) \<le> fs_contract (fold_events t (es @ es'))
   \<and> fs_contract (fold_events t (es @ es'))
      \<le> fs_contract (fold_events t es) + int (length (filter is_objective es'))
   \<and> fs_contract (fold_step t (sample_event n K_OBJECTIVE_SET c payload) s)
      = (if opt_text (py_get payload ''objective_hash'') \<in> {None, Some [], fs_objective_hash s}
         then fs_contract s else fs_contract s + 1)"
proof -
  have "fs_contract (fold_step t (sample_event n K_OBJECTIVE_SET c payload) s)
      = objective_contract_revision (fs_contract s) (fs_objective_hash s)
          (opt_text (py_get payload ''objective_hash''))"
    by (simp add: fold_step_exempt [of _ K_OBJECTIVE_SET] sample_event_def on_objective_set_contract)
  then show ?thesis
    using contract_mark.fold_mono [of "fold_events t es" t es'] fold_contract_upper [of t es' "fold_events t es"]
    by (simp add: fold_events_append objective_contract_revision_def)
qed

text \<open>
  Cancelling stops the task (task_state.py, fold_task_state and derive_status): when the last
  event of the log is a cancellation no older than any objective, the task is cancelled and no action
  is permitted, whatever plan, decisions, effects and verifications the log holds.
\<close>

theorem later_cancel_cancels:
  assumes "sorted_wrt (<) (map e_seq (es @ [e]))" "int (length (es @ [e])) \<le> m" "is_cancel e"
    and "\<And>o'. o' \<in> set es \<Longrightarrow> is_objective o' \<Longrightarrow> event_moment o' < event_moment e"
    and "0 < e_seq e" "MIN_T \<le> instant (e_at e)"
  shows "pj_status (fr_projection (fold_task_state (es @ [e]) t w ow se r m)) = S_CANCELLED
    \<and> pj_next_action (fr_projection (fold_task_state (es @ [e]) t w ow se r m)) = A_NONE"
proof -
  let ?s = "fold_events t es" and ?s' = "fold_events t (es @ [e])"
  have s': "?s' = on_cancellation_requested e (cite (text_of (opt_py PStr (e_source e)) []) ?s)"
    using assms(3) by (simp add: fold_events_append fold_step_exempt [of _ K_CANCELLATION_REQUESTED])
  have "objective_before (event_moment e) ?s" using assms(4) by (rule objective_before_fold)
  then have "cancel_stands (fs_cancelled_at ?s') (fs_cancelled_seq ?s') (fs_objective_set_at ?s')
      (fs_objective_set_seq ?s')"
    using assms(5,6)
    by (auto simp: s' on_cancellation_requested_def cancel_stands_def objective_before_def event_moment_def
        moment_def datetime_min_def less_prod_def split: option.splits)
  then show ?thesis
    using assms(1,2) by (simp add: fold_projection fold_window_ordered derive_status_def inputs_of_state_def)
qed

theorem later_cancel_cancels_witness:
  "pj_status (fr_projection (fold_task_state ([sample_objective 1 ''h''] @ [sample_event 2 K_CANCELLATION_REQUESTED 0 []])
      ''T'' ''W'' ''O'' ''S'' 1 2000)) = S_CANCELLED"
  by (rule later_cancel_cancels [THEN conjunct1])
    (auto simp: sample_objective_def sample_event_def event_moment_def moment_def MIN_T_def)

text \<open>
  Re-activation revives a cancelled task and keeps the epoch (task_state.py, fold_task_state,
  objective_set_required): when the last event sets an objective after every cancellation, the same
  hash included, no cancellation stands, and \<open>last_cancel_seq\<close> is what it was, so the revived
  turn plans afresh.
\<close>

theorem revival_clears_cancel_keeps_epoch:
  assumes "sorted_wrt (<) (map e_seq (es @ [e]))" "int (length (es @ [e])) \<le> m" "is_objective e"
    and "\<And>c. c \<in> set es \<Longrightarrow> is_cancel c \<Longrightarrow> event_moment c < event_moment e"
  shows "pj_cancelled_at (fr_projection (fold_task_state (es @ [e]) t w ow se r m)) = None
    \<and> pj_status (fr_projection (fold_task_state (es @ [e]) t w ow se r m)) \<noteq> S_CANCELLED
    \<and> pj_last_cancel_seq (fr_projection (fold_task_state (es @ [e]) t w ow se r m))
      = pj_last_cancel_seq (fr_projection (fold_task_state es t w ow se r m))"
proof -
  let ?s = "fold_events t es" and ?c = "text_of (opt_py PStr (e_source e)) []"
  have s': "fold_events t (es @ [e]) = on_objective_set e (cite ?c ?s)"
    using assms(3) by (simp add: fold_events_append fold_step_exempt [of _ K_OBJECTIVE_SET])
  have "cancel_before (event_moment e) ?s" using assms(4) by (rule cancel_before_fold)
  then have "fs_cancelled_at (fold_events t (es @ [e])) = None"
    unfolding s' by (intro objective_set_clears) (simp add: cancel_before_def split: option.splits)
  moreover have "fs_last_cancel_seq (fold_events t (es @ [e])) = fs_last_cancel_seq ?s"
    using assms(3) by (simp add: fold_events_append fold_step_last_cancel)
  moreover have "sorted_wrt (<) (map e_seq es)" using assms(1) by (simp add: sorted_wrt_append)
  ultimately show ?thesis
    using assms(1,2)
    by (simp add: fold_projection fold_window_ordered derive_status_CANCELLED inputs_of_state_def cancel_stands_def)
qed

theorem revival_clears_cancel_keeps_epoch_witness:
  "pj_status (fr_projection (fold_task_state ([sample_objective 1 ''h'', sample_event 2 K_CANCELLATION_REQUESTED 0 []]
      @ [sample_objective 3 ''h'']) ''T'' ''W'' ''O'' ''S'' 1 2000)) \<noteq> S_CANCELLED"
  by (rule revival_clears_cancel_keeps_epoch [THEN conjunct2, THEN conjunct1])
    (auto simp: sample_objective_def sample_event_def event_moment_def moment_def)

text \<open>A blocked step in the state keeps the status from running or completing.\<close>

lemma step_blocked_persists:
  "step_blocked i s \<Longrightarrow> list_all (\<lambda>e. \<not> clears_block i e) es \<Longrightarrow> step_blocked i (fold (fold_step t) es s)"
  by (induction es arbitrary: s) (simp_all add: fold_step_blocked)

lemma step_blocked_root:
  assumes "step_blocked i s" "fold_wf t s" "fs_plan s = Some plan"
  shows "root_status (sorted_values (fs_steps s)) = R_BLOCKED"
proof -
  let ?v = "sorted_values (fs_steps s)"
  obtain st where st: "dict_get (fs_steps s) i = Some st" "st_norm st = BLOCKING_STEP_STATUS"
    using assms(1) by (auto simp: step_blocked_def)
  have "st \<in> set ?v"
    using dict_keyed_values(3) [OF wf_keyed(4) [OF assms(2)]] st(1) wf_get(3) [OF assms(2) st(1)] by simp
  moreover have "distinct (map st_index ?v)" by (rule dict_keyed_values [OF wf_keyed(4) [OF assms(2)]])
  ultimately show ?thesis using st(2) by (metis root_status_blocked)
qed

text \<open>
  C2. A block is never laundered (task_state.py, fold_task_state): once a step is blocked, a log
  without a new plan and without a restart or completion of that step, drops included, never reads
  as active, nor as done.
\<close>

theorem block_is_never_laundered:
  assumes "step_blocked i (fold_events t es)" "list_all (\<lambda>e. \<not> clears_block i e) es'"
  shows "pj_status (projection_of_state t w ow se r (fold_events t (es @ es'))) \<notin> {S_ACTIVE, S_DONE}"
proof -
  let ?s = "fold_events t (es @ es')"
  have b: "step_blocked i ?s" using assms by (simp add: fold_events_append step_blocked_persists)
  note wf = fold_events_wf [of t "es @ es'"]
  show ?thesis
  proof (cases "live_plan (inputs_of_state ?s)")
    case None
    then show ?thesis
      by (auto simp: derive_status_def split: if_splits)
  next
    case (Some plan)
    then obtain plan0 where "fs_plan ?s = Some plan0" "plan = plan0\<lparr>ap_steps := sorted_values (fs_steps ?s)\<rparr>"
      by (auto simp: live_plan_Some inputs_of_state_def final_plan_def)
    with step_blocked_root [OF b wf] Some show ?thesis
      by (auto simp: derive_status_def split: if_splits)
  qed
qed

theorem block_is_never_laundered_witness:
  "pj_status (projection_of_state ''T'' ''W'' ''O'' ''S'' 1 (fold_events ''T''
     ([sample_objective 1 ''h'', sample_approval 2 1 ''blocked'']
      @ [sample_event 3 K_STEP_DROPPED 1 [(''step_index'', PInt 1)]]))) \<notin> {S_ACTIVE, S_DONE}"
proof (rule block_is_never_laundered)
  show "step_blocked 1 (fold_events ''T'' [sample_objective 1 ''h'', sample_approval 2 1 ''blocked''])"
    by (simp add: fold_events_def sample_objective_def sample_approval_def sample_event_def fold_step_def Let_def
        cite_def on_objective_set_def on_plan_approved_def fold_init_def CONTRACT_EXEMPT_KINDS_def
        objective_contract_revision_def or_none_def plan_steps_from_json_def List.map_filter_simps
        plan_step_from_dict_def dict_by_def step_blocked_def st_norm_def
        norm_blocking [unfolded BLOCKING_STEP_STATUS_def] BLOCKING_STEP_STATUS_def)
  show "list_all (\<lambda>e. \<not> clears_block 1 e) [sample_event 3 K_STEP_DROPPED 1 [(''step_index'', PInt 1)]]"
    by (simp add: clears_block_def sample_event_def)
qed

text \<open>
  Asking for a plan never downgrades one (task_state.py, fold_task_state): with a plan of the
  current contract in place, a plan request leaves the plan and its steps untouched; without one it
  installs a pending, empty plan of the current contract.
\<close>

theorem plan_request_never_downgrades:
  assumes "e_kind e = kind_str K_PLAN_REQUESTED" "fs_contract s \<le> e_contract e"
  shows "if plan_is_current s
    then fs_plan (fold_step t e s) = fs_plan s \<and> fs_steps (fold_step t e s) = fs_steps s
    else (\<exists>plan. fs_plan (fold_step t e s) = Some plan \<and> ap_state plan = P_PENDING
        \<and> ap_contract plan = fs_contract s \<and> ap_task_id plan = t) \<and> fs_steps (fold_step t e s) = []"
proof -
  let ?c = "cite (text_of (opt_py PStr (e_source e)) []) s"
  have "fold_step t e s = on_plan_requested t e ?c"
    using assms by (simp add: fold_step_def Let_def)
  moreover have "plan_is_current ?c = plan_is_current s"
    by (simp add: plan_is_current_def split: option.split)
  ultimately show ?thesis by (simp add: on_plan_requested_def)
qed

theorem plan_request_never_downgrades_witness:
  "fs_plan (fold_step ''T'' (sample_event 5 K_PLAN_REQUESTED 1 []) (fold_init\<lparr>fs_contract := 1, fs_plan := Some sample_plan\<rparr>))
    = Some sample_plan"
proof -
  have "plan_is_current (fold_init\<lparr>fs_contract := 1, fs_plan := Some sample_plan\<rparr>)"
    by (simp add: plan_is_current_def sample_plan_def)
  with plan_request_never_downgrades [of "sample_event 5 K_PLAN_REQUESTED 1 []"
      "fold_init\<lparr>fs_contract := 1, fs_plan := Some sample_plan\<rparr>" "''T''"]
  show ?thesis by (simp add: sample_event_def)
qed

definition restated_log :: "task_event list" where
  "restated_log = [sample_objective 1 ''h1'', sample_objective 2 ''h2'', sample_event 3 K_EFFECT_RESOLVED 2 [],
     sample_event 4 K_EFFECT_RESOLVED 2 [], sample_approval 5 2 ''candidate'', sample_event 6 K_EFFECT_RESOLVED 2 []]"

lemmas sample_event_defs = restated_log_def sample_objective_def sample_approval_def sample_event_def

lemmas step_eval = fold_events_def fold_step_def Let_def cite_def on_objective_set_def on_plan_approved_def
  on_effect_resolved_def fold_init_def CONTRACT_EXEMPT_KINDS_def objective_contract_revision_def or_none_def
  plan_steps_from_json_def List.map_filter_simps plan_step_from_dict_def dict_by_def

lemma candidate_open: "next_open_step [(1, ''candidate'')] = Some 1"
  by code_simp

lemma restated_full_window: "fold_window 6 restated_log = (restated_log, False)"
  by (rule fold_window_ordered) (simp_all add: sample_event_defs)

lemma restated_cut_window:
  "fold_window 5 restated_log = ([restated_log ! 1, restated_log ! 4, restated_log ! 5], True)"
proof -
  have o: "dedupe (sort_key event_key restated_log) = restated_log"
    by (rule ordered_id) (simp add: sample_event_defs)
  have p: "pinned_events restated_log = [restated_log ! 1]"
    by (simp add: pinned_events_def PINNED_KIND_VALUES_def PINNED_KINDS_def latest_of_def
        List.map_filter_simps sample_event_defs)
  have t: "tail_events 2 restated_log = [restated_log ! 4, restated_log ! 5]"
    by (simp add: tail_events_def restated_log_def)
  have d: "dedupe (sort_key event_key [restated_log ! 1, restated_log ! 4, restated_log ! 5])
      = [restated_log ! 1, restated_log ! 4, restated_log ! 5]"
    by (rule ordered_id) (simp add: sample_event_defs)
  have n: "max 0 (5 - int (length PINNED_KINDS)) = 2" "5 < int (length restated_log)"
    by (simp_all add: PINNED_KINDS_def restated_log_def)
  show ?thesis by (simp only: fold_window_def o Let_def n if_True p t append.simps d)
qed

text \<open>
  Truncation loses the contract count (task_state.py, fold_task_state): the window pins only the
  latest objective, so a log whose second contract has an approved, runnable plan reads as active under
  contract 2 in full and, one event over the limit, as planning under contract 1.
\<close>

theorem truncation_forgets_contract:
  "pj_status (fr_projection (fold_task_state restated_log t w ow se r 6)) = S_ACTIVE
   \<and> pj_contract (fr_projection (fold_task_state restated_log t w ow se r 6)) = 2
   \<and> pj_status (fr_projection (fold_task_state restated_log t w ow se r 5)) = S_PLANNING
   \<and> pj_contract (fr_projection (fold_task_state restated_log t w ow se r 5)) = 1"
  by (simp add: fold_projection restated_full_window restated_cut_window)
    (simp add: sample_event_defs step_eval inputs_of_state_def final_plan_def derive_status_def cancel_stands_def
      py_strip_Nil_iff blank_def py_isspace_def code_def live_plan_def root_status_def status_by_index_def
      st_norm_def norm_status_def step_pairs_def candidate_open step_stalled_def py_lower_def py_strip_def
      py_lstrip_def py_rstrip_def py_lower_char_def BLOCKING_STEP_STATUS_def int_tuple_def)

end
