(* ===== verification/Task_Plan.thy ===== *)
theory Task_Plan
  imports Task_Fold_Facts
begin

text \<open>
  The rest of \<open>shared/tce_shared/task_state.py\<close>: when an objective must be recorded and
  what it invalidates, the digests a planning job is keyed by, the two plan producers, the
  reconciliation of permits with constraints, \<open>prepare_write\<close>, and the summary.
\<close>

section \<open>Objective changes\<close>

definition opt_or_empty :: "pystr option \<Rightarrow> pystr" where
  "opt_or_empty x = (case x of None \<Rightarrow> [] | Some s \<Rightarrow> s)"

lemma opt_or_empty_simps [simp]: "opt_or_empty None = []" "opt_or_empty (Some s) = s"
  by (simp_all add: opt_or_empty_def)

definition objective_set_required :: "projection \<Rightarrow> pystr option \<Rightarrow> bool" where
  "objective_set_required p new_hash =
     (if py_strip (opt_or_empty new_hash) = [] then False
      else if new_hash \<noteq> pj_objective_hash p then True
      else pj_status p = S_CANCELLED)"

definition invalidation_for_objective_change ::
  "projection \<Rightarrow> pystr option \<Rightarrow> pystr list \<Rightarrow> pystr list \<Rightarrow> invalidation_plan option" where
  "invalidation_for_objective_change p new_hash pending_directives pending_jobs =
     (let next_revision = objective_contract_revision (pj_contract p) (pj_objective_hash p) new_hash in
      if next_revision = pj_contract p then None
      else Some \<lparr>ip_contract = next_revision, ip_invalidate_plan = True,
        ip_revoke_constraint_ids =
          map ac_id (filter (\<lambda>c. ac_contract c < next_revision \<and> ac_revoked_at c = None) (pj_constraints p)),
        ip_supersede_decision_ids = map od_id (filter (\<lambda>d. \<not> od_superseded d) (pj_open_decisions p)),
        ip_cancel_directive_ids = pending_directives,
        ip_discard_planning_job_ids = pending_jobs,
        ip_expire_permits_for_session = pj_session_id p,
        ip_new_objective_hash = new_hash,
        ip_reason = CANCEL_REASON_OBJECTIVE_CHANGED\<rparr>)"

section \<open>Digests\<close>

definition task_scope_digest ::
  "pystr \<Rightarrow> pystr \<Rightarrow> pystr list \<Rightarrow> pystr \<Rightarrow> pystr option \<Rightarrow> pystr \<Rightarrow> pystr" where
  "task_scope_digest workspace_id executor_id owner_ids subject_user_id project_id project_binding =
     take 32 (sha256_hex (canonical_json (PDict
       [(''workspace_id'', PStr workspace_id), (''executor_id'', PStr executor_id),
        (''owner_ids'', PList (map PStr (sorted_set owner_ids))),
        (''subject_user_id'', PStr subject_user_id),
        (''project_id'', PStr (opt_or_empty project_id)),
        (''project_binding'', PStr project_binding)])))"

definition plan_input_raw :: "pystr option \<Rightarrow> int \<Rightarrow> pystr \<Rightarrow> pystr \<Rightarrow> int \<Rightarrow> pystr" where
  "plan_input_raw objective_hash contract policy scope_digest cancel_epoch =
     py_join ''|'' [opt_or_empty objective_hash, str_int contract, policy, scope_digest, str_int cancel_epoch]"

definition plan_input_revision :: "pystr option \<Rightarrow> int \<Rightarrow> pystr \<Rightarrow> pystr \<Rightarrow> int \<Rightarrow> pystr" where
  "plan_input_revision objective_hash contract policy scope_digest cancel_epoch =
     take 32 (sha256_hex (plan_input_raw objective_hash contract policy scope_digest cancel_epoch))"

definition planning_idempotency_key :: "pystr \<Rightarrow> pystr \<Rightarrow> pystr \<Rightarrow> pystr \<Rightarrow> pystr \<Rightarrow> pystr" where
  "planning_idempotency_key job_kind workspace_id owner_id task_id input_revision =
     take 40 (sha256_hex (py_join ''|'' [job_kind, workspace_id, owner_id, task_id, input_revision]))"

definition planning_result_is_stale :: "pystr \<Rightarrow> int \<Rightarrow> pystr \<Rightarrow> int \<Rightarrow> bool \<Rightarrow> bool \<times> pystr" where
  "planning_result_is_stale job_input job_contract current_input current_contract cancel_requested =
     (if cancel_requested then (True, ''cancelled'')
      else if job_input \<noteq> current_input then (True, PLANNING_STALE_REASON)
      else if job_contract \<noteq> current_contract then (True, PLANNING_STALE_REASON)
      else (False, ''ok''))"

section \<open>Plan producers\<close>

definition short_objective :: "pystr \<Rightarrow> pystr" where
  "short_objective objective =
     take 120 (or_else (py_strip (py_join '' '' (py_split_ws objective))) ''the stated objective'')"

definition charter_for_task :: "int \<Rightarrow> pystr \<Rightarrow> plan_charter" where
  "charter_for_task max_steps reason =
     \<lparr>pc_max_steps = max 1 (min MAX_PLAN_STEPS max_steps), pc_reason = reason\<rparr>"

text \<open>\<open>READ_ONLY_DIAGNOSIS_TEMPLATE\<close>: a title, and the description around \<open>{short}\<close>.\<close>

definition READ_ONLY_DIAGNOSIS_TEMPLATE :: "(pystr \<times> pystr \<times> pystr) list" where
  "READ_ONLY_DIAGNOSIS_TEMPLATE =
     [(''Read the current state'',
       ''Read the files and recent events that describe '' @ [CHR 0x27],
       CHR 0x27 # '' without changing anything.''),
      (''Report what is true'',
       ''Write down what exists today, what is missing, and what is uncertain about '' @ [CHR 0x27],
       CHR 0x27 # ''.''),
      (''Ask for the missing decision'',
       ''Name the one decision the owner must make before any change to '' @ [CHR 0x27],
       CHR 0x27 # '' is safe.'')]"

definition chain_deps :: "int \<Rightarrow> int list" where
  "chain_deps index = (if 1 < index then [index - 1] else [])"

definition deterministic_step :: "pystr \<Rightarrow> nat \<Rightarrow> pystr \<times> pystr \<times> pystr \<Rightarrow> plan_step_state" where
  "deterministic_step short i entry = (case entry of (title, before, after) \<Rightarrow>
     \<lparr>st_index = int i, st_goal = None, st_title = title, st_description = before @ short @ after,
      st_status = ''candidate'', st_depends_on = chain_deps (int i), st_attempts = 0,
      st_mutating = False, st_blocked_reason = []\<rparr>)"

definition deterministic_plan :: "pystr \<Rightarrow> plan_charter \<Rightarrow> plan_step_state list" where
  "deterministic_plan objective charter =
     map (\<lambda>(i, entry). deterministic_step (short_objective objective) i entry)
       (enumerate 1 (py_take (pc_max_steps charter) READ_ONLY_DIAGNOSIS_TEMPLATE))"

definition model_step :: "plan_step \<Rightarrow> plan_step_state" where
  "model_step step =
     \<lparr>st_index = ps_index step, st_goal = None, st_title = ps_title step,
      st_description = ps_description step, st_status = ''candidate'',
      st_depends_on = chain_deps (ps_index step), st_attempts = 0, st_mutating = True, st_blocked_reason = []\<rparr>"

definition plan_steps_from_model :: "py \<Rightarrow> plan_charter \<Rightarrow> plan_step_state list" where
  "plan_steps_from_model payload charter = map model_step (parse_plan_steps payload (pc_max_steps charter))"

section \<open>Permits and constraints\<close>

text \<open>\<open>a or b\<close> on values.\<close>

definition py_or :: "py \<Rightarrow> py \<Rightarrow> py" where
  "py_or a b = (if truthy a then a else b)"

type_synonym row = "(pystr \<times> py) list"

definition row_id :: "row \<Rightarrow> pystr" where
  "row_id row = text_of (py_or (py_get row ''id'') (py_get row ''constraint_id'')) []"

definition constraint_event :: "projection \<Rightarrow> datetime \<Rightarrow> event_kind \<Rightarrow> (pystr \<times> py) list \<Rightarrow> task_event" where
  "constraint_event p stamp kind payload =
     \<lparr>e_seq = 0, e_kind = kind_str kind, e_contract = pj_contract p, e_payload = payload, e_at = stamp,
      e_actor = ''system'', e_source = None, e_directive = None, e_goal = None\<rparr>"

definition granted_payload :: "projection \<Rightarrow> datetime \<Rightarrow> row \<Rightarrow> (pystr \<times> py) list" where
  "granted_payload p stamp row =
     [(''constraint_id'', PStr (row_id row)),
      (''kind'', PStr (or_else (text_of (py_get row ''kind'') ''permit'') ''permit'')),
      (''scope_digest'', PStr (text_of (py_get row ''scope_digest'') [])),
      (''contract_revision'', PInt (pj_contract p)),
      (''granted_at'', dt_to_json (Some (dt_or
         (dt_from_json (py_or (py_get row ''granted_at'') (py_get row ''created_at'')) None) stamp))),
      (''expires_at'', dt_to_json (dt_from_json (py_get row ''expires_at'') None)),
      (''revoked_at'', dt_to_json (dt_from_json (py_get row ''revoked_at'') None)),
      (''reason'', PStr (text_of (py_get row ''reason'') []))]"

definition revoked_payload :: "approved_constraint \<Rightarrow> row \<Rightarrow> (pystr \<times> py) list" where
  "revoked_payload existing row =
     [(''constraint_id'', PStr (row_id row)),
      (''revoked_at'', dt_to_json (dt_from_json (py_get row ''revoked_at'') None)),
      (''reason'', PStr (or_else (text_of (py_get row ''reason'') (ac_reason existing)) (ac_reason existing)))]"

definition reconcile_row ::
  "projection \<Rightarrow> datetime \<Rightarrow> (pystr, approved_constraint) dict \<Rightarrow> row \<Rightarrow> task_event list" where
  "reconcile_row p stamp known row =
     (if row_id row = [] then []
      else (case dict_get known (row_id row) of
          None \<Rightarrow> [constraint_event p stamp K_CONSTRAINT_GRANTED (granted_payload p stamp row)]
        | Some existing \<Rightarrow>
            if dt_from_json (py_get row ''revoked_at'') None \<noteq> None \<and> ac_revoked_at existing = None
            then [constraint_event p stamp K_CONSTRAINT_REVOKED (revoked_payload existing row)]
            else []))"

definition reconcile_constraint_events :: "projection \<Rightarrow> row list \<Rightarrow> datetime \<Rightarrow> task_event list" where
  "reconcile_constraint_events p rows now =
     concat (map (reconcile_row p (aware now) (dict_by ac_id (pj_constraints p))) rows)"

section \<open>Writes\<close>

definition stamp_events :: "int \<Rightarrow> task_event list \<Rightarrow> task_event list" where
  "stamp_events highest_seq new = map (\<lambda>(i, e). e\<lparr>e_seq := highest_seq + int i\<rparr>) (enumerate 1 new)"

definition prepare_write ::
  "task_event list \<Rightarrow> task_event list \<Rightarrow> pystr \<Rightarrow> pystr \<Rightarrow> pystr \<Rightarrow> pystr \<Rightarrow> int \<Rightarrow> int \<Rightarrow> task_state_write" where
  "prepare_write prior new task_id workspace_id owner_id session_id expected_revision highest_seq =
     (let stamped = stamp_events highest_seq new;
          folded = fold_task_state (prior @ stamped) task_id workspace_id owner_id session_id
            (expected_revision + 1) MAX_TASK_STATE_EVENTS_PER_FOLD
      in \<lparr>tw_expected_revision = expected_revision, tw_next_revision = expected_revision + 1,
          tw_next_seq_start = highest_seq + 1, tw_projection = fr_projection folded,
          tw_source_revision = fr_source_revision folded, tw_events = stamped\<rparr>)"

definition open_step_index :: "projection \<Rightarrow> int option" where
  "open_step_index p = (case pj_plan p of None \<Rightarrow> None | Some plan \<Rightarrow> next_open_step (step_pairs (ap_steps plan)))"

definition task_state_summary_fields :: "projection \<Rightarrow> pystr \<Rightarrow> (pystr \<times> py) list" where
  "task_state_summary_fields p source_rev =
     [(''task_id'', PStr (pj_task_id p)), (''revision'', PInt (pj_revision p)),
      (''contract_revision'', PInt (pj_contract p)), (''status'', PStr (status_str (pj_status p))),
      (''next_permitted_action'', PStr (action_str (pj_next_action p))),
      (''plan_state'', PStr (plan_state_str (case pj_plan p of None \<Rightarrow> P_ABSENT | Some plan \<Rightarrow> ap_state plan))),
      (''plan_producer'', opt_py (\<lambda>plan. PStr (ap_producer plan)) (pj_plan p)),
      (''open_step_index'', opt_py PInt (open_step_index p)),
      (''open_decision_count'', PInt (int (length (filter (\<lambda>d. \<not> od_superseded d) (pj_open_decisions p))))),
      (''unresolved_effect_count'', PInt (int (length (pj_unresolved_effects p)))),
      (''source_revision'', PStr source_rev)]"

section \<open>Reconciliation reaches a fixed point\<close>

definition unseq :: "task_event \<Rightarrow> task_event" where
  "unseq e = e\<lparr>e_seq := 0\<rparr>"

definition row_revoked :: "row \<Rightarrow> datetime option" where
  "row_revoked row = dt_from_json (py_get row ''revoked_at'') None"

text \<open>What a row asks of the recorded constraints, and has once it is reconciled.\<close>

definition row_settled :: "(pystr, approved_constraint) dict \<Rightarrow> row \<Rightarrow> bool" where
  "row_settled d row = (row_id row = [] \<or> (case dict_get d (row_id row) of None \<Rightarrow> False
     | Some c \<Rightarrow> row_revoked row = None \<or> ac_revoked_at c \<noteq> None))"

lemma reconcile_row_Nil_iff: "reconcile_row p st d row = [] \<longleftrightarrow> row_settled d row"
  by (auto simp: reconcile_row_def row_settled_def row_revoked_def split: option.split)

lemma constraint_event_step:
  assumes "fs_contract u = pj_contract p" "unseq e = constraint_event p st k pl" "k \<notin> set CONTRACT_EXEMPT_KINDS"
  shows "fold_step t e u = on_kind t k e u" "e_payload e = pl"
proof -
  have e: "e_kind e = kind_str k" "e_contract e = pj_contract p" "e_source e = None" "e_payload e = pl"
    using arg_cong [OF assms(2), of e_kind] arg_cong [OF assms(2), of e_contract]
      arg_cong [OF assms(2), of e_source] arg_cong [OF assms(2), of e_payload]
    by (simp_all add: unseq_def constraint_event_def)
  then show "fold_step t e u = on_kind t k e u" "e_payload e = pl"
    using assms(1) by (simp_all add: fold_step_def cite_def)
qed

text \<open>One reconciled row: it changes at most its own constraint, and is settled afterwards.\<close>

lemma fold_reconciled_row:
  assumes u: "fs_contract u = pj_contract p" and es: "map unseq es = reconcile_row p st known row"
    and same: "dict_get (fs_constraints u) (row_id row) = dict_get known (row_id row)"
    and range: "\<And>d. row_revoked row = Some d \<Longrightarrow> in_range (instant d)"
  shows "fs_contract (fold (fold_step t) es u) = fs_contract u
    \<and> (\<forall>k. k \<noteq> row_id row \<longrightarrow>
          dict_get (fs_constraints (fold (fold_step t) es u)) k = dict_get (fs_constraints u) k)
    \<and> row_settled (fs_constraints (fold (fold_step t) es u)) row"
proof (cases "reconcile_row p st known row = []")
  case True
  with es same show ?thesis
    by (simp add: reconcile_row_Nil_iff) (simp add: row_settled_def)
next
  case False
  then have id: "row_id row \<noteq> []" and one: "length (reconcile_row p st known row) = 1"
    by (auto simp: reconcile_row_def split: option.splits if_splits)
  obtain e where e: "es = [e]" "unseq e = hd (reconcile_row p st known row)"
    using es one by (cases es) (auto dest: sym)
  show ?thesis
  proof (cases "dict_get known (row_id row)")
    case None
    with e id have ev: "unseq e = constraint_event p st K_CONSTRAINT_GRANTED (granted_payload p st row)"
      by (simp add: reconcile_row_def)
    have k: "K_CONSTRAINT_GRANTED \<notin> set CONTRACT_EXEMPT_KINDS" by (simp add: CONTRACT_EXEMPT_KINDS_def)
    obtain c where c: "constraint_from_dict (granted_payload p st row) = Some c" "ac_id c = row_id row"
      "ac_revoked_at c = dt_from_json (dt_to_json (row_revoked row)) None"
      using id by (auto simp: constraint_from_dict_def granted_payload_def row_revoked_def Let_def)
    have "ac_revoked_at c \<noteq> None \<or> row_revoked row = None"
    proof (rule disjCI)
      assume "row_revoked row \<noteq> None"
      then obtain d where d: "row_revoked row = Some d" by blast
      have "dt_from_json (dt_to_json (Some (to_utc d))) None = Some (to_utc d)"
        by (rule dt_json_roundtrip) (simp add: utc_ok_def to_utc_def range [OF d])
      moreover have "dt_to_json (Some (to_utc d)) = dt_to_json (Some d)"
        by (simp add: dt_to_json_def to_utc_def)
      ultimately show "ac_revoked_at c \<noteq> None" using c(3) d by simp
    qed
    with constraint_event_step(1) [OF u ev k, where t = t] constraint_event_step(2) [OF u ev k] c id e(1) show ?thesis
      by (auto simp: on_constraint_granted_def singleton_from_json update_conv' row_settled_def)
  next
    case (Some ex)
    with e id False have ev: "unseq e = constraint_event p st K_CONSTRAINT_REVOKED (revoked_payload ex row)"
      by (auto simp: reconcile_row_def split: if_splits)
    have k: "K_CONSTRAINT_REVOKED \<notin> set CONTRACT_EXEMPT_KINDS" by (simp add: CONTRACT_EXEMPT_KINDS_def)
    have cid: "text_of (py_get (revoked_payload ex row) ''constraint_id'') [] = row_id row"
      by (simp add: revoked_payload_def)
    from constraint_event_step(1) [OF u ev k, where t = t] constraint_event_step(2) [OF u ev k] Some id e(1) same cid show ?thesis
      by (auto simp: on_constraint_revoked_def update_conv' row_settled_def Let_def)
  qed
qed

lemma fold_reconciled_rows:
  assumes "fs_contract u = pj_contract p" "distinct (map row_id rows)"
    and "\<And>k. dict_get (fs_constraints u) k = dict_get known k"
    and "\<And>row d. row \<in> set rows \<Longrightarrow> row_revoked row = Some d \<Longrightarrow> in_range (instant d)"
  shows "map unseq es = concat (map (reconcile_row p st known) rows) \<Longrightarrow>
    fs_contract (fold (fold_step t) es u) = fs_contract u
    \<and> (\<forall>k. k \<notin> row_id ` set rows \<longrightarrow>
          dict_get (fs_constraints (fold (fold_step t) es u)) k = dict_get known k)
    \<and> (\<forall>row \<in> set rows. row_settled (fs_constraints (fold (fold_step t) es u)) row)"
  using assms
proof (induction rows arbitrary: es rule: rev_induct)
  case (snoc row rows)
  obtain es1 es2 where es: "es = es1 @ es2" "map unseq es1 = concat (map (reconcile_row p st known) rows)"
    "map unseq es2 = reconcile_row p st known row"
    using snoc.prems(1) by (auto simp: map_eq_append_conv)
  let ?u = "fold (fold_step t) es1 u" and ?v = "fold (fold_step t) es u"
  have IH: "fs_contract ?u = fs_contract u"
    "\<And>k. k \<notin> row_id ` set rows \<Longrightarrow> dict_get (fs_constraints ?u) k = dict_get known k"
    "\<And>r. r \<in> set rows \<Longrightarrow> row_settled (fs_constraints ?u) r"
    using snoc.IH [OF es(2)] snoc.prems by auto
  have new: "row_id row \<notin> row_id ` set rows" using snoc.prems(3) by auto
  have one: "fs_contract ?v = fs_contract ?u
    \<and> (\<forall>k. k \<noteq> row_id row \<longrightarrow> dict_get (fs_constraints ?v) k = dict_get (fs_constraints ?u) k)
    \<and> row_settled (fs_constraints ?v) row"
  proof -
    have "fs_contract ?u = pj_contract p" using IH(1) snoc.prems(2) by simp
    moreover have "dict_get (fs_constraints ?u) (row_id row) = dict_get known (row_id row)" by (rule IH(2) [OF new])
    moreover have "\<And>d. row_revoked row = Some d \<Longrightarrow> in_range (instant d)" by (rule snoc.prems(5) [of row]) simp_all
    ultimately show ?thesis using fold_reconciled_row [OF _ es(3), where u = ?u and t = t] by (simp add: es(1))
  qed
  have "row_settled (fs_constraints ?v) r" if "r \<in> set rows" for r
  proof -
    have "row_id r \<noteq> row_id row" using that new by (metis image_eqI)
    with one have "dict_get (fs_constraints ?v) (row_id r) = dict_get (fs_constraints ?u) (row_id r)" by blast
    with IH(3) [OF that] show ?thesis by (simp add: row_settled_def)
  qed
  with one IH show ?case by auto
qed simp

lemma dict_by_get:
  assumes "dict_keyed f d"
  shows "dict_get (dict_by f (sorted_values d)) k = dict_get d k"
proof -
  have v: "distinct (map f (sorted_values d))" by (rule dict_keyed_values [OF assms])
  have "dict_get (map (\<lambda>x. (f x, x)) (sorted_values d)) k = Some x \<longleftrightarrow> dict_get d k = Some x" for x
  proof -
    have "dict_get (map (\<lambda>x. (f x, x)) (sorted_values d)) k = Some x
        \<longleftrightarrow> x \<in> set (sorted_values d) \<and> f x = k"
      using v by (subst map_of_eq_Some_iff) (auto simp: comp_def)
    also have "\<dots> \<longleftrightarrow> dict_get d k = Some x"
      using dict_keyed_values(3) [OF assms] dict_keyed_get [OF assms] by auto
    finally show ?thesis .
  qed
  then show ?thesis by (metis dict_by_distinct [OF v] not_None_eq)
qed

lemma unseq_stamp: "map unseq (stamp_events h es) = map unseq es"
proof -
  have "map unseq (stamp_events h es) = map unseq (map snd (enumerate 1 es))"
    by (simp add: stamp_events_def unseq_def case_prod_beta comp_def del: map_snd_enumerate)
  then show ?thesis by simp
qed

section \<open>A fresh plan runs from its first step\<close>

definition fresh_chain :: "plan_step_state list \<Rightarrow> bool" where
  "fresh_chain steps = (map st_index steps = map (\<lambda>i. 1 + int i) [0..<length steps]
     \<and> list_all (\<lambda>s. st_status s = ''candidate'' \<and> st_depends_on s = chain_deps (st_index s)) steps)"

lemma candidate_norm: "norm_status ''candidate'' = ''candidate''"
  by code_simp

lemma candidate_not_terminal: "\<not> step_terminal ''candidate''"
  by code_simp

lemma fresh_chain_runs:
  assumes "fresh_chain steps" "steps \<noteq> []"
  shows "next_open_step (step_pairs steps) = Some 1" "root_status steps = R_ACTIVE"
proof -
  have idx: "map st_index steps = map (\<lambda>i. 1 + int i) [0..<length steps]"
    and cand: "\<And>s. s \<in> set steps \<Longrightarrow> st_status s = ''candidate''"
    using assms(1) by (auto simp: fresh_chain_def list_all_iff)
  have dist: "distinct (map st_index steps)"
    unfolding idx by (simp add: distinct_map inj_on_def)
  have sidx: "st_index ` set steps = (\<lambda>i. 1 + int i) ` {0..<length steps}"
    using arg_cong [OF idx, of set] by simp
  have ge: "1 \<le> st_index s" if "s \<in> set steps" for s
  proof -
    have "st_index s \<in> st_index ` set steps" using that by (rule imageI)
    then show ?thesis unfolding sidx by auto
  qed
  have "1 \<in> st_index ` set steps"
    unfolding sidx using assms(2) by (intro image_eqI [of _ _ 0]) auto
  then have one: "\<exists>s \<in> set steps. st_index s = 1" by auto
  have sp: "step_pairs steps = map (\<lambda>s. (st_index s, ''candidate'')) steps"
    by (simp add: step_pairs_def cand)
  have opn: "set (open_steps (step_pairs steps)) = (\<lambda>s. (st_index s, ''candidate'')) ` set steps"
    unfolding open_steps_def sp by (simp add: candidate_norm candidate_not_terminal image_image comp_def)
  obtain p r where pr: "open_steps (step_pairs steps) = p # r"
    using opn assms(2) by (cases "open_steps (step_pairs steps)") auto
  obtain s where s: "s \<in> set steps" "p = (st_index s, ''candidate'')"
    using open_steps_head(1) [OF pr] opn by auto
  obtain s1 where s1: "s1 \<in> set steps" "st_index s1 = 1" using one by blast
  have "(1, ''candidate'') \<in> set (open_steps (step_pairs steps))"
    unfolding opn using s1 by (intro image_eqI [of _ _ s1]) auto
  with open_steps_head(2) [OF pr] have "p \<le> (1, ''candidate'')" by blast
  with s ge [OF s(1)] have p: "p = (1, ''candidate'')" by (auto simp: less_eq_prod_def)
  then show nxt: "next_open_step (step_pairs steps) = Some 1"
    using pr by (simp add: next_open_step_def BLOCKING_STEP_STATUS_def)
  have norm: "\<And>s. s \<in> set steps \<Longrightarrow> st_norm s = ''candidate''" using cand by (simp add: st_norm_def candidate_norm)
  have "dict_get (map (\<lambda>s. (st_index s, st_norm s)) steps) k \<notin> {Some ''blocked'', Some ''dropped''}" for k
  proof (cases "dict_get (map (\<lambda>s. (st_index s, st_norm s)) steps) k")
    case (Some v)
    from map_of_SomeD [OF this] have "v = ''candidate''" using norm by auto
    with Some show ?thesis by simp
  qed simp
  then have "\<not> list_ex (step_stalled (status_by_index steps)) steps"
    unfolding status_by_index_distinct [OF dist] step_stalled_def list_ex_iff BLOCKING_STEP_STATUS_def
    by blast
  moreover have "\<not> list_ex (\<lambda>x. x = BLOCKING_STEP_STATUS) (map snd (status_by_index steps))"
    unfolding status_by_index_distinct [OF dist] list_ex_iff BLOCKING_STEP_STATUS_def using norm by auto
  ultimately show "root_status steps = R_ACTIVE"
    using assms(2) nxt by (simp add: root_status_def Let_def)
qed

lemma deterministic_plan_chain: "fresh_chain (deterministic_plan objective charter)"
proof -
  let ?t = "py_take (pc_max_steps charter) READ_ONLY_DIAGNOSIS_TEMPLATE"
  have "map st_index (deterministic_plan objective charter) = map int (map fst (enumerate 1 ?t))"
    by (simp add: deterministic_plan_def deterministic_step_def comp_def case_prod_beta del: map_fst_enumerate)
  also have "\<dots> = map (\<lambda>i. 1 + int i) [0..<length ?t]"
    by (simp add: map_Suc_upt [symmetric] del: upt_Suc map_Suc_upt)
  finally show ?thesis
    by (simp add: fresh_chain_def) (auto simp: deterministic_plan_def deterministic_step_def list_all_iff)
qed

lemma plan_steps_from_model_chain: "fresh_chain (plan_steps_from_model payload charter)"
proof -
  have "map ps_index (parse_plan_steps payload m) = map (\<lambda>i. 1 + int i) [0..<length (parse_plan_steps payload m)]" for m
    unfolding parse_plan_steps_def by (rule linearize_indices)
  then show ?thesis
    by (simp add: fresh_chain_def plan_steps_from_model_def model_step_def comp_def list_all_iff)
qed

section \<open>Properties\<close>

text \<open>
  Reconciliation is idempotent (task_state.py, reconcile_constraint_events): folding the events it
  produced for a session's permit rows leaves a projection for which it produces none.
\<close>

theorem reconcile_idempotent:
  assumes "fold_wf t s" "distinct (map row_id rows)"
    and "\<And>row d. row \<in> set rows \<Longrightarrow> row_revoked row = Some d \<Longrightarrow> in_range (instant d)"
    and "es = stamp_events h (reconcile_constraint_events (projection_of_state t w ow se r s) rows now)"
  shows "reconcile_constraint_events (projection_of_state t w ow se r' (fold (fold_step t) es s)) rows now' = []"
proof -
  let ?p = "projection_of_state t w ow se r s" and ?s = "fold (fold_step t) es s"
  let ?p' = "projection_of_state t w ow se r' ?s"
  have con [simp]: "pj_constraints (projection_of_state t w ow se q x) = sorted_values (fs_constraints x)" for q x
    by (simp add: projection_of_state_def Let_def)
  have known: "dict_get (dict_by ac_id (pj_constraints ?p)) k = dict_get (fs_constraints s) k" for k
    using dict_by_get [OF wf_keyed(1) [OF assms(1)]] by simp
  have wf': "fold_wf t ?s" by (rule task_fold.fold_inv) (rule assms(1))
  have "map unseq es = concat (map (reconcile_row ?p (aware now) (dict_by ac_id (pj_constraints ?p))) rows)"
    unfolding assms(4) unseq_stamp reconcile_constraint_events_def
    by (rule map_idI) (auto simp: reconcile_row_def constraint_event_def unseq_def split: option.splits if_splits)
  then have "\<forall>row \<in> set rows. row_settled (fs_constraints ?s) row"
    using fold_reconciled_rows [where u = s and t = t, OF _ assms(2)] known assms(3) by (metis projection_of_state_simps(4))
  moreover have "row_settled (dict_by ac_id (pj_constraints ?p')) row = row_settled (fs_constraints ?s) row" for row
    using dict_by_get [OF wf_keyed(1) [OF wf']] by (simp add: row_settled_def)
  ultimately show ?thesis
    by (simp add: reconcile_constraint_events_def reconcile_row_Nil_iff)
qed

theorem reconcile_idempotent_witness:
  "reconcile_constraint_events (projection_of_state ''T'' ''W'' ''O'' ''S'' 2 (fold (fold_step ''T'')
     (stamp_events 3 (reconcile_constraint_events (projection_of_state ''T'' ''W'' ''O'' ''S'' 1 fold_init)
        [[(''id'', PStr ''permit-1''), (''revoked_at'', PDate (Naive 0))]] (Aware 5 0))) fold_init))
     [[(''id'', PStr ''permit-1''), (''revoked_at'', PDate (Naive 0))]] (Aware 6 0) = []"
  by (rule reconcile_idempotent [OF fold_wf_init _ _ refl])
    (auto simp: row_revoked_def dt_from_json_def in_range_def MIN_T_def MAX_T_def)

text \<open>
  Both plan producers hand over a plan that runs (task_state.py, deterministic_plan and
  plan_steps_from_model): unless it is empty, its root status is active and the first step is the
  one to execute.
\<close>

theorem produced_plan_runs:
  assumes "steps = deterministic_plan objective charter \<or> steps = plan_steps_from_model payload charter"
    and "steps \<noteq> []"
  shows "root_status steps = R_ACTIVE \<and> next_open_step (step_pairs steps) = Some 1"
  using assms fresh_chain_runs deterministic_plan_chain plan_steps_from_model_chain by auto

theorem produced_plan_runs_witness:
  "root_status (deterministic_plan ''ship'' \<lparr>pc_max_steps = 2, pc_reason = []\<rparr>) = R_ACTIVE"
  by (rule produced_plan_runs [THEN conjunct1, of _ "''ship''" "\<lparr>pc_max_steps = 2, pc_reason = []\<rparr>"])
    (simp_all add: deterministic_plan_def READ_ONLY_DIAGNOSIS_TEMPLATE_def py_take_def)

text \<open>
  The deterministic plan is read-only (task_state.py, deterministic_plan): whatever the objective
  and the charter, no step is mutating, and under a charter made by \<open>charter_for_task\<close> it has
  between one and three steps, never more than the charter allows.
\<close>

theorem deterministic_plan_read_only:
  "list_all (\<lambda>s. \<not> st_mutating s) (deterministic_plan objective charter)
   \<and> (let n = length (deterministic_plan objective (charter_for_task k reason))
      in 1 \<le> n \<and> n \<le> 3 \<and> int n \<le> max 1 k)"
proof -
  have "length (deterministic_plan objective (charter_for_task k reason)) = min 3 (nat (max 1 (min 12 k)))"
    by (simp add: deterministic_plan_def charter_for_task_def py_take_def MAX_PLAN_STEPS_def
        READ_ONLY_DIAGNOSIS_TEMPLATE_def numeral_3_eq_3 le_max_iff_disj)
  then show ?thesis
    by (auto simp: deterministic_plan_def deterministic_step_def list_all_iff Let_def of_nat_min le_max_iff_disj)
qed

text \<open>
  A turn after a cancellation asks for a fresh plan (task_state.py, plan_input_revision): for one
  objective, policy and scope, the text that the input revision digests is the same only for the same
  contract revision and the same cancel epoch.
\<close>

theorem plan_input_distinguishes_epochs:
  "plan_input_raw h c policy scope epoch = plan_input_raw h c' policy scope epoch' \<longleftrightarrow> c = c' \<and> epoch = epoch'"
proof -
  have bar: "CHR ''|'' \<notin> set (str_int i)" for i
    using str_int_chars [of "CHR ''|''" i] by (auto simp: code_def)
  show ?thesis
    by (auto simp: plan_input_raw_def split_at_sep [OF bar bar] str_int_inj)
qed

text \<open>
  Restating the objective closes the previous contract (task_state.py,
  invalidation_for_objective_change and objective_set_required): the plan exists exactly when the
  contract moves; then a set of the objective is required unless the hash is blank, the new contract is
  the next one, every unrevoked constraint of an older contract is revoked, no other constraint is, and
  exactly the decisions still open are superseded.
\<close>

theorem invalidation_closes_contract:
  assumes "invalidation_for_objective_change p new_hash dirs jobs = Some ip"
  shows "ip_contract ip = pj_contract p + 1 \<and> new_hash \<notin> {None, Some [], pj_objective_hash p}
    \<and> (objective_set_required p new_hash \<or> blank (opt_or_empty new_hash))
    \<and> (\<forall>c \<in> set (pj_constraints p). ac_revoked_at c = None \<longrightarrow> ac_contract c \<le> pj_contract p \<longrightarrow>
          ac_id c \<in> set (ip_revoke_constraint_ids ip))
    \<and> set (ip_revoke_constraint_ids ip) \<subseteq> ac_id ` {c \<in> set (pj_constraints p). ac_revoked_at c = None}
    \<and> set (ip_supersede_decision_ids ip) = od_id ` {d \<in> set (pj_open_decisions p). \<not> od_superseded d}"
  using assms
  by (auto simp: invalidation_for_objective_change_def objective_contract_revision_def Let_def
      objective_set_required_def py_strip_Nil_iff split: if_splits)

theorem invalidation_closes_contract_witness:
  "\<exists>ip. invalidation_for_objective_change sample_projection (Some ''h3'') [''d1''] [] = Some ip \<and> ip_contract ip = 3"
proof -
  obtain ip where ip: "invalidation_for_objective_change sample_projection (Some ''h3'') [''d1''] [] = Some ip"
    by (simp add: invalidation_for_objective_change_def objective_contract_revision_def sample_projection_def)
  from invalidation_closes_contract [OF ip] have "ip_contract ip = pj_contract sample_projection + 1" by blast
  with ip show ?thesis by (auto simp: sample_projection_def)
qed

text \<open>
  A write is one fold ahead (task_state.py, prepare_write): the new events get the sequence
  numbers after the highest one, in order and otherwise unchanged; the projection is the fold of the
  whole log at the next revision.
\<close>

theorem prepare_write_stamps:
  "map e_seq (tw_events (prepare_write prior new t w ow se r h)) = map (\<lambda>i. h + 1 + int i) [0..<length new]
   \<and> map unseq (tw_events (prepare_write prior new t w ow se r h)) = map unseq new
   \<and> tw_next_revision (prepare_write prior new t w ow se r h) = r + 1
   \<and> pj_revision (tw_projection (prepare_write prior new t w ow se r h)) = r + 1
   \<and> tw_projection (prepare_write prior new t w ow se r h)
      = fr_projection (fold_task_state (prior @ stamp_events h new) t w ow se (r + 1) 2000)"
proof -
  have "map e_seq (stamp_events h new) = map (\<lambda>i. h + int i) (map fst (enumerate 1 new))"
    by (simp add: stamp_events_def comp_def case_prod_beta del: map_fst_enumerate)
  also have "\<dots> = map (\<lambda>i. h + 1 + int i) [0..<length new]"
    by (simp add: map_Suc_upt [symmetric] add.assoc del: upt_Suc map_Suc_upt)
  finally show ?thesis
    by (simp add: prepare_write_def Let_def unseq_stamp fold_projection MAX_TASK_STATE_EVENTS_PER_FOLD_def)
qed

end
