(* ===== verification/Plan_Rows.thy ===== *)
theory Plan_Rows
  imports Scope Task_Plan Effect_Journal
begin

text \<open>
  The scope a planning job carries, \<open>resolved_scope_to_json\<close> and \<open>resolved_scope_from_json\<close> of \<open>plan_rows.py\<close> (the Full
  and the Lite file have the same two functions).  The reader is total: a job of an older build must be claimable.
\<close>

definition resolved_scope_to_json :: "resolved_scope \<Rightarrow> (pystr \<times> py) list" where
  "resolved_scope_to_json sc =
     [(''workspace_id'', PStr (sc_workspace sc)), (''executor_id'', PStr (sc_executor sc)), (''owner_id'', PStr (sc_owner sc)),
      (''subject_user_id'', PStr (sc_subject sc)), (''project_id'', opt_py PStr (sc_project sc)),
      (''project_binding'', PStr (sc_binding sc)), (''task_id'', opt_py PStr (sc_task sc)),
      (''policy_revision'', PStr (sc_policy sc)), (''owner_ids'', PList (map PStr (sorted_set (sc_owners sc)))),
      (''continuity_intent'', PBool (sc_continuity sc)), (''source_session_id'', opt_py PStr (sc_source_session sc)),
      (''legacy_session_scope'', PBool (sc_legacy sc)), (''retention_days'', PInt (sc_retention sc))]"

definition scope_text :: "(pystr \<times> py) list \<Rightarrow> pystr \<Rightarrow> pystr \<Rightarrow> pystr" where
  "scope_text m k dflt = (case py_get m k of PNone \<Rightarrow> dflt | v \<Rightarrow> py_str v)"

definition scope_optional :: "(pystr \<times> py) list \<Rightarrow> pystr \<Rightarrow> pystr option" where
  "scope_optional m k = (case py_get m k of PNone \<Rightarrow> None | v \<Rightarrow> or_none (py_str v))"

text \<open>\<open>int(data.get("retention_days", 90))\<close>, 90 when it raises.\<close>

definition scope_retention :: "(pystr \<times> py) list \<Rightarrow> int" where
  "scope_retention m = (case map_of m ''retention_days'' of
       Some (PInt i) \<Rightarrow> i
     | Some (PBool b) \<Rightarrow> (if b then 1 else 0)
     | Some (PStr s) \<Rightarrow> (case py_int s of Some i \<Rightarrow> i | None \<Rightarrow> 90)
     | _ \<Rightarrow> 90)"

definition scope_owner_ids :: "pystr \<Rightarrow> py \<Rightarrow> pystr list" where
  "scope_owner_ids owner raw = (if owner \<noteq> [] then [owner] else [])
     @ (case raw of PList xs \<Rightarrow> filter (\<lambda>s. s \<noteq> []) (map py_str xs) | _ \<Rightarrow> [])"

definition resolved_scope_from_json :: "py \<Rightarrow> resolved_scope" where
  "resolved_scope_from_json raw = (let m = payload_mapping raw; owner = scope_text m ''owner_id'' [] in
     \<lparr>sc_workspace = scope_text m ''workspace_id'' [], sc_executor = scope_text m ''executor_id'' [], sc_owner = owner,
      sc_subject = scope_text m ''subject_user_id'' [], sc_project = scope_optional m ''project_id'',
      sc_binding = or_else (scope_text m ''project_binding'' PROJECT_UNBOUND) PROJECT_UNBOUND,
      sc_task = scope_optional m ''task_id'',
      sc_policy = or_else (scope_text m ''policy_revision'' SCOPE_POLICY_REVISION) SCOPE_POLICY_REVISION,
      sc_owners = scope_owner_ids owner (py_get m ''owner_ids''),
      sc_continuity = truthy (py_get m ''continuity_intent''), sc_source_session = scope_optional m ''source_session_id'',
      sc_legacy = truthy (py_get m ''legacy_session_scope''), sc_retention = scope_retention m\<rparr>)"

text \<open>Two scopes with the same owners, whatever the order.\<close>

definition same_scope :: "resolved_scope \<Rightarrow> resolved_scope \<Rightarrow> bool" where
  "same_scope a b = (set (sc_owners a) = set (sc_owners b) \<and> a\<lparr>sc_owners := []\<rparr> = b\<lparr>sc_owners := []\<rparr>)"

text \<open>What \<open>resolve_scope\<close> builds from an identity: texts that are given are not empty.\<close>

definition scope_wf :: "resolved_scope \<Rightarrow> bool" where
  "scope_wf sc = (opt_ok (sc_project sc) \<and> opt_ok (sc_task sc) \<and> opt_ok (sc_source_session sc)
     \<and> sc_binding sc \<noteq> [] \<and> sc_policy sc \<noteq> [] \<and> sc_owner sc \<in> set (sc_owners sc) \<and> [] \<notin> set (sc_owners sc))"

lemma scope_optional_enc: "opt_ok x \<Longrightarrow> (case opt_py PStr x of PNone \<Rightarrow> None | v \<Rightarrow> or_none (py_str v)) = x"
  by (cases x) (simp_all add: opt_ok_def or_none_def)

lemma resolved_scope_roundtrip:
  assumes "scope_wf sc"
  shows "same_scope (resolved_scope_from_json (PDict (resolved_scope_to_json sc))) sc"
proof -
  let ?m = "resolved_scope_to_json sc"
  have get: "py_get ?m ''workspace_id'' = PStr (sc_workspace sc)" "py_get ?m ''executor_id'' = PStr (sc_executor sc)"
    "py_get ?m ''owner_id'' = PStr (sc_owner sc)" "py_get ?m ''subject_user_id'' = PStr (sc_subject sc)"
    "py_get ?m ''project_id'' = opt_py PStr (sc_project sc)" "py_get ?m ''project_binding'' = PStr (sc_binding sc)"
    "py_get ?m ''task_id'' = opt_py PStr (sc_task sc)" "py_get ?m ''policy_revision'' = PStr (sc_policy sc)"
    "py_get ?m ''owner_ids'' = PList (map PStr (sorted_set (sc_owners sc)))" "py_get ?m ''continuity_intent'' = PBool (sc_continuity sc)"
    "py_get ?m ''source_session_id'' = opt_py PStr (sc_source_session sc)" "py_get ?m ''legacy_session_scope'' = PBool (sc_legacy sc)"
    "map_of ?m ''retention_days'' = Some (PInt (sc_retention sc))"
    by (simp_all add: resolved_scope_to_json_def)
  have opts: "scope_optional ?m ''project_id'' = sc_project sc" "scope_optional ?m ''task_id'' = sc_task sc"
    "scope_optional ?m ''source_session_id'' = sc_source_session sc"
    using assms by (simp_all add: scope_optional_def get scope_optional_enc scope_wf_def)
  have texts: "scope_text ?m ''workspace_id'' [] = sc_workspace sc" "scope_text ?m ''executor_id'' [] = sc_executor sc"
    "scope_text ?m ''owner_id'' [] = sc_owner sc" "scope_text ?m ''subject_user_id'' [] = sc_subject sc"
    "or_else (scope_text ?m ''project_binding'' PROJECT_UNBOUND) PROJECT_UNBOUND = sc_binding sc"
    "or_else (scope_text ?m ''policy_revision'' SCOPE_POLICY_REVISION) SCOPE_POLICY_REVISION = sc_policy sc"
    using assms by (simp_all add: scope_text_def get or_else_def scope_wf_def)
  have "set (scope_owner_ids (sc_owner sc) (PList (map PStr (sorted_set (sc_owners sc))))) = set (sc_owners sc)"
    using assms by (auto simp: scope_owner_ids_def scope_wf_def)
  moreover have "scope_retention ?m = sc_retention sc" by (simp add: scope_retention_def get)
  ultimately show ?thesis
    by (simp add: same_scope_def resolved_scope_from_json_def payload_mapping_def Let_def opts texts get truthy_def)
qed

end
