(* ===== verification/Planning_Jobs.thy ===== *)
theory Planning_Jobs
  imports Plan_Rows Charter_Store Directive_Transitions
begin

text \<open>
  The queue of planning jobs: \<open>planning_store.py\<close> of the Full backend (\<open>services/tce_api\<close>) and of Lite
  (\<open>services/tce_lite_api\<close>), and the failure ladder of the worker (\<open>tce_worker/jobs/planning.py\<close>).  A timestamp column is
  a datetime in Full and its text in Lite, so the row is polymorphic in it.
\<close>

record 't planning_job =
  pl_id :: pystr
  pl_workspace :: pystr
  pl_owner :: pystr
  pl_session :: pystr
  pl_task :: pystr
  pl_task_state :: pystr
  pl_kind :: pystr
  pl_key :: pystr
  pl_input :: pystr
  pl_contract :: int
  pl_hash :: "pystr option"
  pl_objective :: pystr
  pl_charter :: py
  pl_scope :: py
  pl_state :: pystr
  pl_lease_owner :: "pystr option"
  pl_lease_until :: "'t option"
  pl_attempts :: int
  pl_max :: int
  pl_next :: "'t option"
  pl_error :: "pystr option"
  pl_producer :: "pystr option"
  pl_result :: py
  pl_queue :: pystr
  pl_rq :: "pystr option"
  pl_cancel :: bool
  pl_created :: 't
  pl_updated :: 't

record enqueue_args =
  qa_workspace :: pystr
  qa_owner :: pystr
  qa_session :: pystr
  qa_task :: pystr
  qa_task_state :: pystr
  qa_kind :: pystr
  qa_input :: pystr
  qa_contract :: int
  qa_hash :: "pystr option"
  qa_objective :: pystr
  qa_charter :: plan_charter
  qa_scope :: resolved_scope
  qa_max :: int

definition PLANNING_JOB_REVIVABLE_STATES :: "pystr list" where
  "PLANNING_JOB_REVIVABLE_STATES = [''cancelled'', ''failed'']"

definition job_key :: "enqueue_args \<Rightarrow> pystr" where
  "job_key a = planning_idempotency_key (qa_kind a) (qa_workspace a) (qa_owner a) (qa_task a) (qa_input a)"

definition new_job :: "pystr \<Rightarrow> enqueue_args \<Rightarrow> pystr \<Rightarrow> pystr option \<Rightarrow> py \<Rightarrow> pystr \<Rightarrow> 't \<Rightarrow> 't planning_job" where
  "new_job uuid a state producer result queue stamp = \<lparr>pl_id = uuid, pl_workspace = qa_workspace a, pl_owner = qa_owner a,
     pl_session = qa_session a, pl_task = qa_task a, pl_task_state = qa_task_state a, pl_kind = qa_kind a, pl_key = job_key a,
     pl_input = qa_input a, pl_contract = qa_contract a, pl_hash = qa_hash a, pl_objective = qa_objective a,
     pl_charter = charter_to_json (qa_charter a), pl_scope = PDict (resolved_scope_to_json (qa_scope a)), pl_state = state,
     pl_lease_owner = None, pl_lease_until = None, pl_attempts = 0, pl_max = qa_max a, pl_next = None, pl_error = None,
     pl_producer = producer, pl_result = result, pl_queue = queue, pl_rq = None, pl_cancel = False, pl_created = stamp,
     pl_updated = stamp\<rparr>"

definition find_job :: "'t planning_job list \<Rightarrow> pystr \<Rightarrow> pystr \<Rightarrow> 't planning_job option" where
  "find_job jobs w key = find (\<lambda>j. pl_workspace j = w \<and> pl_key j = key) jobs"

text \<open>The reviving \<open>UPDATE\<close> on a row.\<close>

definition revive :: "'t \<Rightarrow> 't planning_job \<Rightarrow> 't planning_job" where
  "revive stamp j = j\<lparr>pl_state := ''pending'', pl_attempts := 0, pl_cancel := False, pl_next := None, pl_lease_owner := None,
     pl_lease_until := None, pl_error := None, pl_updated := stamp\<rparr>"

definition revives :: "pystr \<Rightarrow> 't planning_job \<Rightarrow> bool" where
  "revives job_id j = (pl_id j = job_id \<and> pl_state j \<in> {''cancelled'', ''failed''})"

definition update_where :: "('a \<Rightarrow> bool) \<Rightarrow> ('a \<Rightarrow> 'a) \<Rightarrow> 'a list \<Rightarrow> 'a list" where
  "update_where P f = map (\<lambda>x. if P x then f x else x)"

definition row_count :: "('a \<Rightarrow> bool) \<Rightarrow> 'a list \<Rightarrow> int" where
  "row_count P xs = int (length (filter P xs))"

definition get_planning_job :: "'t planning_job list \<Rightarrow> pystr \<Rightarrow> pystr \<Rightarrow> 't planning_job option" where
  "get_planning_job jobs w job_id = find (\<lambda>j. pl_workspace j = w \<and> pl_id j = job_id) jobs"

definition mark_queue_state :: "'t planning_job list \<Rightarrow> pystr \<Rightarrow> pystr \<Rightarrow> pystr option \<Rightarrow> 't planning_job list" where
  "mark_queue_state jobs job_id queue rq = update_where (\<lambda>j. pl_id j = job_id) (\<lambda>j. j\<lparr>pl_queue := queue, pl_rq := rq\<rparr>) jobs"

definition pending_planning_job_ids :: "'t planning_job list \<Rightarrow> pystr \<Rightarrow> pystr \<Rightarrow> pystr list" where
  "pending_planning_job_ids jobs w task =
     map pl_id (filter (\<lambda>j. pl_workspace j = w \<and> pl_task j = task \<and> pl_state j \<in> {''pending'', ''leased''}) jobs)"

text \<open>The leasing \<open>UPDATE\<close>, the fence of the completion and its \<open>UPDATE\<close> on a row.\<close>

definition lease_job :: "pystr \<Rightarrow> 't \<Rightarrow> 't \<Rightarrow> 't planning_job \<Rightarrow> 't planning_job" where
  "lease_job owner until stamp j = j\<lparr>pl_state := ''leased'', pl_lease_owner := Some owner, pl_lease_until := Some until,
     pl_attempts := pl_attempts j + 1, pl_updated := stamp\<rparr>"

definition holds_lease :: "pystr \<Rightarrow> pystr \<Rightarrow> 't planning_job \<Rightarrow> bool" where
  "holds_lease job_id owner j =
     (pl_id j = job_id \<and> pl_lease_owner j = Some owner \<and> pl_state j = ''leased'' \<and> \<not> pl_cancel j)"

definition finish_job :: "pystr \<Rightarrow> pystr option \<Rightarrow> py \<Rightarrow> pystr option \<Rightarrow> 't option \<Rightarrow> 't \<Rightarrow> 't planning_job \<Rightarrow> 't planning_job" where
  "finish_job state producer result error next stamp j = j\<lparr>pl_state := state, pl_producer := producer, pl_result := result,
     pl_error := error, pl_next := next, pl_lease_owner := None, pl_lease_until := None, pl_updated := stamp\<rparr>"

section \<open>Full\<close>

type_synonym full_job = "datetime planning_job"

text \<open>
  \<open>others n\<close> is what other transactions commit between two statements.  The call that finds a revivable row says
  that it created the job whether or not its \<open>UPDATE\<close> hits.
\<close>

definition full_enqueue :: "(nat \<Rightarrow> full_job list \<Rightarrow> full_job list) \<Rightarrow> full_job list \<Rightarrow> pystr \<Rightarrow> enqueue_args \<Rightarrow> pystr \<Rightarrow> pystr
    \<Rightarrow> pystr option \<Rightarrow> datetime \<Rightarrow> (pystr \<times> bool) \<times> full_job list" where
  "full_enqueue others jobs uuid a state queue producer now =
     (if find_job jobs (qa_workspace a) (job_key a) = None
      then ((uuid, True), jobs @ [new_job uuid a state producer (PDict []) queue now])
      else (let jobs1 = others 0 jobs in
        case find_job jobs1 (qa_workspace a) (job_key a) of
          None \<Rightarrow> (([], False), jobs1)
        | Some j \<Rightarrow>
            if pl_state j \<in> set PLANNING_JOB_REVIVABLE_STATES
            then ((pl_id j, True), update_where (revives (pl_id j)) (revive now) (others 1 jobs1))
            else ((pl_id j, False), jobs1)))"

definition full_latest_planning_job :: "full_job list \<Rightarrow> pystr \<Rightarrow> pystr \<Rightarrow> pystr \<Rightarrow> full_job option" where
  "full_latest_planning_job jobs w task kind =
     (case sort_key (\<lambda>j. - instant (pl_created j)) (filter (\<lambda>j. pl_workspace j = w \<and> pl_task j = task \<and> pl_kind j = kind) jobs) of
        [] \<Rightarrow> None | j # js \<Rightarrow> Some j)"

definition full_claimable :: "pystr option \<Rightarrow> datetime \<Rightarrow> full_job \<Rightarrow> bool" where
  "full_claimable job_id now j =
     ((case job_id of
         Some (c # cs) \<Rightarrow> pl_id j = c # cs
       | _ \<Rightarrow> pl_state j = ''pending'' \<and> (case pl_next j of None \<Rightarrow> True | Some t \<Rightarrow> instant t \<le> instant now))
      \<and> pl_state j = ''pending'' \<and> \<not> pl_cancel j)"

text \<open>\<open>locked\<close>: the rows other transactions hold, which \<open>SKIP LOCKED\<close> passes over.\<close>

definition full_claim :: "pystr set \<Rightarrow> full_job list \<Rightarrow> pystr option \<Rightarrow> pystr \<Rightarrow> int \<Rightarrow> datetime \<Rightarrow> int \<Rightarrow> full_job list \<times> full_job list" where
  "full_claim locked jobs job_id owner seconds now batch =
     (let claimed = take (nat (max 1 batch)) (sort_key (\<lambda>j. instant (pl_created j))
            (filter (\<lambda>j. full_claimable job_id now j \<and> pl_id j \<notin> locked) jobs));
          jobs1 = update_where (\<lambda>j. pl_id j \<in> pl_id ` set claimed) (lease_job owner (dt_plus_seconds now seconds) now) jobs
      in (filter (\<lambda>j. pl_id j \<in> pl_id ` set claimed) jobs1, jobs1))"

definition full_complete :: "full_job list \<Rightarrow> pystr \<Rightarrow> pystr \<Rightarrow> pystr \<Rightarrow> pystr option \<Rightarrow> py \<Rightarrow> pystr option \<Rightarrow> datetime option \<Rightarrow> datetime
    \<Rightarrow> bool \<times> full_job list" where
  "full_complete jobs job_id owner state producer result error next now =
     (row_count (holds_lease job_id owner) jobs = 1,
      update_where (holds_lease job_id owner) (\<lambda>j. finish_job state (coalesce producer (pl_producer j)) result error next now j) jobs)"

definition expired :: "datetime \<Rightarrow> full_job \<Rightarrow> bool" where
  "expired now j = (pl_state j = ''leased'' \<and> (case pl_lease_until j of None \<Rightarrow> False | Some t \<Rightarrow> instant t < instant now)
     \<and> pl_attempts j < pl_max j)"

definition exhausted :: "full_job \<Rightarrow> bool" where
  "exhausted j = (pl_state j \<in> {''pending'', ''leased''} \<and> pl_max j \<le> pl_attempts j)"

definition full_sweep_planning_jobs :: "full_job list \<Rightarrow> datetime \<Rightarrow> (int \<times> int) \<times> full_job list" where
  "full_sweep_planning_jobs jobs now =
     (let jobs1 = update_where (expired now) (\<lambda>j. j\<lparr>pl_state := ''pending'', pl_lease_owner := None, pl_lease_until := None, pl_updated := now\<rparr>) jobs;
          jobs2 = update_where exhausted (\<lambda>j. j\<lparr>pl_state := ''discarded'', pl_lease_owner := None, pl_lease_until := None,
            pl_error := coalesce (pl_error j) (Some ''max_attempts_exhausted''), pl_updated := now\<rparr>) jobs1
      in ((row_count (expired now) jobs, row_count exhausted jobs1), jobs2))"

section \<open>Lite\<close>

type_synonym lite_job = "pystr planning_job"

text \<open>Under the write lock; the deterministic planner runs at once and the row is written succeeded.\<close>

definition lite_enqueue :: "lite_job list \<Rightarrow> pystr \<Rightarrow> enqueue_args \<Rightarrow> datetime \<Rightarrow> (pystr \<times> bool) \<times> lite_job list" where
  "lite_enqueue jobs uuid a now =
     (let stamp = isoformat now in
      case find_job jobs (qa_workspace a) (job_key a) of
        Some j \<Rightarrow>
          if pl_state j \<in> set PLANNING_JOB_REVIVABLE_STATES \<and> row_count (revives (pl_id j)) jobs = 1
          then ((pl_id j, True), update_where (revives (pl_id j)) (revive stamp) jobs)
          else if pl_state j \<in> set PLANNING_JOB_REVIVABLE_STATES
          then ((pl_id j, False), update_where (revives (pl_id j)) (revive stamp) jobs)
          else ((pl_id j, False), jobs)
      | None \<Rightarrow> ((uuid, True), jobs @ [new_job uuid a ''succeeded'' (Some PLANNING_PRODUCER_DETERMINISTIC)
          (PDict [(''steps'', plan_steps_to_json (deterministic_plan (qa_objective a) (qa_charter a)))]) ''inline'' stamp]))"

definition lite_latest_planning_job :: "lite_job list \<Rightarrow> pystr \<Rightarrow> pystr \<Rightarrow> pystr \<Rightarrow> lite_job option" where
  "lite_latest_planning_job jobs w task kind =
     (case sort_key pl_created (filter (\<lambda>j. pl_workspace j = w \<and> pl_task j = task \<and> pl_kind j = kind) jobs) of
        [] \<Rightarrow> None | j # js \<Rightarrow> Some (last (j # js)))"

definition lite_claimable :: "pystr option \<Rightarrow> pystr \<Rightarrow> lite_job \<Rightarrow> bool" where
  "lite_claimable job_id stamp j =
     (\<not> pl_cancel j \<and> pl_attempts j < pl_max j \<and> (case pl_next j of None \<Rightarrow> True | Some t \<Rightarrow> t \<le> stamp)
      \<and> (pl_state j \<in> {''pending'', ''failed''}
         \<or> pl_state j = ''leased'' \<and> (case pl_lease_until j of None \<Rightarrow> False | Some t \<Rightarrow> t < stamp))
      \<and> (case job_id of None \<Rightarrow> True | Some i \<Rightarrow> pl_id j = i))"

text \<open>A negative \<open>LIMIT\<close> is none.\<close>

definition lite_limit :: "int \<Rightarrow> 'a list \<Rightarrow> 'a list" where
  "lite_limit n xs = (if n < 0 then xs else take (nat n) xs)"

fun lite_claim_each :: "pystr \<Rightarrow> pystr \<Rightarrow> pystr \<Rightarrow> pystr list \<Rightarrow> lite_job list \<Rightarrow> lite_job list \<times> lite_job list" where
  "lite_claim_each owner until stamp [] jobs = ([], jobs)"
| "lite_claim_each owner until stamp (i # is) jobs =
     (let jobs1 = update_where (\<lambda>j. pl_id j = i) (lease_job owner until stamp) jobs;
          (claimed, jobs2) = lite_claim_each owner until stamp is jobs1
      in if row_count (\<lambda>j. pl_id j = i) jobs \<noteq> 1 then (claimed, jobs2)
         else (case find (\<lambda>j. pl_id j = i) jobs1 of None \<Rightarrow> (claimed, jobs2) | Some j \<Rightarrow> (j # claimed, jobs2)))"

definition lite_claim :: "lite_job list \<Rightarrow> pystr option \<Rightarrow> pystr \<Rightarrow> int \<Rightarrow> datetime \<Rightarrow> int \<Rightarrow> lite_job list \<times> lite_job list" where
  "lite_claim jobs job_id owner seconds now batch =
     (let stamp = isoformat now in
      lite_claim_each owner (isoformat (dt_plus_seconds now seconds)) stamp
        (map pl_id (lite_limit batch (sort_key pl_created (filter (lite_claimable job_id stamp) jobs)))) jobs)"

definition lite_complete :: "lite_job list \<Rightarrow> pystr \<Rightarrow> pystr \<Rightarrow> pystr \<Rightarrow> pystr option \<Rightarrow> py \<Rightarrow> pystr option \<Rightarrow> datetime option \<Rightarrow> datetime
    \<Rightarrow> bool \<times> lite_job list" where
  "lite_complete jobs job_id owner state producer result error next now =
     (row_count (holds_lease job_id owner) jobs = 1,
      update_where (holds_lease job_id owner) (finish_job state producer result error (map_option isoformat next) (isoformat now)) jobs)"

definition lite_expired :: "pystr \<Rightarrow> lite_job \<Rightarrow> bool" where
  "lite_expired stamp j = (pl_state j = ''leased'' \<and> (case pl_lease_until j of None \<Rightarrow> False | Some t \<Rightarrow> t < stamp)
     \<and> pl_attempts j < pl_max j)"

text \<open>\<open>tasks\<close>: the workspace and the id of every row of \<open>task_states\<close>.\<close>

definition orphan :: "(pystr \<times> pystr) list \<Rightarrow> lite_job \<Rightarrow> bool" where
  "orphan tasks j = (pl_state j \<in> {''pending'', ''leased''} \<and> (pl_workspace j, pl_task j) \<notin> set tasks)"

definition lite_sweep_planning_jobs :: "(pystr \<times> pystr) list \<Rightarrow> lite_job list \<Rightarrow> datetime \<Rightarrow> (int \<times> int) \<times> lite_job list" where
  "lite_sweep_planning_jobs tasks jobs now =
     (let stamp = isoformat now;
          jobs1 = update_where (lite_expired stamp)
            (\<lambda>j. j\<lparr>pl_state := ''pending'', pl_lease_owner := None, pl_lease_until := None, pl_updated := stamp\<rparr>) jobs;
          jobs2 = update_where (orphan tasks) (\<lambda>j. j\<lparr>pl_state := ''discarded'', pl_error := Some ''task_state_missing'', pl_updated := stamp\<rparr>) jobs1
      in ((row_count (lite_expired stamp) jobs, row_count (orphan tasks) jobs1), jobs2))"

section \<open>The worker's failure ladder\<close>

definition backoff :: "int \<Rightarrow> int \<Rightarrow> datetime \<Rightarrow> datetime" where
  "backoff cap attempts now = dt_plus_seconds now (min cap (5 * 2 ^ nat (max 0 (attempts - 1))))"

text \<open>\<open>row\<close> is the job as the claim returned it; an attempt limit of 0 reads as 3.\<close>

definition worker_fail :: "full_job list \<Rightarrow> full_job \<Rightarrow> pystr \<Rightarrow> int \<Rightarrow> datetime \<Rightarrow> pystr \<Rightarrow> bool \<times> full_job list" where
  "worker_fail jobs row owner cap now error =
     (let limit = (if pl_max row = 0 then 3 else pl_max row) in
      full_complete jobs (pl_id row) owner ''failed'' None (PDict [(''reason'', PStr error)]) (Some error)
        (if limit \<le> pl_attempts row then None else Some (backoff cap (pl_attempts row) now)) now)"

section \<open>Cancellation\<close>

text \<open>The \<open>UPDATE\<close> of \<open>cancel_task\<close> on the jobs of a task, in either backend.\<close>

definition cancel_jobs :: "pystr \<Rightarrow> pystr \<Rightarrow> 't \<Rightarrow> 't planning_job list \<Rightarrow> 't planning_job list" where
  "cancel_jobs w task stamp = update_where (\<lambda>j. pl_workspace j = w \<and> pl_task j = task \<and> pl_state j \<in> {''pending'', ''leased''})
     (\<lambda>j. j\<lparr>pl_cancel := True, pl_state := ''cancelled'', pl_updated := stamp\<rparr>)"

section \<open>Invalidation\<close>

text \<open>
  What an objective change does to the jobs its plan names: one \<open>UPDATE\<close> over the ids in Full
  (main.py, \<open>_apply_invalidation_side_effects\<close>), one a job in Lite (store.py, \<open>_apply_invalidation_lite\<close>).  Neither names
  a state.
\<close>

definition full_discard_jobs :: "pystr list \<Rightarrow> datetime \<Rightarrow> full_job list \<Rightarrow> full_job list" where
  "full_discard_jobs ids now jobs = (if ids = [] then jobs
     else update_where (\<lambda>j. pl_id j \<in> set ids) (\<lambda>j. j\<lparr>pl_cancel := True, pl_state := ''cancelled'', pl_updated := now\<rparr>) jobs)"

definition lite_discard_job :: "pystr \<Rightarrow> pystr \<Rightarrow> pystr \<Rightarrow> lite_job list \<Rightarrow> lite_job list" where
  "lite_discard_job reason stamp job_id = update_where (\<lambda>j. pl_id j = job_id)
     (\<lambda>j. j\<lparr>pl_state := ''discarded'', pl_cancel := True, pl_error := Some reason, pl_updated := stamp\<rparr>)"

definition lite_discard_jobs :: "pystr list \<Rightarrow> pystr \<Rightarrow> pystr \<Rightarrow> lite_job list \<Rightarrow> lite_job list" where
  "lite_discard_jobs ids reason stamp jobs = fold (lite_discard_job reason stamp) ids jobs"

end
