(* ===== verification/Planning_Facts.thy ===== *)
theory Planning_Facts
  imports Planning_Jobs
begin

text \<open>
  The planning queue of Full as a step relation, one step a statement: what always holds of its rows, who can take a
  lease away, and which rows nobody takes up again.  Then Lite's queue, whose jobs are all done when they are written.
\<close>

section \<open>Updates\<close>

lemma update_where_simps [simp]:
  "update_where P f [] = []" "update_where P f (x # xs) = (if P x then f x else x) # update_where P f xs"
  "update_where P f (xs @ ys) = update_where P f xs @ update_where P f ys" "length (update_where P f xs) = length xs"
  by (simp_all add: update_where_def)

lemma update_where_keeps: "(\<And>x. g (f x) = g x) \<Longrightarrow> map g (update_where P f xs) = map g xs"
  by (induction xs) simp_all

lemma update_where_all: "list_all Q xs \<Longrightarrow> (\<And>x. Q x \<Longrightarrow> P x \<Longrightarrow> Q (f x)) \<Longrightarrow> list_all Q (update_where P f xs)"
  by (induction xs) simp_all

lemma update_where_miss: "x \<in> set xs \<Longrightarrow> \<not> P x \<Longrightarrow> x \<in> set (update_where P f xs)"
  by (force simp: update_where_def)

lemma update_where_hit: "x \<in> set xs \<Longrightarrow> (if P x then f x else x) \<in> set (update_where P f xs)"
  by (auto simp: update_where_def)

lemma update_where_apply: "x \<in> set xs \<Longrightarrow> P x \<Longrightarrow> f x \<in> set (update_where P f xs)"
  using update_where_hit [of x xs P f] by simp

section \<open>The queue of Full\<close>

datatype queue_op = Inserted | Revived pystr | Claimed | Completed pystr pystr | Swept datetime | Cancelled pystr pystr | Discarded "pystr list" | Marked

inductive queue_step :: "queue_op \<Rightarrow> full_job list \<Rightarrow> full_job list \<Rightarrow> bool" where
  inserted: "find_job jobs (qa_workspace a) (job_key a) = None \<Longrightarrow> uuid \<notin> pl_id ` set jobs \<Longrightarrow> 1 \<le> qa_max a \<Longrightarrow> state \<noteq> ''leased''
    \<Longrightarrow> queue_step Inserted jobs (jobs @ [new_job uuid a state producer result queue now])"
| revived: "queue_step (Revived i) jobs (update_where (revives i) (revive now) jobs)"
| claimed: "full_claim locked jobs job_id owner seconds now batch = (rows, jobs') \<Longrightarrow> queue_step Claimed jobs jobs'"
| completed: "full_complete jobs job_id owner state producer result error nxt now = (won, jobs') \<Longrightarrow> state \<notin> {''pending'', ''leased''}
    \<Longrightarrow> queue_step (Completed job_id owner) jobs jobs'"
| swept: "full_sweep_planning_jobs jobs now = (counts, jobs') \<Longrightarrow> queue_step (Swept now) jobs jobs'"
| cancelled: "queue_step (Cancelled w task) jobs (cancel_jobs w task now jobs)"
| discarded: "queue_step (Discarded ids) jobs (full_discard_jobs ids now jobs)"
| marked: "queue_step Marked jobs (mark_queue_state jobs job_id queue rq)"

inductive_cases queue_stepE: "queue_step op jobs jobs'"

inductive queue_run :: "queue_op list \<Rightarrow> full_job list \<Rightarrow> full_job list \<Rightarrow> bool" where
  done_run: "queue_run [] jobs jobs"
| step_run: "queue_step op jobs jobs1 \<Longrightarrow> queue_run ops jobs1 jobs' \<Longrightarrow> queue_run (op # ops) jobs jobs'"

definition job_ok :: "'t planning_job \<Rightarrow> bool" where
  "job_ok j = (0 \<le> pl_attempts j \<and> pl_attempts j \<le> pl_max j \<and> 1 \<le> pl_max j
     \<and> (pl_state j = ''pending'' \<longrightarrow> pl_attempts j < pl_max j)
     \<and> (pl_state j = ''leased'' \<longrightarrow> pl_lease_owner j \<noteq> None \<and> pl_lease_until j \<noteq> None \<and> 1 \<le> pl_attempts j))"

definition job_slot :: "'t planning_job \<Rightarrow> pystr \<times> pystr" where
  "job_slot j = (pl_workspace j, pl_key j)"

definition queue_ok :: "'t planning_job list \<Rightarrow> bool" where
  "queue_ok jobs = (list_all job_ok jobs \<and> distinct (map pl_id jobs) \<and> distinct (map job_slot jobs))"

lemma job_keeps [simp]:
  "pl_id (revive t j) = pl_id j" "job_slot (revive t j) = job_slot j" "pl_id (lease_job ow u t j) = pl_id j"
  "job_slot (lease_job ow u t j) = job_slot j" "pl_id (finish_job st p r e nx t j) = pl_id j" "job_slot (finish_job st p r e nx t j) = job_slot j"
  by (simp_all add: revive_def lease_job_def finish_job_def job_slot_def)

lemma revive_ok: "job_ok j \<Longrightarrow> job_ok (revive t j)"
  by (simp add: job_ok_def revive_def)

lemma lease_ok: "job_ok j \<Longrightarrow> pl_state j = ''pending'' \<Longrightarrow> job_ok (lease_job ow u t j)"
  by (simp add: job_ok_def lease_job_def)

lemma finish_ok: "job_ok j \<Longrightarrow> st \<notin> {''pending'', ''leased''} \<Longrightarrow> job_ok (finish_job st p r e nx t j)"
  by (simp add: job_ok_def finish_job_def)

lemma find_job_None: "find_job jobs w key = None \<longleftrightarrow> (w, key) \<notin> job_slot ` set jobs"
  by (auto simp: find_job_def find_None_iff job_slot_def)

text \<open>The rows a claim leases.\<close>

lemma full_claim_leases:
  assumes "full_claim locked jobs job_id owner seconds now batch = (rows, jobs')"
  obtains ids where "jobs' = update_where (\<lambda>j. pl_id j \<in> ids) (lease_job owner (dt_plus_seconds now seconds) now) jobs"
    "rows = filter (\<lambda>j. pl_id j \<in> ids) jobs'" "\<forall>i \<in> ids. \<exists>j \<in> set jobs. pl_id j = i \<and> pl_state j = ''pending'' \<and> \<not> pl_cancel j"
proof -
  let ?claimed = "take (nat (max 1 batch)) (sort_key (\<lambda>j. instant (pl_created j))
            (filter (\<lambda>j. full_claimable job_id now j \<and> pl_id j \<notin> locked) jobs))"
  have "\<exists>j \<in> set jobs. pl_id j = i \<and> pl_state j = ''pending'' \<and> \<not> pl_cancel j" if "i \<in> pl_id ` set ?claimed" for i
    using that by (auto simp: full_claimable_def dest!: in_set_takeD)
  then show ?thesis using that [of "pl_id ` set ?claimed"] assms by (simp add: full_claim_def Let_def) blast
qed

lemma same_id: "queue_ok jobs \<Longrightarrow> x \<in> set jobs \<Longrightarrow> y \<in> set jobs \<Longrightarrow> pl_id x = pl_id y \<Longrightarrow> x = y"
  by (auto simp: queue_ok_def distinct_map dest: inj_onD)

lemma update_queue_ok:
  assumes "queue_ok jobs" "\<And>j. j \<in> set jobs \<Longrightarrow> P j \<Longrightarrow> job_ok j \<Longrightarrow> job_ok (f j)" "\<And>j. pl_id (f j) = pl_id j" "\<And>j. job_slot (f j) = job_slot j"
  shows "queue_ok (update_where P f jobs)"
proof -
  have "list_all job_ok (update_where P f jobs)" using assms(1,2) by (auto simp: queue_ok_def list_all_iff update_where_def)
  then show ?thesis using assms(1) by (simp add: queue_ok_def update_where_keeps [where g = pl_id, OF assms(3)] update_where_keeps [where g = job_slot, OF assms(4)])
qed

lemma queue_step_ok: "queue_step op jobs jobs' \<Longrightarrow> queue_ok jobs \<Longrightarrow> queue_ok jobs'"
proof (induction rule: queue_step.induct)
  case (inserted jobs a uuid state producer result queue now)
  have "job_ok (new_job uuid a state producer result queue now)" using inserted by (simp add: job_ok_def new_job_def)
  moreover have "job_slot (new_job uuid a state producer result queue now) = (qa_workspace a, job_key a)" "pl_id (new_job uuid a state producer result queue now) = uuid"
    by (simp_all add: job_slot_def new_job_def)
  ultimately show ?case using inserted by (simp add: queue_ok_def find_job_None)
next
  case (revived i jobs now)
  then show ?case by (intro update_queue_ok) (simp_all add: revive_ok)
next
  case (claimed locked jobs job_id owner seconds now batch rows jobs')
  from full_claim_leases [OF claimed(1)] obtain ids where ids:
    "jobs' = update_where (\<lambda>j. pl_id j \<in> ids) (lease_job owner (dt_plus_seconds now seconds) now) jobs"
    "\<forall>i \<in> ids. \<exists>j \<in> set jobs. pl_id j = i \<and> pl_state j = ''pending'' \<and> \<not> pl_cancel j" by metis
  have "job_ok (lease_job owner (dt_plus_seconds now seconds) now j)" if "j \<in> set jobs" "pl_id j \<in> ids" "job_ok j" for j
  proof -
    obtain k where "k \<in> set jobs" "pl_id k = pl_id j" "pl_state k = ''pending''" using ids(2) \<open>pl_id j \<in> ids\<close> by blast
    then have "pl_state j = ''pending''" using same_id [OF claimed(2)] that(1) by metis
    with that(3) show ?thesis by (simp add: lease_ok)
  qed
  then show ?case unfolding ids(1) using claimed(2) by (intro update_queue_ok) simp_all
next
  case (completed jobs job_id owner state producer result error nxt now won jobs')
  then have "jobs' = update_where (holds_lease job_id owner) (\<lambda>j. finish_job state (coalesce producer (pl_producer j)) result error nxt now j) jobs"
    by (simp add: full_complete_def)
  then show ?case using completed by (simp only:) (intro update_queue_ok, simp_all add: finish_ok)
next
  case (swept jobs now counts jobs')
  have "queue_ok (update_where (expired now) (\<lambda>j. j\<lparr>pl_state := ''pending'', pl_lease_owner := None, pl_lease_until := None, pl_updated := now\<rparr>) jobs)"
    using swept(2) by (intro update_queue_ok) (simp_all add: job_ok_def expired_def job_slot_def)
  then have "queue_ok (snd (full_sweep_planning_jobs jobs now))"
    unfolding full_sweep_planning_jobs_def Let_def snd_conv by (rule update_queue_ok) (simp_all add: job_ok_def job_slot_def)
  then show ?case using swept(1) by simp
next
  case (cancelled w task jobs now)
  then show ?case unfolding cancel_jobs_def by (intro update_queue_ok) (simp_all add: job_ok_def job_slot_def)
next
  case (discarded ids jobs now)
  then have "queue_ok (update_where (\<lambda>j. pl_id j \<in> set ids) (\<lambda>j. j\<lparr>pl_cancel := True, pl_state := ''cancelled'', pl_updated := now\<rparr>) jobs)"
    by (intro update_queue_ok) (simp_all add: job_ok_def job_slot_def)
  with discarded show ?case by (simp add: full_discard_jobs_def)
next
  case (marked jobs job_id queue rq)
  then show ?case unfolding mark_queue_state_def by (intro update_queue_ok) (simp_all add: job_ok_def job_slot_def)
qed

lemma queue_run_ok: "queue_run ops jobs jobs' \<Longrightarrow> queue_ok jobs \<Longrightarrow> queue_ok jobs'"
  by (induction rule: queue_run.induct) (blast intro: queue_step_ok)+

section \<open>A row that a run leaves alone\<close>

text \<open>\<open>K\<close> is kept by every step of the run on the row with this id.\<close>

lemma run_keeps_row:
  assumes "queue_run ops jobs jobs'" "queue_ok jobs" "j \<in> set jobs" "pl_id j = i" "K j"
    and "\<And>op a b x. op \<in> set ops \<Longrightarrow> queue_step op a b \<Longrightarrow> queue_ok a \<Longrightarrow> x \<in> set a \<Longrightarrow> pl_id x = i \<Longrightarrow> K x \<Longrightarrow> \<exists>y \<in> set b. pl_id y = i \<and> K y"
  shows "\<exists>y \<in> set jobs'. pl_id y = i \<and> K y"
  using assms
proof (induction arbitrary: j rule: queue_run.induct)
  case (done_run jobs)
  then show ?case by blast
next
  case (step_run op jobs jobs1 ops jobs')
  obtain y where "y \<in> set jobs1" "pl_id y = i" "K y"
    using step_run.prems(5) [OF _ step_run.hyps(1) step_run.prems(1-4)] by auto
  moreover have "queue_ok jobs1" using queue_step_ok step_run by blast
  ultimately show ?case using step_run.IH [of y] step_run.prems(5) by (metis list.set_intros(2))
qed

lemma row_after:
  assumes "x \<in> set jobs" "pl_id x = i" "K x" "P x \<Longrightarrow> pl_id (f x) = i \<and> K (f x)"
  shows "\<exists>y \<in> set (update_where P f jobs). pl_id y = i \<and> K y"
  using assms update_where_hit [of x jobs P f] by (cases "P x") auto



lemma step_keeps_failed:
  assumes "queue_step op a b" "queue_ok a" "x \<in> set a" "pl_id x = i" "pl_state x \<in> {''failed'', ''cancelled''}" "op \<noteq> Revived i"
  shows "\<exists>y \<in> set b. pl_id y = i \<and> pl_state y \<in> {''failed'', ''cancelled''}"
  using assms(1)
proof (cases rule: queue_step.cases)
  case (claimed locked job_id ow seconds now batch rows)
  from full_claim_leases [OF claimed(2)] obtain ids where ids:
    "b = update_where (\<lambda>j. pl_id j \<in> ids) (lease_job ow (dt_plus_seconds now seconds) now) a"
    "\<forall>i \<in> ids. \<exists>j \<in> set a. pl_id j = i \<and> pl_state j = ''pending'' \<and> \<not> pl_cancel j" by metis
  have "pl_id x \<notin> ids"
  proof
    assume "pl_id x \<in> ids"
    then obtain k where "k \<in> set a" "pl_id k = pl_id x" "pl_state k = ''pending''" using ids(2) by blast
    moreover from this have "k = x" using same_id [OF assms(2) _ assms(3)] by blast
    ultimately show False using assms(5) by auto
  qed
  then have "x \<in> set b" unfolding ids(1) using assms(3) by (intro update_where_miss)
  then show ?thesis using assms(4,5) by blast
next
  case (completed job_id ow state producer result error nxt now won)
  have "\<not> holds_lease job_id ow x" using assms(5) by (auto simp: holds_lease_def)
  then have "x \<in> set b" using completed(2) assms(3) by (auto simp: full_complete_def intro: update_where_miss)
  then show ?thesis using assms(4,5) by blast
next
  case (swept now counts)
  have "\<not> expired now x" "\<not> exhausted x" using assms(5) by (auto simp: expired_def exhausted_def)
  then have "x \<in> set (snd (full_sweep_planning_jobs a now))"
    using assms(3) by (simp add: full_sweep_planning_jobs_def Let_def update_where_miss)
  then show ?thesis using assms(4,5) swept(2) by auto
next
  case (marked job_id queue rq)
  then show ?thesis unfolding mark_queue_state_def using assms(3-5) by (auto intro!: row_after)
next
  case (revived j now)
  then show ?thesis using assms(3-6) update_where_miss [of x a "revives j"] by (auto simp: revives_def)
next
  case (cancelled w task now)
  then show ?thesis unfolding cancel_jobs_def using assms(3-5) update_where_miss [of x a] by auto
next
  case (discarded ids now)
  then show ?thesis using assms(3-5) unfolding full_discard_jobs_def by (auto intro!: row_after)
qed (use assms(3-5) in auto)

lemma failed_not_claimed:
  assumes "queue_ok jobs" "x \<in> set jobs" "pl_state x \<in> {''failed'', ''cancelled''}" "full_claim locked jobs job_id owner seconds now batch = (rows, jobs')"
  shows "pl_id x \<notin> pl_id ` set rows"
proof
  assume "pl_id x \<in> pl_id ` set rows"
  from full_claim_leases [OF assms(4)] obtain ids where "rows = filter (\<lambda>j. pl_id j \<in> ids) jobs'"
    "\<forall>i \<in> ids. \<exists>j \<in> set jobs. pl_id j = i \<and> pl_state j = ''pending'' \<and> \<not> pl_cancel j" by metis
  with \<open>pl_id x \<in> pl_id ` set rows\<close> obtain k where "k \<in> set jobs" "pl_id k = pl_id x" "pl_state k = ''pending''" by auto
  moreover from this have "k = x" using same_id [OF assms(1) _ assms(2)] by blast
  ultimately show False using assms(3) by auto
qed

text \<open>The sweep also discards a job whose last attempt is running under a live lease; the worker's completion then misses.\<close>

lemma sweep_discards_running_last_attempt:
  assumes "j \<in> set jobs" "pl_state j = ''leased''" "pl_max j \<le> pl_attempts j" "\<not> expired now j"
  shows "\<exists>j' \<in> set (snd (full_sweep_planning_jobs jobs now)). pl_id j' = pl_id j \<and> pl_state j' = ''discarded''"
proof -
  let ?jobs = "update_where (expired now) (\<lambda>j. j\<lparr>pl_state := ''pending'', pl_lease_owner := None, pl_lease_until := None, pl_updated := now\<rparr>) jobs"
  have "j \<in> set ?jobs" using assms(1,4) by (rule update_where_miss)
  moreover have "exhausted j" using assms(2,3) by (simp add: exhausted_def)
  ultimately show ?thesis
    unfolding full_sweep_planning_jobs_def Let_def snd_conv
    by (intro bexI [OF _ update_where_apply]) (assumption | simp)+
qed

section \<open>Lite's queue\<close>

inductive lite_queue_step :: "lite_job list \<Rightarrow> lite_job list \<Rightarrow> bool" where
  lite_enqueued: "lite_enqueue jobs uuid a now = (r, jobs') \<Longrightarrow> lite_queue_step jobs jobs'"
| lite_claimed: "lite_claim jobs job_id owner seconds now batch = (rows, jobs') \<Longrightarrow> lite_queue_step jobs jobs'"
| lite_completed: "lite_complete jobs job_id owner state producer result error nxt now = (won, jobs') \<Longrightarrow> lite_queue_step jobs jobs'"
| lite_swept: "lite_sweep_planning_jobs tasks jobs now = (counts, jobs') \<Longrightarrow> lite_queue_step jobs jobs'"
| lite_cancelled: "lite_queue_step jobs (cancel_jobs w task stamp jobs)"
| lite_discarded: "lite_queue_step jobs (lite_discard_jobs (pending_planning_job_ids jobs w task) reason stamp jobs)"
| lite_marked: "lite_queue_step jobs (mark_queue_state jobs job_id queue rq)"

definition settled_job :: "lite_job \<Rightarrow> bool" where
  "settled_job j = (pl_state j = ''succeeded'' \<and> pl_producer j = Some PLANNING_PRODUCER_DETERMINISTIC
     \<and> pl_result j = PDict [(''steps'', plan_steps_to_json (deterministic_plan (pl_objective j) (charter_from_json (pl_charter j))))])"

lemma no_claim: "list_all settled_job jobs \<Longrightarrow> lite_claim jobs job_id owner seconds now batch = ([], jobs)"
proof -
  assume "list_all settled_job jobs"
  then have "filter (lite_claimable job_id (isoformat now)) jobs = []"
    by (auto simp: filter_empty_conv list_all_iff lite_claimable_def settled_job_def)
  then show ?thesis by (simp add: lite_claim_def Let_def lite_limit_def)
qed

lemma update_where_none: "list_all (\<lambda>x. \<not> P x) xs \<Longrightarrow> update_where P f xs = xs"
  by (induction xs) simp_all

lemma none_pending: "list_all settled_job jobs \<Longrightarrow> pending_planning_job_ids jobs w task = []"
  by (auto simp: pending_planning_job_ids_def filter_empty_conv list_all_iff settled_job_def)

lemma lite_queue_step_settled: "lite_queue_step jobs jobs' \<Longrightarrow> list_all settled_job jobs \<Longrightarrow> list_all settled_job jobs'"
proof (induction rule: lite_queue_step.induct)
  case (lite_enqueued jobs uuid a now r jobs')
  have new: "settled_job (new_job uuid a ''succeeded'' (Some PLANNING_PRODUCER_DETERMINISTIC)
          (PDict [(''steps'', plan_steps_to_json (deterministic_plan (qa_objective a) (qa_charter a)))]) ''inline'' (isoformat now))"
    using charter.dec_enc by (simp add: settled_job_def new_job_def)
  show ?case
  proof (cases "find_job jobs (qa_workspace a) (job_key a)")
    case None
    then show ?thesis using lite_enqueued new by (auto simp: lite_enqueue_def Let_def)
  next
    case (Some j)
    then have "settled_job j" using lite_enqueued(2) find_in unfolding find_job_def by (metis list_all_iff)
    then have "pl_state j \<notin> set PLANNING_JOB_REVIVABLE_STATES" by (simp add: settled_job_def PLANNING_JOB_REVIVABLE_STATES_def)
    with Some show ?thesis using lite_enqueued by (auto simp: lite_enqueue_def Let_def)
  qed
next
  case (lite_claimed jobs job_id owner seconds now batch rows jobs')
  then show ?case by (simp add: no_claim)
next
  case (lite_completed jobs job_id owner state producer result error nxt now won jobs')
  have "list_all (\<lambda>x. \<not> holds_lease job_id owner x) jobs" using lite_completed(2) by (auto simp: list_all_iff holds_lease_def settled_job_def)
  then show ?case using lite_completed by (auto simp: lite_complete_def update_where_none)
next
  case (lite_swept tasks jobs now counts jobs')
  have "list_all (\<lambda>x. \<not> lite_expired (isoformat now) x) jobs" "list_all (\<lambda>x. \<not> orphan tasks x) jobs"
    using lite_swept(2) by (auto simp: list_all_iff lite_expired_def orphan_def settled_job_def)
  then show ?case using lite_swept by (auto simp: lite_sweep_planning_jobs_def Let_def update_where_none)
next
  case (lite_cancelled jobs w task stamp)
  have "list_all (\<lambda>j. \<not> (pl_workspace j = w \<and> pl_task j = task \<and> pl_state j \<in> {''pending'', ''leased''})) jobs"
    using lite_cancelled by (auto simp: list_all_iff settled_job_def)
  then show ?case using lite_cancelled by (simp only: cancel_jobs_def update_where_none)
next
  case (lite_discarded jobs w task reason stamp)
  then show ?case by (simp add: none_pending lite_discard_jobs_def)
next
  case (lite_marked jobs job_id queue rq)
  then show ?case unfolding mark_queue_state_def by (intro update_where_all) (simp_all add: settled_job_def)
qed

section \<open>Properties\<close>

definition queued_args :: enqueue_args where
  "queued_args = \<lparr>qa_workspace = ''W'', qa_owner = ''O'', qa_session = ''S'', qa_task = ''T'', qa_task_state = ''t'',
     qa_kind = ''plan_decomposition'', qa_input = ''i'', qa_contract = 1, qa_hash = None, qa_objective = ''ship'',
     qa_charter = \<lparr>pc_max_steps = 2, pc_reason = []\<rparr>,
     qa_scope = resolve_scope (\<lambda>_. []) \<lparr>al_consumer = ''x'', al_workspace = ''W'', al_user = ''O'', al_subject = ''O''\<rparr> [] [] None None False None False 90,
     qa_max = 3\<rparr>"

definition queued :: "pystr \<Rightarrow> full_job" where
  "queued state = new_job ''j'' queued_args state None (PDict []) ''queued'' (Aware 0 0)"

definition leased_sample :: full_job where
  "leased_sample = lease_job ''w1'' (Aware 120 0) (Aware 0 0) (queued ''pending'')"

lemma queued_simps [simp]:
  "pl_id (queued s) = ''j''" "pl_state (queued s) = s" "pl_attempts (queued s) = 0" "pl_max (queued s) = 3" "pl_workspace (queued s) = ''W''"
  "pl_task (queued s) = ''T''" "pl_cancel (queued s) = False" "pl_next (queued s) = None"
  by (simp_all add: queued_def new_job_def queued_args_def)

lemma queued_ok: "queue_ok [queued ''failed'']" "queue_ok [leased_sample]"
  by (simp_all add: queue_ok_def job_ok_def leased_sample_def lease_job_def)

lemma single_run: "queue_step op jobs jobs' \<Longrightarrow> queue_run [op] jobs jobs'"
  by (rule queue_run.step_run [OF _ queue_run.done_run])

lemma queued_run: "queue_run [Inserted] [] [queued ''pending'']"
proof -
  have "queue_step Inserted [] ([] @ [new_job ''j'' queued_args ''pending'' None (PDict []) ''queued'' (Aware 0 0)])"
    by (rule queue_step.inserted) (simp_all add: find_job_def queued_args_def)
  then show ?thesis by (simp add: queued_def single_run)
qed

lemma marked_run: "queue_run [Marked] [x] (mark_queue_state [x] ''z'' [] None)"
  by (rule single_run [OF queue_step.marked])

text \<open>
  C26. In every reachable queue of the Full backend a job is tried at most as often as it may be, a leased job names
  its holder and its end, and there is one job for each identifier and each idempotency key of a workspace.
\<close>

theorem planning_queue_bounded:
  assumes "queue_run ops [] jobs"
  shows "(\<forall>j \<in> set jobs. 0 \<le> pl_attempts j \<and> pl_attempts j \<le> pl_max j
      \<and> (pl_state j = ''leased'' \<longrightarrow> pl_lease_owner j \<noteq> None \<and> pl_lease_until j \<noteq> None \<and> 1 \<le> pl_attempts j))
    \<and> distinct (map pl_id jobs) \<and> distinct (map job_slot jobs)"
proof -
  have "queue_ok jobs" using queue_run_ok [OF assms] by (simp add: queue_ok_def)
  then show ?thesis by (simp add: queue_ok_def job_ok_def list_all_iff)
qed

theorem planning_queue_bounded_witness: "pl_attempts (queued ''pending'') \<le> 3"
  using planning_queue_bounded [OF queued_run] by simp



text \<open>
  A failed job is never retried by the Full backend, whatever next attempt time the worker's ladder wrote: until its
  key is enqueued again, no step of a run moves it, but for cancelling it, and no claim, at any time, by anyone, returns it.
\<close>

theorem failed_job_is_never_retried:
  assumes "queue_run ops jobs jobs'" "queue_ok jobs" "j \<in> set jobs" "pl_state j = ''failed''" "Revived (pl_id j) \<notin> set ops"
    and "full_claim locked jobs' job_id owner seconds now batch = (rows, jobs'')"
  shows "(\<exists>j' \<in> set jobs'. pl_id j' = pl_id j \<and> pl_state j' \<in> {''failed'', ''cancelled''}) \<and> pl_id j \<notin> pl_id ` set rows"
proof -
  have "\<exists>y \<in> set jobs'. pl_id y = pl_id j \<and> pl_state y \<in> {''failed'', ''cancelled''}"
  proof (rule run_keeps_row [OF assms(1-3)])
    show "\<exists>y \<in> set b. pl_id y = pl_id j \<and> pl_state y \<in> {''failed'', ''cancelled''}"
      if "op \<in> set ops" "queue_step op a b" "queue_ok a" "x \<in> set a" "pl_id x = pl_id j" "pl_state x \<in> {''failed'', ''cancelled''}" for op a b x
      using that(1) assms(5) by (intro step_keeps_failed [OF that(2-6)]) auto
  qed (simp_all add: assms(4))
  then obtain y where y: "y \<in> set jobs'" "pl_id y = pl_id j" "pl_state y \<in> {''failed'', ''cancelled''}" by blast
  moreover have "pl_id y \<notin> pl_id ` set rows"
    using failed_not_claimed [OF queue_run_ok [OF assms(1,2)] y(1,3) assms(6)] .
  ultimately show ?thesis by auto
qed

theorem failed_job_is_never_retried_witness:
  "''j'' \<notin> pl_id ` set (fst (full_claim {} (mark_queue_state [queued ''failed''] ''z'' [] None) None ''w1'' 120 (Aware 999999 0) 20))"
proof -
  have j: "queued ''failed'' \<in> set [queued ''failed'']" "Revived (pl_id (queued ''failed'')) \<notin> set [Marked]" by simp_all
  from failed_job_is_never_retried [OF marked_run queued_ok(1) j(1) queued_simps(2) j(2) prod.collapse [symmetric]]
  show ?thesis unfolding queued_simps(1) by (rule conjunct2)
qed

text \<open>
  In Lite every job is done when it is written: in every reachable queue each job has succeeded with the
  deterministic plan of its own objective under its own charter, none is pending, and a claim returns nothing.
\<close>

theorem lite_jobs_are_settled:
  assumes "lite_queue_step\<^sup>*\<^sup>* [] jobs"
  shows "list_all settled_job jobs \<and> pending_planning_job_ids jobs w task = []
    \<and> lite_claim jobs job_id owner seconds now batch = ([], jobs)"
proof -
  have "list_all settled_job jobs"
    using assms by (induction rule: rtranclp_induct) (auto dest: lite_queue_step_settled)
  moreover from this have "pending_planning_job_ids jobs w task = []" by (rule none_pending)
  ultimately show ?thesis using no_claim by blast
qed

theorem lite_jobs_are_settled_witness:
  "pending_planning_job_ids (snd (lite_enqueue [] ''j'' queued_args (Aware 0 0))) ''W'' ''T'' = []"
proof -
  have "lite_queue_step [] (snd (lite_enqueue [] ''j'' queued_args (Aware 0 0)))"
    by (rule lite_queue_step.lite_enqueued [of _ "''j''" queued_args "Aware 0 0" "fst (lite_enqueue [] ''j'' queued_args (Aware 0 0))"]) simp
  then have "lite_queue_step\<^sup>*\<^sup>* [] (snd (lite_enqueue [] ''j'' queued_args (Aware 0 0)))" by (rule r_into_rtranclp)
  from lite_jobs_are_settled [OF this] show ?thesis by blast
qed

end
