(* ===== verification/Permit_Gate.thy ===== *)
theory Permit_Gate
  imports Charter_Facts
begin

text \<open>
  \<open>shared/tce_shared/autonomy_goals.py\<close>: the risk tier of an action, the ladder that decides an execution permit
  with the charter's clause over it, and the continuity counter.  (The scores of that file are floating point
  and are not modelled.)
\<close>

section \<open>Vocabulary\<close>

datatype policy_profile = HUMAN_CONSULTATIVE | HUMAN_SAFE | HUMAN_AGGRESSIVE

datatype risk_tier = R_LOW | R_MEDIUM | R_HIGH | R_CRITICAL

datatype permit_decision = PD_ALLOW | PD_CONFIRM_REQUIRED | PD_BLOCKED

fun permit_str :: "permit_decision \<Rightarrow> pystr" where
  "permit_str PD_ALLOW = ''allow''"
| "permit_str PD_CONFIRM_REQUIRED = ''confirm_required''"
| "permit_str PD_BLOCKED = ''blocked''"

text \<open>By strictness, for both.\<close>

fun risk_rank :: "risk_tier \<Rightarrow> nat" where
  "risk_rank R_LOW = 0" | "risk_rank R_MEDIUM = 1" | "risk_rank R_HIGH = 2" | "risk_rank R_CRITICAL = 3"

fun permit_rank :: "permit_decision \<Rightarrow> nat" where
  "permit_rank PD_ALLOW = 0" | "permit_rank PD_CONFIRM_REQUIRED = 1" | "permit_rank PD_BLOCKED = 2"

instantiation risk_tier :: linorder
begin

definition less_eq_risk_tier :: "risk_tier \<Rightarrow> risk_tier \<Rightarrow> bool" where
  "less_eq_risk_tier a b = (risk_rank a \<le> risk_rank b)"

definition less_risk_tier :: "risk_tier \<Rightarrow> risk_tier \<Rightarrow> bool" where
  "less_risk_tier a b = (risk_rank a < risk_rank b)"

instance
proof
  fix x y :: risk_tier
  show "x \<le> y \<Longrightarrow> y \<le> x \<Longrightarrow> x = y" by (cases x; cases y) (simp_all add: less_eq_risk_tier_def)
qed (auto simp: less_eq_risk_tier_def less_risk_tier_def)

end

instantiation permit_decision :: linorder
begin

definition less_eq_permit_decision :: "permit_decision \<Rightarrow> permit_decision \<Rightarrow> bool" where
  "less_eq_permit_decision a b = (permit_rank a \<le> permit_rank b)"

definition less_permit_decision :: "permit_decision \<Rightarrow> permit_decision \<Rightarrow> bool" where
  "less_permit_decision a b = (permit_rank a < permit_rank b)"

instance
proof
  fix x y :: permit_decision
  show "x \<le> y \<Longrightarrow> y \<le> x \<Longrightarrow> x = y" by (cases x; cases y) (simp_all add: less_eq_permit_decision_def)
qed (auto simp: less_eq_permit_decision_def less_permit_decision_def)

end

definition CRITICAL_TERMS :: "pystr list" where
  "CRITICAL_TERMS = [''rm -rf'', ''drop table'', ''truncate '', ''delete all'', ''reset --hard'', ''force push'',
     ''production deploy'', ''rotate key'', ''secret'', ''credential'']"

definition HIGH_TERMS :: "pystr list" where
  "HIGH_TERMS = [''delete '', ''rename '', ''migrate'', ''schema'', ''infra'', ''deploy'', ''rollback'']"

definition DESTRUCTIVE_ACTION_TERMS :: "pystr list" where
  "DESTRUCTIVE_ACTION_TERMS = [''delete'', ''drop'', ''truncate'', ''erase'', ''wipe'', ''destroy'', ''purge'', ''nuke'']"

definition CRITICAL_OBJECT_TERMS :: "pystr list" where
  "CRITICAL_OBJECT_TERMS = [''database'', ''db'', ''prod'', ''production'', ''cluster'', ''bucket'', ''table'', ''tables'']"

definition NEGATION_TOKENS :: "pystr list" where
  "NEGATION_TOKENS = [''not'', ''never'', ''dont'', ''don'' @ [CHR 0x27] @ ''t'', ''without'', ''avoid'']"

section \<open>The risk tier of an action\<close>

text \<open>\<open>before\<close>: the tokens already passed, nearest first.\<close>

fun unnegated_destruction :: "pystr list \<Rightarrow> pystr list \<Rightarrow> bool" where
  "unnegated_destruction before [] = False"
| "unnegated_destruction before (t # ts) =
     ((t \<in> set DESTRUCTIVE_ACTION_TERMS \<and> \<not> list_ex (\<lambda>x. x \<in> set NEGATION_TOKENS) (take 3 before))
      \<or> unnegated_destruction (t # before) ts)"

definition action_tokens :: "pystr \<Rightarrow> pystr list" where
  "action_tokens normalized = py_split_ws (map (\<lambda>c. if c = CHR ''/'' \<or> c = CHR ''-'' then CHR '' '' else c) normalized)"

definition contains_action_object :: "pystr \<Rightarrow> bool" where
  "contains_action_object normalized = (let tokens = action_tokens normalized in
     list_ex (\<lambda>t. t \<in> set DESTRUCTIVE_ACTION_TERMS) tokens \<and> list_ex (\<lambda>t. t \<in> set CRITICAL_OBJECT_TERMS) tokens
     \<and> unnegated_destruction [] tokens)"

definition action_text :: "pystr \<Rightarrow> pystr list \<Rightarrow> pystr option \<Rightarrow> pystr" where
  "action_text kind paths preview = py_join '' '' [py_lower (py_strip kind),
     py_lower (py_strip (case preview of None \<Rightarrow> [] | Some c \<Rightarrow> c)), py_join '' '' (map py_lower paths)]"

definition classify_risk_tier :: "pystr \<Rightarrow> pystr list \<Rightarrow> pystr option \<Rightarrow> int \<Rightarrow> risk_tier" where
  "classify_risk_tier kind paths preview lines = (let normalized = action_text kind paths preview in
     if contains_action_object normalized then R_CRITICAL
     else if list_ex (\<lambda>t. py_contains t normalized) CRITICAL_TERMS then R_CRITICAL
     else if list_ex (\<lambda>t. py_contains t normalized) HIGH_TERMS then R_HIGH
     else if 100 \<le> lines then R_HIGH
     else if 25 \<le> lines then R_MEDIUM
     else R_LOW)"

section \<open>The permit ladder\<close>

definition permit_base :: "policy_profile \<Rightarrow> risk_tier \<Rightarrow> int \<Rightarrow> pystr \<Rightarrow> bool \<Rightarrow> permit_decision \<times> pystr" where
  "permit_base profile risk lines role sensitive =
     (if py_lower (py_strip role) = ''advisor'' then (PD_BLOCKED, ''advisor role is read-only'')
      else if risk = R_CRITICAL then (PD_BLOCKED, ''critical-risk action is blocked'')
      else if sensitive then (PD_CONFIRM_REQUIRED, ''target touches protected/sensitive paths'')
      else if risk = R_HIGH then (PD_CONFIRM_REQUIRED, ''high-risk action requires confirmation'')
      else if risk = R_MEDIUM
      then (if profile = HUMAN_AGGRESSIVE then (PD_ALLOW, ''medium-risk action allowed by aggressive profile'')
            else if profile = HUMAN_CONSULTATIVE \<and> lines \<le> 20
            then (PD_ALLOW, ''small-scope medium-risk action allowed by consultative profile'')
            else (PD_CONFIRM_REQUIRED, ''medium-risk action requires confirmation''))
      else if profile = HUMAN_SAFE \<and> 30 < lines
      then (PD_CONFIRM_REQUIRED, ''safe profile requires confirmation for broad changes'')
      else (PD_ALLOW, ''low-risk action allowed''))"

definition evaluate_execution_permit ::
  "policy_profile \<Rightarrow> risk_tier \<Rightarrow> int \<Rightarrow> pystr \<Rightarrow> bool \<Rightarrow> charter option \<Rightarrow> pystr \<Rightarrow> pystr list \<Rightarrow> permit_decision \<times> pystr" where
  "evaluate_execution_permit profile risk lines role sensitive charter kind paths =
     (let base = permit_base profile risk lines role sensitive in
      case charter of
        None \<Rightarrow> base
      | Some c \<Rightarrow>
          (case charter_scope_narrowing (Some c) kind paths of (refused, reason) \<Rightarrow>
            if refused then (PD_BLOCKED, reason)
            else (let capability = capability_for_action_kind kind in
              if capability \<in> set (ch_confirm c)
              then (if fst base \<noteq> PD_ALLOW then base
                    else (PD_CONFIRM_REQUIRED, ''charter: confirmation required for '' @ capability))
              else base)))"

text \<open>What both permit handlers decide: the tier, the sensitive paths and the ladder.\<close>

definition decide_permit ::
  "policy_profile \<Rightarrow> pystr \<Rightarrow> charter option \<Rightarrow> pystr \<Rightarrow> pystr list \<Rightarrow> pystr option \<Rightarrow> int \<Rightarrow> permit_decision \<times> pystr" where
  "decide_permit profile role charter kind paths preview lines =
     evaluate_execution_permit profile (classify_risk_tier kind paths preview lines) lines role
       (charter_sensitive_path_hit charter paths) charter kind paths"

section \<open>Continuity\<close>

text \<open>The count of violations after this message, and whether the session is still continuous.\<close>

definition continuity_health :: "bool \<Rightarrow> datetime option \<Rightarrow> datetime \<Rightarrow> int \<Rightarrow> int \<Rightarrow> int \<times> bool" where
  "continuity_health was_active last_message now previous max_gap =
     (case (was_active, last_message) of
        (True, Some t) \<Rightarrow>
          (let violations = (if max 1 max_gap * 1000000 < instant now - instant t then previous + 1
             else max 0 (previous - 1)) in (violations, violations < 3))
      | _ \<Rightarrow> (max 0 previous, True))"

end
