(* ===== verification/Permit_Store.thy ===== *)
theory Permit_Store
  imports Permit_Gate Scope Charter_Store Directive_Transitions
begin

text \<open>
  Execution permits: asking for one and resolving one, \<open>request_execution_permit_lite\<close> and
  \<open>resolve_execution_permit_lite\<close> of \<open>tce_lite_api/store.py\<close> and the two handlers of the same names in \<open>tce_api/main.py\<close>.
  A timestamp column is given by the datetime written to it; Lite stores its \<open>isoformat\<close>.  The statements on the
  tables of other components (the goal cache, the open safety question) are left out: they do not touch permits.
\<close>

section \<open>Callers, requests and rows\<close>

datatype agent_role = USER | EXECUTOR | ADVISOR

fun role_str :: "agent_role \<Rightarrow> pystr" where
  "role_str USER = ''user''"
| "role_str EXECUTOR = ''executor''"
| "role_str ADVISOR = ''advisor''"

record caller =
  cl_consumer :: pystr
  cl_role :: agent_role
  cl_workspace :: pystr
  cl_user :: pystr
  cl_verified :: bool
  cl_capabilities :: "pystr list"

definition HOST_CAPTURE_CAPABILITY :: pystr where "HOST_CAPTURE_CAPABILITY = ''host_capture''"

definition human_origin_verified :: "caller \<Rightarrow> bool" where
  "human_origin_verified cl = (cl_role cl = USER \<and> (cl_verified cl \<or> HOST_CAPTURE_CAPABILITY \<in> set (cl_capabilities cl)))"

record permit_request =
  pr_session :: pystr
  pr_kind :: pystr
  pr_paths :: "pystr list"
  pr_preview :: "pystr option"
  pr_lines :: int
  pr_directive :: "pystr option"
  pr_attempt :: "int option"
  pr_objective :: "pystr option"

record permit =
  ep_id :: pystr
  ep_session :: pystr
  ep_workspace :: pystr
  ep_kind :: pystr
  ep_paths :: "pystr list"
  ep_preview :: "pystr option"
  ep_lines :: int
  ep_decision :: pystr
  ep_reason :: pystr
  ep_confirmed_by :: "pystr option"
  ep_expires :: "datetime option"
  ep_created :: datetime
  ep_resolved :: "datetime option"
  ep_user :: "pystr option"
  ep_requested_by :: "pystr option"
  ep_resolved_by :: "pystr option"
  ep_directive :: "pystr option"
  ep_attempt :: "int option"
  ep_objective :: "pystr option"
  ep_policy :: "pystr option"
  ep_digest :: "pystr option"
  ep_charter :: "pystr option"
  ep_charter_version :: "pystr option"

record permit_response =
  er_decision :: permit_decision
  er_reason :: pystr
  er_permit :: pystr
  er_expires :: "datetime option"
  er_confirmation :: "pystr option"

text \<open>\<open>BadDecision\<close>: the \<open>ValueError\<close> for a stored decision that is none; \<open>DuplicatePermit\<close>: the primary key.\<close>

datatype permit_fault = PermitNotFound | SelfApproval | NotAnOperator | BadDecision pystr | CharterFault charter_fault | DuplicatePermit

definition permit_of :: "pystr \<Rightarrow> permit_decision option" where
  "permit_of s = find (\<lambda>d. permit_str d = s) [PD_ALLOW, PD_CONFIRM_REQUIRED, PD_BLOCKED]"

section \<open>Asking\<close>

text \<open>\<open>str(a or b or "").strip() or None\<close>.\<close>

definition bound_objective :: "pystr option \<Rightarrow> pystr option \<Rightarrow> pystr option" where
  "bound_objective requested current =
     or_none (py_strip (case text_or_none requested of Some s \<Rightarrow> s | None \<Rightarrow> (case current of Some s \<Rightarrow> s | None \<Rightarrow> [])))"

definition ttl_seconds :: "int \<Rightarrow> int" where
  "ttl_seconds ttl = max 30 ttl"

definition new_permit ::
  "pystr \<Rightarrow> caller \<Rightarrow> permit_request \<Rightarrow> permit_decision \<times> pystr \<Rightarrow> charter option \<Rightarrow> pystr option \<Rightarrow> datetime \<Rightarrow> datetime \<Rightarrow> permit" where
  "new_permit uuid cl rq verdict charter objective expires created =
     \<lparr>ep_id = uuid, ep_session = pr_session rq, ep_workspace = cl_workspace cl, ep_kind = pr_kind rq, ep_paths = pr_paths rq,
      ep_preview = pr_preview rq, ep_lines = pr_lines rq, ep_decision = permit_str (fst verdict), ep_reason = snd verdict,
      ep_confirmed_by = None, ep_expires = Some expires, ep_created = created, ep_resolved = None, ep_user = Some (cl_user cl),
      ep_requested_by = Some (cl_consumer cl), ep_resolved_by = None, ep_directive = pr_directive rq, ep_attempt = pr_attempt rq,
      ep_objective = objective, ep_policy = Some SCOPE_POLICY_REVISION,
      ep_digest = Some (permit_scope_digest (pr_kind rq) (pr_paths rq) (pr_preview rq)), ep_charter = map_option ch_id charter,
      ep_charter_version = map_option ch_version charter\<rparr>"

definition permit_reply :: "pystr \<Rightarrow> pystr \<Rightarrow> permit_decision \<Rightarrow> pystr \<Rightarrow> datetime option \<Rightarrow> permit_response" where
  "permit_reply keyword permit_id decision reason expires =
     \<lparr>er_decision = decision, er_reason = reason, er_permit = permit_id, er_expires = expires,
      er_confirmation = (if decision = PD_CONFIRM_REQUIRED then Some keyword else None)\<rparr>"

definition insert_permit :: "permit \<Rightarrow> permit list \<Rightarrow> (permit_fault, permit list) result" where
  "insert_permit p ps = (if list_ex (\<lambda>q. ep_id q = ep_id p) ps then Err DuplicatePermit else Ok (ps @ [p]))"

text \<open>
  \<open>clock n\<close> is the \<open>n\<close>th reading of the clock (Lite reads it once).  The charter is loaded from the store for the
  caller, never taken from the request; \<open>current\<close> is the objective hash of the session.
\<close>

definition request_permit ::
  "(nat \<Rightarrow> datetime) \<Rightarrow> pystr \<Rightarrow> caller \<Rightarrow> permit_request \<Rightarrow> policy_profile \<Rightarrow> int \<Rightarrow> pystr \<Rightarrow> pystr option \<Rightarrow> charter_db \<Rightarrow> permit list
    \<Rightarrow> (permit_fault, permit_response \<times> permit list) result" where
  "request_permit clock uuid cl rq profile ttl keyword current cdb ps =
     res_bind (map_error CharterFault (load_active_charter cdb (cl_workspace cl) (cl_user cl) (clock 0))) (\<lambda>charter.
       let verdict = decide_permit profile (role_str (cl_role cl)) charter (pr_kind rq) (pr_paths rq) (pr_preview rq) (pr_lines rq);
           expires = dt_plus_seconds (clock 1) (ttl_seconds ttl)
       in res_bind (insert_permit (new_permit uuid cl rq verdict charter (bound_objective (pr_objective rq) current) expires (clock 2)) ps)
            (\<lambda>ps'. Ok (permit_reply keyword uuid (fst verdict) (snd verdict) (Some expires), ps')))"

definition request_execution_permit_lite ::
  "pystr \<Rightarrow> caller \<Rightarrow> permit_request \<Rightarrow> policy_profile \<Rightarrow> int \<Rightarrow> pystr \<Rightarrow> pystr option \<Rightarrow> charter_db \<Rightarrow> datetime \<Rightarrow> permit list
    \<Rightarrow> (permit_fault, permit_response \<times> permit list) result" where
  "request_execution_permit_lite uuid cl rq profile ttl keyword current cdb now = request_permit (\<lambda>_. now) uuid cl rq profile ttl keyword current cdb"

definition full_request_execution_permit ::
  "(nat \<Rightarrow> datetime) \<Rightarrow> pystr \<Rightarrow> caller \<Rightarrow> permit_request \<Rightarrow> policy_profile \<Rightarrow> int \<Rightarrow> pystr \<Rightarrow> pystr option \<Rightarrow> charter_db \<Rightarrow> permit list
    \<Rightarrow> (permit_fault, permit_response \<times> permit list) result" where
  "full_request_execution_permit clock uuid cl rq profile ttl keyword current cdb = request_permit clock uuid cl rq profile ttl keyword current cdb"

section \<open>Resolving\<close>

definition is_permit :: "pystr \<Rightarrow> pystr \<Rightarrow> permit \<Rightarrow> bool" where
  "is_permit w permit_id p = (ep_id p = permit_id \<and> ep_workspace p = w)"

definition awaiting :: "permit \<Rightarrow> bool" where
  "awaiting p = (ep_resolved p = None \<and> ep_decision p = ''confirm_required'')"

text \<open>\<open>str(row["requested_by"] or "") == auth.consumer\<close>.\<close>

definition asked_by :: "caller \<Rightarrow> permit \<Rightarrow> bool" where
  "asked_by cl p = ((case ep_requested_by p of None \<Rightarrow> [] | Some s \<Rightarrow> s) = cl_consumer cl)"

definition resolve_refusal :: "caller \<Rightarrow> permit \<Rightarrow> permit_fault option" where
  "resolve_refusal cl p =
     (if cl_role cl \<noteq> USER then Some (if cl_role cl = EXECUTOR \<and> asked_by cl p then SelfApproval else NotAnOperator)
      else if \<not> human_origin_verified cl \<and> asked_by cl p then Some SelfApproval
      else None)"

text \<open>The answer as the row will hold it: an expired permit is blocked whatever was answered.\<close>

definition resolution :: "permit \<Rightarrow> bool \<Rightarrow> datetime \<Rightarrow> permit_decision \<times> pystr" where
  "resolution p approved now =
     (if (case ep_expires p of None \<Rightarrow> False | Some t \<Rightarrow> instant t < instant now) then (PD_BLOCKED, ''permit expired'')
      else if approved then (PD_ALLOW, ''confirmed by operator'') else (PD_BLOCKED, ''denied by operator''))"

definition settle_permit :: "caller \<Rightarrow> pystr option \<Rightarrow> permit_decision \<times> pystr \<Rightarrow> datetime \<Rightarrow> permit \<Rightarrow> permit" where
  "settle_permit cl confirmed_by verdict now p =
     p\<lparr>ep_decision := permit_str (fst verdict), ep_reason := snd verdict,
       ep_confirmed_by := Some (case text_or_none confirmed_by of Some s \<Rightarrow> s | None \<Rightarrow> cl_user cl),
       ep_resolved_by := Some (cl_consumer cl), ep_resolved := Some now\<rparr>"

text \<open>The reply on a permit that is decided; \<open>keyword\<close> is what the backend names for one that still waits.\<close>

definition stored_reply :: "pystr option \<Rightarrow> pystr \<Rightarrow> permit \<Rightarrow> (permit_fault, permit_response) result" where
  "stored_reply keyword permit_id p = (case permit_of (ep_decision p) of
       None \<Rightarrow> Err (BadDecision (ep_decision p))
     | Some d \<Rightarrow> Ok \<lparr>er_decision = d, er_reason = ep_reason p, er_permit = permit_id, er_expires = ep_expires p,
         er_confirmation = (if d = PD_CONFIRM_REQUIRED then keyword else None)\<rparr>)"

text \<open>
  \<open>others 0\<close> is what other connections commit between the read and the \<open>UPDATE\<close>, \<open>others 1\<close> before the second read.
  \<open>decided\<close> is the keyword of a reply about a decided permit.  \<open>clock 0\<close> decides expiry, \<open>clock 1\<close> stamps the row.
\<close>

definition resolve_permit ::
  "pystr option \<Rightarrow> pystr \<Rightarrow> (nat \<Rightarrow> permit list \<Rightarrow> permit list) \<Rightarrow> (nat \<Rightarrow> datetime) \<Rightarrow> caller \<Rightarrow> pystr \<Rightarrow> bool \<Rightarrow> pystr option \<Rightarrow> permit list
    \<Rightarrow> (permit_fault, permit_response) result \<times> permit list" where
  "resolve_permit decided keyword others clock cl permit_id approved confirmed_by ps =
     (case find (is_permit (cl_workspace cl) permit_id) ps of
        None \<Rightarrow> (Err PermitNotFound, ps)
      | Some row \<Rightarrow>
          if \<not> awaiting row then (stored_reply decided permit_id row, ps)
          else (case resolve_refusal cl row of
              Some e \<Rightarrow> (Err e, ps)
            | None \<Rightarrow>
                (let verdict = resolution row approved (clock 0);
                     ps1 = others 0 ps;
                     hit = (\<lambda>p. is_permit (cl_workspace cl) permit_id p \<and> awaiting p)
                 in if \<not> list_ex hit ps1
                    then (let ps2 = others 1 ps1 in
                      case find (is_permit (cl_workspace cl) permit_id) ps2 of
                        None \<Rightarrow> (Err PermitNotFound, ps2)
                      | Some latest \<Rightarrow> (stored_reply decided permit_id latest, ps2))
                    else (Ok (permit_reply keyword permit_id (fst verdict) (snd verdict) (ep_expires row)),
                      map (\<lambda>p. if hit p then settle_permit cl confirmed_by verdict (clock 1) p else p) ps1))))"

definition resolve_execution_permit_lite ::
  "pystr \<Rightarrow> (nat \<Rightarrow> permit list \<Rightarrow> permit list) \<Rightarrow> (nat \<Rightarrow> datetime) \<Rightarrow> caller \<Rightarrow> pystr \<Rightarrow> bool \<Rightarrow> pystr option \<Rightarrow> permit list
    \<Rightarrow> (permit_fault, permit_response) result \<times> permit list" where
  "resolve_execution_permit_lite keyword = resolve_permit (Some keyword) keyword"

definition full_resolve_execution_permit ::
  "pystr \<Rightarrow> (nat \<Rightarrow> permit list \<Rightarrow> permit list) \<Rightarrow> (nat \<Rightarrow> datetime) \<Rightarrow> caller \<Rightarrow> pystr \<Rightarrow> bool \<Rightarrow> pystr option \<Rightarrow> permit list
    \<Rightarrow> (permit_fault, permit_response) result \<times> permit list" where
  "full_resolve_execution_permit keyword = resolve_permit None keyword"

section \<open>What else writes to the table\<close>

text \<open>\<open>revoke_charter\<close>'s statement (charter_store.py), on the whole row.\<close>

definition revoke_permits :: "pystr \<Rightarrow> datetime \<Rightarrow> permit list \<Rightarrow> permit list" where
  "revoke_permits charter_id now = map (\<lambda>p. if ep_charter p = Some charter_id \<and> ep_decision p = ''allow'' \<and> ep_resolved p = None
     then p\<lparr>ep_decision := ''blocked'', ep_reason := ''charter_revoked'', ep_resolved := Some now\<rparr> else p)"

text \<open>A changed objective expires the permits of the session, in every workspace.\<close>

definition expire_session_permits :: "pystr \<Rightarrow> datetime \<Rightarrow> permit list \<Rightarrow> permit list" where
  "expire_session_permits session now = map (\<lambda>p. if ep_session p = session
      \<and> (case ep_expires p of None \<Rightarrow> True | Some t \<Rightarrow> isoformat now < isoformat t)
     then p\<lparr>ep_expires := Some now\<rparr> else p)"

text \<open>The binding of a permit to the directive that claims with it.\<close>

definition bind_permit :: "pystr \<Rightarrow> int \<Rightarrow> pystr \<Rightarrow> permit list \<Rightarrow> permit list" where
  "bind_permit directive attempt permit_id = map (\<lambda>p. if ep_id p = permit_id \<and> ep_directive p = None
     then p\<lparr>ep_directive := Some directive, ep_attempt := Some attempt\<rparr> else p)"

text \<open>
  The table over time, with the log of what was asked and answered: every statement on the table is one of these steps.
  \<open>Asked\<close> holds what a request handler was called with, the state of the charter store and the clock when it loaded the
  charter included; \<open>Answered\<close> who settled a permit and how.  A resolution decides on the row it read, in an earlier
  state, and its \<open>UPDATE\<close> runs on the table as it then is.
\<close>

record permit_ask =
  aq_profile :: policy_profile
  aq_caller :: caller
  aq_request :: permit_request
  aq_charters :: charter_db
  aq_now :: datetime

datatype permit_event = Asked pystr permit_ask | Answered pystr caller bool

type_synonym permit_state = "permit list \<times> permit_event list"

inductive permit_run :: "permit_state \<Rightarrow> permit_state \<Rightarrow> bool" where
  start: "permit_run a a"
| request: "permit_run a (ps, gs) \<Longrightarrow> request_permit clock uuid cl rq profile ttl keyword current cdb ps = Ok (resp, ps') \<Longrightarrow>
    permit_run a (ps', Asked uuid \<lparr>aq_profile = profile, aq_caller = cl, aq_request = rq, aq_charters = cdb, aq_now = clock 0\<rparr> # gs)"
| resolve: "permit_run a (seen, gs0) \<Longrightarrow> permit_run (seen, gs0) (ps, gs) \<Longrightarrow>
    resolve_permit decided keyword (\<lambda>_ _. ps) clock cl permit_id approved confirmed_by seen = (Ok resp, ps') \<Longrightarrow> ps' \<noteq> ps \<Longrightarrow>
    ps' \<noteq> seen \<Longrightarrow> permit_run a (ps', Answered permit_id cl approved # gs)"
| revoke: "permit_run a (ps, gs) \<Longrightarrow> permit_run a (revoke_permits charter_id now ps, gs)"
| expire: "permit_run a (ps, gs) \<Longrightarrow> permit_run a (expire_session_permits session now ps, gs)"
| bind: "permit_run a (ps, gs) \<Longrightarrow> permit_run a (bind_permit directive attempt permit_id ps, gs)"

end
