(* ===== verification/Outbox.thy ===== *)
theory Outbox
  imports Charter_Store
begin

text \<open>
  The completion outbox of \<open>services/tce_lite_api/tce_lite_api/continuity_store.py\<close>: a report enqueues its hand-off in its own
  transaction, and delivery writes the event, the hand-off record and the grants it settles, later and as often as needed.
  A JSON column is the value that was written to it.  The redaction of secrets (regular expressions), the context and
  remote of a project and the summary of an event, which other modules compute, are the arguments in \<open>text_lib\<close>.
\<close>

section \<open>Tables\<close>

record text_lib =
  tl_redact :: "pystr \<Rightarrow> pystr \<times> bool"
  tl_project :: "py \<Rightarrow> (pystr \<times> py) list"
  tl_remote :: "py \<Rightarrow> pystr"
  tl_summary :: "pystr \<Rightarrow> py \<Rightarrow> (pystr \<times> py) list \<Rightarrow> pystr \<times> py"

record outbox_row =
  ob_id :: pystr
  ob_workspace :: pystr
  ob_owner :: pystr
  ob_subject :: pystr
  ob_session :: pystr
  ob_directive :: "pystr option"
  ob_key :: pystr
  ob_terminal :: pystr
  ob_milestone :: "(pystr \<times> py) list"
  ob_source :: pystr
  ob_status :: pystr
  ob_attempts :: int
  ob_next :: datetime
  ob_error :: "pystr option"
  ob_event :: pystr
  ob_record :: pystr
  ob_redacted :: bool
  ob_created :: datetime
  ob_updated :: datetime
  ob_delivered :: "datetime option"
  ob_executor :: "pystr option"
  ob_hash :: "pystr option"

text \<open>Of an event, the columns that differ between completions, and those of its two unique indexes.\<close>

record timeline_event =
  ev_id :: pystr
  ev_ts :: datetime
  ev_actor :: pystr
  ev_type :: pystr
  ev_title :: pystr
  ev_summary :: "pystr \<times> py"
  ev_payload :: py
  ev_context :: "(pystr \<times> py) list"
  ev_outcome :: "(pystr \<times> py) list"
  ev_hash :: pystr
  ev_source :: "pystr option"
  ev_seq :: "int option"
  ev_idem :: "pystr option"

record handoff_row =
  hr_id :: pystr
  hr_workspace :: pystr
  hr_owner :: pystr
  hr_session :: pystr
  hr_directive :: "pystr option"
  hr_ts :: datetime
  hr_title :: pystr
  hr_decision :: pystr
  hr_next_step :: pystr
  hr_status :: pystr
  hr_files :: "pystr list"
  hr_anchors :: "py list"
  hr_git :: "(pystr \<times> py) list"
  hr_changes :: "(pystr \<times> py) list"
  hr_objective :: pystr
  hr_source :: pystr
  hr_event :: pystr
  hr_redacted :: bool
  hr_expires :: datetime
  hr_project :: "pystr option"
  hr_remote :: "pystr option"
  hr_executor :: "pystr option"

record grant_row =
  cg_workspace :: pystr
  cg_owner :: pystr
  cg_session :: pystr
  cg_required :: bool
  cg_status :: pystr
  cg_outbox :: "pystr option"
  cg_recorded :: "datetime option"

record handoff_db =
  hd_outbox :: "outbox_row list"
  hd_events :: "timeline_event list"
  hd_records :: "handoff_row list"
  hd_grants :: "grant_row list"

datatype outbox_fault = CompletionConflict pystr | NoSuchOutbox | Unreadable value_error | Failed pystr

section \<open>Enqueueing\<close>

record completion =
  co_workspace :: pystr
  co_owner :: pystr
  co_subject :: pystr
  co_session :: pystr
  co_directive :: "pystr option"
  co_key :: pystr
  co_terminal :: pystr
  co_milestone :: "(pystr \<times> py) list"
  co_source :: pystr
  co_redacted :: bool
  co_executor :: "pystr option"
  co_hash :: "pystr option"

definition new_outbox_row :: "pystr \<Rightarrow> pystr \<Rightarrow> pystr \<Rightarrow> datetime \<Rightarrow> completion \<Rightarrow> outbox_row" where
  "new_outbox_row i event rec now c =
     \<lparr>ob_id = i, ob_workspace = co_workspace c, ob_owner = co_owner c, ob_subject = co_subject c, ob_session = co_session c,
      ob_directive = co_directive c, ob_key = take 240 (co_key c), ob_terminal = co_terminal c, ob_milestone = co_milestone c,
      ob_source = take 64 (or_else (co_source c) ''native''), ob_status = ''pending'', ob_attempts = 0, ob_next = to_utc now, ob_error = None,
      ob_event = event, ob_record = rec, ob_redacted = co_redacted c, ob_created = to_utc now, ob_updated = to_utc now,
      ob_delivered = None, ob_executor = co_executor c, ob_hash = co_hash c\<rparr>"

definition outbox_key :: "outbox_row \<Rightarrow> pystr \<times> pystr \<times> pystr" where
  "outbox_key r = (ob_workspace r, ob_owner r, ob_key r)"

text \<open>\<open>INSERT OR IGNORE\<close> against the primary key and the unique completion key, then the row that stands.\<close>

definition enqueue_handoff ::
  "pystr \<Rightarrow> pystr \<Rightarrow> pystr \<Rightarrow> datetime \<Rightarrow> completion \<Rightarrow> outbox_row list \<Rightarrow> (outbox_fault, outbox_row \<times> outbox_row list) result" where
  "enqueue_handoff i event rec now c rows =
     (let new = new_outbox_row i event rec now c;
          rows' = (if list_ex (\<lambda>r. ob_id r = i \<or> outbox_key r = outbox_key new) rows then rows else rows @ [new])
      in case find (\<lambda>r. outbox_key r = outbox_key new) rows' of
           None \<Rightarrow> Err (Failed ''handoff outbox insert failed'')
         | Some row \<Rightarrow>
             if ob_hash row \<noteq> None \<and> co_hash c \<noteq> None \<and> ob_hash row \<noteq> co_hash c then Err (CompletionConflict (ob_id row))
             else Ok (row, rows'))"

section \<open>What a delivery writes\<close>

definition DEFAULT_ALLOWLIST_KEYS :: "pystr list" where
  "DEFAULT_ALLOWLIST_KEYS = [''project'', ''repo'', ''branch'', ''stack'', ''env'', ''issue'', ''pr'', ''docs'']"

fun redact_payload :: "(pystr \<Rightarrow> pystr \<times> bool) \<Rightarrow> py \<Rightarrow> py \<times> bool" where
  "redact_payload f (PDict m) =
     (let m' = map (\<lambda>(k, v). if k \<in> set DEFAULT_ALLOWLIST_KEYS then (k, v, False) else (k, redact_payload f v)) m
      in (PDict (map (\<lambda>(k, v, b). (k, v)) m'), list_ex (\<lambda>(k, v, b). b) m'))"
| "redact_payload f (PList xs) = (let ys = map (redact_payload f) xs in (PList (map fst ys), list_ex snd ys))"
| "redact_payload f (PStr s) = (let (t, b) = f s in (PStr t, b))"
| "redact_payload f v = (v, False)"

text \<open>\<open>item.get(a, item.get(b, 0)) or 0\<close> as a number that is not negative, zero when it is none.\<close>

definition line_count :: "(pystr \<times> py) list \<Rightarrow> pystr \<Rightarrow> pystr \<Rightarrow> int" where
  "line_count item a b =
     (let v = (case dict_get item a of Some v \<Rightarrow> v | None \<Rightarrow> (case dict_get item b of Some v \<Rightarrow> v | None \<Rightarrow> PInt 0))
      in case int_or_dflt v 0 of Inl _ \<Rightarrow> 0 | Inr i \<Rightarrow> max 0 i)"

definition safe_change ::
  "(pystr \<Rightarrow> pystr \<times> bool) \<Rightarrow> pystr \<times> py \<Rightarrow> (pystr \<times> py) list \<times> bool \<Rightarrow> (pystr \<times> py) list \<times> bool" where
  "safe_change f entry acc =
     (let (path, path_redacted) = f (take 240 (py_strip (fst entry))) in
      if path = [] then acc
      else (let item = (case snd entry of PDict m \<Rightarrow> m | _ \<Rightarrow> []);
                (intent, intent_redacted) = f (take 160 (py_strip (str_or_empty (py_get item ''intent''))))
            in (dict_set path (PDict [(''added'', PInt (line_count item ''added'' ''added_lines'')),
                  (''removed'', PInt (line_count item ''removed'' ''removed_lines'')), (''intent'', PStr intent)]) (fst acc),
                snd acc \<or> path_redacted \<or> intent_redacted)))"

definition safe_change_summary :: "(pystr \<Rightarrow> pystr \<times> bool) \<Rightarrow> py \<Rightarrow> (pystr \<times> py) list \<times> bool" where
  "safe_change_summary f raw = (case raw of PDict m \<Rightarrow> fold (safe_change f) (take 40 m) ([], False) | _ \<Rightarrow> ([], False))"

definition normalize_objective_text :: "(pystr \<Rightarrow> pystr \<times> bool) \<Rightarrow> pystr \<Rightarrow> pystr \<Rightarrow> pystr \<Rightarrow> pystr \<Rightarrow> pystr \<times> bool" where
  "normalize_objective_text f title decision next_step fallback =
     (let joined = py_strip (py_join '' '' (map py_strip [title, decision, next_step, fallback])) in
      if joined = [] then ([], False)
      else (let (t, b) = f (take 300 (py_join '' '' (py_split_ws joined))) in (py_strip t, b)))"

text \<open>\<open>list(v or [])[:40]\<close>.\<close>

definition forty :: "py \<Rightarrow> (value_error, py list) result" where
  "forty v = (if truthy v then res_bind (py_iter v) (\<lambda>xs. Ok (take 40 xs)) else Ok [])"

text \<open>What an attempt reads out of the milestone before it writes.\<close>

record milestone_view =
  re_title :: pystr
  re_payload :: "(pystr \<times> py) list"
  re_files :: "pystr list"
  re_outcome :: "(pystr \<times> py) list"
  re_git :: "(pystr \<times> py) list"
  re_anchors :: "py list"
  re_redacted :: bool

definition sub_dict :: "(pystr \<times> py) list \<Rightarrow> pystr \<Rightarrow> (pystr \<times> py) list" where
  "sub_dict m k = (case py_get m k of PDict d \<Rightarrow> d | _ \<Rightarrow> [])"

definition view_milestone :: "text_lib \<Rightarrow> outbox_row \<Rightarrow> (value_error, milestone_view) result" where
  "view_milestone lib row =
     (let m = ob_milestone row; outcome = sub_dict m ''outcome'' in
      res_bind (forty (py_get (sub_dict m ''payload'') ''files'')) (\<lambda>items.
      let files = map (\<lambda>v. take 240 (py_str v)) items in
      res_bind (dict_of (py_get m ''git'')) (\<lambda>git.
      res_bind (forty (py_get m ''anchors'')) (\<lambda>anchors.
      let (payload, payload_redacted) = redact_payload (tl_redact lib) (PDict
            [(''directive_id'', opt_py PStr (ob_directive row)), (''files'', PList (map PStr files)),
             (''decision'', PStr (take 500 (str_or_empty (py_get m ''decision'')))), (''outcome'', PDict outcome), (''git'', PDict git),
             (''anchors'', PList anchors), (''milestone_schema'', PStr ''v1''), (''workspace_id'', PStr (ob_workspace row)),
             (''user_id'', PStr (ob_owner row))]);
          (title, title_redacted) = tl_redact lib (take 160 (str_or (py_get m ''title'') ''Completion captured''))
      in Ok \<lparr>re_title = title, re_payload = (case payload of PDict d \<Rightarrow> d | _ \<Rightarrow> []), re_files = files, re_outcome = outcome, re_git = git,
             re_anchors = anchors, re_redacted = (payload_redacted \<or> title_redacted)\<rparr>))))"

definition event_of :: "text_lib \<Rightarrow> outbox_row \<Rightarrow> milestone_view \<Rightarrow> timeline_event" where
  "event_of lib row x =
     (let context = fold (\<lambda>(k, v). dict_set k v) (tl_project lib (py_get (ob_milestone row) ''project_context''))
            [(''session_id'', PStr (ob_session row)), (''_tce_workspace'', PStr (ob_workspace row)), (''_tce_owner'', PStr (ob_owner row)),
             (''_tce_behavior_subject'', PStr (ob_subject row))];
          outcome = [(''success'', PBool (ob_terminal row = ''succeeded'')),
             (''metrics'', PDict [(''state'', PStr (ob_terminal row)), (''outbox_id'', PStr (ob_id row))]),
             (''followups'', PList [PStr (take 300 (str_or_empty (py_get (re_outcome x) ''next_step'')))])]
      in \<lparr>ev_id = ob_event row, ev_ts = ob_created row, ev_actor = ob_owner row,
          ev_type = (if ob_terminal row = ''succeeded'' then ''TASK_DONE'' else ''TASK_DECISION''), ev_title = re_title x,
          ev_summary = tl_summary lib (re_title x) (PDict (re_payload x)) outcome, ev_payload = PDict (re_payload x), ev_context = context,
          ev_outcome = outcome,
          ev_hash = sha256_hex (canonical_json (PDict [(''title'', PStr (re_title x)), (''payload'', PDict (re_payload x)),
            (''context'', PDict context), (''ts'', PStr (isoformat (ob_created row)))])),
          ev_source = Some (ob_id row), ev_seq = Some 1, ev_idem = Some (''completion:'' @ ob_key row)\<rparr>)"

definition record_of :: "text_lib \<Rightarrow> int \<Rightarrow> outbox_row \<Rightarrow> milestone_view \<Rightarrow> handoff_row" where
  "record_of lib retention_days row x =
     (let m = ob_milestone row;
          decision = take 500 (str_or_empty (py_get m ''decision''));
          next_step = take 300 (str_or_empty (py_get (re_outcome x) ''next_step''));
          (objective, objective_redacted) = normalize_objective_text (tl_redact lib) (re_title x) decision next_step [];
          (changes, changes_redacted) = safe_change_summary (tl_redact lib) (get_or m ''change_summary_json'' ''change_summary'');
          project = tl_project lib (py_get m ''project_context'')
      in \<lparr>hr_id = ob_record row, hr_workspace = ob_workspace row, hr_owner = ob_owner row, hr_session = ob_session row,
          hr_directive = ob_directive row, hr_ts = ob_created row, hr_title = re_title x, hr_decision = decision, hr_next_step = next_step,
          hr_status = ob_terminal row, hr_files = re_files x, hr_anchors = re_anchors x, hr_git = re_git x, hr_changes = changes,
          hr_objective = objective, hr_source = ob_source row, hr_event = ob_event row,
          hr_redacted = (ob_redacted row \<or> re_redacted x \<or> objective_redacted \<or> changes_redacted),
          hr_expires = dt_plus_seconds (ob_created row) (86400 * max 1 retention_days),
          hr_project = or_none (py_strip (str_or_empty (py_get project ''project_id''))),
          hr_remote = or_none (tl_remote lib (py_get project ''project_remote'')),
          hr_executor = (case ob_executor row of Some s \<Rightarrow> if s = [] then None else Some (py_strip s) | None \<Rightarrow> None)\<rparr>)"

section \<open>Delivery\<close>

text \<open>\<open>INSERT OR IGNORE\<close> into events: the primary key, the idempotency key of a scope, the sequence of a source.\<close>

definition same_event :: "timeline_event \<Rightarrow> timeline_event \<Rightarrow> bool" where
  "same_event a b = (ev_id a = ev_id b
     \<or> (ev_idem a \<noteq> None \<and> ev_idem a = ev_idem b \<and> py_get (ev_context a) ''_tce_workspace'' = py_get (ev_context b) ''_tce_workspace''
        \<and> py_get (ev_context a) ''_tce_owner'' = py_get (ev_context b) ''_tce_owner'')
     \<or> (ev_source a \<noteq> None \<and> ev_source a = ev_source b \<and> ev_seq a \<noteq> None \<and> ev_seq a = ev_seq b
        \<and> py_get (ev_context a) ''_tce_workspace'' = py_get (ev_context b) ''_tce_workspace''))"

definition insert_event :: "timeline_event \<Rightarrow> timeline_event list \<Rightarrow> timeline_event list" where
  "insert_event e es = (if list_ex (same_event e) es then es else es @ [e])"

definition insert_record :: "handoff_row \<Rightarrow> handoff_row list \<Rightarrow> handoff_row list" where
  "insert_record h hs = (if list_ex (\<lambda>x. hr_id x = hr_id h) hs then hs else hs @ [h])"

text \<open>Every consumed grant of the session that still waits for a completion takes this one.\<close>

definition settle_grant :: "outbox_row \<Rightarrow> datetime \<Rightarrow> grant_row \<Rightarrow> grant_row" where
  "settle_grant row now g =
     (if cg_workspace g = ob_workspace row \<and> cg_owner g = ob_owner row \<and> cg_session g = ob_session row \<and> cg_required g
         \<and> cg_status g = ''consumed'' \<and> cg_recorded g = None
      then g\<lparr>cg_outbox := Some (ob_id row), cg_recorded := Some now\<rparr> else g)"

definition update_outbox :: "pystr \<Rightarrow> (outbox_row \<Rightarrow> outbox_row) \<Rightarrow> outbox_row list \<Rightarrow> outbox_row list" where
  "update_outbox i f rows = map (\<lambda>r. if ob_id r = i then f r else r) rows"

definition delivered_row :: "datetime \<Rightarrow> outbox_row \<Rightarrow> outbox_row" where
  "delivered_row now r = r\<lparr>ob_status := ''delivered'', ob_attempts := ob_attempts r + 1, ob_error := None, ob_delivered := Some now, ob_updated := now\<rparr>"

text \<open>What the writing transaction of a delivery commits, for the row as it was read.\<close>

definition commit_delivery :: "text_lib \<Rightarrow> int \<Rightarrow> datetime \<Rightarrow> outbox_row \<Rightarrow> milestone_view \<Rightarrow> handoff_db \<Rightarrow> handoff_db" where
  "commit_delivery lib retention_days now row x db =
     db\<lparr>hd_events := insert_event (event_of lib row x) (hd_events db),
        hd_records := insert_record (record_of lib retention_days row x) (hd_records db),
        hd_grants := map (settle_grant row now) (hd_grants db),
        hd_outbox := update_outbox (ob_id row) (delivered_row now) (hd_outbox db)\<rparr>"

text \<open>
  The row is read before the transaction opens; \<open>others\<close> is what commits in between.  \<open>fault\<close> is what a
  statement of the transaction raises, if it does.
\<close>

definition deliver_handoff ::
  "text_lib \<Rightarrow> int \<Rightarrow> datetime \<Rightarrow> (handoff_db \<Rightarrow> handoff_db) \<Rightarrow> pystr option \<Rightarrow> pystr \<Rightarrow> handoff_db
    \<Rightarrow> (outbox_fault, outbox_row) result \<times> handoff_db" where
  "deliver_handoff lib retention_days now others fault i db =
     (case find (\<lambda>r. ob_id r = i) (hd_outbox db) of
        None \<Rightarrow> (Err NoSuchOutbox, db)
      | Some row \<Rightarrow>
          if ob_status row = ''delivered'' then (Ok row, db)
          else (case view_milestone lib row of
              Inl e \<Rightarrow> (Err (Unreadable e), db)
            | Inr x \<Rightarrow>
                (case fault of
                   Some msg \<Rightarrow> (Err (Failed msg), others db)
                 | None \<Rightarrow>
                     (let db' = commit_delivery lib retention_days now row x (others db) in
                      case find (\<lambda>r. ob_id r = i) (hd_outbox db') of
                        None \<Rightarrow> (Err (Failed ''delivered outbox disappeared''), db')
                      | Some r \<Rightarrow> (Ok r, db')))))"

text \<open>\<open>str(exc)\<close>; the text of a \<open>TypeError\<close> is the interpreter's, an argument.\<close>

definition fault_text :: "pystr \<Rightarrow> outbox_fault \<Rightarrow> pystr" where
  "fault_text type_error e = (case e of Failed s \<Rightarrow> s | Unreadable (ValueError s) \<Rightarrow> s | Unreadable TypeError \<Rightarrow> type_error
     | NoSuchOutbox \<Rightarrow> [] | CompletionConflict s \<Rightarrow> s)"

definition backoff_seconds :: "int \<Rightarrow> int" where
  "backoff_seconds attempts = min 3600 (2 ^ nat (min attempts 10))"

definition failed_row :: "int \<Rightarrow> datetime \<Rightarrow> pystr \<Rightarrow> outbox_row \<Rightarrow> outbox_row" where
  "failed_row attempts now msg r =
     r\<lparr>ob_status := (if 10 \<le> attempts then ''dead'' else ''pending''), ob_attempts := attempts, ob_error := Some (take 1000 msg),
       ob_next := dt_plus_seconds now (backoff_seconds attempts), ob_updated := now\<rparr>"

text \<open>After a failure: the attempts are read again, and the \<open>UPDATE\<close> names the row only by its identifier.\<close>

definition deliver_handoff_safely ::
  "text_lib \<Rightarrow> int \<Rightarrow> datetime \<Rightarrow> (handoff_db \<Rightarrow> handoff_db) \<Rightarrow> pystr \<Rightarrow> pystr option \<Rightarrow> pystr \<Rightarrow> handoff_db
    \<Rightarrow> (outbox_fault, outbox_row) result \<times> handoff_db" where
  "deliver_handoff_safely lib retention_days now others type_error fault i db =
     (case deliver_handoff lib retention_days now others fault i db of
        (Inr row, db1) \<Rightarrow> (Ok row, db1)
      | (Inl e, db1) \<Rightarrow>
          (case find (\<lambda>r. ob_id r = i) (hd_outbox db1) of
             None \<Rightarrow> (Err e, db1)
           | Some row \<Rightarrow>
               (let db2 = db1\<lparr>hd_outbox := update_outbox i (failed_row (ob_attempts row + 1) now (fault_text type_error e)) (hd_outbox db1)\<rparr> in
                case find (\<lambda>r. ob_id r = i) (hd_outbox db2) of None \<Rightarrow> (Err e, db2) | Some r \<Rightarrow> (Ok r, db2))))"

section \<open>Retention\<close>

text \<open>
  The \<open>DELETE FROM handoff_records\<close> of \<open>run_lifecycle_maintenance\<close> (store.py), at \<open>now\<close> with \<open>handoff_retention_days\<close>: the columns are
  ISO strings, compared as such.
\<close>

definition expired_record :: "datetime \<Rightarrow> int \<Rightarrow> handoff_row \<Rightarrow> bool" where
  "expired_record now retention_days h =
     (isoformat (hr_expires h) < isoformat now
      \<or> isoformat (hr_ts h) < isoformat (dt_plus_seconds now (- (86400 * max 1 retention_days))))"

definition delete_expired :: "datetime \<Rightarrow> int \<Rightarrow> handoff_db \<Rightarrow> handoff_db" where
  "delete_expired now retention_days db = db\<lparr>hd_records := filter (\<lambda>h. \<not> expired_record now retention_days h) (hd_records db)\<rparr>"

section \<open>Draining and requeueing\<close>

definition due :: "datetime \<Rightarrow> outbox_row \<Rightarrow> bool" where
  "due now r = (ob_status r = ''pending'' \<and> isoformat (ob_next r) \<le> isoformat now)"

definition drain_batch :: "datetime \<Rightarrow> int \<Rightarrow> outbox_row list \<Rightarrow> pystr list" where
  "drain_batch now limit rows =
     map ob_id (take (nat (max 1 (min 500 limit))) (sort_key (\<lambda>r. isoformat (ob_created r)) (filter (due now) rows)))"

record drain_counts =
  dr_processed :: nat
  dr_delivered :: nat
  dr_pending :: nat
  dr_dead :: nat

definition count_status :: "pystr \<Rightarrow> drain_counts \<Rightarrow> drain_counts" where
  "count_status status c =
     c\<lparr>dr_processed := dr_processed c + 1, dr_delivered := dr_delivered c + (if status = ''delivered'' then 1 else 0),
       dr_pending := dr_pending c + (if status = ''pending'' then 1 else 0), dr_dead := dr_dead c + (if status = ''dead'' then 1 else 0)\<rparr>"

text \<open>\<open>tries\<close> gives the clock, the interference and the fault of each attempt.\<close>

fun drain_each ::
  "text_lib \<Rightarrow> int \<Rightarrow> pystr \<Rightarrow> (nat \<Rightarrow> datetime \<times> (handoff_db \<Rightarrow> handoff_db) \<times> pystr option) \<Rightarrow> nat \<Rightarrow> pystr list \<Rightarrow> drain_counts \<Rightarrow> handoff_db
    \<Rightarrow> (outbox_fault, drain_counts) result \<times> handoff_db" where
  "drain_each lib days te tries n [] c db = (Ok c, db)"
| "drain_each lib days te tries n (i # is) c db =
     (let (now, others, fault) = tries n in
      case deliver_handoff_safely lib days now others te fault i db of
        (Inl e, db1) \<Rightarrow> (Err e, db1)
      | (Inr row, db1) \<Rightarrow> drain_each lib days te tries (Suc n) is (count_status (ob_status row) c) db1)"

definition drain_pending_handoffs ::
  "text_lib \<Rightarrow> int \<Rightarrow> pystr \<Rightarrow> (nat \<Rightarrow> datetime \<times> (handoff_db \<Rightarrow> handoff_db) \<times> pystr option) \<Rightarrow> datetime \<Rightarrow> int \<Rightarrow> handoff_db
    \<Rightarrow> (outbox_fault, drain_counts) result \<times> handoff_db" where
  "drain_pending_handoffs lib days te tries now limit db =
     drain_each lib days te tries 0 (drain_batch now limit (hd_outbox db)) \<lparr>dr_processed = 0, dr_delivered = 0, dr_pending = 0, dr_dead = 0\<rparr> db"

datatype requeue_fault = HandoffNotFound | HandoffNotDead pystr

definition requeued_row :: "datetime \<Rightarrow> outbox_row \<Rightarrow> outbox_row" where
  "requeued_row now r = (if ob_status r = ''dead''
     then r\<lparr>ob_status := ''pending'', ob_attempts := 0, ob_next := now, ob_error := Some [], ob_updated := now\<rparr> else r)"

definition requeue_dead_handoff :: "pystr \<Rightarrow> pystr \<Rightarrow> datetime \<Rightarrow> handoff_db \<Rightarrow> (requeue_fault, unit) result \<times> handoff_db" where
  "requeue_dead_handoff workspace i now db =
     (case find (\<lambda>r. ob_id r = i) (hd_outbox db) of
        None \<Rightarrow> (Err HandoffNotFound, db)
      | Some row \<Rightarrow>
          if ob_workspace row \<noteq> workspace then (Err HandoffNotFound, db)
          else if ob_status row \<noteq> ''dead'' then (Err (HandoffNotDead (ob_status row)), db)
          else (Ok (), db\<lparr>hd_outbox := update_outbox i (requeued_row now) (hd_outbox db)\<rparr>))"

text \<open>The Full twin looks the row up by its identifier alone.\<close>

definition full_requeue_dead_handoff :: "pystr \<Rightarrow> datetime \<Rightarrow> handoff_db \<Rightarrow> (requeue_fault, unit) result \<times> handoff_db" where
  "full_requeue_dead_handoff i now db =
     (case find (\<lambda>r. ob_id r = i) (hd_outbox db) of
        None \<Rightarrow> (Err HandoffNotFound, db)
      | Some row \<Rightarrow>
          if ob_status row \<noteq> ''dead'' then (Err (HandoffNotDead (ob_status row)), db)
          else (Ok (), db\<lparr>hd_outbox := update_outbox i (requeued_row now) (hd_outbox db)\<rparr>))"

end
