(* ===== verification/Handoff.thy ===== *)
theory Handoff
  imports Outbox
begin

text \<open>
  Normalising what an executor reports: the milestone of a hand-off (\<open>shared/tce_shared/handoff.py\<close>) and the class of a
  failure with its retry strategy (\<open>shared/tce_shared/failure_classifier.py\<close>).  The redaction of secrets is an argument.
\<close>

section \<open>Strings, lists and anchors\<close>

type_synonym redaction = "pystr \<Rightarrow> pystr \<times> bool"

definition py_or :: "py \<Rightarrow> py \<Rightarrow> py" where
  "py_or v w = (if truthy v then v else w)"

definition normalize_handoff_mode :: "py \<Rightarrow> pystr" where
  "normalize_handoff_mode value = (let mode = py_lower (py_strip (str_or value ''shadow'')) in
     if mode \<in> set [''shadow'', ''warn'', ''enforce''] then mode else ''shadow'')"

definition redact_string :: "redaction \<Rightarrow> nat \<Rightarrow> py \<Rightarrow> pystr \<times> bool" where
  "redact_string red max_len value = (let (t, b) = red (take max_len (py_strip (str_or_empty value))) in (py_strip t, b))"

fun add_strings :: "redaction \<Rightarrow> nat \<Rightarrow> nat \<Rightarrow> pystr list \<times> bool \<Rightarrow> py list \<Rightarrow> pystr list \<times> bool" where
  "add_strings red max_items max_len (out, redacted_any) [] = (out, redacted_any)"
| "add_strings red max_items max_len (out, redacted_any) (raw # values) =
     (let (value, redacted) = redact_string red max_len raw in
      if value = [] \<or> value \<in> set out then add_strings red max_items max_len (out, redacted_any) values
      else if max_items \<le> length (out @ [value]) then (out @ [value], redacted_any \<or> redacted)
      else add_strings red max_items max_len (out @ [value], redacted_any \<or> redacted) values)"

definition normalize_string_list :: "redaction \<Rightarrow> nat \<Rightarrow> nat \<Rightarrow> py \<Rightarrow> pystr list \<times> bool" where
  "normalize_string_list red max_items max_len values = (case values of
     PList xs \<Rightarrow> add_strings red max_items max_len ([], False) xs | _ \<Rightarrow> ([], False))"

definition GIT_KEYS :: "pystr list" where
  "GIT_KEYS = [''repo'', ''branch'', ''commit'', ''pr'']"

definition normalize_git :: "redaction \<Rightarrow> py \<Rightarrow> (pystr \<times> py) list \<times> bool" where
  "normalize_git red raw =
     (let m = (case raw of PDict m \<Rightarrow> m | _ \<Rightarrow> []); found = map (\<lambda>k. (k, redact_string red 200 (py_get m k))) GIT_KEYS
      in (map (\<lambda>(k, v, b). (k, PStr v)) (filter (\<lambda>(k, v, b). v \<noteq> []) found), list_ex (\<lambda>(k, v, b). b) found))"

definition positive_line :: "py \<Rightarrow> int option" where
  "positive_line v = (case py_int_of v of Inr i \<Rightarrow> if 0 < i then Some i else None | Inl _ \<Rightarrow> None)"

definition normalize_anchor_item :: "redaction \<Rightarrow> py \<Rightarrow> (pystr \<times> py) list option \<times> bool" where
  "normalize_anchor_item red raw = (case raw of
       PDict m \<Rightarrow>
         (let (file, redacted_file) = redact_string red 240 (py_get m ''file'') in
          if file = [] then (None, redacted_file)
          else (let (symbol, redacted_symbol) = redact_string red 160 (py_get m ''symbol'') in
            (Some ([(''file'', PStr file)]
                @ (case positive_line (py_get m ''line'') of Some i \<Rightarrow> [(''line'', PInt i)] | None \<Rightarrow> [])
                @ (if symbol \<noteq> [] then [(''symbol'', PStr symbol)] else [])), redacted_file \<or> redacted_symbol)))
     | _ \<Rightarrow> (None, False))"

definition anchor_key :: "(pystr \<times> py) list \<Rightarrow> pystr" where
  "anchor_key a = py_str (py_get a ''file'') @ '':'' @ py_str (py_get a ''line'') @ '':'' @ py_str (py_get a ''symbol'')"

fun add_anchors :: "redaction \<Rightarrow> nat \<Rightarrow> (pystr \<times> py) list list \<times> bool \<Rightarrow> py list \<Rightarrow> (pystr \<times> py) list list \<times> bool" where
  "add_anchors red max_items (out, redacted_any) [] = (out, redacted_any)"
| "add_anchors red max_items (out, redacted_any) (raw # values) =
     (case normalize_anchor_item red raw of
        (None, redacted) \<Rightarrow> add_anchors red max_items (out, redacted_any \<or> redacted) values
      | (Some a, redacted) \<Rightarrow>
          (if anchor_key a \<in> set (map anchor_key out) then add_anchors red max_items (out, redacted_any \<or> redacted) values
           else if max_items \<le> length (out @ [a]) then (out @ [a], redacted_any \<or> redacted)
           else add_anchors red max_items (out @ [a], redacted_any \<or> redacted) values))"

definition normalize_anchor_list :: "redaction \<Rightarrow> nat \<Rightarrow> py \<Rightarrow> (pystr \<times> py) list list \<times> bool" where
  "normalize_anchor_list red max_items values = (case values of
     PList xs \<Rightarrow> add_anchors red max_items ([], False) xs | _ \<Rightarrow> ([], False))"

fun dedupe_anchors :: "nat \<Rightarrow> (pystr \<times> py) list list \<Rightarrow> (pystr \<times> py) list list \<Rightarrow> (pystr \<times> py) list list" where
  "dedupe_anchors max_items out [] = out"
| "dedupe_anchors max_items out (a # as) =
     (if anchor_key a \<in> set (map anchor_key out) then dedupe_anchors max_items out as
      else if max_items \<le> length (out @ [a]) then out @ [a] else dedupe_anchors max_items (out @ [a]) as)"

definition merge_anchors :: "(pystr \<times> py) list option \<Rightarrow> nat \<Rightarrow> (pystr \<times> py) list list \<Rightarrow> (pystr \<times> py) list list" where
  "merge_anchors checkpoint max_items reported =
     dedupe_anchors max_items [] ((case checkpoint of Some a \<Rightarrow> if a = [] then [] else [a] | None \<Rightarrow> []) @ reported)"

section \<open>The milestone\<close>

definition VALID_OUTCOME_STATUS :: "pystr list" where
  "VALID_OUTCOME_STATUS = [''succeeded'', ''failed'', ''blocked'']"

record milestone_result =
  mr_title :: pystr
  mr_files :: "pystr list"
  mr_decision :: pystr
  mr_status :: pystr
  mr_next_step :: pystr
  mr_git :: "(pystr \<times> py) list"
  mr_anchors :: "(pystr \<times> py) list list"
  mr_errors :: "pystr list"
  mr_redacted :: bool

text \<open>The fallback when the reported status is none of the three.\<close>

definition fallback_status :: "pystr \<Rightarrow> pystr" where
  "fallback_status state = (let s = or_else (py_lower (py_strip (or_else state ''failed''))) ''failed'' in
     if s \<in> set VALID_OUTCOME_STATUS then s else ''failed'')"

definition normalize_milestone_v1 :: "redaction \<Rightarrow> (pystr \<times> py) list \<Rightarrow> pystr \<Rightarrow> pystr \<Rightarrow> milestone_result" where
  "normalize_milestone_v1 red details state fallback_title =
     (let (title, b1) = redact_string red 160 (py_or (py_get details ''title'') (PStr fallback_title));
          (direct, b2) = normalize_string_list red 40 240 (py_get details ''files'');
          (more, b3) = (case py_get details ''payload'' of
             PDict p \<Rightarrow> normalize_string_list red 40 240 (py_get p ''files'') | _ \<Rightarrow> ([], False));
          files = take 40 (direct @ filter (\<lambda>f. f \<notin> set direct) more);
          (decision, b4) = redact_string red 500 (get_or details ''decision'' ''why'');
          outcome = sub_dict details ''outcome'';
          (status, b5) = redact_string red 24 (py_or (py_get outcome ''status'') (PStr state));
          (next_step, b6) = redact_string red 300 (py_or (py_get outcome ''next_step'') (py_get details ''next_step''));
          (anchors, b7) = normalize_anchor_list red 40 (py_get details ''anchors'');
          (git, b8) = normalize_git red (py_get details ''git'');
          known = py_lower status \<in> set VALID_OUTCOME_STATUS;
          final = (if known then py_lower status else fallback_status state)
      in \<lparr>mr_title = (if title = [] then take 160 fallback_title else title), mr_files = files,
          mr_decision = or_else decision ''No decision rationale provided.'', mr_status = final,
          mr_next_step = (if next_step \<noteq> [] then next_step
            else if final = ''succeeded'' then ''Continue with the next objective.''
            else ''Retry or request clarification before continuing.''),
          mr_git = git, mr_anchors = anchors,
          mr_errors = (if title = [] then [''title is required''] else [])
            @ (if files = [] then [''payload.files must include at least one file path''] else [])
            @ (if decision = [] then [''decision is required''] else [])
            @ (if known then [] else [''outcome.status must be one of succeeded|failed|blocked''])
            @ (if next_step = [] then [''outcome.next_step is required''] else []),
          mr_redacted = (b1 \<or> b2 \<or> b3 \<or> b4 \<or> b5 \<or> b6 \<or> b7 \<or> b8)\<rparr>)"

text \<open>The dictionary \<open>normalized\<close>, in its order.\<close>

definition milestone_dict :: "milestone_result \<Rightarrow> (pystr \<times> py) list" where
  "milestone_dict r =
     [(''title'', PStr (mr_title r)), (''payload'', PDict [(''files'', PList (map PStr (mr_files r)))]), (''decision'', PStr (mr_decision r)),
      (''outcome'', PDict [(''status'', PStr (mr_status r)), (''next_step'', PStr (mr_next_step r))]), (''git'', PDict (mr_git r)),
      (''anchors'', PList (map PDict (mr_anchors r))), (''milestone_schema'', PStr ''v1'')]"

section \<open>Failures\<close>

datatype failure_class = TOOL_ERROR | CONSTRAINT_BLOCK | SAFETY_BLOCK | VALIDATION_FAILURE | TIMEOUT | UNKNOWN

datatype retry_strategy = NARROW_SCOPE | READ_ONLY_DIAGNOSE | ALTERNATE_PATH | ROLLBACK_THEN_RETRY | ESCALATE

definition any_in :: "pystr list \<Rightarrow> pystr \<Rightarrow> bool" where
  "any_in tokens haystack = list_ex (\<lambda>t. py_contains t haystack) tokens"

definition classify_failure :: "pystr \<Rightarrow> pystr option \<Rightarrow> (pystr \<times> py) list \<Rightarrow> failure_class" where
  "classify_failure result reason details =
     (let res = py_lower (py_strip result);
          why = py_lower (py_strip (case reason of Some s \<Rightarrow> s | None \<Rightarrow> []));
          haystack = py_join '' '' (filter (\<lambda>s. s \<noteq> []) [res, why, py_lower (py_repr (PDict details))])
      in if any_in [''timeout'', ''timed out'', ''deadline exceeded''] haystack then TIMEOUT
         else if any_in [''check_context'', ''constraint'', ''protected file'', ''policy block''] haystack then CONSTRAINT_BLOCK
         else if any_in [''safety'', ''permit'', ''confirm_required'', ''high-risk'', ''blocked by operator''] haystack then SAFETY_BLOCK
         else if any_in [''validation'', ''invalid'', ''schema'', ''pydantic'', ''json decode''] haystack then VALIDATION_FAILURE
         else if any_in [''traceback'', ''exception'', ''tool error'', ''command failed'', ''non-zero exit''] haystack then TOOL_ERROR
         else if res = ''blocked'' then CONSTRAINT_BLOCK
         else if res \<in> set [''failure'', ''error''] then TOOL_ERROR
         else UNKNOWN)"

definition retry_strategy_for_attempt :: "int \<Rightarrow> failure_class \<Rightarrow> bool \<Rightarrow> retry_strategy" where
  "retry_strategy_for_attempt attempt fc rollback_available =
     (if attempt \<le> 1 then NARROW_SCOPE
      else if attempt = 2
      then (if fc \<in> set [TOOL_ERROR, TIMEOUT, UNKNOWN] then READ_ONLY_DIAGNOSE else ALTERNATE_PATH)
      else if attempt = 3 \<and> rollback_available then ROLLBACK_THEN_RETRY
      else ESCALATE)"

end
