(* ===== verification/Claim_Execution.thy ===== *)
theory Claim_Execution
  imports Permit_Store Handoff
begin

text \<open>
  \<open>claim_execution\<close> of \<open>services/tce_lite_api/tce_lite_api/store.py\<close>: how a directive comes to be executed.  The whole
  handler runs under SQLite's write lock.  Timestamp columns are given by the datetime written to them; the
  takeover session by the columns the claim writes.
\<close>

section \<open>Tables\<close>

record lite_directive =
  ld_id :: pystr
  ld_session :: pystr
  ld_workspace :: pystr
  ld_user :: pystr
  ld_objective :: "pystr option"
  ld_kind :: pystr
  ld_attempt :: int
  ld_requires :: bool
  ld_permit :: "pystr option"
  ld_created :: datetime
  ld_goal :: "pystr option"
  ld_failure :: "failure_class option"
  ld_failure_reason :: "pystr option"
  ld_strategy :: "retry_strategy option"
  ld_plan :: py
  ld_result :: py
  ld_key :: "pystr option"
  ld_hash :: "pystr option"
  ld_verification :: pystr
  ld_row :: directive_row

record audit_entry =
  ad_consumer :: pystr
  ad_action :: pystr
  ad_query :: "(pystr \<times> py) list"
  ad_decisions :: "(pystr \<times> py) list"

record session_counts =
  sn_session :: pystr
  sn_workspace :: pystr
  sn_user :: pystr
  sn_mode :: pystr
  sn_pending :: int
  sn_backlog :: int

record claim_db =
  kd_directives :: "lite_directive list"
  kd_permits :: "permit list"
  kd_sessions :: "session_counts list"
  kd_audit :: "audit_entry list"

record claim_request =
  cq_session :: pystr
  cq_directive :: "pystr option"
  cq_claimed_by :: "pystr option"

record claim_settings =
  cs_charter_enforced :: bool
  cs_digest_enforced :: bool
  cs_claim_ttl :: int
  cs_mode :: pystr

fun transition_reason_str :: "transition_reason \<Rightarrow> pystr" where
  "transition_reason_str TR_OK = ''ok''"
| "transition_reason_str TR_INVALID_TRANSITION = ''invalid_transition''"
| "transition_reason_str TR_NOT_CLAIMED = ''not_claimed''"
| "transition_reason_str TR_CLAIMED_BY_OTHER = ''claimed_by_other''"
| "transition_reason_str TR_STALE_LEASE = ''stale_lease''"
| "transition_reason_str TR_LEASE_REQUIRED = ''lease_required''"
| "transition_reason_str TR_PERMIT_INVALID = ''permit_invalid''"
| "transition_reason_str TR_TERMINAL = ''terminal''"
| "transition_reason_str TR_SYSTEM_ONLY = ''system_only''"
| "transition_reason_str TR_CONCURRENT_UPDATE = ''concurrent_update''"

text \<open>\<open>Rejected reason state lease executor message\<close> is the 409 of a refused transition.\<close>

datatype claim_fault = ChannelPaused | NoPendingDirective | NoActiveCharter pystr pystr | CharterUnreadable charter_fault
  | CharterIncomparable | NoPermitAttached | PermitNotApproved | Rejected pystr dstate int "pystr option" pystr

section \<open>Audit\<close>

definition audit :: "pystr \<Rightarrow> pystr \<Rightarrow> (pystr \<times> py) list \<Rightarrow> (pystr \<times> py) list \<Rightarrow> claim_db \<Rightarrow> claim_db" where
  "audit consumer action query decisions db =
     db\<lparr>kd_audit := kd_audit db @ [\<lparr>ad_consumer = consumer, ad_action = action, ad_query = query, ad_decisions = decisions\<rparr>]\<rparr>"

text \<open>\<open>_reject_directive_transition\<close>, for a claim: the audit row and the answer.\<close>

definition reject_claim ::
  "caller \<Rightarrow> pystr \<Rightarrow> directive_row \<Rightarrow> pystr \<Rightarrow> pystr \<Rightarrow> claim_db \<Rightarrow> (claim_fault, lite_directive) result \<times> claim_db" where
  "reject_claim cl directive row reason message db =
     (Err (Rejected reason (dr_state row) (dr_lease row) (text_or_none (dr_executor row)) message),
      audit (cl_consumer cl) ''directive_claim_rejected''
        [(''directive_id'', PStr directive), (''requested_state'', PStr (dstate_str D_IN_PROGRESS)), (''reason'', PStr reason),
         (''presented_lease'', PNone), (''current_lease'', PInt (dr_lease row)),
         (''claimed_executor'', opt_py PStr (text_or_none (dr_executor row))), (''actor'', PStr (cl_consumer cl)),
         (''payload_hash'', PNone), (''late_payload'', PDict [])]
        [(''reason'', PStr reason), (''policy_revision'', PStr SCOPE_POLICY_REVISION)] db)"

section \<open>Finding the directive\<close>

text \<open>\<open>ORDER BY key DESC LIMIT 1\<close>.\<close>

definition latest_by :: "('a \<Rightarrow> 'k::linorder) \<Rightarrow> 'a list \<Rightarrow> 'a option" where
  "latest_by key xs = fold (\<lambda>x best. case best of None \<Rightarrow> Some x | Some b \<Rightarrow> if key b < key x then Some x else best) xs None"

definition of_session :: "caller \<Rightarrow> pystr \<Rightarrow> lite_directive \<Rightarrow> bool" where
  "of_session cl session d = (ld_session d = session \<and> ld_workspace d = cl_workspace cl \<and> ld_user d = cl_user cl)"

definition claim_target :: "caller \<Rightarrow> claim_request \<Rightarrow> claim_db \<Rightarrow> lite_directive option" where
  "claim_target cl rq db = (case cq_directive rq of
       Some i \<Rightarrow> find (\<lambda>d. ld_id d = i \<and> of_session cl (cq_session rq) d) (kd_directives db)
     | None \<Rightarrow> latest_by (\<lambda>d. isoformat (ld_created d))
         (filter (\<lambda>d. of_session cl (cq_session rq) d \<and> dr_state (ld_row d) = D_PENDING) (kd_directives db)))"

section \<open>The permit\<close>

text \<open>A permit of the session that is granted, unexpired and not bound to anything else.\<close>

definition permit_usable :: "caller \<Rightarrow> claim_request \<Rightarrow> lite_directive \<Rightarrow> datetime \<Rightarrow> permit \<Rightarrow> bool" where
  "permit_usable cl rq d now p =
     (ep_session p = cq_session rq \<and> ep_workspace p = cl_workspace cl \<and> ep_decision p = ''allow''
      \<and> (case ep_expires p of None \<Rightarrow> True | Some t \<Rightarrow> isoformat now < isoformat t)
      \<and> ep_user p \<in> {None, Some (ld_user d)}
      \<and> (ep_objective p = None \<or> text_or_none (ld_objective d) = None \<or> ep_objective p = text_or_none (ld_objective d))
      \<and> ep_directive p \<in> {None, Some (ld_id d)})"

definition attach_permit :: "caller \<Rightarrow> claim_request \<Rightarrow> lite_directive \<Rightarrow> datetime \<Rightarrow> claim_db \<Rightarrow> (claim_fault, pystr \<times> claim_db) result" where
  "attach_permit cl rq d now db =
     (case text_or_none (ld_permit d) of
        Some i \<Rightarrow> Ok (i, db)
      | None \<Rightarrow>
          (case latest_by (\<lambda>p. isoformat (case ep_resolved p of Some t \<Rightarrow> t | None \<Rightarrow> ep_created p))
                  (filter (permit_usable cl rq d now) (kd_permits db)) of
             None \<Rightarrow> Err NoPermitAttached
           | Some p \<Rightarrow> Ok (ep_id p,
               db\<lparr>kd_directives := map (\<lambda>x. if ld_id x = ld_id d then x\<lparr>ld_permit := Some (ep_id p)\<rparr> else x) (kd_directives db),
                  kd_permits := bind_permit (ld_id d) (ld_attempt d) (ep_id p) (kd_permits db)\<rparr>)))"

text \<open>The digest expected of a permit is computed from the action on the permit itself.\<close>

definition claim_check :: "bool \<Rightarrow> charter option \<Rightarrow> lite_directive \<Rightarrow> datetime \<Rightarrow> permit \<Rightarrow> permit_check" where
  "claim_check enforced charter d now p =
     \<lparr>pq_decision = or_none (ep_decision p), pq_expires_at = ep_expires p, pq_user_id = text_or_none (ep_user p),
      pq_directive_id = text_or_none (ep_directive p), pq_objective_hash = text_or_none (ep_objective p),
      pq_scope_digest = text_or_none (ep_digest p),
      pq_expected_digest = Some (permit_scope_digest (ep_kind p) (ep_paths p) (text_or_none (ep_preview p))),
      pq_enforced = enforced, pq_charter_id = text_or_none (ep_charter p), pq_active_charter = map_option ch_id charter,
      pq_for_directive = ld_id d, pq_for_user = ld_user d, pq_for_objective = text_or_none (ld_objective d),
      pq_started_at = None, pq_now = now\<rparr>"

text \<open>The phase is a literal, so \<^const>\<open>permit_binding_ok\<close> does not raise.\<close>

definition check_permit :: "bool \<Rightarrow> charter option \<Rightarrow> lite_directive \<Rightarrow> datetime \<Rightarrow> permit \<Rightarrow> bool \<times> pystr" where
  "check_permit enforced charter d now p = (case permit_binding_ok (claim_check enforced charter d now p) ''claim'' of
     Inr verdict \<Rightarrow> verdict | Inl e \<Rightarrow> (False, e))"

text \<open>The permit's part of the claim: whether it holds, why not, when it ends, and the tables with it attached.\<close>

definition claim_permit ::
  "claim_settings \<Rightarrow> charter option \<Rightarrow> caller \<Rightarrow> claim_request \<Rightarrow> lite_directive \<Rightarrow> datetime \<Rightarrow> claim_db
    \<Rightarrow> (claim_fault, (bool \<times> pystr) \<times> datetime option \<times> claim_db) result" where
  "claim_permit se charter cl rq d now db =
     (if \<not> ld_requires d then Ok ((True, ''ok''), None, db)
      else res_bind (attach_permit cl rq d now db) (\<lambda>(i, db1).
        case find (\<lambda>p. ep_id p = i \<and> ep_session p = cq_session rq \<and> ep_workspace p = cl_workspace cl) (kd_permits db1) of
          None \<Rightarrow> Err PermitNotApproved
        | Some p \<Rightarrow> Ok (check_permit (cs_digest_enforced se) charter d now p, ep_expires p, db1)))"

section \<open>The claim\<close>

definition claim_deadline :: "claim_settings \<Rightarrow> datetime option \<Rightarrow> datetime \<Rightarrow> datetime" where
  "claim_deadline se permit_expires now =
     (let t = dt_plus_seconds now (max 30 (cs_claim_ttl se)) in
      case permit_expires of Some e \<Rightarrow> if instant e < instant t then e else t | None \<Rightarrow> t)"

text \<open>\<open>_sync_enforcement_counters\<close> and \<open>save_takeover_state\<close>.\<close>

definition sync_counters :: "claim_settings \<Rightarrow> caller \<Rightarrow> pystr \<Rightarrow> claim_db \<Rightarrow> claim_db" where
  "sync_counters se cl session db =
     (let mine = filter (of_session cl session) (kd_directives db);
          counts = \<lparr>sn_session = session, sn_workspace = cl_workspace cl, sn_user = cl_user cl, sn_mode = cs_mode se,
            sn_pending = int (length (filter (\<lambda>d. dr_state (ld_row d) \<in> {D_PENDING, D_IN_PROGRESS}) mine)),
            sn_backlog = int (length (filter (\<lambda>d. dr_state (ld_row d) = D_PENDING) mine))\<rparr>;
          same = (\<lambda>s. sn_session s = session \<and> sn_workspace s = cl_workspace cl \<and> sn_user s = cl_user cl)
      in db\<lparr>kd_sessions := (if list_ex same (kd_sessions db) then map (\<lambda>s. if same s then counts else s) (kd_sessions db)
           else kd_sessions db @ [counts])\<rparr>)"

text \<open>The fenced \<open>UPDATE\<close>, on the row as it is.\<close>

definition claim_row :: "caller \<Rightarrow> lite_directive \<Rightarrow> pystr \<Rightarrow> int \<Rightarrow> datetime \<Rightarrow> datetime \<Rightarrow> lite_directive \<Rightarrow> lite_directive option" where
  "claim_row cl d claimer lease deadline now x =
     (if ld_id x = ld_id d \<and> ld_workspace x = cl_workspace cl \<and> ld_user x = cl_user cl
      then map_option (\<lambda>r. x\<lparr>ld_row := r\<rparr>) (claim_update (cl_consumer cl) claimer (dr_lease (ld_row d)) lease deadline now (ld_row x))
      else None)"

definition commit_claim ::
  "claim_settings \<Rightarrow> caller \<Rightarrow> claim_request \<Rightarrow> lite_directive \<Rightarrow> transition_decision \<Rightarrow> datetime option \<Rightarrow> datetime \<Rightarrow> claim_db \<Rightarrow> claim_db
    \<Rightarrow> (claim_fault, lite_directive) result \<times> claim_db" where
  "commit_claim se cl rq d decision permit_expires now db0 db =
     (let claimer = (case text_or_none (cq_claimed_by rq) of Some s \<Rightarrow> s | None \<Rightarrow> cl_user cl);
          upd = claim_row cl d claimer (td_next_lease decision) (claim_deadline se permit_expires now) now
      in if length (filter (\<lambda>x. upd x \<noteq> None) (kd_directives db)) \<noteq> 1
         then (let fresh = (case find (\<lambda>x. ld_id x = ld_id d) (kd_directives db0) of Some x \<Rightarrow> ld_row x | None \<Rightarrow> ld_row d) in
           if dr_state fresh = D_IN_PROGRESS
           then reject_claim cl (ld_id d) fresh ''claimed_by_other'' ''another executor claimed this directive first'' db0
           else reject_claim cl (ld_id d) fresh ''concurrent_update'' ''directive changed concurrently; re-read and retry'' db0)
         else (let db1 = sync_counters se cl (cq_session rq)
                     (db\<lparr>kd_directives := map (\<lambda>x. case upd x of Some x' \<Rightarrow> x' | None \<Rightarrow> x) (kd_directives db)\<rparr>)
               in case find (\<lambda>x. ld_id x = ld_id d) (kd_directives db1) of
                    None \<Rightarrow> (Err NoPendingDirective, db1)
                  | Some claimed \<Rightarrow> (Ok claimed,
                      audit (cl_consumer cl) (td_audited_as decision)
                        [(''directive_id'', PStr (ld_id d)), (''lease_generation'', PInt (td_next_lease decision)),
                         (''claimed_executor'', PStr (cl_consumer cl)), (''claimed_by'', PStr claimer)]
                        [(''reason'', PStr ''ok''), (''policy_revision'', PStr SCOPE_POLICY_REVISION)] db1)))"

text \<open>A claim of a pending directive, past the charter gate.\<close>

definition claim_pending ::
  "claim_settings \<Rightarrow> charter option \<Rightarrow> caller \<Rightarrow> claim_request \<Rightarrow> lite_directive \<Rightarrow> datetime \<Rightarrow> claim_db
    \<Rightarrow> (claim_fault, lite_directive) result \<times> claim_db" where
  "claim_pending se charter cl rq d now db =
     (case claim_permit se charter cl rq d now db of
        Inl e \<Rightarrow> (Err e, db)
      | Inr ((holds, why), expires, db1) \<Rightarrow>
          (let decision = validate_transition (request_of (ld_row d) D_IN_PROGRESS (cl_consumer cl) None holds False) in
           if td_allowed decision then commit_claim se cl rq d decision expires now db db1
           else if td_reason decision = TR_PERMIT_INVALID
           then reject_claim cl (ld_id d) (ld_row d) (''permit_invalid:'' @ why) (''execution permit rejected: '' @ why) db
           else reject_claim cl (ld_id d) (ld_row d) (transition_reason_str (td_reason decision)) (td_message decision) db))"

text \<open>
  \<open>paused\<close>: the session runs unattended and its capture channel has a gap or is unavailable.  The charter gate
  reads the stored action kind, before anything changes.
\<close>

definition claim_execution ::
  "bool \<Rightarrow> claim_settings \<Rightarrow> charter_db \<Rightarrow> caller \<Rightarrow> claim_request \<Rightarrow> datetime \<Rightarrow> claim_db \<Rightarrow> (claim_fault, lite_directive) result \<times> claim_db" where
  "claim_execution paused se cdb cl rq now db =
     (if paused then (Err ChannelPaused, db)
      else (case claim_target cl rq db of
        None \<Rightarrow> (Err NoPendingDirective, db)
      | Some d \<Rightarrow>
          (case load_active_charter cdb (cl_workspace cl) (cl_user cl) now of
             Inl e \<Rightarrow> (Err (CharterUnreadable e), db)
           | Inr charter \<Rightarrow>
               (case require_charter_for_action charter (ld_kind d) (cs_charter_enforced se) now of
                  Inl Incomparable \<Rightarrow> (Err CharterIncomparable, db)
                | Inl (CharterRequired kind reason) \<Rightarrow> (Err (NoActiveCharter kind reason),
                    audit (cl_consumer cl) ''claim_refused_no_charter''
                      [(''directive_id'', PStr (ld_id d)), (''action_kind'', PStr kind), (''session_id'', PStr (cq_session rq))]
                      [(''reason'', PStr reason), (''charter_enforcement_enabled'', PBool True)] db)
                | Inr _ \<Rightarrow>
                    if dr_state (ld_row d) \<in> set TERMINAL_STATES then (Ok d, db)
                    else if dr_state (ld_row d) = D_IN_PROGRESS
                    then (let again = validate_transition (request_of (ld_row d) D_IN_PROGRESS (cl_consumer cl) None True False) in
                      if td_allowed again then (Ok d, db)
                      else reject_claim cl (ld_id d) (ld_row d) (transition_reason_str (td_reason again)) (td_message again) db)
                    else claim_pending se charter cl rq d now db))))"

end
