(* ===== verification/Dependency_Plan.thy ===== *)
theory Dependency_Plan
  imports Task_Json
begin

text \<open>
  The validator of dependency plans, which both backends have in the same words
  (\<open>_validate_dependency_plan_lite\<close> of \<open>tce_lite_api/store.py\<close>, \<open>_validate_dependency_plan\<close> of \<open>tce_api/main.py\<close>),
  and what it accepts.  A set of dependencies is a list without repetition; only whether a cycle is found
  is observed, and that does not depend on the order (\<open>dfs_exact\<close>).
\<close>

section \<open>Reading the plan\<close>

type_synonym dep_graph = "(pystr \<times> pystr list) list"

definition dep_step_id :: "(pystr \<times> py) list \<Rightarrow> pystr" where
  "dep_step_id m = py_strip (str_or_empty (py_get m ''id''))"

definition dep_ids :: "py list \<Rightarrow> pystr list" where
  "dep_ids items = remdups (filter (\<lambda>s. s \<noteq> []) (map (\<lambda>x. py_strip (py_str x)) items))"

fun read_dep_steps :: "int \<Rightarrow> dep_graph \<Rightarrow> py list \<Rightarrow> (pystr, dep_graph) result" where
  "read_dep_steps i g [] = Ok g"
| "read_dep_steps i g (PDict m # steps) =
     (let step_id = dep_step_id m in
      if step_id = [] then Err (''dependency_plan.steps['' @ str_int i @ ''].id is required'')
      else if step_id \<in> fst ` set g then Err (''duplicate dependency step id: '' @ step_id)
      else (case py_get m ''depends_on'' of
          PNone \<Rightarrow> read_dep_steps (i + 1) (g @ [(step_id, [])]) steps
        | PList items \<Rightarrow> read_dep_steps (i + 1) (g @ [(step_id, dep_ids items)]) steps
        | _ \<Rightarrow> Err (''dependency_plan.steps['' @ str_int i @ ''].depends_on must be an array'')))"
| "read_dep_steps i g (_ # steps) = Err (''dependency_plan.steps['' @ str_int i @ ''] must be an object'')"

fun dangling_dep :: "pystr list \<Rightarrow> dep_graph \<Rightarrow> pystr option" where
  "dangling_dep ids [] = None"
| "dangling_dep ids ((step_id, deps) # g) =
     (let dangling = sort (filter (\<lambda>d. d \<notin> set ids) deps) in
      if dangling \<noteq> [] then Some (''dangling dependency for '' @ step_id @ '': '' @ py_join '', '' dangling)
      else dangling_dep ids g)"

section \<open>The search for a cycle\<close>

text \<open>
  \<open>_has_cycle\<close>, on the nodes a loop still has to visit: \<open>visiting\<close> is the path from the root of the search,
  \<open>visited\<close> the finished nodes.  The interpreter's recursion limit, which a chain of about a thousand steps reaches
  (\<open>RecursionError\<close>), is not modelled.
\<close>

function dfs :: "dep_graph \<Rightarrow> pystr list \<Rightarrow> pystr list \<Rightarrow> pystr list \<Rightarrow> bool \<times> pystr list" where
  "dfs g visiting visited [] = (False, visited)"
| "dfs g visiting visited (n # ns) =
     (if n \<in> set visited then dfs g visiting visited ns
      else if n \<in> set visiting then (True, visited)
      else (case dict_get g n of
          None \<Rightarrow> dfs g visiting (n # visited) ns
        | Some deps \<Rightarrow>
            (case dfs g (n # visiting) visited deps of
               (found, visited') \<Rightarrow> if found then (True, visited') else dfs g visiting (n # visited') ns)))"
  by pat_completeness auto

termination
proof (relation "measures [\<lambda>(g, visiting, visited, ns). card (fst ` set g - set visiting), \<lambda>(g, visiting, visited, ns). length ns]",
    goal_cases)
  case (4 g visiting visited n ns deps)
  have "n \<in> fst ` set g" using 4(3) by (force dest: map_of_SomeD)
  with 4(2) have "fst ` set g - set (n # visiting) \<subset> fst ` set g - set visiting" by auto
  then have "card (fst ` set g - set (n # visiting)) < card (fst ` set g - set visiting)" by (intro psubset_card_mono) simp_all
  then show ?case by simp
qed simp_all

definition validate_dependency_plan :: "py \<Rightarrow> bool \<times> pystr option" where
  "validate_dependency_plan plan =
     (case plan of
        PDict m \<Rightarrow>
          (case py_get m ''steps'' of
             PList steps \<Rightarrow>
               if steps = [] then (False, Some ''dependency_plan.steps must be a non-empty array'')
               else (case read_dep_steps 0 [] steps of
                   Inl e \<Rightarrow> (False, Some e)
                 | Inr g \<Rightarrow>
                     (case dangling_dep (map fst g) g of
                        Some e \<Rightarrow> (False, Some e)
                      | None \<Rightarrow> if fst (dfs g [] [] (map fst g)) then (False, Some ''dependency cycle detected'') else (True, None)))
           | _ \<Rightarrow> (False, Some ''dependency_plan.steps must be a non-empty array''))
      | _ \<Rightarrow> (False, Some ''dependency_plan must be an object''))"

section \<open>The search is exact\<close>

definition dep_edges :: "dep_graph \<Rightarrow> (pystr \<times> pystr) set" where
  "dep_edges g = {(a, b). \<exists>deps. dict_get g a = Some deps \<and> b \<in> set deps}"

text \<open>Finished nodes: closed under edges, apart from the path, and on no cycle.\<close>

definition dfs_done :: "dep_graph \<Rightarrow> pystr set \<Rightarrow> pystr set \<Rightarrow> bool" where
  "dfs_done g path fin = (fin \<inter> path = {} \<and> (\<forall>a \<in> fin. \<forall>b. (a, b) \<in> dep_edges g \<longrightarrow> b \<in> fin)
     \<and> (\<forall>a \<in> fin. (a, a) \<notin> (dep_edges g)\<^sup>+))"

lemma closed_trancl:
  assumes "(a, b) \<in> r\<^sup>+" "a \<in> s" "\<forall>x \<in> s. \<forall>y. (x, y) \<in> r \<longrightarrow> y \<in> s"
  shows "b \<in> s"
  using assms by (induction rule: trancl_induct) auto

lemma dfs_done_insert:
  assumes fin: "dfs_done g (insert n path) fin" and out: "\<forall>b. (n, b) \<in> dep_edges g \<longrightarrow> b \<in> fin" and new: "n \<notin> path"
  shows "dfs_done g path (insert n fin)"
proof -
  have closed: "\<forall>a \<in> fin. \<forall>b. (a, b) \<in> dep_edges g \<longrightarrow> b \<in> fin" and n: "n \<notin> fin" using fin by (auto simp: dfs_done_def)
  have "(n, n) \<notin> (dep_edges g)\<^sup>+"
  proof
    assume "(n, n) \<in> (dep_edges g)\<^sup>+"
    then obtain b where "(n, b) \<in> dep_edges g" "b = n \<or> (b, n) \<in> (dep_edges g)\<^sup>+" by (meson tranclD rtrancl_eq_or_trancl)
    with out n closed_trancl [of b n "dep_edges g" fin] closed show False by blast
  qed
  with fin out new show ?thesis by (auto simp: dfs_done_def)
qed

text \<open>A search that finds nothing has finished the nodes it was given; one that finds something has closed a cycle.\<close>

lemma dfs_correct:
  assumes "dfs g visiting visited ns = (found, visited')" "dfs_done g (set visiting) (set visited)"
    "\<forall>m \<in> set visiting. \<forall>x \<in> set ns. (m, x) \<in> (dep_edges g)\<^sup>+"
  shows "if found then \<exists>a. (a, a) \<in> (dep_edges g)\<^sup>+
    else dfs_done g (set visiting) (set visited') \<and> set ns \<subseteq> set visited' \<and> set visited \<subseteq> set visited'"
  using assms
proof (induction g visiting visited ns arbitrary: found visited' rule: dfs.induct)
  case (1 g visiting visited)
  then show ?case by auto
next
  case (2 g visiting visited n ns)
  have path: "\<forall>m \<in> set visiting. \<forall>x \<in> set ns. (m, x) \<in> (dep_edges g)\<^sup>+" using "2.prems"(3) by simp
  show ?case
  proof (cases "n \<in> set visited")
    case True
    then have "dfs g visiting visited ns = (found, visited')" using "2.prems"(1) by simp
    from "2.IH"(1) [OF True this "2.prems"(2) path] True show ?thesis by (cases found) auto
  next
    case new: False
    show ?thesis
    proof (cases "n \<in> set visiting")
      case True
      then have "found" "(n, n) \<in> (dep_edges g)\<^sup>+" using new "2.prems"(1,3) by auto
      then show ?thesis by auto
    next
      case fresh: False
      show ?thesis
      proof (cases "dict_get g n")
        case None
        have "dfs_done g (insert n (set visiting)) (set visited)" using "2.prems"(2) new fresh by (simp add: dfs_done_def)
        then have fin: "dfs_done g (set visiting) (set (n # visited))"
          using dfs_done_insert [of g n "set visiting" "set visited"] fresh None by (simp add: dep_edges_def)
        have run: "dfs g visiting (n # visited) ns = (found, visited')" using "2.prems"(1) new fresh None by simp
        show ?thesis using "2.IH"(2) [OF new fresh None run fin path] by (cases found) auto
      next
        case (Some deps)
        obtain f1 v1 where r1: "dfs g (n # visiting) visited deps = (f1, v1)" by (cases "dfs g (n # visiting) visited deps")
        have edge: "(n, x) \<in> dep_edges g \<longleftrightarrow> x \<in> set deps" for x using Some by (simp add: dep_edges_def)
        have fin1: "dfs_done g (set (n # visiting)) (set visited)" using "2.prems"(2) new by (simp add: dfs_done_def)
        have path1: "\<forall>m \<in> set (n # visiting). \<forall>x \<in> set deps. (m, x) \<in> (dep_edges g)\<^sup>+"
        proof (intro ballI)
          fix m x assume m: "m \<in> set (n # visiting)" and x: "x \<in> set deps"
          have nx: "(n, x) \<in> dep_edges g" using x edge by simp
          show "(m, x) \<in> (dep_edges g)\<^sup>+"
          proof (cases "m = n")
            case True
            with nx show ?thesis by (simp add: r_into_trancl)
          next
            case False
            with m "2.prems"(3) have "(m, n) \<in> (dep_edges g)\<^sup>+" by simp
            then show ?thesis using nx by (rule trancl_into_trancl)
          qed
        qed
        note first = "2.IH"(3) [OF new fresh Some r1 fin1 path1]
        show ?thesis
        proof (cases f1)
          case True
          then have "found" using "2.prems"(1) new fresh Some r1 by simp
          with True first show ?thesis by simp
        next
          case False
          then have fin2: "dfs_done g (set visiting) (set (n # v1))"
            using dfs_done_insert [of g n "set visiting" "set v1"] first edge fresh by auto
          have run: "dfs g visiting (n # v1) ns = (found, visited')" using "2.prems"(1) new fresh Some r1 False by simp
          show ?thesis using "2.IH"(4) [OF new fresh Some r1 [symmetric] False run fin2 path] first False by (cases found) auto
        qed
      qed
    qed
  qed
qed

lemma dfs_exact: "fst (dfs g [] [] (map fst g)) \<longleftrightarrow> \<not> acyclic (dep_edges g)"
proof -
  obtain found fin where r: "dfs g [] [] (map fst g) = (found, fin)" by (cases "dfs g [] [] (map fst g)")
  have d: "if found then \<exists>a. (a, a) \<in> (dep_edges g)\<^sup>+
    else dfs_done g (set []) (set fin) \<and> set (map fst g) \<subseteq> set fin \<and> set [] \<subseteq> set fin"
    by (rule dfs_correct [OF r]) (simp_all add: dfs_done_def)
  show ?thesis
  proof (cases found)
    case True
    then show ?thesis using d r by (auto simp: acyclic_def)
  next
    case False
    have "(a, a) \<notin> (dep_edges g)\<^sup>+" for a
    proof
      assume c: "(a, a) \<in> (dep_edges g)\<^sup>+"
      then obtain b where "(a, b) \<in> dep_edges g" by (meson tranclD)
      then have "a \<in> set (map fst g)" by (force simp: dep_edges_def dest: map_of_SomeD)
      with d False c show False by (auto simp: dfs_done_def)
    qed
    then show ?thesis using r False by (simp add: acyclic_def)
  qed
qed

section \<open>What is accepted\<close>

definition dep_step :: "py \<Rightarrow> (pystr \<times> pystr list) option" where
  "dep_step s = (case s of
       PDict m \<Rightarrow> if dep_step_id m = [] then None
         else (case py_get m ''depends_on'' of
             PNone \<Rightarrow> Some (dep_step_id m, []) | PList items \<Rightarrow> Some (dep_step_id m, dep_ids items) | _ \<Rightarrow> None)
     | _ \<Rightarrow> None)"

lemma read_dep_steps_Ok:
  assumes "distinct (map fst g)"
  shows "read_dep_steps i g steps = Ok g'
    \<longleftrightarrow> (\<exists>xs. map dep_step steps = map Some xs \<and> g' = g @ xs \<and> distinct (map fst g'))"
  using assms
proof (induction i g steps rule: read_dep_steps.induct)
  case (1 i g)
  then show ?case by auto
next
  case (2 i g m steps)
  show ?case
  proof (cases "dep_step (PDict m)")
    case None
    then show ?thesis by (auto simp: dep_step_def Let_def split: if_splits py.splits)
  next
    case (Some x)
    then have x: "fst x = dep_step_id m" "dep_step_id m \<noteq> []"
      "py_get m ''depends_on'' = PNone \<and> snd x = [] \<or> (\<exists>items. py_get m ''depends_on'' = PList items \<and> snd x = dep_ids items)"
      by (auto simp: dep_step_def split: if_splits py.splits)
    have xs: "(\<exists>xs. map dep_step (PDict m # steps) = map Some xs \<and> g' = g @ xs \<and> distinct (map fst g'))
      \<longleftrightarrow> (\<exists>xs. map dep_step steps = map Some xs \<and> g' = (g @ [x]) @ xs \<and> distinct (map fst g'))"
      (is "?l = ?r")
    proof
      assume ?l
      then obtain ys where ys: "map dep_step (PDict m # steps) = map Some ys" "g' = g @ ys" "distinct (map fst g')" by blast
      then obtain zs where "ys = x # zs" using Some by (cases ys) auto
      with ys show ?r by auto
    next
      assume ?r
      then obtain zs where "map dep_step steps = map Some zs" "g' = g @ x # zs" "distinct (map fst g')" by auto
      with Some show ?l by (intro exI [of _ "x # zs"]) simp
    qed
    show ?thesis
    proof (cases "dep_step_id m \<in> fst ` set g")
      case True
      then have "\<not> distinct (map fst ((g @ [x]) @ xs))" for xs using x(1) by auto
      then show ?thesis unfolding xs using True x(2) by (auto simp: Let_def)
    next
      case False
      have rd: "read_dep_steps i g (PDict m # steps) = read_dep_steps (i + 1) (g @ [x]) steps"
        using x False by (cases x) (auto simp: Let_def)
      have dis: "distinct (map fst (g @ [x]))" using 2 False x(1) by simp
      have "read_dep_steps (i + 1) (g @ [x]) steps = Ok g'
        \<longleftrightarrow> (\<exists>xs. map dep_step steps = map Some xs \<and> g' = (g @ [x]) @ xs \<and> distinct (map fst g'))"
        using x(3)
      proof (elim disjE exE conjE)
        assume a: "py_get m ''depends_on'' = PNone" "snd x = []"
        then have "x = (dep_step_id m, [])" using x(1) by (cases x) simp
        with "2.IH"(1) [OF refl x(2) False a(1)] dis show ?thesis by simp
      next
        fix items assume a: "py_get m ''depends_on'' = PList items" "snd x = dep_ids items"
        then have "x = (dep_step_id m, dep_ids items)" using x(1) by (cases x) simp
        with "2.IH"(2) [OF refl x(2) False a(1)] dis show ?thesis by simp
      qed
      then show ?thesis unfolding xs rd .
    qed
  qed
qed (auto simp: dep_step_def)

lemma dangling_dep_None: "dangling_dep ids g = None \<longleftrightarrow> (\<forall>(i, deps) \<in> set g. set deps \<subseteq> set ids)"
proof (induction ids g rule: dangling_dep.induct)
  case (2 ids i deps g)
  have "sort (filter (\<lambda>d. d \<notin> set ids) deps) = [] \<longleftrightarrow> set deps \<subseteq> set ids"
    by (metis (no_types, lifting) filter_empty_conv set_empty set_sort subsetI subsetD)
  then show ?case using "2.IH" [OF refl] by (cases "set deps \<subseteq> set ids") (simp_all add: Let_def)
qed simp

text \<open>
  C34. The dependency validator of both backends accepts exactly the plans whose steps are objects with a non-blank
  identifier and a list of dependencies (or none), with distinct identifiers, no dependency on a step that is not there,
  and no cycle; and it is total: the search ends on every plan (whose chains stay within the interpreter's recursion limit).
\<close>

theorem dependency_plan_accepts_exactly:
  "validate_dependency_plan plan = (True, None) \<longleftrightarrow>
     (\<exists>m steps g. plan = PDict m \<and> py_get m ''steps'' = PList steps \<and> steps \<noteq> [] \<and> map dep_step steps = map Some g
        \<and> distinct (map fst g) \<and> (\<forall>(i, deps) \<in> set g. set deps \<subseteq> fst ` set g) \<and> acyclic (dep_edges g))"
proof (cases "\<exists>m steps. plan = PDict m \<and> py_get m ''steps'' = PList steps \<and> steps \<noteq> []")
  case False
  then show ?thesis by (auto simp: validate_dependency_plan_def split: py.splits)
next
  case True
  then obtain m steps where p: "plan = PDict m" "py_get m ''steps'' = PList steps" "steps \<noteq> []" by blast
  have "read_dep_steps 0 [] steps = Ok g \<longleftrightarrow> map dep_step steps = map Some g \<and> distinct (map fst g)" for g
    using read_dep_steps_Ok [of "[]" 0 steps g] by auto
  moreover have "validate_dependency_plan plan = (True, None) \<longleftrightarrow>
    (\<exists>g. read_dep_steps 0 [] steps = Ok g \<and> dangling_dep (map fst g) g = None \<and> acyclic (dep_edges g))"
    using p by (auto simp: validate_dependency_plan_def dfs_exact split: sum.splits option.splits)
  ultimately show ?thesis using p by (auto simp: dangling_dep_None)
qed

definition two_steps :: py where
  "two_steps = PDict [(''steps'', PList [PDict [(''id'', PStr ''a''), (''depends_on'', PNone)],
     PDict [(''id'', PStr '' b ''), (''depends_on'', PList [PStr ''a'', PStr ''a''])]])]"

theorem dependency_plan_accepts_exactly_witness:
  "validate_dependency_plan two_steps = (True, None)
    \<and> (\<exists>m steps g. two_steps = PDict m \<and> py_get m ''steps'' = PList steps \<and> map dep_step steps = map Some g \<and> acyclic (dep_edges g))"
proof -
  have run: "validate_dependency_plan two_steps = (True, None)" by code_simp
  then show ?thesis using dependency_plan_accepts_exactly [of two_steps] by blast
qed

end
