(* ===== verification/Report_Execution.thy ===== *)
theory Report_Execution
  imports Claim_Execution Dependency_Plan
begin

text \<open>
  \<open>report_execution\<close> of \<open>services/tce_lite_api/tce_lite_api/store.py\<close>: how an execution ends.  The handler reads the row, decides,
  and writes in a fenced \<open>UPDATE\<close>; what other connections commit in between is \<open>others\<close>.  Modelled are the directives,
  permits, counters, audit entries and hand-offs.  The editor's last checkpoint, whether the session has an effect
  that pauses it (\<open>pause_guard_for_session\<close>), uuid4 and the clock are arguments.  \<open>save_observation_lite\<close> commits between
  the retry directive and the counters; what other connections do from there on is only in \<open>deliver\<close>.
\<close>

section \<open>The report\<close>

record report_request =
  xq_session :: pystr
  xq_directive :: pystr
  xq_state :: dstate
  xq_result :: pystr
  xq_reason :: "pystr option"
  xq_details :: "(pystr \<times> py) list"
  xq_step_id :: "pystr option"
  xq_step_output :: "(pystr \<times> py) list option"
  xq_contract :: "pystr option"
  xq_rollback :: bool
  xq_lease :: "int option"
  xq_key :: "pystr option"
  xq_cancel :: "pystr option"

record report_settings =
  xs_typed_contract :: bool
  xs_milestone_mode :: py
  xs_retry_enabled :: bool
  xs_retry_max :: int
  xs_retry_window :: int
  xs_retry_limit :: int
  xs_lease_strict :: bool
  xs_retention :: int
  xs_feedback :: bool
  xs_claim :: claim_settings

record report_db =
  xd_claims :: claim_db
  xd_handoffs :: handoff_db

text \<open>\<open>body.model_dump(mode="json")\<close>.\<close>

definition body_payload :: "report_request \<Rightarrow> (pystr \<times> py) list" where
  "body_payload rq =
     [(''session_id'', PStr (xq_session rq)), (''directive_id'', PStr (xq_directive rq)), (''state'', PStr (dstate_str (xq_state rq))),
      (''result'', PStr (xq_result rq)), (''failure_reason'', opt_py PStr (xq_reason rq)), (''details'', PDict (xq_details rq)),
      (''step_id'', opt_py PStr (xq_step_id rq)), (''step_output'', opt_py PDict (xq_step_output rq)),
      (''contract_type'', opt_py PStr (xq_contract rq)), (''rollback_performed'', PBool (xq_rollback rq)),
      (''lease_generation'', opt_py PInt (xq_lease rq)), (''idempotency_key'', opt_py PStr (xq_key rq)),
      (''cancel_reason'', opt_py PStr (xq_cancel rq))]"

definition payload_hash :: "report_request \<Rightarrow> pystr" where
  "payload_hash rq = report_payload_fingerprint (body_payload rq)"

definition idempotency_key :: "report_request \<Rightarrow> pystr option" where
  "idempotency_key rq = or_none (py_strip (case xq_key rq of Some s \<Rightarrow> s | None \<Rightarrow> []))"

datatype report_fault = DirectiveNotFound | ReportRejected pystr dstate int "pystr option" pystr
  | KeyMismatch | KeyConflict | InvalidMilestone "pystr list" | HandoffFault outbox_fault

text \<open>
  What the first answer to a report tells and a replay does not: the validations, the hand-off and its delivery, and the
  two objective entries of the session's context.  \<open>report_context\<close> is what comes from data that is not modelled: the
  keys the column \<open>meta\<close> of the directive had, and the two entries as the session's context ends up with them.
\<close>

record report_extras =
  xe_contract :: py
  xe_preflight :: py
  xe_milestone :: py
  xe_record :: pystr
  xe_outbox :: pystr
  xe_delivery :: pystr
  xe_quality :: py
  xe_objective :: py

record report_context =
  rx_meta :: "(pystr \<times> py) list"
  rx_quality :: py
  rx_objective :: py

text \<open>
  Directive, state, retry scheduled, retry directive, failure class, strategy, feedback, lease, verification, replay, and
  the rest where the answer has it.  The column \<open>updated_at\<close> and the reason of a cancellation are left out.
\<close>

record report_reply =
  xr_directive :: pystr
  xr_state :: dstate
  xr_retry_scheduled :: bool
  xr_retry_directive :: py
  xr_failure :: py
  xr_strategy :: py
  xr_feedback :: py
  xr_lease :: int
  xr_verification :: pystr
  xr_replay :: bool
  xr_extras :: "report_extras option"

fun failure_str :: "failure_class \<Rightarrow> pystr" where
  "failure_str TOOL_ERROR = ''tool_error''"
| "failure_str CONSTRAINT_BLOCK = ''constraint_block''"
| "failure_str SAFETY_BLOCK = ''safety_block''"
| "failure_str VALIDATION_FAILURE = ''validation_failure''"
| "failure_str TIMEOUT = ''timeout''"
| "failure_str UNKNOWN = ''unknown''"

fun strategy_str :: "retry_strategy \<Rightarrow> pystr" where
  "strategy_str NARROW_SCOPE = ''narrow_scope''"
| "strategy_str READ_ONLY_DIAGNOSE = ''read_only_diagnose''"
| "strategy_str ALTERNATE_PATH = ''alternate_path''"
| "strategy_str ROLLBACK_THEN_RETRY = ''rollback_then_retry''"
| "strategy_str ESCALATE = ''escalate''"

section \<open>Refusals and replays\<close>

definition on_claims :: "(claim_db \<Rightarrow> claim_db) \<Rightarrow> report_db \<Rightarrow> report_db" where
  "on_claims f db = db\<lparr>xd_claims := f (xd_claims db)\<rparr>"

definition reject_report ::
  "caller \<Rightarrow> report_request \<Rightarrow> directive_row \<Rightarrow> pystr \<Rightarrow> pystr \<Rightarrow> report_db \<Rightarrow> (report_fault, report_reply) result \<times> report_db" where
  "reject_report cl rq row reason message db =
     (Err (ReportRejected reason (dr_state row) (dr_lease row) (text_or_none (dr_executor row)) message),
      on_claims (audit (cl_consumer cl) ''directive_report_rejected''
        [(''directive_id'', PStr (xq_directive rq)), (''requested_state'', PStr (dstate_str (xq_state rq))), (''reason'', PStr reason),
         (''presented_lease'', opt_py PInt (xq_lease rq)), (''current_lease'', PInt (dr_lease row)),
         (''claimed_executor'', opt_py PStr (text_or_none (dr_executor row))), (''actor'', PStr (cl_consumer cl)),
         (''payload_hash'', PStr (payload_hash rq)), (''late_payload'', PDict (body_payload rq))]
        [(''reason'', PStr reason), (''policy_revision'', PStr SCOPE_POLICY_REVISION)]) db)"

definition replay_reply :: "lite_directive \<Rightarrow> (pystr \<times> py) list \<Rightarrow> report_reply" where
  "replay_reply d prior =
     \<lparr>xr_directive = ld_id d, xr_state = dr_state (ld_row d), xr_retry_scheduled = truthy (py_get prior ''retry_scheduled''),
      xr_retry_directive = py_get prior ''retry_directive_id'', xr_failure = py_get prior ''failure_class'',
      xr_strategy = py_get prior ''retry_strategy'', xr_feedback = (case dict_get prior ''retry_feedback'' of Some v \<Rightarrow> v | None \<Rightarrow> PDict []),
      xr_lease = dr_lease (ld_row d), xr_verification = ld_verification d, xr_replay = True, xr_extras = None\<rparr>"

text \<open>A report on a directive that is terminal already.\<close>

definition report_again :: "caller \<Rightarrow> report_request \<Rightarrow> lite_directive \<Rightarrow> report_db \<Rightarrow> (report_fault, report_reply) result \<times> report_db" where
  "report_again cl rq d db =
     (case ld_result d of
        PDict prior \<Rightarrow>
          if text_or_none (dr_executor (ld_row d)) \<notin> {None, Some (cl_consumer cl)}
          then reject_report cl rq (ld_row d) (transition_reason_str TR_CLAIMED_BY_OTHER) ''directive is claimed by another executor'' db
          else (case idempotency_key rq of
             None \<Rightarrow> (Ok (replay_reply d prior), db)
           | Some k \<Rightarrow>
               if ld_key d \<notin> {None, Some k} then (Err KeyMismatch, db)
               else if idempotency_outcome (ld_hash d) (payload_hash rq) = ''conflict'' then (Err KeyConflict, db)
               else (Ok (replay_reply d prior), db))
      | _ \<Rightarrow> reject_report cl rq (ld_row d) (transition_reason_str TR_TERMINAL) ''directive already terminal'' db)"

section \<open>The permit at report time\<close>

definition report_check :: "lite_directive \<Rightarrow> datetime \<Rightarrow> permit \<Rightarrow> permit_check" where
  "report_check d now p =
     \<lparr>pq_decision = or_none (ep_decision p), pq_expires_at = ep_expires p, pq_user_id = text_or_none (ep_user p),
      pq_directive_id = text_or_none (ep_directive p), pq_objective_hash = text_or_none (ep_objective p),
      pq_scope_digest = None, pq_expected_digest = None, pq_enforced = False, pq_charter_id = None, pq_active_charter = None,
      pq_for_directive = ld_id d, pq_for_user = ld_user d, pq_for_objective = text_or_none (ld_objective d),
      pq_started_at = dr_started (ld_row d), pq_now = now\<rparr>"

definition report_permit :: "caller \<Rightarrow> report_request \<Rightarrow> lite_directive \<Rightarrow> datetime \<Rightarrow> permit list \<Rightarrow> bool \<times> pystr" where
  "report_permit cl rq d now ps =
     (if \<not> (ld_requires d \<and> xq_state rq \<in> {D_SUCCEEDED, D_FAILED}) then (True, ''ok'')
      else (case text_or_none (ld_permit d) of
          None \<Rightarrow> (False, ''permit_missing'')
        | Some i \<Rightarrow>
            (case find (\<lambda>p. ep_id p = i \<and> ep_workspace p = cl_workspace cl) ps of
               None \<Rightarrow> (False, ''permit_missing'')
             | Some p \<Rightarrow> (case permit_binding_ok (report_check d now p) ''report'' of Inr verdict \<Rightarrow> verdict | Inl e \<Rightarrow> (False, e)))))"

section \<open>What was reported\<close>

definition merge_report_details :: "report_request \<Rightarrow> (pystr \<times> py) list" where
  "merge_report_details rq =
     (let with_default = (\<lambda>k v d. case dict_get d k of None \<Rightarrow> dict_set k v d | Some _ \<Rightarrow> d);
          d1 = (case text_or_none (xq_step_id rq) of Some s \<Rightarrow> with_default ''step_id'' (PStr s) (xq_details rq) | None \<Rightarrow> xq_details rq);
          d2 = (case xq_step_output rq of Some m \<Rightarrow> with_default ''step_output'' (PDict m) d1 | None \<Rightarrow> d1)
      in case text_or_none (xq_contract rq) of Some s \<Rightarrow> with_default ''contract_type'' (PStr s) d2 | None \<Rightarrow> d2)"

text \<open>The milestone of the report, with the editor's checkpoint before the reported anchors.\<close>

definition report_milestone ::
  "redaction \<Rightarrow> (pystr \<times> py) list option \<Rightarrow> report_request \<Rightarrow> lite_directive \<Rightarrow> (pystr \<times> py) list \<Rightarrow> milestone_result \<times> (pystr \<times> py) list" where
  "report_milestone red checkpoint rq d details =
     (let state = dstate_str (xq_state rq);
          r = normalize_milestone_v1 red details state (''Directive '' @ state @ '': '' @ ld_kind d);
          anchors = fst (normalize_anchor_list red 40 (PList (map PDict (mr_anchors r))))
      in (r, dict_set ''source'' (PStr ''native'')
            (dict_set ''change_summary_json'' (py_or (get_or details ''change_summary_json'' ''change_summary'') (PDict []))
              (dict_set ''anchors'' (PList (map PDict (merge_anchors checkpoint 40 anchors))) (milestone_dict r)))))"

text \<open>\<open>details_map.update(milestone)\<close>.\<close>

definition update_dict :: "(pystr \<times> py) list \<Rightarrow> (pystr \<times> py) list \<Rightarrow> (pystr \<times> py) list" where
  "update_dict d m = fold (\<lambda>(k, v). dict_set k v) m d"

definition contract_errors :: "bool \<Rightarrow> (pystr \<times> py) list \<Rightarrow> pystr list" where
  "contract_errors enabled details =
     (let contract = py_lower (py_strip (str_or_empty (py_get details ''contract_type'')));
          output = py_get details ''step_output'';
          m = (case output of PDict m \<Rightarrow> m | _ \<Rightarrow> []);
          is_list = (\<lambda>k. case py_get m k of PList _ \<Rightarrow> True | _ \<Rightarrow> False)
      in if \<not> enabled \<or> contract = [] then []
         else (if py_strip (str_or_empty (py_get details ''step_id'')) = [] then [''step_id is required''] else [])
           @ (case output of PDict _ \<Rightarrow> [] | _ \<Rightarrow> [''step_output must be an object''])
           @ (if contract \<notin> set [''research_result'', ''change_plan'', ''verification_result'']
              then [''unsupported contract_type: '' @ contract]
              else (case output of
                PDict _ \<Rightarrow>
                  (if contract = ''research_result'' then
                     (if is_list ''findings'' then [] else [''research_result.step_output.findings must be a list''])
                     @ (if is_list ''sources'' then [] else [''research_result.step_output.sources must be a list''])
                   else if contract = ''change_plan'' then
                     (if is_list ''changes'' then [] else [''change_plan.step_output.changes must be a list''])
                     @ (if is_list ''files'' then [] else [''change_plan.step_output.files must be a list''])
                   else
                     (case py_get m ''checks'' of PDict _ \<Rightarrow> [] | _ \<Rightarrow> [''verification_result.step_output.checks must be an object''])
                     @ (if dict_get m ''passed'' = None then [''verification_result.step_output.passed is required''] else []))
              | _ \<Rightarrow> [])))"

definition plan_errors :: "(pystr \<times> py) list \<Rightarrow> lite_directive \<Rightarrow> pystr list" where
  "plan_errors details d =
     (let plan = py_or (py_get details ''dependency_plan'') (ld_plan d) in
      if plan = PNone then []
      else (case validate_dependency_plan plan of (False, Some e) \<Rightarrow> if e = [] then [] else [e] | _ \<Rightarrow> []))"

text \<open>
  What the report comes to: state, reason, milestone and details as they are when the failure is classified.
  The outcome of the milestone is one object, so its final status shows in the details too.
  Of the metadata only what the handler reads again is kept, so neither the transcript nor the validation reports.
\<close>

record outcome =
  oc_state :: dstate
  oc_reason :: "pystr option"
  oc_milestone :: "(pystr \<times> py) list"
  oc_details :: "(pystr \<times> py) list"
  oc_redacted :: bool
  oc_failure :: "failure_class option"
  oc_strategy :: "retry_strategy option"

definition with_status :: "dstate \<Rightarrow> (pystr \<times> py) list \<Rightarrow> (pystr \<times> py) list" where
  "with_status st m = dict_set ''outcome'' (PDict (dict_set ''status'' (PStr (dstate_str st)) (sub_dict m ''outcome''))) m"

definition report_outcome ::
  "redaction \<Rightarrow> report_settings \<Rightarrow> (pystr \<times> py) list option \<Rightarrow> bool \<Rightarrow> report_request \<Rightarrow> lite_directive \<Rightarrow> (report_fault, outcome) result" where
  "report_outcome red se checkpoint paused rq d =
     (let details0 = merge_report_details rq;
          (r, milestone0) = report_milestone red checkpoint rq d details0;
          details1 = update_dict details0 milestone0
      in if normalize_handoff_mode (xs_milestone_mode se) = ''enforce'' \<and> mr_errors r \<noteq> [] then Err (InvalidMilestone (mr_errors r))
         else (let errors = plan_errors details1 d @ contract_errors (xs_typed_contract se) details1;
                   state = (if errors \<noteq> [] then D_FAILED else xq_state rq);
                   reason = (if errors \<noteq> [] then Some (take 500 (''validation_failure: '' @ py_join ''; '' errors)) else xq_reason rq);
                   milestone = with_status state milestone0;
                   details = with_status state details1;
                   failed = state \<in> {D_FAILED, D_BLOCKED, D_ABANDONED};
                   failure = classify_failure (xq_result rq) reason details;
                   rollback = xq_rollback rq \<or> truthy (py_get (xq_details rq) ''rollback_available'')
               in Ok \<lparr>oc_state = state, oc_reason = reason, oc_milestone = milestone, oc_details = details, oc_redacted = mr_redacted r,
                      oc_failure = (if failed then Some failure else None),
                      oc_strategy = (if failed \<and> \<not> paused then Some (retry_strategy_for_attempt (ld_attempt d + 1) failure rollback) else None)\<rparr>))"

text \<open>\<open>build_retry_feedback\<close> (autonomy_context.py); \<open>[]\<close> is \<open>retry_feedback or {}\<close> when there is none.\<close>

definition collapse_spaces :: "pystr \<Rightarrow> pystr" where
  "collapse_spaces s = py_join '' '' (py_split_ws (py_strip s))"

definition clip_text :: "nat \<Rightarrow> pystr \<Rightarrow> pystr" where
  "clip_text limit s = (let token = collapse_spaces s in
     if length token \<le> limit then token else py_rstrip (take (max 1 (limit - 3)) token) @ ''...'')"

definition redact_clip :: "redaction \<Rightarrow> nat \<Rightarrow> pystr \<Rightarrow> pystr" where
  "redact_clip red limit s = clip_text limit (fst (red (collapse_spaces s)))"

definition retry_feedback :: "redaction \<Rightarrow> report_settings \<Rightarrow> lite_directive \<Rightarrow> outcome \<Rightarrow> (pystr \<times> py) list" where
  "retry_feedback red se d oc = (case oc_failure oc of
       None \<Rightarrow> []
     | Some f \<Rightarrow>
         if \<not> xs_feedback se then []
         else [(''failure_class'', PStr (redact_clip red 64 (failure_str f))),
               (''failure_reason_short'', PStr (redact_clip red 220 (case oc_reason oc of Some s \<Rightarrow> s | None \<Rightarrow> []))),
               (''last_attempt_action'', PStr (redact_clip red 80 (ld_kind d))),
               (''recommended_retry_strategy'', PStr (redact_clip red 64 (case oc_strategy oc of Some s \<Rightarrow> strategy_str s | None \<Rightarrow> [])))])"

text \<open>The keys of \<open>merged_meta\<close> that the answer reads, on top of the \<open>meta\<close> that was read.\<close>

definition report_meta ::
  "redaction \<Rightarrow> report_settings \<Rightarrow> (pystr \<times> py) list option \<Rightarrow> (pystr \<times> py) list \<Rightarrow> report_request \<Rightarrow> lite_directive \<Rightarrow> (pystr \<times> py) list" where
  "report_meta red se checkpoint meta rq d =
     (let details0 = merge_report_details rq;
          (r, milestone) = report_milestone red checkpoint rq d details0;
          details = update_dict details0 milestone;
          meta1 = update_dict (dict_set ''milestone_validation''
            (PDict [(''mode'', PStr (normalize_handoff_mode (xs_milestone_mode se))), (''valid'', PBool (mr_errors r = [])),
              (''errors'', PList (map PStr (mr_errors r))), (''redaction_applied'', PBool (mr_redacted r))]) meta) details;
          plan = py_or (py_get details ''dependency_plan'') (ld_plan d);
          meta2 = (if plan = PNone then meta1
            else (case validate_dependency_plan plan of (valid, e) \<Rightarrow>
              dict_set ''dependency_preflight'' (PDict [(''valid'', PBool valid), (''error'', opt_py PStr e)]) meta1));
          contract = py_lower (py_strip (str_or_empty (py_get details ''contract_type'')));
          errors = contract_errors (xs_typed_contract se) details
      in if \<not> xs_typed_contract se \<or> contract = [] then meta2
         else dict_set ''contract_validation'' (PDict [(''enabled'', PBool True), (''contract_type'', PStr contract), (''valid'', PBool (errors = [])),
           (''errors'', PList (map PStr errors))]) meta2)"

definition report_extras_of ::
  "redaction \<Rightarrow> report_settings \<Rightarrow> (pystr \<times> py) list option \<Rightarrow> report_context \<Rightarrow> report_request \<Rightarrow> lite_directive \<Rightarrow> outbox_row \<Rightarrow> report_extras" where
  "report_extras_of red se checkpoint ctx rq d row =
     (let meta = report_meta red se checkpoint (rx_meta ctx) rq d
      in \<lparr>xe_contract = py_get meta ''contract_validation'', xe_preflight = py_get meta ''dependency_preflight'',
          xe_milestone = py_get meta ''milestone_validation'', xe_record = ob_record row, xe_outbox = ob_id row, xe_delivery = ob_status row,
          xe_quality = rx_quality ctx, xe_objective = rx_objective ctx\<rparr>)"

section \<open>The first transaction\<close>

text \<open>The fenced \<open>UPDATE\<close> of a directive, on the row as it is.\<close>

definition fenced_update ::
  "caller \<Rightarrow> lite_directive \<Rightarrow> (directive_row \<Rightarrow> directive_row option) \<Rightarrow> (lite_directive \<Rightarrow> lite_directive) \<Rightarrow> lite_directive \<Rightarrow> lite_directive option" where
  "fenced_update cl d upd columns x =
     (if ld_id x = ld_id d \<and> ld_workspace x = cl_workspace cl \<and> ld_user x = cl_user cl
      then map_option (\<lambda>r. columns (x\<lparr>ld_row := r\<rparr>)) (upd (ld_row x)) else None)"

definition apply_update :: "(lite_directive \<Rightarrow> lite_directive option) \<Rightarrow> lite_directive list \<Rightarrow> lite_directive list" where
  "apply_update f = map (\<lambda>x. case f x of Some x' \<Rightarrow> x' | None \<Rightarrow> x)"

definition hits :: "(lite_directive \<Rightarrow> lite_directive option) \<Rightarrow> lite_directive list \<Rightarrow> nat" where
  "hits f xs = length (filter (\<lambda>x. f x \<noteq> None) xs)"

text \<open>The counters, with the mode the session has.\<close>

definition session_mode :: "claim_settings \<Rightarrow> caller \<Rightarrow> pystr \<Rightarrow> claim_db \<Rightarrow> pystr" where
  "session_mode se cl session db =
     (case find (\<lambda>s. sn_session s = session \<and> sn_workspace s = cl_workspace cl \<and> sn_user s = cl_user cl) (kd_sessions db) of
        Some s \<Rightarrow> sn_mode s | None \<Rightarrow> ''strict_takeover'')"

definition recount :: "claim_settings \<Rightarrow> caller \<Rightarrow> pystr \<Rightarrow> claim_db \<Rightarrow> claim_db" where
  "recount se cl session db = sync_counters (se\<lparr>cs_mode := session_mode se cl session db\<rparr>) cl session db"

definition result_dict :: "pystr option \<Rightarrow> failure_class option \<Rightarrow> retry_strategy option \<Rightarrow> (pystr \<times> py) list \<Rightarrow> (pystr \<times> py) list" where
  "result_dict retry failure strategy feedback =
     [(''retry_scheduled'', PBool (retry \<noteq> None)), (''retry_directive_id'', opt_py PStr retry),
      (''failure_class'', opt_py (\<lambda>f. PStr (failure_str f)) failure), (''retry_strategy'', opt_py (\<lambda>s. PStr (strategy_str s)) strategy),
      (''retry_feedback'', PDict feedback)]"

definition retry_directive :: "pystr \<Rightarrow> datetime \<Rightarrow> lite_directive \<Rightarrow> retry_strategy option \<Rightarrow> lite_directive" where
  "retry_directive i now d strategy =
     \<lparr>ld_id = i, ld_session = ld_session d, ld_workspace = ld_workspace d, ld_user = ld_user d, ld_objective = ld_objective d, ld_kind = ld_kind d,
      ld_attempt = ld_attempt d + 1, ld_requires = ld_requires d, ld_permit = None, ld_created = now, ld_goal = ld_goal d, ld_failure = None,
      ld_failure_reason = None, ld_strategy = Some (case strategy of Some s \<Rightarrow> s | None \<Rightarrow> NARROW_SCOPE), ld_plan = PNone, ld_result = PNone,
      ld_key = None, ld_hash = None, ld_verification = ''unverified'',
      ld_row = \<lparr>dr_state = D_PENDING, dr_claimed_by = None, dr_executor = None, dr_lease = 0, dr_lease_expires = None, dr_expires = None,
        dr_started = None, dr_finished = None, dr_cancelled = None, dr_cancel_reason = None\<rparr>\<rparr>"

text \<open>The directives of the session made within the window that still wait or run.\<close>

definition open_in_window :: "report_settings \<Rightarrow> caller \<Rightarrow> pystr \<Rightarrow> datetime \<Rightarrow> lite_directive list \<Rightarrow> int" where
  "open_in_window se cl session now ds =
     int (length (filter (\<lambda>x. of_session cl session x
        \<and> isoformat (dt_plus_seconds now (- 60 * max 1 (xs_retry_window se))) \<le> isoformat (ld_created x)
        \<and> dr_state (ld_row x) \<in> {D_PENDING, D_IN_PROGRESS}) ds))"

definition retries_due :: "report_settings \<Rightarrow> caller \<Rightarrow> report_request \<Rightarrow> datetime \<Rightarrow> bool \<Rightarrow> lite_directive \<Rightarrow> outcome \<Rightarrow> lite_directive list \<Rightarrow> bool" where
  "retries_due se cl rq now paused d oc ds =
     (xs_retry_enabled se \<and> \<not> paused \<and> oc_state oc \<in> {D_FAILED, D_BLOCKED} \<and> ld_attempt d < xs_retry_max se
      \<and> oc_strategy oc \<notin> {None, Some ESCALATE}
      \<and> open_in_window se cl (xq_session rq) now ds < xs_retry_limit se)"

definition report_completion :: "caller \<Rightarrow> pystr \<Rightarrow> report_request \<Rightarrow> outcome \<Rightarrow> completion" where
  "report_completion cl subject rq oc =
     \<lparr>co_workspace = cl_workspace cl, co_owner = cl_user cl, co_subject = subject, co_session = xq_session rq, co_directive = Some (xq_directive rq),
      co_key = ''directive:'' @ xq_directive rq @ '':'' @ dstate_str (oc_state oc), co_terminal = dstate_str (oc_state oc),
      co_milestone = oc_milestone oc, co_source = ''native'', co_redacted = oc_redacted oc, co_executor = Some (cl_consumer cl),
      co_hash = Some (completion_payload_fingerprint (oc_milestone oc))\<rparr>"

text \<open>The four uuid4 of a report: retry directive, outbox row, its event and its record.\<close>

record report_ids =
  xi_retry :: pystr
  xi_outbox :: pystr
  xi_event :: pystr
  xi_record :: pystr

text \<open>The column \<open>meta\<close> is the one that was read, updated with the details.\<close>

definition merged_plan :: "lite_directive \<Rightarrow> outcome \<Rightarrow> py" where
  "merged_plan d oc = (case dict_get (oc_details oc) ''dependency_plan'' of Some p \<Rightarrow> p | None \<Rightarrow> ld_plan d)"

definition report_columns :: "report_request \<Rightarrow> lite_directive \<Rightarrow> outcome \<Rightarrow> lite_directive \<Rightarrow> lite_directive" where
  "report_columns rq d oc x =
     x\<lparr>ld_failure := oc_failure oc, ld_failure_reason := oc_reason oc, ld_strategy := oc_strategy oc, ld_plan := merged_plan d oc,
       ld_result := (case dict_get (oc_details oc) ''report_result'' of Some p \<Rightarrow> p | None \<Rightarrow> ld_result d),
       ld_key := idempotency_key rq, ld_hash := Some (payload_hash rq), ld_verification := ''unverified''\<rparr>"

definition commit_report ::
  "report_settings \<Rightarrow> caller \<Rightarrow> pystr \<Rightarrow> report_ids \<Rightarrow> report_request \<Rightarrow> datetime \<Rightarrow> bool \<Rightarrow> lite_directive \<Rightarrow> outcome \<Rightarrow> report_db
    \<Rightarrow> (report_fault, pystr option \<times> outbox_row) result \<times> report_db" where
  "commit_report se cl subject ids rq now paused d oc db =
     (let claims = xd_claims db;
          ds = apply_update (fenced_update cl d (report_update (cl_consumer cl) (dr_lease (ld_row d)) (oc_state oc) now) (report_columns rq d oc)) (kd_directives claims)
      in case enqueue_handoff (xi_outbox ids) (xi_event ids) (xi_record ids) now (report_completion cl subject rq oc) (hd_outbox (xd_handoffs db)) of
           Inl e \<Rightarrow> (Err (HandoffFault e), db)
         | Inr (row, rows) \<Rightarrow>
             (let retry = (if retries_due se cl rq now paused d oc ds then Some (xi_retry ids) else None);
                  ds' = (case retry of Some i \<Rightarrow> ds @ [retry_directive i now d (oc_strategy oc)] | None \<Rightarrow> ds)
              in (Ok (retry, row),
                  db\<lparr>xd_claims := recount (xs_claim se) cl (xq_session rq) (claims\<lparr>kd_directives := ds'\<rparr>),
                     xd_handoffs := (xd_handoffs db)\<lparr>hd_outbox := rows\<rparr>\<rparr>)))"

section \<open>Cancellation\<close>

definition cancel_reason_of :: "report_request \<Rightarrow> pystr" where
  "cancel_reason_of rq = take 500 (case text_or_none (xq_cancel rq) of Some s \<Rightarrow> s
     | None \<Rightarrow> (case text_or_none (xq_reason rq) of Some s \<Rightarrow> s | None \<Rightarrow> ''cancelled by executor''))"

definition cancel_columns :: "report_request \<Rightarrow> lite_directive \<Rightarrow> lite_directive \<Rightarrow> lite_directive" where
  "cancel_columns rq d x =
     x\<lparr>ld_failure_reason := coalesce (ld_failure_reason x) (Some (cancel_reason_of rq)),
       ld_plan := ld_plan d, ld_result := PDict (result_dict None None None [] @ [(''cancel_reason'', PStr (cancel_reason_of rq))]),
       ld_key := idempotency_key rq, ld_hash := Some (payload_hash rq)\<rparr>"

definition report_cancellation ::
  "report_settings \<Rightarrow> caller \<Rightarrow> report_request \<Rightarrow> datetime \<Rightarrow> lite_directive \<Rightarrow> transition_decision \<Rightarrow> report_db
    \<Rightarrow> (report_fault, report_reply) result \<times> report_db" where
  "report_cancellation se cl rq now d decision db =
     (let row = ld_row d;
          upd = fenced_update cl d (cancel_update (dr_state row) (dr_lease row) (xq_state rq) (cancel_reason_of rq) now) (cancel_columns rq d)
      in if hits upd (kd_directives (xd_claims db)) \<noteq> 1
         then reject_report cl rq row (transition_reason_str TR_CONCURRENT_UPDATE) ''directive changed concurrently; re-read and retry'' db
         else (Ok \<lparr>xr_directive = ld_id d, xr_state = xq_state rq, xr_retry_scheduled = False, xr_retry_directive = PNone, xr_failure = PNone,
                   xr_strategy = PNone, xr_feedback = PDict [], xr_lease = dr_lease row, xr_verification = ld_verification d, xr_replay = False,
                   xr_extras = None\<rparr>,
               on_claims (\<lambda>k. audit (cl_consumer cl) (td_audited_as decision)
                   [(''directive_id'', PStr (ld_id d)), (''from_state'', PStr (dstate_str (dr_state row))),
                    (''to_state'', PStr (dstate_str (xq_state rq))), (''cancel_reason'', PStr (cancel_reason_of rq)),
                    (''lease_generation'', PInt (dr_lease row)), (''actor'', PStr (cl_consumer cl))]
                   [(''reason'', PStr ''ok''), (''policy_revision'', PStr SCOPE_POLICY_REVISION)]
                   (recount (xs_claim se) cl (xq_session rq) (k\<lparr>kd_directives := apply_update upd (kd_directives k)\<rparr>))) db))"

section \<open>The handler\<close>

text \<open>
  After the commit: the delivery of the hand-off, then the second transaction, which records what a later report replays.
\<close>

definition record_result :: "pystr \<Rightarrow> py \<Rightarrow> (pystr \<times> py) list \<Rightarrow> report_db \<Rightarrow> report_db" where
  "record_result i plan result db = on_claims (\<lambda>k. k\<lparr>kd_directives :=
     map (\<lambda>x. if ld_id x = i then x\<lparr>ld_plan := plan, ld_result := PDict result\<rparr> else x) (kd_directives k)\<rparr>) db"

definition report_row :: "caller \<Rightarrow> report_request \<Rightarrow> report_db \<Rightarrow> lite_directive option" where
  "report_row cl rq db = find (\<lambda>d. ld_id d = xq_directive rq \<and> of_session cl (xq_session rq) d) (kd_directives (xd_claims db))"

text \<open>\<open>deliver\<close> is the call of \<^const>\<open>deliver_handoff_safely\<close> on the outbox row, with its clock, fault and interference.\<close>

definition report_work ::
  "redaction \<Rightarrow> report_settings \<Rightarrow> caller \<Rightarrow> pystr \<Rightarrow> report_ids \<Rightarrow> (pystr \<times> py) list option \<Rightarrow> bool \<Rightarrow> report_context
    \<Rightarrow> (pystr \<Rightarrow> handoff_db \<Rightarrow> (outbox_fault, outbox_row) result \<times> handoff_db) \<Rightarrow> report_request \<Rightarrow> datetime \<Rightarrow> lite_directive \<Rightarrow> report_db
    \<Rightarrow> (report_fault, report_reply) result \<times> report_db" where
  "report_work red se cl subject ids checkpoint paused ctx deliver rq now d db =
     (case report_outcome red se checkpoint paused rq d of
        Inl e \<Rightarrow> (Err e, db)
      | Inr oc \<Rightarrow>
          if hits (fenced_update cl d (report_update (cl_consumer cl) (dr_lease (ld_row d)) (oc_state oc) now) (report_columns rq d oc))
               (kd_directives (xd_claims db)) \<noteq> 1
          then (let fresh = (case find (\<lambda>x. ld_id x = xq_directive rq) (kd_directives (xd_claims db)) of Some x \<Rightarrow> ld_row x | None \<Rightarrow> ld_row d) in
            if dr_lease fresh \<noteq> dr_lease (ld_row d)
            then reject_report cl rq fresh (transition_reason_str TR_STALE_LEASE)
              (''stale lease '' @ str_int (dr_lease (ld_row d)) @ ''; current lease is '' @ str_int (dr_lease fresh)) db
            else reject_report cl rq fresh (transition_reason_str TR_CONCURRENT_UPDATE) ''directive changed concurrently; re-read and retry'' db)
          else (case commit_report se cl subject ids rq now paused d oc db of
              (Inl e, db1) \<Rightarrow> (Err e, db1)
            | (Inr (retry, row), db1) \<Rightarrow>
                (case deliver (ob_id row) (xd_handoffs db1) of
                   (Inl e, h) \<Rightarrow> (Err (HandoffFault e), db1\<lparr>xd_handoffs := h\<rparr>)
                 | (Inr delivered, h) \<Rightarrow>
                     (Ok \<lparr>xr_directive = xq_directive rq, xr_state = oc_state oc, xr_retry_scheduled = (retry \<noteq> None),
                          xr_retry_directive = opt_py PStr retry, xr_failure = opt_py (\<lambda>f. PStr (failure_str f)) (oc_failure oc),
                          xr_strategy = opt_py (\<lambda>s. PStr (strategy_str s)) (oc_strategy oc),
                          xr_feedback = PDict (retry_feedback red se d oc), xr_lease = dr_lease (ld_row d), xr_verification = ''unverified'',
                          xr_replay = False, xr_extras = Some (report_extras_of red se checkpoint ctx rq d delivered)\<rparr>,
                      record_result (xq_directive rq) (merged_plan d oc) (result_dict retry (oc_failure oc) (oc_strategy oc) (retry_feedback red se d oc)) (db1\<lparr>xd_handoffs := h\<rparr>)))))"

definition report_execution ::
  "redaction \<Rightarrow> report_settings \<Rightarrow> caller \<Rightarrow> pystr \<Rightarrow> report_ids \<Rightarrow> (pystr \<times> py) list option \<Rightarrow> bool \<Rightarrow> report_context
    \<Rightarrow> (pystr \<Rightarrow> handoff_db \<Rightarrow> (outbox_fault, outbox_row) result \<times> handoff_db) \<Rightarrow> (report_db \<Rightarrow> report_db)
    \<Rightarrow> report_request \<Rightarrow> datetime \<Rightarrow> report_db \<Rightarrow> (report_fault, report_reply) result \<times> report_db" where
  "report_execution red se cl subject ids checkpoint paused ctx deliver others rq now db =
     (case report_row cl rq db of
        None \<Rightarrow> (Err DirectiveNotFound, db)
      | Some d \<Rightarrow>
          if dr_state (ld_row d) \<in> set TERMINAL_STATES then report_again cl rq d db
          else (let (permit_ok, why) = report_permit cl rq d now (kd_permits (xd_claims db));
                    decision = validate_transition (request_of (ld_row d) (xq_state rq) (cl_consumer cl) (xq_lease rq) permit_ok (xs_lease_strict se))
                in if \<not> td_allowed decision
                   then (if td_reason decision = TR_PERMIT_INVALID
                     then reject_report cl rq (ld_row d) (''permit_invalid:'' @ why) (''execution permit rejected: '' @ why) db
                     else reject_report cl rq (ld_row d) (transition_reason_str (td_reason decision)) (td_message decision) db)
                   else if xq_state rq \<in> {D_CANCELLED, D_REJECTED} then report_cancellation se cl rq now d decision (others db)
                   else report_work red se cl subject ids checkpoint paused ctx deliver rq now d (others db)))"

end
