(* ===== verification/Permit_Gate_Facts.thy ===== *)
theory Permit_Gate_Facts
  imports Permit_Gate
begin

text \<open>What the permit ladder promises: the charter's clause, and how it moves with the charter, the change and the profile.\<close>

section \<open>The charter's clause as a verdict of its own\<close>

definition charter_clause :: "charter \<Rightarrow> pystr \<Rightarrow> pystr list \<Rightarrow> permit_decision" where
  "charter_clause c kind paths =
     (if fst (charter_scope_narrowing (Some c) kind paths) then PD_BLOCKED
      else if capability_for_action_kind kind \<in> set (ch_confirm c) then PD_CONFIRM_REQUIRED else PD_ALLOW)"

lemma permit_le_simps [simp]:
  "PD_ALLOW \<le> d" "d \<le> PD_BLOCKED" "d \<le> PD_ALLOW \<longleftrightarrow> d = PD_ALLOW" "PD_BLOCKED \<le> d \<longleftrightarrow> d = PD_BLOCKED"
  by (cases d; simp add: less_eq_permit_decision_def)+

lemma permit_max_simps [simp]:
  "max PD_ALLOW d = d" "max d PD_ALLOW = d" "max d PD_BLOCKED = PD_BLOCKED"
  by (simp_all add: max_def)

lemma permit_max_confirm: "max d PD_CONFIRM_REQUIRED = (if d = PD_ALLOW then PD_CONFIRM_REQUIRED else d)"
  by (cases d) (simp_all add: max_def less_eq_permit_decision_def)

lemma evaluate_is_max:
  "fst (evaluate_execution_permit profile risk lines role sensitive (Some c) kind paths)
    = max (fst (permit_base profile risk lines role sensitive)) (charter_clause c kind paths)"
  by (simp add: evaluate_execution_permit_def charter_clause_def Let_def permit_max_confirm split: prod.split)

section \<open>Monotonicity of the ladder\<close>

lemma risk_le_simps [simp]:
  "R_LOW \<le> r" "r \<le> R_CRITICAL" "r \<le> R_LOW \<longleftrightarrow> r = R_LOW" "R_CRITICAL \<le> r \<longleftrightarrow> r = R_CRITICAL"
  by (cases r; simp add: less_eq_risk_tier_def)+

lemma risk_grows: "m \<le> n \<Longrightarrow> classify_risk_tier kind paths preview m \<le> classify_risk_tier kind paths preview n"
  by (simp add: classify_risk_tier_def Let_def less_eq_risk_tier_def)

lemma low_is_small: "classify_risk_tier kind paths preview lines = R_LOW \<Longrightarrow> lines < 25"
  and medium_is_large: "classify_risk_tier kind paths preview lines = R_MEDIUM \<Longrightarrow> 25 \<le> lines"
  by (auto simp: classify_risk_tier_def Let_def split: if_splits)

lemma base_grows:
  assumes "r \<le> r'" "m \<le> n" "s \<longrightarrow> s'" "r = R_LOW \<Longrightarrow> m \<le> 30"
  shows "fst (permit_base profile r m role s) \<le> fst (permit_base profile r' n role s')"
  using assms by (cases r; cases r'; cases profile) (auto simp: permit_base_def less_eq_permit_decision_def less_eq_risk_tier_def)

lemma clause_narrows:
  assumes "charter_le a b"
  shows "charter_clause b kind paths \<le> charter_clause a kind paths"
  using charter_le_blocks [OF assms, of kind paths] charter_le_identity(4) [OF assms]
  by (auto simp: charter_clause_def)

lemma sensitive_narrows:
  "charter_le a b \<Longrightarrow> charter_sensitive_path_hit (Some b) paths \<Longrightarrow> charter_sensitive_path_hit (Some a) paths"
  using charter_le_paths [of a b] by (auto simp: charter_sensitive_path_hit_def list_ex_iff)

lemma decide_is_max:
  "fst (decide_permit profile role (Some c) kind paths preview lines)
    = max (fst (permit_base profile (classify_risk_tier kind paths preview lines) lines role (charter_sensitive_path_hit (Some c) paths)))
        (charter_clause c kind paths)"
  by (simp add: decide_permit_def evaluate_is_max)

lemma critical_is_blocked:
  "classify_risk_tier kind paths preview lines = R_CRITICAL \<Longrightarrow> fst (decide_permit profile role charter kind paths preview lines) = PD_BLOCKED"
  by (cases charter) (simp_all add: decide_is_max, simp_all add: decide_permit_def evaluate_execution_permit_def permit_base_def max_def)

section \<open>Properties\<close>

text \<open>
  C28. The charter can only make a permit stricter (autonomy_goals.py, evaluate_execution_permit): under a charter
  the decision is the stricter of the plain ladder's and the charter's own clause, so it is never below the ladder's;
  without one it is the ladder's, reason and all.
\<close>

theorem charter_only_tightens:
  "fst (evaluate_execution_permit profile risk lines role sensitive (Some c) kind paths)
     = max (fst (permit_base profile risk lines role sensitive)) (charter_clause c kind paths)
   \<and> fst (permit_base profile risk lines role sensitive)
     \<le> fst (evaluate_execution_permit profile risk lines role sensitive (Some c) kind paths)
   \<and> evaluate_execution_permit profile risk lines role sensitive None kind paths = permit_base profile risk lines role sensitive"
  by (simp add: evaluate_is_max) (simp add: evaluate_execution_permit_def)

text \<open>
  A smaller authority and a larger change never loosen the answer (what the permit handlers compute with
  autonomy_goals.py and charter.py): under a charter below another one, for the same action with at least as many
  changed lines, the decision is at least as strict.
\<close>

theorem permits_tighten_with_narrowing:
  assumes "charter_le a b" "m \<le> n"
  shows "fst (decide_permit profile role (Some b) kind paths preview m) \<le> fst (decide_permit profile role (Some a) kind paths preview n)"
  unfolding decide_is_max
  using assms low_is_small [of kind paths preview m]
  by (intro max.mono base_grows risk_grows clause_narrows) (auto dest: sensitive_narrows)


definition wide_charter :: charter where
  "wide_charter = sample_charter\<lparr>ch_roots := [''src'', ''docs'', ''.env''], ch_protected := [], ch_capabilities := [''filesystem.write'']\<rparr>"

definition small_charter :: charter where
  "small_charter = wide_charter\<lparr>ch_roots := [''src'']\<rparr>"

theorem permits_tighten_with_narrowing_witness:
  "fst (decide_permit HUMAN_AGGRESSIVE ''executor'' (Some wide_charter) ''edit'' [''docs/a''] None 30) = PD_ALLOW
    \<and> fst (decide_permit HUMAN_AGGRESSIVE ''executor'' (Some small_charter) ''edit'' [''docs/a''] None 120) = PD_BLOCKED
    \<and> fst (decide_permit HUMAN_AGGRESSIVE ''executor'' (Some wide_charter) ''edit'' [''docs/a''] None 30)
       \<le> fst (decide_permit HUMAN_AGGRESSIVE ''executor'' (Some small_charter) ''edit'' [''docs/a''] None 120)"
proof -
  have le: "charter_le small_charter wide_charter"
    by (simp add: charter_le_def caps_le_def charter_identity_def small_charter_def wide_charter_def sample_charter_def)
  have "fst (decide_permit HUMAN_AGGRESSIVE ''executor'' (Some wide_charter) ''edit'' [''docs/a''] None 30) = PD_ALLOW"
    "fst (decide_permit HUMAN_AGGRESSIVE ''executor'' (Some small_charter) ''edit'' [''docs/a''] None 120) = PD_BLOCKED"
    by code_simp+
  with permits_tighten_with_narrowing [OF le, of 30 120 HUMAN_AGGRESSIVE "''executor''" "''edit''" "[''docs/a'']" None]
  show ?thesis by simp
qed

text \<open>A charter whose roots hold a path that the legacy tokens name loosens the answer for it.\<close>

lemma charter_drops_legacy_tokens:
  "decide_permit HUMAN_SAFE ''executor'' None ''edit'' [''.env''] None 1
     = (PD_CONFIRM_REQUIRED, ''target touches protected/sensitive paths'')
   \<and> decide_permit HUMAN_SAFE ''executor'' (Some wide_charter) ''edit'' [''.env''] None 1 = (PD_ALLOW, ''low-risk action allowed'')"
  by code_simp

text \<open>A negation within three tokens before the verb hides a destructive command from the rule for destructive commands.\<close>

lemma negation_hides_destruction:
  "classify_risk_tier ''execute'' [] (Some ''psql -c drop-db prod'') 1 = R_CRITICAL
   \<and> classify_risk_tier ''execute'' [] (Some ''echo never; psql -c drop-db prod'') 1 = R_CRITICAL
   \<and> classify_risk_tier ''execute'' [] (Some ''echo not && drop-db prod'') 1 = R_LOW"
  by code_simp

text \<open>
  The cautious and the consultative profile decide alike (autonomy_goals.py, classify_risk_tier with
  evaluate_execution_permit): the tier is low only below 25 lines and medium only from 25 on, so the clause for small
  medium-risk changes and the clause for broad low-risk changes never apply and the two profiles give the same answer.
\<close>

theorem safe_and_consultative_agree:
  "decide_permit HUMAN_SAFE role charter kind paths preview lines = decide_permit HUMAN_CONSULTATIVE role charter kind paths preview lines"
proof -
  have "permit_base HUMAN_SAFE (classify_risk_tier kind paths preview lines) lines role s
      = permit_base HUMAN_CONSULTATIVE (classify_risk_tier kind paths preview lines) lines role s" for s
    using low_is_small [of kind paths preview lines] medium_is_large [of kind paths preview lines]
    by (cases "classify_risk_tier kind paths preview lines") (auto simp: permit_base_def)
  then show ?thesis by (simp add: decide_permit_def evaluate_execution_permit_def)
qed

end
