(* ===== verification/Permit_Store_Facts.thy ===== *)
theory Permit_Store_Facts
  imports Permit_Store Permit_Gate_Facts
begin

text \<open>
  The life of an execution permit: what a grant rests on, whatever the interleaving of requests, resolutions,
  revocations, expiries and claims; that a decided permit stays decided; and which permits a revocation misses.
\<close>

section \<open>What no write changes\<close>

definition asked :: "permit \<Rightarrow> pystr \<times> pystr \<times> pystr \<times> pystr list \<times> pystr option \<times> int \<times> pystr option \<times> pystr option \<times> pystr option" where
  "asked p = (ep_id p, ep_workspace p, ep_kind p, ep_paths p, ep_preview p, ep_lines p, ep_user p, ep_requested_by p, ep_charter p)"

lemma asked_settle [simp]: "asked (settle_permit cl by verdict now p) = asked p"
  by (simp add: asked_def settle_permit_def)

lemma asked_id:
  assumes "asked p = asked q"
  shows "ep_id p = ep_id q" "asked_by cl p = asked_by cl q"
  using assms by (simp_all add: asked_def asked_by_def)

lemma asked_maps [simp]:
  "map asked (revoke_permits c now ps) = map asked ps"
  "map asked (expire_session_permits s now ps) = map asked ps"
  "map asked (bind_permit d n i ps) = map asked ps"
  by (auto simp: revoke_permits_def expire_session_permits_def bind_permit_def asked_def)

lemma insert_permit_Ok: "insert_permit p ps = Ok ps' \<Longrightarrow> ps' = ps @ [p] \<and> ep_id p \<notin> ep_id ` set ps"
  by (auto simp: insert_permit_def list_ex_iff split: if_split_asm)

lemma request_permit_Ok:
  assumes "request_permit clock uuid cl rq profile ttl keyword current cdb ps = Ok (resp, ps')"
  obtains charter objective expires verdict where
    "load_active_charter cdb (cl_workspace cl) (cl_user cl) (clock 0) = Ok charter"
    "ps' = ps @ [new_permit uuid cl rq verdict charter objective expires (clock 2)]" "uuid \<notin> ep_id ` set ps"
    "verdict = decide_permit profile (role_str (cl_role cl)) charter (pr_kind rq) (pr_paths rq) (pr_preview rq) (pr_lines rq)"
proof -
  obtain charter ps1 where l: "load_active_charter cdb (cl_workspace cl) (cl_user cl) (clock 0) = Ok charter"
    and c: "insert_permit (new_permit uuid cl rq
      (decide_permit profile (role_str (cl_role cl)) charter (pr_kind rq) (pr_paths rq) (pr_preview rq) (pr_lines rq))
      charter (bound_objective (pr_objective rq) current) (dt_plus_seconds (clock 1) (ttl_seconds ttl)) (clock 2)) ps = Ok ps1"
    "ps' = ps1"
    using assms unfolding request_permit_def Let_def res_bind_Ok_iff map_error_Ok_iff by blast
  from insert_permit_Ok [OF c(1)] have "uuid \<notin> ep_id ` set ps" by (simp add: new_permit_def)
  with insert_permit_Ok [OF c(1)] c(2) show thesis by (intro that [OF l]) simp_all
qed

text \<open>A resolution that writes: the row it read waits and the caller may approve it; the row it hits is settled.\<close>

lemma resolve_permit_writes:
  assumes "resolve_permit decided keyword (\<lambda>_ _. ps) clock cl permit_id approved confirmed_by seen = (Ok resp, ps')"
    and "ps' \<noteq> ps" "ps' \<noteq> seen"
  obtains row where "row \<in> set seen" "is_permit (cl_workspace cl) permit_id row" "awaiting row" "resolve_refusal cl row = None"
    "ps' = map (\<lambda>p. if is_permit (cl_workspace cl) permit_id p \<and> awaiting p
       then settle_permit cl confirmed_by (resolution row approved (clock 0)) (clock 1) p else p) ps"
proof -
  obtain row where row: "find (is_permit (cl_workspace cl) permit_id) seen = Some row"
    using assms by (auto simp: resolve_permit_def split: option.splits)
  have waits: "awaiting row" using assms row by (auto simp: resolve_permit_def split: if_split_asm)
  have may: "resolve_refusal cl row = None" using assms row waits by (auto simp: resolve_permit_def split: option.splits)
  have "list_ex (\<lambda>p. is_permit (cl_workspace cl) permit_id p \<and> awaiting p) ps"
    using assms row waits may by (auto simp: resolve_permit_def Let_def split: if_split_asm option.splits)
  with assms(1) row waits may have "ps' = map (\<lambda>p. if is_permit (cl_workspace cl) permit_id p \<and> awaiting p
       then settle_permit cl confirmed_by (resolution row approved (clock 0)) (clock 1) p else p) ps"
    by (simp add: resolve_permit_def Let_def)
  then show thesis using row waits may that [of row] by (auto simp: find_Some_iff)
qed

section \<open>Where a grant comes from\<close>

definition may_approve :: "caller \<Rightarrow> permit \<Rightarrow> bool" where
  "may_approve cl p = (cl_role cl = USER \<and> (human_origin_verified cl \<or> \<not> asked_by cl p))"

lemma resolve_refusal_None: "resolve_refusal cl p = None \<longleftrightarrow> may_approve cl p"
  by (auto simp: resolve_refusal_def may_approve_def split: if_splits)

text \<open>
  What the ladder answered to the request \<open>a\<close>: with the profile, the caller's role and the charter the store held for the
  caller at that moment, on the action the row holds; and that the row was made from that request.
\<close>

definition asked_with :: "permit_ask \<Rightarrow> permit \<Rightarrow> bool" where
  "asked_with a p = (ep_workspace p = cl_workspace (aq_caller a) \<and> ep_user p = Some (cl_user (aq_caller a))
     \<and> ep_requested_by p = Some (cl_consumer (aq_caller a)) \<and> ep_kind p = pr_kind (aq_request a) \<and> ep_paths p = pr_paths (aq_request a)
     \<and> ep_preview p = pr_preview (aq_request a) \<and> ep_lines p = pr_lines (aq_request a))"

definition ladder_said :: "permit_decision \<Rightarrow> permit_ask \<Rightarrow> permit \<Rightarrow> bool" where
  "ladder_said d a p = (\<exists>charter.
     load_active_charter (aq_charters a) (cl_workspace (aq_caller a)) (cl_user (aq_caller a)) (aq_now a) = Ok charter
     \<and> ep_charter p = map_option ch_id charter
     \<and> fst (decide_permit (aq_profile a) (role_str (cl_role (aq_caller a))) charter (ep_kind p) (ep_paths p) (ep_preview p) (ep_lines p)) = d)"

definition earned_by :: "permit_event list \<Rightarrow> permit_ask \<Rightarrow> permit \<Rightarrow> bool" where
  "earned_by gs a p = (ep_decision p = ''blocked''
     \<or> ep_decision p = ''confirm_required'' \<and> ladder_said PD_CONFIRM_REQUIRED a p
     \<or> ep_decision p = ''allow'' \<and> (ladder_said PD_ALLOW a p
         \<or> ladder_said PD_CONFIRM_REQUIRED a p \<and> (\<exists>cl. Answered (ep_id p) cl True \<in> set gs \<and> may_approve cl p)))"

definition earned :: "permit_event list \<Rightarrow> permit \<Rightarrow> bool" where
  "earned gs p = (\<exists>a. Asked (ep_id p) a \<in> set gs \<and> asked_with a p \<and> earned_by gs a p)"

lemma ladder_said_asked:
  assumes "asked p = asked q"
  shows "asked_with a p = asked_with a q" "ladder_said d a p = ladder_said d a q"
  using assms by (simp_all add: asked_def ladder_said_def asked_with_def)

lemma may_approve_asked: "asked p = asked q \<Longrightarrow> may_approve cl p = may_approve cl q"
  using asked_id(2) [of p q cl] by (simp add: may_approve_def)

lemma earned_by_more: "earned_by gs a p \<Longrightarrow> set gs \<subseteq> set gs' \<Longrightarrow> earned_by gs' a p"
  by (auto simp: earned_by_def)

lemma earned_more: "earned gs p \<Longrightarrow> set gs \<subseteq> set gs' \<Longrightarrow> earned gs' p"
  unfolding earned_def using earned_by_more by blast

lemma earned_cong:
  assumes "asked p = asked q" "ep_decision p = ep_decision q"
  shows "earned gs p = earned gs q"
  using ladder_said_asked [OF assms(1)] may_approve_asked [OF assms(1)] asked_id(1) [OF assms(1)] assms(2)
  by (simp add: earned_def earned_by_def)

lemma earned_blocked:
  assumes "earned gs p" "asked p' = asked p" "ep_decision p' = ''blocked''"
  shows "earned gs p'"
  using assms(1,3) ladder_said_asked(1) [OF assms(2)] asked_id(1) [OF assms(2)] by (auto simp: earned_def earned_by_def)

lemma earned_new:
  assumes "load_active_charter cdb (cl_workspace cl) (cl_user cl) t = Ok charter"
    and "v = decide_permit profile (role_str (cl_role cl)) charter (pr_kind rq) (pr_paths rq) (pr_preview rq) (pr_lines rq)"
  shows "earned (Asked uuid \<lparr>aq_profile = profile, aq_caller = cl, aq_request = rq, aq_charters = cdb, aq_now = t\<rparr> # gs)
    (new_permit uuid cl rq v charter ob ex cr)" (is "earned (Asked uuid ?a # gs) ?p")
proof -
  have "ladder_said (fst v) ?a ?p" using assms by (auto simp: ladder_said_def new_permit_def)
  then have "earned_by (Asked uuid ?a # gs) ?a ?p" by (cases "fst v") (simp_all add: earned_by_def new_permit_def)
  moreover have "asked_with ?a ?p" "ep_id ?p = uuid" by (simp_all add: asked_with_def new_permit_def)
  ultimately show ?thesis by (auto simp: earned_def)
qed

lemma earned_settled:
  assumes "earned gs p" "awaiting p" "may_approve cl p"
  shows "earned (Answered (ep_id p) cl approved # gs) (settle_permit cl by (resolution row approved t) now p)" (is "earned ?gs ?q")
proof -
  have same: "asked ?q = asked p" by simp
  obtain a where a: "Asked (ep_id p) a \<in> set gs" "asked_with a p" "earned_by gs a p" using assms(1) by (auto simp: earned_def)
  have "ladder_said PD_CONFIRM_REQUIRED a p" using a(3) assms(2) by (auto simp: earned_by_def awaiting_def)
  then have q: "ladder_said PD_CONFIRM_REQUIRED a ?q" "may_approve cl ?q" "ep_id ?q = ep_id p" "asked_with a ?q"
    using assms(3) a(2) ladder_said_asked [OF same] may_approve_asked [OF same] asked_id(1) [OF same] by simp_all
  have "ep_decision ?q = ''blocked'' \<or> ep_decision ?q = ''allow'' \<and> approved" by (auto simp: settle_permit_def resolution_def)
  then have "earned_by ?gs a ?q" using q by (auto simp: earned_by_def)
  then show ?thesis using a(1) q(3,4) by (auto simp: earned_def)
qed

section \<open>Runs\<close>

text \<open>Each identifier was asked for once, by the request of its row.\<close>

definition asked_once :: "permit_state \<Rightarrow> bool" where
  "asked_once a = (\<forall>i b. Asked i b \<in> set (snd a) \<longrightarrow> i \<in> ep_id ` set (fst a) \<and> (\<forall>c. Asked i c \<in> set (snd a) \<longrightarrow> c = b))"

definition permit_inv :: "permit_state \<Rightarrow> bool" where
  "permit_inv a = (distinct (map ep_id (fst a)) \<and> (\<forall>p \<in> set (fst a). earned (snd a) p) \<and> asked_once a)"

lemma asked_once_same:
  assumes "asked_once (ps, gs)" "map asked ps' = map asked ps" "\<And>i b. Asked i b \<in> set gs' \<longleftrightarrow> Asked i b \<in> set gs"
  shows "asked_once (ps', gs')"
proof -
  have "ep_id ` set ps' = fst ` asked ` set ps'" "ep_id ` set ps = fst ` asked ` set ps" by (simp_all add: image_image asked_def)
  moreover have "asked ` set ps' = asked ` set ps" using assms(2) by (metis set_map)
  ultimately have "ep_id ` set ps' = ep_id ` set ps" by simp
  with assms(1,3) show ?thesis by (simp add: asked_once_def)
qed

definition later :: "permit_state \<Rightarrow> permit_state \<Rightarrow> bool" where
  "later a b = (asked ` set (fst a) \<subseteq> asked ` set (fst b))"

lemma ids_of_asked: "map ep_id ps = map fst (map asked ps)"
  by (simp add: asked_def)

lemma inv_map:
  assumes "permit_inv (ps, gs)" "map asked (f ps) = map asked ps" "\<And>p'. p' \<in> set (f ps) \<Longrightarrow> earned gs p'"
  shows "permit_inv (f ps, gs)"
  using assms asked_once_same [of ps gs "f ps" gs] unfolding permit_inv_def ids_of_asked by simp

text \<open>The row a resolution hits was asked for as the row it read, when the table is a later one.\<close>

lemma same_ask:
  assumes "later (seen, gs0) (ps, gs)" "permit_inv (ps, gs)" "row \<in> set seen" "p \<in> set ps" "ep_id row = ep_id p"
  shows "asked row = asked p"
proof -
  obtain q where q: "q \<in> set ps" "asked row = asked q" using assms(1,3) by (auto simp: later_def)
  have "q = p" using q assms asked_id(1) [OF q(2)] distinct_on [of ep_id ps q p] by (simp add: permit_inv_def)
  with q show ?thesis by simp
qed

lemma resolve_keeps:
  assumes inv: "permit_inv (ps, gs)" and later: "later (seen, gs0) (ps, gs)"
    and run: "resolve_permit decided keyword (\<lambda>_ _. ps) clock cl permit_id approved confirmed_by seen = (Ok resp, ps')"
    and new: "ps' \<noteq> ps" "ps' \<noteq> seen"
  shows "permit_inv (ps', Answered permit_id cl approved # gs) \<and> map asked ps' = map asked ps"
proof -
  from resolve_permit_writes [OF run new] obtain row where row: "row \<in> set seen" "is_permit (cl_workspace cl) permit_id row"
      "resolve_refusal cl row = None"
    and ps': "ps' = map (\<lambda>p. if is_permit (cl_workspace cl) permit_id p \<and> awaiting p
       then settle_permit cl confirmed_by (resolution row approved (clock 0)) (clock 1) p else p) ps" by blast
  have same: "map asked ps' = map asked ps" by (simp add: ps')
  have "earned (Answered permit_id cl approved # gs) q" if "q \<in> set ps'" for q
  proof -
    from that obtain p where p: "p \<in> set ps" "q = (if is_permit (cl_workspace cl) permit_id p \<and> awaiting p
        then settle_permit cl confirmed_by (resolution row approved (clock 0)) (clock 1) p else p)" by (auto simp: ps')
    have e: "earned gs p" using inv p(1) by (simp add: permit_inv_def)
    show ?thesis
    proof (cases "is_permit (cl_workspace cl) permit_id p \<and> awaiting p")
      case True
      then have "asked row = asked p" using same_ask [OF later inv row(1) p(1)] row(2) by (simp add: is_permit_def)
      from may_approve_asked [OF this, of cl] have "may_approve cl p" using row(3) by (simp add: resolve_refusal_None)
      with True e show ?thesis using earned_settled [OF e] p(2) by (simp add: is_permit_def)
    next
      case False
      then show ?thesis using p(2) earned_more [OF e, of "Answered permit_id cl approved # gs"] by auto
    qed
  qed
  moreover have "asked_once (ps', Answered permit_id cl approved # gs)"
    using asked_once_same [OF _ same, of gs "Answered permit_id cl approved # gs"] inv by (simp add: permit_inv_def)
  ultimately show ?thesis using inv same unfolding permit_inv_def ids_of_asked by simp
qed

lemma request_keeps:
  assumes inv: "permit_inv (ps, gs)"
    and ok: "request_permit clock uuid cl rq profile ttl keyword current cdb ps = Ok (resp, ps')"
  defines "ask \<equiv> \<lparr>aq_profile = profile, aq_caller = cl, aq_request = rq, aq_charters = cdb, aq_now = clock 0\<rparr>"
  shows "permit_inv (ps', Asked uuid ask # gs) \<and> asked ` set ps \<subseteq> asked ` set ps'"
proof -
  obtain charter ob ex v where l: "load_active_charter cdb (cl_workspace cl) (cl_user cl) (clock 0) = Ok charter"
    and ps': "ps' = ps @ [new_permit uuid cl rq v charter ob ex (clock 2)]" and fresh: "uuid \<notin> ep_id ` set ps"
    and v: "v = decide_permit profile (role_str (cl_role cl)) charter (pr_kind rq) (pr_paths rq) (pr_preview rq) (pr_lines rq)"
    using ok by (rule request_permit_Ok)
  let ?p = "new_permit uuid cl rq v charter ob ex (clock 2)" and ?gs = "Asked uuid ask # gs"
  have id: "ep_id ?p = uuid" by (simp add: new_permit_def)
  then have "distinct (map ep_id ps')" using inv fresh by (simp add: ps' permit_inv_def)
  moreover have "earned ?gs ?p" unfolding ask_def by (rule earned_new [OF l v])
  then have "\<forall>p \<in> set ps'. earned ?gs p" using inv earned_more [of gs _ ?gs] by (auto simp: ps' permit_inv_def)
  moreover have "Asked uuid b \<notin> set gs" for b using inv fresh by (auto simp: permit_inv_def asked_once_def)
  then have "asked_once (ps', ?gs)" using inv id by (auto simp: permit_inv_def asked_once_def ps')
  ultimately show ?thesis by (simp add: permit_inv_def) (auto simp: ps')
qed

lemma revoke_keeps: "permit_inv (ps, gs) \<Longrightarrow> permit_inv (revoke_permits c now ps, gs)"
proof (rule inv_map [where f = "revoke_permits c now"])
  fix p' assume inv: "permit_inv (ps, gs)" and "p' \<in> set (revoke_permits c now ps)"
  then obtain p where p: "p \<in> set ps" "p' = p \<or> asked p' = asked p \<and> ep_decision p' = ''blocked''"
    by (auto simp: revoke_permits_def asked_def split: if_split_asm)
  have "earned gs p" using inv p(1) by (simp add: permit_inv_def)
  then show "earned gs p'" using p(2) earned_blocked [of gs p p'] by blast
qed simp_all

lemma frame_keeps:
  assumes "permit_inv (ps, gs)" "map asked (map f ps) = map asked ps" "\<And>p. ep_decision (f p) = ep_decision p" "\<And>p. asked (f p) = asked p"
  shows "permit_inv (map f ps, gs)"
proof (rule inv_map [OF assms(1), where f = "map f", OF assms(2)])
  fix p' assume "p' \<in> set (map f ps)"
  then obtain p where p: "p \<in> set ps" "p' = f p" by auto
  then show "earned gs p'" using assms(1) earned_cong [OF assms(4,3), of gs p] by (simp add: permit_inv_def)
qed

lemma expire_keeps: "permit_inv (ps, gs) \<Longrightarrow> permit_inv (expire_session_permits s now ps, gs)"
  unfolding expire_session_permits_def by (rule frame_keeps) (simp_all add: asked_def)

lemma bind_keeps: "permit_inv (ps, gs) \<Longrightarrow> permit_inv (bind_permit d n i ps, gs)"
  unfolding bind_permit_def by (rule frame_keeps) (simp_all add: asked_def)

lemma later_same:
  assumes "later a (ps, gs)" "map asked ps' = map asked ps"
  shows "later a (ps', gs')"
proof -
  have "asked ` set ps' = asked ` set ps" using assms(2) by (metis set_map)
  with assms(1) show ?thesis by (simp add: later_def)
qed

lemma permit_run_keeps: "permit_run a b \<Longrightarrow> permit_inv a \<Longrightarrow> permit_inv b \<and> later a b"
proof (induction rule: permit_run.induct)
  case (start a)
  then show ?case by (simp add: later_def)
next
  case (request a ps gs clock uuid cl rq profile ttl keyword current cdb resp ps')
  then have "permit_inv (ps, gs)" "later a (ps, gs)" by auto
  with request_keeps [OF this(1) request.hyps(2)] show ?case unfolding later_def by auto
next
  case (resolve a seen gs0 ps gs decided keyword clock cl permit_id approved confirmed_by resp ps')
  have seen: "permit_inv (seen, gs0)" "later a (seen, gs0)" using resolve.IH(1) resolve.prems by auto
  then have now: "permit_inv (ps, gs)" "later (seen, gs0) (ps, gs)" using resolve.IH(2) by auto
  note k = resolve_keeps [OF now resolve.hyps(3,4,5)]
  have "later a (ps, gs)" using seen(2) now(2) unfolding later_def by auto
  with later_same [OF this conjunct2 [OF k]] k show ?case by blast
next
  case (revoke a ps gs charter_id now)
  then show ?case using revoke_keeps later_same asked_maps(1) by blast
next
  case (expire a ps gs session now)
  then show ?case using expire_keeps later_same asked_maps(2) by blast
next
  case (bind a ps gs directive attempt permit_id)
  then show ?case using bind_keeps later_same asked_maps(3) by blast
qed

section \<open>Properties\<close>

lemma grants_are_earned:
  assumes "permit_run ([], []) (ps, gs)" "p \<in> set ps"
  shows "earned gs p" "asked_once (ps, gs)"
  using permit_run_keeps [OF assms(1)] assms(2) by (simp_all add: permit_inv_def asked_once_def)

text \<open>
  C27. What a grant rests on (the permit handlers of Lite and Full, from an empty table, whatever the interleaving of
  requests, resolutions, charter revocations, expiries and claims): a permit was asked for by exactly one request, whose
  caller, kind, paths, preview and lines it holds.  If it allows, the ladder allowed that action under the profile of
  that request, the role of its caller and the charter the store held for the caller then, which is the charter the
  permit names; or the ladder so asked for a confirmation and an operator answered yes: a caller in the user role that
  is either server-verified or not the one who asked.  A permit that waits is one the ladder asked to have confirmed, and an
  action classified critical is never granted at all.
\<close>

theorem permit_grants_are_earned:
  assumes "permit_run ([], []) (ps, gs)" "p \<in> set ps"
  shows "\<exists>a. Asked (ep_id p) a \<in> set gs \<and> (\<forall>b. Asked (ep_id p) b \<in> set gs \<longrightarrow> b = a) \<and> asked_with a p
    \<and> (ep_decision p = ''allow'' \<longrightarrow> ladder_said PD_ALLOW a p
        \<or> ladder_said PD_CONFIRM_REQUIRED a p \<and> (\<exists>cl. Answered (ep_id p) cl True \<in> set gs \<and> may_approve cl p))
    \<and> (ep_decision p = ''confirm_required'' \<longrightarrow> ladder_said PD_CONFIRM_REQUIRED a p)
    \<and> (classify_risk_tier (ep_kind p) (ep_paths p) (ep_preview p) (ep_lines p) = R_CRITICAL \<longrightarrow> ep_decision p = ''blocked'')"
proof -
  obtain a where a: "Asked (ep_id p) a \<in> set gs" "asked_with a p" "earned_by gs a p"
    using grants_are_earned(1) [OF assms] unfolding earned_def by blast
  have critical: "d = PD_BLOCKED" if "classify_risk_tier (ep_kind p) (ep_paths p) (ep_preview p) (ep_lines p) = R_CRITICAL"
    "ladder_said d a p" for d
    using that critical_is_blocked by (auto simp: ladder_said_def)
  have once: "\<forall>b. Asked (ep_id p) b \<in> set gs \<longrightarrow> b = a"
    using grants_are_earned(2) [OF assms] a(1) unfolding asked_once_def snd_conv by blast
  have allowed: "ep_decision p = ''allow'' \<longrightarrow> ladder_said PD_ALLOW a p
        \<or> ladder_said PD_CONFIRM_REQUIRED a p \<and> (\<exists>cl. Answered (ep_id p) cl True \<in> set gs \<and> may_approve cl p)"
  proof
    assume "ep_decision p = ''allow''"
    with a(3) show "ladder_said PD_ALLOW a p
        \<or> ladder_said PD_CONFIRM_REQUIRED a p \<and> (\<exists>cl. Answered (ep_id p) cl True \<in> set gs \<and> may_approve cl p)"
      by (simp add: earned_by_def)
  qed
  have waits: "ep_decision p = ''confirm_required'' \<longrightarrow> ladder_said PD_CONFIRM_REQUIRED a p"
  proof
    assume "ep_decision p = ''confirm_required''"
    with a(3) show "ladder_said PD_CONFIRM_REQUIRED a p" by (simp add: earned_by_def)
  qed
  have "classify_risk_tier (ep_kind p) (ep_paths p) (ep_preview p) (ep_lines p) = R_CRITICAL \<longrightarrow> ep_decision p = ''blocked''"
    using a(3) critical [of PD_ALLOW] critical [of PD_CONFIRM_REQUIRED] unfolding earned_by_def by blast
  with a(1,2) once allowed waits show ?thesis by blast
qed

section \<open>A decided permit\<close>

definition decided :: "permit \<Rightarrow> bool" where
  "decided p = (ep_decision p = ''blocked'' \<or> ep_resolved p \<noteq> None)"

definition verdict_of :: "permit \<Rightarrow> pystr \<times> pystr \<times> pystr \<times> pystr \<times> pystr option \<times> pystr option \<times> datetime option" where
  "verdict_of p = (ep_id p, ep_workspace p, ep_decision p, ep_reason p, ep_confirmed_by p, ep_resolved_by p, ep_resolved p)"

definition no_charters :: charter_db where
  "no_charters = \<lparr>cdb_charters = [], cdb_narrowings = [], cdb_receipts = [], cdb_permits = []\<rparr>"

definition agent :: caller where
  "agent = \<lparr>cl_consumer = ''codex'', cl_role = EXECUTOR, cl_workspace = ''W'', cl_user = ''O'', cl_verified = False, cl_capabilities = []\<rparr>"

definition operator :: caller where
  "operator = \<lparr>cl_consumer = ''web'', cl_role = USER, cl_workspace = ''W'', cl_user = ''O'', cl_verified = True, cl_capabilities = []\<rparr>"

definition broad_edit :: permit_request where
  "broad_edit = \<lparr>pr_session = ''S'', pr_kind = ''edit'', pr_paths = [''src/a''], pr_preview = None, pr_lines = 120, pr_directive = None,
     pr_attempt = None, pr_objective = None\<rparr>"

definition waiting_permit :: permit where
  "waiting_permit = new_permit ''p'' agent broad_edit (PD_CONFIRM_REQUIRED, ''high-risk action requires confirmation'') None None (Aware 30000000 0) (Aware 0 0)"

definition granted_permit :: permit where
  "granted_permit = settle_permit operator None (PD_ALLOW, ''confirmed by operator'') (Aware 6 0) waiting_permit"

lemma waiting_permit_requested:
  "request_permit (\<lambda>_. Aware 0 0) ''p'' agent broad_edit HUMAN_SAFE 5 ''confirm'' None no_charters []
    = Ok (permit_reply ''confirm'' ''p'' PD_CONFIRM_REQUIRED ''high-risk action requires confirmation'' (Some (Aware 30000000 0)), [waiting_permit])"
proof -
  have "decide_permit HUMAN_SAFE (role_str (cl_role agent)) None (pr_kind broad_edit) (pr_paths broad_edit) (pr_preview broad_edit) (pr_lines broad_edit)
      = (PD_CONFIRM_REQUIRED, ''high-risk action requires confirmation'')" by code_simp
  moreover have "load_active_charter no_charters w ow now = Ok None" for w ow now
    by (simp add: load_active_charter_def no_charters_def newest_def)
  moreover have "bound_objective (pr_objective broad_edit) None = None" by code_simp
  ultimately show ?thesis
    by (simp add: request_permit_def Let_def insert_permit_def waiting_permit_def ttl_seconds_def dt_plus_seconds_def)
qed

lemma waiting_permit_simps [simp]:
  "ep_id waiting_permit = ''p''" "ep_workspace waiting_permit = ''W''" "awaiting waiting_permit" "ep_expires waiting_permit = Some (Aware 30000000 0)"
  "ep_requested_by waiting_permit = Some ''codex''"
  by (simp_all add: waiting_permit_def new_permit_def agent_def awaiting_def)

lemma waiting_permit_granted:
  "resolve_permit d ''confirm'' (\<lambda>_ _. [waiting_permit]) (\<lambda>_. Aware 6 0) operator ''p'' True None [waiting_permit]
    = (Ok (permit_reply ''confirm'' ''p'' PD_ALLOW ''confirmed by operator'' (Some (Aware 30000000 0))), [granted_permit])"
  by (simp add: resolve_permit_def is_permit_def operator_def resolve_refusal_def human_origin_verified_def resolution_def Let_def granted_permit_def)

lemma granted_permit_simps [simp]: "granted_permit \<noteq> waiting_permit" "ep_decision granted_permit = ''allow''" "decided granted_permit"
  "ep_workspace granted_permit = ''W''" "ep_id granted_permit = ''p''"
proof -
  show "ep_decision granted_permit = ''allow''" "decided granted_permit" "ep_workspace granted_permit = ''W''" "ep_id granted_permit = ''p''"
    by (simp_all add: granted_permit_def settle_permit_def decided_def)
  then have "decided granted_permit" by simp
  moreover have "\<not> decided waiting_permit" by (simp add: waiting_permit_def new_permit_def decided_def)
  ultimately show "granted_permit \<noteq> waiting_permit" by metis
qed

definition sample_ask :: permit_ask where
  "sample_ask = \<lparr>aq_profile = HUMAN_SAFE, aq_caller = agent, aq_request = broad_edit, aq_charters = no_charters, aq_now = Aware 0 0\<rparr>"

lemma sample_permit_run: "permit_run ([], []) ([granted_permit], [Answered ''p'' operator True, Asked ''p'' sample_ask])"
proof -
  have asked: "permit_run ([], []) ([waiting_permit], [Asked ''p'' sample_ask])"
    using permit_run.request [OF permit_run.start waiting_permit_requested] unfolding sample_ask_def .
  show ?thesis
    using permit_run.resolve [OF asked permit_run.start waiting_permit_granted] by simp
qed

theorem permit_grants_are_earned_witness:
  "ep_decision granted_permit = ''allow'' \<and> asked_with sample_ask granted_permit
    \<and> (ladder_said PD_ALLOW sample_ask granted_permit \<or> ladder_said PD_CONFIRM_REQUIRED sample_ask granted_permit
      \<and> (\<exists>cl. Answered ''p'' cl True \<in> set [Answered ''p'' operator True, Asked ''p'' sample_ask] \<and> may_approve cl granted_permit))"
  using permit_grants_are_earned [OF sample_permit_run, of granted_permit] by auto

lemma decided_not_awaiting: "decided p \<Longrightarrow> \<not> awaiting p"
  by (auto simp: decided_def awaiting_def)

lemma verdict_decided: "verdict_of q = verdict_of p \<Longrightarrow> decided q = decided p"
  by (simp add: verdict_of_def decided_def)

lemma verdict_map:
  assumes "p \<in> set ps" "verdict_of (f p) = verdict_of p"
  shows "\<exists>q \<in> set (map f ps). verdict_of q = verdict_of p"
  using assms by auto

lemma decided_stays:
  "permit_run a b \<Longrightarrow> p \<in> set (fst a) \<Longrightarrow> decided p \<Longrightarrow> \<exists>q \<in> set (fst b). verdict_of q = verdict_of p"
proof (induction arbitrary: p rule: permit_run.induct)
  case (start a)
  then show ?case by auto
next
  case (request a ps gs clock uuid cl rq profile ttl keyword current cdb resp ps')
  obtain ps1 where "ps' = ps @ ps1" using request.hyps(2) by (rule request_permit_Ok) blast
  then show ?case using request.IH [OF request.prems] by auto
next
  case (resolve a seen gs0 ps gs dk keyword clock cl permit_id approved confirmed_by resp ps')
  obtain q0 where q0: "q0 \<in> set seen" "verdict_of q0 = verdict_of p" using resolve.IH(1) [OF resolve.prems] by auto
  have "decided q0" using verdict_decided [OF q0(2)] resolve.prems by simp
  then obtain q where q: "q \<in> set ps" "verdict_of q = verdict_of q0" using resolve.IH(2) [of q0] q0(1) by auto
  have "decided q" using verdict_decided [OF q(2)] \<open>decided q0\<close> by simp
  then have "\<not> awaiting q" by (rule decided_not_awaiting)
  obtain row where ps': "ps' = map (\<lambda>p. if is_permit (cl_workspace cl) permit_id p \<and> awaiting p
       then settle_permit cl confirmed_by (resolution row approved (clock 0)) (clock 1) p else p) ps"
    using resolve.hyps(3,4,5) by (rule resolve_permit_writes)
  have "verdict_of (if is_permit (cl_workspace cl) permit_id q \<and> awaiting q
       then settle_permit cl confirmed_by (resolution row approved (clock 0)) (clock 1) q else q) = verdict_of q"
    using \<open>\<not> awaiting q\<close> by simp
  then show ?case unfolding fst_conv ps' q0(2) [symmetric] q(2) [symmetric] by (intro verdict_map [OF q(1)])
next
  case (revoke a ps gs charter_id now)
  obtain q where q: "q \<in> set ps" "verdict_of q = verdict_of p" using revoke.IH [OF revoke.prems] by auto
  have "decided q" using verdict_decided [OF q(2)] revoke.prems by simp
  then have "verdict_of (if ep_charter q = Some charter_id \<and> ep_decision q = ''allow'' \<and> ep_resolved q = None
     then q\<lparr>ep_decision := ''blocked'', ep_reason := ''charter_revoked'', ep_resolved := Some now\<rparr> else q) = verdict_of q"
    by (auto simp: decided_def)
  then show ?case unfolding fst_conv revoke_permits_def q(2) [symmetric] by (intro verdict_map [OF q(1)])
next
  case (expire a ps gs session now)
  obtain q where q: "q \<in> set ps" "verdict_of q = verdict_of p" using expire.IH [OF expire.prems] by auto
  have "verdict_of (if ep_session q = session \<and> (case ep_expires q of None \<Rightarrow> True | Some t \<Rightarrow> isoformat now < isoformat t)
     then q\<lparr>ep_expires := Some now\<rparr> else q) = verdict_of q" by (simp add: verdict_of_def)
  then show ?case unfolding fst_conv expire_session_permits_def q(2) [symmetric] by (intro verdict_map [OF q(1)])
next
  case (bind a ps gs directive attempt permit_id)
  obtain q where q: "q \<in> set ps" "verdict_of q = verdict_of p" using bind.IH [OF bind.prems] by auto
  have "verdict_of (if ep_id q = permit_id \<and> ep_directive q = None
     then q\<lparr>ep_directive := Some directive, ep_attempt := Some attempt\<rparr> else q) = verdict_of q" by (simp add: verdict_of_def)
  then show ?case unfolding fst_conv bind_permit_def q(2) [symmetric] by (intro verdict_map [OF q(1)])
qed

lemma find_permit:
  assumes "permit_inv (ps, gs)" "q \<in> set ps"
  shows "find (is_permit (ep_workspace q) (ep_id q)) ps = Some q"
proof -
  obtain r where r: "find (is_permit (ep_workspace q) (ep_id q)) ps = Some r"
    using assms(2) by (cases "find (is_permit (ep_workspace q) (ep_id q)) ps") (auto simp: find_None_iff is_permit_def)
  then have "r \<in> set ps" "ep_id r = ep_id q" by (auto simp: find_Some_iff is_permit_def)
  then have "r = q" using distinct_on [of ep_id ps r q] assms by (simp add: permit_inv_def)
  with r show ?thesis by simp
qed

text \<open>
  A decided permit stays decided (the permit handlers): once a permit is blocked or was resolved, every later state
  holds it with the same decision, reason and operator, and another resolution of it, by anyone, returns what is
  stored and changes nothing.
\<close>

theorem decided_permits_stay:
  assumes "permit_run ([], []) (seen, gs0)" "permit_run (seen, gs0) (ps, gs)" "p \<in> set seen" "decided p"
  shows "\<exists>q \<in> set ps. verdict_of q = verdict_of p
    \<and> (\<forall>keyword others clock cl approved by. cl_workspace cl = ep_workspace p \<longrightarrow>
        resolve_execution_permit_lite keyword others clock cl (ep_id p) approved by ps = (stored_reply (Some keyword) (ep_id p) q, ps)
        \<and> full_resolve_execution_permit keyword others clock cl (ep_id p) approved by ps = (stored_reply None (ep_id p) q, ps))"
proof -
  have inv: "permit_inv (ps, gs)"
    using permit_run_keeps [OF assms(1)] permit_run_keeps [OF assms(2)] by (simp add: permit_inv_def asked_once_def)
  obtain q where q: "q \<in> set ps" "verdict_of q = verdict_of p" using decided_stays [OF assms(2)] assms(3,4) by auto
  have "decided q" using verdict_decided [OF q(2)] assms(4) by simp
  then have "\<not> awaiting q" by (rule decided_not_awaiting)
  moreover have "ep_id p = ep_id q" "ep_workspace p = ep_workspace q" using q(2) by (simp_all add: verdict_of_def)
  ultimately show ?thesis
    using q find_permit [OF inv q(1)]
    by (intro bexI [of _ q]) (auto simp: resolve_execution_permit_lite_def full_resolve_execution_permit_def resolve_permit_def)
qed

theorem decided_permits_stay_witness:
  "\<exists>q \<in> set [granted_permit]. verdict_of q = verdict_of granted_permit
    \<and> resolve_execution_permit_lite ''confirm'' (\<lambda>_ x. x) (\<lambda>_. Aware 9 0) operator ''p'' False None [granted_permit]
       = (stored_reply (Some ''confirm'') ''p'' q, [granted_permit])"
proof -
  have "cl_workspace operator = ep_workspace granted_permit" by (simp add: operator_def)
  then show ?thesis using decided_permits_stay [OF sample_permit_run permit_run.start, of granted_permit] by auto
qed

text \<open>
  A revocation blocks the permits the ladder allowed under the charter, and only those: a permit an operator
  confirmed stays granted, and one that waits can still be confirmed.
\<close>

lemma revocation_misses:
  "p \<in> set ps \<Longrightarrow> awaiting p \<or> ep_resolved p \<noteq> None \<Longrightarrow> p \<in> set (revoke_permits charter_id now ps)"
  by (force simp: revoke_permits_def awaiting_def)

end
