(* ===== verification/Claim_Facts.thy ===== *)
theory Claim_Facts
  imports Claim_Execution Permit_Store_Facts
begin

text \<open>What a claim rests on and what it changes; what a refused claim leaves.\<close>

section \<open>The transition\<close>

lemma claim_transition:
  assumes "td_allowed (validate_transition (request_of row D_IN_PROGRESS actor None ok False))" "dr_state row = D_PENDING"
  shows "ok" "td_next_lease (validate_transition (request_of row D_IN_PROGRESS actor None ok False)) = dr_lease row + 1"
    "td_audited_as (validate_transition (request_of row D_IN_PROGRESS actor None ok False)) = ''directive_claimed''"
    "dr_executor row \<in> {None, Some [], Some actor}"
proof -
  obtain t where t: "t \<in> set ALLOWED_TRANSITIONS" "tr_source t = dr_state row" "tr_target t = D_IN_PROGRESS"
    and nt: "dr_state row \<notin> set TERMINAL_STATES"
    and ap: "td_allowed (apply_transition t (request_of row D_IN_PROGRESS actor None ok False))"
    and v: "validate_transition (request_of row D_IN_PROGRESS actor None ok False) = apply_transition t (request_of row D_IN_PROGRESS actor None ok False)"
    by (rule request_allowed [OF assms(1)])
  have t': "t = tr D_PENDING D_IN_PROGRESS False True False True ''directive_claimed''"
    using t assms(2) by (auto simp: ALLOWED_TRANSITIONS_def)
  note p = apply_transition_allowed [OF ap]
  show "ok" using p(5) by (simp add: t')
  show "td_next_lease (validate_transition (request_of row D_IN_PROGRESS actor None ok False)) = dr_lease row + 1"
    using p(7) by (simp add: v t')
  show "dr_executor row \<in> {None, Some [], Some actor}" using p(2) by (simp add: t')
  show "td_audited_as (validate_transition (request_of row D_IN_PROGRESS actor None ok False)) = ''directive_claimed''"
    using ap p(2) unfolding v apply_transition_def Let_def by (auto simp: t' split: if_split_asm)
qed

section \<open>The permit\<close>

text \<open>What a permit that holds says of itself.\<close>

definition permit_holds :: "charter option \<Rightarrow> lite_directive \<Rightarrow> datetime \<Rightarrow> permit \<Rightarrow> bool" where
  "permit_holds charter d now p =
     (ep_decision p = ''allow'' \<and> text_or_none (ep_user p) \<in> {None, Some (ld_user d)}
      \<and> text_or_none (ep_directive p) \<in> {None, Some (ld_id d)}
      \<and> text_or_none (ep_objective p) \<in> {None, text_or_none (ld_objective d)}
      \<and> \<not> both_differ (text_or_none (ep_charter p)) (map_option ch_id charter)
      \<and> (case ep_expires p of None \<Rightarrow> True | Some t \<Rightarrow> instant now < instant t))"

lemma check_permit_holds:
  assumes "fst (check_permit enforced charter d now p)"
  shows "permit_holds charter d now p"
  using assms
  by (auto simp: check_permit_def permit_binding_ok_def claim_check_def permit_holds_def or_none_def
    split: if_split_asm option.splits)

text \<open>Attaching writes the directive's permit and the permit's directive, and nothing else.\<close>

lemma attach_permit_Ok:
  assumes "attach_permit cl rq d now db = Ok (i, db1)"
  shows "map ld_row (kd_directives db1) = map ld_row (kd_directives db) \<and> map ld_id (kd_directives db1) = map ld_id (kd_directives db)
    \<and> kd_sessions db1 = kd_sessions db \<and> kd_audit db1 = kd_audit db
    \<and> (\<forall>x \<in> set (kd_directives db). ld_id x \<noteq> ld_id d \<longrightarrow> x \<in> set (kd_directives db1))
    \<and> kd_permits db1 \<in> {kd_permits db, bind_permit (ld_id d) (ld_attempt d) i (kd_permits db)}
    \<and> (d \<in> set (kd_directives db) \<longrightarrow> 
        (\<exists>x \<in> set (kd_directives db1). ld_id x = ld_id d \<and> ld_row x = ld_row d \<and> text_or_none (ld_permit x) = or_none i))"
proof (cases "text_or_none (ld_permit d)")
  case (Some j)
  then have "i = j" "db1 = db" using assms by (simp_all add: attach_permit_def)
  moreover have "or_none j = Some j" using Some by (cases "ld_permit d") (auto simp: or_none_def split: if_split_asm)
  ultimately show ?thesis using Some by auto
next
  case None
  then have db1: "db1 =
      db\<lparr>kd_directives := map (\<lambda>x. if ld_id x = ld_id d then x\<lparr>ld_permit := Some i\<rparr> else x) (kd_directives db),
         kd_permits := bind_permit (ld_id d) (ld_attempt d) i (kd_permits db)\<rparr>"
    using assms by (auto simp: attach_permit_def split: option.splits)
  have "d\<lparr>ld_permit := Some i\<rparr> \<in> set (kd_directives db1)" if "d \<in> set (kd_directives db)"
    using that by (force simp: db1)
  then show ?thesis by (auto simp: db1 comp_def intro!: bexI [of _ "d\<lparr>ld_permit := Some i\<rparr>"])
qed


text \<open>The permit part of a claim that holds: the tables as attaching leaves them, and a permit that holds unless none is needed.\<close>

lemma claim_permit_Ok:
  assumes "claim_permit se charter cl rq d now db = Ok ((True, why), expires, db1)" "d \<in> set (kd_directives db)"
  shows "map ld_id (kd_directives db1) = map ld_id (kd_directives db) \<and> map ld_row (kd_directives db1) = map ld_row (kd_directives db)
    \<and> kd_sessions db1 = kd_sessions db \<and> kd_audit db1 = kd_audit db
    \<and> (\<forall>x \<in> set (kd_directives db). ld_id x \<noteq> ld_id d \<longrightarrow> x \<in> set (kd_directives db1))
    \<and> (\<exists>i. kd_permits db1 \<in> {kd_permits db, bind_permit (ld_id d) (ld_attempt d) i (kd_permits db)})
    \<and> (ld_requires d \<longrightarrow> (\<exists>p \<in> set (kd_permits db1). permit_holds charter d now p \<and> expires = ep_expires p
        \<and> ep_session p = cq_session rq \<and> ep_workspace p = cl_workspace cl
        \<and> (\<exists>x \<in> set (kd_directives db1). ld_id x = ld_id d \<and> text_or_none (ld_permit x) = or_none (ep_id p))))"
proof (cases "ld_requires d")
  case False
  then show ?thesis using assms(1) by (auto simp: claim_permit_def)
next
  case True
  then obtain i db2 where at: "attach_permit cl rq d now db = Ok (i, db2)"
    and rest: "(case find (\<lambda>p. ep_id p = i \<and> ep_session p = cq_session rq \<and> ep_workspace p = cl_workspace cl) (kd_permits db2) of
          None \<Rightarrow> Err PermitNotApproved
        | Some p \<Rightarrow> Ok (check_permit (cs_digest_enforced se) charter d now p, ep_expires p, db2)) = Ok ((True, why), expires, db1)"
    using assms(1) by (auto simp: claim_permit_def res_bind_Ok_iff)
  from rest obtain p where f: "find (\<lambda>p. ep_id p = i \<and> ep_session p = cq_session rq \<and> ep_workspace p = cl_workspace cl) (kd_permits db2) = Some p"
    and c: "check_permit (cs_digest_enforced se) charter d now p = (True, why)" and e: "expires = ep_expires p" "db1 = db2"
    by (auto split: option.splits)
  have p: "p \<in> set (kd_permits db2)" "ep_id p = i" "ep_session p = cq_session rq" "ep_workspace p = cl_workspace cl"
    using f by (auto simp: find_Some_iff)
  have "permit_holds charter d now p" using c by (intro check_permit_holds [of "cs_digest_enforced se"]) simp
  then show ?thesis using attach_permit_Ok [OF at] assms(2) p by (auto simp: e)
qed

text \<open>Rows of two tables with the same keys and the same lifecycle columns, in order.\<close>

lemma same_rows:
  assumes "map ld_id xs = map ld_id ys" "map ld_row xs = map ld_row ys" "distinct (map ld_id ys)" "x \<in> set xs" "d \<in> set ys" "ld_id x = ld_id d"
  shows "ld_row x = ld_row d"
proof -
  obtain i where i: "i < length xs" "x = xs ! i" using assms(4) by (auto simp: in_set_conv_nth)
  have len: "length xs = length ys" using assms(1) by (metis length_map)
  have "ld_id (ys ! i) = ld_id (xs ! i)" "ld_row (ys ! i) = ld_row (xs ! i)"
    using arg_cong [OF assms(1), of "\<lambda>l. l ! i"] arg_cong [OF assms(2), of "\<lambda>l. l ! i"] i len by simp_all
  moreover from this have "ys ! i = d" using distinct_on [OF assms(3), of "ys ! i" d] assms(5,6) i len by simp
  ultimately show ?thesis using i by simp
qed

section \<open>The commit\<close>

definition claimed_row :: "claim_settings \<Rightarrow> caller \<Rightarrow> lite_directive \<Rightarrow> datetime option \<Rightarrow> datetime \<Rightarrow> directive_row \<Rightarrow> bool" where
  "claimed_row se cl d expires now r = (dr_state r = D_IN_PROGRESS \<and> dr_executor r = Some (cl_consumer cl)
     \<and> dr_lease r = dr_lease (ld_row d) + 1 \<and> dr_expires r = Some (claim_deadline se expires now)
     \<and> dr_started r = coalesce (dr_started (ld_row d)) (Some now))"

lemma sync_counters_frame [simp]:
  "kd_directives (sync_counters se cl s db) = kd_directives db" "kd_permits (sync_counters se cl s db) = kd_permits db"
  "kd_audit (sync_counters se cl s db) = kd_audit db"
  by (simp_all add: sync_counters_def Let_def)

lemma audit_frame [simp]:
  "kd_directives (audit c a q ds db) = kd_directives db" "kd_permits (audit c a q ds db) = kd_permits db"
  "kd_sessions (audit c a q ds db) = kd_sessions db"
  "kd_audit (audit c a q ds db) = kd_audit db @ [\<lparr>ad_consumer = c, ad_action = a, ad_query = q, ad_decisions = ds\<rparr>]"
  by (simp_all add: audit_def)

lemma reject_claim_Err [simp]: "reject_claim cl i r reason msg db \<noteq> (Ok d, db')"
  by (simp add: reject_claim_def)

lemma claim_row_Some:
  assumes "claim_row cl d claimer lease deadline now x = Some x'"
  shows "ld_id x = ld_id d \<and> dr_state (ld_row x) = D_PENDING \<and> dr_lease (ld_row x) = dr_lease (ld_row d)
    \<and> ld_permit x' = ld_permit x \<and> dr_state (ld_row x') = D_IN_PROGRESS \<and> dr_executor (ld_row x') = Some (cl_consumer cl)
    \<and> dr_lease (ld_row x') = lease \<and> dr_expires (ld_row x') = Some deadline
    \<and> dr_started (ld_row x') = coalesce (dr_started (ld_row x)) (Some now)"
  using assms by (auto simp: claim_row_def claim_update_def split: if_split_asm)


lemma claim_row_id: "claim_row cl d claimer lease deadline now x = Some x' \<Longrightarrow> ld_id x' = ld_id x"
  by (auto simp: claim_row_def split: if_split_asm)

lemma commit_claim_Ok:
  assumes ok: "commit_claim se cl rq d decision expires now db0 db = (Ok d', db')" and ids: "distinct (map ld_id (kd_directives db))"
  obtains x claimer where "x \<in> set (kd_directives db)" "d' \<in> set (kd_directives db')"
    "claim_row cl d claimer (td_next_lease decision) (claim_deadline se expires now) now x = Some d'"
    "\<forall>y \<in> set (kd_directives db). ld_id y \<noteq> ld_id d \<longrightarrow> y \<in> set (kd_directives db')"
    "kd_permits db' = kd_permits db" "\<exists>a. kd_audit db' = kd_audit db @ [a] \<and> ad_action a = td_audited_as decision"
proof -
  let ?claimer = "case text_or_none (cq_claimed_by rq) of Some s \<Rightarrow> s | None \<Rightarrow> cl_user cl"
  let ?upd = "claim_row cl d ?claimer (td_next_lease decision) (claim_deadline se expires now) now"
  let ?f = "\<lambda>x. case ?upd x of Some x' \<Rightarrow> x' | None \<Rightarrow> x"
  let ?db1 = "sync_counters se cl (cq_session rq) (db\<lparr>kd_directives := map ?f (kd_directives db)\<rparr>)"
  have one: "length (filter (\<lambda>x. ?upd x \<noteq> None) (kd_directives db)) = 1"
    using ok by (auto simp: commit_claim_def Let_def split: if_split_asm)
  have ok1: "(case find (\<lambda>x. ld_id x = ld_id d) (kd_directives ?db1) of None \<Rightarrow> (Err NoPendingDirective, ?db1)
      | Some claimed \<Rightarrow> (Ok claimed, audit (cl_consumer cl) (td_audited_as decision)
          [(''directive_id'', PStr (ld_id d)), (''lease_generation'', PInt (td_next_lease decision)),
           (''claimed_executor'', PStr (cl_consumer cl)), (''claimed_by'', PStr ?claimer)]
          [(''reason'', PStr ''ok''), (''policy_revision'', PStr SCOPE_POLICY_REVISION)] ?db1)) = (Ok d', db')"
    using ok one by (simp add: commit_claim_def Let_def)
  then have found: "find (\<lambda>x. ld_id x = ld_id d) (map ?f (kd_directives db)) = Some d'"
    and db': "kd_directives db' = map ?f (kd_directives db)" "kd_permits db' = kd_permits db"
      "\<exists>a. kd_audit db' = kd_audit db @ [a] \<and> ad_action a = td_audited_as decision"
    by (auto split: option.splits)
  from one have "filter (\<lambda>x. ?upd x \<noteq> None) (kd_directives db) \<noteq> []" by force
  then obtain x x' where x: "x \<in> set (kd_directives db)" "?upd x = Some x'" unfolding filter_empty_conv by blast
  note r = claim_row_Some [OF x(2)]
  have keep: "ld_id (?f y) = ld_id y" for y by (cases "?upd y") (simp_all add: claim_row_id)
  have in_f: "d' \<in> set (map ?f (kd_directives db))" "ld_id d' = ld_id d" using find_in [OF found] by blast+
  then obtain y where y: "y \<in> set (kd_directives db)" "d' = ?f y" unfolding set_map by (elim imageE)
  have "ld_id y = ld_id x" using y(2) in_f(2) keep [of y] r by simp
  with distinct_on [OF ids y(1) x(1)] have "y = x" by simp
  then have d': "d' = x'" using y(2) x(2) by simp
  show thesis
  proof (rule that [OF x(1) _ _ _ db'(2,3)])
    show "d' \<in> set (kd_directives db')" unfolding db'(1) by (rule in_f(1))
    show "claim_row cl d ?claimer (td_next_lease decision) (claim_deadline se expires now) now x = Some d'" using x(2) d' by simp
    show "\<forall>y \<in> set (kd_directives db). ld_id y \<noteq> ld_id d \<longrightarrow> y \<in> set (kd_directives db')"
    proof (intro ballI impI)
      fix y assume y: "y \<in> set (kd_directives db)" "ld_id y \<noteq> ld_id d"
      then have "?f y = y" by (simp add: claim_row_def)
      moreover have "?f y \<in> set (map ?f (kd_directives db))" using y(1) unfolding set_map by (rule imageI)
      ultimately show "y \<in> set (kd_directives db')" unfolding db'(1) by simp
    qed
  qed
qed


section \<open>The whole handler\<close>

text \<open>A claim of a pending directive that succeeds, taken apart.\<close>

lemma claim_execution_Ok:
  assumes ok: "claim_execution paused se cdb cl rq now db = (Ok d', db')" and target: "claim_target cl rq db = Some d"
    and pending: "dr_state (ld_row d) = D_PENDING"
  obtains charter why expires db1 where "\<not> paused" "load_active_charter cdb (cl_workspace cl) (cl_user cl) now = Ok charter"
    "require_charter_for_action charter (ld_kind d) (cs_charter_enforced se) now = Ok ()"
    "claim_permit se charter cl rq d now db = Ok ((True, why), expires, db1)"
    "td_allowed (validate_transition (request_of (ld_row d) D_IN_PROGRESS (cl_consumer cl) None True False))"
    "commit_claim se cl rq d (validate_transition (request_of (ld_row d) D_IN_PROGRESS (cl_consumer cl) None True False)) expires now db db1
      = (Ok d', db')"
proof -
  have "D_PENDING \<notin> set TERMINAL_STATES" by (simp add: TERMINAL_STATES_def)
  then obtain charter u where c: "\<not> paused" "load_active_charter cdb (cl_workspace cl) (cl_user cl) now = Ok charter"
    "require_charter_for_action charter (ld_kind d) (cs_charter_enforced se) now = Ok u"
    and p: "claim_pending se charter cl rq d now db = (Ok d', db')"
    using ok target pending
    by (auto simp: claim_execution_def split: if_split_asm sum.splits charter_required.splits)
  obtain holds why expires db1 where cp: "claim_permit se charter cl rq d now db = Ok ((holds, why), expires, db1)"
    using p by (auto simp: claim_pending_def split: sum.splits)
  let ?v = "validate_transition (request_of (ld_row d) D_IN_PROGRESS (cl_consumer cl) None holds False)"
  have v: "td_allowed ?v" and commit: "commit_claim se cl rq d ?v expires now db db1 = (Ok d', db')"
    using p cp by (auto simp: claim_pending_def Let_def split: if_split_asm)
  have "holds" using claim_transition(1) [OF v pending] .
  with c cp v commit show thesis by (intro that) simp_all
qed

section \<open>Refusals\<close>

text \<open>A commit is refused only by \<^const>\<open>reject_claim\<close>, on the tables as they were before the permit was attached.\<close>

lemma commit_claim_Err:
  assumes err: "commit_claim se cl rq d decision expires now db0 db = (Err e, db')"
  obtains row reason msg where "reject_claim cl (ld_id d) row reason msg db0 = (Err e, db')"
proof -
  let ?claimer = "case text_or_none (cq_claimed_by rq) of Some s \<Rightarrow> s | None \<Rightarrow> cl_user cl"
  let ?upd = "claim_row cl d ?claimer (td_next_lease decision) (claim_deadline se expires now) now"
  let ?f = "\<lambda>x. case ?upd x of Some x' \<Rightarrow> x' | None \<Rightarrow> x"
  show thesis
  proof (cases "length (filter (\<lambda>x. ?upd x \<noteq> None) (kd_directives db)) = 1")
    case False
    then show thesis using err that by (auto simp: commit_claim_def Let_def split: if_split_asm)
  next
    case True
    then have "filter (\<lambda>x. ?upd x \<noteq> None) (kd_directives db) \<noteq> []" by force
    then obtain x x' where x: "x \<in> set (kd_directives db)" "?upd x = Some x'" unfolding filter_empty_conv by blast
    have "ld_id (?f x) = ld_id d" using x(2) claim_row_Some [OF x(2)] claim_row_id [OF x(2)] by simp
    moreover have "?f x \<in> set (map ?f (kd_directives db))" using x(1) unfolding set_map by (rule imageI)
    ultimately have "find (\<lambda>x. ld_id x = ld_id d) (map ?f (kd_directives db)) \<noteq> None" by (auto simp: find_None_iff)
    with True err show thesis by (auto simp: commit_claim_def Let_def split: option.splits)
  qed
qed

text \<open>What is on record of a refusal.\<close>

definition refusal_recorded :: "caller \<Rightarrow> claim_fault \<Rightarrow> claim_db \<Rightarrow> claim_db \<Rightarrow> bool" where
  "refusal_recorded cl e db db' = (case e of
     Rejected reason _ _ _ _ \<Rightarrow> \<exists>a. kd_audit db' = kd_audit db @ [a] \<and> ad_action a = ''directive_claim_rejected''
       \<and> ad_consumer a = cl_consumer cl \<and> py_get (ad_query a) ''reason'' = PStr reason
   | NoActiveCharter _ reason \<Rightarrow> \<exists>a. kd_audit db' = kd_audit db @ [a] \<and> ad_action a = ''claim_refused_no_charter''
       \<and> ad_consumer a = cl_consumer cl \<and> py_get (ad_decisions a) ''reason'' = PStr reason
   | _ \<Rightarrow> kd_audit db' = kd_audit db)"

lemma reject_claim_recorded:
  assumes "reject_claim cl i row reason msg db = (Err e, db')"
  shows "kd_directives db' = kd_directives db \<and> kd_permits db' = kd_permits db \<and> kd_sessions db' = kd_sessions db
    \<and> refusal_recorded cl e db db'"
  using assms by (auto simp: reject_claim_def refusal_recorded_def py_get_def)

lemma claim_permit_Err:
  "claim_permit se charter cl rq d now db = Err e \<Longrightarrow> e \<in> {NoPermitAttached, PermitNotApproved}"
  by (auto simp: claim_permit_def attach_permit_def res_bind_def split: if_split_asm option.splits sum.splits)

lemma claim_pending_Err:
  assumes err: "claim_pending se charter cl rq d now db = (Err e, db')"
  shows "kd_directives db' = kd_directives db \<and> kd_permits db' = kd_permits db \<and> kd_sessions db' = kd_sessions db
    \<and> refusal_recorded cl e db db'"
proof (cases "claim_permit se charter cl rq d now db")
  case (Inl f)
  then show ?thesis using err claim_permit_Err [OF Inl] by (auto simp: claim_pending_def refusal_recorded_def)
next
  case (Inr r)
  obtain holds why expires db1 where r: "r = ((holds, why), expires, db1)" by (metis prod.exhaust)
  let ?v = "validate_transition (request_of (ld_row d) D_IN_PROGRESS (cl_consumer cl) None holds False)"
  show ?thesis
  proof (cases "td_allowed ?v")
    case True
    then have "commit_claim se cl rq d ?v expires now db db1 = (Err e, db')" using err by (simp add: claim_pending_def Inr r Let_def)
    then show ?thesis by (rule commit_claim_Err) (rule reject_claim_recorded)
  next
    case False
    then show ?thesis using err
      by (cases "td_reason ?v = TR_PERMIT_INVALID") (simp_all add: claim_pending_def Inr r Let_def reject_claim_recorded)
  qed
qed

lemma claim_execution_Err:
  assumes err: "claim_execution paused se cdb cl rq now db = (Err e, db')"
  shows "kd_directives db' = kd_directives db \<and> kd_permits db' = kd_permits db \<and> kd_sessions db' = kd_sessions db
    \<and> refusal_recorded cl e db db'"
proof (cases "\<exists>d charter u. \<not> paused \<and> claim_target cl rq db = Some d \<and> load_active_charter cdb (cl_workspace cl) (cl_user cl) now = Ok charter
    \<and> require_charter_for_action charter (ld_kind d) (cs_charter_enforced se) now = Ok u")
  case False
  then show ?thesis using err
    by (auto simp: claim_execution_def refusal_recorded_def py_get_def split: if_split_asm option.splits sum.splits charter_required.splits)
next
  case True
  then obtain d charter u where c: "\<not> paused" "claim_target cl rq db = Some d"
    "load_active_charter cdb (cl_workspace cl) (cl_user cl) now = Ok charter"
    "require_charter_for_action charter (ld_kind d) (cs_charter_enforced se) now = Ok u" by blast
  let ?again = "validate_transition (request_of (ld_row d) D_IN_PROGRESS (cl_consumer cl) None True False)"
  consider "reject_claim cl (ld_id d) (ld_row d) (transition_reason_str (td_reason ?again)) (td_message ?again) db = (Err e, db')"
    | "claim_pending se charter cl rq d now db = (Err e, db')"
    using err c by (simp add: claim_execution_def Let_def split: if_split_asm)
  then show ?thesis by cases (rule reject_claim_recorded claim_pending_Err; assumption)+
qed

section \<open>Properties\<close>

text \<open>
  C29. What a claim rests on and what it writes (store.py, claim_execution): when a pending directive is claimed, the
  capture channel is not paused, a mutating action under enforcement has an active charter, and a directive that
  needs a permit has one attached that is granted, unexpired, free of another user, directive, objective or
  superseded charter.  The row becomes the caller's with the lease one higher and a deadline no later than the permit's;
  other directives stay as they are, and one audit entry is added.
\<close>

theorem claims_are_authorised:
  assumes ok: "claim_execution paused se cdb cl rq now db = (Ok d', db')" and target: "claim_target cl rq db = Some d"
    and pending: "dr_state (ld_row d) = D_PENDING" and ids: "distinct (map ld_id (kd_directives db))"
    and row: "d \<in> set (kd_directives db)"
  shows "\<not> paused \<and> d' \<in> set (kd_directives db') \<and> ld_id d' = ld_id d
    \<and> (\<exists>charter expires. load_active_charter cdb (cl_workspace cl) (cl_user cl) now = Ok charter
        \<and> require_charter_for_action charter (ld_kind d) (cs_charter_enforced se) now = Ok ()
        \<and> claimed_row se cl d expires now (ld_row d')
        \<and> (ld_requires d \<longrightarrow> (\<exists>p \<in> set (kd_permits db'). text_or_none (ld_permit d') = or_none (ep_id p)
             \<and> permit_holds charter d now p \<and> expires = ep_expires p)))
    \<and> (\<forall>x \<in> set (kd_directives db). ld_id x \<noteq> ld_id d \<longrightarrow> x \<in> set (kd_directives db'))
    \<and> (\<exists>a. kd_audit db' = kd_audit db @ [a] \<and> ad_action a = ''directive_claimed'')"
proof -
  obtain charter why expires db1 where np: "\<not> paused" and load: "load_active_charter cdb (cl_workspace cl) (cl_user cl) now = Ok charter"
    and gate: "require_charter_for_action charter (ld_kind d) (cs_charter_enforced se) now = Ok ()"
    and cp: "claim_permit se charter cl rq d now db = Ok ((True, why), expires, db1)"
    and v: "td_allowed (validate_transition (request_of (ld_row d) D_IN_PROGRESS (cl_consumer cl) None True False))"
    and commit: "commit_claim se cl rq d (validate_transition (request_of (ld_row d) D_IN_PROGRESS (cl_consumer cl) None True False)) expires now db db1
      = (Ok d', db')"
    by (rule claim_execution_Ok [OF ok target pending])
  note cpo = claim_permit_Ok [OF cp row] and lease = claim_transition(2,3) [OF v pending]
  have ids1: "distinct (map ld_id (kd_directives db1))" using cpo ids by simp
  obtain x claimer where x: "x \<in> set (kd_directives db1)" and d': "d' \<in> set (kd_directives db')"
    and cr: "claim_row cl d claimer (dr_lease (ld_row d) + 1) (claim_deadline se expires now) now x = Some d'"
    and others: "\<forall>y \<in> set (kd_directives db1). ld_id y \<noteq> ld_id d \<longrightarrow> y \<in> set (kd_directives db')"
    and permits: "kd_permits db' = kd_permits db1" and aud: "\<exists>a. kd_audit db' = kd_audit db1 @ [a] \<and> ad_action a = ''directive_claimed''"
    by (rule commit_claim_Ok [OF commit ids1, unfolded lease])
  note r = claim_row_Some [OF cr]
  have ld: "ld_row x = ld_row d" using cpo ids x row r by (intro same_rows [of "kd_directives db1" "kd_directives db"]) simp_all
  have same: "y = x" if "y \<in> set (kd_directives db1)" "ld_id y = ld_id d" for y
    using distinct_on [OF ids1 that(1) x] that(2) r by simp
  have id: "ld_id d' = ld_id d" "ld_permit d' = ld_permit x" using claim_row_id [OF cr] r by simp_all
  have "claimed_row se cl d expires now (ld_row d')" using r by (simp add: claimed_row_def ld)
  moreover have "\<exists>p \<in> set (kd_permits db'). text_or_none (ld_permit d') = or_none (ep_id p)
      \<and> permit_holds charter d now p \<and> expires = ep_expires p" if need: "ld_requires d"
  proof -
    from cpo need obtain p y where p: "p \<in> set (kd_permits db1)" "permit_holds charter d now p" "expires = ep_expires p"
      and y: "y \<in> set (kd_directives db1)" "ld_id y = ld_id d" "text_or_none (ld_permit y) = or_none (ep_id p)" by blast
    with same [OF y(1,2)] id(2) permits show ?thesis by (intro bexI [of _ p]) simp_all
  qed
  moreover have "\<forall>x \<in> set (kd_directives db). ld_id x \<noteq> ld_id d \<longrightarrow> x \<in> set (kd_directives db')" using cpo others by blast
  moreover have "\<exists>a. kd_audit db' = kd_audit db @ [a] \<and> ad_action a = ''directive_claimed''" using aud cpo by simp
  ultimately show ?thesis using np load gate d' id(1) by blast
qed


text \<open>A claim with a permit that was granted for something else: an operator reads a file, an agent commits.\<close>

definition read_request :: permit_request where
  "read_request = \<lparr>pr_session = ''S'', pr_kind = ''read'', pr_paths = [''src/a''], pr_preview = None, pr_lines = 0, pr_directive = None,
     pr_attempt = None, pr_objective = None\<rparr>"

definition read_permit :: permit where
  "read_permit = new_permit ''p'' agent read_request (PD_ALLOW, ''low-risk action allowed'') None None (Aware 30000000 0) (Aware 0 0)"

definition commit_directive :: lite_directive where
  "commit_directive = \<lparr>ld_id = ''d'', ld_session = ''S'', ld_workspace = ''W'', ld_user = ''O'', ld_objective = None, ld_kind = ''commit'',
     ld_attempt = 1, ld_requires = True, ld_permit = None, ld_created = Aware 0 0, ld_goal = None, ld_failure = None,
     ld_failure_reason = None, ld_strategy = None, ld_plan = PNone, ld_result = PNone, ld_key = None, ld_hash = None,
     ld_verification = ''unverified'',
     ld_row = \<lparr>dr_state = D_PENDING, dr_claimed_by = None, dr_executor = None, dr_lease = 0, dr_lease_expires = None, dr_expires = None,
       dr_started = None, dr_finished = None, dr_cancelled = None, dr_cancel_reason = None\<rparr>\<rparr>"

definition claim_sample :: claim_db where
  "claim_sample = \<lparr>kd_directives = [commit_directive], kd_permits = [read_permit], kd_sessions = [], kd_audit = []\<rparr>"

definition claim_sample_settings :: claim_settings where
  "claim_sample_settings = \<lparr>cs_charter_enforced = False, cs_digest_enforced = True, cs_claim_ttl = 60, cs_mode = ''strict_takeover''\<rparr>"

definition claim_sample_request :: claim_request where
  "claim_sample_request = \<lparr>cq_session = ''S'', cq_directive = Some ''d'', cq_claimed_by = None\<rparr>"

lemma commit_directive_simps:
  "ld_id commit_directive = ''d''" "ld_user commit_directive = ''O''" "ld_permit commit_directive = None" "ld_attempt commit_directive = 1"
  "ld_requires commit_directive" "dr_state (ld_row commit_directive) = D_PENDING" "ld_objective commit_directive = None"
  "ld_workspace commit_directive = ''W''" "ld_session commit_directive = ''S''"
  by (simp_all add: commit_directive_def)

lemma read_permit_simps:
  "ep_id read_permit = ''p''" "ep_directive read_permit = None" "ep_session read_permit = ''S''" "ep_workspace read_permit = ''W''"
  "ep_expires read_permit = Some (Aware 30000000 0)"
  by (simp_all add: read_permit_def new_permit_def agent_def read_request_def)

lemma read_permit_requested:
  "request_permit (\<lambda>_. Aware 0 0) ''p'' agent read_request HUMAN_SAFE 5 ''confirm'' None no_charters []
    = Ok (permit_reply ''confirm'' ''p'' PD_ALLOW ''low-risk action allowed'' (Some (Aware 30000000 0)), [read_permit])"
proof -
  have "decide_permit HUMAN_SAFE (role_str (cl_role agent)) None (pr_kind read_request) (pr_paths read_request) (pr_preview read_request) (pr_lines read_request)
      = (PD_ALLOW, ''low-risk action allowed'')" by code_simp
  moreover have "load_active_charter no_charters w ow now = Ok None" for w ow now
    by (simp add: load_active_charter_def no_charters_def newest_def)
  moreover have "bound_objective (pr_objective read_request) None = None" by code_simp
  ultimately show ?thesis
    by (simp add: request_permit_def Let_def insert_permit_def read_permit_def ttl_seconds_def dt_plus_seconds_def)
qed

lemma sample_target: "claim_target agent claim_sample_request claim_sample = Some commit_directive"
  by (simp add: claim_target_def claim_sample_request_def claim_sample_def commit_directive_def of_session_def agent_def)

lemma sample_claim:
  "\<exists>d' db'. claim_execution False claim_sample_settings no_charters agent claim_sample_request (Aware 1000000 0) claim_sample = (Ok d', db')
    \<and> ld_kind d' = ''commit'' \<and> kd_permits db' = bind_permit ''d'' 1 ''p'' [read_permit]"
proof -
  let ?now = "Aware 1000000 0"
  have iso: "isoformat ?now < isoformat (Aware 30000000 0)" by code_simp
  have usable: "permit_usable agent claim_sample_request commit_directive ?now read_permit"
    using iso by (simp add: permit_usable_def read_permit_def new_permit_def agent_def read_request_def commit_directive_def claim_sample_request_def)
  let ?d = "commit_directive\<lparr>ld_permit := Some ''p''\<rparr>" and ?ps = "bind_permit ''d'' 1 ''p'' [read_permit]"
  let ?db = "claim_sample\<lparr>kd_directives := [?d], kd_permits := ?ps\<rparr>"
  have "attach_permit agent claim_sample_request commit_directive ?now claim_sample = Ok (''p'', ?db)"
    using usable by (simp add: attach_permit_def latest_by_def claim_sample_def commit_directive_simps read_permit_simps)
  moreover have "check_permit True None commit_directive ?now (read_permit\<lparr>ep_directive := Some ''d'', ep_attempt := Some 1\<rparr>) = (True, ''ok'')"
    by (simp add: check_permit_def claim_check_def permit_binding_ok_def read_permit_def new_permit_def agent_def read_request_def
      commit_directive_def both_differ_def or_none_def permit_scope_digest_def)
  ultimately have cp: "claim_permit claim_sample_settings None agent claim_sample_request commit_directive ?now claim_sample
      = Ok ((True, ''ok''), Some (Aware 30000000 0), ?db)"
    by (simp add: claim_permit_def bind_permit_def claim_sample_settings_def commit_directive_simps read_permit_simps
      claim_sample_request_def agent_def)
  let ?v = "validate_transition (request_of (ld_row commit_directive) D_IN_PROGRESS ''codex'' None True False)"
  have v: "td_allowed ?v" "td_next_lease ?v = 1" by code_simp+
  have "\<exists>d' db'. commit_claim claim_sample_settings agent claim_sample_request commit_directive ?v (Some (Aware 30000000 0)) ?now claim_sample ?db
      = (Ok d', db') \<and> ld_kind d' = ''commit'' \<and> kd_permits db' = ?ps"
    by (simp add: commit_claim_def Let_def v claim_row_def claim_update_def) (simp add: commit_directive_def agent_def)
  moreover have "load_active_charter no_charters w ow ?now = Ok None" for w ow
    by (simp add: load_active_charter_def no_charters_def newest_def)
  moreover have "dr_state (ld_row commit_directive) = D_PENDING" "ld_requires commit_directive" "cl_consumer agent = ''codex''"
    by (simp_all add: commit_directive_simps agent_def)
  moreover have "\<not> cs_charter_enforced claim_sample_settings" by (simp add: claim_sample_settings_def)
  moreover have "D_PENDING \<notin> set TERMINAL_STATES" by (simp add: TERMINAL_STATES_def)
  ultimately show ?thesis using cp v(1)
    by (simp add: claim_execution_def sample_target claim_pending_def require_charter_for_action_def)
qed


theorem claims_are_authorised_witness:
  "\<exists>d' db'. claim_execution False claim_sample_settings no_charters agent claim_sample_request (Aware 1000000 0) claim_sample = (Ok d', db')
    \<and> ld_kind d' = ''commit'' \<and> ep_kind read_permit = ''read''
    \<and> (\<exists>p \<in> set (kd_permits db'). text_or_none (ld_permit d') = or_none (ep_id p) \<and> permit_holds None commit_directive (Aware 1000000 0) p)"
proof -
  obtain d' db' where run: "claim_execution False claim_sample_settings no_charters agent claim_sample_request (Aware 1000000 0) claim_sample = (Ok d', db')"
    and kind: "ld_kind d' = ''commit''" using sample_claim by blast
  have "distinct (map ld_id (kd_directives claim_sample))" "commit_directive \<in> set (kd_directives claim_sample)"
    by (simp_all add: claim_sample_def)
  note auth = claims_are_authorised [OF run sample_target commit_directive_simps(6) this]
  have none: "load_active_charter no_charters w ow now = Ok c \<longleftrightarrow> c = None" for w ow now c
    by (auto simp: load_active_charter_def no_charters_def newest_def)
  have "ep_kind read_permit = ''read''" by (simp add: read_permit_def new_permit_def read_request_def)
  with auth run kind show ?thesis unfolding none using commit_directive_simps(5) by auto
qed

text \<open>
  C30. A refused claim leaves the tables alone (store.py, claim_execution): whatever the error, the directives, the
  permits and the session are what they were, a permit that was attached on the way included.  A transition that is
  refused, for its state, its holder or a permit that does not bind, and a refusal for want of a charter each leave
  exactly one new audit entry, with their reason; every other refusal leaves none: a paused channel, no directive to
  claim, a charter that cannot be read or compared, no permit to attach, and a permit that is not in the table.
\<close>

theorem refused_claims_leave_the_tables:
  assumes "claim_execution paused se cdb cl rq now db = (Err e, db')"
  shows "kd_directives db' = kd_directives db \<and> kd_permits db' = kd_permits db \<and> kd_sessions db' = kd_sessions db
    \<and> (case e of
         Rejected reason _ _ _ _ \<Rightarrow> \<exists>a. kd_audit db' = kd_audit db @ [a] \<and> ad_action a = ''directive_claim_rejected''
           \<and> ad_consumer a = cl_consumer cl \<and> py_get (ad_query a) ''reason'' = PStr reason
       | NoActiveCharter _ reason \<Rightarrow> \<exists>a. kd_audit db' = kd_audit db @ [a] \<and> ad_action a = ''claim_refused_no_charter''
           \<and> ad_consumer a = cl_consumer cl \<and> py_get (ad_decisions a) ''reason'' = PStr reason
       | _ \<Rightarrow> kd_audit db' = kd_audit db)"
  using claim_execution_Err [OF assms] by (simp add: refusal_recorded_def)

text \<open>Enforcement without a charter: the commit is refused, and the refusal is on record.\<close>

theorem refused_claims_leave_the_tables_witness:
  "\<exists>db'. claim_execution False (claim_sample_settings\<lparr>cs_charter_enforced := True\<rparr>) no_charters agent claim_sample_request (Aware 1000000 0)
      claim_sample = (Err (NoActiveCharter ''commit'' ''no_active_charter''), db')
    \<and> kd_directives db' = [commit_directive] \<and> kd_permits db' = [read_permit]
    \<and> (\<exists>a. kd_audit db' = [a] \<and> ad_action a = ''claim_refused_no_charter'')"
proof -
  have "load_active_charter no_charters w ow now = Ok None" for w ow now
    by (simp add: load_active_charter_def no_charters_def newest_def)
  moreover have "require_charter_for_action None (ld_kind commit_directive) True now = Err (CharterRequired ''commit'' ''no_active_charter'')" for now
    by (simp add: require_charter_for_action_def commit_directive_def) code_simp
  ultimately obtain db' where run: "claim_execution False (claim_sample_settings\<lparr>cs_charter_enforced := True\<rparr>) no_charters agent claim_sample_request
      (Aware 1000000 0) claim_sample = (Err (NoActiveCharter ''commit'' ''no_active_charter''), db')"
    by (simp add: claim_execution_def sample_target)
  have "kd_directives claim_sample = [commit_directive]" "kd_permits claim_sample = [read_permit]" "kd_audit claim_sample = []"
    by (simp_all add: claim_sample_def)
  with refused_claims_leave_the_tables [OF run] run show ?thesis by auto
qed

end
