(* ===== verification/Outbox_Facts.thy ===== *)
theory Outbox_Facts
  imports Outbox
begin

text \<open>The outbox over time: what a run of enqueues, deliveries, failures and requeues keeps, and what a drain achieves.\<close>

section \<open>Runs\<close>

text \<open>
  Every statement of Lite on the outbox and on the hand-off records is one of these steps (\<open>_persist_handoff_record_lite\<close>
  has no caller).  An attempt acts on the row it read, in an earlier state; uuid4 is fresh; \<open>sw\<close> are the moments the
  lifecycle job sweeps, each with its retention.  Other handlers add events and grants and change or delete them.
\<close>

inductive handoff_run :: "text_lib \<Rightarrow> int \<Rightarrow> (datetime \<times> int) set \<Rightarrow> handoff_db \<Rightarrow> handoff_db \<Rightarrow> bool" for lib days sw where
  start: "handoff_run lib days sw a a"
| enqueue: "handoff_run lib days sw a db \<Longrightarrow> enqueue_handoff i event rec now c (hd_outbox db) = Ok (row, rows) \<Longrightarrow>
    i \<notin> ob_id ` set (hd_outbox db) \<Longrightarrow> rec \<notin> ob_record ` set (hd_outbox db) \<Longrightarrow> rec \<notin> hr_id ` set (hd_records db) \<Longrightarrow>
    handoff_run lib days sw a (db\<lparr>hd_outbox := rows\<rparr>)"
| deliver: "handoff_run lib days sw a seen \<Longrightarrow> handoff_run lib days sw seen db \<Longrightarrow>
    find (\<lambda>r. ob_id r = i) (hd_outbox seen) = Some row \<Longrightarrow> ob_status row \<noteq> ''delivered'' \<Longrightarrow> view_milestone lib row = Ok x \<Longrightarrow>
    handoff_run lib days sw a (commit_delivery lib days now row x db)"
| fail: "handoff_run lib days sw a seen \<Longrightarrow> handoff_run lib days sw seen db \<Longrightarrow>
    find (\<lambda>r. ob_id r = i) (hd_outbox seen) = Some row \<Longrightarrow>
    handoff_run lib days sw a (db\<lparr>hd_outbox := update_outbox i (failed_row (ob_attempts row + 1) now msg) (hd_outbox db)\<rparr>)"
| requeue: "handoff_run lib days sw a db \<Longrightarrow> handoff_run lib days sw a (db\<lparr>hd_outbox := update_outbox i (requeued_row now) (hd_outbox db)\<rparr>)"
| events: "handoff_run lib days sw a db \<Longrightarrow> handoff_run lib days sw a (db\<lparr>hd_events := es\<rparr>)"
| sweep: "handoff_run lib days sw a db \<Longrightarrow> (now, keep) \<in> sw \<Longrightarrow> handoff_run lib days sw a (delete_expired now keep db)"
| grants: "handoff_run lib days sw a db \<Longrightarrow> handoff_run lib days sw a (db\<lparr>hd_grants := gs\<rparr>)"

lemma handoff_run_trans:
  assumes "handoff_run lib days sw b c" "handoff_run lib days sw a b"
  shows "handoff_run lib days sw a c"
  using assms
proof (induction rule: handoff_run.induct)
  case (enqueue b db i event rec now c row rows)
  show ?case by (rule handoff_run.enqueue [OF enqueue.IH [OF enqueue.prems] enqueue.hyps(2-5)])
next
  case (deliver b seen db i row x now)
  show ?case by (rule handoff_run.deliver [OF deliver.IH(1) [OF deliver.prems] deliver.hyps(2-5)])
next
  case (fail b seen db i row now msg)
  show ?case by (rule handoff_run.fail [OF fail.IH(1) [OF fail.prems] fail.hyps(2,3)])
next
  case (sweep b db now keep)
  show ?case by (rule handoff_run.sweep [OF sweep.IH [OF sweep.prems] sweep.hyps(2)])
qed (simp_all add: handoff_run.requeue handoff_run.events handoff_run.grants)

text \<open>The code's deliveries and requeues are runs, whatever run commits in between.\<close>

lemma deliver_safely_runs:
  assumes others: "handoff_run lib days sw db (others db)"
  shows "handoff_run lib days sw db (snd (deliver_handoff_safely lib days now others te fault i db))"
proof -
  have fails: "handoff_run lib days sw db (snd (case find (\<lambda>r. ob_id r = i) (hd_outbox db1) of
      None \<Rightarrow> (Err e, db1)
    | Some row \<Rightarrow>
        (let db2 = db1\<lparr>hd_outbox := update_outbox i (failed_row (ob_attempts row + 1) now (fault_text te e)) (hd_outbox db1)\<rparr> in
         case find (\<lambda>r. ob_id r = i) (hd_outbox db2) of None \<Rightarrow> (Err e, db2) | Some r \<Rightarrow> (Ok r, db2))))"
    if "handoff_run lib days sw db db1" for db1 and e :: outbox_fault
    using handoff_run.fail [OF that handoff_run.start] that by (auto simp: Let_def split: option.splits)
  note defs = deliver_handoff_safely_def deliver_handoff_def
  show ?thesis
  proof (cases "find (\<lambda>r. ob_id r = i) (hd_outbox db)")
    case None
    then show ?thesis by (simp add: defs handoff_run.start)
  next
    case (Some row)
    show ?thesis
    proof (cases "ob_status row = ''delivered''")
      case True
      then show ?thesis using Some by (simp add: defs handoff_run.start)
    next
      case open_row: False
      show ?thesis
      proof (cases "view_milestone lib row")
        case (Inl e)
        then show ?thesis using Some open_row fails [OF handoff_run.start, of "Unreadable e"] by (simp add: defs)
      next
        case (Inr x)
        show ?thesis
        proof (cases fault)
          case (Some msg)
          then show ?thesis using \<open>find (\<lambda>r. ob_id r = i) (hd_outbox db) = Some row\<close> open_row Inr fails [OF others, of "Failed msg"]
            by (simp add: defs)
        next
          case None
          let ?db' = "commit_delivery lib days now row x (others db)"
          have run: "handoff_run lib days sw db ?db'" using handoff_run.deliver [OF handoff_run.start others Some open_row Inr] .
          show ?thesis
          proof (cases "find (\<lambda>r. ob_id r = i) (hd_outbox ?db')")
            case None
            then show ?thesis using Some open_row Inr \<open>fault = None\<close> fails [OF run, of "Failed ''delivered outbox disappeared''"]
              by (simp add: defs Let_def)
          next
            case (Some r)
            then show ?thesis using \<open>find (\<lambda>r. ob_id r = i) (hd_outbox db) = Some row\<close> open_row Inr \<open>fault = None\<close> run
              by (simp add: defs Let_def)
          qed
        qed
      qed
    qed
  qed
qed

lemma requeue_runs:
  "handoff_run lib days sw db (snd (requeue_dead_handoff w i now db))"
  "handoff_run lib days sw db (snd (full_requeue_dead_handoff i now db))"
  using handoff_run.requeue [OF handoff_run.start, of lib days sw db i now]
  by (auto simp: requeue_dead_handoff_def full_requeue_dead_handoff_def handoff_run.start split: option.splits)

section \<open>What every run keeps\<close>

text \<open>The columns of a row that no statement writes.\<close>

definition frozen :: "outbox_row \<Rightarrow> outbox_row" where
  "frozen r = r\<lparr>ob_status := [], ob_attempts := 0, ob_next := Aware 0 0, ob_error := None, ob_updated := Aware 0 0, ob_delivered := None\<rparr>"

lemma frozen_updates [simp]:
  "frozen (delivered_row now r) = frozen r" "frozen (failed_row n now msg r) = frozen r" "frozen (requeued_row now r) = frozen r"
  by (simp_all add: frozen_def delivered_row_def failed_row_def requeued_row_def)

lemma frozen_reads:
  "ob_id (frozen r) = ob_id r" "ob_record (frozen r) = ob_record r" "outbox_key (frozen r) = outbox_key r"
  "view_milestone lib (frozen r) = view_milestone lib r" "record_of lib days (frozen r) x = record_of lib days r x"
  by (simp_all add: frozen_def outbox_key_def view_milestone_def record_of_def Let_def)

lemma frozen_eq:
  assumes "frozen r = frozen r'"
  shows "ob_id r = ob_id r'" "ob_record r = ob_record r'" "outbox_key r = outbox_key r'"
    "view_milestone lib r = view_milestone lib r'" "record_of lib days r x = record_of lib days r' x"
  by (metis assms frozen_reads(1), metis assms frozen_reads(2), metis assms frozen_reads(3), metis assms frozen_reads(4),
    metis assms frozen_reads(5))

lemma frozen_update_outbox: "(\<And>r. frozen (f r) = frozen r) \<Longrightarrow> map frozen (update_outbox i f rows) = map frozen rows"
  by (simp add: update_outbox_def)

lemma commit_delivery_simps [simp]:
  "hd_outbox (commit_delivery lib days now row x db) = update_outbox (ob_id row) (delivered_row now) (hd_outbox db)"
  "hd_records (commit_delivery lib days now row x db) = insert_record (record_of lib days row x) (hd_records db)"
  by (simp_all add: commit_delivery_def)

lemma record_of_id [simp]: "hr_id (record_of lib days row x) = ob_record row"
  by (simp add: record_of_def Let_def split: prod.split)

text \<open>An enqueue appends the row it made, or changes nothing.\<close>

lemma enqueue_handoff_Ok:
  assumes "enqueue_handoff i event rec now c rows = Ok (row, rows')"
  shows "(rows' = rows \<or> rows' = rows @ [new_outbox_row i event rec now c] \<and> outbox_key (new_outbox_row i event rec now c) \<notin> outbox_key ` set rows)
    \<and> row \<in> set rows' \<and> outbox_key row = outbox_key (new_outbox_row i event rec now c)
    \<and> (ob_hash row = None \<or> co_hash c = None \<or> ob_hash row = co_hash c)"
proof -
  let ?new = "new_outbox_row i event rec now c"
  have rows': "rows' = (if list_ex (\<lambda>r. ob_id r = i \<or> outbox_key r = outbox_key ?new) rows then rows else rows @ [?new])"
    and found: "find (\<lambda>r. outbox_key r = outbox_key ?new) rows' = Some row"
    and hash: "ob_hash row = None \<or> co_hash c = None \<or> ob_hash row = co_hash c"
    using assms by (auto simp: enqueue_handoff_def Let_def split: option.splits if_split_asm)
  have "row \<in> set rows'" "outbox_key row = outbox_key ?new" using find_in [OF found] by blast+
  with rows' hash show ?thesis by (auto simp: list_ex_iff)
qed

text \<open>Rows stay where they are with their frozen columns; a record stays until a sweep finds it expired.\<close>

definition swept :: "(datetime \<times> int) set \<Rightarrow> handoff_row \<Rightarrow> bool" where
  "swept sw h = (\<exists>(now, keep) \<in> sw. expired_record now keep h)"

lemma swept_none [simp]: "\<not> swept {} h"
  by (simp add: swept_def)

definition grown :: "(datetime \<times> int) set \<Rightarrow> handoff_db \<Rightarrow> handoff_db \<Rightarrow> bool" where
  "grown sw a b = ((\<exists>rs. map frozen (hd_outbox b) = map frozen (hd_outbox a) @ rs)
     \<and> (\<forall>h \<in> set (hd_records a). h \<in> set (hd_records b) \<or> swept sw h)
     \<and> (sw = {} \<longrightarrow> (\<exists>hs. hd_records b = hd_records a @ hs)))"

lemma grownI:
  assumes "grown sw a b" "map frozen (hd_outbox c) = map frozen (hd_outbox b) @ rs" "hd_records c = hd_records b @ hs"
  shows "grown sw a c"
  using assms by (auto simp: grown_def)

lemma handoffs_grown_trans:
  assumes "grown sw a b" "grown sw b c"
  shows "grown sw a c"
  using assms unfolding grown_def by (metis append.assoc)

lemma grown_sweep:
  assumes "grown sw a b" "(now, keep) \<in> sw"
  shows "grown sw a (delete_expired now keep b)"
  using assms by (auto simp: grown_def delete_expired_def swept_def)

lemma insert_record_grows: "\<exists>hs. insert_record h hs0 = hs0 @ hs"
  by (simp add: insert_record_def)

lemma handoff_run_grows: "handoff_run lib days sw a b \<Longrightarrow> grown sw a b"
proof (induction rule: handoff_run.induct)
  case (start a)
  then show ?case by (simp add: grown_def)
next
  case (enqueue a db i event rec now c row rows)
  have "\<exists>rs. rows = hd_outbox db @ rs" using enqueue_handoff_Ok [OF enqueue.hyps(2)] by auto
  then obtain rs where "rows = hd_outbox db @ rs" ..
  then show ?case by - (rule grownI [OF enqueue.IH, of _ "map frozen rs" "[]"], simp_all)
next
  case (deliver a seen db i row x now)
  obtain hs where "insert_record (record_of lib days row x) (hd_records db) = hd_records db @ hs" using insert_record_grows by blast
  then show ?case
    by - (rule grownI [OF handoffs_grown_trans [OF deliver.IH], of _ "[]" hs], simp_all add: frozen_update_outbox)
next
  case (fail a seen db i row now msg)
  show ?case by (rule grownI [OF handoffs_grown_trans [OF fail.IH], of _ "[]" "[]"]) (simp_all add: frozen_update_outbox)
next
  case (requeue a db i now)
  then show ?case by - (rule grownI [of sw a db _ "[]" "[]"], simp_all add: frozen_update_outbox)
next
  case (events a db es)
  then show ?case by - (rule grownI [of sw a db _ "[]" "[]"], simp_all)
next
  case (sweep a db now keep)
  then show ?case by (intro grown_sweep)
next
  case (grants a db gs)
  then show ?case by - (rule grownI [of sw a db _ "[]" "[]"], simp_all)
qed

lemma row_seen:
  assumes "handoff_run lib days sw seen db" "row \<in> set (hd_outbox seen)"
  shows "\<exists>r \<in> set (hd_outbox db). frozen r = frozen row"
proof -
  obtain rs where "map frozen (hd_outbox db) = map frozen (hd_outbox seen) @ rs"
    using handoff_run_grows [OF assms(1)] by (auto simp: grown_def)
  then have "frozen row \<in> set (map frozen (hd_outbox db))" using assms(2) by auto
  then show ?thesis by auto
qed

lemma frozen_columns:
  "map ob_id rows = map ob_id (map frozen rows)" "map outbox_key rows = map outbox_key (map frozen rows)"
  "map ob_record rows = map ob_record (map frozen rows)"
  by (simp_all add: comp_def frozen_reads)

text \<open>The record of a row is there, or it was made and a sweep found it expired.\<close>

definition accounted :: "text_lib \<Rightarrow> int \<Rightarrow> (datetime \<times> int) set \<Rightarrow> handoff_row list \<Rightarrow> outbox_row \<Rightarrow> bool" where
  "accounted lib days sw hs r =
     (ob_record r \<in> hr_id ` set hs \<or> (\<exists>x. view_milestone lib r = Ok x \<and> swept sw (record_of lib days r x)))"

lemma accounted_frozen: "frozen r = frozen r' \<Longrightarrow> accounted lib days sw hs r = accounted lib days sw hs r'"
  using frozen_eq(2,4,5) [of r r'] by (simp add: accounted_def)

lemma accounted_mono: "accounted lib days sw hs r \<Longrightarrow> hr_id ` set hs \<subseteq> hr_id ` set hs' \<Longrightarrow> accounted lib days sw hs' r"
  by (auto simp: accounted_def)

definition outbox_ok :: "text_lib \<Rightarrow> int \<Rightarrow> (datetime \<times> int) set \<Rightarrow> handoff_db \<Rightarrow> bool" where
  "outbox_ok lib days sw db =
     (distinct (map ob_id (hd_outbox db)) \<and> distinct (map outbox_key (hd_outbox db)) \<and> distinct (map ob_record (hd_outbox db))
      \<and> distinct (map hr_id (hd_records db))
      \<and> (\<forall>h \<in> set (hd_records db). \<exists>r \<in> set (hd_outbox db). \<exists>x. view_milestone lib r = Ok x \<and> h = record_of lib days r x)
      \<and> (\<forall>r \<in> set (hd_outbox db). (ob_status r = ''delivered'' \<longrightarrow> accounted lib days sw (hd_records db) r)
           \<and> (ob_status r = ''pending'' \<longrightarrow> ob_attempts r < 10) \<and> ob_status r \<in> {''pending'', ''delivered'', ''dead''}))"

text \<open>Updates in place that freeze the columns and keep the state of each row.\<close>

lemma outbox_ok_update:
  assumes ok: "outbox_ok lib days sw db" and rows: "map frozen (hd_outbox db') = map frozen (hd_outbox db)"
    and recs: "hd_records db' = hd_records db"
    and state: "\<forall>r \<in> set (hd_outbox db'). (ob_status r = ''delivered'' \<longrightarrow> accounted lib days sw (hd_records db) r)
           \<and> (ob_status r = ''pending'' \<longrightarrow> ob_attempts r < 10) \<and> ob_status r \<in> {''pending'', ''delivered'', ''dead''}"
  shows "outbox_ok lib days sw db'"
proof -
  have f: "\<exists>r' \<in> set (hd_outbox db'). frozen r' = frozen r" if "r \<in> set (hd_outbox db)" for r
  proof -
    have "frozen r \<in> set (map frozen (hd_outbox db'))" using that rows by simp
    then show ?thesis by auto
  qed
  have cols: "map ob_id (hd_outbox db') = map ob_id (hd_outbox db)" "map outbox_key (hd_outbox db') = map outbox_key (hd_outbox db)"
    "map ob_record (hd_outbox db') = map ob_record (hd_outbox db)"
    unfolding frozen_columns [of "hd_outbox db'"] frozen_columns [of "hd_outbox db"] rows by (rule refl)+
  have "\<exists>r \<in> set (hd_outbox db'). \<exists>x. view_milestone lib r = Ok x \<and> h = record_of lib days r x" if h: "h \<in> set (hd_records db)" for h
  proof -
    obtain r x where r: "r \<in> set (hd_outbox db)" "view_milestone lib r = Ok x" "h = record_of lib days r x"
      using ok h by (auto simp: outbox_ok_def)
    obtain r' where "r' \<in> set (hd_outbox db')" "frozen r' = frozen r" using f [OF r(1)] by blast
    with r(2,3) frozen_eq(4,5) [of r' r] show ?thesis by (intro bexI [of _ r'] exI [of _ x]) simp_all
  qed
  then show ?thesis using ok state unfolding outbox_ok_def cols recs by blast
qed

lemma enqueue_keeps:
  assumes ok: "outbox_ok lib days sw db" and enq: "enqueue_handoff i event rec now c (hd_outbox db) = Ok (row, rows)"
    and fresh: "i \<notin> ob_id ` set (hd_outbox db)" "rec \<notin> ob_record ` set (hd_outbox db)"
  shows "outbox_ok lib days sw (db\<lparr>hd_outbox := rows\<rparr>)"
proof (cases "rows = hd_outbox db")
  case True
  then show ?thesis using ok by simp
next
  case False
  let ?new = "new_outbox_row i event rec now c"
  have rows: "rows = hd_outbox db @ [?new]" and key: "outbox_key ?new \<notin> outbox_key ` set (hd_outbox db)"
    using enqueue_handoff_Ok [OF enq] False by auto
  have new: "ob_id ?new = i" "ob_record ?new = rec" "ob_status ?new = ''pending''" "ob_attempts ?new = 0" by (simp_all add: new_outbox_row_def)
  have "\<exists>r \<in> set rows. \<exists>x. view_milestone lib r = Ok x \<and> h = record_of lib days r x" if "h \<in> set (hd_records db)" for h
    using ok that unfolding outbox_ok_def rows set_append by blast
  with ok fresh key new show ?thesis by (simp add: outbox_ok_def rows)
qed

lemma deliver_keeps:
  assumes ok: "outbox_ok lib days sw db" and row: "r0 \<in> set (hd_outbox db)" "frozen r0 = frozen row" and view: "view_milestone lib row = Ok x"
  shows "outbox_ok lib days sw (commit_delivery lib days now row x db)"
proof -
  let ?h = "record_of lib days row x" and ?db1 = "db\<lparr>hd_records := insert_record (record_of lib days row x) (hd_records db)\<rparr>"
  note f = frozen_eq [OF row(2)]
  have recs: "set (insert_record ?h (hd_records db)) \<subseteq> insert ?h (set (hd_records db))"
    "hr_id ` set (insert_record ?h (hd_records db)) = insert (ob_record row) (hr_id ` set (hd_records db))"
    "distinct (map hr_id (insert_record ?h (hd_records db)))"
    using ok by (auto simp: insert_record_def list_ex_iff outbox_ok_def rev_image_eqI)
  have here: "\<exists>r \<in> set (hd_outbox db). \<exists>y. view_milestone lib r = Ok y \<and> ?h = record_of lib days r y"
    using row(1) view f by (intro bexI [of _ r0] exI [of _ x]) simp_all
  have "outbox_ok lib days sw ?db1"
  proof -
    have "\<exists>r \<in> set (hd_outbox db). \<exists>y. view_milestone lib r = Ok y \<and> h = record_of lib days r y"
      if "h \<in> set (insert_record ?h (hd_records db))" for h
      using that recs(1) here ok unfolding outbox_ok_def by blast
    moreover have "accounted lib days sw (hd_records ?db1) r" if "accounted lib days sw (hd_records db) r" for r
      by (rule accounted_mono [OF that]) (use recs(2) in auto)
    ultimately show ?thesis using ok recs(3) unfolding outbox_ok_def by simp
  qed
  moreover have "\<forall>r \<in> set (hd_outbox (commit_delivery lib days now row x db)).
      (ob_status r = ''delivered'' \<longrightarrow> accounted lib days sw (hd_records ?db1) r)
      \<and> (ob_status r = ''pending'' \<longrightarrow> ob_attempts r < 10) \<and> ob_status r \<in> {''pending'', ''delivered'', ''dead''}"
  proof
    fix r assume "r \<in> set (hd_outbox (commit_delivery lib days now row x db))"
    then obtain q where q: "q \<in> set (hd_outbox db)" "r = (if ob_id q = ob_id row then delivered_row now q else q)"
      by (auto simp: update_outbox_def)
    show "(ob_status r = ''delivered'' \<longrightarrow> accounted lib days sw (hd_records ?db1) r)
      \<and> (ob_status r = ''pending'' \<longrightarrow> ob_attempts r < 10) \<and> ob_status r \<in> {''pending'', ''delivered'', ''dead''}"
    proof (cases "ob_id q = ob_id row")
      case True
      have "q = r0" using distinct_on [of ob_id "hd_outbox db" q r0] ok q(1) row(1) True f(1) by (simp add: outbox_ok_def)
      then have "ob_record q = ob_record row" using f(2) by simp
      then show ?thesis using q(2) True recs(2) by (simp add: delivered_row_def accounted_def)
    next
      case False
      have "accounted lib days sw (hd_records ?db1) q" if "accounted lib days sw (hd_records db) q"
        by (rule accounted_mono [OF that]) (use recs(2) in auto)
      then show ?thesis using False q ok by (simp add: outbox_ok_def)
    qed
  qed
  ultimately show ?thesis
    using outbox_ok_update [of lib days sw ?db1 "commit_delivery lib days now row x db"] by (simp add: frozen_update_outbox)
qed

lemma outbox_ok_other [simp]:
  "outbox_ok lib days sw (db\<lparr>hd_events := es\<rparr>) = outbox_ok lib days sw db" "outbox_ok lib days sw (db\<lparr>hd_grants := gs\<rparr>) = outbox_ok lib days sw db"
  by (simp_all add: outbox_ok_def)

lemma fail_keeps: "outbox_ok lib days sw db \<Longrightarrow> outbox_ok lib days sw (db\<lparr>hd_outbox := update_outbox i (failed_row n now msg) (hd_outbox db)\<rparr>)"
  by (rule outbox_ok_update) (auto simp: frozen_update_outbox outbox_ok_def update_outbox_def failed_row_def frozen_def)

lemma requeue_keeps: "outbox_ok lib days sw db \<Longrightarrow> outbox_ok lib days sw (db\<lparr>hd_outbox := update_outbox i (requeued_row now) (hd_outbox db)\<rparr>)"
  by (rule outbox_ok_update) (auto simp: frozen_update_outbox outbox_ok_def update_outbox_def requeued_row_def frozen_def)

lemma sweep_keeps:
  assumes ok: "outbox_ok lib days sw db" and "(now, keep) \<in> sw"
  shows "outbox_ok lib days sw (delete_expired now keep db)"
proof -
  let ?hs = "filter (\<lambda>h. \<not> expired_record now keep h) (hd_records db)"
  have "accounted lib days sw ?hs r" if r: "r \<in> set (hd_outbox db)" and acc: "accounted lib days sw (hd_records db) r" for r
  proof (cases "ob_record r \<in> hr_id ` set (hd_records db) \<and> ob_record r \<notin> hr_id ` set ?hs")
    case True
    then obtain h where h: "h \<in> set (hd_records db)" "hr_id h = ob_record r" by auto
    have gone: "expired_record now keep h"
    proof (rule ccontr)
      assume "\<not> expired_record now keep h"
      then have "h \<in> set ?hs" using h(1) by simp
      then have "hr_id h \<in> hr_id ` set ?hs" by (rule imageI)
      then show False using True h(2) by simp
    qed
    obtain q x where q: "q \<in> set (hd_outbox db)" "view_milestone lib q = Ok x" "h = record_of lib days q x"
      using ok h(1) unfolding outbox_ok_def by blast
    have "distinct (map ob_record (hd_outbox db))" using ok by (simp add: outbox_ok_def)
    from distinct_on [OF this q(1) r] q(3) h(2) have "q = r" by simp
    with q gone assms(2) show ?thesis by (auto simp: accounted_def swept_def)
  next
    case False
    with acc show ?thesis by (auto simp: accounted_def)
  qed
  moreover have "distinct (map hr_id ?hs)" using ok by (simp add: outbox_ok_def distinct_map_filter)
  ultimately show ?thesis using ok by (simp add: outbox_ok_def delete_expired_def)
qed

lemma handoff_run_keeps: "handoff_run lib days sw a b \<Longrightarrow> outbox_ok lib days sw a \<Longrightarrow> outbox_ok lib days sw b"
proof (induction rule: handoff_run.induct)
  case (enqueue a db i event rec now c row rows)
  show ?case by (rule enqueue_keeps [OF enqueue.IH [OF enqueue.prems] enqueue.hyps(2-4)])
next
  case (deliver a seen db i row x now)
  have "row \<in> set (hd_outbox seen)" using find_in [OF deliver.hyps(3)] by blast
  from row_seen [OF deliver.hyps(2) this] obtain r0 where r0: "r0 \<in> set (hd_outbox db)" "frozen r0 = frozen row" by blast
  show ?case by (rule deliver_keeps [OF deliver.IH(2) [OF deliver.IH(1) [OF deliver.prems]] r0 deliver.hyps(5)])
next
  case (fail a seen db i row now msg)
  show ?case by (rule fail_keeps [OF fail.IH(2) [OF fail.IH(1) [OF fail.prems]]])
next
  case (requeue a db i now)
  show ?case by (rule requeue_keeps [OF requeue.IH [OF requeue.prems]])
next
  case (sweep a db now keep)
  show ?case by (rule sweep_keeps [OF sweep.IH [OF sweep.prems] sweep.hyps(2)])
qed simp_all

section \<open>A drain without faults\<close>

definition delivered_in :: "handoff_db \<Rightarrow> pystr \<Rightarrow> bool" where
  "delivered_in db i = (\<exists>r \<in> set (hd_outbox db). ob_id r = i \<and> ob_status r = ''delivered'')"

text \<open>Rows that can be delivered: found by their identifier, with a milestone that can be read.\<close>

definition deliverable :: "text_lib \<Rightarrow> handoff_db \<Rightarrow> pystr \<Rightarrow> bool" where
  "deliverable lib db i = (\<exists>r \<in> set (hd_outbox db). ob_id r = i \<and> (\<exists>x. view_milestone lib r = Ok x))"

lemma deliverable_frozen:
  assumes "map frozen (hd_outbox db') = map frozen (hd_outbox db)" "deliverable lib db i"
  shows "deliverable lib db' i"
proof -
  obtain r x where r: "r \<in> set (hd_outbox db)" "ob_id r = i" "view_milestone lib r = Ok x" using assms(2) by (auto simp: deliverable_def)
  then have "frozen r \<in> set (map frozen (hd_outbox db'))" using assms(1) by simp
  then obtain r' where "r' \<in> set (hd_outbox db')" "frozen r' = frozen r" by auto
  with frozen_eq(1,4) [OF this(2)] r show ?thesis by (auto simp: deliverable_def)
qed

lemma distinct_ids_frozen:
  "map frozen (hd_outbox db') = map frozen (hd_outbox db) \<Longrightarrow> distinct (map ob_id (hd_outbox db')) = distinct (map ob_id (hd_outbox db))"
  by (metis frozen_columns(1))

lemma deliver_clean:
  assumes ids: "distinct (map ob_id (hd_outbox db))" and "deliverable lib db i"
  obtains r db' where "deliver_handoff_safely lib days now (\<lambda>d. d) te None i db = (Ok r, db')" "ob_status r = ''delivered''"
    "delivered_in db' i" "map frozen (hd_outbox db') = map frozen (hd_outbox db)"
    "\<forall>k. delivered_in db k \<longrightarrow> delivered_in db' k"
proof -
  obtain r x where r: "r \<in> set (hd_outbox db)" "ob_id r = i" "view_milestone lib r = Ok x" using assms(2) by (auto simp: deliverable_def)
  have f: "find (\<lambda>q. ob_id q = i) (hd_outbox db) = Some r" using find_unique [OF ids r(1)] r(2) by simp
  show thesis
  proof (cases "ob_status r = ''delivered''")
    case True
    with f have "deliver_handoff_safely lib days now (\<lambda>d. d) te None i db = (Ok r, db)"
      by (simp add: deliver_handoff_safely_def deliver_handoff_def)
    then show thesis using True r by (intro that) (auto simp: delivered_in_def)
  next
    case False
    let ?db' = "commit_delivery lib days now r x db"
    have mem: "delivered_row now r \<in> set (hd_outbox ?db')" using r by (force simp: update_outbox_def)
    have fz: "map frozen (hd_outbox ?db') = map frozen (hd_outbox db)" by (simp add: frozen_update_outbox)
    have "find (\<lambda>q. ob_id q = ob_id (delivered_row now r)) (hd_outbox ?db') = Some (delivered_row now r)"
      using distinct_ids_frozen [OF fz] ids mem by (intro find_unique) simp_all
    then have "find (\<lambda>q. ob_id q = i) (hd_outbox ?db') = Some (delivered_row now r)" using r(2) by (simp add: delivered_row_def)
    then have run: "deliver_handoff_safely lib days now (\<lambda>d. d) te None i db = (Ok (delivered_row now r), ?db')"
      using f False r(3) by (simp add: deliver_handoff_safely_def deliver_handoff_def Let_def)
    have "delivered_in ?db' i" using mem r(2) unfolding delivered_in_def by (intro bexI [OF _ mem]) (simp add: delivered_row_def)
    moreover have "\<forall>k. delivered_in db k \<longrightarrow> delivered_in ?db' k"
    proof (intro allI impI)
      fix k assume "delivered_in db k"
      then obtain q where q: "q \<in> set (hd_outbox db)" "ob_id q = k" "ob_status q = ''delivered''" by (auto simp: delivered_in_def)
      let ?q = "if ob_id q = ob_id r then delivered_row now q else q"
      have "?q \<in> set (hd_outbox ?db')" unfolding commit_delivery_simps update_outbox_def set_map using q(1) by (rule imageI)
      then show "delivered_in ?db' k" unfolding delivered_in_def using q(2,3) by (intro bexI [of _ ?q]) (simp_all add: delivered_row_def)
    qed
    moreover have "ob_status (delivered_row now r) = ''delivered''" by (simp add: delivered_row_def)
    ultimately show thesis using that [OF run _ _ fz] by blast
  qed
qed

lemma drain_clean:
  assumes "distinct (map ob_id (hd_outbox db))" "\<forall>i \<in> set is. deliverable lib db i"
  shows "\<exists>c' db'. drain_each lib days te (\<lambda>n. (clock n, (\<lambda>d. d), None)) n is c db = (Ok c', db')
    \<and> dr_processed c' = dr_processed c + length is \<and> dr_delivered c' = dr_delivered c + length is
    \<and> (\<forall>k. delivered_in db k \<or> k \<in> set is \<longrightarrow> delivered_in db' k)"
  using assms
proof (induction "is" arbitrary: n c db)
  case Nil
  then show ?case by simp
next
  case (Cons i rest)
  have "deliverable lib db i" using Cons.prems(2) by simp
  from Cons.prems(1) this obtain r db1 where d: "deliver_handoff_safely lib days (clock n) (\<lambda>d. d) te None i db = (Ok r, db1)" "ob_status r = ''delivered''"
    "delivered_in db1 i" "map frozen (hd_outbox db1) = map frozen (hd_outbox db)" "\<forall>k. delivered_in db k \<longrightarrow> delivered_in db1 k"
    by (rule deliver_clean)
  have "distinct (map ob_id (hd_outbox db1))" using distinct_ids_frozen [OF d(4)] Cons.prems(1) by simp
  moreover have "\<forall>j \<in> set rest. deliverable lib db1 j" using Cons.prems(2) deliverable_frozen [OF d(4)] by simp
  ultimately obtain c' db' where "drain_each lib days te (\<lambda>n. (clock n, (\<lambda>d. d), None)) (Suc n) rest (count_status (ob_status r) c) db1 = (Ok c', db')"
    "dr_processed c' = dr_processed (count_status (ob_status r) c) + length rest"
    "dr_delivered c' = dr_delivered (count_status (ob_status r) c) + length rest"
    "\<forall>k. delivered_in db1 k \<or> k \<in> set rest \<longrightarrow> delivered_in db' k"
    using Cons.IH by blast
  then show ?case using d by (simp add: count_status_def)
qed

definition no_handoffs :: handoff_db where
  "no_handoffs = \<lparr>hd_outbox = [], hd_events = [], hd_records = [], hd_grants = []\<rparr>"

lemma no_handoffs_ok: "outbox_ok lib days sw no_handoffs"
  by (simp add: outbox_ok_def no_handoffs_def)

lemma one_record:
  assumes "distinct (map hr_id hs)"
  shows "length (filter (\<lambda>h. hr_id h = i) hs) = (if i \<in> hr_id ` set hs then 1 else 0)"
  using assms by (induction hs) (auto simp: filter_empty_conv image_iff)

section \<open>A completion, enqueued and delivered\<close>

definition plain_lib :: text_lib where
  "plain_lib = \<lparr>tl_redact = (\<lambda>s. (s, False)), tl_project = (\<lambda>_. []), tl_remote = (\<lambda>_. []), tl_summary = (\<lambda>t _ _. (t, PNone))\<rparr>"

definition sample_completion :: completion where
  "sample_completion = \<lparr>co_workspace = ''W'', co_owner = ''O'', co_subject = ''O'', co_session = ''S'', co_directive = Some ''d'',
     co_key = ''directive:d:succeeded'', co_terminal = ''succeeded'', co_milestone = [(''title'', PStr ''done''), (''decision'', PStr ''kept'')],
     co_source = ''native'', co_redacted = False, co_executor = Some ''codex'', co_hash = Some ''h''\<rparr>"

definition sample_row :: outbox_row where
  "sample_row = new_outbox_row ''o'' ''e'' ''r'' (Aware 0 0) sample_completion"

definition enqueued_db :: handoff_db where
  "enqueued_db = no_handoffs\<lparr>hd_outbox := [sample_row]\<rparr>"

definition sample_view :: milestone_view where
  "sample_view = \<lparr>re_title = ''done'', re_payload = [(''directive_id'', PStr ''d''), (''files'', PList []), (''decision'', PStr ''kept''),
     (''outcome'', PDict []), (''git'', PDict []), (''anchors'', PList []), (''milestone_schema'', PStr ''v1''), (''workspace_id'', PStr ''W''),
     (''user_id'', PStr ''O'')], re_files = [], re_outcome = [], re_git = [], re_anchors = [], re_redacted = False\<rparr>"

definition delivered_db :: handoff_db where
  "delivered_db = commit_delivery plain_lib 90 (Aware 1 0) sample_row sample_view enqueued_db"

lemma sample_row_simps:
  "ob_id sample_row = ''o''" "ob_record sample_row = ''r''" "ob_status sample_row = ''pending''" "ob_hash sample_row = Some ''h''"
  by (simp_all add: sample_row_def new_outbox_row_def sample_completion_def)

lemma sample_view_ok: "view_milestone plain_lib sample_row = Ok sample_view"
  by (simp add: view_milestone_def sample_row_def new_outbox_row_def sample_completion_def sub_dict_def forty_def truthy_def dict_of_def
    str_or_empty_def str_or_def py_str_def plain_lib_def DEFAULT_ALLOWLIST_KEYS_def sample_view_def Let_def)

lemma sample_enqueued: "handoff_run plain_lib 90 {} no_handoffs enqueued_db"
proof -
  have "enqueue_handoff ''o'' ''e'' ''r'' (Aware 0 0) sample_completion (hd_outbox no_handoffs) = Ok (sample_row, [sample_row])"
    by (simp add: enqueue_handoff_def Let_def no_handoffs_def sample_row_def) (simp add: new_outbox_row_def)
  from handoff_run.enqueue [OF handoff_run.start this] show ?thesis by (simp add: enqueued_db_def) (simp add: no_handoffs_def)
qed

lemma sample_delivered: "handoff_run plain_lib 90 {} enqueued_db delivered_db"
  unfolding delivered_db_def
  by (rule handoff_run.deliver [OF handoff_run.start handoff_run.start, where i = "''o''"])
    (simp_all add: sample_row_simps sample_view_ok enqueued_db_def)

section \<open>Properties\<close>

text \<open>
  C31. Completions are handed off once (continuity_store.py of Lite, from empty tables, whatever the interleaving of
  enqueues, attempts, failures, drains, requeues and the sweeps \<open>sw\<close> of the lifecycle job): a completion has at most one
  hand-off record, and that record is what the milestone of the row renders to; a row that reads delivered has exactly
  one, unless the record its milestone renders to was already expired at one of the sweeps; rows are one per completion
  key, and a pending row has been tried less than ten times.
\<close>

theorem completions_are_handed_off_once:
  assumes run: "handoff_run lib days sw no_handoffs db" and row: "r \<in> set (hd_outbox db)"
  shows "length (filter (\<lambda>h. hr_id h = ob_record r) (hd_records db)) \<le> 1
    \<and> (ob_status r = ''delivered'' \<longrightarrow> length (filter (\<lambda>h. hr_id h = ob_record r) (hd_records db)) = 1
        \<or> (\<exists>x. view_milestone lib r = Ok x \<and> (\<exists>(now, keep) \<in> sw. expired_record now keep (record_of lib days r x))))
    \<and> (\<forall>h \<in> set (hd_records db). hr_id h = ob_record r \<longrightarrow> (\<exists>x. view_milestone lib r = Ok x \<and> h = record_of lib days r x))
    \<and> (\<forall>r' \<in> set (hd_outbox db). outbox_key r' = outbox_key r \<longrightarrow> r' = r)
    \<and> (ob_status r = ''pending'' \<longrightarrow> ob_attempts r < 10) \<and> ob_status r \<in> {''pending'', ''delivered'', ''dead''}"
proof -
  have ok: "outbox_ok lib days sw db" by (rule handoff_run_keeps [OF run no_handoffs_ok])
  then have d: "distinct (map hr_id (hd_records db))" "distinct (map outbox_key (hd_outbox db))" "distinct (map ob_record (hd_outbox db))"
    and r: "(ob_status r = ''delivered'' \<longrightarrow> accounted lib days sw (hd_records db) r)
      \<and> (ob_status r = ''pending'' \<longrightarrow> ob_attempts r < 10) \<and> ob_status r \<in> {''pending'', ''delivered'', ''dead''}"
    using row unfolding outbox_ok_def by blast+
  have "\<exists>x. view_milestone lib r = Ok x \<and> h = record_of lib days r x" if h: "h \<in> set (hd_records db)" "hr_id h = ob_record r" for h
  proof -
    obtain q x where q: "q \<in> set (hd_outbox db)" "view_milestone lib q = Ok x" "h = record_of lib days q x"
      using ok h(1) unfolding outbox_ok_def by blast
    have "q = r" using distinct_on [OF d(3) q(1) row] q(3) h(2) by simp
    with q show ?thesis by blast
  qed
  moreover have "\<forall>r' \<in> set (hd_outbox db). outbox_key r' = outbox_key r \<longrightarrow> r' = r"
    using distinct_on [OF d(2) _ row] by blast
  moreover have "length (filter (\<lambda>h. hr_id h = ob_record r) (hd_records db)) = 1
      \<or> (\<exists>x. view_milestone lib r = Ok x \<and> (\<exists>(now, keep) \<in> sw. expired_record now keep (record_of lib days r x)))"
    if "accounted lib days sw (hd_records db) r"
    using that one_record [OF d(1), of "ob_record r"] by (auto simp: accounted_def swept_def)
  ultimately show ?thesis using r one_record [OF d(1), of "ob_record r"] by simp
qed

theorem completions_are_handed_off_once_witness:
  "ob_status (delivered_row (Aware 1 0) sample_row) = ''delivered''
    \<and> length (filter (\<lambda>h. hr_id h = ''r'') (hd_records delivered_db)) = 1"
proof -
  have run: "handoff_run plain_lib 90 {} no_handoffs delivered_db" by (rule handoff_run_trans [OF sample_delivered sample_enqueued])
  have mem: "delivered_row (Aware 1 0) sample_row \<in> set (hd_outbox delivered_db)"
    by (simp add: delivered_db_def enqueued_db_def update_outbox_def)
  have "ob_status (delivered_row (Aware 1 0) sample_row) = ''delivered''" "ob_record (delivered_row (Aware 1 0) sample_row) = ''r''"
    by (simp_all add: delivered_row_def sample_row_simps)
  with completions_are_handed_off_once [OF run mem] show ?thesis by simp
qed

text \<open>A record that is made again, by a late delivery after a sweep, has the content it had.\<close>

lemma same_record:
  assumes run: "handoff_run lib days sw a b" and ok: "outbox_ok lib days sw a"
    and h: "h \<in> set (hd_records a)" "h' \<in> set (hd_records b)" "hr_id h' = hr_id h"
  shows "h' = h"
proof -
  have ok': "outbox_ok lib days sw b" by (rule handoff_run_keeps [OF run ok])
  obtain r x where r: "r \<in> set (hd_outbox a)" "view_milestone lib r = Ok x" "h = record_of lib days r x"
    using ok h(1) unfolding outbox_ok_def by blast
  obtain q y where q: "q \<in> set (hd_outbox b)" "view_milestone lib q = Ok y" "h' = record_of lib days q y"
    using ok' h(2) unfolding outbox_ok_def by blast
  obtain r' where r': "r' \<in> set (hd_outbox b)" "frozen r' = frozen r" using row_seen [OF run r(1)] by blast
  note f = frozen_eq [OF r'(2)]
  have d: "distinct (map ob_record (hd_outbox b))" using ok' by (simp add: outbox_ok_def)
  have "ob_record q = ob_record r'" using q(3) r(3) h(3) f(2) by simp
  then have "q = r'" using distinct_on [OF d q(1) r'(1)] by simp
  with q(2,3) r(2,3) f(4,5) show ?thesis by simp
qed

text \<open>
  C32. A completion once enqueued is never lost or rewritten (continuity_store.py of Lite): along every run its row keeps
  its place, key, milestone and identifiers; a hand-off record stays, with its content, until a sweep of the lifecycle job
  finds it expired, and when the job never runs the records only grow at the end; and enqueueing the same key again
  returns that row without a change, or is refused when the payload differs.
\<close>

theorem completions_are_never_lost:
  assumes run: "handoff_run lib days sw a b" and i: "i < length (hd_outbox a)"
  shows "i < length (hd_outbox b) \<and> frozen (hd_outbox b ! i) = frozen (hd_outbox a ! i)
    \<and> (\<forall>h \<in> set (hd_records a). h \<in> set (hd_records b) \<or> (\<exists>(now, keep) \<in> sw. expired_record now keep h))
    \<and> (outbox_ok lib days sw a \<longrightarrow> (\<forall>h \<in> set (hd_records a). \<forall>h' \<in> set (hd_records b). hr_id h' = hr_id h \<longrightarrow> h' = h))
    \<and> (sw = {} \<longrightarrow> (\<forall>j < length (hd_records a). j < length (hd_records b) \<and> hd_records b ! j = hd_records a ! j))
    \<and> (outbox_ok lib days sw a \<and> outbox_key (new_outbox_row k ev rec now c) = outbox_key (hd_outbox a ! i)
        \<longrightarrow> enqueue_handoff k ev rec now c (hd_outbox b) =
            (if ob_hash (hd_outbox a ! i) \<noteq> None \<and> co_hash c \<noteq> None \<and> ob_hash (hd_outbox a ! i) \<noteq> co_hash c
             then Err (CompletionConflict (ob_id (hd_outbox a ! i))) else Ok (hd_outbox b ! i, hd_outbox b)))"
proof -
  have g0: "grown sw a b" by (rule handoff_run_grows [OF run])
  obtain rs where g: "map frozen (hd_outbox b) = map frozen (hd_outbox a) @ rs" using g0 unfolding grown_def by blast
  have len: "i < length (hd_outbox b)" using arg_cong [OF g, of length] i by simp
  have fr: "frozen (hd_outbox b ! i) = frozen (hd_outbox a ! i)"
    using arg_cong [OF g, of "\<lambda>l. l ! i"] len i by (simp add: nth_append)
  have "enqueue_handoff k ev rec now c (hd_outbox b) =
      (if ob_hash (hd_outbox a ! i) \<noteq> None \<and> co_hash c \<noteq> None \<and> ob_hash (hd_outbox a ! i) \<noteq> co_hash c
       then Err (CompletionConflict (ob_id (hd_outbox a ! i))) else Ok (hd_outbox b ! i, hd_outbox b))"
    if ok: "outbox_ok lib days sw a" and key: "outbox_key (new_outbox_row k ev rec now c) = outbox_key (hd_outbox a ! i)"
  proof -
    let ?b = "hd_outbox b ! i"
    have d: "distinct (map outbox_key (hd_outbox b))" using handoff_run_keeps [OF run ok] unfolding outbox_ok_def by blast
    have cols: "outbox_key ?b = outbox_key (hd_outbox a ! i)" "ob_id ?b = ob_id (hd_outbox a ! i)" using frozen_eq [OF fr] by simp_all
    have hash: "ob_hash ?b = ob_hash (hd_outbox a ! i)" using arg_cong [OF fr, of ob_hash] by (simp add: frozen_def)
    have mem: "?b \<in> set (hd_outbox b)" using len by simp
    then have "find (\<lambda>r. outbox_key r = outbox_key (new_outbox_row k ev rec now c)) (hd_outbox b) = Some ?b"
      using find_unique [OF d mem] key cols(1) by simp
    moreover have "list_ex (\<lambda>r. ob_id r = k \<or> outbox_key r = outbox_key (new_outbox_row k ev rec now c)) (hd_outbox b)"
      using mem key cols(1) by (auto simp: list_ex_iff)
    ultimately show ?thesis by (simp add: enqueue_handoff_def Let_def hash cols(2))
  qed
  moreover have "\<forall>j < length (hd_records a). j < length (hd_records b) \<and> hd_records b ! j = hd_records a ! j" if "sw = {}"
    using g0 that by (auto simp: grown_def nth_append)
  moreover have "\<forall>h \<in> set (hd_records a). h \<in> set (hd_records b) \<or> (\<exists>(now, keep) \<in> sw. expired_record now keep h)"
    using g0 by (simp add: grown_def swept_def)
  ultimately show ?thesis using len fr same_record [OF run] by blast
qed

theorem completions_are_never_lost_witness:
  "frozen (hd_outbox delivered_db ! 0) = frozen sample_row
    \<and> enqueue_handoff ''o2'' ''e2'' ''r2'' (Aware 2 0) (sample_completion\<lparr>co_hash := Some ''g''\<rparr>) (hd_outbox delivered_db)
      = Err (CompletionConflict ''o'')"
proof -
  have ok: "outbox_ok plain_lib 90 {} enqueued_db" by (rule handoff_run_keeps [OF sample_enqueued no_handoffs_ok])
  have row: "hd_outbox enqueued_db = [sample_row]" by (simp add: enqueued_db_def)
  have key: "outbox_key (new_outbox_row ''o2'' ''e2'' ''r2'' (Aware 2 0) (sample_completion\<lparr>co_hash := Some ''g''\<rparr>)) = outbox_key sample_row"
    by (simp add: outbox_key_def new_outbox_row_def sample_row_def sample_completion_def)
  show ?thesis
    using completions_are_never_lost [OF sample_delivered, of 0 "''o2''" "''e2''" "''r2''" "Aware 2 0" "sample_completion\<lparr>co_hash := Some ''g''\<rparr>"]
      ok row key by (simp add: sample_row_simps)
qed

text \<open>
  C33. A drain that meets no fault delivers (continuity_store.py of Lite): when every row that is due has a milestone that
  can be read and no attempt fails or meets another writer, the drain ends, counts each row of its batch as delivered, and
  afterwards each of them reads delivered; the batch is every due row, up to the limit.
\<close>

theorem drains_deliver:
  assumes ids: "distinct (map ob_id (hd_outbox db))"
    and readable: "\<forall>r \<in> set (hd_outbox db). due now r \<longrightarrow> (\<exists>x. view_milestone lib r = Ok x)"
  shows "\<exists>c db'. drain_pending_handoffs lib days te (\<lambda>n. (clock n, (\<lambda>d. d), None)) now limit db = (Ok c, db')
    \<and> dr_processed c = length (drain_batch now limit (hd_outbox db)) \<and> dr_delivered c = dr_processed c
    \<and> (\<forall>i \<in> set (drain_batch now limit (hd_outbox db)). delivered_in db' i)
    \<and> (int (length (filter (due now) (hd_outbox db))) \<le> max 1 (min 500 limit) \<longrightarrow>
        (\<forall>r \<in> set (hd_outbox db). due now r \<longrightarrow> delivered_in db' (ob_id r)))"
proof -
  let ?batch = "drain_batch now limit (hd_outbox db)"
  have sub: "set ?batch \<subseteq> ob_id ` {r \<in> set (hd_outbox db). due now r}"
    using set_take_subset [of "nat (max 1 (min 500 limit))" "sort_key (\<lambda>r. isoformat (ob_created r)) (filter (due now) (hd_outbox db))"]
    by (auto simp: drain_batch_def)
  then have "\<forall>i \<in> set ?batch. deliverable lib db i" using readable unfolding deliverable_def by fastforce
  from drain_clean [OF ids this] obtain c db' where
    run: "drain_pending_handoffs lib days te (\<lambda>n. (clock n, (\<lambda>d. d), None)) now limit db = (Ok c, db')"
    and c: "dr_processed c = length ?batch" "dr_delivered c = length ?batch" "\<forall>i \<in> set ?batch. delivered_in db' i"
    unfolding drain_pending_handoffs_def by force
  have "set ?batch = ob_id ` {r \<in> set (hd_outbox db). due now r}"
    if "int (length (filter (due now) (hd_outbox db))) \<le> max 1 (min 500 limit)"
    using that by (auto simp: drain_batch_def)
  with run c show ?thesis by auto
qed

theorem drains_deliver_witness:
  "\<exists>c db'. drain_pending_handoffs plain_lib 90 [] (\<lambda>n. (Aware 1 0, (\<lambda>d. d), None)) (Aware 1 0) 100 enqueued_db = (Ok c, db')
    \<and> dr_delivered c = 1 \<and> delivered_in db' ''o''"
proof -
  have row: "hd_outbox enqueued_db = [sample_row]" by (simp add: enqueued_db_def)
  have "isoformat (to_utc (Aware 0 0)) \<le> isoformat (Aware 1 0)" by code_simp
  then have "due (Aware 1 0) sample_row" by (simp add: due_def sample_row_def new_outbox_row_def sample_completion_def)
  then have "drain_batch (Aware 1 0) 100 (hd_outbox enqueued_db) = [''o'']" by (simp add: drain_batch_def row sample_row_simps)
  with drains_deliver [of enqueued_db "Aware 1 0" plain_lib 90 "[]" "\<lambda>_. Aware 1 0" 100] row sample_view_ok show ?thesis by force
qed

text \<open>
  A failure that is handled late undoes a delivery: one connection reads the row, another delivers it, and the
  \<open>UPDATE\<close> of the first, which names the row only by its identifier, writes it back to pending (or dead).
\<close>

lemma late_failure_undoes_delivery:
  assumes ids: "distinct (map ob_id (hd_outbox db))" and r: "r \<in> set (hd_outbox db)" "ob_status r \<noteq> ''delivered''" "view_milestone lib r = Ok x"
  shows "\<exists>r' db'. deliver_handoff_safely lib days now (commit_delivery lib days now r x) te (Some msg) (ob_id r) db = (Ok r', db')
    \<and> ob_record r \<in> hr_id ` set (hd_records db') \<and> ob_status r' \<noteq> ''delivered''"
proof -
  have f: "find (\<lambda>q. ob_id q = ob_id r) (hd_outbox db) = Some r" using find_unique [OF ids r(1)] by simp
  let ?db1 = "commit_delivery lib days now r x db"
  have mem: "delivered_row now r \<in> set (hd_outbox ?db1)" using r by (force simp: update_outbox_def)
  have fz: "map frozen (hd_outbox ?db1) = map frozen (hd_outbox db)" by (simp add: frozen_update_outbox)
  have ids1: "distinct (map ob_id (hd_outbox ?db1))" using distinct_ids_frozen [OF fz] ids by simp
  have f1: "find (\<lambda>q. ob_id q = ob_id r) (hd_outbox ?db1) = Some (delivered_row now r)"
    using find_unique [OF ids1 mem] by (simp add: delivered_row_def)
  let ?f = "failed_row (ob_attempts (delivered_row now r) + 1) now (fault_text te (Failed msg))"
  let ?db2 = "?db1\<lparr>hd_outbox := update_outbox (ob_id r) ?f (hd_outbox ?db1)\<rparr>"
  have mem2: "?f (delivered_row now r) \<in> set (hd_outbox ?db2)" using mem by (force simp: update_outbox_def delivered_row_def)
  have "map frozen (hd_outbox ?db2) = map frozen (hd_outbox ?db1)" by (simp add: frozen_update_outbox)
  from distinct_ids_frozen [OF this] ids1 have "find (\<lambda>q. ob_id q = ob_id r) (hd_outbox ?db2) = Some (?f (delivered_row now r))"
    using find_unique [OF _ mem2, of ob_id] by (simp add: failed_row_def delivered_row_def)
  then have "deliver_handoff_safely lib days now (commit_delivery lib days now r x) te (Some msg) (ob_id r) db = (Ok (?f (delivered_row now r)), ?db2)"
    using f r f1 by (simp add: deliver_handoff_safely_def deliver_handoff_def Let_def)
  moreover have "ob_record r \<in> hr_id ` set (hd_records ?db2)"
    by (auto simp: insert_record_def list_ex_iff intro: rev_image_eqI)
  ultimately show ?thesis by (auto simp: failed_row_def)
qed

text \<open>In Full an operator of one workspace puts the dead completion of another back to work; Lite answers not found.\<close>

lemma full_requeue_crosses_workspaces:
  assumes "find (\<lambda>r. ob_id r = i) (hd_outbox db) = Some r" "ob_status r = ''dead''" "ob_workspace r \<noteq> w"
  shows "requeue_dead_handoff w i now db = (Err HandoffNotFound, db)"
    "fst (full_requeue_dead_handoff i now db) = Ok ()"
  using assms by (simp_all add: requeue_dead_handoff_def full_requeue_dead_handoff_def)

end
