(* ===== verification/Report_Facts.thy ===== *)
theory Report_Facts
  imports Report_Execution Claim_Facts Outbox_Facts
begin

text \<open>What a report may change, what is replayed, and how failures are classified.\<close>

section \<open>Updates of the table\<close>

lemma fenced_update_id: "fenced_update cl d upd col x = Some x' \<Longrightarrow> (\<And>y. ld_id (col y) = ld_id y) \<Longrightarrow> ld_id x' = ld_id x"
  by (auto simp: fenced_update_def split: if_split_asm)

lemma report_columns_simps [simp]:
  "ld_id (report_columns rq d oc x) = ld_id x" "ld_row (report_columns rq d oc x) = ld_row x"
  "ld_workspace (report_columns rq d oc x) = ld_workspace x" "ld_user (report_columns rq d oc x) = ld_user x"
  "ld_session (report_columns rq d oc x) = ld_session x" "ld_permit (report_columns rq d oc x) = ld_permit x"
  "ld_verification (report_columns rq d oc x) = ''unverified''" "ld_key (report_columns rq d oc x) = idempotency_key rq"
  "ld_hash (report_columns rq d oc x) = Some (payload_hash rq)" "ld_attempt (report_columns rq d oc x) = ld_attempt x"
  by (simp_all add: report_columns_def)

lemma cancel_columns_simps [simp]:
  "ld_id (cancel_columns rq d x) = ld_id x" "ld_row (cancel_columns rq d x) = ld_row x" "ld_permit (cancel_columns rq d x) = ld_permit x"
  by (simp_all add: cancel_columns_def)

text \<open>An update that hits one row changes that row and no other.\<close>

lemma apply_update_one:
  assumes "hits f xs = 1" "\<And>x x'. f x = Some x' \<Longrightarrow> ld_id x = i"
  obtains x x' where "x \<in> set xs" "f x = Some x'" "x' \<in> set (apply_update f xs)" "ld_id x = i"
    "\<forall>y \<in> set xs. ld_id y \<noteq> i \<longrightarrow> y \<in> set (apply_update f xs)"
proof -
  from assms(1) have "filter (\<lambda>x. f x \<noteq> None) xs \<noteq> []" by (force simp: hits_def)
  then obtain x x' where x: "x \<in> set xs" "f x = Some x'" unfolding filter_empty_conv by blast
  have img: "(case f y of Some y' \<Rightarrow> y' | None \<Rightarrow> y) \<in> set (apply_update f xs)" if "y \<in> set xs" for y
    unfolding apply_update_def set_map using that by (rule imageI)
  show thesis
  proof (rule that [OF x])
    show "x' \<in> set (apply_update f xs)" using img [OF x(1)] x(2) by simp
    show "ld_id x = i" using assms(2) [OF x(2)] .
    show "\<forall>y \<in> set xs. ld_id y \<noteq> i \<longrightarrow> y \<in> set (apply_update f xs)"
    proof (intro ballI impI)
      fix y assume y: "y \<in> set xs" "ld_id y \<noteq> i"
      then have "f y = None" using assms(2) [of y] by (cases "f y") auto
      then show "y \<in> set (apply_update f xs)" using img [OF y(1)] by simp
    qed
  qed
qed

lemma apply_update_ids:
  assumes "\<And>x x'. f x = Some x' \<Longrightarrow> ld_id x' = ld_id x"
  shows "map ld_id (apply_update f xs) = map ld_id xs"
  using assms by (auto simp: apply_update_def split: option.split)

lemma on_claims_simps [simp]:
  "xd_claims (on_claims f db) = f (xd_claims db)" "xd_handoffs (on_claims f db) = xd_handoffs db"
  by (simp_all add: on_claims_def)

lemma recount_frame [simp]:
  "kd_directives (recount se cl s db) = kd_directives db" "kd_permits (recount se cl s db) = kd_permits db"
  "kd_audit (recount se cl s db) = kd_audit db"
  by (simp_all add: recount_def)

lemma reject_report_Err [simp]: "reject_report cl rq row reason msg db \<noteq> (Ok r, db')"
  by (simp add: reject_report_def)

section \<open>The failure class of a report\<close>

lemma py_contains_append: "py_contains s (xs @ s @ ys)"
proof (induction xs)
  case Nil
  have "starts_with s (s @ ys)" by (simp add: starts_with_def)
  then show ?case by (cases "s @ ys") (simp_all add: starts_with_def)
qed simp

lemma py_lower_append: "py_lower (xs @ ys) = py_lower xs @ py_lower ys"
  by (simp add: py_lower_def)

lemma py_join_parts:
  assumes "x \<in> set xs"
  shows "\<exists>a b. py_join sep xs = a @ x @ b"
  using assms
proof (induction sep xs rule: py_join.induct)
  case (2 sep y)
  then show ?case by (intro exI [of _ "[]"]) simp
next
  case (3 sep y z r)
  show ?case
  proof (cases "x = y")
    case True
    then show ?thesis by (intro exI [of _ "[]"] exI [of _ "sep @ py_join sep (z # r)"]) simp
  next
    case False
    then obtain a b where "py_join sep (z # r) = a @ x @ b" using 3 by auto
    then have "py_join sep (y # z # r) = (y @ sep @ a) @ x @ b" by simp
    then show ?thesis by blast
  qed
qed simp

text \<open>A key of a dictionary is part of its text.\<close>

lemma dict_text_has_key:
  assumes "(k, v) \<in> set m"
  shows "\<exists>a b. py_repr (PDict m) = a @ repr_str k @ b"
proof -
  let ?es = "map (\<lambda>kv. repr_str (fst kv) @ '': '' @ snd kv) (map (map_prod id py_repr) m)"
  have "repr_str k @ '': '' @ py_repr v \<in> set ?es" using assms by force
  from py_join_parts [OF this, of "'', ''"] obtain a b where "py_join '', '' ?es = a @ (repr_str k @ '': '' @ py_repr v) @ b" by blast
  then have "py_repr (PDict m) = (''{'' @ a) @ repr_str k @ ('': '' @ py_repr v @ b @ ''}'')" by simp
  then show ?thesis by blast
qed

lemma classify_hides:
  assumes "(''milestone_schema'', v) \<in> set details"
  shows "classify_failure result reason details \<in> {TIMEOUT, CONSTRAINT_BLOCK, SAFETY_BLOCK, VALIDATION_FAILURE}"
proof -
  let ?parts = "filter (\<lambda>s. s \<noteq> []) [py_lower (py_strip result), py_lower (py_strip (case reason of Some s \<Rightarrow> s | None \<Rightarrow> [])),
    py_lower (py_repr (PDict details))]"
  obtain a b where repr: "py_repr (PDict details) = a @ repr_str ''milestone_schema'' @ b" using dict_text_has_key [OF assms] by blast
  have key: "py_lower (repr_str ''milestone_schema'') = CHR 0x27 # ''milestone_'' @ ''schema'' @ [CHR 0x27]" by code_simp
  have low: "py_lower (py_repr (PDict details)) = (py_lower a @ CHR 0x27 # ''milestone_'') @ ''schema'' @ (CHR 0x27 # py_lower b)"
    unfolding repr py_lower_append key by simp
  then have "py_lower (py_repr (PDict details)) \<in> set ?parts" unfolding low by simp
  from py_join_parts [OF this, of "'' ''"] obtain c d where "py_join '' '' ?parts = c @ py_lower (py_repr (PDict details)) @ d" by blast
  then have "py_join '' '' ?parts = (c @ py_lower a @ CHR 0x27 # ''milestone_'') @ ''schema'' @ (CHR 0x27 # py_lower b @ d)"
    unfolding low by simp
  then have "py_contains ''schema'' (py_join '' '' ?parts)" using py_contains_append by metis
  then have "any_in [''validation'', ''invalid'', ''schema'', ''pydantic'', ''json decode''] (py_join '' '' ?parts)"
    by (simp add: any_in_def)
  then show ?thesis unfolding classify_failure_def Let_def by simp
qed

lemma dict_set_keys: "fst ` set (dict_set k v d) = insert k (fst ` set d)"
  by (induction d) auto

lemma update_dict_keys: "fst ` set (update_dict d m) = fst ` set m \<union> fst ` set d"
  unfolding update_dict_def by (induction m arbitrary: d) (simp_all add: dict_set_keys split_beta Un_commute)

lemma report_details_schema:
  assumes "report_outcome red se checkpoint paused rq d = Ok oc"
  shows "\<exists>v. (''milestone_schema'', v) \<in> set (oc_details oc)"
proof -
  obtain r m where rm: "report_milestone red checkpoint rq d (merge_report_details rq) = (r, m)" by fastforce
  have "''milestone_schema'' \<in> fst ` set m"
    using rm by (auto simp: report_milestone_def Let_def dict_set_keys milestone_dict_def)
  moreover obtain st where "oc_details oc = with_status st (update_dict (merge_report_details rq) m)"
    using assms by (auto simp: report_outcome_def rm Let_def split: if_split_asm)
  ultimately have "''milestone_schema'' \<in> fst ` set (oc_details oc)" by (simp add: with_status_def dict_set_keys update_dict_keys)
  then show ?thesis by force
qed

text \<open>What the outcome says of its own failure class and strategy.\<close>

lemma report_outcome_failure:
  assumes "report_outcome red se checkpoint paused rq d = Ok oc"
  shows "(oc_failure oc \<noteq> None \<longleftrightarrow> oc_state oc \<in> {D_FAILED, D_BLOCKED, D_ABANDONED})
    \<and> (\<forall>f. oc_failure oc = Some f \<longrightarrow> f = classify_failure (xq_result rq) (oc_reason oc) (oc_details oc))
    \<and> (\<forall>s. oc_strategy oc = Some s \<longrightarrow> \<not> paused \<and> (\<exists>f rollback. oc_failure oc = Some f \<and> s = retry_strategy_for_attempt (ld_attempt d + 1) f rollback))
    \<and> oc_state oc \<in> {xq_state rq, D_FAILED}"
proof -
  obtain r m where rm: "report_milestone red checkpoint rq d (merge_report_details rq) = (r, m)" by fastforce
  show ?thesis using assms by (auto simp: report_outcome_def rm Let_def split: if_split_asm)
qed

section \<open>A report that is accepted\<close>

lemma report_execution_work:
  assumes ok: "report_execution red se cl subject ids checkpoint paused ctx deliver others rq now db = (Ok answer, db')"
    and row: "report_row cl rq db = Some d" and live: "dr_state (ld_row d) \<notin> set TERMINAL_STATES"
    and work: "xq_state rq \<notin> {D_CANCELLED, D_REJECTED}"
  obtains oc retry orow db1 delivered h where
    "td_allowed (validate_transition (request_of (ld_row d) (xq_state rq) (cl_consumer cl) (xq_lease rq)
       (fst (report_permit cl rq d now (kd_permits (xd_claims db)))) (xs_lease_strict se)))"
    "report_outcome red se checkpoint paused rq d = Ok oc"
    "hits (fenced_update cl d (report_update (cl_consumer cl) (dr_lease (ld_row d)) (oc_state oc) now) (report_columns rq d oc))
       (kd_directives (xd_claims (others db))) = 1"
    "commit_report se cl subject ids rq now paused d oc (others db) = (Ok (retry, orow), db1)"
    "deliver (ob_id orow) (xd_handoffs db1) = (Ok delivered, h)"
    "db' = record_result (xq_directive rq) (merged_plan d oc) (result_dict retry (oc_failure oc) (oc_strategy oc) (retry_feedback red se d oc)) (db1\<lparr>xd_handoffs := h\<rparr>)"
    "answer = \<lparr>xr_directive = xq_directive rq, xr_state = oc_state oc, xr_retry_scheduled = (retry \<noteq> None),
       xr_retry_directive = opt_py PStr retry, xr_failure = opt_py (\<lambda>f. PStr (failure_str f)) (oc_failure oc),
       xr_strategy = opt_py (\<lambda>s. PStr (strategy_str s)) (oc_strategy oc),
       xr_feedback = PDict (retry_feedback red se d oc), xr_lease = dr_lease (ld_row d), xr_verification = ''unverified'', xr_replay = False,
       xr_extras = Some (report_extras_of red se checkpoint ctx rq d delivered)\<rparr>"
proof -
  obtain permit_ok why where p: "report_permit cl rq d now (kd_permits (xd_claims db)) = (permit_ok, why)" by fastforce
  let ?v = "validate_transition (request_of (ld_row d) (xq_state rq) (cl_consumer cl) (xq_lease rq) permit_ok (xs_lease_strict se))"
  have allowed: "td_allowed ?v"
    and w: "report_work red se cl subject ids checkpoint paused ctx deliver rq now d (others db) = (Ok answer, db')"
    using ok row live work by (auto simp: report_execution_def p Let_def split: if_split_asm)
  obtain oc where oc: "report_outcome red se checkpoint paused rq d = Ok oc"
    using w by (auto simp: report_work_def split: sum.splits)
  have one: "hits (fenced_update cl d (report_update (cl_consumer cl) (dr_lease (ld_row d)) (oc_state oc) now) (report_columns rq d oc))
       (kd_directives (xd_claims (others db))) = 1"
    using w by (auto simp: report_work_def oc Let_def split: if_split_asm)
  obtain retry orow db1 where c: "commit_report se cl subject ids rq now paused d oc (others db) = (Ok (retry, orow), db1)"
    using w one by (auto simp: report_work_def oc split: prod.splits sum.splits)
  obtain delivered h where del: "deliver (ob_id orow) (xd_handoffs db1) = (Ok delivered, h)"
    using w one c by (auto simp: report_work_def oc split: prod.splits sum.splits)
  show thesis
    using that [OF _ oc one c del] allowed p w one by (auto simp: report_work_def oc c del)
qed

text \<open>The permit of an accepted success or failure.\<close>

lemma report_needs_permit:
  assumes allowed: "td_allowed (validate_transition (request_of row target actor lease permit_ok echo))" and target: "target \<in> {D_SUCCEEDED, D_FAILED}"
    and live: "dr_state row \<notin> set TERMINAL_STATES"
  shows "permit_ok"
proof -
  obtain t where t: "t \<in> set ALLOWED_TRANSITIONS" "tr_target t = target"
    "td_allowed (apply_transition t (request_of row target actor lease permit_ok echo))"
    by (rule request_allowed [OF allowed])
  have "tr_permit t" using t(1,2) target by (auto simp: ALLOWED_TRANSITIONS_def)
  with apply_transition_allowed(5) [OF t(3)] show ?thesis by simp
qed

lemma report_permit_holds:
  assumes "ld_requires d" "xq_state rq \<in> {D_SUCCEEDED, D_FAILED}" "fst (report_permit cl rq d now ps)"
  shows "\<exists>p \<in> set ps. text_or_none (ld_permit d) = Some (ep_id p) \<and> ep_decision p = ''allow''
      \<and> text_or_none (ep_user p) \<in> {None, Some (ld_user d)} \<and> text_or_none (ep_directive p) \<in> {None, Some (ld_id d)}"
proof -
  obtain i p where i: "text_or_none (ld_permit d) = Some i"
    and p: "find (\<lambda>p. ep_id p = i \<and> ep_workspace p = cl_workspace cl) ps = Some p"
    and b: "fst (case permit_binding_ok (report_check d now p) ''report'' of Inr verdict \<Rightarrow> verdict | Inl e \<Rightarrow> (False, e))"
    using assms by (auto simp: report_permit_def split: option.splits)
  have "p \<in> set ps" "ep_id p = i" using find_in [OF p] by auto
  moreover have "ep_decision p = ''allow'' \<and> text_or_none (ep_user p) \<in> {None, Some (ld_user d)}
      \<and> text_or_none (ep_directive p) \<in> {None, Some (ld_id d)}"
    using b by (auto simp: permit_binding_ok_def report_check_def or_none_def split: if_split_asm option.splits)
  ultimately show ?thesis using i by blast
qed

lemma find_first_part:
  assumes "distinct (map f xs)" "x \<in> set xs" "P x" "\<And>y. P y \<Longrightarrow> f y = f x"
  shows "find P (xs @ ys) = Some x"
proof -
  have "\<forall>y \<in> set xs. P y \<longrightarrow> y = x" using distinct_on [OF assms(1) _ assms(2)] assms(4) by blast
  moreover have "find P (zs @ ys) = Some x" if "\<forall>y \<in> set zs. P y \<longrightarrow> y = x" "x \<in> set zs" for zs
    using that
  proof (induction zs)
    case (Cons z zs)
    show ?case
    proof (cases "P z")
      case True
      then have "z = x" using Cons.prems(1) by simp
      then show ?thesis using assms(3) by simp
    next
      case False
      then have "x \<in> set zs" using Cons.prems(2) assms(3) by auto
      then show ?thesis using Cons False by simp
    qed
  qed simp
  ultimately show ?thesis using assms(2) by blast
qed

text \<open>What the first transaction leaves.\<close>

lemma commit_report_Ok:
  assumes "commit_report se cl subject ids rq now paused d oc db = (Ok (retry, orow), db1)"
  shows "kd_directives (xd_claims db1)
      = apply_update (fenced_update cl d (report_update (cl_consumer cl) (dr_lease (ld_row d)) (oc_state oc) now) (report_columns rq d oc)) (kd_directives (xd_claims db))
        @ (case retry of Some i \<Rightarrow> [retry_directive i now d (oc_strategy oc)] | None \<Rightarrow> [])
    \<and> kd_permits (xd_claims db1) = kd_permits (xd_claims db) \<and> kd_audit (xd_claims db1) = kd_audit (xd_claims db)
    \<and> (retry \<noteq> None \<longrightarrow> retry = Some (xi_retry ids) \<and> xs_retry_enabled se \<and> \<not> paused \<and> ld_attempt d < xs_retry_max se
        \<and> oc_state oc \<in> {D_FAILED, D_BLOCKED}
        \<and> open_in_window se cl (xq_session rq) now (apply_update (fenced_update cl d (report_update (cl_consumer cl) (dr_lease (ld_row d)) (oc_state oc) now)
            (report_columns rq d oc)) (kd_directives (xd_claims db))) < xs_retry_limit se)
    \<and> orow \<in> set (hd_outbox (xd_handoffs db1)) \<and> ob_key orow = take 240 (''directive:'' @ xq_directive rq @ '':'' @ dstate_str (oc_state oc))"
proof -
  let ?upd = "fenced_update cl d (report_update (cl_consumer cl) (dr_lease (ld_row d)) (oc_state oc) now) (report_columns rq d oc)"
  let ?ds = "apply_update ?upd (kd_directives (xd_claims db))"
  let ?retry = "if retries_due se cl rq now paused d oc ?ds then Some (xi_retry ids) else None"
  obtain rows where enq: "enqueue_handoff (xi_outbox ids) (xi_event ids) (xi_record ids) now (report_completion cl subject rq oc)
      (hd_outbox (xd_handoffs db)) = Ok (orow, rows)"
    and retry: "retry = ?retry"
    and db1: "db1 = db\<lparr>xd_claims := recount (xs_claim se) cl (xq_session rq) ((xd_claims db)\<lparr>kd_directives :=
        (case ?retry of Some i \<Rightarrow> ?ds @ [retry_directive i now d (oc_strategy oc)] | None \<Rightarrow> ?ds)\<rparr>),
      xd_handoffs := (xd_handoffs db)\<lparr>hd_outbox := rows\<rparr>\<rparr>"
    using assms by (auto simp: commit_report_def Let_def split: sum.splits)
  have "orow \<in> set rows" "ob_key orow = take 240 (co_key (report_completion cl subject rq oc))"
    using enqueue_handoff_Ok [OF enq] by (auto simp: outbox_key_def new_outbox_row_def)
  moreover have "co_key (report_completion cl subject rq oc) = ''directive:'' @ xq_directive rq @ '':'' @ dstate_str (oc_state oc)"
    by (simp add: report_completion_def)
  ultimately show ?thesis by (simp add: db1 retry retries_due_def split: option.split)
qed

text \<open>Writing plan and result leaves the count of open directives; one more directive adds at most one to it.\<close>

lemma open_in_window_append:
  "open_in_window se cl s now (xs @ ys) \<le> open_in_window se cl s now xs + int (length ys)"
  using length_filter_le [of _ ys] by (simp add: open_in_window_def)

lemma open_in_window_record:
  "open_in_window se cl s now (map (\<lambda>x. if ld_id x = i then x\<lparr>ld_plan := p, ld_result := r\<rparr> else x) xs) = open_in_window se cl s now xs"
  by (induction xs) (simp_all add: open_in_window_def of_session_def)

lemma reported_ids: "map ld_id (apply_update (fenced_update cl d upd (report_columns rq d oc)) ds) = map ld_id ds"
  by (rule apply_update_ids) (auto simp: fenced_update_def split: if_split_asm)

section \<open>Properties\<close>

text \<open>
  C37. Through a report the failure classifier cannot say tool error or unknown (store.py, failure_classifier.py): the handler
  merges the normalised milestone into the details before it classifies their text, and the key \<open>milestone_schema\<close> of the
  milestone contains a token of the validation class.  So a failed first attempt is retried with read-only diagnosis
  only after a timeout, and a command that failed is retried as a validation failure.
\<close>

theorem reports_hide_tool_errors:
  assumes outcome: "report_outcome red se checkpoint paused rq d = Ok oc" and failure: "oc_failure oc = Some f"
  shows "f \<noteq> TOOL_ERROR \<and> f \<noteq> UNKNOWN \<and> (oc_strategy oc = Some READ_ONLY_DIAGNOSE \<longrightarrow> f = TIMEOUT)
    \<and> (1 \<le> ld_attempt d \<longrightarrow> oc_strategy oc \<noteq> Some NARROW_SCOPE)"
proof -
  note o = report_outcome_failure [OF outcome]
  obtain v where "(''milestone_schema'', v) \<in> set (oc_details oc)" using report_details_schema [OF outcome] ..
  then have f: "f \<in> {TIMEOUT, CONSTRAINT_BLOCK, SAFETY_BLOCK, VALIDATION_FAILURE}" using classify_hides o failure by blast
  have "oc_strategy oc = Some s \<Longrightarrow> \<exists>rollback. s = retry_strategy_for_attempt (ld_attempt d + 1) f rollback" for s
    using o failure by fastforce
  then have "oc_strategy oc = Some READ_ONLY_DIAGNOSE \<Longrightarrow> f = TIMEOUT" "oc_strategy oc = Some NARROW_SCOPE \<Longrightarrow> ld_attempt d < 1"
    using f by (fastforce simp: retry_strategy_for_attempt_def split: if_split_asm)+
  with f show ?thesis by auto
qed

text \<open>
  C35. What an accepted report rests on and what it writes (store.py, report_execution): the directive was still in
  progress under the reporter and the lease it read, and a success or failure of a directive that needs a permit has
  one that allows it and is not another's.  The directive takes the state that is answered and stays unverified;
  every other directive is as it was.  One directive is added when the answer says that a retry is scheduled and none
  otherwise; it is pending, has no permit and one attempt more, within the limit of attempts, it is added only where
  retries are enabled and no unresolved effect pauses the session, and with it the session has no more open directives
  made within the window than the limit of the window allows.
\<close>

theorem reports_are_fenced:
  assumes ok: "report_execution red se cl subject ids checkpoint paused ctx deliver others rq now db = (Ok answer, db')"
    and row: "report_row cl rq db = Some d" and live: "dr_state (ld_row d) \<notin> set TERMINAL_STATES"
    and work: "xq_state rq \<notin> {D_CANCELLED, D_REJECTED}"
  shows "(\<exists>x \<in> set (kd_directives (xd_claims (others db))). ld_id x = ld_id d \<and> dr_state (ld_row x) = D_IN_PROGRESS
        \<and> dr_executor (ld_row x) = Some (cl_consumer cl) \<and> dr_lease (ld_row x) = dr_lease (ld_row d))
    \<and> (ld_requires d \<and> xq_state rq \<in> {D_SUCCEEDED, D_FAILED} \<longrightarrow>
        (\<exists>p \<in> set (kd_permits (xd_claims db)). text_or_none (ld_permit d) = Some (ep_id p) \<and> ep_decision p = ''allow''
           \<and> text_or_none (ep_user p) \<in> {None, Some (ld_user d)} \<and> text_or_none (ep_directive p) \<in> {None, Some (ld_id d)}))
    \<and> (\<exists>x' \<in> set (kd_directives (xd_claims db')). ld_id x' = ld_id d \<and> dr_state (ld_row x') = xr_state answer
        \<and> ld_verification x' = ''unverified'' \<and> xr_state answer \<in> {xq_state rq, D_FAILED})
    \<and> (\<forall>y \<in> set (kd_directives (xd_claims (others db))). ld_id y \<noteq> ld_id d \<longrightarrow> y \<in> set (kd_directives (xd_claims db')))
    \<and> (\<forall>y \<in> set (kd_directives (xd_claims db')). ld_id y \<notin> ld_id ` set (kd_directives (xd_claims (others db))) \<longrightarrow>
        dr_state (ld_row y) = D_PENDING \<and> ld_permit y = None \<and> ld_attempt y = ld_attempt d + 1 \<and> ld_attempt y \<le> xs_retry_max se
        \<and> \<not> paused \<and> xr_state answer \<in> {D_FAILED, D_BLOCKED})
    \<and> (\<exists>new. map ld_id (kd_directives (xd_claims db')) = map ld_id (kd_directives (xd_claims (others db))) @ new
        \<and> length new = (if xr_retry_scheduled answer then 1 else 0))
    \<and> (xr_retry_scheduled answer \<longrightarrow> xs_retry_enabled se
        \<and> open_in_window se cl (xq_session rq) now (kd_directives (xd_claims db')) \<le> xs_retry_limit se)"
proof -
  obtain oc retry orow db1 delivered h where
    v: "td_allowed (validate_transition (request_of (ld_row d) (xq_state rq) (cl_consumer cl) (xq_lease rq)
       (fst (report_permit cl rq d now (kd_permits (xd_claims db)))) (xs_lease_strict se)))"
    and oc: "report_outcome red se checkpoint paused rq d = Ok oc"
    and one: "hits (fenced_update cl d (report_update (cl_consumer cl) (dr_lease (ld_row d)) (oc_state oc) now) (report_columns rq d oc))
       (kd_directives (xd_claims (others db))) = 1"
    and commit: "commit_report se cl subject ids rq now paused d oc (others db) = (Ok (retry, orow), db1)"
    and deliv: "deliver (ob_id orow) (xd_handoffs db1) = (Ok delivered, h)"
    and db': "db' = record_result (xq_directive rq) (merged_plan d oc) (result_dict retry (oc_failure oc) (oc_strategy oc) (retry_feedback red se d oc)) (db1\<lparr>xd_handoffs := h\<rparr>)"
    and answer: "answer = \<lparr>xr_directive = xq_directive rq, xr_state = oc_state oc, xr_retry_scheduled = (retry \<noteq> None),
       xr_retry_directive = opt_py PStr retry, xr_failure = opt_py (\<lambda>f. PStr (failure_str f)) (oc_failure oc),
       xr_strategy = opt_py (\<lambda>s. PStr (strategy_str s)) (oc_strategy oc),
       xr_feedback = PDict (retry_feedback red se d oc), xr_lease = dr_lease (ld_row d), xr_verification = ''unverified'', xr_replay = False,
       xr_extras = Some (report_extras_of red se checkpoint ctx rq d delivered)\<rparr>"
    by (rule report_execution_work [OF ok row live work])
  let ?upd = "fenced_update cl d (report_update (cl_consumer cl) (dr_lease (ld_row d)) (oc_state oc) now) (report_columns rq d oc)"
  let ?ds = "kd_directives (xd_claims (others db))" and ?rec = "\<lambda>y. if ld_id y = xq_directive rq
    then y\<lparr>ld_plan := merged_plan d oc, ld_result := PDict (result_dict retry (oc_failure oc) (oc_strategy oc) (retry_feedback red se d oc))\<rparr> else y"
  have id: "ld_id d = xq_directive rq" using find_in [OF row [unfolded report_row_def]] by simp
  have hit: "ld_id x = ld_id d" if "?upd x = Some x'" for x x' using that by (auto simp: fenced_update_def split: if_split_asm)
  obtain x x' where x: "x \<in> set ?ds" "?upd x = Some x'" "x' \<in> set (apply_update ?upd ?ds)" "ld_id x = ld_id d"
    and rest: "\<forall>y \<in> set ?ds. ld_id y \<noteq> ld_id d \<longrightarrow> y \<in> set (apply_update ?upd ?ds)"
    by (rule apply_update_one [OF one hit])
  note c = commit_report_Ok [OF commit]
  have ds': "kd_directives (xd_claims db') = map ?rec (apply_update ?upd ?ds
      @ (case retry of Some i \<Rightarrow> [retry_directive i now d (oc_strategy oc)] | None \<Rightarrow> []))"
    using c by (simp add: db' record_result_def)
  have in_ds': "?rec y \<in> set (kd_directives (xd_claims db'))" if "y \<in> set (apply_update ?upd ?ds)" for y
    unfolding ds' set_map using that by (intro imageI) simp
  have fenced: "dr_state (ld_row x) = D_IN_PROGRESS \<and> dr_executor (ld_row x) = Some (cl_consumer cl) \<and> dr_lease (ld_row x) = dr_lease (ld_row d)"
    and x': "ld_id x' = ld_id d \<and> dr_state (ld_row x') = oc_state oc \<and> ld_verification x' = ''unverified''"
    using x(2) by (auto simp: fenced_update_def report_update_def split: if_split_asm)
  have "\<exists>p \<in> set (kd_permits (xd_claims db)). text_or_none (ld_permit d) = Some (ep_id p) \<and> ep_decision p = ''allow''
      \<and> text_or_none (ep_user p) \<in> {None, Some (ld_user d)} \<and> text_or_none (ep_directive p) \<in> {None, Some (ld_id d)}"
    if need: "ld_requires d" "xq_state rq \<in> {D_SUCCEEDED, D_FAILED}"
  proof -
    have "fst (report_permit cl rq d now (kd_permits (xd_claims db)))"
      using v need(2) live by (rule report_needs_permit)
    with need show ?thesis by (rule report_permit_holds)
  qed
  moreover have "\<exists>y \<in> set (kd_directives (xd_claims db')). ld_id y = ld_id d \<and> dr_state (ld_row y) = xr_state answer
      \<and> ld_verification y = ''unverified'' \<and> xr_state answer \<in> {xq_state rq, D_FAILED}"
    using in_ds' [OF x(3)] x' report_outcome_failure [OF oc] by (intro bexI [of _ "?rec x'"]) (simp_all add: answer)
  moreover have "y \<in> set (kd_directives (xd_claims db'))" if "y \<in> set ?ds" "ld_id y \<noteq> ld_id d" for y
    using in_ds' [of y] rest that id by simp
  moreover have "dr_state (ld_row y) = D_PENDING \<and> ld_permit y = None \<and> ld_attempt y = ld_attempt d + 1 \<and> ld_attempt y \<le> xs_retry_max se
      \<and> \<not> paused \<and> xr_state answer \<in> {D_FAILED, D_BLOCKED}"
    if y: "y \<in> set (kd_directives (xd_claims db'))" "ld_id y \<notin> ld_id ` set ?ds" for y
  proof -
    have "y \<in> ?rec ` (set (apply_update ?upd ?ds)
        \<union> set (case retry of Some i \<Rightarrow> [retry_directive i now d (oc_strategy oc)] | None \<Rightarrow> []))"
      using y(1) unfolding ds' set_map set_append .
    then obtain z where "z \<in> set (apply_update ?upd ?ds)
        \<union> set (case retry of Some i \<Rightarrow> [retry_directive i now d (oc_strategy oc)] | None \<Rightarrow> [])" and zy: "y = ?rec z"
      by (rule imageE)
    then have z: "z \<in> set (apply_update ?upd ?ds) \<or> (\<exists>i. retry = Some i \<and> z = retry_directive i now d (oc_strategy oc))"
      by (cases retry) auto
    have "map ld_id (apply_update ?upd ?ds) = map ld_id ?ds" by (rule reported_ids)
    then have "ld_id ` set (apply_update ?upd ?ds) = ld_id ` set ?ds" by (metis set_map)
    moreover have "ld_id y = ld_id z" by (simp add: zy)
    ultimately have "z \<notin> set (apply_update ?upd ?ds)" using y(2) by (metis imageI)
    then obtain i where i: "retry = Some i" "z = retry_directive i now d (oc_strategy oc)" using z by blast
    have "dr_state (ld_row y) = dr_state (ld_row z)" "ld_permit y = ld_permit z" "ld_attempt y = ld_attempt z" by (simp_all add: zy)
    with c i show ?thesis by (simp add: retry_directive_def answer)
  qed
  moreover have "map ld_id (kd_directives (xd_claims db')) = map ld_id ?ds @ (case retry of Some i \<Rightarrow> [i] | None \<Rightarrow> [])"
    unfolding ds' using reported_ids [of cl d _ rq oc ?ds] by (simp add: comp_def if_distrib retry_directive_def cong: if_cong split: option.split)
  then have "\<exists>new. map ld_id (kd_directives (xd_claims db')) = map ld_id ?ds @ new
      \<and> length new = (if xr_retry_scheduled answer then 1 else 0)"
    by (intro exI [of _ "case retry of Some i \<Rightarrow> [i] | None \<Rightarrow> []"]) (simp add: answer split: option.split)
  moreover have "xs_retry_enabled se \<and> open_in_window se cl (xq_session rq) now (kd_directives (xd_claims db')) \<le> xs_retry_limit se"
    if "xr_retry_scheduled answer"
  proof -
    from that have "retry \<noteq> None" by (simp add: answer)
    then obtain i where i: "retry = Some i" by blast
    have "open_in_window se cl (xq_session rq) now (kd_directives (xd_claims db'))
        \<le> open_in_window se cl (xq_session rq) now (apply_update ?upd ?ds) + 1"
      unfolding ds' open_in_window_record using open_in_window_append [of se cl "xq_session rq" now "apply_update ?upd ?ds" "[retry_directive i now d (oc_strategy oc)]"]
      by (simp add: i)
    with c i show ?thesis by simp
  qed
  ultimately show ?thesis using x(1,4) fenced by blast
qed

text \<open>
  C36. A report is replayed, not repeated (store.py, report_execution): after a report that ended a directive, the same
  report by the same executor gets the state, retry directive, failure class, strategy, feedback, lease and verification
  of the first answer and changes nothing.  What the first answer also told, of the validations, of the hand-off that was
  delivered and of the objective, the replay leaves out.  A report under the same idempotency key with another payload is
  refused and changes nothing.
\<close>

theorem reports_are_replayed:
  assumes ok: "report_execution red se cl subject ids checkpoint paused ctx deliver others rq now db = (Ok answer, db')"
    and row: "report_row cl rq db = Some d" and live: "dr_state (ld_row d) \<notin> set TERMINAL_STATES"
    and work: "xq_state rq \<notin> {D_CANCELLED, D_REJECTED}" and ended: "xr_state answer \<in> set TERMINAL_STATES"
    and distinct: "distinct (map ld_id (kd_directives (xd_claims (others db))))" and still: "report_row cl rq (others db) \<noteq> None"
    and same: "xq_session rq' = xq_session rq" "xq_directive rq' = xq_directive rq" "idempotency_key rq' = idempotency_key rq"
  shows "report_execution red' se' cl subject' ids' checkpoint' paused' ctx' deliver' others' rq' now' db' =
    (if idempotency_key rq = None \<or> payload_hash rq' = payload_hash rq then Ok (answer\<lparr>xr_replay := True, xr_extras := None\<rparr>)
     else Err KeyConflict, db')
    \<and> (\<exists>i h h' orow. deliver i h = (Ok orow, h') \<and> xr_extras answer = Some (report_extras_of red se checkpoint ctx rq d orow))"
proof -
  obtain oc retry orow db1 delivered h where
    v: "td_allowed (validate_transition (request_of (ld_row d) (xq_state rq) (cl_consumer cl) (xq_lease rq)
       (fst (report_permit cl rq d now (kd_permits (xd_claims db)))) (xs_lease_strict se)))"
    and oc: "report_outcome red se checkpoint paused rq d = Ok oc"
    and one: "hits (fenced_update cl d (report_update (cl_consumer cl) (dr_lease (ld_row d)) (oc_state oc) now) (report_columns rq d oc))
       (kd_directives (xd_claims (others db))) = 1"
    and commit: "commit_report se cl subject ids rq now paused d oc (others db) = (Ok (retry, orow), db1)"
    and deliv: "deliver (ob_id orow) (xd_handoffs db1) = (Ok delivered, h)"
    and db': "db' = record_result (xq_directive rq) (merged_plan d oc) (result_dict retry (oc_failure oc) (oc_strategy oc) (retry_feedback red se d oc)) (db1\<lparr>xd_handoffs := h\<rparr>)"
    and answer: "answer = \<lparr>xr_directive = xq_directive rq, xr_state = oc_state oc, xr_retry_scheduled = (retry \<noteq> None),
       xr_retry_directive = opt_py PStr retry, xr_failure = opt_py (\<lambda>f. PStr (failure_str f)) (oc_failure oc),
       xr_strategy = opt_py (\<lambda>s. PStr (strategy_str s)) (oc_strategy oc),
       xr_feedback = PDict (retry_feedback red se d oc), xr_lease = dr_lease (ld_row d), xr_verification = ''unverified'', xr_replay = False,
       xr_extras = Some (report_extras_of red se checkpoint ctx rq d delivered)\<rparr>"
    by (rule report_execution_work [OF ok row live work])
  let ?upd = "fenced_update cl d (report_update (cl_consumer cl) (dr_lease (ld_row d)) (oc_state oc) now) (report_columns rq d oc)"
  let ?ds = "kd_directives (xd_claims (others db))" and ?rec = "\<lambda>y. if ld_id y = xq_directive rq
    then y\<lparr>ld_plan := merged_plan d oc, ld_result := PDict (result_dict retry (oc_failure oc) (oc_strategy oc) (retry_feedback red se d oc))\<rparr> else y"
  let ?new = "case retry of Some i \<Rightarrow> [retry_directive i now d (oc_strategy oc)] | None \<Rightarrow> []"
  have id: "ld_id d = xq_directive rq" using find_in [OF row [unfolded report_row_def]] by simp
  have hit: "ld_id x = ld_id d" if "?upd x = Some x'" for x x' using that by (auto simp: fenced_update_def split: if_split_asm)
  obtain x x' where x: "x \<in> set ?ds" "?upd x = Some x'" "x' \<in> set (apply_update ?upd ?ds)" "ld_id x = ld_id d"
    by (rule apply_update_one [OF one hit]) blast
  obtain q where q: "find (\<lambda>y. ld_id y = xq_directive rq \<and> of_session cl (xq_session rq) y) ?ds = Some q"
    using still unfolding report_row_def by blast
  have "q = x" using distinct_on [OF distinct _ x(1), of q] find_in [OF q] x(4) id by simp
  then have sess: "of_session cl (xq_session rq) x" using find_in [OF q] by simp
  have x': "ld_id x' = xq_directive rq" "of_session cl (xq_session rq) x'" "dr_state (ld_row x') = oc_state oc"
    "dr_lease (ld_row x') = dr_lease (ld_row d)" "dr_executor (ld_row x') = Some (cl_consumer cl)" "ld_verification x' = ''unverified''"
    "ld_key x' = idempotency_key rq" "ld_hash x' = Some (payload_hash rq)"
    using x(2) sess id by (auto simp: fenced_update_def report_update_def of_session_def split: if_split_asm)
  have ds': "kd_directives (xd_claims db') = map ?rec (apply_update ?upd ?ds @ ?new)"
    using commit_report_Ok [OF commit] by (simp add: db' record_result_def)
  have ids_upd: "map ld_id (apply_update ?upd ?ds) = map ld_id ?ds" by (rule reported_ids)
  have "find (\<lambda>y. ld_id y = xq_directive rq \<and> of_session cl (xq_session rq) y) (kd_directives (xd_claims db')) = Some (?rec x')"
    unfolding ds' map_append
  proof (rule find_first_part)
    show "distinct (map ld_id (map ?rec (apply_update ?upd ?ds)))" using distinct ids_upd by (simp add: comp_def if_distrib cong: if_cong)
    show "?rec x' \<in> set (map ?rec (apply_update ?upd ?ds))" unfolding set_map using x(3) by (rule imageI)
    show "ld_id (?rec x') = xq_directive rq \<and> of_session cl (xq_session rq) (?rec x')" using x' by (simp add: of_session_def)
  qed (use x'(1) in simp)
  then have row': "report_row cl rq' db' = Some (?rec x')" unfolding report_row_def same .
  have st: "dr_state (ld_row (?rec x')) \<in> set TERMINAL_STATES" using ended x' by (simp add: answer)
  have "text_or_none (dr_executor (ld_row (?rec x'))) \<in> {None, Some (cl_consumer cl)}" using x' by (simp add: or_none_def)
  moreover have "\<exists>i h h' orow. deliver i h = (Ok orow, h') \<and> xr_extras answer = Some (report_extras_of red se checkpoint ctx rq d orow)"
    using deliv by (auto simp: answer)
  ultimately show ?thesis using row' st x' same(3)
    by (cases "idempotency_key rq") (auto simp: report_execution_def report_again_def replay_reply_def idempotency_outcome_def answer id
      result_dict_def truthy_def)
qed

section \<open>A report of progress\<close>

text \<open>The holder may report \<open>in_progress\<close>: the row stays in progress and is stamped as finished.\<close>

lemma progress_report_finishes:
  assumes row: "dr_state row = D_IN_PROGRESS" "dr_executor row = Some executor" "dr_lease row = lease" "executor \<noteq> []"
  shows "td_allowed (validate_transition (request_of row D_IN_PROGRESS executor (Some lease) True strict))
    \<and> (\<exists>row'. report_update executor lease D_IN_PROGRESS now row = Some row' \<and> dr_state row' = D_IN_PROGRESS \<and> dr_finished row' = Some now)"
proof -
  let ?p = "''in_progress''"
  have "case find_transition ?p ?p of Some t \<Rightarrow> \<not> tr_system t \<and> tr_source t = D_IN_PROGRESS | None \<Rightarrow> False" by code_simp
  moreover have "\<not> is_terminal ?p" by code_simp
  ultimately show ?thesis using row
    by (simp add: report_update_def validate_transition_def request_of_def Let_def apply_transition_def current_lease_def
      split: option.splits del: list.inject)
qed

section \<open>A failed command\<close>

definition running_directive :: lite_directive where
  "running_directive = commit_directive\<lparr>ld_requires := False, ld_row := (ld_row commit_directive)\<lparr>dr_state := D_IN_PROGRESS,
     dr_executor := Some ''codex'', dr_lease := 1, dr_started := Some (Aware 0 0)\<rparr>\<rparr>"

definition running_db :: report_db where
  "running_db = \<lparr>xd_claims = claim_sample\<lparr>kd_directives := [running_directive]\<rparr>, xd_handoffs = no_handoffs\<rparr>"

definition failed_report :: report_request where
  "failed_report = \<lparr>xq_session = ''S'', xq_directive = ''d'', xq_state = D_FAILED, xq_result = ''failure'', xq_reason = Some ''command failed'',
     xq_details = [(''command'', PStr ''make'')], xq_step_id = None, xq_step_output = None, xq_contract = None, xq_rollback = False,
     xq_lease = Some 1, xq_key = Some ''k'', xq_cancel = None\<rparr>"

definition sample_settings :: report_settings where
  "sample_settings = \<lparr>xs_typed_contract = False, xs_milestone_mode = PNone, xs_retry_enabled = True, xs_retry_max = 3, xs_retry_window = 30,
     xs_retry_limit = 3, xs_lease_strict = True, xs_retention = 90, xs_feedback = True, xs_claim = claim_sample_settings\<rparr>"

definition sample_ids :: report_ids where
  "sample_ids = \<lparr>xi_retry = ''d2'', xi_outbox = ''o'', xi_event = ''e'', xi_record = ''r''\<rparr>"

definition no_context :: report_context where
  "no_context = \<lparr>rx_meta = [], rx_quality = PDict [], rx_objective = PDict []\<rparr>"

abbreviation plain :: redaction where
  "plain \<equiv> (\<lambda>s. (s, False))"

lemma running_simps:
  "ld_id running_directive = ''d''" "ld_session running_directive = ''S''" "ld_workspace running_directive = ''W''" "ld_user running_directive = ''O''"
  "dr_state (ld_row running_directive) = D_IN_PROGRESS" "dr_executor (ld_row running_directive) = Some ''codex''"
  "dr_lease (ld_row running_directive) = 1" "\<not> ld_requires running_directive" "ld_attempt running_directive = 1"
  by (simp_all add: running_directive_def commit_directive_def)

lemma dict_set_other: "k \<noteq> k' \<Longrightarrow> dict_get (dict_set k v d) k' = dict_get d k'"
  by (simp add: update_conv)

lemma update_dict_other: "k \<notin> fst ` set m \<Longrightarrow> dict_get (update_dict d m) k = dict_get d k"
  unfolding update_dict_def by (induction m arbitrary: d) (auto simp: dict_set_other)

lemma failed_outcome:
  obtains oc f where "report_outcome plain sample_settings None False failed_report running_directive = Ok oc"
    "oc_state oc = D_FAILED" "oc_failure oc = Some f" "oc_strategy oc = Some (retry_strategy_for_attempt 2 f False)"
    "oc_reason oc = Some ''command failed''"
proof -
  let ?details = "[(''command'', PStr ''make'')]"
  obtain r m where rm: "report_milestone plain None failed_report running_directive ?details = (r, m)" by fastforce
  have keys: "''dependency_plan'' \<notin> fst ` set m" using rm by (auto simp: report_milestone_def Let_def dict_set_keys milestone_dict_def)
  have merged: "merge_report_details failed_report = ?details" by (simp add: merge_report_details_def failed_report_def)
  have "normalize_handoff_mode PNone = ''shadow''" by code_simp
  moreover have "plan_errors (update_dict ?details m) running_directive = []"
    using update_dict_other [OF keys, of ?details]
    by (simp add: plan_errors_def py_get_def py_or_def truthy_def running_directive_def commit_directive_def)
  moreover have "contract_errors False d = []" for d by (simp add: contract_errors_def Let_def)
  moreover have "xq_state failed_report = D_FAILED" "xq_reason failed_report = Some ''command failed''" "\<not> xq_rollback failed_report"
    "py_get (xq_details failed_report) ''rollback_available'' = PNone" "xs_milestone_mode sample_settings = PNone"
    "\<not> xs_typed_contract sample_settings"
    by (simp_all add: failed_report_def sample_settings_def)
  ultimately show thesis
    using that by (simp add: report_outcome_def merged rm Let_def running_simps truthy_def)
qed

lemma running_row: "report_row agent failed_report running_db = Some running_directive"
  by (simp add: report_row_def running_db_def failed_report_def of_session_def agent_def running_simps)

lemma sample_report:
  obtains answer db' where "report_execution plain sample_settings agent ''O'' sample_ids None False no_context (\<lambda>i h. (Ok sample_row, h)) (\<lambda>d. d)
      failed_report (Aware 5 0) running_db = (Ok answer, db')" "xr_state answer = D_FAILED" "xr_retry_scheduled answer"
proof -
  obtain oc f where oc: "report_outcome plain sample_settings None False failed_report running_directive = Ok oc"
    "oc_state oc = D_FAILED" "oc_strategy oc = Some (retry_strategy_for_attempt 2 f False)"
    by (rule failed_outcome) blast
  have "oc_strategy oc \<noteq> Some ESCALATE" using oc(3) by (simp add: retry_strategy_for_attempt_def)
  let ?upd = "fenced_update agent running_directive (report_update ''codex'' 1 D_FAILED (Aware 5 0)) (report_columns failed_report running_directive oc)"
  have ag: "cl_consumer agent = ''codex''" "cl_workspace agent = ''W''" "cl_user agent = ''O''" by (simp_all add: agent_def)
  have ds: "kd_directives (xd_claims running_db) = [running_directive]" "hd_outbox (xd_handoffs running_db) = []"
    by (simp_all add: running_db_def no_handoffs_def)
  obtain x' where upd: "?upd running_directive = Some x'" and x': "dr_state (ld_row x') = D_FAILED"
    by (simp add: fenced_update_def report_update_def running_simps ag)
  have hits: "hits ?upd [running_directive] = 1" using upd by (simp add: hits_def)
  have v: "td_allowed (validate_transition (request_of (ld_row running_directive) D_FAILED ''codex'' (Some 1) True True))" by code_simp
  have live: "dr_state (ld_row running_directive) \<notin> set TERMINAL_STATES" by (simp add: running_simps TERMINAL_STATES_def)
  have due: "retries_due sample_settings agent failed_report (Aware 5 0) False running_directive oc (apply_update ?upd [running_directive])"
    using oc \<open>oc_strategy oc \<noteq> Some ESCALATE\<close> x' upd by (simp add: retries_due_def open_in_window_def sample_settings_def apply_update_def running_simps)
  obtain row rows where enq: "enqueue_handoff ''o'' ''e'' ''r'' (Aware 5 0) (report_completion agent ''O'' failed_report oc) [] = Ok (row, rows)"
    by (simp add: enqueue_handoff_def Let_def) (simp add: new_outbox_row_def)
  obtain db1 where commit: "commit_report sample_settings agent ''O'' sample_ids failed_report (Aware 5 0) False running_directive oc running_db
      = (Ok (Some ''d2'', row), db1)"
    unfolding commit_report_def Let_def ds using due enq by (simp add: ag running_simps oc sample_ids_def)
  have p: "report_permit agent failed_report running_directive (Aware 5 0) ps = (True, ''ok'')" for ps by (simp add: report_permit_def running_simps)
  have rq: "xq_state failed_report = D_FAILED" "xq_lease failed_report = Some 1" "xs_lease_strict sample_settings"
    by (simp_all add: failed_report_def sample_settings_def)
  have work: "report_work plain sample_settings agent ''O'' sample_ids None False no_context (\<lambda>i h. (Ok sample_row, h)) failed_report (Aware 5 0) running_directive running_db
    = (Ok \<lparr>xr_directive = ''d'', xr_state = D_FAILED, xr_retry_scheduled = True, xr_retry_directive = PStr ''d2'',
          xr_failure = opt_py (\<lambda>f. PStr (failure_str f)) (oc_failure oc), xr_strategy = opt_py (\<lambda>s. PStr (strategy_str s)) (oc_strategy oc),
          xr_feedback = PDict (retry_feedback plain sample_settings running_directive oc), xr_lease = 1, xr_verification = ''unverified'',
          xr_replay = False, xr_extras = Some (report_extras_of plain sample_settings None no_context failed_report running_directive sample_row)\<rparr>,
       record_result ''d'' (merged_plan running_directive oc) (result_dict (Some ''d2'') (oc_failure oc) (oc_strategy oc)
         (retry_feedback plain sample_settings running_directive oc)) db1)"
    using hits commit by (simp add: report_work_def oc ds ag running_simps) (simp add: failed_report_def)
  have "report_execution plain sample_settings agent ''O'' sample_ids None False no_context (\<lambda>i h. (Ok sample_row, h)) (\<lambda>d. d)
      failed_report (Aware 5 0) running_db
    = report_work plain sample_settings agent ''O'' sample_ids None False no_context (\<lambda>i h. (Ok sample_row, h)) failed_report (Aware 5 0) running_directive running_db"
    by (simp add: report_execution_def running_row live p rq v ag)
  from that [OF this [unfolded work]] show thesis by simp
qed

theorem reports_hide_tool_errors_witness:
  "\<exists>oc f. report_outcome plain sample_settings None False failed_report running_directive = Ok oc \<and> oc_failure oc = Some f
    \<and> oc_reason oc = Some ''command failed'' \<and> f \<noteq> TOOL_ERROR \<and> oc_strategy oc \<noteq> Some NARROW_SCOPE"
proof -
  obtain oc f where oc: "report_outcome plain sample_settings None False failed_report running_directive = Ok oc"
    "oc_failure oc = Some f" "oc_reason oc = Some ''command failed''" by (rule failed_outcome) blast
  from reports_hide_tool_errors [OF oc(1,2)] oc show ?thesis by (simp add: running_simps)
qed

theorem reports_are_fenced_witness:
  "\<exists>answer db'. report_execution plain sample_settings agent ''O'' sample_ids None False no_context (\<lambda>i h. (Ok sample_row, h)) (\<lambda>d. d)
      failed_report (Aware 5 0) running_db = (Ok answer, db')
    \<and> (\<exists>x' \<in> set (kd_directives (xd_claims db')). ld_id x' = ''d'' \<and> dr_state (ld_row x') = D_FAILED)"
proof -
  obtain answer db' where run: "report_execution plain sample_settings agent ''O'' sample_ids None False no_context (\<lambda>i h. (Ok sample_row, h)) (\<lambda>d. d)
      failed_report (Aware 5 0) running_db = (Ok answer, db')" "xr_state answer = D_FAILED"
    by (rule sample_report)
  have "dr_state (ld_row running_directive) \<notin> set TERMINAL_STATES" "xq_state failed_report \<notin> {D_CANCELLED, D_REJECTED}"
    by (simp_all add: running_simps TERMINAL_STATES_def failed_report_def)
  from reports_are_fenced [OF run(1) running_row this] run show ?thesis unfolding running_simps by auto
qed

theorem reports_are_replayed_witness:
  "\<exists>answer db'. report_execution plain sample_settings agent ''O'' sample_ids None False no_context (\<lambda>i h. (Ok sample_row, h)) (\<lambda>d. d)
      failed_report (Aware 5 0) running_db = (Ok answer, db') \<and> xr_retry_scheduled answer
    \<and> report_execution plain sample_settings agent ''O'' (sample_ids\<lparr>xi_retry := ''d3''\<rparr>) None False no_context (\<lambda>i h. (Ok sample_row, h)) (\<lambda>d. d)
      failed_report (Aware 9 0) db' = (Ok (answer\<lparr>xr_replay := True, xr_extras := None\<rparr>), db')"
proof -
  obtain answer db' where run: "report_execution plain sample_settings agent ''O'' sample_ids None False no_context (\<lambda>i h. (Ok sample_row, h)) (\<lambda>d. d)
      failed_report (Aware 5 0) running_db = (Ok answer, db')" "xr_state answer = D_FAILED" "xr_retry_scheduled answer"
    by (rule sample_report)
  have a: "dr_state (ld_row running_directive) \<notin> set TERMINAL_STATES" "xq_state failed_report \<notin> {D_CANCELLED, D_REJECTED}"
    "xr_state answer \<in> set TERMINAL_STATES" "distinct (map ld_id (kd_directives (xd_claims running_db)))" "report_row agent failed_report running_db \<noteq> None"
    using run(2) by (simp_all add: running_simps TERMINAL_STATES_def failed_report_def running_db_def running_row [unfolded running_db_def failed_report_def])
  from reports_are_replayed [OF run(1) running_row a refl refl refl] run show ?thesis by auto
qed

end
