(* ===== verification/Scope_Facts.thy ===== *)
theory Scope_Facts
  imports Scope
begin

text \<open>
  What the scope clauses mean.  A clause is the rendering of a condition; a condition is evaluated on a row by an
  engine, of which the clauses use two functions, trimming and lowering.  Then: what a scope admits, and whom
  the two documented engines shut out.
\<close>

section \<open>Conditions\<close>

datatype sql_expr = Column pystr | JsonKey pystr pystr | Trim sql_expr | LowerTrim sql_expr

datatype condition = Equals sql_expr pystr bound | OneOf sql_expr pystr "pystr list" | After sql_expr pystr bound
  | Missing sql_expr | Blank sql_expr | AnyOf "condition list"

fun render_expr :: "scope_dialect \<Rightarrow> sql_expr \<Rightarrow> pystr" where
  "render_expr d (Column c) = c"
| "render_expr d (JsonKey c k) = json_text d c k"
| "render_expr d (Trim e) = trimmed d (render_expr d e)"
| "render_expr d (LowerTrim e) = trimmed_lower d (render_expr d e)"

definition placeholder :: "scope_dialect \<Rightarrow> pystr \<Rightarrow> pystr" where
  "placeholder d n = (case d of POSTGRES \<Rightarrow> '':'' @ n | SQLITE \<Rightarrow> ''?'')"

definition membership :: "scope_dialect \<Rightarrow> pystr \<Rightarrow> pystr list \<Rightarrow> pystr" where
  "membership d n vs = (case d of POSTGRES \<Rightarrow> ''= ANY(CAST(:'' @ n @ '' AS text[]))''
     | SQLITE \<Rightarrow> ''IN ('' @ py_join '', '' (map (\<lambda>_. ''?'') vs) @ '')'')"

fun render :: "scope_dialect \<Rightarrow> condition \<Rightarrow> pystr" where
  "render d (Equals e n v) = render_expr d e @ '' = '' @ placeholder d n"
| "render d (OneOf e n vs) = render_expr d e @ '' '' @ membership d n vs"
| "render d (After e n v) = render_expr d e @ '' > '' @ placeholder d n"
| "render d (Missing e) = render_expr d e @ '' IS NULL''"
| "render d (Blank e) = render_expr d e @ '' = '' @ [CHR 39, CHR 39]"
| "render d (AnyOf cs) = ''('' @ py_join '' OR '' (map (render d) cs) @ '')''"

fun bindings :: "condition \<Rightarrow> (pystr \<times> bound) list" where
  "bindings (Equals e n v) = [(n, v)]"
| "bindings (OneOf e n vs) = [(n, BList vs)]"
| "bindings (After e n v) = [(n, v)]"
| "bindings (Missing e) = []"
| "bindings (Blank e) = []"
| "bindings (AnyOf cs) = concat (map bindings cs)"

definition positional_of :: "bound \<Rightarrow> bound list" where
  "positional_of v = (case v of BList vs \<Rightarrow> map BText vs | _ \<Rightarrow> [v])"

definition rendering :: "scope_dialect \<Rightarrow> condition list \<Rightarrow> scope_predicate" where
  "rendering d cs = \<lparr>sp_clauses = map (render d) cs,
     sp_named = (case d of POSTGRES \<Rightarrow> concat (map bindings cs) | SQLITE \<Rightarrow> []),
     sp_positional = (case d of POSTGRES \<Rightarrow> [] | SQLITE \<Rightarrow> concat (map (\<lambda>c. concat (map (\<lambda>(n, v). positional_of v) (bindings c))) cs))\<rparr>"

definition bound_names :: "condition list \<Rightarrow> pystr set" where
  "bound_names cs = fst ` set (concat (map bindings cs))"

section \<open>Rendering\<close>

lemma dict_set_fresh: "k \<notin> fst ` set d \<Longrightarrow> dict_set k v d = d @ [(k, v)]"
  by (induction d) auto

lemma rendering_empty: "empty_predicate = rendering d []"
  by (cases d) (simp_all add: rendering_def empty_predicate_def)

definition scalar :: "bound \<Rightarrow> bool" where
  "scalar v = (\<forall>vs. v \<noteq> BList vs)"

lemma scalar_simps [simp]: "scalar (BText s)" "scalar (BTime t)" by (simp_all add: scalar_def)

lemma positional_scalar [simp]: "scalar v \<Longrightarrow> positional_of v = [v]"
  by (cases v) (simp_all add: positional_of_def scalar_def)

lemma add_equals_renders:
  assumes "n \<notin> bound_names cs" "scalar v" "column = render_expr d e"
  shows "add_equals d column n v (rendering d cs) = rendering d (cs @ [Equals e n v])"
  using assms dict_set_fresh [of n "concat (map bindings cs)" v]
  by (cases d) (simp_all add: add_equals_def bind_one_def add_clause_def rendering_def placeholder_def bound_names_def)

lemma bind_one_renders:
  assumes "n \<notin> bound_names cs" "scalar v" "clause (placeholder d n) = render d c" "bindings c = [(n, v)]"
  shows "(let (ph, b) = bind_one d n v (rendering d cs) in add_clause (clause ph) b) = rendering d (cs @ [c])"
  using assms dict_set_fresh [of n "concat (map bindings cs)" v]
  by (cases d) (simp_all add: bind_one_def add_clause_def rendering_def placeholder_def bound_names_def)

lemma bind_membership_renders:
  assumes "n \<notin> bound_names cs" "clause (membership d n vs) = render d c" "bindings c = [(n, BList vs)]"
  shows "(let (tl, b) = bind_membership d n vs (rendering d cs) in add_clause (clause tl) b) = rendering d (cs @ [c])"
  using assms dict_set_fresh [of n "concat (map bindings cs)" "BList vs"]
  by (cases d) (simp_all add: bind_membership_def add_clause_def rendering_def membership_def bound_names_def positional_of_def)

definition workspace_cond :: "resolved_scope \<Rightarrow> bool \<Rightarrow> pystr \<Rightarrow> condition" where
  "workspace_cond sc strict ctx = (let ws = JsonKey ctx WORKSPACE_TAG; eq = Equals ws ''scope_workspace'' (BText (sc_workspace sc)) in
     if strict then eq else AnyOf [Missing ws, Blank ws, eq])"

definition owner_cond :: "resolved_scope \<Rightarrow> bool \<Rightarrow> pystr \<Rightarrow> condition" where
  "owner_cond sc strict ctx = (let ow = JsonKey ctx OWNER_TAG; mem = OneOf (LowerTrim ow) ''scope_owners'' (scope_owners sc) in
     if strict then mem else AnyOf [Missing ow, Blank (Trim ow), mem])"

definition events_conds :: "resolved_scope \<Rightarrow> bool \<Rightarrow> pystr \<Rightarrow> bool \<Rightarrow> condition list" where
  "events_conds sc strict ctx include_project =
     workspace_cond sc strict ctx # (if scope_owners sc = [] then [] else [owner_cond sc strict ctx])
     @ (case sc_project sc of Some p \<Rightarrow> if include_project \<and> is_bound sc \<and> p \<noteq> []
          then [Equals (JsonKey ctx PROJECT_TAG) ''scope_project'' (BText p)] else [] | None \<Rightarrow> [])"

lemma workspace_renders:
  "(if strict then add_equals d (json_text d ctx WORKSPACE_TAG) ''scope_workspace'' (BText (sc_workspace sc)) empty_predicate
    else (let (ph, b) = bind_one d ''scope_workspace'' (BText (sc_workspace sc)) empty_predicate in
      add_clause (''('' @ json_text d ctx WORKSPACE_TAG @ '' IS NULL OR '' @ json_text d ctx WORKSPACE_TAG @ '' = '' @ [CHR 39, CHR 39] @ '' OR ''
        @ json_text d ctx WORKSPACE_TAG @ '' = '' @ ph @ '')'') b)) = rendering d [workspace_cond sc strict ctx]"
  using add_equals_renders [of "''scope_workspace''" "[]" "BText (sc_workspace sc)" "json_text d ctx WORKSPACE_TAG" d "JsonKey ctx WORKSPACE_TAG"]
    bind_one_renders [of "''scope_workspace''" "[]" "BText (sc_workspace sc)" "\<lambda>ph. ''('' @ json_text d ctx WORKSPACE_TAG @ '' IS NULL OR '' @ json_text d ctx WORKSPACE_TAG @ '' = '' @ [CHR 39, CHR 39] @ '' OR ''
        @ json_text d ctx WORKSPACE_TAG @ '' = '' @ ph @ '')''" d "workspace_cond sc False ctx"]
  by (cases strict) (simp_all add: workspace_cond_def rendering_empty [of d] bound_names_def Let_def)

lemma owners_render:
  "(let (tl, b) = bind_membership d ''scope_owners'' (scope_owners sc) (rendering d [workspace_cond sc strict ctx]) in
      add_clause (if strict then trimmed_lower d (json_text d ctx OWNER_TAG) @ '' '' @ tl
        else ''('' @ json_text d ctx OWNER_TAG @ '' IS NULL OR '' @ trimmed d (json_text d ctx OWNER_TAG) @ '' = '' @ [CHR 39, CHR 39] @ '' OR ''
          @ trimmed_lower d (json_text d ctx OWNER_TAG) @ '' '' @ tl @ '')'') b)
    = rendering d [workspace_cond sc strict ctx, owner_cond sc strict ctx]"
  using bind_membership_renders [of "''scope_owners''" "[workspace_cond sc strict ctx]"
     "\<lambda>tl. if strict then trimmed_lower d (json_text d ctx OWNER_TAG) @ '' '' @ tl
        else ''('' @ json_text d ctx OWNER_TAG @ '' IS NULL OR '' @ trimmed d (json_text d ctx OWNER_TAG) @ '' = '' @ [CHR 39, CHR 39] @ '' OR ''
          @ trimmed_lower d (json_text d ctx OWNER_TAG) @ '' '' @ tl @ '')''" d "scope_owners sc" "owner_cond sc strict ctx"]
  by (cases strict) (simp_all add: workspace_cond_def owner_cond_def bound_names_def Let_def)

lemma events_renders: "events_scope_predicate sc d strict ctx include_project = rendering d (events_conds sc strict ctx include_project)"
proof -
  have names: "bound_names [workspace_cond sc strict ctx] = {''scope_workspace''}"
    "bound_names [workspace_cond sc strict ctx, owner_cond sc strict ctx] = {''scope_workspace'', ''scope_owners''}"
    by (auto simp: workspace_cond_def owner_cond_def bound_names_def Let_def)
  let ?cs = "workspace_cond sc strict ctx # (if scope_owners sc = [] then [] else [owner_cond sc strict ctx])"
  have project: "add_equals d (json_text d ctx PROJECT_TAG) ''scope_project'' (BText p) (rendering d ?cs)
      = rendering d (?cs @ [Equals (JsonKey ctx PROJECT_TAG) ''scope_project'' (BText p)])" for p
    by (rule add_equals_renders) (simp_all add: names)
  show ?thesis
    unfolding events_scope_predicate_def Let_def [of "json_text d ctx WORKSPACE_TAG"] Let_def [of "json_text d ctx OWNER_TAG"]
      Let_def [of "scope_owners sc"] workspace_renders
    using project
    by (cases "scope_owners sc = []"; cases "sc_project sc") (simp_all add: owners_render [unfolded Let_def] events_conds_def Let_def)
qed

definition column_eq :: "pystr option \<Rightarrow> pystr \<Rightarrow> pystr \<Rightarrow> pystr \<Rightarrow> condition" where
  "column_eq al column n s = Equals (Column (qualified_column column al)) n (BText s)"

definition goals_conds :: "resolved_scope \<Rightarrow> pystr option \<Rightarrow> pystr option \<Rightarrow> condition list" where
  "goals_conds sc session al =
     [column_eq al ''workspace_id'' ''scope_workspace'' (sc_workspace sc), column_eq al ''user_id'' ''scope_owner'' (sc_owner sc)]
     @ (case session of Some s \<Rightarrow> if s \<noteq> [] then [column_eq al ''session_id'' ''scope_session'' s] else [] | None \<Rightarrow> [])"

definition null_or_eq :: "pystr option \<Rightarrow> pystr \<Rightarrow> pystr \<Rightarrow> pystr \<Rightarrow> condition" where
  "null_or_eq al column n s = AnyOf [column_eq al column n s, Missing (Column (qualified_column column al))]"

definition observations_conds :: "resolved_scope \<Rightarrow> pystr option \<Rightarrow> bool \<Rightarrow> bool \<Rightarrow> condition list" where
  "observations_conds sc al include_project allow_null =
     [column_eq al ''workspace_id'' ''scope_workspace'' (sc_workspace sc), column_eq al ''subject_user_id'' ''scope_subject'' (sc_subject sc)]
     @ (case sc_project sc of Some p \<Rightarrow> if include_project \<and> is_bound sc \<and> p \<noteq> []
          then [(if allow_null then null_or_eq else column_eq) al ''project_id'' ''scope_project'' p] else [] | None \<Rightarrow> [])"

definition handoff_owners :: "resolved_scope \<Rightarrow> pystr list" where
  "handoff_owners sc = filter (\<lambda>o'. py_strip o' \<noteq> []) (sql_owner_ids sc)"

definition handoffs_conds :: "resolved_scope \<Rightarrow> scope_dialect \<Rightarrow> (pystr \<times> pystr) option \<Rightarrow> now_arg option \<Rightarrow> pystr option \<Rightarrow> condition list" where
  "handoffs_conds sc d session now al =
     column_eq al ''workspace_id'' ''scope_workspace'' (sc_workspace sc)
     # (if handoff_owners sc = [] then [] else [OneOf (Column (qualified_column ''owner_id'' al)) ''scope_owners'' (handoff_owners sc)])
     @ (case now of None \<Rightarrow> [] | Some t \<Rightarrow> [After (Column (qualified_column ''expires_at'' al)) ''scope_now'' (bound_now d t)])
     @ (case session of None \<Rightarrow> [] | Some (n, s) \<Rightarrow> [column_eq al ''session_id'' n s])
     @ (case sc_project sc of Some p \<Rightarrow> if sc_binding sc = PROJECT_BOUND \<and> p \<noteq> []
          then [null_or_eq al ''project_id'' ''scope_project'' p] else [] | None \<Rightarrow> [])"

lemma column_eq_simps [simp]: "bindings (column_eq al c n s) = [(n, BText s)]" "bindings (null_or_eq al c n s) = [(n, BText s)]"
  by (simp_all add: column_eq_def null_or_eq_def)

lemma bound_names_simps [simp]: "bound_names [] = {}" "bound_names (c # cs) = fst ` set (bindings c) \<union> bound_names cs"
  "bound_names (cs @ ds) = bound_names cs \<union> bound_names ds"
  by (auto simp: bound_names_def)

lemma add_column_renders:
  "n \<notin> bound_names cs \<Longrightarrow> add_equals d (qualified_column c al) n (BText s) (rendering d cs) = rendering d (cs @ [column_eq al c n s])"
  by (simp add: add_equals_renders column_eq_def)

lemma add_null_renders:
  "n \<notin> bound_names cs \<Longrightarrow> add_equals_or_null d (qualified_column c al) n (BText s) (rendering d cs) = rendering d (cs @ [null_or_eq al c n s])"
  unfolding add_equals_or_null_def by (rule bind_one_renders) (simp_all add: null_or_eq_def column_eq_def)

lemma goals_renders: "goals_scope_predicate sc d session al = rendering d (goals_conds sc session al)"
  by (auto simp: goals_scope_predicate_def goals_conds_def rendering_empty [of d] add_column_renders Let_def split: option.split)

lemma observations_renders: "observations_scope_predicate sc d al include_project allow_null = rendering d (observations_conds sc al include_project allow_null)"
  by (auto simp: observations_scope_predicate_def observations_conds_def rendering_empty [of d] add_column_renders add_null_renders Let_def
      split: option.split)

lemma scalar_now [simp]: "scalar (bound_now d t)"
  by (cases t; cases d) (simp_all add: bound_now_def)

lemma after_renders:
  "n \<notin> bound_names cs \<Longrightarrow> (let (ph, b) = bind_one d n (bound_now d t) (rendering d cs) in add_clause (qualified_column c al @ '' > '' @ ph) b)
    = rendering d (cs @ [After (Column (qualified_column c al)) n (bound_now d t)])"
  by (rule bind_one_renders) simp_all

lemma handoff_owners_render:
  "n \<notin> bound_names cs \<Longrightarrow> (let (tl, b) = bind_membership d n vs (rendering d cs) in add_clause (qualified_column c al @ '' '' @ tl) b)
    = rendering d (cs @ [OneOf (Column (qualified_column c al)) n vs])"
  by (rule bind_membership_renders) simp_all

lemma handoff_session_name: "handoff_session sc reader = Ok (Some (n, s)) \<Longrightarrow> n \<in> {''scope_session'', ''scope_source_session''}"
  by (auto simp: handoff_session_def Let_def split: if_splits option.splits list.splits)

lemma handoffs_renders:
  "handoffs_scope_predicate sc d reader now al =
    res_bind (handoff_session sc reader) (\<lambda>session. Ok (rendering d (handoffs_conds sc d session now al)))"
proof (cases "handoff_session sc reader")
  case (Inl e)
  then show ?thesis by (simp add: handoffs_scope_predicate_def Let_def)
next
  case (Inr session)
  let ?c1 = "column_eq al ''workspace_id'' ''scope_workspace'' (sc_workspace sc)
     # (if handoff_owners sc = [] then [] else [OneOf (Column (qualified_column ''owner_id'' al)) ''scope_owners'' (handoff_owners sc)])"
  let ?c2 = "?c1 @ (case now of None \<Rightarrow> [] | Some t \<Rightarrow> [After (Column (qualified_column ''expires_at'' al)) ''scope_now'' (bound_now d t)])"
  let ?c3 = "?c2 @ (case session of None \<Rightarrow> [] | Some (n, s) \<Rightarrow> [column_eq al ''session_id'' n s])"
  have n1: "bound_names ?c1 \<subseteq> {''scope_workspace'', ''scope_owners''}" by auto
  have n2: "bound_names ?c2 \<subseteq> {''scope_workspace'', ''scope_owners'', ''scope_now''}" using n1 by (auto split: option.splits)
  have n3: "bound_names ?c3 \<subseteq> {''scope_workspace'', ''scope_owners'', ''scope_now'', ''scope_session'', ''scope_source_session''}"
    using n2 handoff_session_name [of sc reader] Inr by (auto split: option.splits)
  have s0: "add_equals d (qualified_column ''workspace_id'' al) ''scope_workspace'' (BText (sc_workspace sc)) empty_predicate
      = rendering d [column_eq al ''workspace_id'' ''scope_workspace'' (sc_workspace sc)]"
    by (simp add: rendering_empty [of d] add_column_renders)
  have s1: "(if handoff_owners sc = [] then rendering d [column_eq al ''workspace_id'' ''scope_workspace'' (sc_workspace sc)]
      else (let (tl, b) = bind_membership d ''scope_owners'' (handoff_owners sc) (rendering d [column_eq al ''workspace_id'' ''scope_workspace'' (sc_workspace sc)])
        in add_clause (qualified_column ''owner_id'' al @ '' '' @ tl) b)) = rendering d ?c1"
    using handoff_owners_render [of "''scope_owners''" "[column_eq al ''workspace_id'' ''scope_workspace'' (sc_workspace sc)]"] by simp
  have "''scope_now'' \<notin> bound_names ?c1" using n1 by (rule contra_subsetD) simp
  then have s2: "(case now of None \<Rightarrow> rendering d ?c1
      | Some t \<Rightarrow> (let (ph, b) = bind_one d ''scope_now'' (bound_now d t) (rendering d ?c1) in
          add_clause (qualified_column ''expires_at'' al @ '' > '' @ ph) b)) = rendering d ?c2"
    using after_renders [of "''scope_now''" ?c1] by (cases now) simp_all
  have s3: "(case session of None \<Rightarrow> rendering d ?c2
      | Some (n, s) \<Rightarrow> add_equals d (qualified_column ''session_id'' al) n (BText s) (rendering d ?c2)) = rendering d ?c3"
  proof (cases session)
    case (Some a)
    obtain n s where a: "a = (n, s)" by (cases a)
    have "n \<in> {''scope_session'', ''scope_source_session''}" using handoff_session_name [of sc reader n s] Inr Some a by simp
    then have "n \<notin> bound_names ?c2" using n2 by auto
    from add_column_renders [OF this] show ?thesis unfolding Some a option.case split_conv by blast
  qed simp
  have "''scope_project'' \<notin> bound_names ?c3" using n3 by (rule contra_subsetD) simp
  note s4 = add_null_renders [OF this]
  show ?thesis
    unfolding handoffs_scope_predicate_def Let_def handoff_owners_def [symmetric] s0
    unfolding s1 [unfolded Let_def] unfolding s2 [unfolded Let_def] Inr res_bind_simps unfolding s3
    unfolding s4 handoffs_conds_def by (cases "sc_project sc") simp_all
qed

section \<open>What a condition means\<close>

text \<open>Which characters the trim of the clause removes from both ends, and the function \<open>lower\<close>.\<close>

record sql_engine =
  en_trims :: "char \<Rightarrow> bool"
  en_lower :: "pystr \<Rightarrow> pystr"

datatype sql_value = VText pystr | VTime datetime

record sql_row =
  rw_column :: "pystr \<Rightarrow> sql_value option"
  rw_json :: "pystr \<Rightarrow> pystr \<Rightarrow> pystr option"

definition sql_trim :: "sql_engine \<Rightarrow> pystr \<Rightarrow> pystr" where
  "sql_trim en s = rev (dropWhile (en_trims en) (rev (dropWhile (en_trims en) s)))"

definition text_op :: "(pystr \<Rightarrow> pystr) \<Rightarrow> sql_value option \<Rightarrow> sql_value option" where
  "text_op f v = (case v of Some (VText s) \<Rightarrow> Some (VText (f s)) | _ \<Rightarrow> v)"

fun sql_eval :: "sql_engine \<Rightarrow> sql_row \<Rightarrow> sql_expr \<Rightarrow> sql_value option" where
  "sql_eval en r (Column c) = rw_column r c"
| "sql_eval en r (JsonKey c k) = map_option VText (rw_json r c k)"
| "sql_eval en r (Trim e) = text_op (sql_trim en) (sql_eval en r e)"
| "sql_eval en r (LowerTrim e) = text_op (\<lambda>s. en_lower en (sql_trim en s)) (sql_eval en r e)"

fun sql_holds :: "sql_engine \<Rightarrow> sql_row \<Rightarrow> condition \<Rightarrow> bool" where
  "sql_holds en r (Equals e n v) = (case sql_eval en r e of Some (VText s) \<Rightarrow> v = BText s | _ \<Rightarrow> False)"
| "sql_holds en r (OneOf e n vs) = (case sql_eval en r e of Some (VText s) \<Rightarrow> s \<in> set vs | _ \<Rightarrow> False)"
| "sql_holds en r (After e n v) = (case (sql_eval en r e, v) of
     (Some (VText s), BText t) \<Rightarrow> t < s | (Some (VTime a), BTime b) \<Rightarrow> instant b < instant a | _ \<Rightarrow> False)"
| "sql_holds en r (Missing e) = (sql_eval en r e = None)"
| "sql_holds en r (Blank e) = (sql_eval en r e = Some (VText []))"
| "sql_holds en r (AnyOf cs) = list_ex (sql_holds en r) cs"

definition admits :: "sql_engine \<Rightarrow> sql_row \<Rightarrow> condition list \<Rightarrow> bool" where
  "admits en r cs = list_all (sql_holds en r) cs"

text \<open>
  PostgreSQL's \<open>E'...'\<close> knows the escapes \<open>b f n r t\<close>, octal, hexadecimal and Unicode ones, and takes any other character
  after a backslash literally; SQLite's \<open>lower\<close> is for ASCII only.
\<close>

fun pg_unescape :: "pystr \<Rightarrow> pystr" where
  "pg_unescape [] = []"
| "pg_unescape [c] = [c]"
| "pg_unescape (c # e # cs) = (if c = CHR 92
     then (if e = CHR ''b'' then CHR 8 else if e = CHR ''f'' then CHR 12 else if e = CHR ''n'' then CHR 10
       else if e = CHR ''r'' then CHR 13 else if e = CHR ''t'' then CHR 9 else e) # pg_unescape cs
     else c # pg_unescape (e # cs))"

definition pg_trim_set :: pystr where
  "pg_trim_set = pg_unescape (butlast (drop 2 pg_whitespace))"

definition ascii_lower_char :: "char \<Rightarrow> char" where
  "ascii_lower_char c = (if 65 \<le> code c \<and> code c \<le> 90 then char_of (code c + 32) else c)"

definition sqlite_engine :: sql_engine where
  "sqlite_engine = \<lparr>en_trims = (\<lambda>c. c = CHR '' '' \<or> (9 \<le> code c \<and> code c \<le> 13)), en_lower = map ascii_lower_char\<rparr>"

definition postgres_engine :: "(pystr \<Rightarrow> pystr) \<Rightarrow> sql_engine" where
  "postgres_engine locale_lower = \<lparr>en_trims = (\<lambda>c. c \<in> set pg_trim_set), en_lower = locale_lower\<rparr>"

lemma pg_trims_v: "CHR ''v'' \<in> set pg_trim_set" "CHR 11 \<notin> set pg_trim_set"
  by code_simp+

section \<open>Owners\<close>

lemma strip_nonspace: "c \<in> set s \<Longrightarrow> \<not> py_isspace c \<Longrightarrow> c \<in> set (py_strip s)"
proof -
  have keep: "c \<in> set (dropWhile P xs)" if "c \<in> set xs" "\<not> P c" for P and xs :: pystr
    using that by (induction xs) auto
  assume "c \<in> set s" "\<not> py_isspace c"
  then show ?thesis by (simp add: py_strip_def py_rstrip_def py_lstrip_def keep)
qed

lemma strip_not_blank: "py_strip s \<noteq> [] \<Longrightarrow> py_strip (py_strip s) \<noteq> []"
proof -
  assume ne: "py_strip s \<noteq> []"
  have "\<not> py_isspace (hd (rev (py_strip s)))"
    using ne by (simp add: py_strip_def py_rstrip_def hd_dropWhile)
  moreover have "hd (rev (py_strip s)) \<in> set (py_strip s)" using ne by (metis hd_in_set rev_is_Nil_conv set_rev)
  ultimately show ?thesis using strip_nonspace by fastforce
qed

lemma trim_keeps: "c \<in> set s \<Longrightarrow> \<not> en_trims en c \<Longrightarrow> c \<in> set (sql_trim en s)"
proof -
  have keep: "c \<in> set (dropWhile P xs)" if "c \<in> set xs" "\<not> P c" for P and xs :: pystr
    using that by (induction xs) auto
  assume "c \<in> set s" "\<not> en_trims en c"
  then show ?thesis by (simp add: sql_trim_def keep)
qed

lemma scope_owners_set: "set (scope_owners sc) = normalize_owner_token ` set (sc_owners sc) - {[]}"
  by (auto simp: scope_owners_def)

lemma admits_owner:
  assumes "admits en r (events_conds sc strict ctx ip)" "scope_owners sc \<noteq> []" "rw_json r ctx OWNER_TAG = Some tag"
  shows "en_lower en (sql_trim en tag) \<in> set (scope_owners sc) \<or> \<not> strict \<and> sql_trim en tag = []"
  using assms by (auto simp: admits_def events_conds_def owner_cond_def Let_def text_op_def split: if_splits)

lemma admits_strict:
  assumes "admits en r (events_conds sc True ctx ip)"
  shows "rw_json r ctx WORKSPACE_TAG = Some (sc_workspace sc)"
    "scope_owners sc \<noteq> [] \<Longrightarrow> \<exists>tag. rw_json r ctx OWNER_TAG = Some tag"
proof -
  show "rw_json r ctx WORKSPACE_TAG = Some (sc_workspace sc)"
    using assms by (cases "rw_json r ctx WORKSPACE_TAG") (simp_all add: admits_def events_conds_def workspace_cond_def Let_def)
  show "\<exists>tag. rw_json r ctx OWNER_TAG = Some tag" if "scope_owners sc \<noteq> []"
    using assms that by (cases "rw_json r ctx OWNER_TAG") (simp_all add: admits_def events_conds_def owner_cond_def Let_def text_op_def)
qed

section \<open>Properties\<close>

text \<open>
  On both dialects the four predicates are the rendering of one list of conditions, clause by clause, with every
  placeholder bound, and on SQLite in the order of the placeholders.
\<close>

theorem scope_predicates_render:
  "events_scope_predicate sc d strict ctx ip = rendering d (events_conds sc strict ctx ip)
   \<and> goals_scope_predicate sc d session al = rendering d (goals_conds sc session al)
   \<and> observations_scope_predicate sc d al ip allow_null = rendering d (observations_conds sc al ip allow_null)
   \<and> handoffs_scope_predicate sc d reader now al
       = res_bind (handoff_session sc reader) (\<lambda>s. Ok (rendering d (handoffs_conds sc d s now al)))"
  by (simp add: events_renders goals_renders observations_renders handoffs_renders)

lemma resolve_scope_ids:
  "sc_workspace (resolve_scope canonical auth hint session task target False source legacy retention) = al_workspace auth"
  "sc_owners (resolve_scope canonical auth hint session task target False source legacy retention) = [al_user auth]"
  by (simp_all only: resolve_scope_def Let_def split_beta resolved_scope.select_convs if_False simp_thms)

lemma events_strict_exact:
  "admits en r (events_conds sc True ctx ip) \<longleftrightarrow> rw_json r ctx WORKSPACE_TAG = Some (sc_workspace sc)
    \<and> (scope_owners sc = [] \<or> (\<exists>tag. rw_json r ctx OWNER_TAG = Some tag \<and> en_lower en (sql_trim en tag) \<in> set (scope_owners sc)))
    \<and> (case sc_project sc of None \<Rightarrow> True
       | Some p \<Rightarrow> \<not> (ip \<and> is_bound sc \<and> p \<noteq> []) \<or> rw_json r ctx PROJECT_TAG = Some p)"
  by (cases "rw_json r ctx WORKSPACE_TAG"; cases "rw_json r ctx OWNER_TAG"; cases "rw_json r ctx PROJECT_TAG")
    (auto simp: admits_def events_conds_def workspace_cond_def owner_cond_def Let_def text_op_def split: option.split)

lemma scope_owners_one: "sc_owners sc = [u] \<Longrightarrow>
    scope_owners sc = (if normalize_owner_token u = [] then [] else [normalize_owner_token u])"
  by (simp add: scope_owners_def sorted_set_def)

text \<open>ASCII without the four separators that only Python strips.\<close>

definition plain_text :: "pystr \<Rightarrow> bool" where
  "plain_text s = list_all (\<lambda>c. code c < 128 \<and> \<not> (28 \<le> code c \<and> code c \<le> 31)) s"

lemma plain_trim:
  assumes "plain_text s"
  shows "sql_trim sqlite_engine s = py_strip s"
proof -
  have same: "en_trims sqlite_engine c \<longleftrightarrow> py_isspace c" if "code c < 128 \<and> \<not> (28 \<le> code c \<and> code c \<le> 31)" for c
  proof -
    have "c = CHR '' '' \<longleftrightarrow> code c = 32"
      unfolding code_def by (subst of_char_eq_iff [where 'a = nat, symmetric]) simp
    with that show ?thesis by (auto simp: sqlite_engine_def py_isspace_def Let_def)
  qed
  have "dropWhile (en_trims sqlite_engine) xs = dropWhile py_isspace xs" if "plain_text xs" for xs
    using that same by (induction xs) (auto simp: plain_text_def)
  moreover have "plain_text (rev (dropWhile py_isspace s))"
    using assms by (auto simp: plain_text_def list_all_iff dest: set_dropWhileD)
  ultimately show ?thesis using assms by (simp add: sql_trim_def py_strip_def py_lstrip_def py_rstrip_def)
qed

lemma plain_lower: "plain_text s \<Longrightarrow> map ascii_lower_char s = py_lower s"
  unfolding py_lower_def by (rule map_cong) (auto simp: plain_text_def list_all_iff ascii_lower_char_def py_lower_char_def Let_def)

lemma plain_normalized: "plain_text s \<Longrightarrow> en_lower sqlite_engine (sql_trim sqlite_engine s) = normalize_owner_token s"
proof -
  assume s: "plain_text s"
  have "set (py_strip s) \<subseteq> set s"
    by (auto simp: py_strip_def py_lstrip_def py_rstrip_def dest!: set_dropWhileD)
  then have "plain_text (py_strip s)" using s by (auto simp: plain_text_def list_all_iff)
  then show ?thesis using plain_trim [OF s] plain_lower by (simp add: sqlite_engine_def normalize_owner_token_def)
qed

text \<open>
  C23. What strict tags admit for a request without continuity intent (scope.py, resolve_scope and
  events_scope_predicate): whatever hints, target and session the body names, exactly the events tagged with the caller's
  workspace, with the bound project where one is asked for, and with an owner tag that the engine trims and
  lowers to the caller's normalised owner id; a caller with a blank id gets no owner clause, and so every owner's events.
  On SQLite a tag of plain ASCII is so trimmed and lowered to just its own normalised form: the admitted tags
  are the caller's id up to case and outer blanks.
\<close>

theorem strict_scope_isolates:
  assumes "sc = resolve_scope canonical auth hint session task target False source legacy retention"
  shows "events_scope_predicate sc d True ctx ip = rendering d (events_conds sc True ctx ip)
    \<and> (admits en r (events_conds sc True ctx ip) \<longleftrightarrow> rw_json r ctx WORKSPACE_TAG = Some (al_workspace auth)
        \<and> (normalize_owner_token (al_user auth) = [] \<or> (\<exists>tag. rw_json r ctx OWNER_TAG = Some tag
            \<and> en_lower en (sql_trim en tag) = normalize_owner_token (al_user auth)))
        \<and> (case sc_project sc of None \<Rightarrow> True
           | Some p \<Rightarrow> \<not> (ip \<and> is_bound sc \<and> p \<noteq> []) \<or> rw_json r ctx PROJECT_TAG = Some p))
    \<and> (plain_text tag \<longrightarrow> en_lower sqlite_engine (sql_trim sqlite_engine tag) = normalize_owner_token tag)"
proof -
  have ids: "sc_workspace sc = al_workspace auth" "sc_owners sc = [al_user auth]"
    unfolding assms by (rule resolve_scope_ids)+
  show ?thesis
    unfolding events_strict_exact scope_owners_one [OF ids(2)] ids(1) using events_renders plain_normalized [of tag] by auto
qed

text \<open>
   Narrowing a scope to an owner only narrows: the handoffs it admits are those the scope admitted, and when the owner
  is one of the scope's, just those of that owner.
\<close>

theorem narrowing_filters_handoffs:
  assumes "target = py_strip (case t of None \<Rightarrow> [] | Some x \<Rightarrow> x)"
  shows "admits en r (handoffs_conds (narrowed_to_owner sc t) d session now al)
    \<longleftrightarrow> admits en r (handoffs_conds sc d session now al)
      \<and> (target \<noteq> [] \<and> target \<in> set (sc_owners sc) \<longrightarrow> rw_column r (qualified_column ''owner_id'' al) = Some (VText target))"
proof (cases "target \<noteq> [] \<and> target \<in> set (sc_owners sc)")
  case True
  then have n: "narrowed_to_owner sc t = sc\<lparr>sc_owners := [target]\<rparr>" by (simp add: narrowed_to_owner_def assms Let_def)
  have "py_strip target \<noteq> []" using True strip_not_blank by (simp add: assms)
  then have "handoff_owners (sc\<lparr>sc_owners := [target]\<rparr>) = [target]" "target \<in> set (handoff_owners sc)"
    using True by (simp_all add: handoff_owners_def sql_owner_ids_def sorted_set_def)
  then show ?thesis
    using True by (auto simp: n admits_def handoffs_conds_def split: option.splits sql_value.splits)
qed (auto simp: narrowed_to_owner_def assms Let_def)

text \<open>A row with these tags.\<close>

definition tagged :: "pystr \<Rightarrow> pystr \<Rightarrow> sql_row" where
  "tagged w ow = \<lparr>rw_column = (\<lambda>c. if c = ''owner_id'' then Some (VText ow) else if c = ''workspace_id'' then Some (VText w) else None),
     rw_json = (\<lambda>c k. if k = WORKSPACE_TAG then Some w else if k = OWNER_TAG then Some ow else None)\<rparr>"

definition sample_scope_auth :: "pystr \<Rightarrow> auth_like" where
  "sample_scope_auth u = \<lparr>al_consumer = ''cli'', al_workspace = ''W'', al_user = u, al_subject = u\<rparr>"

text \<open>The caller's own tag in other letters is admitted; a peer's is not, although the body names the peer.\<close>

theorem strict_scope_isolates_witness:
  "admits sqlite_engine (tagged ''W'' '' DEV'')
     (events_conds (resolve_scope (\<lambda>_. []) (sample_scope_auth ''dev'') [] [] None (Some ''peer'') False None False 90) True ''context'' False)
   \<and> \<not> admits sqlite_engine (tagged ''W'' ''peer'')
     (events_conds (resolve_scope (\<lambda>_. []) (sample_scope_auth ''dev'') [] [] None (Some ''peer'') False None False 90) True ''context'' False)"
proof -
  let ?sc = "resolve_scope (\<lambda>_. []) (sample_scope_auth ''dev'') [] [] None (Some ''peer'') False None False 90"
  note exact = strict_scope_isolates [of ?sc, OF refl, THEN conjunct2, THEN conjunct1]
  have norm: "normalize_owner_token '' DEV'' = ''dev''" "normalize_owner_token ''peer'' = ''peer''" "normalize_owner_token ''dev'' = ''dev''"
    "plain_text '' DEV''" "plain_text ''peer''" by code_simp+
  note tags = strict_scope_isolates [of ?sc, OF refl, THEN conjunct2, THEN conjunct2, THEN mp, OF norm(4)]
    strict_scope_isolates [of ?sc, OF refl, THEN conjunct2, THEN conjunct2, THEN mp, OF norm(5)]
  have none: "sc_project ?sc = None" by code_simp
  show ?thesis unfolding exact none
    by (simp add: sample_scope_auth_def tagged_def OWNER_TAG_def WORKSPACE_TAG_def tags norm)
qed

theorem narrowing_filters_handoffs_witness:
  "\<not> admits sqlite_engine (tagged ''W'' ''me'') (handoffs_conds (narrowed_to_owner
     (resolve_scope (\<lambda>_. []) (sample_scope_auth ''me'') [] [] None (Some ''peer'') True None False 90) (Some '' peer'')) SQLITE None None None)"
proof -
  have "py_strip '' peer'' = ''peer''" by code_simp
  moreover have "''peer'' \<in> set (sc_owners (resolve_scope (\<lambda>_. []) (sample_scope_auth ''me'') [] [] None (Some ''peer'') True None False 90))"
    by code_simp
  ultimately show ?thesis
    unfolding narrowing_filters_handoffs [OF refl] by (simp add: tagged_def qualified_column_def)
qed

definition latin_upper :: "char \<Rightarrow> bool" where
  "latin_upper c = (192 \<le> code c \<and> code c \<le> 222 \<and> code c \<noteq> 215)"

lemma latin_upper_lowered: "latin_upper c \<Longrightarrow> c \<notin> set (py_lower s)"
proof
  assume c: "latin_upper c" "c \<in> set (py_lower s)"
  then obtain x where x: "c = py_lower_char x" by (auto simp: py_lower_def)
  have "code (char_of n :: char) = n mod 256" for n by (simp add: code_def)
  then show False using c(1) unfolding x py_lower_char_def latin_upper_def Let_def
    by (auto split: if_splits simp: code_def)
qed

text \<open>
  On SQLite an owner whose id has an upper-case letter beyond ASCII never sees an event of their own, strictly or
  not: the scope lowers the id as Python does, the clause lowers the tag as SQLite does.
\<close>

theorem lite_hides_own_events:
  assumes "u \<in> set (sc_owners sc)" "c \<in> set u" "latin_upper c" "rw_json r ctx OWNER_TAG = Some u"
  shows "\<not> admits sqlite_engine r (events_conds sc strict ctx ip)"
proof
  assume adm: "admits sqlite_engine r (events_conds sc strict ctx ip)"
  have "\<not> en_trims sqlite_engine c" using assms(3) by (auto simp: sqlite_engine_def latin_upper_def code_def)
  with assms(2) have c: "c \<in> set (sql_trim sqlite_engine u)" by (rule trim_keeps)
  have "\<not> py_isspace c" using assms(3) by (auto simp: py_isspace_def latin_upper_def Let_def)
  then have "normalize_owner_token u \<noteq> []"
    using strip_nonspace [OF assms(2)] by (auto simp: normalize_owner_token_def py_lower_def)
  then have "normalize_owner_token u \<in> set (scope_owners sc)" using assms(1) by (simp add: scope_owners_set)
  then have ne: "scope_owners sc \<noteq> []" by (metis empty_iff empty_set)
  have "ascii_lower_char c = c" using assms(3) by (simp add: ascii_lower_char_def latin_upper_def)
  then have "c \<in> set (en_lower sqlite_engine (sql_trim sqlite_engine u))"
    using c by (force simp: sqlite_engine_def)
  moreover have "c \<notin> set x" if "x \<in> set (scope_owners sc)" for x
    using that latin_upper_lowered [OF assms(3)] by (auto simp: scope_owners_set normalize_owner_token_def)
  moreover have "sql_trim sqlite_engine u \<noteq> []" using c by (metis empty_iff empty_set)
  ultimately show False using admits_owner [OF adm ne assms(4)] by blast
qed

theorem lite_hides_own_events_witness:
  "\<not> admits sqlite_engine (tagged ''W'' (CHR 201 # ''lodie'')) (events_conds
     (resolve_scope (\<lambda>_. []) (sample_scope_auth (CHR 201 # ''lodie'')) [] [] None None False None False 90) False ''context'' False)"
  by (rule lite_hides_own_events [where u = "CHR 201 # ''lodie''" and c = "CHR 201"])
    (simp_all add: resolve_scope_ids sample_scope_auth_def latin_upper_def code_def tagged_def OWNER_TAG_def WORKSPACE_TAG_def)

lemma trim_end: "en_trims en c \<Longrightarrow> sql_trim en (s @ [c]) = sql_trim en s"
proof -
  assume c: "en_trims en c"
  show ?thesis
  proof (cases "\<forall>x \<in> set s. en_trims en x")
    case True
    then have "dropWhile (en_trims en) (s @ [c]) = []" "dropWhile (en_trims en) s = []" using c by auto
    then show ?thesis by (simp only: sql_trim_def)
  next
    case False
    then have "dropWhile (en_trims en) (s @ [c]) = dropWhile (en_trims en) s @ [c]"
      by (metis dropWhile_append1)
    with c show ?thesis by (simp add: sql_trim_def)
  qed
qed

text \<open>
  C24. On PostgreSQL, whose trim set ends in the letter v, as a backslash before v is no escape there, the strict
  clause of an owner also admits the events of the owner whose id is that id and a v; SQLite's does not.
\<close>

theorem postgres_confuses_owners:
  assumes "sc_owners sc = [u]" "normalize_owner_token u \<noteq> []" "locale_lower (sql_trim (postgres_engine locale_lower) u) = normalize_owner_token u"
    and "rw_json r ctx WORKSPACE_TAG = Some (sc_workspace sc)" "rw_json r ctx OWNER_TAG = Some (u @ ''v'')" "sc_project sc = None"
  shows "admits (postgres_engine locale_lower) r (events_conds sc True ctx ip)"
proof -
  have "en_trims (postgres_engine locale_lower) CHR ''v''" using pg_trims_v(1) by (simp add: postgres_engine_def)
  from trim_end [OF this, of u] have trim: "sql_trim (postgres_engine locale_lower) (u @ ''v'') = sql_trim (postgres_engine locale_lower) u" .
  have "normalize_owner_token u \<in> set (scope_owners sc)" using assms(1,2) by (simp add: scope_owners_set)
  moreover have "en_lower (postgres_engine locale_lower) = locale_lower" by (simp add: postgres_engine_def)
  ultimately show ?thesis
    using assms(3-6) by (simp add: admits_def events_conds_def workspace_cond_def owner_cond_def Let_def text_op_def trim)
qed

theorem postgres_confuses_owners_witness:
  "admits (postgres_engine py_lower) (tagged ''W'' ''dev'') (events_conds
     (resolve_scope (\<lambda>_. []) (sample_scope_auth ''de'') [] [] None None False None False 90) True ''context'' False)
   \<and> \<not> admits sqlite_engine (tagged ''W'' ''dev'') (events_conds
     (resolve_scope (\<lambda>_. []) (sample_scope_auth ''de'') [] [] None None False None False 90) True ''context'' False)"
proof
  show "admits (postgres_engine py_lower) (tagged ''W'' ''dev'') (events_conds
     (resolve_scope (\<lambda>_. []) (sample_scope_auth ''de'') [] [] None None False None False 90) True ''context'' False)"
  proof (rule postgres_confuses_owners [where u = "''de''"])
    show "py_lower (sql_trim (postgres_engine py_lower) ''de'') = normalize_owner_token ''de''" by code_simp
    show "normalize_owner_token ''de'' \<noteq> []" by code_simp
    show "sc_project (resolve_scope (\<lambda>_. []) (sample_scope_auth ''de'') [] [] None None False None False 90) = None" by code_simp
  qed (simp_all add: resolve_scope_ids sample_scope_auth_def tagged_def OWNER_TAG_def WORKSPACE_TAG_def)
qed code_simp

end
