(* ===== verification/Task_Store.thy ===== *)
theory Task_Store
  imports Task_Plan Directive_Transitions Lite_Db
begin

text \<open>
  \<open>services/tce_lite_api/tce_lite_api/task_state_store.py\<close>: the Lite store of the durable task
  state.  The tables \<open>task_states\<close>, \<open>task_state_events\<close>, and the parts of \<open>planning_jobs\<close>,
  \<open>directive_executions\<close> and \<open>execution_permits\<close> that cancelling a task touches; reading a row
  back, the event window in SQL, the compare-and-swap write with its retry, and \<open>cancel_task\<close>.  The
  random ids of event rows, which nothing reads, are left out.
\<close>

section \<open>Tables\<close>

record task_row =
  tk_id :: pystr
  tk_workspace :: pystr
  tk_owner :: pystr
  tk_subject :: pystr
  tk_session :: pystr
  tk_task :: pystr
  tk_project :: "pystr option"
  tk_revision :: int
  tk_contract :: int
  tk_highest :: int
  tk_objective_text :: pystr
  tk_objective_hash :: "pystr option"
  tk_objective_set_at :: "pystr option"
  tk_objective_set_seq :: int
  tk_status :: pystr
  tk_action :: pystr
  tk_plan_state :: pystr
  tk_plan_producer :: "pystr option"
  tk_plan_root :: "pystr option"
  tk_constraints :: py
  tk_decisions :: py
  tk_plan :: py
  tk_effects :: py
  tk_verification :: py
  tk_citations :: py
  tk_source_revision :: pystr
  tk_cancelled_at :: "pystr option"
  tk_cancelled_seq :: int
  tk_last_cancel_seq :: int
  tk_cancel_reason :: pystr
  tk_created_at :: pystr
  tk_updated_at :: pystr

record event_row =
  en_state_id :: pystr
  en_workspace :: pystr
  en_owner :: pystr
  en_task :: pystr
  en_seq :: int
  en_kind :: pystr
  en_contract :: int
  en_payload :: py
  en_source :: "pystr option"
  en_directive :: "pystr option"
  en_goal :: "pystr option"
  en_actor :: pystr
  en_at :: pystr

record job_row =
  jb_id :: pystr
  jb_workspace :: pystr
  jb_task :: pystr
  jb_state :: pystr
  jb_cancel :: bool
  jb_updated :: pystr

record session_directive =
  sd_id :: pystr
  sd_workspace :: pystr
  sd_user :: pystr
  sd_session :: pystr
  sd_row :: directive_row

record task_db =
  tdb_tasks :: "task_row list"
  tdb_events :: "event_row list"
  tdb_jobs :: "job_row list"
  tdb_directives :: "session_directive list"
  tdb_permits :: "permit_row list"

text \<open>What a call raises: a conflict or a failed precondition, a unique index, or what a callback raised.\<close>

datatype store_fault = StateError task_state_error | UniqueSeq | CallbackError pystr

section \<open>Row and projection\<close>

definition status_of :: "pystr \<Rightarrow> task_status" where
  "status_of s = (case find (\<lambda>x. status_str x = s) [S_AWAITING_OBJECTIVE, S_PLANNING, S_ACTIVE, S_BLOCKED,
       S_AWAITING_DECISION, S_AWAITING_VERIFICATION, S_DONE, S_CANCELLED] of
     None \<Rightarrow> S_AWAITING_VERIFICATION | Some x \<Rightarrow> x)"

definition action_of :: "pystr \<Rightarrow> next_action" where
  "action_of s = (case find (\<lambda>x. action_str x = s) [A_AWAIT_OWNER_OBJECTIVE, A_AWAIT_PLANNING, A_EXECUTE_STEP,
       A_AWAIT_DECISION, A_AWAIT_VERIFICATION, A_RESOLVE_EFFECTS, A_BLOCKED, A_NONE] of
     None \<Rightarrow> A_NONE | Some x \<Rightarrow> x)"

definition citations_of :: "py \<Rightarrow> pystr list" where
  "citations_of v = (case v of PList xs \<Rightarrow> map py_str xs | _ \<Rightarrow> [])"

definition projection_from_row :: "task_row \<Rightarrow> projection" where
  "projection_from_row row =
     \<lparr>pj_task_id = tk_task row, pj_workspace_id = tk_workspace row, pj_owner_id = tk_owner row,
      pj_session_id = tk_session row, pj_revision = tk_revision row, pj_contract = tk_contract row,
      pj_objective_text = tk_objective_text row, pj_objective_hash = text_or_none (tk_objective_hash row),
      pj_objective_set_at = parse_dt_column (tk_objective_set_at row),
      pj_objective_set_seq = tk_objective_set_seq row, pj_status = status_of (tk_status row),
      pj_next_action = action_of (tk_action row), pj_constraints = constraints_from_json (tk_constraints row),
      pj_open_decisions = decisions_from_json (tk_decisions row), pj_plan = approved_plan_from_json (tk_plan row),
      pj_unresolved_effects = effects_from_json (tk_effects row),
      pj_latest_verification = verification_from_json (tk_verification row),
      pj_citations = citations_of (tk_citations row), pj_cancelled_at = parse_dt_column (tk_cancelled_at row),
      pj_cancelled_seq = tk_cancelled_seq row, pj_last_cancel_seq = tk_last_cancel_seq row,
      pj_cancel_reason = tk_cancel_reason row\<rparr>"

definition event_from_row :: "datetime \<Rightarrow> event_row \<Rightarrow> task_event" where
  "event_from_row now row =
     \<lparr>e_seq = en_seq row, e_kind = en_kind row, e_contract = en_contract row,
      e_payload = payload_mapping (en_payload row), e_at = dt_or (parse_dt_column (Some (en_at row))) now,
      e_actor = en_actor row, e_source = text_or_none (en_source row),
      e_directive = text_or_none (en_directive row), e_goal = text_or_none (en_goal row)\<rparr>"

definition row_of_event :: "task_row \<Rightarrow> task_event \<Rightarrow> event_row" where
  "row_of_event t e =
     \<lparr>en_state_id = tk_id t, en_workspace = tk_workspace t, en_owner = tk_owner t, en_task = tk_task t,
      en_seq = e_seq e, en_kind = e_kind e, en_contract = e_contract e,
      en_payload = PDict (event_payload_to_json (e_payload e)), en_source = e_source e,
      en_directive = e_directive e, en_goal = e_goal e, en_actor = e_actor e, en_at = utc_text (e_at e)\<rparr>"

section \<open>Reads\<close>

definition is_task :: "pystr \<Rightarrow> pystr \<Rightarrow> pystr \<Rightarrow> task_row \<Rightarrow> bool" where
  "is_task w ow t r = (tk_workspace r = w \<and> tk_owner r = ow \<and> tk_task r = t)"

definition find_task :: "task_db \<Rightarrow> pystr \<Rightarrow> pystr \<Rightarrow> pystr \<Rightarrow> task_row option" where
  "find_task db w ow t = find (is_task w ow t) (tdb_tasks db)"

definition load_task_state :: "task_db \<Rightarrow> pystr \<Rightarrow> pystr \<Rightarrow> pystr \<Rightarrow> (projection \<times> int \<times> pystr) option" where
  "load_task_state db w ow t =
     map_option (\<lambda>r. (projection_from_row r, tk_highest r, tk_source_revision r)) (find_task db w ow t)"

definition rows_of :: "task_db \<Rightarrow> pystr \<Rightarrow> event_row list" where
  "rows_of db state_id = filter (\<lambda>r. en_state_id r = state_id) (tdb_events db)"

text \<open>\<open>GROUP BY kind HAVING seq = MAX(seq)\<close>, for one kind.\<close>

definition sql_latest :: "event_row list \<Rightarrow> pystr \<Rightarrow> event_row option" where
  "sql_latest rows kind = fold (\<lambda>r best. if en_kind r = kind \<and> (case best of None \<Rightarrow> True | Some b \<Rightarrow> en_seq b < en_seq r)
     then Some r else best) rows None"

text \<open>\<open>ORDER BY seq DESC LIMIT n\<close>.\<close>

definition sql_tail :: "int \<Rightarrow> event_row list \<Rightarrow> event_row list" where
  "sql_tail n rows = take (nat n) (rev (sort_key en_seq rows))"

definition sql_window :: "int \<Rightarrow> event_row list \<Rightarrow> event_row list" where
  "sql_window max_events rows = List.map_filter (sql_latest rows) PINNED_KIND_VALUES
     @ sql_tail (max 0 (max_events - int (length PINNED_KINDS))) rows"

definition load_task_state_events :: "task_db \<Rightarrow> pystr \<Rightarrow> int \<Rightarrow> datetime \<Rightarrow> task_event list" where
  "load_task_state_events db state_id max_events now =
     map (event_from_row now) (sql_window max_events (rows_of db state_id))"

definition rebuild_task_state :: "task_db \<Rightarrow> pystr \<Rightarrow> pystr \<Rightarrow> pystr \<Rightarrow> datetime \<Rightarrow> fold_result option" where
  "rebuild_task_state db w ow t now = map_option (\<lambda>row.
     fold_task_state (load_task_state_events db (tk_id row) MAX_TASK_STATE_EVENTS_PER_FOLD now)
       (tk_task row) (tk_workspace row) (tk_owner row) (tk_session row) (tk_revision row)
       MAX_TASK_STATE_EVENTS_PER_FOLD) (find_task db w ow t)"

text \<open>The row the \<open>INSERT OR IGNORE\<close> writes, with the column defaults of db.py.\<close>

definition blank_task_row ::
  "pystr \<Rightarrow> pystr \<Rightarrow> pystr \<Rightarrow> pystr \<Rightarrow> pystr \<Rightarrow> pystr \<Rightarrow> pystr option \<Rightarrow> datetime \<Rightarrow> task_row" where
  "blank_task_row uuid w ow subject session t project now =
     \<lparr>tk_id = uuid, tk_workspace = w, tk_owner = ow, tk_subject = subject, tk_session = session, tk_task = t,
      tk_project = project, tk_revision = 0, tk_contract = 0, tk_highest = 0, tk_objective_text = [],
      tk_objective_hash = None, tk_objective_set_at = None, tk_objective_set_seq = 0,
      tk_status = ''awaiting_objective'', tk_action = ''await_owner_objective'', tk_plan_state = ''absent'',
      tk_plan_producer = None, tk_plan_root = None, tk_constraints = PList [], tk_decisions = PList [],
      tk_plan = PDict [], tk_effects = PList [], tk_verification = PDict [], tk_citations = PList [],
      tk_source_revision = [], tk_cancelled_at = None, tk_cancelled_seq = 0, tk_last_cancel_seq = 0,
      tk_cancel_reason = [], tk_created_at = isoformat now, tk_updated_at = isoformat now\<rparr>"

definition insert_task :: "task_row \<Rightarrow> task_db \<Rightarrow> task_db" where
  "insert_task row db = (if list_ex (\<lambda>r. tk_id r = tk_id row \<or> is_task (tk_workspace row) (tk_owner row) (tk_task row) r)
       (tdb_tasks db)
     then db else db\<lparr>tdb_tasks := tdb_tasks db @ [row]\<rparr>)"

definition ensure_task_state ::
  "pystr \<Rightarrow> pystr \<Rightarrow> pystr \<Rightarrow> pystr \<Rightarrow> pystr \<Rightarrow> pystr \<Rightarrow> pystr option \<Rightarrow> datetime \<Rightarrow> task_db
    \<Rightarrow> (store_fault, (pystr \<times> projection \<times> int \<times> pystr) \<times> task_db) result" where
  "ensure_task_state uuid w ow subject session t project now db0 =
     (let db = insert_task (blank_task_row uuid w ow subject session t project now) db0 in
      case find_task db w ow t of
        None \<Rightarrow> Err (StateError (RevisionConflict t 0 (-1)))
      | Some row \<Rightarrow> Ok ((tk_id row, projection_from_row row, tk_highest row, tk_source_revision row), db))"

section \<open>The compare-and-swap write\<close>

type_synonym side_effects = "task_db \<Rightarrow> invalidation_plan \<Rightarrow> (store_fault, task_db) result"

record apply_args =
  aa_workspace :: pystr
  aa_owner :: pystr
  aa_session :: pystr
  aa_task :: pystr
  aa_new :: "task_event list"
  aa_now :: datetime
  aa_expected :: "int option"
  aa_invalidation :: "invalidation_plan option"
  aa_side_effects :: "side_effects option"
  aa_revalidate :: "(projection \<Rightarrow> bool \<times> pystr) option"
  aa_retry_once :: bool

text \<open>One \<open>INSERT\<close> per event; the unique index on \<open>(task_state_id, seq)\<close> refuses a taken number.\<close>

fun insert_events :: "event_row list \<Rightarrow> task_db \<Rightarrow> (store_fault, task_db) result" where
  "insert_events [] db = Ok db"
| "insert_events (r # rs) db =
     (if list_ex (\<lambda>x. en_state_id x = en_state_id r \<and> en_seq x = en_seq r) (tdb_events db) then Err UniqueSeq
      else insert_events rs (db\<lparr>tdb_events := tdb_events db @ [r]\<rparr>))"

definition next_highest :: "int \<Rightarrow> task_state_write \<Rightarrow> int" where
  "next_highest prior w = fold max (map e_seq (tw_events w)) prior"

definition write_row :: "task_state_write \<Rightarrow> int \<Rightarrow> datetime \<Rightarrow> task_row \<Rightarrow> task_row" where
  "write_row w prior_highest now row =
     (let p = tw_projection w in
      row\<lparr>tk_revision := tw_next_revision w, tk_contract := pj_contract p, tk_highest := next_highest prior_highest w,
        tk_objective_text := pj_objective_text p, tk_objective_hash := pj_objective_hash p,
        tk_objective_set_at := map_option utc_text (pj_objective_set_at p),
        tk_objective_set_seq := pj_objective_set_seq p, tk_status := status_str (pj_status p),
        tk_action := action_str (pj_next_action p),
        tk_plan_state := plan_state_str (case pj_plan p of None \<Rightarrow> P_ABSENT | Some plan \<Rightarrow> ap_state plan),
        tk_plan_producer := map_option ap_producer (pj_plan p),
        tk_plan_root := Option.bind (pj_plan p) ap_root_goal,
        tk_constraints := constraints_to_json (pj_constraints p),
        tk_decisions := decisions_to_json (pj_open_decisions p), tk_plan := approved_plan_to_json (pj_plan p),
        tk_effects := effects_to_json (pj_unresolved_effects p),
        tk_verification := verification_to_json (pj_latest_verification p),
        tk_citations := PList (map PStr (pj_citations p)), tk_source_revision := tw_source_revision w,
        tk_cancelled_at := map_option utc_text (pj_cancelled_at p), tk_cancelled_seq := pj_cancelled_seq p,
        tk_last_cancel_seq := pj_last_cancel_seq p, tk_cancel_reason := pj_cancel_reason p,
        tk_updated_at := isoformat now\<rparr>)"

text \<open>\<open>WHERE id = ? AND revision = ?\<close>; \<open>None\<close> is row count 0.\<close>

definition cas_update :: "task_db \<Rightarrow> pystr \<Rightarrow> task_state_write \<Rightarrow> int \<Rightarrow> datetime \<Rightarrow> task_db option" where
  "cas_update db state_id w prior_highest now =
     (let hit = (\<lambda>r. tk_id r = state_id \<and> tk_revision r = tw_expected_revision w) in
      if list_ex hit (tdb_tasks db)
      then Some (db\<lparr>tdb_tasks := map (\<lambda>r. if hit r then write_row w prior_highest now r else r) (tdb_tasks db)\<rparr>)
      else None)"

definition current_revision :: "task_db \<Rightarrow> pystr \<Rightarrow> int" where
  "current_revision db state_id = (case find (\<lambda>r. tk_id r = state_id) (tdb_tasks db) of
     None \<Rightarrow> -1 | Some r \<Rightarrow> tk_revision r)"

definition run_side_effects :: "apply_args \<Rightarrow> task_db \<Rightarrow> (store_fault, task_db) result" where
  "run_side_effects a db = (case (aa_invalidation a, aa_side_effects a) of
     (Some plan, Some f) \<Rightarrow> f db plan | _ \<Rightarrow> Ok db)"

definition write_of :: "apply_args \<Rightarrow> task_row \<Rightarrow> task_event list \<Rightarrow> task_state_write" where
  "write_of a row prior = prepare_write prior (aa_new a) (aa_task a) (aa_workspace a) (aa_owner a) (aa_session a)
     (tk_revision row) (tk_highest row)"

text \<open>
  The statements that follow the two reads: they run in one transaction, so on the database as it is when the
  first of them runs.  \<open>Inl n\<close> is a lost swap against the revision \<open>n\<close>.
\<close>

definition cas_attempt ::
  "apply_args \<Rightarrow> task_row \<Rightarrow> task_event list \<Rightarrow> task_db \<Rightarrow> (store_fault, int + task_state_write \<times> task_db) result" where
  "cas_attempt a row prior db =
     res_bind (run_side_effects a db) (\<lambda>db1.
       let w = write_of a row prior in
       res_bind (insert_events (map (row_of_event row) (tw_events w)) db1) (\<lambda>db2.
         Ok (case cas_update db2 (tk_id row) w (tk_highest row) (aa_now a) of
               None \<Rightarrow> Inl (current_revision db2 (tk_id row))
             | Some db3 \<Rightarrow> Inr (w, db3))))"

text \<open>
  \<open>others n\<close> is what other connections commit at the \<open>n\<close>th point at which this one holds no lock:
  between the read of the row and the read of the events, and between that and the first write.  Inside the
  write-locked section it is the identity.  \<open>conflict\<close> says what a conflict leads to.
\<close>

definition apply_with ::
  "(int \<Rightarrow> int \<Rightarrow> task_db \<Rightarrow> (store_fault, task_state_write \<times> task_db) result)
    \<Rightarrow> (nat \<Rightarrow> task_db \<Rightarrow> task_db) \<Rightarrow> apply_args \<Rightarrow> task_db \<Rightarrow> (store_fault, task_state_write \<times> task_db) result" where
  "apply_with conflict others a db0 =
     (case find_task db0 (aa_workspace a) (aa_owner a) (aa_task a) of
        None \<Rightarrow> Err (StateError (RevisionConflict (aa_task a)
          (case aa_expected a of None \<Rightarrow> 0 | Some n \<Rightarrow> n) (-1)))
      | Some row \<Rightarrow>
          if aa_expected a \<notin> {None, Some (tk_revision row)}
          then conflict (the (aa_expected a)) (tk_revision row) db0
          else (let db1 = others 0 db0;
                    prior = load_task_state_events db1 (tk_id row) MAX_TASK_STATE_EVENTS_PER_FOLD (aa_now a);
                    db2 = others 1 db1
                in res_bind (cas_attempt a row prior db2) (\<lambda>r. case r of
                     Inl actual \<Rightarrow> conflict (tk_revision row) actual db2
                   | Inr done \<Rightarrow> Ok done)))"

definition raise_conflict ::
  "apply_args \<Rightarrow> int \<Rightarrow> int \<Rightarrow> task_db \<Rightarrow> (store_fault, task_state_write \<times> task_db) result" where
  "raise_conflict a expected actual db = Err (StateError (RevisionConflict (aa_task a) expected actual))"

text \<open>The retry re-reads the row and recurses once, without a precondition and without another retry.\<close>

definition revalidated_retry ::
  "(nat \<Rightarrow> task_db \<Rightarrow> task_db) \<Rightarrow> apply_args \<Rightarrow> task_db \<Rightarrow> (store_fault, task_state_write \<times> task_db) result" where
  "revalidated_retry others a db =
     (let a' = a\<lparr>aa_expected := None, aa_revalidate := None, aa_retry_once := False\<rparr>;
          db1 = others 2 db;
          again = (\<lambda>_. apply_with (raise_conflict a') (\<lambda>n. others (n + 4)) a' (others 3 db1))
      in case load_task_state db1 (aa_workspace a) (aa_owner a) (aa_task a) of
           None \<Rightarrow> Err (StateError (PreconditionFailed (aa_task a) ''task_state_missing''))
         | Some (p, _, _) \<Rightarrow>
             (case aa_revalidate a of
                None \<Rightarrow> again ()
              | Some f \<Rightarrow> (case f p of (allowed, reason) \<Rightarrow>
                  if allowed then again () else Err (StateError (PreconditionFailed (aa_task a) reason)))))"

definition apply_task_state_events ::
  "(nat \<Rightarrow> task_db \<Rightarrow> task_db) \<Rightarrow> apply_args \<Rightarrow> task_db \<Rightarrow> (store_fault, task_state_write \<times> task_db) result" where
  "apply_task_state_events others a db =
     apply_with (if aa_retry_once a then (\<lambda>_ _. revalidated_retry others a) else raise_conflict a) others a db"

section \<open>Verifications\<close>

definition directive_contract_revision :: "task_db \<Rightarrow> pystr \<Rightarrow> pystr \<Rightarrow> pystr \<Rightarrow> pystr \<Rightarrow> int" where
  "directive_contract_revision db w ow t directive =
     (case map en_contract (filter (\<lambda>e. en_directive e = Some directive
             \<and> list_ex (\<lambda>r. tk_id r = en_state_id e \<and> is_task w ow t r) (tdb_tasks db)) (tdb_events db)) of
        [] \<Rightarrow> UNKNOWN_CONTRACT_REVISION
      | c # cs \<Rightarrow> fold min cs c)"

section \<open>Cancelling a task\<close>

record cancel_response =
  cr_task :: pystr
  cr_revision :: int
  cr_jobs :: int
  cr_directives :: int
  cr_constraints :: int
  cr_permits :: int

definition job_live :: "pystr \<Rightarrow> pystr \<Rightarrow> job_row \<Rightarrow> bool" where
  "job_live w t j = (jb_workspace j = w \<and> jb_task j = t \<and> jb_state j \<in> {''pending'', ''leased''})"

definition cancel_job :: "pystr \<Rightarrow> job_row \<Rightarrow> job_row" where
  "cancel_job stamp j = j\<lparr>jb_cancel := True, jb_state := ''cancelled'', jb_updated := stamp\<rparr>"

definition directive_live :: "pystr \<Rightarrow> pystr \<Rightarrow> pystr \<Rightarrow> session_directive \<Rightarrow> bool" where
  "directive_live w u s d = (sd_workspace d = w \<and> sd_user d = u \<and> sd_session d = s
     \<and> dr_state (sd_row d) \<in> {D_PENDING, D_IN_PROGRESS})"

text \<open>One fenced \<open>UPDATE\<close> per live directive; the count is of the rows hit.\<close>

definition cancel_directive :: "session_directive \<Rightarrow> datetime \<Rightarrow> session_directive list \<Rightarrow> int \<times> session_directive list" where
  "cancel_directive seen now ds =
     (let row = sd_row seen;
          hit = (\<lambda>d. sd_id d = sd_id seen \<and>
            task_cancel_update (dr_state row) (dr_lease row) CANCEL_REASON_TASK_CANCELLED now (sd_row d) \<noteq> None);
          upd = (\<lambda>d. case task_cancel_update (dr_state row) (dr_lease row) CANCEL_REASON_TASK_CANCELLED now (sd_row d) of
            Some r \<Rightarrow> if sd_id d = sd_id seen then d\<lparr>sd_row := r\<rparr> else d
          | None \<Rightarrow> d)
      in (if length (filter hit ds) = 1 then 1 else 0, map upd ds))"

fun cancel_directives ::
  "datetime \<Rightarrow> session_directive list \<Rightarrow> int \<times> session_directive list \<Rightarrow> int \<times> session_directive list" where
  "cancel_directives now [] acc = acc"
| "cancel_directives now (d # ds) (n, rows) =
     (if td_allowed (validate_transition (request_of (sd_row d) D_CANCELLED SYSTEM_ACTOR None True False))
      then (case cancel_directive d now rows of (k, rows') \<Rightarrow> cancel_directives now ds (n + k, rows'))
      else cancel_directives now ds (n, rows))"

text \<open>\<open>expires_at IS NULL OR expires_at > stamp\<close>, on the text of the column.\<close>

definition permit_unexpired :: "pystr \<Rightarrow> pystr \<Rightarrow> pystr \<Rightarrow> permit_row \<Rightarrow> bool" where
  "permit_unexpired w s stamp p = (pm_workspace p = w \<and> pm_session p = s
     \<and> (case pm_expires p of None \<Rightarrow> True | Some x \<Rightarrow> stamp < x))"

definition unrevoked :: "projection \<Rightarrow> int" where
  "unrevoked p = int (length (filter (\<lambda>c. ac_revoked_at c = None) (pj_constraints p)))"

definition cancel_event :: "pystr \<Rightarrow> pystr \<Rightarrow> datetime \<Rightarrow> task_event" where
  "cancel_event reason actor now = \<lparr>e_seq = 0, e_kind = kind_str K_CANCELLATION_REQUESTED, e_contract = 0,
     e_payload = [(''reason'', PStr reason), (''actor'', PStr actor)], e_at = now, e_actor = actor, e_source = None,
     e_directive = None, e_goal = None\<rparr>"

definition cancel_args :: "pystr \<Rightarrow> pystr \<Rightarrow> pystr \<Rightarrow> pystr \<Rightarrow> pystr \<Rightarrow> pystr \<Rightarrow> datetime \<Rightarrow> apply_args" where
  "cancel_args w ow session t reason actor now =
     \<lparr>aa_workspace = w, aa_owner = ow, aa_session = session, aa_task = t, aa_new = [cancel_event reason actor now],
      aa_now = now, aa_expected = None, aa_invalidation = None, aa_side_effects = None, aa_revalidate = None,
      aa_retry_once = False\<rparr>"

definition cancel_body ::
  "pystr \<Rightarrow> pystr \<Rightarrow> pystr \<Rightarrow> pystr \<Rightarrow> pystr \<Rightarrow> pystr \<Rightarrow> datetime \<Rightarrow> task_db
    \<Rightarrow> (store_fault, cancel_response \<times> task_db) result" where
  "cancel_body w ow session t reason actor now db =
     (case load_task_state db w ow t of
        None \<Rightarrow> Err (StateError (PreconditionFailed t ''task_state_missing''))
      | Some (before, _, _) \<Rightarrow>
          (let stamp = isoformat now;
               live_jobs = filter (job_live w t) (tdb_jobs db);
               jobs = map (\<lambda>j. if job_live w t j then cancel_job stamp j else j) (tdb_jobs db);
               cancelled = cancel_directives now (filter (directive_live w ow session) (tdb_directives db))
                 (0, tdb_directives db);
               expired = filter (permit_unexpired w session stamp) (tdb_permits db);
               permits = map (\<lambda>p. if permit_unexpired w session stamp p then p\<lparr>pm_expires := Some stamp\<rparr> else p)
                 (tdb_permits db);
               db1 = db\<lparr>tdb_jobs := jobs, tdb_directives := snd cancelled, tdb_permits := permits\<rparr>
           in res_bind (apply_task_state_events (\<lambda>_ d. d) (cancel_args w ow session t reason actor now) db1)
                (\<lambda>(write, db2). Ok (\<lparr>cr_task = t, cr_revision = tw_next_revision write,
                   cr_jobs = int (length live_jobs), cr_directives = fst cancelled,
                   cr_constraints = max 0 (unrevoked before - unrevoked (tw_projection write)),
                   cr_permits = int (length expired)\<rparr>, db2))))"

text \<open>The body as the section's function: \<open>lock n\<close> is the operational error the \<open>n\<close>th attempt meets.\<close>

definition cancel_task ::
  "(nat \<Rightarrow> pystr option) \<Rightarrow> pystr \<Rightarrow> pystr \<Rightarrow> pystr \<Rightarrow> pystr \<Rightarrow> pystr \<Rightarrow> pystr \<Rightarrow> datetime \<Rightarrow> task_db
    \<Rightarrow> (store_fault section_error, cancel_response) result \<times> task_db" where
  "cancel_task lock w ow session t reason actor now db =
     run_cas_section db (\<lambda>n d. case lock n of
         Some msg \<Rightarrow> Err (Operational msg)
       | None \<Rightarrow> (case cancel_body w ow session t reason actor now d of
             Inl e \<Rightarrow> Err (Raised e) | Inr x \<Rightarrow> Ok x))"

end
