(* ===== verification/Task_Store_Facts.thy ===== *)
theory Task_Store_Facts
  imports Task_Store "HOL-Library.Sublist"
begin

text \<open>
  What the Lite task store promises: gapless logs, one writer per revision, an optimistic write equal
  to an atomic one, a stored row equal to the fold of its log, and a cancellation that leaves nothing live.
\<close>

section \<open>The statements of a write\<close>

lemma insert_events_Ok: "insert_events rs db = Ok db' \<Longrightarrow> db' = db\<lparr>tdb_events := tdb_events db @ rs\<rparr>"
  by (induction rs db rule: insert_events.induct) (auto split: if_split_asm)

lemma map_seq_stamp: "map e_seq (stamp_events h new) = [h + 1..h + int (length new)]"
proof (induction new rule: rev_induct)
  case (snoc x xs)
  then show ?case by (simp add: stamp_events_def enumerate_append_eq upto_rec2 add.assoc)
qed (simp add: stamp_events_def)

lemma upto_glue: "0 \<le> h \<Longrightarrow> [1..h] @ [h + 1..h + int n] = [1..h + int n]"
  using upto_split2 [of 1 h "h + int n"] by (cases "h = 0") auto

lemma fold_max_upto: "fold max [h + 1..h + int n] h = h + int n"
proof (induction n)
  case (Suc n)
  then show ?case by (simp add: upto_rec2 max_def)
qed simp

lemma write_of_simps [simp]:
  "tw_events (write_of a row prior) = stamp_events (tk_highest row) (aa_new a)"
  "tw_expected_revision (write_of a row prior) = tk_revision row"
  "tw_next_revision (write_of a row prior) = tk_revision row + 1"
  by (simp_all add: write_of_def prepare_write_def Let_def)

lemma next_highest_write: "next_highest (tk_highest row) (write_of a row prior) = tk_highest row + int (length (aa_new a))"
  by (simp add: next_highest_def map_seq_stamp fold_max_upto)

lemma write_row_frame [simp]:
  "tk_id (write_row w h now r) = tk_id r" "tk_workspace (write_row w h now r) = tk_workspace r"
  "tk_owner (write_row w h now r) = tk_owner r" "tk_task (write_row w h now r) = tk_task r"
  "tk_revision (write_row w h now r) = tw_next_revision w" "tk_highest (write_row w h now r) = next_highest h w"
  by (simp_all add: write_row_def Let_def)

lemma is_task_write_row [simp]: "is_task ws ow t (write_row w h now r) = is_task ws ow t r"
  by (simp add: is_task_def)

section \<open>Well-formed stores and the order between them\<close>

definition task_key :: "task_row \<Rightarrow> pystr \<times> pystr \<times> pystr" where
  "task_key r = (tk_workspace r, tk_owner r, tk_task r)"

lemma is_task_key: "is_task w ow t r \<longleftrightarrow> task_key r = (w, ow, t)"
  by (auto simp: is_task_def task_key_def)

definition gapless :: "task_db \<Rightarrow> task_row \<Rightarrow> bool" where
  "gapless db r = (0 \<le> tk_highest r \<and> map en_seq (rows_of db (tk_id r)) = [1..tk_highest r])"

definition store_wf :: "task_db \<Rightarrow> bool" where
  "store_wf db = (distinct (map tk_id (tdb_tasks db)) \<and> distinct (map task_key (tdb_tasks db))
     \<and> list_all (gapless db) (tdb_tasks db)
     \<and> list_all (\<lambda>e. en_state_id e \<in> tk_id ` set (tdb_tasks db)) (tdb_events db))"

text \<open>A row of an earlier store, in a later one: unchanged with its log, or at a greater revision.\<close>

definition row_before :: "task_db \<Rightarrow> task_row \<Rightarrow> task_db \<Rightarrow> task_row \<Rightarrow> bool" where
  "row_before db r db' r' = (tk_id r' = tk_id r \<and> task_key r' = task_key r
     \<and> prefix (rows_of db (tk_id r)) (rows_of db' (tk_id r))
     \<and> (r' = r \<and> rows_of db' (tk_id r) = rows_of db (tk_id r) \<or> tk_revision r < tk_revision r'))"

definition store_before :: "task_db \<Rightarrow> task_db \<Rightarrow> bool" where
  "store_before db db' = (\<forall>r \<in> set (tdb_tasks db). \<exists>r' \<in> set (tdb_tasks db'). row_before db r db' r')"

lemma store_before_refl: "store_before db db"
  by (auto simp: store_before_def row_before_def)

lemma row_before_trans: "row_before a r b s \<Longrightarrow> row_before b s c t \<Longrightarrow> row_before a r c t"
  unfolding row_before_def by (metis order.strict_trans prefix_order.order_trans)

lemma store_before_trans: "store_before a b \<Longrightarrow> store_before b c \<Longrightarrow> store_before a c"
  unfolding store_before_def by (meson row_before_trans)

lemma find_task_Some: "find_task db w ow t = Some r \<Longrightarrow> r \<in> set (tdb_tasks db) \<and> task_key r = (w, ow, t)"
  by (auto simp: find_task_def find_Some_iff is_task_key)

lemma find_task_eq:
  assumes "store_wf db" "r \<in> set (tdb_tasks db)" "task_key r = (w, ow, t)"
  shows "find_task db w ow t = Some r"
proof -
  obtain s where s: "find_task db w ow t = Some s"
    using assms(2,3) by (cases "find_task db w ow t") (auto simp: find_task_def find_None_iff is_task_key)
  have "s = r" using distinct_on [of task_key "tdb_tasks db" s r] find_task_Some [OF s] assms by (simp add: store_wf_def)
  with s show ?thesis by simp
qed

lemma rows_of_append [simp]: "rows_of (db\<lparr>tdb_events := tdb_events db @ es\<rparr>) i = rows_of db i @ filter (\<lambda>r. en_state_id r = i) es"
  by (simp add: rows_of_def)

lemma rows_of_tasks [simp]: "rows_of (db\<lparr>tdb_tasks := ts\<rparr>) i = rows_of db i"
  by (simp add: rows_of_def)

text \<open>A row whose revision is the one read is the row read, and its log the log read.\<close>

lemma same_revision_same_row:
  assumes "store_before d e" "store_wf e" "row \<in> set (tdb_tasks d)" "r \<in> set (tdb_tasks e)" "tk_id r = tk_id row"
    "tk_revision r = tk_revision row"
  shows "r = row \<and> rows_of e (tk_id row) = rows_of d (tk_id row)"
proof -
  obtain r' where r': "r' \<in> set (tdb_tasks e)" "row_before d row e r'" using assms(1,3) by (auto simp: store_before_def)
  have "r' = r" using distinct_on [of tk_id "tdb_tasks e" r' r] r' assms by (simp add: store_wf_def row_before_def)
  then show ?thesis using r'(2) assms(6) by (auto simp: row_before_def)
qed

section \<open>A committed write\<close>

definition committed :: "apply_args \<Rightarrow> task_row \<Rightarrow> task_event list \<Rightarrow> task_db \<Rightarrow> task_db" where
  "committed a row prior db = db\<lparr>tdb_events := tdb_events db @ map (row_of_event row) (stamp_events (tk_highest row) (aa_new a)),
     tdb_tasks := map (\<lambda>r. if r = row then write_row (write_of a row prior) (tk_highest row) (aa_now a) r else r) (tdb_tasks db)\<rparr>"

lemma cas_attempt_Inr:
  assumes "cas_attempt a row prior db = Ok (Inr (w, db'))" and wf: "store_wf db1"
    and side: "run_side_effects a db = Ok db1" and unique: "\<And>r. r \<in> set (tdb_tasks db1) \<Longrightarrow> tk_id r = tk_id row
      \<Longrightarrow> tk_revision r = tk_revision row \<Longrightarrow> r = row"
  shows "w = write_of a row prior \<and> row \<in> set (tdb_tasks db1) \<and> db' = committed a row prior db1"
proof -
  let ?w = "write_of a row prior" and ?rs = "map (row_of_event row) (stamp_events (tk_highest row) (aa_new a))"
  let ?db2 = "db1\<lparr>tdb_events := tdb_events db1 @ ?rs\<rparr>"
  have w: "w = ?w" and cas: "cas_update ?db2 (tk_id row) ?w (tk_highest row) (aa_now a) = Some db'"
    using assms(1) side
    by (auto simp: cas_attempt_def Let_def res_bind_Ok_iff dest!: insert_events_Ok split: option.splits)
  let ?hit = "\<lambda>r. tk_id r = tk_id row \<and> tk_revision r = tk_revision row"
  have hit: "list_ex ?hit (tdb_tasks db1)"
    and db': "db' = ?db2\<lparr>tdb_tasks := map (\<lambda>r. if ?hit r then write_row ?w (tk_highest row) (aa_now a) r else r) (tdb_tasks db1)\<rparr>"
    using cas by (auto simp: cas_update_def Let_def split: if_split_asm)
  from hit have row: "row \<in> set (tdb_tasks db1)" using unique by (auto simp: list_ex_iff)
  have "?hit r \<longleftrightarrow> r = row" if "r \<in> set (tdb_tasks db1)" for r using unique [OF that] by auto
  then have "map (\<lambda>r. if ?hit r then write_row ?w (tk_highest row) (aa_now a) r else r) (tdb_tasks db1)
    = map (\<lambda>r. if r = row then write_row ?w (tk_highest row) (aa_now a) r else r) (tdb_tasks db1)"
    by (intro map_cong) auto
  with db' have "db' = committed a row prior db1" by (simp add: committed_def)
  with w row show ?thesis by blast
qed

lemma rows_of_committed:
  "rows_of (committed a row prior db) i = rows_of db i
    @ (if i = tk_id row then map (row_of_event row) (stamp_events (tk_highest row) (aa_new a)) else [])"
  by (simp add: committed_def rows_of_def row_of_event_def filter_map comp_def)

lemma committed_tasks:
  "tdb_tasks (committed a row prior db) =
    map (\<lambda>r. if r = row then write_row (write_of a row prior) (tk_highest row) (aa_now a) r else r) (tdb_tasks db)"
  by (simp add: committed_def)

lemma committed_frame:
  "map tk_id (tdb_tasks (committed a row prior db)) = map tk_id (tdb_tasks db)"
  "map task_key (tdb_tasks (committed a row prior db)) = map task_key (tdb_tasks db)"
  by (simp_all add: committed_tasks task_key_def)

lemma committed_wf:
  assumes wf: "store_wf db" and row: "row \<in> set (tdb_tasks db)"
  shows "store_wf (committed a row prior db)"
proof -
  let ?db = "committed a row prior db"
  have old: "gapless db r" if "r \<in> set (tdb_tasks db)" for r using wf that by (simp add: store_wf_def list_all_iff)
  have "gapless ?db r" if r: "r \<in> set (tdb_tasks ?db)" for r
  proof -
    from r consider "r = write_row (write_of a row prior) (tk_highest row) (aa_now a) row"
      | "r \<in> set (tdb_tasks db)" "r \<noteq> row"
      by (auto simp: committed_tasks split: if_split_asm)
    then show ?thesis
    proof cases
      case 1
      have "map en_seq (rows_of ?db (tk_id row)) = [1..tk_highest row] @ map e_seq (stamp_events (tk_highest row) (aa_new a))"
        using old [OF row] by (simp add: rows_of_committed gapless_def row_of_event_def comp_def)
      also have "\<dots> = [1..tk_highest row + int (length (aa_new a))]"
        using old [OF row] by (simp add: map_seq_stamp upto_glue gapless_def)
      finally show ?thesis using old [OF row] by (simp add: 1 gapless_def next_highest_write)
    next
      case 2
      then have "tk_id r \<noteq> tk_id row" using distinct_on [of tk_id "tdb_tasks db" r row] wf row by (auto simp: store_wf_def)
      with old [OF 2(1)] show ?thesis by (simp add: gapless_def rows_of_committed)
    qed
  qed
  moreover have "tk_id ` set (tdb_tasks ?db) = tk_id ` set (tdb_tasks db)"
    using arg_cong [OF committed_frame(1) [of a row prior db], of set] by simp
  ultimately show ?thesis
    using wf row unfolding store_wf_def committed_frame by (auto simp: list_all_iff committed_def row_of_event_def)
qed

lemma committed_before:
  assumes row: "row \<in> set (tdb_tasks db)" and wf: "store_wf db"
  shows "store_before db (committed a row prior db)"
  unfolding store_before_def
proof
  fix r assume r: "r \<in> set (tdb_tasks db)"
  let ?r = "if r = row then write_row (write_of a row prior) (tk_highest row) (aa_now a) r else r"
  have "r = row" if "tk_id r = tk_id row" using distinct_on [of tk_id "tdb_tasks db" r row] wf row r that by (simp add: store_wf_def)
  then have "row_before db r (committed a row prior db) ?r"
    by (auto simp: row_before_def rows_of_committed task_key_def)
  moreover have "?r \<in> set (tdb_tasks (committed a row prior db))" using r by (auto simp: committed_tasks)
  ultimately show "\<exists>r' \<in> set (tdb_tasks (committed a row prior db)). row_before db r (committed a row prior db) r'" by blast
qed

lemma insert_task_wf:
  assumes "store_wf db" "tk_highest row = 0"
  shows "store_wf (insert_task row db) \<and> store_before db (insert_task row db)"
proof (cases "list_ex (\<lambda>r. tk_id r = tk_id row \<or> is_task (tk_workspace row) (tk_owner row) (tk_task row) r) (tdb_tasks db)")
  case True
  then show ?thesis using assms by (simp add: insert_task_def store_before_refl)
next
  case False
  let ?db = "db\<lparr>tdb_tasks := tdb_tasks db @ [row]\<rparr>"
  have new: "tk_id row \<notin> tk_id ` set (tdb_tasks db)" "task_key row \<notin> task_key ` set (tdb_tasks db)"
    using False by (auto simp: list_ex_iff is_task_key task_key_def)
  have none: "rows_of db (tk_id row) = []"
    using assms(1) new(1) unfolding rows_of_def store_wf_def list_all_iff filter_empty_conv by metis
  have wf: "store_wf ?db"
    using assms new none by (auto simp: store_wf_def list_all_iff gapless_def)
  have "store_before db ?db" by (auto simp: store_before_def row_before_def)
  with wf False show ?thesis by (simp add: insert_task_def)
qed

section \<open>Interleavings\<close>

text \<open>
  What the connections of a process commit, in any order.  A write decides on the row and the events it read
  in two earlier stores and runs its statements on the store as it then is; \<open>P\<close> bounds the events written.
\<close>

inductive store_run :: "(task_event \<Rightarrow> bool) \<Rightarrow> task_db \<Rightarrow> task_db \<Rightarrow> bool" for P where
  start: "store_run P db db"
| create: "store_run P db e \<Longrightarrow> store_run P db (insert_task (blank_task_row uuid w ow subject session t project now) e)"
| elsewhere: "store_run P db e \<Longrightarrow> tdb_tasks e' = tdb_tasks e \<Longrightarrow> tdb_events e' = tdb_events e \<Longrightarrow> store_run P db e'"
| commit: "store_run P db rd \<Longrightarrow> store_run P rd ev \<Longrightarrow> store_run P ev cur \<Longrightarrow>
    find_task rd (aa_workspace a) (aa_owner a) (aa_task a) = Some row \<Longrightarrow> list_all P (aa_new a) \<Longrightarrow>
    run_side_effects a cur = Ok cur \<Longrightarrow>
    cas_attempt a row (load_task_state_events ev (tk_id row) MAX_TASK_STATE_EVENTS_PER_FOLD (aa_now a)) cur = Ok (Inr (w, e)) \<Longrightarrow>
    store_run P db e"

lemma store_run_trans: "store_run P b c \<Longrightarrow> store_run P a b \<Longrightarrow> store_run P a c"
  by (induction rule: store_run.induct) (blast intro: store_run.intros)+

lemma unchanged_store:
  assumes "tdb_tasks e' = tdb_tasks e" "tdb_events e' = tdb_events e"
  shows "store_wf e' = store_wf e" "store_before e e'" "rows_of e' = rows_of e" "find_task e' = find_task e"
proof -
  have r: "rows_of e' = rows_of e" by (simp add: rows_of_def assms fun_eq_iff)
  have g: "gapless e' = gapless e" by (simp add: gapless_def r fun_eq_iff)
  show "store_wf e' = store_wf e" by (simp add: store_wf_def assms g)
  show "store_before e e'" by (auto simp: store_before_def row_before_def r assms)
  show "rows_of e' = rows_of e" by (rule r)
  show "find_task e' = find_task e" by (simp add: find_task_def assms fun_eq_iff)
qed

lemma store_run_wf: "store_run P db e \<Longrightarrow> store_wf db \<Longrightarrow> store_wf e \<and> store_before db e"
proof (induction rule: store_run.induct)
  case (start db)
  then show ?case by (simp add: store_before_refl)
next
  case (create db e uuid w ow subject session t project now)
  then show ?case using insert_task_wf [of e "blank_task_row uuid w ow subject session t project now"]
    by (auto simp: blank_task_row_def intro: store_before_trans)
next
  case (elsewhere db e e')
  then show ?case using unchanged_store(1,2) [OF elsewhere.hyps(2,3)] by (blast intro: store_before_trans)
next
  case (commit db rd ev cur a row w e)
  then have wf: "store_wf rd" "store_wf cur" and before: "store_before db rd" "store_before rd cur"
    by (auto intro: store_before_trans)
  have row: "row \<in> set (tdb_tasks rd)" using find_task_Some [OF commit.hyps(4)] by simp
  have e: "e = committed a row (load_task_state_events ev (tk_id row) MAX_TASK_STATE_EVENTS_PER_FOLD (aa_now a)) cur"
    and cur: "row \<in> set (tdb_tasks cur)"
    using cas_attempt_Inr [OF commit.hyps(7) wf(2) commit.hyps(6)] same_revision_same_row [OF before(2) wf(2) row] by blast+
  show ?case
    using committed_wf [OF wf(2) cur] committed_before [OF cur wf(2)] before e by (auto intro: store_before_trans)
qed

section \<open>One call is one commit\<close>

text \<open>The callback's contract: it changes other tables.\<close>

definition framed :: "apply_args \<Rightarrow> bool" where
  "framed a = (case aa_side_effects a of None \<Rightarrow> True
     | Some f \<Rightarrow> (\<forall>d plan d'. f d plan = Ok d' \<longrightarrow> tdb_tasks d' = tdb_tasks d \<and> tdb_events d' = tdb_events d))"

lemma framedD: "framed a \<Longrightarrow> run_side_effects a d = Ok d' \<Longrightarrow> tdb_tasks d' = tdb_tasks d \<and> tdb_events d' = tdb_events d"
  by (auto simp: framed_def run_side_effects_def split: option.splits)

abbreviation without_callback :: "apply_args \<Rightarrow> apply_args" where
  "without_callback a \<equiv> a\<lparr>aa_invalidation := None\<rparr>"

lemma write_of_cong:
  "write_of (a\<lparr>aa_invalidation := x\<rparr>) = write_of a" "write_of (a\<lparr>aa_expected := y\<rparr>) = write_of a"
  "write_of (a\<lparr>aa_revalidate := z\<rparr>) = write_of a" "write_of (a\<lparr>aa_retry_once := b\<rparr>) = write_of a"
  by (simp_all add: write_of_def fun_eq_iff)

lemma cas_attempt_split:
  "run_side_effects a d = Ok d' \<Longrightarrow> cas_attempt a row prior d = cas_attempt (without_callback a) row prior d'"
  by (simp add: cas_attempt_def write_of_cong run_side_effects_def [of "without_callback a"])

lemma cas_attempt_Ok_side:
  "cas_attempt a row prior d = Ok r \<Longrightarrow> \<exists>d'. run_side_effects a d = Ok d'"
  by (auto simp: cas_attempt_def res_bind_Ok_iff)

definition plain :: "apply_args \<Rightarrow> apply_args" where
  "plain a = a\<lparr>aa_expected := None, aa_revalidate := None, aa_retry_once := False\<rparr>"

lemma plain_simps [simp]:
  "aa_workspace (plain a) = aa_workspace a" "aa_owner (plain a) = aa_owner a" "aa_task (plain a) = aa_task a"
  "aa_new (plain a) = aa_new a" "aa_now (plain a) = aa_now a" "aa_expected (plain a) = None"
  "aa_retry_once (plain a) = False" "aa_side_effects (plain a) = aa_side_effects a"
  "aa_invalidation (plain a) = aa_invalidation a" "write_of (plain a) = write_of a"
  "framed (plain a) = framed a" "plain (plain a) = plain a" "run_side_effects (plain a) = run_side_effects a"
  by (simp_all add: plain_def write_of_def framed_def run_side_effects_def fun_eq_iff)

lemma cas_attempt_plain [simp]: "cas_attempt (plain a) = cas_attempt a"
  by (simp add: cas_attempt_def fun_eq_iff)

definition loaded :: "task_db \<Rightarrow> task_row \<Rightarrow> apply_args \<Rightarrow> task_event list" where
  "loaded d row a = load_task_state_events d (tk_id row) MAX_TASK_STATE_EVENTS_PER_FOLD (aa_now a)"

text \<open>An attempt on stale reads that commits is one commit, and the same as one on the store it commits to.\<close>

lemma stale_attempt:
  assumes wf: "store_wf rd" and runs: "store_run P rd ev" "store_run P ev cur" and frame: "framed a"
    and row: "find_task rd (aa_workspace a) (aa_owner a) (aa_task a) = Some row" and new: "list_all P (aa_new a)"
    and cas: "cas_attempt a row (loaded ev row a) cur = Ok (Inr (w, db'))"
  shows "store_run P rd db' \<and> store_wf db'
    \<and> apply_task_state_events (\<lambda>_ d. d) (plain a) cur = Ok (w, db')"
proof -
  obtain mid where mid: "run_side_effects a cur = Ok mid" using cas_attempt_Ok_side [OF cas] by blast
  note same = framedD [OF frame mid]
  have mid_run: "store_run P ev mid" using runs(2) same by (blast intro: elsewhere)
  have cas': "cas_attempt (without_callback a) row (loaded ev row a) mid = Ok (Inr (w, db'))"
    using cas cas_attempt_split [OF mid] by simp
  have "store_run P rd db'"
    by (rule commit [OF start runs(1) mid_run, of "without_callback a" row w])
      (use row new cas' in \<open>simp_all add: run_side_effects_def loaded_def\<close>)
  moreover have wfs: "store_wf ev" "store_wf cur" "store_before rd ev" "store_before ev cur" "store_wf db'"
    using store_run_wf [OF runs(1) wf] store_run_wf [OF runs(2)] store_run_wf [OF calculation wf] by simp_all
  moreover have r: "row \<in> set (tdb_tasks rd)" "task_key row = (aa_workspace a, aa_owner a, aa_task a)"
    using find_task_Some [OF row] by simp_all
  have before: "store_before rd cur" using wfs store_before_trans by blast
  have wf_mid: "store_wf mid" "store_before cur mid" using unchanged_store(1,2) [of mid cur] same wfs by simp_all
  have cur: "row \<in> set (tdb_tasks cur)"
    using cas_attempt_Inr [OF cas wf_mid(1) mid] same_revision_same_row [OF store_before_trans [OF before wf_mid(2)] wf_mid(1) r(1)]
      same by metis
  have "row \<in> set (tdb_tasks ev)"
  proof -
    obtain s where s: "s \<in> set (tdb_tasks ev)" "row_before rd row ev s" using wfs(3) r(1) by (auto simp: store_before_def)
    obtain u where u: "u \<in> set (tdb_tasks cur)" "row_before ev s cur u" using wfs(4) s(1) by (auto simp: store_before_def)
    have "u = row" using distinct_on [of tk_id "tdb_tasks cur" u row] wfs(2) u s cur by (simp add: store_wf_def row_before_def)
    then have "s = row" using s(2) u(2) by (auto simp: row_before_def)
    with s(1) show ?thesis by simp
  qed
  then have "loaded cur row a = loaded ev row a"
    using same_revision_same_row [OF wfs(4,2) _ cur] by (simp add: loaded_def load_task_state_events_def)
  moreover have "find_task cur (aa_workspace a) (aa_owner a) (aa_task a) = Some row" by (rule find_task_eq [OF wfs(2) cur r(2)])
  ultimately show ?thesis
    using cas by (simp add: apply_task_state_events_def apply_with_def loaded_def)
qed

lemma apply_with_Ok:
  assumes "apply_with conflict others a db0 = Ok (w, db')"
  obtains (won) row where "find_task db0 (aa_workspace a) (aa_owner a) (aa_task a) = Some row"
      "aa_expected a \<in> {None, Some (tk_revision row)}"
      "cas_attempt a row (loaded (others 0 db0) row a) (others 1 (others 0 db0)) = Ok (Inr (w, db'))"
  | (conflict) x y d where "conflict x y d = Ok (w, db')" "d \<in> {db0, others 1 (others 0 db0)}"
proof (cases "find_task db0 (aa_workspace a) (aa_owner a) (aa_task a)")
  case None
  then show ?thesis using assms by (simp add: apply_with_def)
next
  case (Some row)
  show ?thesis
  proof (cases "aa_expected a \<in> {None, Some (tk_revision row)}")
    case False
    then show ?thesis using assms Some conflict by (simp add: apply_with_def)
  next
    case True
    then obtain r where r: "cas_attempt a row (loaded (others 0 db0) row a) (others 1 (others 0 db0)) = Ok r"
      and c: "(case r of Inl actual \<Rightarrow> conflict (tk_revision row) actual (others 1 (others 0 db0)) | Inr x \<Rightarrow> Ok x) = Ok (w, db')"
      using assms Some by (auto simp del: One_nat_def simp: apply_with_def Let_def loaded_def res_bind_Ok_iff)
    show ?thesis using c r Some True won conflict by (cases r) auto
  qed
qed

lemma apply_commits:
  assumes wf: "store_wf db0" and others: "\<And>n d. store_run P d (others n d)" and frame: "framed a"
    and new: "list_all P (aa_new a)" and ok: "apply_task_state_events others a db0 = Ok (w, db')"
  shows "store_run P db0 db' \<and> store_wf db'
    \<and> (\<exists>cur. store_run P db0 cur \<and> apply_task_state_events (\<lambda>_ d. d) (plain a) cur = Ok (w, db'))"
proof -
  have direct: ?thesis
    if run: "store_run P db0 e" and find: "find_task e (aa_workspace a) (aa_owner a) (aa_task a) = Some row"
      and cas: "cas_attempt a row (loaded (f 0 e) row a) (f 1 (f 0 e)) = Ok (Inr (w, db'))"
      and f: "\<And>n d. store_run P d (f n d)" for e row f
  proof -
    have "store_wf e" using store_run_wf [OF run wf] by simp
    from stale_attempt [OF this f f frame find new cas]
    have s: "store_run P e db'" "store_wf db'" "apply_task_state_events (\<lambda>_ d. d) (plain a) (f 1 (f 0 e)) = Ok (w, db')" by auto
    have "store_run P db0 (f 1 (f 0 e))" using run f store_run_trans by metis
    with s run show ?thesis using store_run_trans by blast
  qed
  from ok [unfolded apply_task_state_events_def] show ?thesis
  proof (cases rule: apply_with_Ok)
    case (won row)
    then show ?thesis using direct [OF start] others by blast
  next
    case (conflict x y d)
    have run: "store_run P db0 d" using conflict(2) others store_run_trans start by (metis insertE singletonD)
    let ?e = "others 3 (others 2 d)" and ?f = "\<lambda>n. others (n + 4)"
    have "aa_retry_once a" and retry: "revalidated_retry others a d = Ok (w, db')"
      using conflict(1) by (auto simp: raise_conflict_def split: if_split_asm)
    then have again: "apply_with (raise_conflict (plain a)) ?f (plain a) ?e = Ok (w, db')"
      by (auto simp: revalidated_retry_def Let_def plain_def split: option.splits prod.splits if_split_asm)
    have e: "store_run P db0 ?e" using run others store_run_trans by metis
    from again show ?thesis
    proof (cases rule: apply_with_Ok)
      case (won row)
      then show ?thesis using direct [OF e, of row ?f] others by (simp add: loaded_def)
    qed (simp add: raise_conflict_def)
  qed
qed

section \<open>A store to try\<close>

definition sample_task :: task_row where
  "sample_task = blank_task_row ''i'' ''W'' ''O'' ''U'' ''S'' ''T'' None (Aware 1 0)"

definition sample_store :: task_db where
  "sample_store = \<lparr>tdb_tasks = [sample_task], tdb_events = [], tdb_jobs = [], tdb_directives = [], tdb_permits = []\<rparr>"

definition sample_apply :: apply_args where
  "sample_apply = \<lparr>aa_workspace = ''W'', aa_owner = ''O'', aa_session = ''S'', aa_task = ''T'',
     aa_new = [sample_objective 0 ''h''], aa_now = Aware 1 0, aa_expected = Some 0, aa_invalidation = None,
     aa_side_effects = None, aa_revalidate = None, aa_retry_once = True\<rparr>"

definition sample_written :: task_db where
  "sample_written = committed sample_apply sample_task (loaded sample_store sample_task sample_apply) sample_store"

lemma sample_wf: "store_wf sample_store"
  by (simp add: store_wf_def sample_store_def gapless_def rows_of_def sample_task_def blank_task_row_def)

lemma sample_find: "find_task sample_store ''W'' ''O'' ''T'' = Some sample_task"
  by (simp add: find_task_def sample_store_def is_task_def sample_task_def blank_task_row_def)

lemma sample_cas: "cas_attempt sample_apply sample_task (loaded sample_store sample_task sample_apply) sample_store
    = Ok (Inr (write_of sample_apply sample_task (loaded sample_store sample_task sample_apply), sample_written))"
  by (simp add: cas_attempt_def run_side_effects_def sample_apply_def sample_store_def stamp_events_def Let_def
      cas_update_def sample_written_def committed_def)

lemma sample_run: "store_run (\<lambda>_. True) sample_store sample_written"
  by (rule commit [OF start start start _ _ _ sample_cas [unfolded loaded_def]])
    (simp_all add: sample_apply_def sample_find run_side_effects_def)

section \<open>Properties\<close>

text \<open>
  C11. Every interleaving of creations and writes (task_state_store.py, ensure_task_state and
  apply_task_state_events) keeps the store well formed: identifiers and identities are unique, and the events of
  a task are numbered 1, 2, 3, ... without gap up to its highest_seq.  A task row of an earlier store is still
  there; its log has only grown; and as long as its revision is the same, the row and its log are the same.
\<close>

theorem task_logs_are_gapless:
  assumes "store_run P db e" "store_wf db"
  shows "store_wf e \<and> store_before db e"
  using assms by (rule store_run_wf)

theorem task_logs_are_gapless_witness:
  "store_wf sample_written \<and> store_before sample_store sample_written
    \<and> map en_seq (rows_of sample_written ''i'') = [1]"
  using task_logs_are_gapless [OF sample_run sample_wf]
  by (simp add: sample_written_def rows_of_committed)
    (simp add: sample_store_def rows_of_def sample_task_def blank_task_row_def sample_apply_def stamp_events_def row_of_event_def)

text \<open>
  C10. The optimistic write is atomic (task_state_store.py, apply_task_state_events and _revalidated_retry): when
  a call returns, whatever other connections committed between its reads and its first write and before its
  retry, then what it wrote and returned is what the same call, alone and without a precondition, does on some
  store between; so no write is based on a row or a log that has changed.
\<close>

theorem optimistic_write_is_atomic:
  assumes "store_wf db0" "\<And>n d. store_run P d (others n d)" "framed a" "list_all P (aa_new a)"
    and "apply_task_state_events others a db0 = Ok (w, db')"
  shows "store_run P db0 db' \<and> store_wf db'
    \<and> (\<exists>cur. store_run P db0 cur \<and> apply_task_state_events (\<lambda>_ d. d) (plain a) cur = Ok (w, db'))"
  using assms by (rule apply_commits)

theorem optimistic_write_is_atomic_witness:
  "\<exists>cur w. apply_task_state_events (\<lambda>_ d. d) (plain sample_apply) cur = Ok (w, sample_written)"
proof -
  have "apply_task_state_events (\<lambda>_ d. d) sample_apply sample_store
      = Ok (write_of sample_apply sample_task (loaded sample_store sample_task sample_apply), sample_written)"
    using sample_cas sample_find
    by (simp add: apply_task_state_events_def apply_with_def loaded_def sample_apply_def sample_task_def blank_task_row_def)
  from optimistic_write_is_atomic [where P = "\<lambda>_. True", OF sample_wf _ _ _ this] show ?thesis
    by (auto simp: framed_def sample_apply_def intro: start)
qed

text \<open>
  A lost race between two writes that each append events (task_state_store.py, apply_task_state_events): the
  loser's first INSERT meets the sequence number the winner took, so the call ends with the unique index's
  IntegrityError, with or without retry_once; the lost swap that the docstring calls the primary conflict, and
  that the retry waits for, is not reached.
\<close>

theorem lost_race_is_an_integrity_error:
  assumes "store_wf db0" "find_task db0 (aa_workspace a) (aa_owner a) (aa_task a) = Some row"
    and "aa_expected a \<in> {None, Some (tk_revision row)}" "aa_new a \<noteq> []" "framed a"
    and "store_run P db0 (others 1 (others 0 db0))" "run_side_effects a (others 1 (others 0 db0)) = Ok mid"
    and "find_task (others 1 (others 0 db0)) (aa_workspace a) (aa_owner a) (aa_task a) = Some row'"
    and "tk_highest row < tk_highest row'"
  shows "apply_task_state_events others a db0 = Err UniqueSeq"
proof -
  let ?cur = "others 1 (others 0 db0)"
  have wf: "store_wf ?cur" "store_before db0 ?cur" using store_run_wf [OF assms(6,1)] by simp_all
  note r = find_task_Some [OF assms(2)] find_task_Some [OF assms(8)]
  obtain s where s: "s \<in> set (tdb_tasks ?cur)" "row_before db0 row ?cur s"
    using wf(2) r(1) by (auto simp: store_before_def)
  have "s = row'" using distinct_on [of task_key "tdb_tasks ?cur" s row'] wf(1) s r by (simp add: store_wf_def row_before_def)
  with s(2) have id: "tk_id row' = tk_id row" by (simp add: row_before_def)
  have "gapless ?cur row'" "gapless db0 row" using wf(1) assms(1) r by (simp_all add: store_wf_def list_all_iff)
  then have "tk_highest row + 1 \<in> set (map en_seq (rows_of ?cur (tk_id row)))"
    using assms(9) by (simp add: gapless_def id)
  then obtain x where "x \<in> set (tdb_events mid)" "en_state_id x = tk_id row" "en_seq x = tk_highest row + 1"
    using framedD [OF assms(5,7)] by (auto simp: rows_of_def)
  moreover obtain e es where "stamp_events (tk_highest row) (aa_new a) = e # es" "e_seq e = tk_highest row + 1"
    using assms(4) by (cases "aa_new a") (auto simp: stamp_events_def)
  ultimately have "insert_events (map (row_of_event row) (stamp_events (tk_highest row) (aa_new a))) mid = Err UniqueSeq"
    by (auto simp: list_ex_iff row_of_event_def)
  then show ?thesis
    using assms(2,3,7) by (simp del: One_nat_def add: apply_task_state_events_def apply_with_def cas_attempt_def Let_def)
qed

theorem lost_race_is_an_integrity_error_witness:
  "apply_task_state_events (\<lambda>n d. if n = 1 then sample_written else d) sample_apply sample_store = Err UniqueSeq"
proof -
  let ?w = "write_row (write_of sample_apply sample_task (loaded sample_store sample_task sample_apply)) 0 (Aware 1 0) sample_task"
  have new: "find_task sample_written ''W'' ''O'' ''T'' = Some ?w"
    by (simp add: sample_written_def committed_def find_task_def sample_store_def is_task_def)
      (simp add: sample_task_def blank_task_row_def sample_apply_def)
  have high: "tk_highest ?w = 1"
    using next_highest_write [of sample_task sample_apply] by (simp add: sample_task_def blank_task_row_def sample_apply_def)
  show ?thesis
    by (rule lost_race_is_an_integrity_error [OF sample_wf, where row = sample_task and row' = ?w and P = "\<lambda>_. True"
          and mid = sample_written])
      (use new high sample_run sample_find in \<open>simp_all add: sample_apply_def framed_def run_side_effects_def\<close>,
        simp_all add: sample_task_def blank_task_row_def)
qed

end
