(* ===== verification/Task_Store_Rebuild.thy ===== *)
theory Task_Store_Rebuild
  imports Task_Store_Facts
begin

text \<open>
  The stored row and the log: a row reads back as the projection that was written, it is the fold of its
  log whichever connection wrote it, and cancelling a task leaves nothing of it live.
\<close>

section \<open>Events that survive their row\<close>

definition storable :: "task_event \<Rightarrow> bool" where
  "storable e = (utc_ok (e_at e) \<and> event_payload_to_json (e_payload e) = e_payload e \<and> opt_ok (e_source e)
     \<and> opt_ok (e_directive e) \<and> opt_ok (e_goal e))"

lemma event_row_roundtrip: "storable e \<Longrightarrow> event_from_row now (row_of_event t e) = e"
  by (simp add: storable_def event_from_row_def row_of_event_def parse_utc_text text_or_none_ok)

definition readable :: "event_row \<Rightarrow> bool" where
  "readable r = (parse_dt_column (Some (en_at r)) \<noteq> None)"

lemma event_from_row_now: "readable r \<Longrightarrow> event_from_row now r = event_from_row now' r"
  by (auto simp: readable_def event_from_row_def)

lemma readable_row: "storable e \<Longrightarrow> readable (row_of_event t e)"
  by (simp add: storable_def readable_def row_of_event_def parse_utc_text)

lemma storable_stamp: "list_all storable es \<Longrightarrow> list_all storable (stamp_events h es)"
  by (auto simp: list_all_iff stamp_events_def storable_def in_set_enumerate_eq)

lemma e_seq_from_row [simp]: "e_seq (event_from_row now r) = en_seq r"
  by (simp add: event_from_row_def)

section \<open>The window holds a short log\<close>

lemma sql_latest_in: "sql_latest rows k = Some r \<Longrightarrow> r \<in> set rows"
proof -
  have "fold (\<lambda>r best. if en_kind r = k \<and> (case best of None \<Rightarrow> True | Some b \<Rightarrow> en_seq b < en_seq r)
      then Some r else best) rows x = Some r \<Longrightarrow> r \<in> set rows \<or> x = Some r" for x
    by (induction rows arbitrary: x) (auto split: if_split_asm option.splits)
  then show "sql_latest rows k = Some r \<Longrightarrow> ?thesis" unfolding sql_latest_def by fastforce
qed

lemma sql_window_all:
  assumes "int (length rows) \<le> m - int (length PINNED_KINDS)"
  shows "set (sql_window m rows) = set rows"
proof -
  have "set (List.map_filter (sql_latest rows) ks) \<subseteq> set rows" for ks
    by (auto simp: List.map_filter_def dest: sql_latest_in)
  moreover have "length (rev (sort_key en_seq rows)) \<le> nat (max 0 (m - int (length PINNED_KINDS)))"
    using assms by simp
  then have "set (sql_tail (max 0 (m - int (length PINNED_KINDS))) rows) = set rows"
    by (simp add: sql_tail_def del: length_rev length_sort)
  ultimately show ?thesis by (auto simp: sql_window_def)
qed

text \<open>The fold of a window of a numbered log is the fold of the log.\<close>

lemma fold_numbered:
  assumes "set es = set L" "distinct (map e_seq L)"
  shows "fold_task_state es t w ow se r m = fold_task_state L t w ow se r m"
proof -
  have "inj_on event_key (set es)"
    using assms by (auto simp: inj_on_def event_key_def distinct_map)
  with fold_window_cong [OF assms(1) this] show ?thesis by (simp add: fold_task_state_def)
qed

definition log_of :: "task_db \<Rightarrow> task_row \<Rightarrow> task_event list" where
  "log_of db r = map (event_from_row EPOCH) (rows_of db (tk_id r))"

definition short_log :: "task_db \<Rightarrow> task_row \<Rightarrow> bool" where
  "short_log db r = (length (rows_of db (tk_id r)) \<le> 1997)"

lemma loaded_is_log:
  assumes "list_all readable (rows_of db (tk_id r))" "short_log db r"
  shows "set (load_task_state_events db (tk_id r) MAX_TASK_STATE_EVENTS_PER_FOLD now) = set (log_of db r)"
proof -
  have "set (sql_window MAX_TASK_STATE_EVENTS_PER_FOLD (rows_of db (tk_id r))) = set (rows_of db (tk_id r))"
    by (rule sql_window_all) (use assms(2) in \<open>simp add: short_log_def MAX_TASK_STATE_EVENTS_PER_FOLD_def PINNED_KINDS_def\<close>)
  moreover have "event_from_row now x = event_from_row EPOCH x" if "x \<in> set (rows_of db (tk_id r))" for x
    using assms(1) that by (intro event_from_row_now) (simp add: list_all_iff)
  ultimately show ?thesis by (simp add: load_task_state_events_def log_of_def)
qed

lemma gapless_distinct: "gapless db r \<Longrightarrow> distinct (map e_seq (log_of db r))"
  by (simp add: gapless_def log_of_def comp_def)

section \<open>The row is the fold of its log\<close>

text \<open>Writing the folded projection into the row, its revision and time stamp apart, changes nothing.\<close>

definition mirrors :: "fold_result \<Rightarrow> task_row \<Rightarrow> bool" where
  "mirrors fr r = ((write_row \<lparr>tw_expected_revision = tk_revision r - 1, tw_next_revision = tk_revision r,
     tw_next_seq_start = tk_highest r + 1, tw_projection = fr_projection fr, tw_source_revision = fr_source_revision fr,
     tw_events = []\<rparr> (tk_highest r) (Aware 0 0) r)\<lparr>tk_updated_at := tk_updated_at r\<rparr> = r)"

definition folded :: "task_db \<Rightarrow> task_row \<Rightarrow> fold_result" where
  "folded db r = fold_task_state (log_of db r) (tk_task r) (tk_workspace r) (tk_owner r) (tk_session r) (tk_revision r)
     MAX_TASK_STATE_EVENTS_PER_FOLD"

definition row_current :: "task_db \<Rightarrow> task_row \<Rightarrow> bool" where
  "row_current db r = (list_all readable (rows_of db (tk_id r)) \<and> 0 \<le> tk_revision r
     \<and> (0 < tk_revision r \<and> short_log db r \<longrightarrow> mirrors (folded db r) r))"

definition store_current :: "task_db \<Rightarrow> bool" where
  "store_current db = (\<forall>r \<in> set (tdb_tasks db). row_current db r)"

lemma mirrors_write:
  assumes "fr_projection fr = projection_of_state t w ow se n s" "tw_projection wr = projection_of_state t w ow se' n' s"
    "fr_source_revision fr = tw_source_revision wr"
  shows "mirrors fr (write_row wr h now r)"
  using assms by (simp add: mirrors_def write_row_def Let_def projection_of_state_def next_highest_def)

lemma fold_source: "fr_source_revision (fold_task_state es t w ow se r m) = source_revision (fst (fold_window m es))"
  by (simp add: fold_task_state_def Let_def split: prod.split)

lemma write_of_parts:
  assumes "fold_task_state (prior @ stamp_events (tk_highest row) (aa_new a)) (aa_task a) (aa_workspace a) (aa_owner a)
      (aa_session a) (tk_revision row + 1) MAX_TASK_STATE_EVENTS_PER_FOLD
    = fold_task_state L (aa_task a) (aa_workspace a) (aa_owner a) (aa_session a) (tk_revision row + 1) MAX_TASK_STATE_EVENTS_PER_FOLD"
  shows "tw_projection (write_of a row prior) = projection_of_state (aa_task a) (aa_workspace a) (aa_owner a) (aa_session a)
      (tk_revision row + 1) (fold_events (aa_task a) (fst (fold_window MAX_TASK_STATE_EVENTS_PER_FOLD L)))
    \<and> tw_source_revision (write_of a row prior) = source_revision (fst (fold_window MAX_TASK_STATE_EVENTS_PER_FOLD L))"
  unfolding write_of_def prepare_write_def Let_def assms by (simp add: fold_projection fold_source)

lemma row_current_cong: "rows_of e = rows_of d \<Longrightarrow> row_current e r = row_current d r"
  by (simp add: row_current_def short_log_def folded_def log_of_def)

lemma row_current_cong1: "rows_of e (tk_id r) = rows_of d (tk_id r) \<Longrightarrow> row_current e r = row_current d r"
  by (simp add: row_current_def short_log_def folded_def log_of_def)

lemma committed_current:
  assumes wf: "store_wf cur" and row: "row \<in> set (tdb_tasks cur)" and cur: "store_current cur"
    and new: "list_all storable (aa_new a)" and key: "task_key row = (aa_workspace a, aa_owner a, aa_task a)"
  shows "store_current (committed a row (loaded cur row a) cur)"
proof -
  let ?e = "committed a row (loaded cur row a) cur" and ?st = "stamp_events (tk_highest row) (aa_new a)"
  let ?w = "write_of a row (loaded cur row a)"
  let ?r = "write_row ?w (tk_highest row) (aa_now a) row"
  note st = storable_stamp [OF new, of "tk_highest row"]
  have rc: "row_current cur r" if "r \<in> set (tdb_tasks cur)" for r using cur that by (simp add: store_current_def)
  have rows: "rows_of ?e (tk_id row) = rows_of cur (tk_id row) @ map (row_of_event row) ?st" by (simp add: rows_of_committed)
  have log: "log_of ?e ?r = log_of cur row @ ?st"
    using st event_row_roundtrip by (simp add: log_of_def rows comp_def list_all_iff cong: map_cong)
  have e_wf: "store_wf ?e" by (rule committed_wf [OF wf row])
  have r_in: "?r \<in> set (tdb_tasks ?e)" using row by (auto simp: committed_tasks)
  have new_row: "row_current ?e ?r"
  proof -
    have read: "list_all readable (rows_of ?e (tk_id ?r))"
      using rc [OF row] st by (auto simp: rows row_current_def list_all_iff readable_row)
    moreover have "mirrors (folded ?e ?r) ?r" if short: "short_log ?e ?r"
    proof -
      have "short_log cur row" using short by (simp add: short_log_def rows)
      then have "set (loaded cur row a) = set (log_of cur row)"
        unfolding loaded_def using rc [OF row] by (intro loaded_is_log) (simp_all add: row_current_def)
      then have set: "set (loaded cur row a @ ?st) = set (log_of ?e ?r)" by (simp add: log)
      have "gapless ?e ?r" using e_wf r_in by (simp add: store_wf_def list_all_iff)
      note eq = fold_numbered [OF set gapless_distinct [OF this]]
      have k: "tk_workspace row = aa_workspace a" "tk_owner row = aa_owner a" "tk_task row = aa_task a"
        using key by (simp_all add: task_key_def)
      note parts = write_of_parts [where L = "log_of ?e ?r", OF eq]
      show ?thesis
        by (rule mirrors_write [where s = "fold_events (aa_task a) (fst (fold_window MAX_TASK_STATE_EVENTS_PER_FOLD (log_of ?e ?r)))"])
          (simp_all only: folded_def fold_projection fold_source parts write_row_frame k)
    qed
    ultimately show ?thesis using rc [OF row] by (simp add: row_current_def)
  qed
  show ?thesis unfolding store_current_def
  proof
    fix r assume "r \<in> set (tdb_tasks ?e)"
    then consider "r = ?r" | "r \<in> set (tdb_tasks cur)" "r \<noteq> row" by (auto simp: committed_tasks split: if_split_asm)
    then show "row_current ?e r"
    proof cases
      case 2
      then have "tk_id r \<noteq> tk_id row" using distinct_on [of tk_id "tdb_tasks cur" r row] wf row by (auto simp: store_wf_def)
      then show ?thesis using rc [OF 2(1)] row_current_cong1 [of ?e r cur] by (simp add: rows_of_committed)
    qed (simp add: new_row)
  qed
qed

lemma store_before_prefix:
  "store_before d e \<Longrightarrow> r \<in> set (tdb_tasks d) \<Longrightarrow> prefix (rows_of d (tk_id r)) (rows_of e (tk_id r))"
  by (auto simp: store_before_def row_before_def)

lemma store_before_id: "store_before d e \<Longrightarrow> r \<in> set (tdb_tasks d) \<Longrightarrow> \<exists>s \<in> set (tdb_tasks e). tk_id s = tk_id r"
  by (auto simp: store_before_def row_before_def)

lemma blank_row_simps [simp]:
  "tk_id (blank_task_row uuid w ow subject session t project now) = uuid"
  "tk_revision (blank_task_row uuid w ow subject session t project now) = 0"
  "tk_highest (blank_task_row uuid w ow subject session t project now) = 0"
  by (simp_all add: blank_task_row_def)

lemma insert_task_current:
  assumes "store_wf db" "store_current db"
  shows "store_current (insert_task (blank_task_row uuid w ow subject session t project now) db)"
proof (cases "insert_task (blank_task_row uuid w ow subject session t project now) db = db")
  case False
  let ?row = "blank_task_row uuid w ow subject session t project now"
  from False have db: "insert_task ?row db = db\<lparr>tdb_tasks := tdb_tasks db @ [?row]\<rparr>"
    and new: "\<forall>r \<in> set (tdb_tasks db). tk_id r \<noteq> uuid"
    by (auto simp: insert_task_def list_ex_iff split: if_split_asm)
  have "rows_of db uuid = []"
    using assms(1) new unfolding rows_of_def store_wf_def list_all_iff filter_empty_conv by (metis imageE)
  then have "row_current (insert_task ?row db) ?row" by (simp add: row_current_def db)
  moreover have "row_current (insert_task ?row db) r" if "r \<in> set (tdb_tasks db)" for r
    using assms(2) that row_current_cong [of "insert_task ?row db" db] by (simp add: store_current_def db fun_eq_iff)
  ultimately show ?thesis by (auto simp: store_current_def db)
qed (use assms in simp)

lemma run_current:
  "store_run P db e \<Longrightarrow> P = storable \<Longrightarrow> store_wf db \<Longrightarrow> store_current db \<Longrightarrow> store_current e"
proof (induction rule: store_run.induct)
  case (create db e uuid w ow subject session t project now)
  from create.IH [OF create.prems] store_run_wf [OF create.hyps create.prems(2)] show ?case
    by (intro insert_task_current) simp_all
next
  case (elsewhere db e e')
  from elsewhere.IH [OF elsewhere.prems] have "store_current e" .
  then show ?case
    unfolding store_current_def elsewhere.hyps(2) using row_current_cong [OF unchanged_store(3) [OF elsewhere.hyps(2,3)]] by simp
next
  case (commit db rd ev cur a row w e)
  have rd: "store_wf rd" using store_run_wf [OF commit.hyps(1) commit.prems(2)] by simp
  have ev: "store_wf ev" "store_before rd ev" using store_run_wf [OF commit.hyps(2) rd] by simp_all
  have cur_wf: "store_wf cur" "store_before ev cur" using store_run_wf [OF commit.hyps(3) ev(1)] by simp_all
  have before: "store_before rd cur" by (rule store_before_trans [OF ev(2) cur_wf(2)])
  have "store_current rd" by (rule commit.IH(1) [OF commit.prems])
  then have "store_current ev" by (rule commit.IH(2) [OF commit.prems(1) rd])
  then have current: "store_current cur" by (rule commit.IH(3) [OF commit.prems(1) ev(1)])
  note row = find_task_Some [OF commit.hyps(4)]
  have unique: "r = row" if "r \<in> set (tdb_tasks cur)" "tk_id r = tk_id row" "tk_revision r = tk_revision row" for r
    using same_revision_same_row [OF before cur_wf(1) conjunct1 [OF row]] that by blast
  have e: "e = committed a row (loaded ev row a) cur" and cur: "row \<in> set (tdb_tasks cur)"
    using cas_attempt_Inr [OF commit.hyps(7) cur_wf(1) commit.hyps(6)] unique unfolding loaded_def by blast+
  have "loaded ev row a = loaded cur row a"
  proof -
    have "rows_of cur (tk_id row) = rows_of rd (tk_id row)"
      using same_revision_same_row [OF before cur_wf(1) conjunct1 [OF row] cur] by simp
    moreover obtain s where s: "s \<in> set (tdb_tasks ev)" "tk_id s = tk_id row"
      using store_before_id [OF ev(2) conjunct1 [OF row]] by blast
    moreover have "prefix (rows_of rd (tk_id row)) (rows_of ev (tk_id row))"
      by (rule store_before_prefix [OF ev(2) conjunct1 [OF row]])
    moreover have "prefix (rows_of ev (tk_id row)) (rows_of cur (tk_id row))"
      using store_before_prefix [OF cur_wf(2) s(1)] s(2) by simp
    ultimately have "rows_of ev (tk_id row) = rows_of cur (tk_id row)" by (simp add: prefix_order.antisym)
    then show ?thesis by (simp add: loaded_def load_task_state_events_def)
  qed
  then show ?case
    using committed_current [OF cur_wf(1) cur current] commit.hyps(5) commit.prems(1) row by (simp add: e)
qed

section \<open>Properties of the stored row\<close>

lemma sample_objective_storable: "storable (sample_objective n h) \<longleftrightarrow> in_range n"
  by (simp add: storable_def sample_objective_def sample_event_def utc_ok_def event_payload_to_json_def opt_ok_def)

lemma sample_current: "store_current sample_store"
  by (simp add: store_current_def sample_store_def row_current_def rows_of_def sample_task_def)

lemma sample_run_storable: "store_run storable sample_store sample_written"
  by (rule commit [OF start start start _ _ _ sample_cas [unfolded loaded_def]])
    (simp_all add: sample_apply_def sample_find run_side_effects_def sample_objective_storable in_range_def MIN_T_def MAX_T_def)

definition sample_row :: task_row where
  "sample_row = write_row (write_of sample_apply sample_task (loaded sample_store sample_task sample_apply)) 0 (Aware 1 0) sample_task"

lemma sample_written_row:
  "find_task sample_written ''W'' ''O'' ''T'' = Some sample_row" "tk_revision sample_row = 1" "tk_id sample_row = ''i''"
  by (simp_all add: sample_written_def committed_def find_task_def sample_store_def is_task_def sample_row_def)
    (simp_all add: sample_task_def blank_task_row_def sample_apply_def)

text \<open>
  C12. The stored row is the fold of its log (task_state_store.py, rebuild_task_state): for a log of at most 1997
  events, whichever connections wrote them and however their calls interleaved, folding the events read back
  from the database gives the columns of the row; the row is not a second source of truth.  Events are required
  to survive their row: a UTC time stamp, a JSON payload, no empty reference.
\<close>

theorem stored_row_is_the_fold:
  assumes "store_run storable db e" "store_wf db" "store_current db"
    and "find_task e w ow t = Some r" "0 < tk_revision r" "length (rows_of e (tk_id r)) \<le> 1997"
  shows "\<exists>fr. rebuild_task_state e w ow t now = Some fr \<and> mirrors fr r"
proof -
  have wf: "store_wf e" using store_run_wf [OF assms(1,2)] by simp
  have r: "r \<in> set (tdb_tasks e)" using find_task_Some [OF assms(4)] by simp
  have "row_current e r" using run_current [OF assms(1) refl assms(2,3)] r by (simp add: store_current_def)
  then have current: "list_all readable (rows_of e (tk_id r))" "mirrors (folded e r) r"
    using assms(5,6) by (simp_all add: row_current_def short_log_def)
  have "gapless e r" using wf r by (simp add: store_wf_def list_all_iff)
  from fold_numbered [OF loaded_is_log [OF current(1)] gapless_distinct [OF this]] assms(6)
  have "rebuild_task_state e w ow t now = Some (folded e r)"
    by (simp add: rebuild_task_state_def assms(4) folded_def short_log_def)
  with current(2) show ?thesis by blast
qed

theorem stored_row_is_the_fold_witness:
  "\<exists>fr. rebuild_task_state sample_written ''W'' ''O'' ''T'' (Aware 7 0) = Some fr \<and> mirrors fr sample_row"
proof -
  have "length (rows_of sample_written (tk_id sample_row)) \<le> 1997"
    by (simp add: sample_written_row sample_written_def rows_of_committed)
      (simp add: sample_store_def rows_of_def sample_apply_def stamp_events_def)
  from stored_row_is_the_fold [OF sample_run_storable sample_wf sample_current sample_written_row(1) _ this]
  show ?thesis by (simp add: sample_written_row(2))
qed

text \<open>What a projection needs to survive its row, and to belong to it.\<close>

definition projection_fits :: "projection \<Rightarrow> task_row \<Rightarrow> int \<Rightarrow> bool" where
  "projection_fits p row revision = (pj_task_id p = tk_task row \<and> pj_workspace_id p = tk_workspace row
     \<and> pj_owner_id p = tk_owner row \<and> pj_session_id p = tk_session row \<and> pj_revision p = revision
     \<and> opt_ok (pj_objective_hash p) \<and> utc_opt_ok (pj_objective_set_at p) \<and> utc_opt_ok (pj_cancelled_at p)
     \<and> list_all constraint_ok (pj_constraints p) \<and> list_all decision_ok (pj_open_decisions p)
     \<and> list_all effect_ok (pj_unresolved_effects p) \<and> plan_ok (pj_plan p)
     \<and> verification_ok (pj_latest_verification p))"

lemma status_of_str [simp]: "status_of (status_str x) = x"
  by (cases x) (simp_all add: status_of_def)

lemma action_of_str [simp]: "action_of (action_str x) = x"
  by (cases x) (simp_all add: action_of_def)

lemma parse_utc_opt: "utc_opt_ok x \<Longrightarrow> parse_dt_column (map_option utc_text x) = x"
  by (cases x) (simp_all add: utc_opt_ok_def parse_utc_text parse_dt_column_def [of None])

lemma citations_roundtrip [simp]: "citations_of (PList (map PStr xs)) = xs"
  by (simp add: citations_of_def py_str_def comp_def)

text \<open>
  C14. The row and its projection (task_state_store.py, _cas_update and _projection_from_row): reading back the row a
  write stored gives, field for field, the projection the write computed.
\<close>

theorem written_row_reads_back:
  assumes "projection_fits (tw_projection w) row (tw_next_revision w)"
  shows "projection_from_row (write_row w h now row) = tw_projection w"
  using assms
  by (simp add: projection_from_row_def write_row_def Let_def projection_fits_def text_or_none_ok parse_utc_opt
      constraints.dec_enc decisions.dec_enc effects.dec_enc plan.dec_enc verification.dec_enc)

definition sample_write :: task_state_write where
  "sample_write = prepare_write [] [sample_objective 0 ''h''] ''T'' ''W'' ''O'' ''S'' 0 0"

theorem written_row_reads_back_witness:
  "projection_from_row (write_row sample_write 0 (Aware 1 0) sample_task) = tw_projection sample_write
    \<and> pj_objective_hash (tw_projection sample_write) = Some ''h''"
proof -
  have stamped: "stamp_events 0 [sample_objective 0 ''h''] = [sample_objective 0 ''h''\<lparr>e_seq := 1\<rparr>]"
    by (simp add: stamp_events_def)
  have win: "fold_window 2000 [sample_objective 0 ''h''\<lparr>e_seq := 1\<rparr>] = ([sample_objective 0 ''h''\<lparr>e_seq := 1\<rparr>], False)"
    by (rule fold_window_ordered) simp_all
  have p: "tw_projection sample_write = projection_of_state ''T'' ''W'' ''O'' ''S'' 1
      (fold_events ''T'' [sample_objective 0 ''h''\<lparr>e_seq := 1\<rparr>])"
    by (simp add: sample_write_def prepare_write_def stamped fold_projection win MAX_TASK_STATE_EVENTS_PER_FOLD_def Let_def)
  have hash: "pj_objective_hash (tw_projection sample_write) = Some ''h''"
    unfolding p by (simp add: projection_of_state_def Let_def sample_objective_def sample_event_def step_eval)
  have "projection_fits (tw_projection sample_write) sample_task (tw_next_revision sample_write)"
    unfolding p
    by (simp add: projection_fits_def projection_of_state_def Let_def sample_objective_def sample_event_def step_eval)
      (simp add: sample_task_def blank_task_row_def sample_write_def prepare_write_def Let_def opt_ok_def utc_opt_ok_def
        utc_ok_def in_range_def MIN_T_def MAX_T_def final_plan_def plan_ok_def verification_ok_def)
  from written_row_reads_back [OF this] hash show ?thesis by blast
qed

section \<open>The window in SQL is the narrower one\<close>

definition restated_store :: task_db where
  "restated_store = sample_store\<lparr>tdb_events := map (row_of_event sample_task) restated_log\<rparr>"

lemma restated_rows: "rows_of restated_store ''i'' = map (row_of_event sample_task) restated_log"
  by (simp add: restated_store_def rows_of_def row_of_event_def restated_log_def sample_task_def blank_task_row_def)

lemma restated_readback: "map (event_from_row now) (map (row_of_event sample_task) restated_log) = restated_log"
proof -
  have "list_all storable restated_log"
    by (simp add: sample_event_defs storable_def utc_ok_def in_range_def MIN_T_def MAX_T_def event_payload_to_json_def opt_ok_def)
  then show ?thesis using event_row_roundtrip by (auto simp: list_all_iff intro!: map_idI)
qed

lemma restated_sql_window:
  "set (load_task_state_events restated_store ''i'' 6 now)
    = set [restated_log ! 1, restated_log ! 3, restated_log ! 4, restated_log ! 5]"
proof -
  let ?r = "row_of_event sample_task"
  have readback: "event_from_row now (?r (restated_log ! n)) = restated_log ! n" if "n < 6" for n
  proof -
    have "n < length restated_log" using that by (simp add: restated_log_def)
    then have "map (event_from_row now) (map ?r restated_log) ! n = event_from_row now (?r (restated_log ! n))" by simp
    then show ?thesis unfolding restated_readback by simp
  qed
  have rows: "map ?r restated_log = map ?r [restated_log ! 0, restated_log ! 1, restated_log ! 2, restated_log ! 3,
      restated_log ! 4, restated_log ! 5]"
    by (simp add: restated_log_def)
  have seqs: "e_seq (restated_log ! 0) = 1" "e_seq (restated_log ! 1) = 2" "e_seq (restated_log ! 2) = 3"
    "e_seq (restated_log ! 3) = 4" "e_seq (restated_log ! 4) = 5" "e_seq (restated_log ! 5) = 6"
    by (simp_all add: sample_event_defs)
  have "sorted (map en_seq (map ?r restated_log))" by (simp del: One_nat_def add: rows row_of_event_def seqs)
  then have srt: "sort_key en_seq (map ?r restated_log) = map ?r restated_log" by (rule sort_key_id_if_sorted)
  have tail: "sql_tail 3 (map ?r restated_log) = map ?r [restated_log ! 5, restated_log ! 4, restated_log ! 3]"
    unfolding sql_tail_def srt by (simp add: rows)
  have kinds: "en_kind (?r (restated_log ! 0)) = kind_str K_OBJECTIVE_SET" "en_kind (?r (restated_log ! 1)) = kind_str K_OBJECTIVE_SET"
    "en_kind (?r (restated_log ! 2)) = kind_str K_EFFECT_RESOLVED" "en_kind (?r (restated_log ! 3)) = kind_str K_EFFECT_RESOLVED"
    "en_kind (?r (restated_log ! 4)) = kind_str K_PLAN_APPROVED" "en_kind (?r (restated_log ! 5)) = kind_str K_EFFECT_RESOLVED"
    by (simp_all add: row_of_event_def sample_event_defs)
  have order: "en_seq (?r (restated_log ! 0)) < en_seq (?r (restated_log ! 1))"
    by (simp del: One_nat_def add: row_of_event_def seqs)
  have pinned: "List.map_filter (sql_latest (map ?r restated_log)) PINNED_KIND_VALUES = [?r (restated_log ! 1)]"
    unfolding rows by (simp del: One_nat_def add: PINNED_KIND_VALUES_def PINNED_KINDS_def List.map_filter_simps
      sql_latest_def kinds order)
  have "max 0 (6 - int (length PINNED_KINDS)) = 3" by (simp add: PINNED_KINDS_def)
  then have "load_task_state_events restated_store ''i'' 6 now
      = map (\<lambda>n. event_from_row now (?r (restated_log ! n))) [1, 5, 4, 3]"
    by (simp del: One_nat_def add: load_task_state_events_def restated_rows sql_window_def tail pinned)
  also have "\<dots> = map (\<lambda>n. restated_log ! n) [1, 5, 4, 3]" by (intro map_cong) (auto intro: readback)
  finally show ?thesis by auto
qed

text \<open>
  The window in SQL and the window of the fold differ (task_state_store.py, load_task_state_events): its
  docstring calls them the same, but the query cuts the tail to the limit less three even when the whole log
  fits the limit.  A log of six events read with a limit of six folds to an active task under contract 2 as a
  whole and to a planning one as the query returns it.
\<close>

theorem sql_window_cuts_earlier:
  "pj_status (fr_projection (fold_task_state (map (event_from_row now) (rows_of restated_store ''i'')) t w ow se r 6)) = S_ACTIVE
   \<and> pj_status (fr_projection (fold_task_state (load_task_state_events restated_store ''i'' 6 now) t w ow se r 6)) = S_PLANNING"
proof -
  let ?L = "[restated_log ! 1, restated_log ! 3, restated_log ! 4, restated_log ! 5]"
  have "distinct (map e_seq ?L)" by (simp add: sample_event_defs)
  note eq = fold_numbered [OF restated_sql_window this]
  have win: "fold_window 6 ?L = (?L, False)" by (rule fold_window_ordered) (simp_all add: sample_event_defs)
  show ?thesis
    unfolding restated_rows restated_readback eq fold_projection restated_full_window win fst_conv
    by (simp add: sample_event_defs step_eval inputs_of_state_def final_plan_def derive_status_def cancel_stands_def
      py_strip_Nil_iff blank_def py_isspace_def code_def live_plan_def root_status_def status_by_index_def
      st_norm_def norm_status_def step_pairs_def candidate_open step_stalled_def py_lower_def py_strip_def
      py_lstrip_def py_rstrip_def py_lower_char_def BLOCKING_STEP_STATUS_def int_tuple_def)
qed

section \<open>A write of one event by an undisturbed call\<close>

lemma strict_upto: "sorted_wrt (<) [i..j]"
proof -
  have "sorted [i..j]" "distinct [i..j]" by simp_all
  then show ?thesis by (simp add: strict_sorted_iff)
qed

definition next_event :: "task_row \<Rightarrow> task_event \<Rightarrow> task_event" where
  "next_event r ev = ev\<lparr>e_seq := tk_highest r + 1\<rparr>"

lemma next_event_simps [simp]:
  "e_seq (next_event r ev) = tk_highest r + 1" "e_kind (next_event r ev) = e_kind ev" "e_at (next_event r ev) = e_at ev"
  "e_payload (next_event r ev) = e_payload ev" "e_source (next_event r ev) = e_source ev"
  by (simp_all add: next_event_def)

text \<open>The row it leaves is written from the fold of the whole log, the new event last.\<close>

lemma lone_write:
  assumes ok: "apply_task_state_events (\<lambda>_ d. d) a db = Ok (wr, db')"
    and plain: "aa_new a = [ev]" "aa_expected a = None" "\<not> aa_retry_once a" "aa_invalidation a = None"
    and wf: "store_wf db" and find: "find_task db (aa_workspace a) (aa_owner a) (aa_task a) = Some r"
    and read: "list_all readable (rows_of db (tk_id r))" and short: "length (rows_of db (tk_id r)) \<le> 1996"
  shows "tw_projection wr = fr_projection (fold_task_state (log_of db r @ [next_event r ev]) (aa_task a) (aa_workspace a) (aa_owner a)
      (aa_session a) (tk_revision r + 1) MAX_TASK_STATE_EVENTS_PER_FOLD)"
    and "find_task db' (aa_workspace a) (aa_owner a) (aa_task a) = Some (write_row wr (tk_highest r) (aa_now a) r)"
    and "tw_next_revision wr = tk_revision r + 1"
    and "sorted_wrt (<) (map e_seq (log_of db r @ [next_event r ev]))"
    and "int (length (log_of db r @ [next_event r ev])) \<le> MAX_TASK_STATE_EVENTS_PER_FOLD"
    and "0 \<le> tk_highest r"
    and "tdb_jobs db' = tdb_jobs db" "tdb_directives db' = tdb_directives db" "tdb_permits db' = tdb_permits db"
proof -
  note row = find_task_Some [OF find]
  have side: "run_side_effects a d = Ok d" for d using plain(4) by (simp add: run_side_effects_def)
  have cas: "cas_attempt a r (loaded db r a) db = Ok (Inr (wr, db'))"
    using ok [unfolded apply_task_state_events_def]
  proof (cases rule: apply_with_Ok)
    case (won row)
    then show ?thesis using find by simp
  qed (use plain in \<open>simp add: raise_conflict_def\<close>)
  have unique: "x = r" if "x \<in> set (tdb_tasks db)" "tk_id x = tk_id r" for x
    using distinct_on [of tk_id "tdb_tasks db" x r] wf row that by (simp add: store_wf_def)
  have wr: "wr = write_of a r (loaded db r a)" and db': "db' = committed a r (loaded db r a) db"
    using cas_attempt_Inr [OF cas wf side] unique by simp_all
  let ?e = "next_event r ev"
  have st: "stamp_events (tk_highest r) (aa_new a) = [?e]" by (simp add: plain(1) stamp_events_def next_event_def)
  have "gapless db r" using wf row by (simp add: store_wf_def list_all_iff)
  then have seqs: "map e_seq (log_of db r) = [1..tk_highest r]" and pos: "0 \<le> tk_highest r"
    by (simp_all add: gapless_def log_of_def comp_def)
  have set: "set (loaded db r a @ [?e]) = set (log_of db r @ [?e])"
    using loaded_is_log [OF read] short by (simp add: loaded_def short_log_def)
  show strict: "sorted_wrt (<) (map e_seq (log_of db r @ [?e]))"
    using seqs by (simp add: sorted_wrt_append strict_upto)
  then have "distinct (map e_seq (log_of db r @ [?e]))" by (simp only: strict_sorted_iff)
  note fold = fold_numbered [OF set this]
  show "int (length (log_of db r @ [?e])) \<le> MAX_TASK_STATE_EVENTS_PER_FOLD"
    using short by (simp add: log_of_def MAX_TASK_STATE_EVENTS_PER_FOLD_def)
  show "tw_projection wr = fr_projection (fold_task_state (log_of db r @ [?e]) (aa_task a) (aa_workspace a) (aa_owner a)
      (aa_session a) (tk_revision r + 1) MAX_TASK_STATE_EVENTS_PER_FOLD)"
    by (simp add: wr write_of_def prepare_write_def Let_def st fold del: append_assoc)
  show "find_task db' (aa_workspace a) (aa_owner a) (aa_task a) = Some (write_row wr (tk_highest r) (aa_now a) r)"
  proof (rule find_task_eq)
    show "store_wf db'" unfolding db' using committed_wf [OF wf] row by blast
    show "write_row wr (tk_highest r) (aa_now a) r \<in> set (tdb_tasks db')" using row by (auto simp: db' committed_tasks wr)
    show "task_key (write_row wr (tk_highest r) (aa_now a) r) = (aa_workspace a, aa_owner a, aa_task a)" using row by (simp add: task_key_def)
  qed
  show "tw_next_revision wr = tk_revision r + 1" by (simp add: wr)
  show "0 \<le> tk_highest r" by (rule pos)
  show "tdb_jobs db' = tdb_jobs db" "tdb_directives db' = tdb_directives db" "tdb_permits db' = tdb_permits db"
    by (simp_all add: db' committed_def)
qed

lemma written_status [simp]:
  "tk_status (write_row wr h n r) = status_str (pj_status (tw_projection wr))"
  "tk_action (write_row wr h n r) = action_str (pj_next_action (tw_projection wr))"
  by (simp_all add: write_row_def Let_def)

end
