(* ===== verification/Task_Cancel.thy ===== *)
theory Task_Cancel
  imports Task_Store_Rebuild
begin

text \<open>
  \<open>cancel_task\<close> of \<open>task_state_store.py\<close>: what is live before, and that nothing is afterwards.
\<close>

section \<open>Directives\<close>

lemma system_may_cancel:
  assumes "dr_state row \<in> {D_PENDING, D_IN_PROGRESS}"
  shows "td_allowed (validate_transition (request_of row D_CANCELLED SYSTEM_ACTOR None True False))"
proof -
  have nt: "\<not> is_terminal (dstate_str (dr_state row))" using assms by (auto simp: TERMINAL_STATES_def simp del: dstate_str.simps)
  obtain t where t: "find_transition (dstate_str (dr_state row)) (dstate_str D_CANCELLED) = Some t"
    "\<not> tr_system t" "tr_target t = D_CANCELLED" "\<not> tr_permit t"
    using assms by (auto simp: find_transition_def TRANSITION_INDEX_eq ALLOWED_TRANSITIONS_def simp del: dstate_str.simps)
  have "td_allowed (apply_transition t (request_of row D_CANCELLED SYSTEM_ACTOR None True False))"
    using t by (simp add: apply_transition_def Let_def del: dstate_str.simps)
  with nt t show ?thesis by (simp add: validate_transition_def Let_def del: dstate_str.simps)
qed

definition cancelled_directive :: "datetime \<Rightarrow> session_directive \<Rightarrow> session_directive" where
  "cancelled_directive now d = d\<lparr>sd_row := (sd_row d)\<lparr>dr_state := D_CANCELLED, dr_finished := Some now,
     dr_cancelled := Some now, dr_cancel_reason := coalesce (dr_cancel_reason (sd_row d)) (Some CANCEL_REASON_TASK_CANCELLED)\<rparr>\<rparr>"

lemma task_cancel_update_own [simp]:
  "task_cancel_update (dr_state row) (dr_lease row) reason now row = Some (row\<lparr>dr_state := D_CANCELLED, dr_finished := Some now,
     dr_cancelled := Some now, dr_cancel_reason := coalesce (dr_cancel_reason row) (Some reason)\<rparr>)"
  by (simp add: task_cancel_update_def)

lemma cancel_directive_one:
  assumes "d \<in> set rows" "distinct (map sd_id rows)"
  shows "cancel_directive d now rows = (1, map (\<lambda>x. if x = d then cancelled_directive now x else x) rows)"
proof -
  have same: "sd_id x = sd_id d \<longleftrightarrow> x = d" if "x \<in> set rows" for x using distinct_on [OF assms(2) that assms(1)] by auto
  let ?u = "\<lambda>x. task_cancel_update (dr_state (sd_row d)) (dr_lease (sd_row d)) CANCEL_REASON_TASK_CANCELLED now (sd_row x)"
  have "filter (\<lambda>x. sd_id x = sd_id d \<and> ?u x \<noteq> None) rows = filter (\<lambda>x. x = d) rows"
    using same by (intro filter_cong) auto
  moreover have "length (filter (\<lambda>x. x = d) rows) = 1"
    using assms by (simp add: distinct_map distinct_length_filter Collect_conv_if)
  moreover have "map (\<lambda>x. case ?u x of Some r \<Rightarrow> if sd_id x = sd_id d then x\<lparr>sd_row := r\<rparr> else x | None \<Rightarrow> x) rows
      = map (\<lambda>x. if x = d then cancelled_directive now x else x) rows"
    using same by (intro map_cong) (auto simp: cancelled_directive_def split: option.split)
  ultimately show ?thesis by (simp add: cancel_directive_def Let_def)
qed

lemma none_left: "(\<And>x. x \<in> set xs \<Longrightarrow> P x \<Longrightarrow> \<not> P (f x)) \<Longrightarrow> filter P (map (\<lambda>x. if P x then f x else x) xs) = []"
  by (induction xs) auto

lemma cancelled_job_not_live: "\<not> job_live w t (cancel_job stamp j)"
  by (simp add: job_live_def cancel_job_def)

lemma expired_permit: "\<not> permit_unexpired w s stamp (p\<lparr>pm_expires := Some stamp\<rparr>)"
  by (simp add: permit_unexpired_def)

lemma cancelled_not_live [simp]: "\<not> directive_live w u s (cancelled_directive now d)"
  by (simp add: directive_live_def cancelled_directive_def)

lemma cancel_directives_all:
  assumes "set ds \<subseteq> set rows" "distinct ds" "distinct (map sd_id rows)" "\<forall>d \<in> set ds. directive_live w u s d"
  shows "cancel_directives now ds (n, rows)
    = (n + int (length ds), map (\<lambda>x. if x \<in> set ds then cancelled_directive now x else x) rows)"
  using assms
proof (induction ds arbitrary: n rows)
  case (Cons d ds)
  let ?rows = "map (\<lambda>x. if x = d then cancelled_directive now x else x) rows"
  have live: "\<forall>x \<in> set (d # ds). directive_live w u s x" by (rule Cons.prems(4))
  have ids: "map sd_id ?rows = map sd_id rows" by (simp add: cancelled_directive_def)
  have sub: "set ds \<subseteq> set ?rows" using Cons.prems(1,2) by fastforce
  have notin: "cancelled_directive now d \<notin> set ds" using live cancelled_not_live by auto
  have "cancel_directives now ds (n + 1, ?rows)
      = (n + 1 + int (length ds), map (\<lambda>x. if x \<in> set ds then cancelled_directive now x else x) ?rows)"
    using Cons.IH [of ?rows "n + 1"] sub Cons.prems live unfolding ids by simp
  moreover have "map (\<lambda>x. if x \<in> set ds then cancelled_directive now x else x) ?rows
      = map (\<lambda>x. if x \<in> set (d # ds) then cancelled_directive now x else x) rows"
    using notin by (auto simp: comp_def)
  moreover have "td_allowed (validate_transition (request_of (sd_row d) D_CANCELLED SYSTEM_ACTOR None True False))"
    using live by (intro system_may_cancel) (simp add: directive_live_def)
  ultimately show ?case using cancel_directive_one [of d rows now] Cons.prems by simp
qed simp

section \<open>The write\<close>

lemma cancel_event_simps [simp]:
  "is_cancel (cancel_event reason actor now)" "e_at (cancel_event reason actor now) = now"
  by (simp_all add: cancel_event_def)

lemma cancel_args_simps [simp]:
  "aa_workspace (cancel_args w ow s t r a now) = w" "aa_owner (cancel_args w ow s t r a now) = ow"
  "aa_task (cancel_args w ow s t r a now) = t" "aa_new (cancel_args w ow s t r a now) = [cancel_event r a now]"
  "aa_now (cancel_args w ow s t r a now) = now" "aa_expected (cancel_args w ow s t r a now) = None"
  "aa_retry_once (cancel_args w ow s t r a now) = False"
  "run_side_effects (cancel_args w ow s t r a now) d = Ok d"
  by (simp_all add: cancel_args_def run_side_effects_def)

text \<open>The write of a cancellation on the store it reads: the row is cancelled.\<close>

lemma cancel_write:
  assumes ok: "apply_task_state_events (\<lambda>_ d. d) (cancel_args w ow session t reason actor now) db = Ok (wr, db')"
    and wf: "store_wf db" and find: "find_task db w ow t = Some r"
    and read: "list_all readable (rows_of db (tk_id r))" and short: "length (rows_of db (tk_id r)) \<le> 1996"
    and before: "\<And>e. e \<in> set (log_of db r) \<Longrightarrow> is_objective e \<Longrightarrow> instant (e_at e) \<le> instant now"
    and now: "MIN_T \<le> instant now"
  shows "\<exists>r'. find_task db' w ow t = Some r' \<and> tk_status r' = ''cancelled'' \<and> tk_action r' = ''none''
    \<and> tk_revision r' = tk_revision r + 1 \<and> tw_next_revision wr = tk_revision r + 1
    \<and> tdb_jobs db' = tdb_jobs db \<and> tdb_directives db' = tdb_directives db \<and> tdb_permits db' = tdb_permits db"
proof -
  let ?a = "cancel_args w ow session t reason actor now" and ?e = "next_event r (cancel_event reason actor now)"
  have plain: "aa_new ?a = [cancel_event reason actor now]" "aa_expected ?a = None" "\<not> aa_retry_once ?a" "aa_invalidation ?a = None"
    by (simp_all add: cancel_args_def)
  have find': "find_task db (aa_workspace ?a) (aa_owner ?a) (aa_task ?a) = Some r" using find by simp
  note lw = lone_write [OF ok plain wf find' read short]
  have e: "is_cancel ?e" "e_at ?e = now" using cancel_event_simps by simp_all
  have moments: "event_moment x < event_moment ?e" if x: "x \<in> set (log_of db r)" "is_objective x" for x
    using before [OF x] lw(4) x(1) e(2) by (force simp: event_moment_def moment_def less_prod_def sorted_wrt_append)
  have "pj_status (tw_projection wr) = S_CANCELLED \<and> pj_next_action (tw_projection wr) = A_NONE"
    unfolding lw(1) using lw(6) e now by (intro later_cancel_cancels [OF lw(4,5) e(1) moments]) simp_all
  then show ?thesis using lw(2,3,7-9) by simp
qed

section \<open>Property\<close>

definition sample_job :: job_row where
  "sample_job = \<lparr>jb_id = ''j'', jb_workspace = ''W'', jb_task = ''T'', jb_state = ''leased'', jb_cancel = False, jb_updated = []\<rparr>"

definition sample_directive :: session_directive where
  "sample_directive = \<lparr>sd_id = ''d'', sd_workspace = ''W'', sd_user = ''O'', sd_session = ''S'',
     sd_row = \<lparr>dr_state = D_IN_PROGRESS, dr_claimed_by = Some ''x'', dr_executor = Some ''x'', dr_lease = 1,
       dr_lease_expires = None, dr_expires = None, dr_started = None, dr_finished = None, dr_cancelled = None,
       dr_cancel_reason = None\<rparr>\<rparr>"

definition sample_permit :: permit_row where
  "sample_permit = \<lparr>pm_id = ''p'', pm_workspace = ''W'', pm_session = ''S'', pm_charter = None, pm_decision = ''allow'',
     pm_reason = [], pm_expires = None, pm_resolved = None\<rparr>"

definition busy_store :: task_db where
  "busy_store = sample_store\<lparr>tdb_jobs := [sample_job], tdb_directives := [sample_directive], tdb_permits := [sample_permit]\<rparr>"

text \<open>
  C13. Cancelling a task (task_state_store.py, cancel_task), on a store whose log has at most 1996 events and no
  objective from the future: when it returns, no planning job of the task is pending or leased, no directive of
  the session is pending or in progress, no permit of the session is unexpired, the counts it returns are
  what was live, and the task row reads cancelled with no permitted action, one revision further.  A locked
  database on the first attempt makes no difference; when it raises, nothing has changed.
\<close>

theorem cancel_task_leaves_nothing_live:
  assumes "cancel_task lock w ow session t reason actor now db = (Ok resp, db')"
    and "store_wf db" "find_task db w ow t = Some r" "distinct (map sd_id (tdb_directives db))"
    and "list_all readable (rows_of db (tk_id r))" "length (rows_of db (tk_id r)) \<le> 1996"
    and "\<And>e. e \<in> set (log_of db r) \<Longrightarrow> is_objective e \<Longrightarrow> instant (e_at e) \<le> instant now" "MIN_T \<le> instant now"
  shows "filter (job_live w t) (tdb_jobs db') = [] \<and> filter (directive_live w ow session) (tdb_directives db') = []
    \<and> filter (permit_unexpired w session (isoformat now)) (tdb_permits db') = []
    \<and> cr_jobs resp = int (length (filter (job_live w t) (tdb_jobs db)))
    \<and> cr_directives resp = int (length (filter (directive_live w ow session) (tdb_directives db)))
    \<and> cr_permits resp = int (length (filter (permit_unexpired w session (isoformat now)) (tdb_permits db)))
    \<and> cr_revision resp = tk_revision r + 1
    \<and> (\<exists>r'. find_task db' w ow t = Some r' \<and> tk_status r' = ''cancelled'' \<and> tk_action r' = ''none'' \<and> tk_revision r' = tk_revision r + 1)"
proof -
  define live where "live = filter (directive_live w ow session) (tdb_directives db)"
  define jobs where "jobs = map (\<lambda>j. if job_live w t j then cancel_job (isoformat now) j else j) (tdb_jobs db)"
  define ds where "ds = map (\<lambda>x. if x \<in> set live then cancelled_directive now x else x) (tdb_directives db)"
  define permits where "permits = map (\<lambda>p. if permit_unexpired w session (isoformat now) p
    then p\<lparr>pm_expires := Some (isoformat now)\<rparr> else p) (tdb_permits db)"
  define db1 where "db1 = db\<lparr>tdb_jobs := jobs, tdb_directives := ds, tdb_permits := permits\<rparr>"
  have same: "tdb_tasks db1 = tdb_tasks db" "tdb_events db1 = tdb_events db" by (simp_all add: db1_def)
  note un = unchanged_store [OF same]
  have live: "set live \<subseteq> set (tdb_directives db)" "distinct live" "\<forall>d \<in> set live. directive_live w ow session d"
    using assms(4) by (auto simp: distinct_map live_def)
  have cancelled: "cancel_directives now live (0, tdb_directives db) = (int (length live), ds)"
    using cancel_directives_all [OF live(1,2) assms(4) live(3), of now 0] unfolding ds_def by (simp only: add_0)
  have body: "cancel_body w ow session t reason actor now db = Ok (resp, db')"
    using run_cas_section_atomic [OF assms(1) [unfolded cancel_task_def]]
    by (auto split: option.splits sum.splits)
  obtain wr where wr: "apply_task_state_events (\<lambda>_ d. d) (cancel_args w ow session t reason actor now) db1 = Ok (wr, db')"
    and resp: "cr_revision resp = tw_next_revision wr" "cr_jobs resp = int (length (filter (job_live w t) (tdb_jobs db)))"
      "cr_directives resp = int (length live)"
      "cr_permits resp = int (length (filter (permit_unexpired w session (isoformat now)) (tdb_permits db)))"
    using body [unfolded cancel_body_def load_task_state_def assms(3) option.map option.case prod.case Let_def live_def [symmetric]
      cancelled jobs_def [symmetric] permits_def [symmetric] fst_conv snd_conv db1_def [symmetric]]
    by (auto simp: res_bind_Ok_iff)
  have "list_all readable (rows_of db1 (tk_id r))" "length (rows_of db1 (tk_id r)) \<le> 1996" "log_of db1 r = log_of db r"
    using assms(5,6) by (simp_all add: log_of_def un(3))
  then obtain r' where r': "find_task db' w ow t = Some r'" "tk_status r' = ''cancelled''" "tk_action r' = ''none''"
      "tk_revision r' = tk_revision r + 1" "tw_next_revision wr = tk_revision r + 1"
    and rest: "tdb_jobs db' = jobs" "tdb_directives db' = ds" "tdb_permits db' = permits"
    using cancel_write [OF wr, of r] assms(2,3,7,8) un(1,4) by (auto simp: db1_def)
  have "filter (job_live w t) jobs = []"
    unfolding jobs_def by (rule none_left) (rule cancelled_job_not_live)
  moreover have "filter (directive_live w ow session) ds = []"
    by (auto simp: filter_empty_conv ds_def live_def)
  moreover have "filter (permit_unexpired w session (isoformat now)) permits = []"
    unfolding permits_def by (rule none_left) (rule expired_permit)
  ultimately show ?thesis using resp r' by (simp add: rest live_def)
qed

theorem cancel_task_leaves_nothing_live_witness:
  "\<exists>resp db'. cancel_task (\<lambda>n. if n = 1 then Some ''database is locked'' else None) ''W'' ''O'' ''S'' ''T'' ''stop'' ''owner''
      (Aware 5 0) busy_store = (Ok resp, db')
    \<and> filter (job_live ''W'' ''T'') (tdb_jobs db') = [] \<and> cr_directives resp = 1 \<and> cr_jobs resp = 1"
proof -
  let ?lock = "\<lambda>n. if n = (1::nat) then Some ''database is locked'' else None" and ?now = "Aware 5 0"
  have wf: "store_wf busy_store" using unchanged_store(1) [of busy_store sample_store] sample_wf by (simp add: busy_store_def)
  have find: "find_task busy_store ''W'' ''O'' ''T'' = Some sample_task"
    using unchanged_store(4) [of busy_store sample_store] sample_find by (simp add: busy_store_def)
  have rows: "rows_of busy_store (tk_id sample_task) = []" by (simp add: busy_store_def sample_store_def rows_of_def)
  have live: "filter (directive_live ''W'' ''O'' ''S'') (tdb_directives busy_store) = [sample_directive]"
    "filter (job_live ''W'' ''T'') (tdb_jobs busy_store) = [sample_job]"
    by (simp_all add: busy_store_def sample_directive_def directive_live_def sample_job_def job_live_def)
  have "is_ok (cancel_body ''W'' ''O'' ''S'' ''T'' ''stop'' ''owner'' ?now busy_store)"
    by (simp add: cancel_body_def load_task_state_def find Let_def apply_task_state_events_def apply_with_def)
      (simp add: find_task_def busy_store_def sample_store_def is_task_def cas_attempt_def stamp_events_def Let_def cas_update_def
        sample_task_def blank_task_row_def split: prod.split)
  then obtain resp db' where body: "cancel_body ''W'' ''O'' ''S'' ''T'' ''stop'' ''owner'' ?now busy_store = Ok (resp, db')"
    by (cases "cancel_body ''W'' ''O'' ''S'' ''T'' ''stop'' ''owner'' ?now busy_store") auto
  have "is_retryable_cas_error (Operational ''database is locked'' :: store_fault section_error)" by code_simp
  then have run: "cancel_task ?lock ''W'' ''O'' ''S'' ''T'' ''stop'' ''owner'' ?now busy_store = (Ok resp, db')"
    by (simp add: cancel_task_def run_cas_section_def end_section_def body)
  have "distinct (map sd_id (tdb_directives busy_store))" by (simp add: busy_store_def)
  from cancel_task_leaves_nothing_live [OF run wf find this] rows live run show ?thesis
    by (auto simp: log_of_def MIN_T_def)
qed

end
