(* ===== verification/Acceptance.thy ===== *)
theory Acceptance
  imports Charter_Build
begin

text \<open>
  \<open>shared/tce_shared/verification.py\<close>: acceptance criteria frozen before the work, raw evidence, and
  the verdict the API alone derives from the two.  A file of the walked tree is given by the digest of its
  bytes, \<open>None\<close> when it cannot be read.
\<close>

section \<open>Vocabulary\<close>

definition VERIFICATION_VERDICTS :: "pystr list" where
  "VERIFICATION_VERDICTS = [''passed'', ''failed'', ''inconclusive'']"

definition VERIFICATION_STATE_FOR_VERDICT :: "(pystr, pystr) dict" where
  "VERIFICATION_STATE_FOR_VERDICT = [(''passed'', ''passed''), (''failed'', ''failed''), (''inconclusive'', ''unverified'')]"

definition MIN_ACCEPTANCE_CHECKS :: int where "MIN_ACCEPTANCE_CHECKS = 1"

definition DECIDING_FILE_PATHS :: "pystr list" where
  "DECIDING_FILE_PATHS = [''pyproject.toml'', ''conftest.py'', ''setup.cfg'', ''tox.ini'', ''pytest.ini'', ''ruff.toml'',
     ''.ruff.toml'', ''uv.lock'', ''poetry.lock'', ''requirements.txt'', ''Makefile'']"

definition SKIP_DIR_NAMES :: "pystr list" where
  "SKIP_DIR_NAMES = [''.git'', ''__pycache__'', ''node_modules'', ''build'', ''dist'']"

definition SKIP_DIR_PREFIXES :: "pystr list" where "SKIP_DIR_PREFIXES = [''.venv'']"

text \<open>\<open>CriteriaFrozen\<close> names the directive, \<open>CriteriaInvalid\<close> the field and the message.\<close>

datatype criteria_error = CriteriaFrozen pystr | CriteriaInvalid pystr pystr

record acceptance_check =
  ck_id :: pystr
  ck_argv :: "pystr list"
  ck_cwd :: pystr
  ck_exit :: int
  ck_timeout :: int

record acceptance_criteria =
  cri_id :: pystr
  cri_directive :: pystr
  cri_checks :: "acceptance_check list"
  cri_digest :: pystr
  cri_corpus :: pystr
  cri_manifest :: "(pystr \<times> pystr) list"
  cri_frozen_at :: datetime
  cri_frozen_by :: pystr
  cri_policy :: pystr

record check_result =
  cr_check :: pystr
  cr_argv :: "pystr list"
  cr_exit :: int
  cr_duration :: int
  cr_stdout :: pystr
  cr_stderr :: pystr
  cr_excerpt :: pystr

record evidence =
  ev_directive :: pystr
  ev_results :: "check_result list"
  ev_corpus :: pystr
  ev_manifest :: "(pystr \<times> pystr) list"
  ev_platform :: pystr
  ev_commit :: "pystr option"
  ev_tree :: "pystr option"
  ev_reviewer :: "(pystr \<times> py) list option"

record outcome =
  oc_verdict :: pystr
  oc_reason :: pystr
  oc_criteria :: bool
  oc_corpus :: bool

section \<open>JSON\<close>

definition acceptance_check_to_json :: "acceptance_check \<Rightarrow> (pystr \<times> py) list" where
  "acceptance_check_to_json c = [(''check_id'', PStr (ck_id c)), (''argv'', str_list (ck_argv c)), (''cwd_rel'', PStr (ck_cwd c)),
     (''expect_exit_code'', PInt (ck_exit c)), (''timeout_seconds'', PInt (ck_timeout c))]"

text \<open>\<open>tuple(str(item) for item in (v or ()))\<close>; a decoder given something else than a mapping raises.\<close>

definition strs_or_empty :: "py \<Rightarrow> (value_error, pystr list) result" where
  "strs_or_empty v = (if truthy v then iter_strs v else Ok [])"

definition mapping_arg :: "py \<Rightarrow> (value_error, (pystr \<times> py) list) result" where
  "mapping_arg v = (case v of PDict m \<Rightarrow> Ok m | _ \<Rightarrow> Err TypeError)"

definition acceptance_check_from_json :: "py \<Rightarrow> (value_error, acceptance_check) result" where
  "acceptance_check_from_json v =
     res_bind (mapping_arg v) (\<lambda>m.
     res_bind (strs_or_empty (py_get m ''argv'')) (\<lambda>argv.
     res_bind (int_or_dflt (py_get m ''expect_exit_code'') 0) (\<lambda>code.
     res_bind (int_or_dflt (py_get m ''timeout_seconds'') 900) (\<lambda>timeout.
     Ok \<lparr>ck_id = str_or_empty (py_get m ''check_id''), ck_argv = argv, ck_cwd = str_or (py_get m ''cwd_rel'') ''.'',
         ck_exit = code, ck_timeout = timeout\<rparr>))))"

text \<open>\<open>for entry in value or ()\<close>, each decoded.\<close>

definition each_of :: "py \<Rightarrow> (py \<Rightarrow> (value_error, 'a) result) \<Rightarrow> (value_error, 'a list) result" where
  "each_of v f = (if truthy v then res_bind (py_iter v) (res_map f) else Ok [])"

definition manifest_to_json :: "(pystr \<times> pystr) list \<Rightarrow> py" where
  "manifest_to_json m = PList (map (\<lambda>e. str_list [fst e, snd e]) m)"

definition manifest_tuple :: "py \<Rightarrow> (value_error, (pystr \<times> pystr) list) result" where
  "manifest_tuple v = res_bind (each_of v iter_strs) (\<lambda>pairs.
     Ok (List.map_filter (\<lambda>p. case p of [a, b] \<Rightarrow> Some (a, b) | _ \<Rightarrow> None) pairs))"

definition criteria_to_json :: "acceptance_criteria \<Rightarrow> (pystr \<times> py) list" where
  "criteria_to_json c = [(''criteria_id'', PStr (cri_id c)), (''directive_id'', PStr (cri_directive c)),
     (''checks'', PList (map (\<lambda>x. PDict (acceptance_check_to_json x)) (cri_checks c))),
     (''criteria_digest'', PStr (cri_digest c)), (''corpus_digest'', PStr (cri_corpus c)),
     (''corpus_manifest'', manifest_to_json (cri_manifest c)), (''frozen_at'', PStr (isoformat (cri_frozen_at c))),
     (''frozen_by'', PStr (cri_frozen_by c)), (''policy_revision'', PStr (cri_policy c)), (''schema_version'', PStr ''v1'')]"

definition criteria_from_json :: "(pystr \<times> py) list \<Rightarrow> (value_error, acceptance_criteria) result" where
  "criteria_from_json m =
     res_bind (each_of (py_get m ''checks'') acceptance_check_from_json) (\<lambda>checks.
     res_bind (manifest_tuple (py_get m ''corpus_manifest'')) (\<lambda>manifest.
     res_bind (parse_dt (py_get m ''frozen_at'')) (\<lambda>frozen.
     Ok \<lparr>cri_id = str_or_empty (py_get m ''criteria_id''), cri_directive = str_or_empty (py_get m ''directive_id''),
         cri_checks = checks, cri_digest = str_or_empty (py_get m ''criteria_digest''),
         cri_corpus = str_or_empty (py_get m ''corpus_digest''), cri_manifest = manifest, cri_frozen_at = frozen,
         cri_frozen_by = str_or_empty (py_get m ''frozen_by''), cri_policy = str_or_empty (py_get m ''policy_revision'')\<rparr>)))"

definition check_result_to_json :: "check_result \<Rightarrow> (pystr \<times> py) list" where
  "check_result_to_json r = [(''check_id'', PStr (cr_check r)), (''argv'', str_list (cr_argv r)), (''exit_code'', PInt (cr_exit r)),
     (''duration_ms'', PInt (cr_duration r)), (''stdout_sha256'', PStr (cr_stdout r)), (''stderr_sha256'', PStr (cr_stderr r)),
     (''excerpt'', PStr (cr_excerpt r))]"

definition check_result_from_json :: "py \<Rightarrow> (value_error, check_result) result" where
  "check_result_from_json v =
     res_bind (mapping_arg v) (\<lambda>m.
     res_bind (strs_or_empty (py_get m ''argv'')) (\<lambda>argv.
     res_bind (int_or_dflt (py_get m ''exit_code'') 0) (\<lambda>code.
     res_bind (int_or_dflt (py_get m ''duration_ms'') 0) (\<lambda>duration.
     Ok \<lparr>cr_check = str_or_empty (py_get m ''check_id''), cr_argv = argv, cr_exit = code, cr_duration = duration,
         cr_stdout = str_or_empty (py_get m ''stdout_sha256''), cr_stderr = str_or_empty (py_get m ''stderr_sha256''),
         cr_excerpt = py_take 2000 (str_or_empty (py_get m ''excerpt''))\<rparr>))))"

definition evidence_to_json :: "evidence \<Rightarrow> (pystr \<times> py) list" where
  "evidence_to_json e = [(''directive_id'', PStr (ev_directive e)),
     (''results'', PList (map (\<lambda>r. PDict (check_result_to_json r)) (ev_results e))),
     (''observed_corpus_digest'', PStr (ev_corpus e)), (''observed_corpus_manifest'', manifest_to_json (ev_manifest e)),
     (''platform'', PStr (ev_platform e)), (''commit_sha'', opt_py PStr (ev_commit e)), (''tree_sha'', opt_py PStr (ev_tree e)),
     (''reviewer_model'', opt_py PDict (ev_reviewer e))]"

definition evidence_from_json :: "(pystr \<times> py) list \<Rightarrow> (value_error, evidence) result" where
  "evidence_from_json m =
     res_bind (each_of (py_get m ''results'') check_result_from_json) (\<lambda>results.
     res_bind (manifest_tuple (py_get m ''observed_corpus_manifest'')) (\<lambda>manifest.
     Ok \<lparr>ev_directive = str_or_empty (py_get m ''directive_id''), ev_results = results,
         ev_corpus = str_or_empty (py_get m ''observed_corpus_digest''), ev_manifest = manifest,
         ev_platform = str_or_empty (py_get m ''platform''), ev_commit = opt_str (py_get m ''commit_sha''),
         ev_tree = opt_str (py_get m ''tree_sha''), ev_reviewer = as_mapping (py_get m ''reviewer_model'')\<rparr>))"

definition verdict_literal :: "py \<Rightarrow> pystr" where
  "verdict_literal v = (let raw = str_or v ''inconclusive'' in
     if raw = ''passed'' then ''passed'' else if raw = ''failed'' then ''failed'' else ''inconclusive'')"

text \<open>\<open>VERIFICATION_STATE_FOR_VERDICT[verdict]\<close> on one of the three verdicts.\<close>

definition verification_state_of :: "pystr \<Rightarrow> pystr" where
  "verification_state_of verdict = (case dict_get VERIFICATION_STATE_FOR_VERDICT verdict of None \<Rightarrow> [] | Some s \<Rightarrow> s)"

definition outcome_to_json :: "outcome \<Rightarrow> (pystr \<times> py) list" where
  "outcome_to_json o' = [(''verdict'', PStr (oc_verdict o')), (''reason'', PStr (oc_reason o')),
     (''criteria_digest_match'', PBool (oc_criteria o')), (''corpus_digest_match'', PBool (oc_corpus o')),
     (''verification_state'', PStr (verification_state_of (oc_verdict o'))), (''schema_version'', PStr ''v1'')]"

definition outcome_from_json :: "(pystr \<times> py) list \<Rightarrow> outcome" where
  "outcome_from_json m = \<lparr>oc_verdict = verdict_literal (py_get m ''verdict''), oc_reason = str_or_empty (py_get m ''reason''),
     oc_criteria = truthy (py_get m ''criteria_digest_match''), oc_corpus = truthy (py_get m ''corpus_digest_match'')\<rparr>"

section \<open>Digests and the corpus manifest\<close>

definition criteria_digest :: "acceptance_check list \<Rightarrow> pystr" where
  "criteria_digest checks = sha256_hex (canonical_json (PList (map (\<lambda>c. PDict (acceptance_check_to_json c)) (sort_key ck_id checks))))"

definition corpus_digest :: "(pystr \<times> pystr) list \<Rightarrow> pystr" where
  "corpus_digest manifest = sha256_hex (canonical_json (PList (map (\<lambda>e. str_list [fst e, snd e]) (sort manifest))))"

definition basename :: "pystr \<Rightarrow> pystr" where
  "basename path = last (py_split_on CHR ''/'' path)"

definition manifest_wanted :: "pystr list \<Rightarrow> pystr \<Rightarrow> bool" where
  "manifest_wanted prefixes relative = (basename relative \<in> set DECIDING_FILE_PATHS
     \<or> list_ex (\<lambda>p. relative = p \<or> starts_with (p @ ''/'') relative) prefixes)"

datatype fs_node = File "pystr option" | Dir "(pystr \<times> fs_node) list"

definition skipped_dir :: "pystr \<Rightarrow> bool" where
  "skipped_dir name = (name \<in> set SKIP_DIR_NAMES \<or> list_ex (\<lambda>p. starts_with p name) SKIP_DIR_PREFIXES)"

text \<open>The files under the directories that are not skipped, with their paths relative to the root.\<close>

fun walk :: "pystr \<Rightarrow> (pystr \<times> fs_node) list \<Rightarrow> (pystr \<times> pystr option) list" where
  "walk at [] = []"
| "walk at ((name, File content) # rest) = (at @ name, content) # walk at rest"
| "walk at ((name, Dir entries) # rest) =
     (if skipped_dir name then walk at rest else walk (at @ name @ ''/'') entries @ walk at rest)"

text \<open>\<open>.strip().strip("/")\<close> of a prefix.\<close>

definition strip_slashes :: "pystr \<Rightarrow> pystr" where
  "strip_slashes s = (let f = dropWhile (\<lambda>c. c = CHR ''/'') in rev (f (rev (f s))))"

definition build_corpus_manifest :: "(pystr \<times> fs_node) list \<Rightarrow> pystr list \<Rightarrow> (pystr \<times> pystr) list" where
  "build_corpus_manifest tree prefixes =
     (let wanted = map (\<lambda>p. strip_slashes (py_strip p)) (filter (\<lambda>p. py_strip p \<noteq> []) prefixes) in
      sort (List.map_filter (\<lambda>(path, content). if manifest_wanted wanted path then map_option (\<lambda>d. (path, d)) content else None)
        (walk [] tree)))"

definition corpus_manifest_covers :: "(pystr \<times> pystr) list \<Rightarrow> pystr list \<Rightarrow> bool \<times> pystr list" where
  "corpus_manifest_covers manifest required =
     (let missing = filter (\<lambda>p. p \<notin> fst ` set manifest) required in (missing = [], missing))"

section \<open>Validation\<close>

definition check_of :: "int \<Rightarrow> pystr list \<Rightarrow> acceptance_check \<Rightarrow> (criteria_error, acceptance_check) result" where
  "check_of max_timeout seen c =
     (let i = py_strip (ck_id c); cwd = or_else (py_strip (or_else (ck_cwd c) ''.'')) ''.'' in
      if i = [] then Err (CriteriaInvalid ''check_id'' ''check_id must be non-empty'')
      else if i \<in> set seen then Err (CriteriaInvalid ''check_id'' (''duplicate check_id '' @ repr_str i))
      else if ck_argv c = [] then Err (CriteriaInvalid ''argv'' (''check '' @ repr_str i @ '' has an empty argv''))
      else if \<not> starts_with ''/'' (hd (ck_argv c))
      then Err (CriteriaInvalid ''argv'' (''check '' @ repr_str i
        @ '' argv[0] must be an absolute path (no PATH resolution, no shell)''))
      else if starts_with ''/'' cwd \<or> ''..'' \<in> set (py_split_on CHR ''/'' cwd)
      then Err (CriteriaInvalid ''cwd_rel'' (''check '' @ repr_str i @ '' cwd_rel must be relative with no '' @ repr_str ''..''))
      else if ck_timeout c < 1
      then Err (CriteriaInvalid ''timeout_seconds'' (''check '' @ repr_str i @ '' timeout_seconds must be >= 1''))
      else Ok \<lparr>ck_id = i, ck_argv = ck_argv c, ck_cwd = cwd, ck_exit = ck_exit c, ck_timeout = min (ck_timeout c) max_timeout\<rparr>)"

fun checks_of :: "int \<Rightarrow> pystr list \<Rightarrow> acceptance_check list \<Rightarrow> (criteria_error, acceptance_check list) result" where
  "checks_of max_timeout seen [] = Ok []"
| "checks_of max_timeout seen (c # cs) = res_bind (check_of max_timeout seen c) (\<lambda>x.
     res_bind (checks_of max_timeout (ck_id x # seen) cs) (\<lambda>xs. Ok (x # xs)))"

definition validate_checks :: "acceptance_check list \<Rightarrow> int \<Rightarrow> int \<Rightarrow> (criteria_error, acceptance_check list) result" where
  "validate_checks checks max_checks max_timeout =
     (if int (length checks) < MIN_ACCEPTANCE_CHECKS
      then Err (CriteriaInvalid ''checks'' (''at least '' @ str_int MIN_ACCEPTANCE_CHECKS @ '' acceptance check is required''))
      else if max_checks < int (length checks)
      then Err (CriteriaInvalid ''checks'' (''at most '' @ str_int max_checks @ '' acceptance checks are allowed''))
      else checks_of max_timeout [] checks)"

section \<open>The verdict\<close>

text \<open>\<open>by_id\<close>: the last check of an identifier.\<close>

definition check_by_id :: "acceptance_check list \<Rightarrow> (pystr, acceptance_check) dict" where
  "check_by_id checks = fold (\<lambda>c. dict_set (ck_id c) c) checks []"

text \<open>The first loop: what has been evidenced, or the reason it stopped for.\<close>

fun evidenced_ids :: "pystr set \<Rightarrow> pystr list \<Rightarrow> check_result list \<Rightarrow> (pystr, pystr list) result" where
  "evidenced_ids known seen [] = Ok seen"
| "evidenced_ids known seen (r # rs) =
     (if cr_check r \<in> set seen then Err (''duplicate_check:'' @ cr_check r)
      else if cr_check r \<notin> known then Err (''unknown_check:'' @ cr_check r)
      else evidenced_ids known (cr_check r # seen) rs)"

definition unexpected_exit :: "(pystr, acceptance_check) dict \<Rightarrow> check_result \<Rightarrow> bool" where
  "unexpected_exit frozen r = (case dict_get frozen (cr_check r) of None \<Rightarrow> True | Some want \<Rightarrow> cr_exit r \<noteq> ck_exit want)"

definition decide_verdict :: "check_result list \<Rightarrow> acceptance_criteria \<Rightarrow> pystr \<Rightarrow> pystr \<Rightarrow> pystr \<Rightarrow> outcome" where
  "decide_verdict results criteria observed_corpus runner executing =
     (let verdict = (\<lambda>v reason c k. \<lparr>oc_verdict = v, oc_reason = reason, oc_criteria = c, oc_corpus = k\<rparr>);
          frozen = check_by_id (cri_checks criteria); known = fst ` set frozen in
      if cri_checks criteria = [] then verdict ''failed'' ''empty_criteria_set'' False False
      else if criteria_digest (cri_checks criteria) \<noteq> cri_digest criteria
      then verdict ''failed'' ''criteria_digest_mismatch'' False False
      else if runner = executing then verdict ''inconclusive'' ''runner_is_executing_identity'' True False
      else if cri_frozen_by criteria \<noteq> [] \<and> cri_frozen_by criteria = executing
      then verdict ''inconclusive'' ''criteria_frozen_by_executing_identity'' True False
      else if observed_corpus \<noteq> cri_corpus criteria then verdict ''failed'' ''corpus_digest_mismatch'' True False
      else (case evidenced_ids known [] results of
          Inl reason \<Rightarrow> verdict ''inconclusive'' reason True True
        | Inr evidenced \<Rightarrow>
            if set evidenced \<noteq> known then verdict ''inconclusive'' ''incomplete_check_set'' True True
            else (case find (unexpected_exit frozen) results of
                Some r \<Rightarrow> verdict ''failed'' (''check_failed:'' @ cr_check r @ '':exit='' @ str_int (cr_exit r)) True True
              | None \<Rightarrow> verdict ''passed'' ''all_checks_matched'' True True)))"

end
