(* ===== verification/Verification_Store.thy ===== *)
theory Verification_Store
  imports Acceptance Task_Store
begin

text \<open>
  \<open>services/tce_lite_api/tce_lite_api/verification_store.py\<close>, and \<open>insert_task_verification\<close> of
  task_state_store.py: freezing the acceptance criteria of a directive, grading a run's evidence against them,
  and carrying the verdict into the projection of the task.  The projection is written inside the same
  write-locked section as the verdict.
\<close>

record criteria_row =
  cv_id :: pystr
  cv_workspace :: pystr
  cv_owner :: pystr
  cv_task :: "pystr option"
  cv_directive :: pystr
  cv_charter :: "pystr option"
  cv_checks :: py
  cv_digest :: pystr
  cv_corpus :: pystr
  cv_manifest :: py
  cv_frozen_at :: pystr
  cv_frozen_by :: pystr
  cv_policy :: pystr

record result_row =
  vo_id :: pystr
  vo_workspace :: pystr
  vo_owner :: pystr
  vo_directive :: pystr
  vo_criteria :: pystr
  vo_criteria_digest :: pystr
  vo_corpus_digest :: pystr
  vo_outcome :: outcome
  vo_runner :: pystr
  vo_executing :: pystr
  vo_platform :: pystr
  vo_commit :: "pystr option"
  vo_tree :: "pystr option"
  vo_checks :: py
  vo_reviewer :: "(pystr \<times> py) list option"
  vo_recorded_at :: pystr

record history_row =
  hv_id :: pystr
  hv_workspace :: pystr
  hv_owner :: pystr
  hv_task :: pystr
  hv_directive :: py
  hv_state :: py
  hv_method :: py
  hv_summary :: py
  hv_evidence :: pystr
  hv_recorded_by :: pystr
  hv_recorded_at :: pystr
  hv_contract :: int
  hv_plan :: py

text \<open>\<open>vdb_states\<close> is the column \<open>verification_state\<close> of \<open>directive_executions\<close>.\<close>

record verification_db =
  vdb_tasks :: task_db
  vdb_criteria :: "criteria_row list"
  vdb_results :: "result_row list"
  vdb_history :: "history_row list"
  vdb_states :: "(pystr, pystr) dict"

record verification_settings =
  vs_enabled :: bool
  vs_runner :: pystr
  vs_task_state :: bool
  vs_reviewer :: bool
  vs_max_checks :: int
  vs_check_timeout :: int

datatype verification_fault = VerificationDisabled | UnknownRunner | UnknownDirective | DirectiveNotTerminal | CriteriaNotFrozen
  | ManifestIncomplete | CriteriaRefused criteria_error | BadCriteria value_error | BadInteger value_error | TaskFault store_fault

section \<open>Criteria\<close>

definition CHARTER_POLICY_REVISION :: pystr where "CHARTER_POLICY_REVISION = ''p3-2026-09''"

definition manifest_pairs :: "py \<Rightarrow> (value_error, (pystr \<times> pystr) list) result" where
  "manifest_pairs v = res_bind (res_bind (py_iter v) (res_map iter_strs)) (\<lambda>pairs.
     Ok (List.map_filter (\<lambda>p. case p of a # b # _ \<Rightarrow> Some (a, b) | _ \<Rightarrow> None) pairs))"

definition criteria_from_row :: "criteria_row \<Rightarrow> (value_error, acceptance_criteria) result" where
  "criteria_from_row row =
     res_bind (res_bind (py_iter (cv_checks row)) (res_map acceptance_check_from_json)) (\<lambda>checks.
     res_bind (manifest_pairs (cv_manifest row)) (\<lambda>manifest.
     res_bind (parse_dt (PStr (cv_frozen_at row))) (\<lambda>frozen.
     Ok \<lparr>cri_id = cv_id row, cri_directive = cv_directive row, cri_checks = checks, cri_digest = cv_digest row,
         cri_corpus = cv_corpus row, cri_manifest = manifest, cri_frozen_at = frozen, cri_frozen_by = cv_frozen_by row,
         cri_policy = or_else (cv_policy row) CHARTER_POLICY_REVISION\<rparr>)))"

definition frozen_row ::
  "pystr \<Rightarrow> pystr \<Rightarrow> pystr \<Rightarrow> pystr option \<Rightarrow> pystr \<Rightarrow> pystr option \<Rightarrow> acceptance_check list \<Rightarrow> (pystr \<times> pystr) list \<Rightarrow> pystr \<Rightarrow> datetime
    \<Rightarrow> criteria_row" where
  "frozen_row uuid w ow task directive charter checks manifest frozen_by now =
     \<lparr>cv_id = uuid, cv_workspace = w, cv_owner = ow, cv_task = task, cv_directive = directive,
      cv_charter = text_or_none charter, cv_checks = PList (map (\<lambda>c. PDict (acceptance_check_to_json c)) checks),
      cv_digest = criteria_digest checks, cv_corpus = corpus_digest manifest, cv_manifest = manifest_to_json manifest,
      cv_frozen_at = isoformat now, cv_frozen_by = frozen_by, cv_policy = CHARTER_POLICY_REVISION\<rparr>"

definition freeze_section ::
  "pystr \<Rightarrow> pystr \<Rightarrow> pystr \<Rightarrow> pystr option \<Rightarrow> pystr \<Rightarrow> pystr option \<Rightarrow> acceptance_check list
    \<Rightarrow> (pystr \<times> pystr) list \<Rightarrow> pystr \<Rightarrow> datetime \<Rightarrow> verification_db
    \<Rightarrow> (verification_fault, acceptance_criteria \<times> verification_db) result" where
  "freeze_section uuid w ow task directive charter normalised manifest frozen_by now db =
     (if list_ex (\<lambda>r. cv_directive r = directive) (vdb_criteria db) then Err (CriteriaRefused (CriteriaFrozen directive))
      else Ok (\<lparr>cri_id = uuid, cri_directive = directive, cri_checks = normalised, cri_digest = criteria_digest normalised,
           cri_corpus = corpus_digest manifest, cri_manifest = manifest, cri_frozen_at = now, cri_frozen_by = frozen_by,
           cri_policy = CHARTER_POLICY_REVISION\<rparr>,
         db\<lparr>vdb_criteria := vdb_criteria db @ [frozen_row uuid w ow task directive charter normalised manifest frozen_by now]\<rparr>))"

definition freeze_acceptance_criteria ::
  "(nat \<Rightarrow> pystr option) \<Rightarrow> verification_settings \<Rightarrow> (nat \<Rightarrow> pystr) \<Rightarrow> pystr \<Rightarrow> pystr \<Rightarrow> pystr option \<Rightarrow> pystr \<Rightarrow> pystr option
    \<Rightarrow> acceptance_check list \<Rightarrow> (pystr \<times> pystr) list \<Rightarrow> pystr \<Rightarrow> datetime \<Rightarrow> verification_db
    \<Rightarrow> (verification_fault section_error, acceptance_criteria) result \<times> verification_db" where
  "freeze_acceptance_criteria lock se uuids w ow task directive charter checks manifest frozen_by now db =
     (case validate_checks checks (vs_max_checks se) (vs_check_timeout se) of
        Inl e \<Rightarrow> (Err (Raised (CriteriaRefused e)), db)
      | Inr normalised \<Rightarrow>
          if manifest = [] \<or> fst ` set manifest \<inter> set DECIDING_FILE_PATHS = {} then (Err (Raised ManifestIncomplete), db)
          else run_cas_section db (\<lambda>n d. case lock n of
              Some msg \<Rightarrow> Err (Operational msg)
            | None \<Rightarrow> map_error Raised (freeze_section (uuids n) w ow task directive charter normalised manifest frozen_by now d)))"

definition load_acceptance_criteria :: "verification_db \<Rightarrow> pystr \<Rightarrow> (value_error, acceptance_criteria option) result" where
  "load_acceptance_criteria db directive = (case find (\<lambda>r. cv_directive r = directive) (vdb_criteria db) of
       None \<Rightarrow> Ok None | Some row \<Rightarrow> res_bind (criteria_from_row row) (\<lambda>c. Ok (Some c)))"

section \<open>The verdict in the task's projection\<close>

text \<open>\<open>list(ref.get("evidence_event_ids") or [])\<close>.\<close>

definition evidence_ids :: "(pystr \<times> py) list \<Rightarrow> (value_error, py list) result" where
  "evidence_ids ref = (let v = py_get ref ''evidence_event_ids'' in if truthy v then py_iter v else Ok [])"

definition insert_task_verification ::
  "pystr \<Rightarrow> pystr \<Rightarrow> pystr \<Rightarrow> pystr \<Rightarrow> pystr \<Rightarrow> (pystr \<times> py) list \<Rightarrow> datetime \<Rightarrow> verification_db
    \<Rightarrow> (verification_fault, verification_db) result" where
  "insert_task_verification uuid w ow task recorded_by ref now db =
     res_bind (map_error BadInteger (evidence_ids ref)) (\<lambda>ids.
     res_bind (map_error BadInteger (int_or_dflt (py_get ref ''contract_revision'') 0)) (\<lambda>contract.
     Ok (db\<lparr>vdb_history := vdb_history db @
       [\<lparr>hv_id = uuid, hv_workspace = w, hv_owner = ow, hv_task = task, hv_directive = py_get ref ''directive_id'',
         hv_state = py_get ref ''state'', hv_method = py_get ref ''method'', hv_summary = py_get ref ''summary'',
         hv_evidence = canonical_json (PList ids), hv_recorded_by = recorded_by, hv_recorded_at = isoformat now,
         hv_contract = contract, hv_plan = py_get ref ''plan_id''\<rparr>]\<rparr>)))"

definition VERIFICATION_METHOD_EVIDENCE_GRADED :: pystr where
  "VERIFICATION_METHOD_EVIDENCE_GRADED = ''evidence_graded''"

definition graded_ref :: "pystr \<Rightarrow> outcome \<Rightarrow> pystr \<Rightarrow> datetime \<Rightarrow> (pystr \<times> py) list" where
  "graded_ref verification_id oc state now =
     [(''verification_id'', PStr verification_id), (''state'', PStr state),
      (''method'', PStr VERIFICATION_METHOD_EVIDENCE_GRADED), (''recorded_at'', PDate now), (''evidence_event_ids'', PList []),
      (''summary'', PStr (py_take 500 (oc_verdict oc @ '': '' @ oc_reason oc)))]"

definition graded_event :: "projection \<Rightarrow> (pystr \<times> py) list \<Rightarrow> pystr \<Rightarrow> pystr \<Rightarrow> datetime \<Rightarrow> task_event" where
  "graded_event p ref runner directive now =
     \<lparr>e_seq = 0, e_kind = kind_str K_VERIFICATION_RECORDED, e_contract = pj_contract p, e_payload = ref, e_at = now,
      e_actor = runner, e_source = None, e_directive = Some directive, e_goal = None\<rparr>"

definition graded_args ::
  "pystr \<Rightarrow> pystr \<Rightarrow> pystr \<Rightarrow> projection \<Rightarrow> (pystr \<times> py) list \<Rightarrow> pystr \<Rightarrow> pystr \<Rightarrow> datetime \<Rightarrow> apply_args" where
  "graded_args w ow session p ref runner directive now =
     \<lparr>aa_workspace = w, aa_owner = ow, aa_session = or_else (pj_session_id p) session, aa_task = session,
      aa_new = [graded_event p ref runner directive now], aa_now = now, aa_expected = None, aa_invalidation = None,
      aa_side_effects = None, aa_revalidate = None, aa_retry_once = False\<rparr>"

definition project_graded_verification ::
  "verification_settings \<Rightarrow> pystr \<Rightarrow> pystr \<Rightarrow> pystr \<Rightarrow> pystr \<Rightarrow> pystr \<Rightarrow> pystr \<Rightarrow> outcome \<Rightarrow> pystr \<Rightarrow> pystr \<Rightarrow> datetime \<Rightarrow> verification_db
    \<Rightarrow> (verification_fault, verification_db) result" where
  "project_graded_verification se uuid w ow session directive verification_id oc state runner now db =
     (if \<not> vs_task_state se \<or> session = [] then Ok db
      else (case load_task_state (vdb_tasks db) w ow session of
          None \<Rightarrow> Ok db
        | Some (p, _, _) \<Rightarrow>
            (let ref = stamp_verification_provenance (graded_ref verification_id oc state now) p (Some directive)
                   (Some (directive_contract_revision (vdb_tasks db) w ow session directive))
             in res_bind (insert_task_verification uuid w ow session runner ref now db) (\<lambda>db1.
                res_bind (map_error TaskFault (apply_task_state_events (\<lambda>_ d. d) (graded_args w ow session p ref runner directive now)
                  (vdb_tasks db1))) (\<lambda>(_, tasks). Ok (db1\<lparr>vdb_tasks := tasks\<rparr>))))))"

section \<open>Grading\<close>

definition directive_row_of :: "verification_db \<Rightarrow> pystr \<Rightarrow> pystr \<Rightarrow> pystr \<Rightarrow> session_directive option" where
  "directive_row_of db w user directive =
     find (\<lambda>d. sd_id d = directive \<and> sd_workspace d = w \<and> sd_user d = user) (tdb_directives (vdb_tasks db))"

definition graded_row ::
  "verification_settings \<Rightarrow> pystr \<Rightarrow> pystr \<Rightarrow> pystr \<Rightarrow> pystr \<Rightarrow> evidence \<Rightarrow> acceptance_criteria \<Rightarrow> outcome \<Rightarrow> pystr \<Rightarrow> pystr \<Rightarrow> datetime
    \<Rightarrow> result_row" where
  "graded_row se uuid w user directive ev c oc runner executing now =
     \<lparr>vo_id = uuid, vo_workspace = w, vo_owner = user, vo_directive = directive, vo_criteria = cri_id c,
      vo_criteria_digest = cri_digest c, vo_corpus_digest = ev_corpus ev, vo_outcome = oc, vo_runner = runner,
      vo_executing = executing, vo_platform = ev_platform ev, vo_commit = ev_commit ev, vo_tree = ev_tree ev,
      vo_checks = PList (map (\<lambda>r. PDict (check_result_to_json r)) (ev_results ev)),
      vo_reviewer = (if vs_reviewer se then ev_reviewer ev else None), vo_recorded_at = isoformat now\<rparr>"

text \<open>The write-locked section; the two identifiers are the verdict's and the history row's.\<close>

definition record_section ::
  "verification_settings \<Rightarrow> pystr \<times> pystr \<Rightarrow> pystr \<Rightarrow> pystr \<Rightarrow> pystr \<Rightarrow> evidence \<Rightarrow> pystr \<Rightarrow> datetime \<Rightarrow> verification_db
    \<Rightarrow> (verification_fault, (outcome \<times> result_row \<times> pystr) \<times> verification_db) result" where
  "record_section se ids w user directive ev runner now db =
     (case directive_row_of db w user directive of
        None \<Rightarrow> Err UnknownDirective
      | Some d \<Rightarrow>
          if \<not> is_terminal (dstate_str (dr_state (sd_row d))) then Err DirectiveNotTerminal
          else res_bind (map_error BadCriteria (load_acceptance_criteria db directive)) (\<lambda>found.
            case found of
              None \<Rightarrow> Err CriteriaNotFrozen
            | Some c \<Rightarrow>
                (let executing = (case dr_executor (sd_row d) of None \<Rightarrow> [] | Some x \<Rightarrow> x);
                     oc = decide_verdict (ev_results ev) c (ev_corpus ev) runner executing;
                     row = graded_row se (fst ids) w user directive ev c oc runner executing now;
                     state = verification_state_of (oc_verdict oc);
                     db1 = db\<lparr>vdb_results := vdb_results db @ [row], vdb_states := dict_set directive state (vdb_states db)\<rparr>
                 in res_bind (project_graded_verification se (snd ids) w user (sd_session d) directive (fst ids) oc state runner now db1)
                      (\<lambda>db2. Ok ((oc, row, state), db2)))))"

definition record_verification ::
  "(nat \<Rightarrow> pystr option) \<Rightarrow> verification_settings \<Rightarrow> (nat \<Rightarrow> pystr \<times> pystr) \<Rightarrow> pystr \<Rightarrow> pystr \<Rightarrow> pystr \<Rightarrow> evidence \<Rightarrow> pystr \<Rightarrow> datetime
    \<Rightarrow> verification_db \<Rightarrow> (verification_fault section_error, outcome \<times> result_row \<times> pystr) result \<times> verification_db" where
  "record_verification lock se ids w user directive ev runner now db =
     (if \<not> vs_enabled se then (Err (Raised VerificationDisabled), db)
      else if runner \<noteq> vs_runner se then (Err (Raised UnknownRunner), db)
      else run_cas_section db (\<lambda>n d. case lock n of
          Some msg \<Rightarrow> Err (Operational msg)
        | None \<Rightarrow> map_error Raised (record_section se (ids n) w user directive ev runner now d)))"

definition verification_stats_for_session :: "verification_db \<Rightarrow> pystr \<Rightarrow> pystr \<Rightarrow> pystr \<Rightarrow> int \<times> int" where
  "verification_stats_for_session db w user session =
     (let joined = concat (map (\<lambda>v. map (\<lambda>_. v) (filter (\<lambda>d. sd_id d = vo_directive v \<and> sd_user d = user \<and> sd_session d = session)
            (tdb_directives (vdb_tasks db)))) (filter (\<lambda>v. vo_workspace v = w) (vdb_results db)))
      in (int (length joined), int (length (filter (\<lambda>v. oc_verdict (vo_outcome v) = ''passed'') joined))))"

text \<open>One committed section of a serving process, as far as these tables go.\<close>

inductive criteria_step :: "verification_db \<Rightarrow> verification_db \<Rightarrow> bool" where
  frozen: "freeze_section uuid w ow task directive charter checks manifest frozen_by now db = Ok (c, db')
    \<Longrightarrow> criteria_step db db'"
| graded: "record_section se ids w user directive ev runner now db = Ok (r, db') \<Longrightarrow> criteria_step db db'"
| elsewhere: "criteria_step db (db\<lparr>vdb_tasks := tasks\<rparr>)"

end
