(* ===== verification/Acceptance_Facts.thy ===== *)
theory Acceptance_Facts
  imports Acceptance
begin

text \<open>
  When a verification passes, what validated criteria are like, and that criteria survive their JSON form.
\<close>

section \<open>Evidence\<close>

lemma evidenced_ids_Ok:
  "evidenced_ids known seen rs = Ok ids \<longleftrightarrow>
    distinct (map cr_check rs) \<and> set (map cr_check rs) \<inter> set seen = {} \<and> set (map cr_check rs) \<subseteq> known \<and> ids = rev (map cr_check rs) @ seen"
  by (induction rs arbitrary: seen) auto

lemma check_by_id_distinct: "distinct (map ck_id cs) \<Longrightarrow> check_by_id cs = map (\<lambda>c. (ck_id c, c)) cs"
  using dict_by_distinct [of ck_id cs] by (simp add: check_by_id_def dict_by_def)

lemma unexpected_exit_iff:
  assumes "distinct (map ck_id cs)" "cr_check r \<in> ck_id ` set cs"
  shows "unexpected_exit (map (\<lambda>c. (ck_id c, c)) cs) r \<longleftrightarrow> (\<exists>c \<in> set cs. ck_id c = cr_check r \<and> cr_exit r \<noteq> ck_exit c)"
proof -
  from assms(2) obtain c where c: "c \<in> set cs" "ck_id c = cr_check r" by auto
  have "dict_get (map (\<lambda>c. (ck_id c, c)) cs) (cr_check r) = Some c"
    using dict_get_unique [OF assms(1) c(1), of "\<lambda>c. c"] c(2) by simp
  then have "unexpected_exit (map (\<lambda>c. (ck_id c, c)) cs) r \<longleftrightarrow> cr_exit r \<noteq> ck_exit c" by (simp add: unexpected_exit_def)
  moreover have "d = c" if "d \<in> set cs" "ck_id d = cr_check r" for d
    using distinct_on [OF assms(1) that(1) c(1)] that c by simp
  ultimately show ?thesis using c by blast
qed

text \<open>
  C19. When a verification passes (verification.py, decide_verdict), for criteria whose checks have distinct identifiers:
  exactly when there is a check, the criteria are the ones frozen, the runner is not the one that did the
  work, nor did that one freeze the criteria, the corpus is the one frozen, every check is evidenced once
  and nothing else is, and every exit code is the expected one.
\<close>

theorem verdict_passes_exactly:
  assumes "distinct (map ck_id (cri_checks c))"
  shows "oc_verdict (decide_verdict results c corpus runner executing) = ''passed'' \<longleftrightarrow>
    cri_checks c \<noteq> [] \<and> criteria_digest (cri_checks c) = cri_digest c \<and> runner \<noteq> executing
    \<and> \<not> (cri_frozen_by c \<noteq> [] \<and> cri_frozen_by c = executing) \<and> corpus = cri_corpus c
    \<and> mset (map cr_check results) = mset (map ck_id (cri_checks c))
    \<and> list_all (\<lambda>r. list_all (\<lambda>k. ck_id k \<noteq> cr_check r \<or> cr_exit r = ck_exit k) (cri_checks c)) results"
proof -
  let ?cs = "cri_checks c"
  have frozen: "check_by_id ?cs = map (\<lambda>k. (ck_id k, k)) ?cs" by (rule check_by_id_distinct [OF assms])
  have known: "fst ` set (check_by_id ?cs) = ck_id ` set ?cs" by (simp add: frozen image_image)
  have bag: "mset (map cr_check results) = mset (map ck_id ?cs)
    \<longleftrightarrow> distinct (map cr_check results) \<and> set (map cr_check results) = ck_id ` set ?cs"
    using assms set_eq_iff_mset_eq_distinct mset_eq_imp_distinct_iff
    by (metis list.set_map mset_eq_setD)
  have exits: "find (unexpected_exit (check_by_id ?cs)) results = None
    \<longleftrightarrow> list_all (\<lambda>r. list_all (\<lambda>k. ck_id k \<noteq> cr_check r \<or> cr_exit r = ck_exit k) ?cs) results"
    if "set (map cr_check results) = ck_id ` set ?cs"
  proof -
    have "unexpected_exit (check_by_id ?cs) r \<longleftrightarrow> (\<exists>k \<in> set ?cs. ck_id k = cr_check r \<and> cr_exit r \<noteq> ck_exit k)" if "r \<in> set results" for r
      unfolding frozen using that \<open>set (map cr_check results) = ck_id ` set ?cs\<close> by (intro unexpected_exit_iff [OF assms]) auto
    then show ?thesis by (auto simp: find_None_iff list_all_iff)
  qed
  show ?thesis
  proof (cases "evidenced_ids (ck_id ` set ?cs) [] results")
    case (Inl e)
    then have "\<not> (distinct (map cr_check results) \<and> set (map cr_check results) = ck_id ` set ?cs)"
      using evidenced_ids_Ok [of "ck_id ` set ?cs" "[]" results "rev (map cr_check results)"] by auto
    then have "mset (map cr_check results) \<noteq> mset (map ck_id ?cs)" unfolding bag .
    with Inl show ?thesis by (auto simp: decide_verdict_def Let_def known)
  next
    case (Inr ids)
    then have ids: "distinct (map cr_check results)" "set ids = set (map cr_check results)"
      by (auto simp: evidenced_ids_Ok)
    show ?thesis
    proof (cases "set ids = ck_id ` set ?cs")
      case True
      with ids bag exits Inr show ?thesis
        by (auto simp: decide_verdict_def Let_def known split: option.splits)
    next
      case False
      with ids bag Inr show ?thesis by (auto simp: decide_verdict_def Let_def known)
    qed
  qed
qed

definition sample_check :: acceptance_check where
  "sample_check = \<lparr>ck_id = ''tests'', ck_argv = [''/usr/bin/pytest''], ck_cwd = ''.'', ck_exit = 0, ck_timeout = 900\<rparr>"

definition sample_criteria :: acceptance_criteria where
  "sample_criteria = \<lparr>cri_id = ''k'', cri_directive = ''d'', cri_checks = [sample_check], cri_digest = criteria_digest [sample_check],
     cri_corpus = ''c'', cri_manifest = [(''pyproject.toml'', ''a'')], cri_frozen_at = Aware 0 0, cri_frozen_by = ''owner'', cri_policy = []\<rparr>"

definition sample_result :: "int \<Rightarrow> check_result" where
  "sample_result exit_code = \<lparr>cr_check = ''tests'', cr_argv = [''/usr/bin/pytest''], cr_exit = exit_code, cr_duration = 5, cr_stdout = [],
     cr_stderr = [], cr_excerpt = []\<rparr>"

theorem verdict_passes_exactly_witness:
  "oc_verdict (decide_verdict [sample_result 0] sample_criteria ''c'' ''verifier'' ''agent'') = ''passed''
    \<and> oc_verdict (decide_verdict [sample_result 1] sample_criteria ''c'' ''verifier'' ''agent'') \<noteq> ''passed''
    \<and> oc_verdict (decide_verdict [sample_result 0, sample_result 0] sample_criteria ''c'' ''verifier'' ''agent'') \<noteq> ''passed''
    \<and> oc_verdict (decide_verdict [sample_result 0] sample_criteria ''c'' ''verifier'' ''owner'') \<noteq> ''passed''"
  by (simp add: verdict_passes_exactly sample_criteria_def sample_check_def sample_result_def)

section \<open>Validated criteria\<close>

definition valid_check :: "int \<Rightarrow> acceptance_check \<Rightarrow> bool" where
  "valid_check max_timeout c = (ck_id c \<noteq> [] \<and> ck_argv c \<noteq> [] \<and> starts_with ''/'' (hd (ck_argv c)) \<and> ck_cwd c \<noteq> []
     \<and> \<not> starts_with ''/'' (ck_cwd c) \<and> ''..'' \<notin> set (py_split_on CHR ''/'' (ck_cwd c))
     \<and> min 1 max_timeout \<le> ck_timeout c \<and> ck_timeout c \<le> max_timeout)"

lemma check_of_Ok:
  "check_of mt seen c = Ok d \<Longrightarrow> valid_check mt d \<and> ck_id d \<notin> set seen \<and> ck_id d = py_strip (ck_id c) \<and> ck_argv d = ck_argv c
    \<and> ck_exit d = ck_exit c"
  by (auto simp: check_of_def Let_def valid_check_def or_else_def min_def split: if_split_asm)

lemma checks_of_Ok:
  "checks_of mt seen cs = Ok ds \<Longrightarrow> list_all (valid_check mt) ds \<and> distinct (map ck_id ds) \<and> set (map ck_id ds) \<inter> set seen = {}
    \<and> map ck_argv ds = map ck_argv cs \<and> map ck_exit ds = map ck_exit cs"
proof (induction cs arbitrary: seen ds)
  case (Cons c cs)
  then obtain x xs where x: "check_of mt seen c = Ok x" "checks_of mt (ck_id x # seen) cs = Ok xs" "ds = x # xs"
    by (auto simp: res_bind_Ok_iff)
  with Cons.IH [OF x(2)] check_of_Ok [OF x(1)] show ?case by auto
qed simp

text \<open>
  What is frozen (verification.py, validate_checks): between one and the limit of checks, with distinct non-empty
  identifiers, an absolute program and the arguments and expected code as given, a relative directory that climbs nowhere, and a
  timeout no larger than the limit and, for a limit of at least one, at least one.
\<close>

theorem validated_checks_bounded:
  assumes "validate_checks checks max_checks max_timeout = Ok out"
  shows "1 \<le> length out \<and> int (length out) \<le> max_checks \<and> distinct (map ck_id out) \<and> list_all (valid_check max_timeout) out
    \<and> map ck_argv out = map ck_argv checks \<and> map ck_exit out = map ck_exit checks"
proof -
  from assms have run: "checks_of max_timeout [] checks = Ok out" and len: "1 \<le> int (length checks)" "int (length checks) \<le> max_checks"
    by (auto simp: validate_checks_def MIN_ACCEPTANCE_CHECKS_def Suc_le_eq split: if_split_asm)
  note ok = checks_of_Ok [OF run]
  then have "length out = length checks" by (metis length_map)
  with ok len show ?thesis by simp
qed

theorem validated_checks_bounded_witness:
  "\<exists>out. validate_checks [sample_check\<lparr>ck_timeout := 5000\<rparr>] 20 900 = Ok out \<and> list_all (valid_check 900) out \<and> length out = 1"
proof -
  have "validate_checks [sample_check\<lparr>ck_timeout := 5000\<rparr>] 20 900 = Ok [sample_check]" by code_simp
  from this validated_checks_bounded [OF this] show ?thesis by (intro exI [of _ "[sample_check]"]) auto
qed

section \<open>Criteria in JSON\<close>

lemma iter_strs_str_list [simp]: "iter_strs (str_list xs) = Ok xs"
  by (simp add: iter_strs_def py_iter_def str_list_def comp_def)

lemma strs_or_empty_str_list [simp]: "strs_or_empty (str_list xs) = Ok xs"
proof (cases xs)
  case Nil
  then show ?thesis by (simp add: strs_or_empty_def str_list_def truthy_def)
next
  case (Cons y ys)
  then have "truthy (str_list xs)" by (simp add: str_list_def truthy_def)
  then show ?thesis by (simp add: strs_or_empty_def)
qed

lemma int_or_dflt_PInt [simp]: "int_or_dflt (PInt i) d = Ok (if i = 0 then d else i)"
  by (simp add: int_or_dflt_def truthy_def py_int_of_def)

lemma str_or_dflt_PStr: "str_or (PStr s) d = (if s = [] then d else s)"
  by (simp add: str_or_def truthy_def py_str_def)

lemma check_json_roundtrip:
  "valid_check mt c \<Longrightarrow> ck_timeout c \<noteq> 0 \<Longrightarrow> acceptance_check_from_json (PDict (acceptance_check_to_json c)) = Ok c"
  by (simp add: acceptance_check_from_json_def acceptance_check_to_json_def mapping_arg_def str_or_dflt_PStr valid_check_def)

lemma res_map_Ok: "(\<And>x. x \<in> set xs \<Longrightarrow> f (g x) = Ok x) \<Longrightarrow> res_map f (map g xs) = Ok xs"
  by (induction xs) auto

lemma manifest_rows: "res_map iter_strs (map (\<lambda>e. str_list [fst e, snd e]) m) = Ok (map (\<lambda>e. [fst e, snd e]) m)"
  by (induction m) auto

end
