(* ===== verification/Verification_Facts.thy ===== *)
theory Verification_Facts
  imports Verification_Store Acceptance_Facts Task_Cancel
begin

text \<open>
  Criteria, once frozen, are what every later grading reads; and a task reads done after a grading only
  when that grading passed, under the contract the work was done for.
\<close>

section \<open>Frozen criteria\<close>

lemma criteria_from_frozen_row:
  assumes "list_all (valid_check mt) checks" "list_all (\<lambda>c. ck_timeout c \<noteq> 0) checks" "utc_ok now"
  shows "criteria_from_row (frozen_row uuid w ow task directive charter checks manifest frozen_by now)
    = Ok \<lparr>cri_id = uuid, cri_directive = directive, cri_checks = checks, cri_digest = criteria_digest checks,
        cri_corpus = corpus_digest manifest, cri_manifest = manifest, cri_frozen_at = now, cri_frozen_by = frozen_by,
        cri_policy = CHARTER_POLICY_REVISION\<rparr>"
proof -
  have "res_map acceptance_check_from_json (map (\<lambda>c. PDict (acceptance_check_to_json c)) checks) = Ok checks"
    using assms(1,2) check_json_roundtrip by (intro res_map_Ok) (auto simp: list_all_iff)
  moreover have "manifest_pairs (manifest_to_json manifest) = Ok manifest"
  proof -
    have "List.map_filter (\<lambda>p. case p of a # b # _ \<Rightarrow> Some (a, b) | _ \<Rightarrow> None) (map (\<lambda>e. [fst e, snd e]) manifest) = manifest"
      by (induction manifest) (simp_all add: List.map_filter_def)
    then show ?thesis by (simp add: manifest_pairs_def manifest_to_json_def py_iter_def manifest_rows)
  qed
  moreover have "parse_dt (PStr (isoformat now)) = Ok now"
    using assms(3) parse_dt_iso by simp
  ultimately show ?thesis
    by (simp add: criteria_from_row_def frozen_row_def py_iter_def or_else_def CHARTER_POLICY_REVISION_def)
qed

lemma project_keeps_criteria:
  "project_graded_verification se uuid w ow session directive vid oc state runner now db = Ok db' \<Longrightarrow> vdb_criteria db' = vdb_criteria db"
  by (auto simp: project_graded_verification_def Let_def res_bind_Ok_iff map_error_Ok_iff insert_task_verification_def
      split: if_split_asm option.splits)

lemma record_keeps_criteria:
  "record_section se ids w user directive ev runner now db = Ok (r, db') \<Longrightarrow> vdb_criteria db' = vdb_criteria db"
  by (auto simp: record_section_def Let_def res_bind_Ok_iff dest!: project_keeps_criteria split: if_split_asm option.splits)

lemma frozen_stays:
  assumes "criteria_step db db'" "find (\<lambda>r. cv_directive r = d) (vdb_criteria db) = Some row"
  shows "find (\<lambda>r. cv_directive r = d) (vdb_criteria db') = Some row"
  using assms
proof (induction rule: criteria_step.induct)
  case frozen
  then show ?case
    by (auto simp: freeze_section_def find_snoc split: if_split_asm)
next
  case graded
  then show ?case by (simp add: record_keeps_criteria)
qed simp

lemma frozen_stays_run:
  assumes "criteria_step\<^sup>*\<^sup>* db db'" "find (\<lambda>r. cv_directive r = d) (vdb_criteria db) = Some row"
  shows "find (\<lambda>r. cv_directive r = d) (vdb_criteria db') = Some row"
  using assms by (induction rule: rtranclp_induct) (auto intro: frozen_stays)

text \<open>What a freeze that returns did.\<close>

lemma freeze_Ok:
  assumes "freeze_acceptance_criteria lock se uuids w ow task d charter checks manifest frozen_by now db = (Ok c, db1)"
  shows "\<exists>out u. validate_checks checks (vs_max_checks se) (vs_check_timeout se) = Ok out
    \<and> freeze_section u w ow task d charter out manifest frozen_by now db = Ok (c, db1)"
proof (cases "validate_checks checks (vs_max_checks se) (vs_check_timeout se)")
  case (Inr out)
  with assms have "run_cas_section db (\<lambda>n x. case lock n of Some msg \<Rightarrow> Err (Operational msg)
      | None \<Rightarrow> map_error Raised (freeze_section (uuids n) w ow task d charter out manifest frozen_by now x)) = (Ok c, db1)"
    by (simp add: freeze_acceptance_criteria_def split: if_split_asm)
  from run_cas_section_atomic [OF this] Inr show ?thesis
    by (auto simp: map_error_Ok_iff split: option.splits)
qed (use assms in \<open>simp add: freeze_acceptance_criteria_def\<close>)

text \<open>
  The goalposts do not move (verification_store.py, freeze_acceptance_criteria and load_acceptance_criteria): what a
  freeze returned is what every later grading of that directive loads, check by check, whatever was frozen,
  graded or written in between, and a second freeze of the directive is refused.
\<close>

theorem frozen_criteria_are_final:
  assumes "freeze_acceptance_criteria lock se uuids w ow task d charter checks manifest frozen_by now db = (Ok c, db1)"
    and "1 \<le> vs_check_timeout se" "utc_ok now" "criteria_step\<^sup>*\<^sup>* db1 db2"
  shows "load_acceptance_criteria db2 d = Ok (Some c)
    \<and> \<not> is_ok (fst (freeze_acceptance_criteria lock' se' uuids' w' ow' task' d charter' checks' manifest' frozen_by' now' db2))"
proof -
  from freeze_Ok [OF assms(1)] obtain out uuid where val: "validate_checks checks (vs_max_checks se) (vs_check_timeout se) = Ok out"
    and sec: "freeze_section uuid w ow task d charter out manifest frozen_by now db = Ok (c, db1)" by blast
  from sec have fresh: "\<not> list_ex (\<lambda>r. cv_directive r = d) (vdb_criteria db)"
    and c: "c = \<lparr>cri_id = uuid, cri_directive = d, cri_checks = out, cri_digest = criteria_digest out,
        cri_corpus = corpus_digest manifest, cri_manifest = manifest, cri_frozen_at = now, cri_frozen_by = frozen_by,
        cri_policy = CHARTER_POLICY_REVISION\<rparr>"
    and db1: "vdb_criteria db1 = vdb_criteria db @ [frozen_row uuid w ow task d charter out manifest frozen_by now]"
    by (auto simp: freeze_section_def split: if_split_asm)
  have "checks_of (vs_check_timeout se) [] checks = Ok out"
    using val by (auto simp: validate_checks_def split: if_split_asm)
  then have valid: "list_all (valid_check (vs_check_timeout se)) out" using checks_of_Ok by blast
  then have "list_all (\<lambda>c. ck_timeout c \<noteq> 0) out" using assms(2) by (auto simp: list_all_iff valid_check_def)
  note row = criteria_from_frozen_row [OF valid this assms(3)]
  have "find (\<lambda>r. cv_directive r = d) (vdb_criteria db) = None" using fresh by (auto simp: find_None_iff list_ex_iff)
  then have "find (\<lambda>r. cv_directive r = d) (vdb_criteria db1) = Some (frozen_row uuid w ow task d charter out manifest frozen_by now)"
    by (simp add: db1 find_snoc frozen_row_def)
  from frozen_stays_run [OF assms(4) this]
  have found: "find (\<lambda>r. cv_directive r = d) (vdb_criteria db2) = Some (frozen_row uuid w ow task d charter out manifest frozen_by now)" .
  then have "list_ex (\<lambda>r. cv_directive r = d) (vdb_criteria db2)" using find_in [OF found] by (auto simp: list_ex_iff)
  then have refused: "\<exists>e. freeze_section u w' ow' task' d charter' n' manifest' frozen_by' now' db2 = Err e" for u n'
    by (simp add: freeze_section_def)
  have "\<not> is_ok (fst (freeze_acceptance_criteria lock' se' uuids' w' ow' task' d charter' checks' manifest' frozen_by' now' db2))"
  proof (cases "freeze_acceptance_criteria lock' se' uuids' w' ow' task' d charter' checks' manifest' frozen_by' now' db2")
    case (Pair r db3)
    show ?thesis
    proof (cases r)
      case (Inr c')
      with freeze_Ok Pair refused show ?thesis by (metis Inl_Inr_False)
    qed (simp add: Pair)
  qed
  then show ?thesis by (simp add: load_acceptance_criteria_def found row c)
qed


section \<open>A graded task\<close>

lemma decide_verdict_cases: "oc_verdict (decide_verdict results c corpus runner executing) \<in> {''passed'', ''failed'', ''inconclusive''}"
  by (auto simp: decide_verdict_def Let_def split: sum.split option.split)

lemma own_runner_never_passes: "oc_verdict (decide_verdict results c corpus runner runner) \<noteq> ''passed''"
  by (simp add: decide_verdict_def Let_def)

lemma passed_state: "verification_state_of v = ''passed'' \<Longrightarrow> v \<in> {''passed'', ''failed'', ''inconclusive''} \<Longrightarrow> v = ''passed''"
  by (auto simp: verification_state_of_def VERIFICATION_STATE_FOR_VERDICT_def)

lemma graded_event_simps [simp]:
  "e_kind (graded_event p ref runner d now) = kind_str K_VERIFICATION_RECORDED" "e_payload (graded_event p ref runner d now) = ref"
  by (simp_all add: graded_event_def)

lemma graded_args_simps [simp]:
  "aa_workspace (graded_args w ow s p ref runner d now) = w" "aa_owner (graded_args w ow s p ref runner d now) = ow"
  "aa_task (graded_args w ow s p ref runner d now) = s" "aa_now (graded_args w ow s p ref runner d now) = now"
  "aa_new (graded_args w ow s p ref runner d now) = [graded_event p ref runner d now]"
  "aa_expected (graded_args w ow s p ref runner d now) = None" "aa_retry_once (graded_args w ow s p ref runner d now) = False"
  "aa_invalidation (graded_args w ow s p ref runner d now) = None"
  "run_side_effects (graded_args w ow s p ref runner d now) db = Ok db"
  by (simp_all add: graded_args_def run_side_effects_def)

text \<open>What the fold reads back from the stamped reference.\<close>

lemma graded_ref_read:
  assumes "vid \<noteq> []" "state \<noteq> []"
  shows "\<exists>ref. verification_from_json (PDict (stamp_verification_provenance (graded_ref vid oc state now) p d (Some work))) = Some ref
    \<and> vr_state ref = state \<and> vr_contract ref = work"
  using assms
  by (simp add: verification_from_json_def stamp_verification_provenance_def graded_ref_def Let_def text_of_def or_else_def
      integer_of_def)

lemma folded_verification:
  assumes "e_kind e = kind_str K_VERIFICATION_RECORDED" "verification_from_json (PDict (e_payload e)) = Some ref"
  shows "fs_verification (fold_events t (es @ [e])) = Some ref"
proof -
  have "K_VERIFICATION_RECORDED \<in> set CONTRACT_EXEMPT_KINDS" by (simp add: CONTRACT_EXEMPT_KINDS_def)
  note step = fold_step_exempt [OF assms(1) this]
  show ?thesis by (simp add: fold_events_append step on_verification_recorded_def assms(2))
qed

text \<open>A task whose last event is a grading is done only on a passing one, under its own contract.\<close>

lemma done_after_grading:
  assumes "sorted_wrt (<) (map e_seq (es @ [e]))" "int (length (es @ [e])) \<le> m"
    and "e_kind e = kind_str K_VERIFICATION_RECORDED" "verification_from_json (PDict (e_payload e)) = Some ref"
    and p: "p = fr_projection (fold_task_state (es @ [e]) t w ow s r m)" and "pj_status p = S_DONE"
  shows "vr_state ref = ''passed'' \<and> vr_contract ref = pj_contract p"
proof -
  let ?s = "fold_events t (es @ [e])"
  have p': "p = projection_of_state t w ow s r ?s"
    unfolding p fold_projection fold_window_ordered [OF assms(1,2)] by simp
  have "verification_is_current (inputs_of_state ?s) \<and> passed (si_latest_verification (inputs_of_state ?s))"
    using assms(6) by (simp add: p' derive_status_DONE)
  moreover have "fs_verification ?s = Some ref" by (rule folded_verification [OF assms(3,4)])
  ultimately show ?thesis
    by (auto simp: p' verification_is_current_def passed_def inputs_of_state_def VERIFICATION_PASS_STATES_def split: option.splits if_splits)
qed

lemma status_done [simp]: "status_str s = ''done'' \<longleftrightarrow> s = S_DONE"
  by (cases s) simp_all

lemma written_contract [simp]: "tk_contract (write_row wr h n r) = pj_contract (tw_projection wr)"
  by (simp add: write_row_def Let_def)


text \<open>The write of a grading, on the store its section runs on.\<close>

lemma graded_write:
  assumes ok: "apply_task_state_events (\<lambda>_ d. d) (graded_args w ow t p ref runner d now) db = Ok (wr, db')"
    and wf: "store_wf db" and find: "find_task db w ow t = Some r"
    and "list_all readable (rows_of db (tk_id r))" "length (rows_of db (tk_id r)) \<le> 1996"
    and ref: "verification_from_json (PDict ref) = Some v"
  shows "\<exists>r'. find_task db' w ow t = Some r'
    \<and> (tk_status r' = ''done'' \<longrightarrow> vr_state v = ''passed'' \<and> vr_contract v = tk_contract r')"
proof -
  let ?a = "graded_args w ow t p ref runner d now"
  have find': "find_task db (aa_workspace ?a) (aa_owner ?a) (aa_task ?a) = Some r" using find by simp
  have plain: "aa_new ?a = [graded_event p ref runner d now]" "aa_expected ?a = None" "\<not> aa_retry_once ?a" "aa_invalidation ?a = None"
    by simp_all
  note lw = lone_write [OF ok plain wf find' assms(4,5)]
  have "verification_from_json (PDict (e_payload (next_event r (graded_event p ref runner d now)))) = Some v" using ref by simp
  from done_after_grading [OF lw(4,5) _ this lw(1)] lw(2) show ?thesis by auto
qed

text \<open>What a grading that returns did.\<close>

lemma record_section_Ok:
  assumes "record_section se ids w user d ev runner now db = Ok ((oc, row, state), db')" "directive_row_of db w user d = Some sd"
  shows "\<exists>c executing db1. oc = decide_verdict (ev_results ev) c (ev_corpus ev) runner executing
    \<and> vo_runner row = runner \<and> vo_executing row = executing \<and> state = verification_state_of (oc_verdict oc)
    \<and> vdb_tasks db1 = vdb_tasks db
    \<and> project_graded_verification se (snd ids) w user (sd_session sd) d (fst ids) oc state runner now db1 = Ok db'"
proof -
  let ?ex = "case dr_executor (sd_row sd) of None \<Rightarrow> [] | Some x \<Rightarrow> x"
  obtain c where c: "map_error BadCriteria (load_acceptance_criteria db d) = Ok (Some c)"
    using assms by (auto simp: record_section_def res_bind_Ok_iff split: if_split_asm option.splits)
  let ?db = "db\<lparr>vdb_results := vdb_results db @ [row], vdb_states := dict_set d state (vdb_states db)\<rparr>"
  have "oc = decide_verdict (ev_results ev) c (ev_corpus ev) runner ?ex" "vo_runner row = runner" "vo_executing row = ?ex"
    "state = verification_state_of (oc_verdict oc)"
    "project_graded_verification se (snd ids) w user (sd_session sd) d (fst ids) oc state runner now ?db = Ok db'"
    using assms by (auto simp: record_section_def res_bind_Ok_iff Let_def graded_row_def c split: if_split_asm simp del: option.case_eq_if)
  then show ?thesis by (intro exI conjI) simp_all
qed

text \<open>
  C20. A graded run completes a task only on evidence (verification_store.py, record_verification): when a verdict was
  recorded, whatever it was, the task it projects into reads done only if that verdict is passed, the runner was
  not the identity that executed the run, and the work was done under the contract the task is under now.
\<close>

theorem done_needs_graded_evidence:
  assumes "record_verification lock se ids w user d ev runner now db = (Ok (oc, row, state), db')"
    and "directive_row_of db w user d = Some sd" "sd_session sd = t" "t \<noteq> []" "vs_task_state se" "\<And>n. fst (ids n) \<noteq> []"
    and "store_wf (vdb_tasks db)" "find_task (vdb_tasks db) w user t = Some r"
    and "list_all readable (rows_of (vdb_tasks db) (tk_id r))" "length (rows_of (vdb_tasks db) (tk_id r)) \<le> 1996"
  shows "\<exists>r'. find_task (vdb_tasks db') w user t = Some r'
    \<and> (tk_status r' = ''done'' \<longrightarrow> oc_verdict oc = ''passed'' \<and> vo_runner row \<noteq> vo_executing row
        \<and> directive_contract_revision (vdb_tasks db) w user t d = tk_contract r')"
proof -
  obtain n where "record_section se (ids n) w user d ev runner now db = Ok ((oc, row, state), db')"
    using assms(1) run_cas_section_atomic
    by (fastforce simp: record_verification_def map_error_Ok_iff split: if_splits option.splits)
  from record_section_Ok [OF this assms(2)] obtain c executing db1
    where oc: "oc = decide_verdict (ev_results ev) c (ev_corpus ev) runner executing"
    and row: "vo_runner row = runner" "vo_executing row = executing" and state: "state = verification_state_of (oc_verdict oc)"
    and db1: "vdb_tasks db1 = vdb_tasks db"
    and proj: "project_graded_verification se (snd (ids n)) w user t d (fst (ids n)) oc state runner now db1 = Ok db'"
    unfolding assms(3) by blast
  let ?p = "projection_from_row r"
  let ?ref = "stamp_verification_provenance (graded_ref (fst (ids n)) oc state now) ?p (Some d)
      (Some (directive_contract_revision (vdb_tasks db) w user t d))"
  from proj assms(4,5,8) obtain wr where
    "apply_task_state_events (\<lambda>_ d. d) (graded_args w user t ?p ?ref runner d now) (vdb_tasks db) = Ok (wr, vdb_tasks db')"
    by (auto simp: project_graded_verification_def Let_def res_bind_Ok_iff map_error_Ok_iff load_task_state_def db1
        insert_task_verification_def)
  note after = graded_write [OF this assms(7-10)]
  have verdict: "oc_verdict oc \<in> {''passed'', ''failed'', ''inconclusive''}" unfolding oc by (rule decide_verdict_cases)
  then have "state \<noteq> []" by (auto simp: state verification_state_of_def VERIFICATION_STATE_FOR_VERDICT_def)
  from graded_ref_read [OF assms(6) this] obtain v where v: "verification_from_json (PDict ?ref) = Some v" "vr_state v = state"
    "vr_contract v = directive_contract_revision (vdb_tasks db) w user t d"
    by blast
  have "runner \<noteq> executing" if "oc_verdict oc = ''passed''" using that own_runner_never_passes unfolding oc by metis
  with after [OF v(1)] v(2,3) show ?thesis
    using passed_state [OF _ verdict] by (auto simp: row state)
qed


section \<open>A graded run to try\<close>

definition sample_settings :: verification_settings where
  "sample_settings = \<lparr>vs_enabled = True, vs_runner = ''verifier'', vs_task_state = True, vs_reviewer = False, vs_max_checks = 20,
     vs_check_timeout = 900\<rparr>"

definition finished_directive :: session_directive where
  "finished_directive = sample_directive\<lparr>sd_session := ''T'', sd_row := (sd_row sample_directive)\<lparr>dr_state := D_SUCCEEDED,
     dr_executor := Some ''agent''\<rparr>\<rparr>"

definition ungraded :: verification_db where
  "ungraded = \<lparr>vdb_tasks = sample_store\<lparr>tdb_directives := [finished_directive]\<rparr>, vdb_criteria = [], vdb_results = [],
     vdb_history = [], vdb_states = []\<rparr>"

abbreviation sample_manifest :: "(pystr \<times> pystr) list" where
  "sample_manifest \<equiv> [(''pyproject.toml'', ''a'')]"

definition frozen_criteria :: acceptance_criteria where
  "frozen_criteria = \<lparr>cri_id = ''k'', cri_directive = ''d'', cri_checks = [sample_check], cri_digest = criteria_digest [sample_check],
     cri_corpus = corpus_digest sample_manifest, cri_manifest = sample_manifest, cri_frozen_at = Aware 0 0,
     cri_frozen_by = ''owner'', cri_policy = CHARTER_POLICY_REVISION\<rparr>"

definition frozen_db :: verification_db where
  "frozen_db = ungraded\<lparr>vdb_criteria :=
     [frozen_row ''k'' ''W'' ''O'' (Some ''T'') ''d'' None [sample_check] sample_manifest ''owner'' (Aware 0 0)]\<rparr>"

lemma sample_validated: "validate_checks [sample_check] 20 900 = Ok [sample_check]"
  by code_simp

lemma sample_freeze: "freeze_acceptance_criteria (\<lambda>_. None) sample_settings (\<lambda>_. ''k'') ''W'' ''O'' (Some ''T'') ''d'' None [sample_check] sample_manifest
    ''owner'' (Aware 0 0) ungraded = (Ok frozen_criteria, frozen_db)"
  by (simp add: freeze_acceptance_criteria_def sample_settings_def sample_validated DECIDING_FILE_PATHS_def ungraded_def
      freeze_section_def run_cas_section_def       frozen_criteria_def frozen_db_def)

theorem frozen_criteria_are_final_witness:
  "load_acceptance_criteria (frozen_db\<lparr>vdb_tasks := sample_written\<rparr>) ''d'' = Ok (Some frozen_criteria)"
proof -
  have "criteria_step\<^sup>*\<^sup>* frozen_db (frozen_db\<lparr>vdb_tasks := sample_written\<rparr>)" by (intro r_into_rtranclp criteria_step.elsewhere)
  from frozen_criteria_are_final [OF sample_freeze _ _ this] show ?thesis by (simp add: sample_settings_def utc_ok_def in_range_def MIN_T_def MAX_T_def)
qed


definition failing_evidence :: evidence where
  "failing_evidence = \<lparr>ev_directive = ''d'', ev_results = [sample_result 1], ev_corpus = corpus_digest sample_manifest,
     ev_manifest = sample_manifest, ev_platform = ''linux'', ev_commit = None, ev_tree = None, ev_reviewer = None\<rparr>"

lemma frozen_tasks: "vdb_tasks frozen_db = sample_store\<lparr>tdb_directives := [finished_directive]\<rparr>"
  by (simp add: frozen_db_def ungraded_def)

lemma frozen_find: "find_task (vdb_tasks frozen_db) ''W'' ''O'' ''T'' = Some sample_task"
  using sample_find by (simp add: find_task_def frozen_tasks)

lemma frozen_wf: "store_wf (vdb_tasks frozen_db)"
  by (simp add: store_wf_def frozen_tasks sample_store_def gapless_def rows_of_def sample_task_def blank_task_row_def)

lemma sample_graded_write:
  "is_ok (apply_task_state_events (\<lambda>_ d. d) (graded_args ''W'' ''O'' ''T'' p ref runner ''d'' now) (vdb_tasks frozen_db))"
proof -
  let ?a = "graded_args ''W'' ''O'' ''T'' p ref runner ''d'' now"
  have "\<exists>v. cas_attempt ?a sample_task l (vdb_tasks frozen_db) = Ok (Inr v)" for l
    by (simp add: cas_attempt_def frozen_tasks sample_store_def stamp_events_def Let_def cas_update_def)
  then obtain v where "cas_attempt ?a sample_task (loaded (vdb_tasks frozen_db) sample_task ?a) (vdb_tasks frozen_db) = Ok (Inr v)" by blast
  then show ?thesis
    by (cases v) (simp add: apply_task_state_events_def apply_with_def frozen_find is_ok_def loaded_def)
qed

lemma frozen_row_directive [simp]: "cv_directive (frozen_row uuid w ow task d charter checks manifest frozen_by now) = d"
  by (simp add: frozen_row_def)

text \<open>The history row is written whatever the reference says.\<close>

lemma insert_graded:
  "\<exists>h. insert_task_verification uuid w ow t by_whom (stamp_verification_provenance (graded_ref vid oc state stamp) p d (Some c)) now db
    = Ok (db\<lparr>vdb_history := h\<rparr>)"
proof -
  let ?ref = "stamp_verification_provenance (graded_ref vid oc state stamp) p d (Some c)"
  have ids: "py_get ?ref ''evidence_event_ids'' = PList []"
    by (simp add: stamp_verification_provenance_def graded_ref_def Let_def)
  have contract: "int_or_dflt (py_get ?ref ''contract_revision'') 0 = Ok c"
    by (simp add: stamp_contract int_or_dflt_def py_int_of_def truthy_def)
  show ?thesis by (simp add: insert_task_verification_def evidence_ids_def ids contract Let_def truthy_def) blast
qed

lemma sample_load: "load_acceptance_criteria frozen_db ''d'' = Ok (Some frozen_criteria)"
proof -
  have "list_all (valid_check 900) [sample_check]" "list_all (\<lambda>c. ck_timeout c \<noteq> 0) [sample_check]" "utc_ok (Aware 0 0)"
    by (simp_all add: valid_check_def sample_check_def starts_with_def py_split_on_def utc_ok_def in_range_def MIN_T_def MAX_T_def)
  from criteria_from_frozen_row [OF this] show ?thesis
    by (simp add: load_acceptance_criteria_def frozen_db_def frozen_criteria_def)
qed

lemma failing_verdict: "oc_verdict (decide_verdict (ev_results failing_evidence) frozen_criteria (ev_corpus failing_evidence) ''verifier'' ''agent'') = ''failed''"
  by (simp add: failing_evidence_def frozen_criteria_def decide_verdict_def Let_def sample_check_def sample_result_def check_by_id_def unexpected_exit_def)


lemma sample_grading: "\<exists>oc row state db'. oc_verdict oc = ''failed''
  \<and> record_verification (\<lambda>_. None) sample_settings (\<lambda>_. (''v'', ''h'')) ''W'' ''O'' ''d'' failing_evidence ''verifier'' (Aware 9 0) frozen_db
      = (Ok (oc, row, state), db')"
proof -
  let ?oc = "decide_verdict (ev_results failing_evidence) frozen_criteria (ev_corpus failing_evidence) ''verifier'' ''agent''"
  have d: "directive_row_of frozen_db ''W'' ''O'' ''d'' = Some finished_directive"
    by (simp add: directive_row_of_def frozen_tasks finished_directive_def sample_directive_def)
  have f: "sd_session finished_directive = ''T''" "dr_executor (sd_row finished_directive) = Some ''agent''"
    "dr_terminal (sd_row finished_directive)"
    by (simp_all add: finished_directive_def TERMINAL_STATES_def)
  have "is_ok (project_graded_verification sample_settings ''h'' ''W'' ''O'' ''T'' ''d'' ''v'' ?oc state ''verifier'' (Aware 9 0)
      (frozen_db\<lparr>vdb_results := x, vdb_states := y\<rparr>))" for state x y
  proof -
    let ?p = "projection_from_row sample_task"
    let ?ref = "stamp_verification_provenance (graded_ref ''v'' ?oc state (Aware 9 0)) ?p (Some ''d'')
        (Some (directive_contract_revision (vdb_tasks frozen_db) ''W'' ''O'' ''T'' ''d''))"
    obtain wr tasks where "apply_task_state_events (\<lambda>_ d. d) (graded_args ''W'' ''O'' ''T'' ?p ?ref ''verifier'' ''d'' (Aware 9 0))
        (vdb_tasks frozen_db) = Ok (wr, tasks)"
      using sample_graded_write [of ?p ?ref] by (force simp: is_ok_def split: sum.splits)
    moreover obtain h where "insert_task_verification ''h'' ''W'' ''O'' ''T'' ''verifier'' ?ref (Aware 9 0)
        (frozen_db\<lparr>vdb_results := x, vdb_states := y\<rparr>) = Ok (frozen_db\<lparr>vdb_results := x, vdb_states := y, vdb_history := h\<rparr>)"
      using insert_graded [of "''h''" "''W''" "''O''" "''T''" "''verifier''" "''v''" ?oc state "Aware 9 0" ?p "Some ''d''"] by fastforce
    ultimately show ?thesis
      by (simp add: project_graded_verification_def sample_settings_def Let_def load_task_state_def frozen_find)
  qed
  then have ok: "\<exists>db'. project_graded_verification sample_settings ''h'' ''W'' ''O'' ''T'' ''d'' ''v'' ?oc state ''verifier'' (Aware 9 0)
      (frozen_db\<lparr>vdb_results := x, vdb_states := y\<rparr>) = Ok db'" for state x y
    unfolding is_ok_def by (metis (no_types, lifting) sum.case(1) sumE)
  let ?row = "graded_row sample_settings ''v'' ''W'' ''O'' ''d'' failing_evidence frozen_criteria ?oc ''verifier'' ''agent'' (Aware 9 0)"
  let ?state = "verification_state_of (oc_verdict ?oc)"
  obtain db' where "project_graded_verification sample_settings ''h'' ''W'' ''O'' ''T'' ''d'' ''v'' ?oc ?state ''verifier'' (Aware 9 0)
      (frozen_db\<lparr>vdb_results := vdb_results frozen_db @ [?row], vdb_states := dict_set ''d'' ?state (vdb_states frozen_db)\<rparr>) = Ok db'"
    using ok by blast
  then have "record_section sample_settings (''v'', ''h'') ''W'' ''O'' ''d'' failing_evidence ''verifier'' (Aware 9 0) frozen_db
      = Ok ((?oc, ?row, ?state), db')"
    by (simp add: record_section_def d f sample_load Let_def)
  moreover have "vs_enabled sample_settings" "vs_runner sample_settings = ''verifier''" by (simp_all add: sample_settings_def)
  ultimately have "record_verification (\<lambda>_. None) sample_settings (\<lambda>_. (''v'', ''h'')) ''W'' ''O'' ''d'' failing_evidence ''verifier'' (Aware 9 0)
      frozen_db = (Ok (?oc, ?row, ?state), db')"
    by (simp add: record_verification_def run_cas_section_def)
  with failing_verdict show ?thesis by blast
qed

theorem done_needs_graded_evidence_witness:
  "\<exists>row state db' r'. find_task (vdb_tasks db') ''W'' ''O'' ''T'' = Some r' \<and> tk_status r' \<noteq> ''done''
    \<and> snd (record_verification (\<lambda>_. None) sample_settings (\<lambda>_. (''v'', ''h'')) ''W'' ''O'' ''d'' failing_evidence ''verifier'' (Aware 9 0)
        frozen_db) = db'"
proof -
  from sample_grading obtain oc row state db' where g: "oc_verdict oc = ''failed''"
    "record_verification (\<lambda>_. None) sample_settings (\<lambda>_. (''v'', ''h'')) ''W'' ''O'' ''d'' failing_evidence ''verifier'' (Aware 9 0) frozen_db
      = (Ok (oc, row, state), db')" by blast
  have d: "directive_row_of frozen_db ''W'' ''O'' ''d'' = Some finished_directive" "sd_session finished_directive = ''T''"
    by (simp_all add: directive_row_of_def frozen_tasks finished_directive_def sample_directive_def)
  have "rows_of (vdb_tasks frozen_db) (tk_id sample_task) = []" "vs_task_state sample_settings"
    by (simp_all add: frozen_tasks sample_store_def rows_of_def sample_settings_def)
  with done_needs_graded_evidence [OF g(2) d _ _ _ frozen_wf frozen_find] g show ?thesis by auto
qed

end
