(* ===== verification/Spec2Isabelle.thy ===== *)
theory Spec2Isabelle
  imports Capture_Spool_Facts Charter_Store_Facts Deadline_Facts Dispatch_Facts Full_Sweep Full_Window Planning_Facts Reconcile_Facts Report_Facts Scope_Facts Task_Cancel Verification_Facts
begin

text \<open>
  \<^bold>\<open>The durable core of the open timeline engine.\<close>

  The engine lets a coding agent work on a user's task under standing authority.  What must not go wrong is kept
  in shared pure modules (\<open>src/shared/tce_shared\<close>) and in stores over SQLite (\<open>src/services/tce_lite_api/tce_lite_api\<close>):
  a task has an event log and a row that caches its fold; a task's plan is carried out as directives, which a worker
  claims with a lease and reports; a worker's actions on the world are journalled as effects before they run; a
  charter grants the authority, and dispatches spend its budget; acceptance checks are frozen before the work
  and graded after it; and every turn has one deadline.  This development models these parts and how they
  call each other.

  \<^bold>\<open>Theories and sources.\<close>
  \<^item> Python: \<open>Tce_Prelude\<close> (results, strings, dictionaries in insertion order, stable sorting), \<open>Tce_Time\<close> (datetimes,
    ISO text), \<open>Tce_Hash\<close> (UTF-8, SHA-1 and SHA-256 on words, UUID 5), \<open>Task_Json\<close> (JSON values and the
    total coercions of task_state.py).
  \<^item> task_state.py: \<open>Task_Types\<close> (the data), \<open>Task_Codec\<close> (JSON codecs), \<open>Task_Status\<close> (root_status, derive_status,
    verification provenance), \<open>Task_Fold\<close> (fold_task_state, its window and its handlers), \<open>Task_Plan\<close> (objectives,
    plans, constraints and decisions as events); plan_decomposition.py: \<open>Plan_Steps\<close>.  Facts: \<open>Task_Fold_Facts\<close>.
  \<^item> execution_transitions.py and the UPDATE statements of store.py that move a directive: \<open>Directive_Transitions\<close>.
  \<^item> effect_journal.py: \<open>Effect_Journal\<close>; effect_store.py: \<open>Effect_Store\<close>.
  \<^item> task_state_store.py: \<open>Lite_Db\<close> (text columns, the write-locked section run_cas_section), \<open>Task_Store\<close>; facts in
    \<open>Task_Store_Facts\<close>, \<open>Task_Store_Rebuild\<close> (the row is the fold of its log), \<open>Task_Cancel\<close> (cancel_task).
  \<^item> charter.py, behavior_control.py: \<open>Charter\<close> (the resolved charter and its tests), \<open>Charter_Build\<close> (rows, payloads,
    narrowings), \<open>Charter_Facts\<close>; budget.py: \<open>Budget\<close>; charter_store.py: \<open>Charter_Store\<close>, \<open>Charter_Store_Facts\<close>.
  \<^item> reconcile.py: \<open>Reconcile\<close>, \<open>Reconcile_Facts\<close>; dispatch_store.py: \<open>Dispatch_Store\<close>, \<open>Dispatch_Facts\<close>.
  \<^item> verification.py: \<open>Acceptance\<close>, \<open>Acceptance_Facts\<close>; verification_store.py: \<open>Verification_Store\<close>, \<open>Verification_Facts\<close>.
  \<^item> The Full backend's effect_store.py and reconcile.py (\<open>src/services/tce_api/tce_api\<close>): \<open>Full_Effects\<close>; facts in
    \<open>Full_Effects_Facts\<close> (agreement with Lite, the unfenced INSERT), \<open>Full_Window\<close> (the guard's window), \<open>Full_Sweep\<close>.
  \<^item> scope.py: \<open>Scope\<close> (the scope, its four \<open>WHERE\<close> clauses), \<open>Scope_Facts\<close> (clauses as conditions, their meaning).
  \<^item> planning_store.py of both backends and the worker's failure ladder: \<open>Planning_Jobs\<close>, \<open>Planning_Facts\<close>; the scope
    a job carries (plan_rows.py): \<open>Plan_Rows\<close>.
  \<^item> Execution permits (autonomy_goals.py, the request and resolution handlers in store.py of Lite and main.py of Full):
    \<open>Permit_Gate\<close> (risk tier, ladder, charter clause), \<open>Permit_Store\<close> (the handlers, the other writers of the table);
    facts in \<open>Permit_Gate_Facts\<close>, \<open>Permit_Store_Facts\<close>.  claim_execution of store.py: \<open>Claim_Execution\<close>, \<open>Claim_Facts\<close>.
  \<^item> report_execution of store.py: \<open>Report_Execution\<close>, \<open>Report_Facts\<close>; handoff.py (the milestone of a report) and
    failure_classifier.py: \<open>Handoff\<close>.
  \<^item> continuity_store.py, the completion outbox: \<open>Outbox\<close>, \<open>Outbox_Facts\<close>.  The dependency validator of store.py and
    main.py: \<open>Dependency_Plan\<close>.
  \<^item> capture_spool.py and the hook that works on it (\<open>src/scripts/tce_capture_input.py\<close>): \<open>Capture_Spool\<close>, \<open>Capture_Spool_Facts\<close>.
  \<^item> deadline.py: \<open>Deadline\<close>; deadline_sqlite.py and the guarded reads of store.py: \<open>Deadline_Sqlite\<close>, \<open>Deadline_Facts\<close>.

  \<^bold>\<open>How the code is represented.\<close>  A dataclass is a record and an enumeration a datatype with its source's members; a
  definition has the name of its function.  A Python integer is an \<open>int\<close>, a word only inside the hashes; a dictionary
  is an association list, as its order is part of what the code computes; an exception is the left side of a
  sum.  A table is the list of its rows in the order of insertion, a row a record with a field for each column
  the code reads or writes; a JSON column is a value of type \<open>py\<close>, a timestamp column its text.  An uuid4, the time
  and the settings are arguments.  A write-locked section is a function of the database: it commits or
  changes nothing, and may be run twice.  What other connections commit between two steps of a call that holds no lock
  is a function \<open>others\<close> in \<open>Task_Store\<close>, \<open>Effect_Store\<close>, \<open>Reconcile\<close>, \<open>Full_Effects\<close>, \<open>Permit_Store\<close>, \<open>Outbox\<close> and
  \<open>Report_Execution\<close>; a run of committed sections is a step relation (\<open>store_run\<close>, \<open>directive_step\<close>, \<open>journal_step\<close>,
  \<open>charter_step\<close>, \<open>queue_step\<close>, \<open>dispatch_step\<close>, \<open>criteria_step\<close>, \<open>permit_run\<close>, \<open>handoff_run\<close>, \<open>spool_run\<close>) and its closure.
  A relation has a step for every statement of the code on its table, retention and boot sweeps included, and a step may decide
  on rows read at any earlier moment; \<open>permit_run\<close> and \<open>spool_run\<close> also keep the log of what the handlers were called
  with, which their properties refer to.  The monotonic clock is a sequence of exact readings, arbitrarily far apart.

  \<^bold>\<open>What is shown.\<close>
  \<^item> The fold: it depends on the set of events alone, a task is done exactly when the status table's
    positives hold, evidence for another contract never completes it, a block is not laundered, the cancel
    epoch and the contract revision only grow; truncation by the window loses the count of contracts.
  \<^item> The store: every interleaving keeps the logs gapless and the row equal to the fold of its log; an optimistic
    write is atomic; a cancellation leaves nothing live.
  \<^item> Directives and effects: terminal states are final (only a boot sweep still reaches such a row, and only abandons
    it), one claim wins, a stale lease is fenced off, an irreversible effect needs a system witness, the unique indexes
    keep the journal's keys under racing opens; a boot sweep abandons what is stale under the lease it read, among any
    other writers, and a reap accounts for every effect and pauses what may not be undone.
  \<^item> Authority and money: narrowing only shrinks, at most one charter is active, revocation is final, nothing
    mutating passes without a live grant; in every interleaving reservations and dispatches stay within the caps.
  \<^item> Permits and claims: a permit that allows was allowed by the ladder, for the profile, role and charter of its own
    request, or confirmed by an operator, a decided one stays decided, a charter only tightens; a claim rests on an
    open channel, a charter and a permit that holds, and a refused one changes no table but the audit log.
  \<^item> Reports: an accepted report rests on its lease and permit, moves its own directive and adds at most one retry,
    within both limits; a repeated one is replayed, without what only the first answer tells; the failure classes tool error and unknown cannot be reached through one.
  \<^item> Completions: each is handed off at most once, and once when its row says so until retention deletes the record, none is
    lost, a drain without faults delivers what is due; a dependency plan is accepted exactly when it is well-formed and acyclic.
  \<^item> Verification: criteria once frozen are what is graded, a verdict passes exactly on full evidence by others, and
    a graded task is done only on such a verdict under its own contract.
  \<^item> The Full backend: undisturbed it resolves as Lite does and its boot sweep settles exactly its batch; an opening is
    not fenced at its INSERT, and its pause guard decides as the table does up to 200 unknown effects.
  \<^item> Scope: on both dialects a predicate is the rendering of the same conditions, strict tags admit what
    normalises to the caller, and a narrowing narrows; but the two engines trim and lower otherwise than Python, which hides or mixes owners.
  \<^item> Planning: attempts stay within their bound and a lease is exclusive until its end, apart from
    cancellations and changes of objective; in Full a failed job waits for
    ever and a crashed one for a sweep that nothing calls, in Lite every job is done when it is written.
  \<^item> The capture spool: no capture disappears without a line in gaps.jsonl, which is cut only to its last
    lines, and the bound holds; but six dead entries block the others, and
    a loss can go unnoticed by the user and the server.
  \<^item> Deadlines: no child outlives its parent, an interrupt comes in time, retries end, a read cleans up.

  The locales are the interfaces, each interpreted on the code's own definitions: \<open>codec\<close> and \<open>record_codec\<close> (a round
  trip on well-formed values, and its lift to lists), \<open>fold_invariant\<close> and \<open>fold_monotone\<close> (what every handler of the fold
  keeps, and what only grows), \<open>lifecycle\<close> (a state machine with final states), \<open>invariant_step\<close> (what every committed
  section keeps) and \<open>shrinking\<close> (an operation that, when it succeeds, yields something smaller).

  \<^bold>\<open>Bounds.\<close>  The fold reads at most 2000 events (MAX_TASK_STATE_EVENTS_PER_FOLD); the query keeps 1997 and the
  three pinned ones, so statements on a row as the fold of its log ask for a log of at most 1997 events, or 1996 before
  a write.  No definition uses fuel: loops are structural recursions or have a termination proof.

  \<^bold>\<open>Not modelled.\<close>  The other stores of the Full backend, twins of the Lite ones in SQL over PostgreSQL, have not been
  reached.  HTTP routes (other than the permit handlers of Full and its discarding of planning jobs), pydantic models, prompt text, embedding search and
  scoring in floating point, model providers, the supervisor's processes and sandboxes, background jobs and
  capture plugins are outside.  Of task_state.py the Markdown view is left out, of a response the fields
  that only repeat a row.  The learning and pilot stores have not been reached.
\<close>

end
